(* ===== verification/Prelude.thy ===== *)
theory Prelude
  imports Main
    "HOL-Library.Word"
    "HOL-Library.State_Monad"
    "HOL-Library.Char_ord"
    "HOL-Library.List_Lexorder"
    "HOL-Library.Product_Lexorder"
begin

text \<open>
  Shared vocabulary of the development: the errors of \<^verbatim>\<open>pkg/errors/errors.go\<close>, UUIDs and
  times, the parts of the Go standard library the sources use on strings and JSON, the
  calling convention of a Go function that returns a value and an error, and the list
  operations that the SQL statements of the repositories are made of.
\<close>

named_theorems keeps_intros \<open>rules that show that an action keeps a predicate of the state\<close>
named_theorems run_simps \<open>equations that run an action from a given state\<close>

section \<open>Base types\<close>

text \<open>
  \<^verbatim>\<open>uuid.UUID\<close> is 16 bytes; \<^verbatim>\<open>uuid.Nil\<close> is all zeros. Times and durations are
  nanosecond counts, as in Go's package \<^verbatim>\<open>time\<close>. The values \<open>'a option\<close> model both
  Go's \<^verbatim>\<open>sql.NullX\<close> pairs (\<open>None\<close> for \<^verbatim>\<open>Valid = false\<close>) and nil-able pointers.
\<close>

type_synonym uuid = "128 word"
type_synonym bytes = "8 word list"
type_synonym time = int
type_synonym duration = int

text \<open>The bits of a \<^verbatim>\<open>float64\<close>, with zero for the number zero\<close>

type_synonym float64 = "64 word"

abbreviation uuid_Nil :: uuid where "uuid_Nil \<equiv> 0"

abbreviation Second :: duration where "Second \<equiv> 1000000000"
abbreviation Minute :: duration where "Minute \<equiv> 60 * 1000000000"
abbreviation Hour :: duration where "Hour \<equiv> 3600 * 1000000000"

section \<open>Errors\<close>

text \<open>
  What the database driver can report for one statement. \<open>NoRows\<close> is \<^verbatim>\<open>sql.ErrNoRows\<close>,
  \<open>TxDone\<close> is \<^verbatim>\<open>sql.ErrTxDone\<close>, \<open>BadParameters\<close> a statement whose placeholders and arguments do not fit
  each other or are too many; the others are PostgreSQL's error classes (23505, 23503,
  22P02, 2201W/2201X, 42P01, 25P02), and \<open>DriverError\<close> stands for every failure that does not
  come from the data (lost connection, cancelled context).
\<close>

datatype sql_error =
    NoRows
  | UniqueViolation
  | ForeignKeyViolation
  | InvalidText
  | InvalidRowCount
  | UndefinedTable
  | TxAborted
  | TxDone
  | BadParameters
  | DriverError nat

text \<open>
  The sentinels of \<^verbatim>\<open>pkg/errors/errors.go\<close>, a database error passed on unchanged, an
  error made on the spot with \<^verbatim>\<open>errors.New\<close> or \<^verbatim>\<open>fmt.Errorf\<close>, an error wrapped with \<^verbatim>\<open>%w\<close>
  under a text, the wrapped error that \<^verbatim>\<open>WithTx\<close> makes of a failed rollback, and a panic.
\<close>

datatype error =
    ErrInvalidTransition
  | ErrUnauthorized
  | ErrForbidden
  | ErrNotFound
  | ErrConflict
  | ErrInvalidInput
  | ErrTooLarge
  | ErrRateLimited
  | ErrQueueFull
  | ErrServiceUnavailable
  | ErrAlreadyExists
  | ErrNotUploaded
  | SqlError sql_error
  | RollbackError error sql_error
  | OtherError string
  | WrappedError string error
  | Panic string

section \<open>Strings and JSON\<close>

text \<open>
  \<^verbatim>\<open>strings.TrimSpace\<close> on ASCII text: the white space of \<^verbatim>\<open>unicode.IsSpace\<close> below 128.
\<close>

definition is_space :: "char \<Rightarrow> bool" where
  "is_space c \<longleftrightarrow> of_char c \<in> {9, 10, 11, 12, 13, 32 :: nat}"

definition TrimSpace :: "string \<Rightarrow> string" where
  "TrimSpace s = rev (dropWhile is_space (rev (dropWhile is_space s)))"

text \<open>
  \<^verbatim>\<open>strings.ToLower\<close> on ASCII text, which is also how PostgreSQL's CITEXT columns compare.
\<close>

definition lower_char :: "char \<Rightarrow> char" where
  "lower_char c = (let n = of_char c :: nat in if 65 \<le> n \<and> n \<le> 90 then char_of (n + 32) else c)"

definition ToLower :: "string \<Rightarrow> string" where
  "ToLower s = map lower_char s"

text \<open>Decimal text of an integer (\<^verbatim>\<open>strconv.Itoa\<close>, \<open>%d\<close>).\<close>

definition digit :: "nat \<Rightarrow> char" where
  "digit n = char_of (48 + n)"

fun nat_text :: "nat \<Rightarrow> string" where
  "nat_text n = (if n < 10 then [digit n] else nat_text (n div 10) @ [digit (n mod 10)])"

declare nat_text.simps [simp del]

definition Itoa :: "int \<Rightarrow> string" where
  "Itoa i = (if i < 0 then ''-'' @ nat_text (nat (- i)) else nat_text (nat i))"

text \<open>Digits and the number they are\<close>

definition is_digit :: "char \<Rightarrow> bool" where
  "is_digit c \<longleftrightarrow> 48 \<le> (of_char c :: nat) \<and> (of_char c :: nat) \<le> 57"

definition digits_value :: "string \<Rightarrow> int" where
  "digits_value s = foldl (\<lambda>n c. n * 10 + (of_char c - 48)) 0 s"

lemma digit_value: "n < 10 \<Longrightarrow> is_digit (digit n) \<and> (of_char (digit n) :: int) = 48 + int n"
  using of_nat_of_char [of "digit n", where 'a = int, symmetric] by (simp add: is_digit_def digit_def)

lemma nat_text_digits: "nat_text n \<noteq> [] \<and> list_all is_digit (nat_text n) \<and> digits_value (nat_text n) = int n"
proof (induction n rule: nat_text.induct)
  case (1 n)
  show ?case
  proof (cases "n < 10")
    case True
    then show ?thesis using digit_value [OF True] by (simp add: nat_text.simps [of n] digits_value_def)
  next
    case False
    with 1 have "list_all is_digit (nat_text (n div 10))" "digits_value (nat_text (n div 10)) = int (n div 10)" by auto
    moreover have "is_digit (digit (n mod 10))" "(of_char (digit (n mod 10)) :: int) = 48 + int (n mod 10)"
      using digit_value [of "n mod 10"] by simp_all
    moreover have "int (n div 10) * 10 + int (n mod 10) = int n" by presburger
    ultimately show ?thesis using False by (simp add: nat_text.simps [of n] digits_value_def)
  qed
qed

text \<open>The canonical text of a UUID: 32 lower-case hexadecimal digits grouped 8-4-4-4-12.\<close>

definition hexdigit :: "nat \<Rightarrow> char" where
  "hexdigit n = char_of (if n < 10 then 48 + n else 87 + n)"

fun hex_text :: "nat \<Rightarrow> nat \<Rightarrow> string" where
  "hex_text 0 n = []"
| "hex_text (Suc k) n = hex_text k (n div 16) @ [hexdigit (n mod 16)]"

definition uuid_String :: "uuid \<Rightarrow> string" where
  "uuid_String u =
     (let h = hex_text 32 (unat u)
      in take 8 h @ ''-'' @ take 4 (drop 8 h) @ ''-'' @ take 4 (drop 12 h) @ ''-'' @
         take 4 (drop 16 h) @ ''-'' @ drop 20 h)"

text \<open>
  JSON values. A UUID and a time are leaves of their own, so that decoding a field of
  type \<^verbatim>\<open>uuid.UUID\<close> or \<^verbatim>\<open>time.Time\<close> needs no parser; \<open>json_text\<close> prints a UUID as
  the string it is on the wire. A number with a fraction or an exponent is kept as its text.
\<close>

datatype json =
    JNull
  | JBool bool
  | JNum int
  | JDec string
  | JStr string
  | JUUID uuid
  | JTime time
  | JArr "json list"
  | JObj "(string \<times> json) list"

definition quote_text :: "string \<Rightarrow> string" where
  "quote_text s = [char_of (34::nat)] @
     concat (map (\<lambda>c. if of_char c \<in> {34, 92 :: nat} then [char_of (92::nat), c] else [c]) s) @
     [char_of (34::nat)]"

fun join_text :: "string \<Rightarrow> string list \<Rightarrow> string" where
  "join_text sep [] = []"
| "join_text sep [x] = x"
| "join_text sep (x # xs) = x @ sep @ join_text sep xs"

fun json_text :: "json \<Rightarrow> string" where
  "json_text JNull = ''null''"
| "json_text (JBool b) = (if b then ''true'' else ''false'')"
| "json_text (JNum i) = Itoa i"
| "json_text (JDec s) = s"
| "json_text (JStr s) = quote_text s"
| "json_text (JUUID u) = quote_text (uuid_String u)"
| "json_text (JTime t) = quote_text (Itoa t)"
| "json_text (JArr js) = ''['' @ join_text '','' (map json_text js) @ '']''"
| "json_text (JObj fs) =
     ''{'' @ join_text '','' (map (\<lambda>(k, v). quote_text k @ '':'' @ json_text v) fs) @ ''}''"

text \<open>\<^verbatim>\<open>json.Marshal\<close> of a Go map writes its keys in sorted order.\<close>

definition map_text :: "(string \<times> json) list \<Rightarrow> string" where
  "map_text fs = json_text (JObj (sort_key fst fs))"

lemma json_text_JObj_not_empty [simp]: "json_text (JObj fs) \<noteq> []"
  by simp

lemma map_text_not_empty [simp]: "map_text fs \<noteq> []"
  by (simp add: map_text_def)

text \<open>The value under a name, the last one if the name repeats.\<close>

definition field :: "(string \<times> json) list \<Rightarrow> string \<Rightarrow> json" where
  "field fs k = (case map_of (rev fs) k of None \<Rightarrow> JNull | Some v \<Rightarrow> v)"

fun as_string :: "json \<Rightarrow> string option" where
  "as_string JNull = Some []"
| "as_string (JStr s) = Some s"
| "as_string _ = None"

fun as_bool :: "json \<Rightarrow> bool option" where
  "as_bool JNull = Some False"
| "as_bool (JBool b) = Some b"
| "as_bool _ = None"

fun as_int :: "json \<Rightarrow> int option" where
  "as_int JNull = Some 0"
| "as_int (JNum i) = Some i"
| "as_int _ = None"

fun as_uuid :: "json \<Rightarrow> uuid option" where
  "as_uuid JNull = Some uuid_Nil"
| "as_uuid (JUUID u) = Some u"
| "as_uuid _ = None"

fun as_time :: "json \<Rightarrow> time option" where
  "as_time JNull = Some 0"
| "as_time (JTime t) = Some t"
| "as_time _ = None"

fun all_some :: "'a option list \<Rightarrow> 'a list option" where
  "all_some [] = Some []"
| "all_some (x # xs) = Option.bind x (\<lambda>y. map_option ((#) y) (all_some xs))"

definition as_list :: "(json \<Rightarrow> 'a option) \<Rightarrow> json \<Rightarrow> 'a list option" where
  "as_list f j = (case j of JNull \<Rightarrow> Some [] | JArr js \<Rightarrow> all_some (map f js) | _ \<Rightarrow> None)"

text \<open>\<^verbatim>\<open>omitempty\<close> on a string\<close>

definition unless_empty :: "string \<Rightarrow> string \<Rightarrow> (string \<times> json) list" where
  "unless_empty k s = (if s = [] then [] else [(k, JStr s)])"

text \<open>The value of a nullable field, the zero value when it is null\<close>

definition opt_string :: "string option \<Rightarrow> string" where
  "opt_string s = (case s of None \<Rightarrow> [] | Some x \<Rightarrow> x)"

definition opt_uuid_String :: "uuid option \<Rightarrow> string" where
  "opt_uuid_String u = (case u of None \<Rightarrow> [] | Some x \<Rightarrow> uuid_String x)"

section \<open>The calling convention\<close>

text \<open>
  A Go function that may fail returns \<^verbatim>\<open>(value, error)\<close>. It is an action on the state
  that yields \<open>Inl e\<close> for a non-nil error and \<open>Inr x\<close> otherwise. The pattern
  \<^verbatim>\<open>x, err := f(); if err != nil { return err }; k\<close> is \<open>andThen f (\<lambda>x. k)\<close>; a call whose
  error is discarded or inspected is bound with \<open>\<leftarrow>\<close>.
\<close>

type_synonym ('s, 'a) result_of = "('s, error + 'a) state"

definition ok :: "'a \<Rightarrow> ('s, error + 'a) state" where
  "ok x = State_Monad.return (Inr x)"

definition fail :: "error \<Rightarrow> ('s, error + 'a) state" where
  "fail e = State_Monad.return (Inl e)"

definition andThen ::
  "('s, error + 'a) state \<Rightarrow> ('a \<Rightarrow> ('s, error + 'b) state) \<Rightarrow> ('s, error + 'b) state" where
  "andThen m k = do { r \<leftarrow> m; case r of Inl e \<Rightarrow> fail e | Inr x \<Rightarrow> k x }"

text \<open>\<^verbatim>\<open>if err != nil { return translate(err) }\<close>\<close>

definition mapErr :: "(error \<Rightarrow> error) \<Rightarrow> ('s, error + 'a) state \<Rightarrow> ('s, error + 'a) state" where
  "mapErr f m = do { r \<leftarrow> m; case r of Inl e \<Rightarrow> fail (f e) | Inr x \<Rightarrow> ok x }"

text \<open>\<^verbatim>\<open>for _, x := range xs { if err := f(x); err != nil { return err } }\<close>\<close>

fun forEach :: "'a list \<Rightarrow> ('a \<Rightarrow> ('s, error + unit) state) \<Rightarrow> ('s, error + unit) state" where
  "forEach [] f = ok ()"
| "forEach (x # xs) f = andThen (f x) (\<lambda>_. forEach xs f)"

text \<open>The same loop when the body's error is discarded.\<close>

fun forEachIgnore :: "'a list \<Rightarrow> ('a \<Rightarrow> ('s, error + unit) state) \<Rightarrow> ('s, unit) state" where
  "forEachIgnore [] f = State_Monad.return ()"
| "forEachIgnore (x # xs) f = do { _ \<leftarrow> f x; forEachIgnore xs f }"

text \<open>A loop that appends one result per element and returns on the first error.\<close>

fun collect :: "('a \<Rightarrow> ('s, error + 'b) state) \<Rightarrow> 'a list \<Rightarrow> ('s, error + 'b list) state" where
  "collect f [] = ok []"
| "collect f (x # xs) = andThen (f x) (\<lambda>y. andThen (collect f xs) (\<lambda>ys. ok (y # ys)))"

lemma run_ok [simp, run_simps]: "run_state (ok x) s = (Inr x, s)"
  by (simp add: ok_def)

lemma run_fail [simp, run_simps]: "run_state (fail e) s = (Inl e, s)"
  by (simp add: fail_def)

lemma run_andThen [simp, run_simps]:
  "run_state (andThen m k) s =
     (case run_state m s of (Inl e, s') \<Rightarrow> (Inl e, s') | (Inr x, s') \<Rightarrow> run_state (k x) s')"
  by (simp add: andThen_def split: prod.split sum.split)

lemma run_mapErr [simp, run_simps]:
  "run_state (mapErr f m) s =
     (case run_state m s of (Inl e, s') \<Rightarrow> (Inl (f e), s') | (Inr x, s') \<Rightarrow> (Inr x, s'))"
  by (simp add: mapErr_def split: prod.split sum.split)

lemma andThen_Inr:
  assumes "run_state (andThen m k) s = (Inr y, s')"
  obtains x s1 where "run_state m s = (Inr x, s1)" "run_state (k x) s1 = (Inr y, s')"
  using assms by (auto split: prod.splits sum.splits)

lemma andThen_Inl:
  assumes "run_state (andThen m k) s = (Inl e, s')"
  obtains (first) "run_state m s = (Inl e, s')"
    | (second) x s1 where "run_state m s = (Inr x, s1)" "run_state (k x) s1 = (Inl e, s')"
  using assms by (auto split: prod.splits sum.splits)

section \<open>Predicates of the state that an action keeps\<close>

text \<open>
  \<open>keeps I m\<close>: whatever \<open>m\<close> returns, error or value, if \<open>I\<close> holds before it holds after.
  The rules follow the structure of an action; with a rule for each primitive they prove
  an invariant of a whole service operation by one call of the classical reasoner.
\<close>

definition keeps :: "('s \<Rightarrow> bool) \<Rightarrow> ('s, 'a) state \<Rightarrow> bool" where
  "keeps I m \<longleftrightarrow> (\<forall>s. I s \<longrightarrow> I (snd (run_state m s)))"

lemma keepsI: "(\<And>s x s'. I s \<Longrightarrow> run_state m s = (x, s') \<Longrightarrow> I s') \<Longrightarrow> keeps I m"
  by (metis keeps_def prod.collapse)

lemma keepsD: "keeps I m \<Longrightarrow> I s \<Longrightarrow> run_state m s = (x, s') \<Longrightarrow> I s'"
  by (metis keeps_def snd_conv)

lemma keeps_return [keeps_intros]: "keeps I (State_Monad.return x)"
  by (simp add: keeps_def)

lemma keeps_ok [keeps_intros]: "keeps I (ok x)"
  by (simp add: keeps_def)

lemma keeps_fail [keeps_intros]: "keeps I (fail e)"
  by (simp add: keeps_def)

lemma keeps_bind [keeps_intros]:
  "keeps I m \<Longrightarrow> (\<And>x. keeps I (k x)) \<Longrightarrow> keeps I (State_Monad.bind m k)"
  by (auto simp: keeps_def split: prod.splits)

lemma keeps_andThen [keeps_intros]:
  "keeps I m \<Longrightarrow> (\<And>x. keeps I (k x)) \<Longrightarrow> keeps I (andThen m k)"
  unfolding andThen_def by (auto intro!: keeps_intros split: sum.split)

lemma keeps_mapErr [keeps_intros]: "keeps I m \<Longrightarrow> keeps I (mapErr f m)"
  unfolding mapErr_def by (auto intro!: keeps_intros split: sum.split)

lemma keeps_if [keeps_intros]:
  "(c \<Longrightarrow> keeps I m) \<Longrightarrow> (\<not> c \<Longrightarrow> keeps I n) \<Longrightarrow> keeps I (if c then m else n)"
  by simp

lemma keeps_case_sum [keeps_intros]:
  "(\<And>e. keeps I (f e)) \<Longrightarrow> (\<And>x. keeps I (g x)) \<Longrightarrow>
   keeps I (case r of Inl e \<Rightarrow> f e | Inr x \<Rightarrow> g x)"
  by (simp split: sum.split)

lemma keeps_case_option [keeps_intros]:
  "keeps I m \<Longrightarrow> (\<And>x. keeps I (g x)) \<Longrightarrow> keeps I (case r of None \<Rightarrow> m | Some x \<Rightarrow> g x)"
  by (simp split: option.split)

lemma keeps_case_list [keeps_intros]:
  "keeps I m \<Longrightarrow> (\<And>x xs. keeps I (g x xs)) \<Longrightarrow>
   keeps I (case r of [] \<Rightarrow> m | x # xs \<Rightarrow> g x xs)"
  by (simp split: list.split)

lemma keeps_Let [keeps_intros]: "(\<And>x. keeps I (f x)) \<Longrightarrow> keeps I (let x = v in f x)"
  by simp

lemma keeps_case_prod [keeps_intros]:
  "(\<And>a b. keeps I (f a b)) \<Longrightarrow> keeps I (case p of (a, b) \<Rightarrow> f a b)"
  by (simp split: prod.split)

lemma keeps_forEach [keeps_intros]: "(\<And>x. keeps I (f x)) \<Longrightarrow> keeps I (forEach xs f)"
  by (induction xs) (auto intro: keeps_intros)

lemma keeps_collect [keeps_intros]: "(\<And>x. keeps I (f x)) \<Longrightarrow> keeps I (collect f xs)"
  by (induction xs) (auto intro!: keeps_intros)

lemma keeps_forEachIgnore [keeps_intros]: "(\<And>x. keeps I (f x)) \<Longrightarrow> keeps I (forEachIgnore xs f)"
  by (induction xs) (auto intro!: keeps_intros)

section \<open>Two states\<close>

text \<open>
  Actions on the first and on the second of two states (the database and a Redis store, say),
  as actions on both.
\<close>

definition on_store :: "('s, 'a) state \<Rightarrow> ('s \<times> 'b, 'a) state" where
  "on_store m = State (\<lambda>(s, b). case run_state m s of (x, s') \<Rightarrow> (x, (s', b)))"

definition on_bus :: "('b, 'a) state \<Rightarrow> ('s \<times> 'b, 'a) state" where
  "on_bus m = State (\<lambda>(s, b). case run_state m b of (x, b') \<Rightarrow> (x, (s, b')))"

lemma run_on_store [simp]:
  "run_state (on_store m) (s, b) = (fst (run_state m s), (snd (run_state m s), b))"
  by (simp add: on_store_def split: prod.split)

lemma run_on_bus [simp]:
  "run_state (on_bus m) (s, b) = (fst (run_state m b), (s, snd (run_state m b)))"
  by (simp add: on_bus_def split: prod.split)

section \<open>Go maps\<close>

text \<open>
  A Go map is the list of its entries, one per key; the order is that of the last assignments
  and stands for no order. \<open>map_put\<close> is \<^verbatim>\<open>m[k] = v\<close>.
\<close>

definition map_put :: "'k \<Rightarrow> 'v \<Rightarrow> ('k \<times> 'v) list \<Rightarrow> ('k \<times> 'v) list" where
  "map_put k v m = filter (\<lambda>(k', _). k' \<noteq> k) m @ [(k, v)]"

lemma map_of_map_put [simp]: "map_of (map_put k v m) = (map_of m)(k \<mapsto> v)"
proof
  fix x
  have "map_of (filter (\<lambda>(k', _). k' \<noteq> k) m) x = (if x = k then None else map_of m x)"
    by (induction m) auto
  then show "map_of (map_put k v m) x = ((map_of m)(k \<mapsto> v)) x"
    by (auto simp: map_put_def map_add_def split: option.splits)
qed

lemma distinct_map_put: "distinct (map fst m) \<Longrightarrow> distinct (map fst (map_put k v m))"
  by (auto simp: map_put_def distinct_map_filter) 

section \<open>Rows\<close>

text \<open>
  A table is the list of its rows. \<open>clash a b\<close> says that the primary key or a unique
  constraint forbids the rows \<open>a\<close> and \<open>b\<close> together. The statements of the repositories
  are combinations of these five operations, \<open>filter\<close>, \<open>take\<close>, \<open>drop\<close> and the ordering
  below.
\<close>

definition insert_row :: "('r \<Rightarrow> 'r \<Rightarrow> bool) \<Rightarrow> 'r \<Rightarrow> 'r list \<Rightarrow> sql_error + unit \<times> 'r list" where
  "insert_row clash r rs =
     (if list_ex (\<lambda>x. clash x r) rs then Inl UniqueViolation else Inr ((), rs @ [r]))"

definition map_where :: "('r \<Rightarrow> bool) \<Rightarrow> ('r \<Rightarrow> 'r) \<Rightarrow> 'r list \<Rightarrow> 'r list" where
  "map_where P f rs = map (\<lambda>r. if P r then f r else r) rs"

definition count_where :: "('r \<Rightarrow> bool) \<Rightarrow> 'r list \<Rightarrow> int" where
  "count_where P rs = int (length (filter P rs))"

text \<open>UPDATE of columns no unique constraint mentions; the value is the number of rows.\<close>

definition update_where ::
  "('r \<Rightarrow> bool) \<Rightarrow> ('r \<Rightarrow> 'r) \<Rightarrow> 'r list \<Rightarrow> sql_error + int \<times> 'r list" where
  "update_where P f rs = Inr (count_where P rs, map_where P f rs)"

text \<open>UPDATE of key columns: refused when two rows would clash.\<close>

definition update_keyed ::
  "('r \<Rightarrow> 'r \<Rightarrow> bool) \<Rightarrow> ('r \<Rightarrow> bool) \<Rightarrow> ('r \<Rightarrow> 'r) \<Rightarrow> 'r list \<Rightarrow> sql_error + int \<times> 'r list" where
  "update_keyed clash P f rs =
     (if sorted_wrt (\<lambda>a b. \<not> clash a b) (map_where P f rs)
      then Inr (count_where P rs, map_where P f rs) else Inl UniqueViolation)"

definition delete_where :: "('r \<Rightarrow> bool) \<Rightarrow> 'r list \<Rightarrow> sql_error + int \<times> 'r list" where
  "delete_where P rs = Inr (count_where P rs, filter (\<lambda>r. \<not> P r) rs)"

text \<open>
  ORDER BY of a nullable column: PostgreSQL puts NULL last in ascending and first in
  descending order. Rows with equal keys keep the order of the table here; SQL leaves it
  open.
\<close>

definition order_asc :: "('r \<Rightarrow> 'k::linorder option) \<Rightarrow> 'r list \<Rightarrow> 'r list" where
  "order_asc key rs =
     sort_key (\<lambda>r. the (key r)) (filter (\<lambda>r. key r \<noteq> None) rs) @ filter (\<lambda>r. key r = None) rs"

definition order_desc :: "('r \<Rightarrow> 'k::linorder option) \<Rightarrow> 'r list \<Rightarrow> 'r list" where
  "order_desc key rs = rev (order_asc key rs)"

definition offset_limit :: "int \<Rightarrow> int \<Rightarrow> 'r list \<Rightarrow> sql_error + 'r list" where
  "offset_limit off lim rs =
     (if off < 0 \<or> lim < 0 then Inl InvalidRowCount else Inr (take (nat lim) (drop (nat off) rs)))"

lemma set_order_asc [simp]: "set (order_asc key rs) = set rs"
  by (auto simp: order_asc_def)

lemma set_order_desc [simp]: "set (order_desc key rs) = set rs"
  by (simp add: order_desc_def)

lemma length_order_asc [simp]: "length (order_asc key rs) = length rs"
  by (simp add: order_asc_def sum_length_filter_compl [of "\<lambda>r. key r \<noteq> None", simplified])

lemma length_order_desc [simp]: "length (order_desc key rs) = length rs"
  by (simp add: order_desc_def)

lemma length_map_where [simp]: "length (map_where P f rs) = length rs"
  by (simp add: map_where_def)

lemma map_where_Nil [simp]: "map_where P f [] = []"
  by (simp add: map_where_def)

lemma map_where_append [simp]: "map_where P f (xs @ ys) = map_where P f xs @ map_where P f ys"
  by (simp add: map_where_def)

lemma map_where_none: "count_where P rs = 0 \<Longrightarrow> map_where P f rs = rs"
  by (induction rs) (auto simp: map_where_def count_where_def split: if_splits)

lemma count_where_nonneg [simp]: "0 \<le> count_where P rs"
  by (simp add: count_where_def)

lemma count_where_eq_0: "count_where P rs = 0 \<longleftrightarrow> (\<forall>r\<in>set rs. \<not> P r)"
  by (auto simp: count_where_def filter_empty_conv)

lemma in_map_where:
  "r' \<in> set (map_where P f rs) \<longleftrightarrow> (\<exists>r\<in>set rs. r' = (if P r then f r else r))"
  by (auto simp: map_where_def)

lemma ball_map_where:
  "(\<forall>r\<in>set (map_where P f rs). Q r) \<longleftrightarrow> (\<forall>r\<in>set rs. Q (if P r then f r else r))"
  by (auto simp: map_where_def)

text \<open>
  The contract of a key: a symmetric clash relation. Inserting, deleting and updating
  keep a table free of clashes.
\<close>

abbreviation clash_free :: "('r \<Rightarrow> 'r \<Rightarrow> bool) \<Rightarrow> 'r list \<Rightarrow> bool" where
  "clash_free clash rs \<equiv> sorted_wrt (\<lambda>a b. \<not> clash a b) rs"

locale row_key =
  fixes clash :: "'r \<Rightarrow> 'r \<Rightarrow> bool"
  assumes clash_sym: "clash a b \<Longrightarrow> clash b a"
begin

lemma insert_keeps:
  "clash_free clash rs \<Longrightarrow> insert_row clash r rs = Inr (u, rs') \<Longrightarrow> clash_free clash rs'"
  by (auto simp: insert_row_def sorted_wrt_append list_ex_iff split: if_splits)

lemma insert_refused:
  "insert_row clash r rs = Inl e \<longleftrightarrow> e = UniqueViolation \<and> (\<exists>x\<in>set rs. clash r x)"
  by (auto simp: insert_row_def list_ex_iff intro: clash_sym)

lemma delete_keeps:
  "clash_free clash rs \<Longrightarrow> delete_where P rs = Inr (n, rs') \<Longrightarrow> clash_free clash rs'"
  by (auto simp: delete_where_def sorted_wrt_filter)

lemma update_keeps:
  "update_keyed clash P f rs = Inr (n, rs') \<Longrightarrow> clash_free clash rs'"
  by (auto simp: update_keyed_def split: if_splits)

lemma map_where_keeps:
  assumes "clash_free clash rs"
    and "\<And>a b. clash (f a) b = clash a b"
  shows "clash_free clash (map_where P f rs)"
proof -
  have "clash a (f b) = clash a b" for a b
    using assms(2) clash_sym by blast
  with assms show ?thesis
    by (auto simp: map_where_def sorted_wrt_map elim!: sorted_wrt_mono_rel [rotated] split: if_splits)
qed

lemma clash_eq:
  assumes "clash_free clash rs" "a \<in> set rs" "b \<in> set rs" "clash a b"
  shows "a = b"
proof -
  from assms(2,3) obtain i j where ij: "i < length rs" "j < length rs" "rs ! i = a" "rs ! j = b"
    by (auto simp: in_set_conv_nth)
  show ?thesis
    using assms(1,4) ij clash_sym sorted_wrt_nth_less [OF assms(1)]
    by (metis linorder_neqE_nat)
qed

text \<open>A key selects at most one row.\<close>

lemma filter_key:
  assumes "clash_free clash rs" "c \<in> set rs" "P c" "\<And>x. P x \<Longrightarrow> clash x c"
  shows "filter P rs = [c]"
proof -
  from assms(2) obtain xs ys where rs: "rs = xs @ c # ys"
    by (auto simp: in_set_conv_decomp)
  with assms(1) have "\<forall>x\<in>set xs. \<not> clash x c" "\<forall>y\<in>set ys. \<not> clash c y"
    by (auto simp: sorted_wrt_append)
  with assms(4) clash_sym have "filter P xs = []" "filter P ys = []"
    by (auto simp: filter_empty_conv)
  with rs assms(3) show ?thesis by simp
qed

end

end
