(* ===== verification/Domain.thy ===== *)
theory Domain
  imports Prelude
begin

text \<open>
  The entities of \<^verbatim>\<open>internal/domain\<close>: one record per Go struct, field by field, with the
  struct's name in lower case as prefix. Fields the code declares but that no statement of
  a repository reads or writes (relationship slices) are kept where a service fills them.
  The string-typed columns whose values the schema restricts are strings here as well; the
  sets of values of the enumerations of \<^verbatim>\<open>migrations/000001_init_extensions.up.sql\<close> are the
  \<open>..._enum\<close> lists below.
\<close>

section \<open>Users, devices and sessions (\<^verbatim>\<open>domain/user/entity.go\<close>)\<close>

record UserSettings =
  st_UserID :: uuid
  st_PrivacyLastSeen :: string
  st_PrivacyProfilePhoto :: string
  st_PrivacyAbout :: string
  st_PrivacyGroups :: string
  st_ReadReceipts :: bool
  st_NotificationsEnabled :: bool
  st_NotificationSound :: string
  st_NotificationVibrate :: bool
  st_Theme :: string
  st_Language :: string
  st_EnterToSend :: bool
  st_MediaAutoDownloadWiFi :: bool
  st_MediaAutoDownloadMobile :: bool
  st_UpdatedAt :: time

record Device =
  dev_ID :: uuid
  dev_UserID :: uuid
  dev_DeviceID :: string
  dev_DeviceName :: string
  dev_DeviceType :: string
  dev_IsActive :: bool
  dev_RegisteredAt :: time
  dev_LastSeenAt :: "time option"

record PushToken =
  pt_ID :: uuid
  pt_UserID :: uuid
  pt_DeviceID :: uuid
  pt_Platform :: string
  pt_Token :: string
  pt_IsActive :: bool
  pt_CreatedAt :: time
  pt_LastUsedAt :: "time option"

record UserSession =
  ses_ID :: uuid
  ses_UserID :: uuid
  ses_DeviceID :: "uuid option"
  ses_Device :: "Device option"
  ses_RefreshTokenHash :: string
  ses_ExpiresAt :: time
  ses_IsRevoked :: bool
  ses_CreatedAt :: time

record UserContact =
  con_UserID :: uuid
  con_ContactUserID :: uuid
  con_Nickname :: string
  con_IsBlocked :: bool
  con_CreatedAt :: time

record User =
  usr_ID :: uuid
  usr_PhoneNumber :: "string option"
  usr_Username :: "string option"
  usr_Email :: "string option"
  usr_PasswordHash :: string
  usr_DisplayName :: string
  usr_Role :: string
  usr_Bio :: string
  usr_AvatarURL :: string
  usr_IsOnline :: bool
  usr_LastSeenAt :: "time option"
  usr_IsActive :: bool
  usr_IsVerified :: bool
  usr_CreatedAt :: time
  usr_UpdatedAt :: time

section \<open>Conversations (\<^verbatim>\<open>domain/conversation/entity.go\<close>)\<close>

record Participant =
  part_ConversationID :: uuid
  part_UserID :: uuid
  part_Role :: string
  part_JoinedAt :: time
  part_AddedBy :: "uuid option"
  part_MutedUntil :: "time option"
  part_PinnedAt :: "time option"
  part_Archived :: bool
  part_LastReadSequence :: int
  part_Permissions :: "string option"

record Conversation =
  conv_ID :: uuid
  conv_Type :: string
  conv_Subject :: "string option"
  conv_Description :: "string option"
  conv_AvatarURL :: "string option"
  conv_ExpirySeconds :: "int option"
  conv_DisappearingMode :: string
  conv_MessageExpirySeconds :: "int option"
  conv_GroupPermissions :: "string option"
  conv_InviteLink :: "string option"
  conv_InviteLinkRevokedAt :: "time option"
  conv_CreatedBy :: "uuid option"
  conv_CreatedAt :: time
  conv_UpdatedAt :: time
  conv_Participants :: "Participant list"

record ConversationSequence =
  cseq_ConversationID :: uuid
  cseq_LastSequence :: int
  cseq_UpdatedAt :: time

section \<open>Messages (\<^verbatim>\<open>domain/message\<close>)\<close>

record Message =
  msg_ID :: uuid
  msg_ConversationID :: uuid
  msg_SenderID :: uuid
  msg_ClientMessageID :: "string option"
  msg_IdempotencyKey :: "string option"
  msg_SeqID :: "int option"
  msg_Type :: string
  msg_Content :: "string option"
  msg_Metadata :: string
  msg_IsForwarded :: bool
  msg_ForwardedFromMsgID :: "uuid option"
  msg_ReplyToMsgID :: "uuid option"
  msg_PollID :: "uuid option"
  msg_LinkPreviewID :: "uuid option"
  msg_MentionCount :: int
  msg_CreatedAt :: time
  msg_EditedAt :: "time option"
  msg_DeletedAt :: "time option"
  msg_ExpiresAt :: "time option"
  msg_Ciphertext :: bytes
  msg_Header :: string
  msg_RecipientDeviceID :: "uuid option"
  msg_RecipientUserID :: "uuid option"
  msg_SenderDeviceID :: "uuid option"

text \<open>\<^verbatim>\<open>message.Message{}\<close>: every field at its zero value.\<close>

definition zero_Message :: Message where
  "zero_Message = \<lparr>msg_ID = uuid_Nil, msg_ConversationID = uuid_Nil, msg_SenderID = uuid_Nil,
     msg_ClientMessageID = None, msg_IdempotencyKey = None, msg_SeqID = None, msg_Type = [],
     msg_Content = None, msg_Metadata = [], msg_IsForwarded = False,
     msg_ForwardedFromMsgID = None, msg_ReplyToMsgID = None, msg_PollID = None,
     msg_LinkPreviewID = None, msg_MentionCount = 0, msg_CreatedAt = 0, msg_EditedAt = None,
     msg_DeletedAt = None, msg_ExpiresAt = None, msg_Ciphertext = [], msg_Header = [],
     msg_RecipientDeviceID = None, msg_RecipientUserID = None, msg_SenderDeviceID = None\<rparr>"

record MessageReaction =
  rct_ID :: uuid
  rct_MessageID :: uuid
  rct_UserID :: uuid
  rct_ReactionCode :: string
  rct_CreatedAt :: time

record MessageReceipt =
  rcp_MessageID :: uuid
  rcp_UserID :: uuid
  rcp_Status :: string
  rcp_DeliveredAt :: "time option"
  rcp_ReadAt :: "time option"
  rcp_PlayedAt :: "time option"
  rcp_UpdatedAt :: time

record MessageMention =
  mnt_MessageID :: uuid
  mnt_UserID :: uuid
  mnt_Offset :: int
  mnt_Length :: int

record StarredMessage =
  star_UserID :: uuid
  star_MessageID :: uuid
  star_StarredAt :: time

record MessageCiphertext =
  mc_ID :: uuid
  mc_MessageID :: uuid
  mc_RecipientUserID :: uuid
  mc_RecipientDeviceID :: uuid
  mc_SenderDeviceID :: "uuid option"
  mc_Ciphertext :: bytes
  mc_Header :: string
  mc_CreatedAt :: time

record LinkPreview =
  lp_ID :: uuid
  lp_URL :: string
  lp_URLHash :: string
  lp_Title :: "string option"
  lp_Description :: "string option"
  lp_ImageURL :: "string option"
  lp_SiteName :: "string option"
  lp_FetchedAt :: time

record Attachment =
  att_ID :: uuid
  att_UploaderID :: "uuid option"
  att_URL :: string
  att_Filename :: "string option"
  att_MimeType :: string
  att_SizeBytes :: int
  att_ViewOnce :: bool
  att_ViewedAt :: "time option"
  att_ThumbnailURL :: "string option"
  att_Width :: "int option"
  att_Height :: "int option"
  att_DurationSeconds :: "int option"
  att_EncryptionKeyHash :: "string option"
  att_EncryptionIV :: "string option"
  att_CreatedAt :: time

record MessageAttachment =
  ma_MessageID :: uuid
  ma_AttachmentID :: uuid

record Poll =
  poll_ID :: uuid
  poll_MessageID :: "uuid option"
  poll_Question :: string
  poll_AllowsMultiple :: bool
  poll_ClosesAt :: "time option"
  poll_CreatedAt :: time

record PollOption =
  opt_ID :: uuid
  opt_PollID :: uuid
  opt_OptionText :: string
  opt_Position :: int

record PollVote =
  vote_PollID :: uuid
  vote_OptionID :: uuid
  vote_UserID :: uuid
  vote_VotedAt :: time

section \<open>Calls (\<^verbatim>\<open>domain/call/entity.go\<close>)\<close>

record Call =
  call_ID :: uuid
  call_ConversationID :: uuid
  call_InitiatedBy :: uuid
  call_Type :: string
  call_Topology :: string
  call_IsGroupCall :: bool
  call_StartedAt :: time
  call_ConnectedAt :: "time option"
  call_EndedAt :: "time option"
  call_EndReason :: "string option"
  call_DurationSeconds :: "int option"
  call_CreatedAt :: time

record CallParticipant =
  cp_CallID :: uuid
  cp_UserID :: uuid
  cp_Status :: string
  cp_JoinedAt :: "time option"
  cp_LeftAt :: "time option"
  cp_MutedAudio :: bool
  cp_MutedVideo :: bool
  cp_DeviceType :: string

record CallQualityMetric =
  cqm_ID :: uuid
  cqm_CallID :: uuid
  cqm_UserID :: uuid
  cqm_RecordedAt :: time
  cqm_PacketsSent :: int
  cqm_PacketsReceived :: int
  cqm_PacketsLost :: int
  cqm_JitterMs :: float64
  cqm_RoundTripTimeMs :: float64
  cqm_BitrateKbps :: int
  cqm_FrameRate :: int
  cqm_ResolutionWidth :: int
  cqm_ResolutionHeight :: int
  cqm_AudioLevel :: float64
  cqm_ConnectionType :: string
  cqm_IceCandidateType :: string

section \<open>Encryption keys (\<^verbatim>\<open>domain/encryption/entity.go\<close>)\<close>

record IdentityKey =
  ik_ID :: uuid
  ik_UserID :: uuid
  ik_DeviceID :: uuid
  ik_PublicKey :: bytes
  ik_IsActive :: bool
  ik_CreatedAt :: time

record SignedPreKey =
  sk_ID :: uuid
  sk_UserID :: uuid
  sk_DeviceID :: uuid
  sk_KeyID :: int
  sk_PublicKey :: bytes
  sk_Signature :: bytes
  sk_CreatedAt :: time
  sk_IsActive :: bool

record OneTimePreKey =
  otk_ID :: uuid
  otk_UserID :: uuid
  otk_DeviceID :: uuid
  otk_KeyID :: int
  otk_PublicKey :: bytes
  otk_UploadedAt :: time
  otk_ConsumedAt :: "time option"
  otk_ConsumedBy :: "uuid option"
  otk_ConsumedByDeviceID :: "uuid option"

section \<open>Outbox, command log, uploads and broadcast lists\<close>

datatype OutboxStatus =
    StatusPending
  | StatusProcessing
  | StatusCompleted
  | StatusFailed

text \<open>
  \<^verbatim>\<open>Payload\<close> is the JSON text of the event; it is kept as the JSON value it encodes.
\<close>

record OutboxEvent =
  ob_ID :: uuid
  ob_EventType :: string
  ob_AggregateType :: string
  ob_AggregateID :: string
  ob_Payload :: json
  ob_Status :: OutboxStatus
  ob_RetryCount :: int
  ob_Error :: string
  ob_CreatedAt :: time
  ob_UpdatedAt :: time
  ob_ProcessedAt :: "time option"

record CommandLog =
  log_ID :: uuid
  log_CommandType :: string
  log_UserID :: uuid
  log_Status :: string
  log_Payload :: json
  log_Result :: "json option"
  log_UndoData :: "json option"
  log_ErrorMessage :: string
  log_ExecutionTimeMs :: int
  log_CreatedAt :: time
  log_ExecutedAt :: "time option"
  log_UndoneAt :: "time option"

record UploadSession =
  up_ID :: uuid
  up_UploaderID :: uuid
  up_Filename :: string
  up_MimeType :: string
  up_SizeBytes :: int
  up_ChunkSize :: int
  up_UploadedBytes :: int
  up_Status :: string
  up_ObjectKey :: string
  up_FileURL :: "string option"
  up_CompletedAt :: "time option"
  up_CreatedAt :: time
  up_UpdatedAt :: time

record BroadcastList =
  bl_ID :: uuid
  bl_OwnerID :: uuid
  bl_Name :: string
  bl_Description :: "string option"
  bl_CreatedAt :: time

record BroadcastRecipient =
  br_BroadcastID :: uuid
  br_UserID :: uuid
  br_AddedAt :: time

section \<open>Enumerations of the schema\<close>

text \<open>
  A value outside the list makes the statement fail with 22P02 (\<open>InvalidText\<close>).
  \<open>command_status_enum\<close> is the first of the two \<^verbatim>\<open>CREATE TYPE command_status\<close> statements:
  the second one raises \<^verbatim>\<open>duplicate_object\<close>, which its block swallows.
\<close>

definition conversation_type_enum :: "string list" where
  "conversation_type_enum = [''DM'', ''GROUP'']"

definition user_role_enum :: "string list" where
  "user_role_enum = [''SUPER_ADMIN'', ''ADMIN'', ''MODERATOR'', ''USER'']"

definition participant_role_enum :: "string list" where
  "participant_role_enum = [''OWNER'', ''ADMIN'', ''MEMBER'']"

definition message_type_enum :: "string list" where
  "message_type_enum = [''TEXT'', ''IMAGE'', ''VIDEO'', ''AUDIO'', ''FILE'', ''LOCATION'',
     ''CONTACT'', ''SYSTEM'', ''STICKER'', ''GIF'', ''POLL'']"

definition delivery_status_enum :: "string list" where
  "delivery_status_enum = [''PENDING'', ''SENT'', ''DELIVERED'', ''READ'', ''PLAYED'']"

definition disappearing_mode_enum :: "string list" where
  "disappearing_mode_enum = [''OFF'', ''24_HOURS'', ''7_DAYS'', ''90_DAYS'']"

definition call_type_enum :: "string list" where
  "call_type_enum = [''AUDIO'', ''VIDEO'']"

definition call_topology_enum :: "string list" where
  "call_topology_enum = [''P2P'']"

definition call_end_reason_enum :: "string list" where
  "call_end_reason_enum = [''COMPLETED'', ''MISSED'', ''DECLINED'', ''FAILED'', ''TIMEOUT'',
     ''NETWORK_ERROR'']"

definition participant_call_status_enum :: "string list" where
  "participant_call_status_enum = [''INVITED'', ''RINGING'', ''CONNECTED'', ''ON_HOLD'',
     ''LEFT'', ''DECLINED'']"

definition command_status_enum :: "string list" where
  "command_status_enum = [''PENDING'', ''EXECUTED'', ''FAILED'']"

definition upload_status_enum :: "string list" where
  "upload_status_enum = [''IN_PROGRESS'', ''COMPLETED'', ''FAILED'']"

definition privacy_setting_enum :: "string list" where
  "privacy_setting_enum = [''EVERYONE'', ''CONTACTS'', ''NOBODY'']"

definition theme_mode_enum :: "string list" where
  "theme_mode_enum = [''SYSTEM'', ''LIGHT'', ''DARK'']"

definition language_code_enum :: "string list" where
  "language_code_enum = [''en'', ''es'', ''fr'', ''de'', ''pt'', ''ru'', ''hi'', ''zh'', ''ar'', ''ja'']"

end
