(* ===== verification/Database.thy ===== *)
theory Database
  imports Domain
begin

text \<open>
  The database as the repositories see it: the tables of \<^verbatim>\<open>migrations/000002_schema.up.sql\<close>
  with their unique and foreign keys, the world an operation runs in, one SQL statement sent
  through a \<^verbatim>\<open>DBTX\<close>, and \<^verbatim>\<open>WithTx\<close> of \<^verbatim>\<open>internal/repository/sql_helpers.go\<close>.

  What lies outside \<^verbatim>\<open>src/\<close> is a parameter of the world: the clock (\<open>w_now\<close>), the random
  UUIDs (\<open>w_new\<close>), the failures of the connection (\<open>w_fault\<close>) and which texts the JSONB
  type accepts (\<open>w_jsonb\<close>). Each reading of the clock, each fresh UUID and each message to
  the database uses up one index of these functions. One transaction is open at a time and
  works on its own copy of the tables; rows keep their order of insertion.
\<close>

section \<open>Tables\<close>

record tables =
  t_users :: "User list"
  t_user_settings :: "UserSettings list"
  t_devices :: "Device list"
  t_push_tokens :: "PushToken list"
  t_user_sessions :: "UserSession list"
  t_user_contacts :: "UserContact list"
  t_conversations :: "Conversation list"
  t_participants :: "Participant list"
  t_sequences :: "ConversationSequence list"
  t_messages :: "Message list"
  t_ciphertexts :: "MessageCiphertext list"
  t_reactions :: "MessageReaction list"
  t_receipts :: "MessageReceipt list"
  t_mentions :: "MessageMention list"
  t_starred :: "StarredMessage list"
  t_link_previews :: "LinkPreview list"
  t_attachments :: "Attachment list"
  t_message_attachments :: "MessageAttachment list"
  t_polls :: "Poll list"
  t_poll_options :: "PollOption list"
  t_poll_votes :: "PollVote list"
  t_calls :: "Call list"
  t_call_participants :: "CallParticipant list"
  t_quality_metrics :: "CallQualityMetric list"
  t_identity_keys :: "IdentityKey list"
  t_signed_prekeys :: "SignedPreKey list"
  t_onetime_prekeys :: "OneTimePreKey list"
  t_outbox :: "OutboxEvent list"
  t_command_logs :: "CommandLog list"
  t_upload_sessions :: "UploadSession list"
  t_broadcast_lists :: "BroadcastList list"
  t_broadcast_recipients :: "BroadcastRecipient list"

definition empty_tables :: tables where
  "empty_tables = \<lparr>t_users = [], t_user_settings = [], t_devices = [], t_push_tokens = [],
     t_user_sessions = [], t_user_contacts = [], t_conversations = [], t_participants = [],
     t_sequences = [], t_messages = [], t_ciphertexts = [], t_reactions = [], t_receipts = [],
     t_mentions = [], t_starred = [], t_link_previews = [], t_attachments = [],
     t_message_attachments = [], t_polls = [], t_poll_options = [], t_poll_votes = [],
     t_calls = [], t_call_participants = [], t_quality_metrics = [], t_identity_keys = [], t_signed_prekeys = [],
     t_onetime_prekeys = [], t_outbox = [], t_command_logs = [], t_upload_sessions = [],
     t_broadcast_lists = [], t_broadcast_recipients = []\<rparr>"

record world =
  w_db :: tables
  w_tx :: "(tables \<times> bool) option"
  w_step :: nat
  w_now :: "nat \<Rightarrow> time"
  w_new :: "nat \<Rightarrow> uuid"
  w_fault :: "nat \<Rightarrow> sql_error option"
  w_jsonb :: "string \<Rightarrow> bool"

type_synonym 'a go = "(world, error + 'a) state"
type_synonym 'a stmt = "tables \<Rightarrow> sql_error + 'a \<times> tables"

section \<open>Clock, random identifiers and statements\<close>

definition time_Now :: "(world, time) state" where
  "time_Now = State (\<lambda>w. (w_now w (w_step w), w\<lparr>w_step := Suc (w_step w)\<rparr>))"

definition uuid_New :: "(world, uuid) state" where
  "uuid_New = State (\<lambda>w. (w_new w (w_step w), w\<lparr>w_step := Suc (w_step w)\<rparr>))"

definition jsonb_input :: "(world, string \<Rightarrow> bool) state" where
  "jsonb_input = State (\<lambda>w. (w_jsonb w, w))"

text \<open>A \<^verbatim>\<open>DBTX\<close>: the nil interface, the pool \<^verbatim>\<open>*sql.DB\<close>, or the open \<^verbatim>\<open>*sql.Tx\<close>.\<close>

datatype DBTX = NilDB | Pool | Tx

text \<open>
  One statement. On the pool it is a transaction of its own. In a transaction PostgreSQL
  refuses everything after the first failed statement until the rollback (25P02).
\<close>

definition sql :: "DBTX \<Rightarrow> 'a stmt \<Rightarrow> 'a go" where
  "sql db f = State (\<lambda>w.
     let w1 = w\<lparr>w_step := Suc (w_step w)\<rparr>; fault = w_fault w (w_step w)
     in case db of
          NilDB \<Rightarrow> (Inl (Panic ''nil pointer dereference''), w)
        | Pool \<Rightarrow>
            (case fault of
               Some e \<Rightarrow> (Inl (SqlError e), w1)
             | None \<Rightarrow> (case f (w_db w) of
                          Inl e \<Rightarrow> (Inl (SqlError e), w1)
                        | Inr (x, t) \<Rightarrow> (Inr x, w1\<lparr>w_db := t\<rparr>)))
        | Tx \<Rightarrow>
            (case w_tx w of
               None \<Rightarrow> (Inl (SqlError TxDone), w1)
             | Some (t, aborted) \<Rightarrow>
                 if aborted then (Inl (SqlError TxAborted), w1)
                 else (case fault of
                         Some e \<Rightarrow> (Inl (SqlError e), w1\<lparr>w_tx := Some (t, True)\<rparr>)
                       | None \<Rightarrow> (case f t of
                                    Inl e \<Rightarrow> (Inl (SqlError e), w1\<lparr>w_tx := Some (t, True)\<rparr>)
                                  | Inr (x, t') \<Rightarrow> (Inr x, w1\<lparr>w_tx := Some (t', False)\<rparr>)))))"

definition BeginTx :: "unit go" where
  "BeginTx = State (\<lambda>w.
     let w1 = w\<lparr>w_step := Suc (w_step w)\<rparr>
     in case w_fault w (w_step w) of
          Some e \<Rightarrow> (Inl (SqlError e), w1)
        | None \<Rightarrow> (Inr (), w1\<lparr>w_tx := Some (w_db w, False)\<rparr>))"

definition Rollback :: "unit go" where
  "Rollback = State (\<lambda>w.
     let w1 = w\<lparr>w_step := Suc (w_step w), w_tx := None\<rparr>
     in case w_fault w (w_step w) of
          Some e \<Rightarrow> (Inl (SqlError e), w1)
        | None \<Rightarrow> (Inr (), w1))"

text \<open>
  COMMIT of a transaction with a failed statement rolls back, which the driver reports as
  an error. A fault here means that the commit did not happen.
\<close>

definition Commit :: "unit go" where
  "Commit = State (\<lambda>w.
     let w1 = w\<lparr>w_step := Suc (w_step w), w_tx := None\<rparr>
     in case w_tx w of
          None \<Rightarrow> (Inl (SqlError TxDone), w1)
        | Some (t, aborted) \<Rightarrow>
            if aborted then (Inl (SqlError TxAborted), w1)
            else (case w_fault w (w_step w) of
                    Some e \<Rightarrow> (Inl (SqlError e), w1)
                  | None \<Rightarrow> (Inr (), w1\<lparr>w_db := t\<rparr>)))"

text \<open>
  \<^verbatim>\<open>WithTx\<close>. Several callers assign a captured variable in the body and use it only when
  \<^verbatim>\<open>WithTx\<close> returns no error; here that variable is the value of the body.
\<close>

definition WithTx :: "DBTX \<Rightarrow> (DBTX \<Rightarrow> 'a go) \<Rightarrow> 'a go" where
  "WithTx db fn =
     (case db of
        NilDB \<Rightarrow> fail (OtherError ''database not initialized'')
      | Tx \<Rightarrow> fn Tx
      | Pool \<Rightarrow>
          andThen BeginTx (\<lambda>_. do {
            r \<leftarrow> fn Tx;
            (case r of
               Inl err \<Rightarrow> do {
                 rb \<leftarrow> Rollback;
                 (case rb of
                    Inl (SqlError rbErr) \<Rightarrow> fail (RollbackError err rbErr)
                  | _ \<Rightarrow> fail err)
               }
             | Inr x \<Rightarrow> andThen Commit (\<lambda>_. ok x))
          }))"

section \<open>Pieces of statements\<close>

definition query :: "(tables \<Rightarrow> 'a) \<Rightarrow> 'a stmt" where
  "query f t = Inr (f t, t)"

definition query_page :: "int \<Rightarrow> int \<Rightarrow> (tables \<Rightarrow> 'r list) \<Rightarrow> 'r list stmt" where
  "query_page off lim f t =
     (case offset_limit off lim (f t) of Inl e \<Rightarrow> Inl e | Inr rs \<Rightarrow> Inr (rs, t))"

definition on_table ::
  "(tables \<Rightarrow> 'r list) \<Rightarrow> (('r list \<Rightarrow> 'r list) \<Rightarrow> tables \<Rightarrow> tables) \<Rightarrow>
   ('r list \<Rightarrow> sql_error + 'a \<times> 'r list) \<Rightarrow> 'a stmt" where
  "on_table get upd f t =
     (case f (get t) of Inl e \<Rightarrow> Inl e | Inr (x, rs) \<Rightarrow> Inr (x, upd (\<lambda>_. rs) t))"

text \<open>A check that is part of the statement: a type conversion or a foreign key.\<close>

definition checked :: "sql_error \<Rightarrow> (tables \<Rightarrow> bool) \<Rightarrow> 'a stmt \<Rightarrow> 'a stmt" where
  "checked e c f t = (if c t then f t else Inl e)"

text \<open>\<^verbatim>\<open>QueryRowContext(...).Scan(...)\<close>\<close>

definition queryRow :: "DBTX \<Rightarrow> (tables \<Rightarrow> 'r list) \<Rightarrow> 'r go" where
  "queryRow db f =
     andThen (sql db (query f))
       (\<lambda>rows. case rows of [] \<Rightarrow> fail (SqlError NoRows) | r # _ \<Rightarrow> ok r)"

text \<open>\<^verbatim>\<open>errors.Is(err, sql.ErrNoRows)\<close> and \<^verbatim>\<open>isUniqueViolation(err)\<close> as error translations.\<close>

definition notFound :: "error \<Rightarrow> error" where
  "notFound e = (if e = SqlError NoRows then ErrNotFound else e)"

definition isUniqueViolation :: "error \<Rightarrow> bool" where
  "isUniqueViolation e \<longleftrightarrow> e = SqlError UniqueViolation"

definition alreadyExists :: "error \<Rightarrow> error" where
  "alreadyExists e = (if isUniqueViolation e then ErrAlreadyExists else e)"

text \<open>
  \<^verbatim>\<open>rows, err := res.RowsAffected(); if err == nil && rows == 0 { return ErrNotFound }\<close>; the
  driver's \<^verbatim>\<open>RowsAffected\<close> never fails.
\<close>

definition affected :: "int go \<Rightarrow> unit go" where
  "affected m = andThen m (\<lambda>rows. if rows = 0 then fail ErrNotFound else ok ())"

definition void :: "'a go \<Rightarrow> unit go" where
  "void m = andThen m (\<lambda>_. ok ())"

text \<open>
  INSERT: the unique keys are checked when the row goes in, the foreign keys (\<open>refs\<close>) at the
  end of the statement, on the tables that contain the row. UPDATE of such columns likewise.
\<close>

definition insert_into ::
  "(tables \<Rightarrow> 'r list) \<Rightarrow> (('r list \<Rightarrow> 'r list) \<Rightarrow> tables \<Rightarrow> tables) \<Rightarrow>
   ('r \<Rightarrow> 'r \<Rightarrow> bool) \<Rightarrow> (tables \<Rightarrow> bool) \<Rightarrow> 'r \<Rightarrow> unit stmt" where
  "insert_into get upd clash refs r t =
     (case on_table get upd (insert_row clash r) t of
        Inl e \<Rightarrow> Inl e
      | Inr (u, t') \<Rightarrow> if refs t' then Inr (u, t') else Inl ForeignKeyViolation)"

definition update_into ::
  "(tables \<Rightarrow> 'r list) \<Rightarrow> (('r list \<Rightarrow> 'r list) \<Rightarrow> tables \<Rightarrow> tables) \<Rightarrow>
   ('r \<Rightarrow> 'r \<Rightarrow> bool) \<Rightarrow> (tables \<Rightarrow> bool) \<Rightarrow> ('r \<Rightarrow> bool) \<Rightarrow> ('r \<Rightarrow> 'r) \<Rightarrow> int stmt" where
  "update_into get upd clash refs P f t =
     (case on_table get upd (update_keyed clash P f) t of
        Inl e \<Rightarrow> Inl e
      | Inr (n, t') \<Rightarrow> if n = 0 \<or> refs t' then Inr (n, t') else Inl ForeignKeyViolation)"

text \<open>Values of an enumeration and JSONB texts are converted before the statement runs.\<close>

definition typed :: "(string \<times> string list) list \<Rightarrow> bool" where
  "typed vs = list_all (\<lambda>(v, enum). v \<in> set enum) vs"

definition opt_jsonb :: "(string \<Rightarrow> bool) \<Rightarrow> string option \<Rightarrow> bool" where
  "opt_jsonb jsonb s = (case s of None \<Rightarrow> True | Some x \<Rightarrow> jsonb x)"

section \<open>Keys of the schema\<close>

text \<open>Equality of two nullable CITEXT values: NULL equals nothing, letter case does not count.\<close>

fun citext_eq :: "string option \<Rightarrow> string option \<Rightarrow> bool" where
  "citext_eq (Some a) (Some b) \<longleftrightarrow> ToLower a = ToLower b"
| "citext_eq _ _ \<longleftrightarrow> False"

lemma citext_eq_sym: "citext_eq a b \<Longrightarrow> citext_eq b a"
  by (cases a; cases b) auto

definition user_clash :: "User \<Rightarrow> User \<Rightarrow> bool" where
  "user_clash a b \<longleftrightarrow> usr_ID a = usr_ID b \<or>
     citext_eq (usr_PhoneNumber a) (usr_PhoneNumber b) \<or>
     citext_eq (usr_Username a) (usr_Username b) \<or>
     citext_eq (usr_Email a) (usr_Email b)"

definition settings_clash :: "UserSettings \<Rightarrow> UserSettings \<Rightarrow> bool" where
  "settings_clash a b \<longleftrightarrow> st_UserID a = st_UserID b"

definition device_clash :: "Device \<Rightarrow> Device \<Rightarrow> bool" where
  "device_clash a b \<longleftrightarrow> dev_ID a = dev_ID b \<or>
     (dev_UserID a = dev_UserID b \<and> dev_DeviceID a = dev_DeviceID b)"

definition push_token_clash :: "PushToken \<Rightarrow> PushToken \<Rightarrow> bool" where
  "push_token_clash a b \<longleftrightarrow> pt_ID a = pt_ID b \<or>
     (pt_DeviceID a = pt_DeviceID b \<and> pt_Token a = pt_Token b)"

definition session_clash :: "UserSession \<Rightarrow> UserSession \<Rightarrow> bool" where
  "session_clash a b \<longleftrightarrow> ses_ID a = ses_ID b"

definition contact_clash :: "UserContact \<Rightarrow> UserContact \<Rightarrow> bool" where
  "contact_clash a b \<longleftrightarrow> con_UserID a = con_UserID b \<and> con_ContactUserID a = con_ContactUserID b"

definition conversation_clash :: "Conversation \<Rightarrow> Conversation \<Rightarrow> bool" where
  "conversation_clash a b \<longleftrightarrow> conv_ID a = conv_ID b"

definition participant_clash :: "Participant \<Rightarrow> Participant \<Rightarrow> bool" where
  "participant_clash a b \<longleftrightarrow>
     part_ConversationID a = part_ConversationID b \<and> part_UserID a = part_UserID b"

definition sequence_clash :: "ConversationSequence \<Rightarrow> ConversationSequence \<Rightarrow> bool" where
  "sequence_clash a b \<longleftrightarrow> cseq_ConversationID a = cseq_ConversationID b"

definition message_clash :: "Message \<Rightarrow> Message \<Rightarrow> bool" where
  "message_clash a b \<longleftrightarrow> msg_ID a = msg_ID b \<or>
     (msg_ConversationID a = msg_ConversationID b \<and> msg_ClientMessageID a \<noteq> None \<and>
      msg_ClientMessageID a = msg_ClientMessageID b)"

definition ciphertext_clash :: "MessageCiphertext \<Rightarrow> MessageCiphertext \<Rightarrow> bool" where
  "ciphertext_clash a b \<longleftrightarrow> mc_ID a = mc_ID b \<or>
     (mc_MessageID a = mc_MessageID b \<and> mc_RecipientDeviceID a = mc_RecipientDeviceID b)"

definition reaction_clash :: "MessageReaction \<Rightarrow> MessageReaction \<Rightarrow> bool" where
  "reaction_clash a b \<longleftrightarrow> rct_ID a = rct_ID b \<or>
     (rct_MessageID a = rct_MessageID b \<and> rct_UserID a = rct_UserID b \<and>
      rct_ReactionCode a = rct_ReactionCode b)"

definition receipt_clash :: "MessageReceipt \<Rightarrow> MessageReceipt \<Rightarrow> bool" where
  "receipt_clash a b \<longleftrightarrow> rcp_MessageID a = rcp_MessageID b \<and> rcp_UserID a = rcp_UserID b"

definition mention_clash :: "MessageMention \<Rightarrow> MessageMention \<Rightarrow> bool" where
  "mention_clash a b \<longleftrightarrow> mnt_MessageID a = mnt_MessageID b \<and> mnt_UserID a = mnt_UserID b \<and>
     mnt_Offset a = mnt_Offset b"

definition starred_clash :: "StarredMessage \<Rightarrow> StarredMessage \<Rightarrow> bool" where
  "starred_clash a b \<longleftrightarrow> star_UserID a = star_UserID b \<and> star_MessageID a = star_MessageID b"

definition link_preview_clash :: "LinkPreview \<Rightarrow> LinkPreview \<Rightarrow> bool" where
  "link_preview_clash a b \<longleftrightarrow> lp_ID a = lp_ID b \<or> lp_URLHash a = lp_URLHash b"

definition attachment_clash :: "Attachment \<Rightarrow> Attachment \<Rightarrow> bool" where
  "attachment_clash a b \<longleftrightarrow> att_ID a = att_ID b"

definition message_attachment_clash :: "MessageAttachment \<Rightarrow> MessageAttachment \<Rightarrow> bool" where
  "message_attachment_clash a b \<longleftrightarrow>
     ma_MessageID a = ma_MessageID b \<and> ma_AttachmentID a = ma_AttachmentID b"

definition poll_clash :: "Poll \<Rightarrow> Poll \<Rightarrow> bool" where
  "poll_clash a b \<longleftrightarrow> poll_ID a = poll_ID b"

definition poll_option_clash :: "PollOption \<Rightarrow> PollOption \<Rightarrow> bool" where
  "poll_option_clash a b \<longleftrightarrow> opt_ID a = opt_ID b"

definition poll_vote_clash :: "PollVote \<Rightarrow> PollVote \<Rightarrow> bool" where
  "poll_vote_clash a b \<longleftrightarrow> vote_PollID a = vote_PollID b \<and> vote_OptionID a = vote_OptionID b \<and>
     vote_UserID a = vote_UserID b"

definition call_clash :: "Call \<Rightarrow> Call \<Rightarrow> bool" where
  "call_clash a b \<longleftrightarrow> call_ID a = call_ID b"

definition call_participant_clash :: "CallParticipant \<Rightarrow> CallParticipant \<Rightarrow> bool" where
  "call_participant_clash a b \<longleftrightarrow> cp_CallID a = cp_CallID b \<and> cp_UserID a = cp_UserID b"

definition quality_metric_clash :: "CallQualityMetric \<Rightarrow> CallQualityMetric \<Rightarrow> bool" where
  "quality_metric_clash a b \<longleftrightarrow> cqm_ID a = cqm_ID b"

definition identity_key_clash :: "IdentityKey \<Rightarrow> IdentityKey \<Rightarrow> bool" where
  "identity_key_clash a b \<longleftrightarrow> ik_ID a = ik_ID b \<or>
     (ik_UserID a = ik_UserID b \<and> ik_DeviceID a = ik_DeviceID b)"

definition signed_prekey_clash :: "SignedPreKey \<Rightarrow> SignedPreKey \<Rightarrow> bool" where
  "signed_prekey_clash a b \<longleftrightarrow> sk_ID a = sk_ID b \<or>
     (sk_DeviceID a = sk_DeviceID b \<and> sk_KeyID a = sk_KeyID b)"

definition onetime_prekey_clash :: "OneTimePreKey \<Rightarrow> OneTimePreKey \<Rightarrow> bool" where
  "onetime_prekey_clash a b \<longleftrightarrow> otk_ID a = otk_ID b \<or>
     (otk_DeviceID a = otk_DeviceID b \<and> otk_KeyID a = otk_KeyID b)"

definition outbox_clash :: "OutboxEvent \<Rightarrow> OutboxEvent \<Rightarrow> bool" where
  "outbox_clash a b \<longleftrightarrow> ob_ID a = ob_ID b"

definition command_log_clash :: "CommandLog \<Rightarrow> CommandLog \<Rightarrow> bool" where
  "command_log_clash a b \<longleftrightarrow> log_ID a = log_ID b"

definition upload_clash :: "UploadSession \<Rightarrow> UploadSession \<Rightarrow> bool" where
  "upload_clash a b \<longleftrightarrow> up_ID a = up_ID b"

definition broadcast_list_clash :: "BroadcastList \<Rightarrow> BroadcastList \<Rightarrow> bool" where
  "broadcast_list_clash a b \<longleftrightarrow> bl_ID a = bl_ID b"

definition broadcast_recipient_clash :: "BroadcastRecipient \<Rightarrow> BroadcastRecipient \<Rightarrow> bool" where
  "broadcast_recipient_clash a b \<longleftrightarrow>
     br_BroadcastID a = br_BroadcastID b \<and> br_UserID a = br_UserID b"

lemmas clash_defs = user_clash_def settings_clash_def device_clash_def push_token_clash_def
  session_clash_def contact_clash_def conversation_clash_def participant_clash_def
  sequence_clash_def message_clash_def ciphertext_clash_def reaction_clash_def
  receipt_clash_def mention_clash_def starred_clash_def link_preview_clash_def
  attachment_clash_def message_attachment_clash_def poll_clash_def poll_option_clash_def
  poll_vote_clash_def call_clash_def call_participant_clash_def quality_metric_clash_def identity_key_clash_def
  signed_prekey_clash_def onetime_prekey_clash_def outbox_clash_def command_log_clash_def
  upload_clash_def broadcast_list_clash_def broadcast_recipient_clash_def

interpretation users_key: row_key user_clash
  by unfold_locales (auto simp: clash_defs intro: citext_eq_sym)

interpretation sessions_key: row_key session_clash
  by unfold_locales (auto simp: clash_defs)

interpretation devices_key: row_key device_clash
  by unfold_locales (auto simp: clash_defs)

interpretation conversations_key: row_key conversation_clash
  by unfold_locales (auto simp: clash_defs)

interpretation participants_key: row_key participant_clash
  by unfold_locales (auto simp: clash_defs)

interpretation sequences_key: row_key sequence_clash
  by unfold_locales (auto simp: clash_defs)

interpretation messages_key: row_key message_clash
  by unfold_locales (metis message_clash_def)

interpretation ciphertexts_key: row_key ciphertext_clash
  by unfold_locales (auto simp: clash_defs)

interpretation receipts_key: row_key receipt_clash
  by unfold_locales (auto simp: clash_defs)

interpretation reactions_key: row_key reaction_clash
  by unfold_locales (auto simp: clash_defs)

interpretation outbox_key: row_key outbox_clash
  by unfold_locales (auto simp: clash_defs)

interpretation onetime_prekeys_key: row_key onetime_prekey_clash
  by unfold_locales (auto simp: clash_defs)

interpretation calls_key: row_key call_clash
  by unfold_locales (auto simp: clash_defs)

interpretation call_participants_key: row_key call_participant_clash
  by unfold_locales (auto simp: clash_defs)

interpretation quality_metrics_key: row_key quality_metric_clash
  by unfold_locales (auto simp: clash_defs)

interpretation command_logs_key: row_key command_log_clash
  by unfold_locales (auto simp: clash_defs)

section \<open>Foreign keys\<close>

definition has_user :: "tables \<Rightarrow> uuid \<Rightarrow> bool" where
  "has_user t u = list_ex (\<lambda>r. usr_ID r = u) (t_users t)"

definition has_device :: "tables \<Rightarrow> uuid \<Rightarrow> bool" where
  "has_device t d = list_ex (\<lambda>r. dev_ID r = d) (t_devices t)"

definition has_conversation :: "tables \<Rightarrow> uuid \<Rightarrow> bool" where
  "has_conversation t c = list_ex (\<lambda>r. conv_ID r = c) (t_conversations t)"

definition has_message :: "tables \<Rightarrow> uuid \<Rightarrow> bool" where
  "has_message t m = list_ex (\<lambda>r. msg_ID r = m) (t_messages t)"

definition has_attachment :: "tables \<Rightarrow> uuid \<Rightarrow> bool" where
  "has_attachment t a = list_ex (\<lambda>r. att_ID r = a) (t_attachments t)"

definition has_poll :: "tables \<Rightarrow> uuid \<Rightarrow> bool" where
  "has_poll t p = list_ex (\<lambda>r. poll_ID r = p) (t_polls t)"

definition has_poll_option :: "tables \<Rightarrow> uuid \<Rightarrow> bool" where
  "has_poll_option t p = list_ex (\<lambda>r. opt_ID r = p) (t_poll_options t)"

definition has_call :: "tables \<Rightarrow> uuid \<Rightarrow> bool" where
  "has_call t c = list_ex (\<lambda>r. call_ID r = c) (t_calls t)"

definition has_broadcast_list :: "tables \<Rightarrow> uuid \<Rightarrow> bool" where
  "has_broadcast_list t b = list_ex (\<lambda>r. bl_ID r = b) (t_broadcast_lists t)"

text \<open>A nullable reference.\<close>

definition opt_ref :: "(uuid \<Rightarrow> bool) \<Rightarrow> uuid option \<Rightarrow> bool" where
  "opt_ref has r = (case r of None \<Rightarrow> True | Some u \<Rightarrow> has u)"

end
