(* ===== verification/Transactions.thy ===== *)
theory Transactions
  imports Database
begin

text \<open>
  Reasoning about statements and transactions: which predicates of the world the primitives
  keep, that a transaction body never touches the committed tables, and that \<^verbatim>\<open>WithTx\<close> is
  therefore all or nothing. The deletion statements, with the ON DELETE actions of the
  schema, are here too because several repositories share them.
\<close>

section \<open>Statements\<close>

text \<open>\<open>stmt_keeps J f\<close>: a statement that succeeds on tables satisfying \<open>J\<close> keeps \<open>J\<close>.\<close>

definition stmt_keeps :: "(tables \<Rightarrow> bool) \<Rightarrow> 'a stmt \<Rightarrow> bool" where
  "stmt_keeps J f \<longleftrightarrow> (\<forall>t x t'. J t \<longrightarrow> f t = Inr (x, t') \<longrightarrow> J t')"

named_theorems stmt_intros \<open>rules that show that a statement keeps a predicate of the tables\<close>

lemma stmt_keepsI: "(\<And>t x t'. J t \<Longrightarrow> f t = Inr (x, t') \<Longrightarrow> J t') \<Longrightarrow> stmt_keeps J f"
  by (simp add: stmt_keeps_def)

lemma stmt_keepsD: "stmt_keeps J f \<Longrightarrow> J t \<Longrightarrow> f t = Inr (x, t') \<Longrightarrow> J t'"
  by (simp add: stmt_keeps_def)

lemma stmt_keeps_query [stmt_intros]: "stmt_keeps J (query f)"
  by (simp add: stmt_keeps_def query_def)

lemma stmt_keeps_query_page [stmt_intros]: "stmt_keeps J (query_page off lim f)"
  by (auto simp: stmt_keeps_def query_page_def split: sum.splits)

lemma stmt_keeps_checked [stmt_intros]:
  "(\<And>t. J t \<Longrightarrow> c t \<Longrightarrow> \<forall>x t'. f t = Inr (x, t') \<longrightarrow> J t') \<Longrightarrow> stmt_keeps J (checked e c f)"
  by (auto simp: stmt_keeps_def checked_def split: if_splits)

lemma stmt_keeps_on_table:
  assumes "\<And>t x rs. J t \<Longrightarrow> f (get t) = Inr (x, rs) \<Longrightarrow> J (upd (\<lambda>_. rs) t)"
  shows "stmt_keeps J (on_table get upd f)"
  using assms by (auto simp: stmt_keeps_def on_table_def split: sum.splits)

lemma on_table_Inr:
  "on_table get upd f t = Inr (x, t') \<longleftrightarrow>
     (\<exists>rs. f (get t) = Inr (x, rs) \<and> t' = upd (\<lambda>_. rs) t)"
  by (auto simp: on_table_def split: sum.splits)

lemma on_table_Inl: "on_table get upd f t = Inl e \<longleftrightarrow> f (get t) = Inl e"
  by (auto simp: on_table_def split: sum.splits)

lemma checked_Inr: "checked e c f t = Inr p \<longleftrightarrow> c t \<and> f t = Inr p"
  by (simp add: checked_def)

lemma query_Inr [simp]: "query f t = Inr (x, t') \<longleftrightarrow> x = f t \<and> t' = t"
  by (auto simp: query_def)

lemma insert_row_Inr:
  "insert_row clash r rs = Inr (u, rs') \<longleftrightarrow> (\<forall>x\<in>set rs. \<not> clash x r) \<and> rs' = rs @ [r]"
  by (auto simp: insert_row_def list_ex_iff)

lemma insert_row_ok [simp]:
  "(\<forall>x\<in>set rs. \<not> clash x r) \<Longrightarrow> insert_row clash r rs = Inr ((), rs @ [r])"
  by (auto simp: insert_row_def list_ex_iff)

lemma insert_into_Inr:
  "insert_into get upd clash refs r t = Inr (u, t') \<longleftrightarrow>
     (\<forall>x\<in>set (get t). \<not> clash x r) \<and> t' = upd (\<lambda>_. get t @ [r]) t \<and> refs t'"
  by (auto simp: insert_into_def on_table_def insert_row_def list_ex_iff split: sum.splits if_splits)

lemma insert_into_Inl:
  "insert_into get upd clash refs r t = Inl e \<longleftrightarrow>
     (\<exists>x\<in>set (get t). clash x r) \<and> e = UniqueViolation \<or>
     (\<forall>x\<in>set (get t). \<not> clash x r) \<and> \<not> refs (upd (\<lambda>_. get t @ [r]) t) \<and>
     e = ForeignKeyViolation"
  by (auto simp: insert_into_def on_table_def insert_row_def list_ex_iff split: sum.splits if_splits)

lemma update_into_Inr:
  "update_into get upd clash refs P f t = Inr (n, t') \<longleftrightarrow>
     clash_free clash (map_where P f (get t)) \<and> n = count_where P (get t) \<and>
     t' = upd (\<lambda>_. map_where P f (get t)) t \<and> (n = 0 \<or> refs t')"
  by (auto simp: update_into_def on_table_def update_keyed_def split: sum.splits if_splits)

lemmas stmt_simps = insert_into_Inr update_into_Inr on_table_Inr checked_Inr insert_row_Inr
  update_where_def delete_where_def

section \<open>Running the primitives\<close>

lemma run_time_Now [simp, run_simps]:
  "run_state time_Now w = (w_now w (w_step w), w\<lparr>w_step := Suc (w_step w)\<rparr>)"
  by (simp add: time_Now_def)

lemma run_uuid_New [simp, run_simps]:
  "run_state uuid_New w = (w_new w (w_step w), w\<lparr>w_step := Suc (w_step w)\<rparr>)"
  by (simp add: uuid_New_def)

lemma run_jsonb_input [simp, run_simps]: "run_state jsonb_input w = (w_jsonb w, w)"
  by (simp add: jsonb_input_def)

text \<open>The world after a statement on the pool, and after one in the open transaction.\<close>

lemma run_sql_Pool [run_simps]:
  "run_state (sql Pool f) w =
     (let w1 = w\<lparr>w_step := Suc (w_step w)\<rparr>
      in case w_fault w (w_step w) of
           Some e \<Rightarrow> (Inl (SqlError e), w1)
         | None \<Rightarrow> (case f (w_db w) of
                      Inl e \<Rightarrow> (Inl (SqlError e), w1)
                    | Inr (x, t) \<Rightarrow> (Inr x, w1\<lparr>w_db := t\<rparr>)))"
  by (simp add: sql_def Let_def)

lemma run_sql_Tx [run_simps]:
  "run_state (sql Tx f) w =
     (let w1 = w\<lparr>w_step := Suc (w_step w)\<rparr>
      in case w_tx w of
           None \<Rightarrow> (Inl (SqlError TxDone), w1)
         | Some (t, aborted) \<Rightarrow>
             if aborted then (Inl (SqlError TxAborted), w1)
             else (case w_fault w (w_step w) of
                     Some e \<Rightarrow> (Inl (SqlError e), w1\<lparr>w_tx := Some (t, True)\<rparr>)
                   | None \<Rightarrow> (case f t of
                                Inl e \<Rightarrow> (Inl (SqlError e), w1\<lparr>w_tx := Some (t, True)\<rparr>)
                              | Inr (x, t') \<Rightarrow> (Inr x, w1\<lparr>w_tx := Some (t', False)\<rparr>))))"
  by (simp add: sql_def Let_def)

lemma sql_Pool_Inr:
  "run_state (sql Pool f) w = (Inr x, w') \<longleftrightarrow>
     w_fault w (w_step w) = None \<and>
     (\<exists>t. f (w_db w) = Inr (x, t) \<and> w' = w\<lparr>w_step := Suc (w_step w), w_db := t\<rparr>)"
  by (auto simp: run_sql_Pool Let_def split: option.splits sum.splits)

lemma sql_Tx_Inr:
  "run_state (sql Tx f) w = (Inr x, w') \<longleftrightarrow>
     (\<exists>t t'. w_tx w = Some (t, False) \<and> w_fault w (w_step w) = None \<and> f t = Inr (x, t') \<and>
             w' = w\<lparr>w_step := Suc (w_step w), w_tx := Some (t', False)\<rparr>)"
  by (auto simp: run_sql_Tx Let_def split: option.splits sum.splits if_splits)

lemma sql_NilDB [run_simps, simp]:
  "run_state (sql NilDB f) w = (Inl (Panic ''nil pointer dereference''), w)"
  by (simp add: sql_def Let_def)

text \<open>
  The tables a statement sent through \<open>db\<close> sees, and the world after it replaced them. With
  these two, what a repository method does on success is stated once for the pool and the
  transaction.
\<close>

definition visible :: "DBTX \<Rightarrow> world \<Rightarrow> tables option" where
  "visible db w =
     (case db of
        NilDB \<Rightarrow> None
      | Pool \<Rightarrow> Some (w_db w)
      | Tx \<Rightarrow> (case w_tx w of None \<Rightarrow> None | Some (t, aborted) \<Rightarrow> if aborted then None else Some t))"

definition put_visible :: "DBTX \<Rightarrow> tables \<Rightarrow> world \<Rightarrow> world" where
  "put_visible db t w =
     (case db of NilDB \<Rightarrow> w | Pool \<Rightarrow> w\<lparr>w_db := t\<rparr> | Tx \<Rightarrow> w\<lparr>w_tx := Some (t, False)\<rparr>)"

definition tick :: "world \<Rightarrow> world" where
  "tick w = w\<lparr>w_step := Suc (w_step w)\<rparr>"

lemma visible_tick [simp]: "visible db (tick w) = visible db w"
  by (simp add: visible_def tick_def split: DBTX.split)

lemma visible_put [simp]: "db \<noteq> NilDB \<Longrightarrow> visible db (put_visible db t w) = Some t"
  by (simp add: visible_def put_visible_def split: DBTX.split)

lemma world_fields_tick [simp]:
  "w_step (tick w) = Suc (w_step w)" "w_db (tick w) = w_db w" "w_tx (tick w) = w_tx w"
  "w_now (tick w) = w_now w" "w_new (tick w) = w_new w" "w_fault (tick w) = w_fault w"
  "w_jsonb (tick w) = w_jsonb w"
  by (simp_all add: tick_def)

lemma world_fields_put [simp]:
  "w_step (put_visible db t w) = w_step w"
  "w_now (put_visible db t w) = w_now w" "w_new (put_visible db t w) = w_new w"
  "w_fault (put_visible db t w) = w_fault w" "w_jsonb (put_visible db t w) = w_jsonb w"
  by (simp_all add: put_visible_def split: DBTX.split)

lemma put_visible_unchanged [simp]: "visible db w = Some t \<Longrightarrow> put_visible db t (tick w) = tick w"
  by (auto simp: put_visible_def visible_def tick_def split: DBTX.splits option.splits if_splits)

lemma put_visible_put [simp]: "put_visible db t (put_visible db t' w) = put_visible db t w"
  by (simp add: put_visible_def split: DBTX.split)

lemma put_visible_Pool_Tx [simp]:
  "w_db (put_visible Pool t w) = t" "w_db (put_visible Tx t w) = w_db w"
  "w_tx (put_visible Pool t w) = w_tx w" "w_tx (put_visible Tx t w) = Some (t, False)"
  by (simp_all add: put_visible_def)

lemma sql_Inr:
  "run_state (sql db f) w = (Inr x, w') \<longleftrightarrow>
     w_fault w (w_step w) = None \<and>
     (\<exists>t t'. visible db w = Some t \<and> f t = Inr (x, t') \<and> w' = put_visible db t' (tick w))"
  by (cases db)
     (auto simp: sql_Pool_Inr sql_Tx_Inr visible_def put_visible_def tick_def
        split: option.splits if_splits)

lemma run_sql [run_simps]:
  assumes "visible db w = Some t" and "w_fault w (w_step w) = None"
  shows "run_state (sql db f) w =
    (case f t of
       Inr (x, t') \<Rightarrow> (Inr x, put_visible db t' (tick w))
     | Inl e \<Rightarrow> (Inl (SqlError e),
         if db = Tx then (tick w)\<lparr>w_tx := Some (t, True)\<rparr> else tick w))"
  using assms
  by (cases db)
     (auto simp: run_sql_Pool run_sql_Tx visible_def put_visible_def tick_def Let_def
        split: option.splits if_splits sum.splits)

lemma queryRow_Inr:
  "run_state (queryRow db f) w = (Inr r, w') \<longleftrightarrow>
     w_fault w (w_step w) = None \<and>
     (\<exists>t rs. visible db w = Some t \<and> f t = r # rs \<and> w' = tick w)"
proof
  assume "run_state (queryRow db f) w = (Inr r, w')"
  then obtain rows w1 where *: "run_state (sql db (query f)) w = (Inr rows, w1)"
    and rest: "run_state (case rows of [] \<Rightarrow> fail (SqlError NoRows) | r # _ \<Rightarrow> ok r) w1 = (Inr r, w')"
    unfolding queryRow_def by (rule andThen_Inr)
  from rest obtain rs where "rows = r # rs" "w' = w1" by (cases rows) auto
  with * show "w_fault w (w_step w) = None \<and>
     (\<exists>t rs. visible db w = Some t \<and> f t = r # rs \<and> w' = tick w)"
    by (metis query_Inr sql_Inr put_visible_unchanged)
next
  assume "w_fault w (w_step w) = None \<and>
     (\<exists>t rs. visible db w = Some t \<and> f t = r # rs \<and> w' = tick w)"
  then obtain t rs where "w_fault w (w_step w) = None" "visible db w = Some t" "f t = r # rs"
    "w' = tick w" by auto
  then show "run_state (queryRow db f) w = (Inr r, w')"
    by (simp add: queryRow_def run_sql query_def)
qed

lemma mapErr_Inr:
  "run_state (mapErr f m) w = (Inr x, w') \<longleftrightarrow> run_state m w = (Inr x, w')"
  by (auto split: prod.splits sum.splits)

lemma affected_Inr:
  "run_state (affected m) w = (Inr u, w') \<longleftrightarrow> (\<exists>n. run_state m w = (Inr n, w') \<and> n \<noteq> 0)"
  by (auto simp: affected_def split: prod.splits sum.splits if_splits)

section \<open>Frames\<close>

text \<open>
  The parameters of the world never change, and the step counter never goes back; with
  the rules of \<open>keeps\<close> this lifts to every operation.
\<close>

definition same_params :: "world \<Rightarrow> world \<Rightarrow> bool" where
  "same_params w0 w \<longleftrightarrow> w_now w = w_now w0 \<and> w_new w = w_new w0 \<and> w_fault w = w_fault w0 \<and>
     w_jsonb w = w_jsonb w0 \<and> w_step w0 \<le> w_step w"

text \<open>A predicate that holds of the committed tables and of the open transaction's copy.\<close>

definition all_dbs :: "(tables \<Rightarrow> bool) \<Rightarrow> world \<Rightarrow> bool" where
  "all_dbs J w \<longleftrightarrow> J (w_db w) \<and> (\<forall>t a. w_tx w = Some (t, a) \<longrightarrow> J t)"

text \<open>The committed tables are exactly \<open>d\<close>.\<close>

definition committed :: "tables \<Rightarrow> world \<Rightarrow> bool" where
  "committed d w \<longleftrightarrow> w_db w = d"

lemma keeps_step:
  assumes "\<And>w n. I w \<Longrightarrow> I (w\<lparr>w_step := n\<rparr>)"
  shows "keeps I time_Now" "keeps I uuid_New"
  using assms by (auto simp: keeps_def)

lemma keeps_jsonb_input [keeps_intros]: "keeps I jsonb_input"
  by (simp add: keeps_def)

lemma keeps_all_dbs_step [keeps_intros]:
  "keeps (all_dbs J) time_Now" "keeps (all_dbs J) uuid_New"
  by (rule keeps_step; simp add: all_dbs_def)+

lemma keeps_committed_step [keeps_intros]:
  "keeps (committed d) time_Now" "keeps (committed d) uuid_New"
  by (rule keeps_step; simp add: committed_def)+

lemma keeps_same_params_step [keeps_intros]:
  "keeps (same_params w0) time_Now" "keeps (same_params w0) uuid_New"
  by (auto simp: keeps_def same_params_def)

lemma keeps_all_dbs_sql [keeps_intros]:
  assumes "stmt_keeps J f"
  shows "keeps (all_dbs J) (sql db f)"
proof (rule keepsI)
  fix w r w'
  assume "all_dbs J w" "run_state (sql db f) w = (r, w')"
  with assms show "all_dbs J w'"
    by (cases db)
       (auto simp: run_sql_Pool run_sql_Tx Let_def all_dbs_def stmt_keeps_def
          split: option.splits sum.splits if_splits)
qed

lemma keeps_committed_sql_Tx [keeps_intros]: "keeps (committed d) (sql Tx f)"
  by (auto simp: keeps_def run_sql_Tx Let_def committed_def
      split: option.splits sum.splits if_splits)

text \<open>On the pool, only reading is sure to leave the committed tables alone.\<close>

definition reads_only :: "'a stmt \<Rightarrow> bool" where
  "reads_only f \<longleftrightarrow> (\<forall>t x t'. f t = Inr (x, t') \<longrightarrow> t' = t)"

lemma reads_only_query [intro, simp]: "reads_only (query f)"
  by (simp add: reads_only_def)

lemma reads_only_query_page [intro, simp]: "reads_only (query_page off lim f)"
  by (auto simp: reads_only_def query_page_def split: sum.splits)

lemma keeps_committed_reads_only [keeps_intros]:
  assumes "reads_only f"
  shows "keeps (committed d) (sql db f)"
  using assms
  by (cases db)
     (auto simp: keeps_def run_sql_Pool run_sql_Tx Let_def committed_def reads_only_def
        split: option.splits sum.splits if_splits)

lemma keeps_same_params_sql [keeps_intros]: "keeps (same_params w0) (sql db f)"
  by (cases db)
     (auto simp: keeps_def run_sql_Pool run_sql_Tx Let_def same_params_def
        split: option.splits sum.splits if_splits)

lemma keeps_queryRow_all_dbs [keeps_intros]: "keeps (all_dbs J) (queryRow db f)"
  unfolding queryRow_def by (intro keeps_intros stmt_intros)

lemma keeps_queryRow_committed [keeps_intros]: "keeps (committed d) (queryRow db f)"
  unfolding queryRow_def by (intro keeps_intros) simp

lemma keeps_queryRow_same_params [keeps_intros]: "keeps (same_params w0) (queryRow db f)"
  unfolding queryRow_def by (intro keeps_intros)

lemma keeps_affected [keeps_intros]: "keeps I m \<Longrightarrow> keeps I (affected m)"
  unfolding affected_def by (auto intro!: keeps_intros)

lemma keeps_void [keeps_intros]: "keeps I m \<Longrightarrow> keeps I (void m)"
  unfolding void_def by (auto intro!: keeps_intros)

text \<open>A predicate of the committed tables that a statement on the pool may change but keeps.\<close>

definition pool_holds :: "(tables \<Rightarrow> bool) \<Rightarrow> world \<Rightarrow> bool" where
  "pool_holds J w \<longleftrightarrow> J (w_db w)"

lemma keeps_pool_holds_step [keeps_intros]:
  "keeps (pool_holds J) time_Now" "keeps (pool_holds J) uuid_New"
  by (rule keeps_step; simp add: pool_holds_def)+

lemma keeps_pool_holds_sql [keeps_intros]:
  assumes "stmt_keeps J f"
  shows "keeps (pool_holds J) (sql db f)"
proof (rule keepsI)
  fix w r w'
  assume "pool_holds J w" "run_state (sql db f) w = (r, w')"
  with assms show "pool_holds J w'"
    by (cases db)
       (auto simp: run_sql_Pool run_sql_Tx Let_def pool_holds_def stmt_keeps_def
          split: option.splits sum.splits if_splits)
qed

lemma keeps_pool_holds_queryRow [keeps_intros]: "keeps (pool_holds J) (queryRow db f)"
  unfolding queryRow_def by (intro keeps_intros stmt_intros)

lemma pool_holdsD:
  assumes "run_state m w = (r, w')" "keeps (pool_holds J) m" "J (w_db w)"
  shows "J (w_db w')"
  using keepsD [OF assms(2) _ assms(1)] assms(3) by (simp add: pool_holds_def)

section \<open>Transactions\<close>

lemma keeps_all_dbs_tx_control [keeps_intros]:
  "keeps (all_dbs J) BeginTx" "keeps (all_dbs J) Rollback" "keeps (all_dbs J) Commit"
  by (auto simp: keeps_def BeginTx_def Rollback_def Commit_def Let_def all_dbs_def
      split: option.splits if_splits)

lemma keeps_same_params_tx_control [keeps_intros]:
  "keeps (same_params w0) BeginTx" "keeps (same_params w0) Rollback"
  "keeps (same_params w0) Commit"
  by (auto simp: keeps_def BeginTx_def Rollback_def Commit_def Let_def same_params_def
      split: option.splits if_splits)

lemma keeps_committed_begin_rollback [keeps_intros]:
  "keeps (committed d) BeginTx" "keeps (committed d) Rollback"
  by (auto simp: keeps_def BeginTx_def Rollback_def Let_def committed_def split: option.splits)

lemma keeps_case_error [keeps_intros]:
  "(\<And>x. keeps I (f x)) \<Longrightarrow> keeps I g \<Longrightarrow>
   keeps I (case e of SqlError x \<Rightarrow> f x | _ \<Rightarrow> g)"
  by (simp split: error.split)

lemma keeps_all_dbs_WithTx [keeps_intros]:
  assumes "\<And>d. keeps (all_dbs J) (fn d)"
  shows "keeps (all_dbs J) (WithTx db fn)"
  unfolding WithTx_def
  by (cases db) (auto intro!: keeps_intros assms split: sum.split error.split)

lemma keeps_same_params_WithTx [keeps_intros]:
  assumes "\<And>d. keeps (same_params w0) (fn d)"
  shows "keeps (same_params w0) (WithTx db fn)"
  unfolding WithTx_def
  by (cases db) (auto intro!: keeps_intros assms split: sum.split error.split)

lemma Commit_Inl: "run_state Commit w = (Inl e, w') \<Longrightarrow> w_db w' = w_db w"
  by (auto simp: Commit_def Let_def split: option.splits if_splits)

text \<open>
  All or nothing: if the body works on the transaction only, an error of \<^verbatim>\<open>WithTx\<close> (of the
  body, of the rollback or of the commit) leaves the committed tables as they were.
\<close>

lemma WithTx_error_keeps_db:
  assumes body: "\<And>d. keeps (committed d) (fn Tx)"
    and run: "run_state (WithTx Pool fn) w = (Inl e, w')"
  shows "w_db w' = w_db w"
proof -
  obtain r1 w1 where b: "run_state BeginTx w = (r1, w1)" by fastforce
  then have w1: "w_db w1 = w_db w"
    using keepsD [OF keeps_committed_begin_rollback(1)] by (fastforce simp: committed_def)
  obtain r2 w2 where f: "run_state (fn Tx) w1 = (r2, w2)" by fastforce
  then have w2: "w_db w2 = w_db w"
    using keepsD [OF body] w1 by (fastforce simp: committed_def)
  obtain r3 w3 where rb: "run_state Rollback w2 = (r3, w3)" by fastforce
  then have w3: "w_db w3 = w_db w"
    using keepsD [OF keeps_committed_begin_rollback(2)] w2 by (fastforce simp: committed_def)
  show ?thesis
    using run b f rb w1 w2 w3
    by (auto simp: WithTx_def split: sum.splits error.splits prod.splits dest: Commit_Inl)
qed

text \<open>
  A successful \<^verbatim>\<open>WithTx\<close> ran its body on a copy of the committed tables, with no failed
  statement, and then committed that copy.
\<close>

lemma WithTx_success:
  assumes "run_state (WithTx Pool fn) w = (Inr x, w')"
  obtains w1 w2 t where
    "w1 = w\<lparr>w_step := Suc (w_step w), w_tx := Some (w_db w, False)\<rparr>"
    "run_state (fn Tx) w1 = (Inr x, w2)" "w_tx w2 = Some (t, False)"
    "w_db w' = t" "w_tx w' = None" "w_step w' = Suc (w_step w2)"
  using assms
  by (auto simp: WithTx_def BeginTx_def Commit_def Let_def
      split: option.splits sum.splits if_splits error.splits prod.splits)

lemma WithTx_Inr:
  assumes "run_state (WithTx Pool fn) w = (Inr x, w')"
  obtains w1 w2 where "visible Tx w1 = Some (w_db w)" "same_params w w1"
    "run_state (fn Tx) w1 = (Inr x, w2)" "visible Tx w2 = Some (w_db w')"
proof (rule WithTx_success [OF assms])
  fix w1 w2 t
  assume "w1 = w\<lparr>w_step := Suc (w_step w), w_tx := Some (w_db w, False)\<rparr>"
    and "run_state (fn Tx) w1 = (Inr x, w2)" "w_tx w2 = Some (t, False)" "w_db w' = t"
  then show thesis
    by (intro that [of w1 w2]) (auto simp: visible_def same_params_def)
qed

text \<open>Conversely, a body without failed statement is committed if the connection holds.\<close>

lemma run_WithTx_success:
  assumes "run_state (fn Tx) (w\<lparr>w_step := Suc (w_step w), w_tx := Some (w_db w, False)\<rparr>) = (Inr x, w2)"
    and "w_tx w2 = Some (t, False)" and "w_fault w (w_step w) = None"
    and "w_fault w2 (w_step w2) = None"
  shows "run_state (WithTx Pool fn) w =
    (Inr x, w2\<lparr>w_step := Suc (w_step w2), w_tx := None, w_db := t\<rparr>)"
  using assms by (simp add: WithTx_def BeginTx_def Commit_def Let_def)

text \<open>A transaction that cannot even begin changes nothing.\<close>

lemma run_WithTx_no_begin:
  "w_fault w (w_step w) = Some e \<Longrightarrow>
     run_state (WithTx Pool fn) w = (Inl (SqlError e), w\<lparr>w_step := Suc (w_step w)\<rparr>)"
  by (simp add: WithTx_def BeginTx_def Let_def)

text \<open>No transaction is left open, whatever happens.\<close>

lemma WithTx_ends_tx:
  assumes "run_state (WithTx Pool fn) w = (r, w')" "w_tx w = None"
  shows "w_tx w' = None"
  using assms
  by (auto simp: WithTx_def BeginTx_def Rollback_def Commit_def Let_def
      split: option.splits sum.splits if_splits error.splits prod.splits)

definition no_tx :: "world \<Rightarrow> bool" where
  "no_tx w \<longleftrightarrow> w_tx w = None"

lemma keeps_no_tx_step [keeps_intros]: "keeps no_tx time_Now" "keeps no_tx uuid_New"
  by (rule keeps_step; simp add: no_tx_def)+

lemma keeps_no_tx_sql [keeps_intros]: "keeps no_tx (sql db f)"
  by (cases db)
     (auto simp: keeps_def run_sql_Pool run_sql_Tx Let_def no_tx_def
        split: option.splits sum.splits if_splits)

lemma keeps_no_tx_queryRow [keeps_intros]: "keeps no_tx (queryRow db f)"
  unfolding queryRow_def by (intro keeps_intros)

lemma keeps_no_tx_WithTx_Pool [keeps_intros]: "keeps no_tx (WithTx Pool fn)"
  by (auto simp: keeps_def no_tx_def intro: WithTx_ends_tx [OF prod.collapse [symmetric]])

text \<open>
  The usual shape of a service operation: reads on the pool, then one transaction. If it
  returns an error, the committed tables are untouched and no transaction stays open.
\<close>

lemma reads_then_tx_atomic:
  assumes reads: "\<And>d. keeps (committed d) m" and body: "\<And>d x. keeps (committed d) (fn x Tx)"
    and run: "run_state (andThen m (\<lambda>x. WithTx Pool (fn x))) w = (Inl e, w')"
  shows "w_db w' = w_db w"
  using run
proof (rule andThen_Inl)
  assume "run_state m w = (Inl e, w')"
  with keepsD [OF reads] show ?thesis by (fastforce simp: committed_def)
next
  fix x s1
  assume m: "run_state m w = (Inr x, s1)" and tx: "run_state (WithTx Pool (fn x)) s1 = (Inl e, w')"
  from keepsD [OF reads _ m] have "w_db s1 = w_db w" by (simp add: committed_def)
  moreover from WithTx_error_keeps_db [of "fn x", OF body tx] have "w_db w' = w_db s1" .
  ultimately show ?thesis by simp
qed

text \<open>A transaction that cannot be used any more: closed or aborted. It stays so.\<close>

definition tx_dead :: "world \<Rightarrow> bool" where
  "tx_dead w \<longleftrightarrow> visible Tx w = None"

lemma keeps_tx_dead_step [keeps_intros]: "keeps tx_dead time_Now" "keeps tx_dead uuid_New"
  by (rule keeps_step; simp add: tx_dead_def visible_def)+

lemma keeps_tx_dead_sql [keeps_intros]: "keeps tx_dead (sql Tx f)"
  by (auto simp: keeps_def run_sql_Tx Let_def tx_dead_def visible_def
      split: option.splits sum.splits if_splits)

text \<open>If the transaction is still alive after a discarded call, the call succeeded.\<close>

lemma sql_Tx_Inl_dead: "run_state (sql Tx f) w = (Inl e, w') \<Longrightarrow> visible Tx w' = None"
  by (auto simp: run_sql_Tx Let_def visible_def split: option.splits sum.splits if_splits)

section \<open>Operations that always fail\<close>

text \<open>\<open>fails m\<close>: whatever the state, \<open>m\<close> returns an error and leaves the committed tables alone.\<close>

definition fails :: "'a go \<Rightarrow> bool" where
  "fails m \<longleftrightarrow> (\<forall>w x w'. run_state m w = (x, w') \<longrightarrow> isl x \<and> w_db w' = w_db w)"

lemma fails_fail: "fails (fail e)"
  by (simp add: fails_def)

lemma fails_ill_typed: "fails (mapErr g (sql db (checked e (\<lambda>_. False) f)))"
  by (cases db)
    (auto simp: fails_def run_sql_Pool run_sql_Tx sql_def checked_def Let_def split: option.splits if_splits)

lemma fails_sql: "fails (sql db (checked e (\<lambda>_. False) f))"
  by (cases db)
    (auto simp: fails_def run_sql_Pool run_sql_Tx sql_def checked_def Let_def split: option.splits if_splits)

lemma fails_void: "fails m \<Longrightarrow> fails (void m)"
  unfolding fails_def void_def by (fastforce split: prod.splits sum.splits)

lemma failsD:
  assumes "run_state m w = (x, w')" "fails m"
  shows "isl x" "w_db w' = w_db w"
  using assms by (auto simp: fails_def)

lemma fails_andThen_first: "fails m \<Longrightarrow> fails (andThen m k)"
  unfolding fails_def by (fastforce split: prod.splits sum.splits)

lemma fails_bind:
  assumes "\<And>d. keeps (committed d) m" "\<And>x. fails (k x)"
  shows "fails (State_Monad.bind m k)"
  unfolding fails_def
proof (intro allI impI)
  fix w x w'
  assume run: "run_state (State_Monad.bind m k) w = (x, w')"
  obtain y w1 where m: "run_state m w = (y, w1)" by fastforce
  with keepsD [OF assms(1), of "w_db w" w] have "w_db w1 = w_db w" by (simp add: committed_def)
  with run m assms(2) show "isl x \<and> w_db w' = w_db w" by (auto simp: fails_def)
qed

lemma fails_andThen: "(\<And>d. keeps (committed d) m) \<Longrightarrow> (\<And>x. fails (k x)) \<Longrightarrow> fails (andThen m k)"
  unfolding andThen_def by (auto intro!: fails_bind fails_fail split: sum.split)

lemma sql_ill_typed [simp]: "run_state (sql db (checked e (\<lambda>_. False) f)) w \<noteq> (Inr x, w')"
  by (simp add: sql_Inr checked_def)

section \<open>Running on concrete worlds\<close>

text \<open>The definitions that run statements and transactions, for evaluation by \<open>simp\<close>.\<close>

lemmas exec_simps = run_sql_Pool run_sql_Tx WithTx_def BeginTx_def Commit_def Rollback_def
  query_def query_page_def offset_limit_def on_table_def checked_def queryRow_def notFound_def
  isUniqueViolation_def alreadyExists_def affected_def void_def insert_into_def update_into_def
  insert_row_def update_where_def update_keyed_def delete_where_def map_where_def count_where_def
  typed_def opt_jsonb_def clash_defs has_user_def has_device_def has_conversation_def
  has_message_def opt_ref_def Let_def

end
