(* ===== verification/Cascades.thy ===== *)
theory Cascades
  imports Transactions
begin

text \<open>
  DELETE statements with the ON DELETE actions of \<^verbatim>\<open>migrations/000002_schema.up.sql\<close>: the
  rows that reference a deleted row go with it (CASCADE), lose the reference (SET NULL), or
  make the statement fail (the references declared without an action). Only tables the
  repositories touch are listed; no code writes the others, so they are empty.
\<close>

section \<open>Rows that go with the deleted ones\<close>

definition drop_polls :: "(Poll \<Rightarrow> bool) \<Rightarrow> tables \<Rightarrow> tables" where
  "drop_polls P t =
     (let gone = map poll_ID (filter P (t_polls t));
          options = map opt_ID (filter (\<lambda>o'. opt_PollID o' \<in> set gone) (t_poll_options t))
      in t\<lparr>t_polls := filter (\<lambda>r. \<not> P r) (t_polls t),
           t_poll_options := filter (\<lambda>r. opt_PollID r \<notin> set gone) (t_poll_options t),
           t_poll_votes := filter (\<lambda>r. vote_PollID r \<notin> set gone \<and> vote_OptionID r \<notin> set options)
             (t_poll_votes t)\<rparr>)"

definition drop_messages :: "(Message \<Rightarrow> bool) \<Rightarrow> tables \<Rightarrow> tables" where
  "drop_messages P t =
     (let gone = set (map msg_ID (filter P (t_messages t)))
      in drop_polls (\<lambda>p. case poll_MessageID p of None \<Rightarrow> False | Some m \<Rightarrow> m \<in> gone)
        (t\<lparr>t_messages := filter (\<lambda>r. \<not> P r) (t_messages t),
           t_ciphertexts := filter (\<lambda>r. mc_MessageID r \<notin> gone) (t_ciphertexts t),
           t_reactions := filter (\<lambda>r. rct_MessageID r \<notin> gone) (t_reactions t),
           t_receipts := filter (\<lambda>r. rcp_MessageID r \<notin> gone) (t_receipts t),
           t_mentions := filter (\<lambda>r. mnt_MessageID r \<notin> gone) (t_mentions t),
           t_starred := filter (\<lambda>r. star_MessageID r \<notin> gone) (t_starred t),
           t_message_attachments :=
             filter (\<lambda>r. ma_MessageID r \<notin> gone) (t_message_attachments t)\<rparr>))"

definition drop_calls :: "(Call \<Rightarrow> bool) \<Rightarrow> tables \<Rightarrow> tables" where
  "drop_calls P t =
     (let gone = set (map call_ID (filter P (t_calls t)))
      in t\<lparr>t_calls := filter (\<lambda>r. \<not> P r) (t_calls t),
           t_call_participants := filter (\<lambda>r. cp_CallID r \<notin> gone) (t_call_participants t),
           t_quality_metrics := filter (\<lambda>r. cqm_CallID r \<notin> gone) (t_quality_metrics t)\<rparr>)"

definition drop_conversations :: "(Conversation \<Rightarrow> bool) \<Rightarrow> tables \<Rightarrow> tables" where
  "drop_conversations P t =
     (let gone = set (map conv_ID (filter P (t_conversations t)))
      in drop_calls (\<lambda>c. call_ConversationID c \<in> gone)
        (drop_messages (\<lambda>m. msg_ConversationID m \<in> gone)
          (t\<lparr>t_conversations := filter (\<lambda>r. \<not> P r) (t_conversations t),
             t_participants := filter (\<lambda>r. part_ConversationID r \<notin> gone) (t_participants t),
             t_sequences := filter (\<lambda>r. cseq_ConversationID r \<notin> gone) (t_sequences t)\<rparr>)))"

definition null_if :: "(uuid \<Rightarrow> bool) \<Rightarrow> uuid option \<Rightarrow> uuid option" where
  "null_if gone r = (case r of None \<Rightarrow> None | Some u \<Rightarrow> if gone u then None else Some u)"

definition drop_devices :: "(Device \<Rightarrow> bool) \<Rightarrow> tables \<Rightarrow> tables" where
  "drop_devices P t =
     (let gone = set (map dev_ID (filter P (t_devices t)))
      in t\<lparr>t_devices := filter (\<lambda>r. \<not> P r) (t_devices t),
           t_push_tokens := filter (\<lambda>r. pt_DeviceID r \<notin> gone) (t_push_tokens t),
           t_user_sessions := map (\<lambda>r. r\<lparr>ses_DeviceID := null_if (\<lambda>d. d \<in> gone) (ses_DeviceID r)\<rparr>)
             (t_user_sessions t),
           t_ciphertexts := map (\<lambda>r. r\<lparr>mc_SenderDeviceID := null_if (\<lambda>d. d \<in> gone) (mc_SenderDeviceID r)\<rparr>)
             (filter (\<lambda>r. mc_RecipientDeviceID r \<notin> gone) (t_ciphertexts t)),
           t_identity_keys := filter (\<lambda>r. ik_DeviceID r \<notin> gone) (t_identity_keys t),
           t_signed_prekeys := filter (\<lambda>r. sk_DeviceID r \<notin> gone) (t_signed_prekeys t),
           t_onetime_prekeys := filter (\<lambda>r. otk_DeviceID r \<notin> gone) (t_onetime_prekeys t)\<rparr>)"

definition drop_broadcast_lists :: "(BroadcastList \<Rightarrow> bool) \<Rightarrow> tables \<Rightarrow> tables" where
  "drop_broadcast_lists P t =
     (let gone = set (map bl_ID (filter P (t_broadcast_lists t)))
      in t\<lparr>t_broadcast_lists := filter (\<lambda>r. \<not> P r) (t_broadcast_lists t),
           t_broadcast_recipients :=
             filter (\<lambda>r. br_BroadcastID r \<notin> gone) (t_broadcast_recipients t)\<rparr>)"

definition drop_user :: "uuid \<Rightarrow> tables \<Rightarrow> tables" where
  "drop_user u t =
     drop_broadcast_lists (\<lambda>b. bl_OwnerID b = u)
       (drop_calls (\<lambda>c. call_InitiatedBy c = u)
         (drop_messages (\<lambda>m. msg_SenderID m = u)
           (drop_devices (\<lambda>d. dev_UserID d = u)
             (t\<lparr>t_users := filter (\<lambda>r. usr_ID r \<noteq> u) (t_users t),
                t_push_tokens := filter (\<lambda>r. pt_UserID r \<noteq> u) (t_push_tokens t),
                t_user_sessions := filter (\<lambda>r. ses_UserID r \<noteq> u) (t_user_sessions t),
                t_user_contacts := filter (\<lambda>r. con_UserID r \<noteq> u \<and> con_ContactUserID r \<noteq> u)
                  (t_user_contacts t),
                t_participants := filter (\<lambda>r. part_UserID r \<noteq> u) (t_participants t),
                t_ciphertexts := filter (\<lambda>r. mc_RecipientUserID r \<noteq> u) (t_ciphertexts t),
                t_reactions := filter (\<lambda>r. rct_UserID r \<noteq> u) (t_reactions t),
                t_receipts := filter (\<lambda>r. rcp_UserID r \<noteq> u) (t_receipts t),
                t_mentions := filter (\<lambda>r. mnt_UserID r \<noteq> u) (t_mentions t),
                t_starred := filter (\<lambda>r. star_UserID r \<noteq> u) (t_starred t),
                t_attachments := map (\<lambda>r. r\<lparr>att_UploaderID := null_if (\<lambda>x. x = u) (att_UploaderID r)\<rparr>)
                  (t_attachments t),
                t_broadcast_recipients := filter (\<lambda>r. br_UserID r \<noteq> u) (t_broadcast_recipients t),
                t_poll_votes := filter (\<lambda>r. vote_UserID r \<noteq> u) (t_poll_votes t),
                t_call_participants := filter (\<lambda>r. cp_UserID r \<noteq> u) (t_call_participants t),
                t_quality_metrics := filter (\<lambda>r. cqm_UserID r \<noteq> u) (t_quality_metrics t),
                t_identity_keys := filter (\<lambda>r. ik_UserID r \<noteq> u) (t_identity_keys t),
                t_signed_prekeys := filter (\<lambda>r. sk_UserID r \<noteq> u) (t_signed_prekeys t),
                t_onetime_prekeys := filter (\<lambda>r. otk_UserID r \<noteq> u) (t_onetime_prekeys t),
                t_command_logs := filter (\<lambda>r. log_UserID r \<noteq> u) (t_command_logs t),
                t_upload_sessions := filter (\<lambda>r. up_UploaderID r \<noteq> u) (t_upload_sessions t)\<rparr>))))"

section \<open>References that stop a deletion\<close>

text \<open>A message another message forwards or replies to cannot go while the other stays.\<close>

definition message_links_ok :: "tables \<Rightarrow> bool" where
  "message_links_ok t = list_all (\<lambda>m. opt_ref (has_message t) (msg_ForwardedFromMsgID m) \<and>
     opt_ref (has_message t) (msg_ReplyToMsgID m)) (t_messages t)"

text \<open>
  Settings, created conversations, added participants and consumed one-time keys hold
  references to users (and devices) that no action resolves.
\<close>

definition user_links_ok :: "tables \<Rightarrow> bool" where
  "user_links_ok t \<longleftrightarrow>
     list_all (\<lambda>s. has_user t (st_UserID s)) (t_user_settings t) \<and>
     list_all (\<lambda>c. opt_ref (has_user t) (conv_CreatedBy c)) (t_conversations t) \<and>
     list_all (\<lambda>p. opt_ref (has_user t) (part_AddedBy p)) (t_participants t) \<and>
     list_all (\<lambda>k. opt_ref (has_user t) (otk_ConsumedBy k) \<and>
       opt_ref (has_device t) (otk_ConsumedByDeviceID k)) (t_onetime_prekeys t)"

definition delete_cascade ::
  "(tables \<Rightarrow> 'r list) \<Rightarrow> ('r \<Rightarrow> bool) \<Rightarrow> (tables \<Rightarrow> tables) \<Rightarrow> (tables \<Rightarrow> bool) \<Rightarrow> int stmt" where
  "delete_cascade get P drop_rows links t =
     (let n = count_where P (get t); t' = drop_rows t
      in if n = 0 then Inr (0, t) else if links t' then Inr (n, t') else Inl ForeignKeyViolation)"

definition delete_messages :: "(Message \<Rightarrow> bool) \<Rightarrow> int stmt" where
  "delete_messages P = delete_cascade t_messages P (drop_messages P) message_links_ok"

definition delete_conversation :: "uuid \<Rightarrow> int stmt" where
  "delete_conversation c =
     delete_cascade t_conversations (\<lambda>r. conv_ID r = c)
       (drop_conversations (\<lambda>r. conv_ID r = c)) message_links_ok"

definition delete_user :: "uuid \<Rightarrow> int stmt" where
  "delete_user u =
     delete_cascade t_users (\<lambda>r. usr_ID r = u) (drop_user u)
       (\<lambda>t. message_links_ok t \<and> user_links_ok t)"

definition delete_broadcast_list :: "uuid \<Rightarrow> int stmt" where
  "delete_broadcast_list b =
     delete_cascade t_broadcast_lists (\<lambda>r. bl_ID r = b)
       (drop_broadcast_lists (\<lambda>r. bl_ID r = b)) (\<lambda>_. True)"

lemma delete_cascade_Inr:
  "delete_cascade get P drop_rows links t = Inr (n, t') \<longleftrightarrow>
     n = count_where P (get t) \<and>
     (if n = 0 then t' = t else t' = drop_rows t \<and> links t')"
  by (auto simp: delete_cascade_def Let_def split: if_splits)

text \<open>A user whose settings exist can never be deleted: the settings row has no action.\<close>

lemma drop_user_settings [simp]: "t_user_settings (drop_user u t) = t_user_settings t"
  by (simp add: drop_user_def drop_broadcast_lists_def drop_calls_def drop_messages_def
      drop_polls_def drop_devices_def Let_def)

lemma drop_user_users [simp]:
  "t_users (drop_user u t) = filter (\<lambda>r. usr_ID r \<noteq> u) (t_users t)"
  by (simp add: drop_user_def drop_broadcast_lists_def drop_calls_def drop_messages_def
      drop_polls_def drop_devices_def Let_def)

lemma delete_user_with_settings:
  assumes "has_user t u" and "\<exists>s\<in>set (t_user_settings t). st_UserID s = u"
  shows "delete_user u t = Inl ForeignKeyViolation"
proof -
  have "count_where (\<lambda>r. usr_ID r = u) (t_users t) \<noteq> 0"
    using assms(1) by (auto simp: count_where_eq_0 has_user_def list_ex_iff)
  moreover have "\<not> has_user (drop_user u t) u"
    by (simp add: has_user_def list_ex_iff)
  ultimately show ?thesis
    using assms(2)
    by (auto simp: delete_user_def delete_cascade_def user_links_ok_def list_all_iff Let_def)
qed

end
