(* ===== verification/MessageRepo.thy ===== *)
theory MessageRepo
  imports Cascades
begin

text \<open>
  \<^verbatim>\<open>internal/repository/message_repository.go\<close>: one definition per method of
  \<^verbatim>\<open>PostgresMessageRepository\<close>, and the trigger \<^verbatim>\<open>fn_assign_message_sequence\<close> that runs inside
  every INSERT into \<^verbatim>\<open>messages\<close>. The argument \<open>db\<close> is the repository's field \<^verbatim>\<open>db\<close>.
  \<^verbatim>\<open>NOW()\<close> is read from the clock like \<^verbatim>\<open>time.Now()\<close>. JSONB text is stored as it was given.
\<close>

section \<open>Messages\<close>

text \<open>The columns of \<^verbatim>\<open>messages\<close>: the content and the ciphertext fields are not among them.\<close>

definition message_row :: "Message \<Rightarrow> Message" where
  "message_row m = m\<lparr>msg_Content := None, msg_Ciphertext := [], msg_Header := [],
     msg_RecipientDeviceID := None, msg_RecipientUserID := None, msg_SenderDeviceID := None\<rparr>"

definition message_refs :: "Message \<Rightarrow> tables \<Rightarrow> bool" where
  "message_refs m t \<longleftrightarrow> has_conversation t (msg_ConversationID m) \<and> has_user t (msg_SenderID m) \<and>
     opt_ref (has_message t) (msg_ForwardedFromMsgID m) \<and>
     opt_ref (has_message t) (msg_ReplyToMsgID m)"

definition message_typed :: "(string \<Rightarrow> bool) \<Rightarrow> Message \<Rightarrow> bool" where
  "message_typed jsonb m \<longleftrightarrow> typed [(msg_Type m, message_type_enum)] \<and> jsonb (msg_Metadata m)"

text \<open>\<^verbatim>\<open>fn_assign_message_sequence\<close>: create the conversation's counter if needed, add one to it.\<close>

definition assign_sequence :: "time \<Rightarrow> uuid \<Rightarrow> int option stmt" where
  "assign_sequence now c t =
     (let inserted =
        (if list_ex (\<lambda>s. cseq_ConversationID s = c) (t_sequences t) then Inr ((), t)
         else insert_into t_sequences t_sequences_update sequence_clash
                (\<lambda>t. has_conversation t c)
                \<lparr>cseq_ConversationID = c, cseq_LastSequence = 0, cseq_UpdatedAt = now\<rparr> t)
      in case inserted of
           Inl e \<Rightarrow> Inl e
         | Inr (_, t1) \<Rightarrow>
             (let t2 = t_sequences_update (map_where (\<lambda>s. cseq_ConversationID s = c)
                  (\<lambda>s. s\<lparr>cseq_LastSequence := cseq_LastSequence s + 1, cseq_UpdatedAt := now\<rparr>)) t1
              in Inr (map_option cseq_LastSequence
                   (find (\<lambda>s. cseq_ConversationID s = c) (t_sequences t2)), t2)))"

definition insert_message :: "(string \<Rightarrow> bool) \<Rightarrow> time \<Rightarrow> Message \<Rightarrow> unit stmt" where
  "insert_message jsonb now m t =
     (if \<not> message_typed jsonb m then Inl InvalidText
      else case assign_sequence now (msg_ConversationID m) t of
             Inl e \<Rightarrow> Inl e
           | Inr (next_seq, t1) \<Rightarrow>
               insert_into t_messages t_messages_update message_clash (message_refs m)
                 ((message_row m)\<lparr>msg_SeqID := next_seq\<rparr>) t1)"

definition msgRepo_Create :: "DBTX \<Rightarrow> Message \<Rightarrow> unit go" where
  "msgRepo_Create db m = do {
     now \<leftarrow> time_Now;
     jsonb \<leftarrow> jsonb_input;
     mapErr alreadyExists (sql db (insert_message jsonb now m))
   }"

definition msgRepo_CreateCiphertext :: "DBTX \<Rightarrow> MessageCiphertext \<Rightarrow> unit go" where
  "msgRepo_CreateCiphertext db c = do {
     jsonb \<leftarrow> jsonb_input;
     mapErr alreadyExists (sql db (checked InvalidText (\<lambda>_. jsonb (mc_Header c))
       (insert_into t_ciphertexts t_ciphertexts_update ciphertext_clash
         (\<lambda>t. has_message t (mc_MessageID c) \<and> has_user t (mc_RecipientUserID c) \<and>
           has_device t (mc_RecipientDeviceID c) \<and> opt_ref (has_device t) (mc_SenderDeviceID c))
         c)))
   }"

definition msgRepo_GetByID :: "DBTX \<Rightarrow> uuid \<Rightarrow> Message go" where
  "msgRepo_GetByID db i =
     mapErr notFound (queryRow db (\<lambda>t. filter (\<lambda>m. msg_ID m = i) (t_messages t)))"

text \<open>The assignments of the UPDATE: every column but \<^verbatim>\<open>id\<close> and \<^verbatim>\<open>created_at\<close>.\<close>

definition set_message :: "Message \<Rightarrow> Message \<Rightarrow> Message" where
  "set_message m r = (message_row m)\<lparr>msg_ID := msg_ID r, msg_CreatedAt := msg_CreatedAt r\<rparr>"

definition msgRepo_Update :: "DBTX \<Rightarrow> Message \<Rightarrow> unit go" where
  "msgRepo_Update db m = do {
     jsonb \<leftarrow> jsonb_input;
     affected (sql db (checked InvalidText (\<lambda>_. message_typed jsonb m)
       (update_into t_messages t_messages_update message_clash (message_refs m)
         (\<lambda>r. msg_ID r = msg_ID m) (set_message m))))
   }"

definition msgRepo_SoftDelete :: "DBTX \<Rightarrow> uuid \<Rightarrow> unit go" where
  "msgRepo_SoftDelete db i = do {
     now \<leftarrow> time_Now;
     affected (sql db (on_table t_messages t_messages_update
       (update_where (\<lambda>r. msg_ID r = i) (\<lambda>r. r\<lparr>msg_DeletedAt := Some now\<rparr>))))
   }"

definition msgRepo_HardDelete :: "DBTX \<Rightarrow> uuid \<Rightarrow> unit go" where
  "msgRepo_HardDelete db i = affected (sql db (delete_messages (\<lambda>r. msg_ID r = i)))"

section \<open>Reading messages\<close>

text \<open>A row of the JOIN with the ciphertext for one device.\<close>

definition with_ciphertext :: "Message \<Rightarrow> MessageCiphertext \<Rightarrow> Message" where
  "with_ciphertext m c = m\<lparr>msg_Ciphertext := mc_Ciphertext c, msg_Header := mc_Header c,
     msg_RecipientDeviceID := Some (mc_RecipientDeviceID c),
     msg_RecipientUserID := Some (mc_RecipientUserID c),
     msg_SenderDeviceID := mc_SenderDeviceID c\<rparr>"

text \<open>\<^verbatim>\<open>m.seq_id < $3\<close> is not true of a NULL; the condition is there only if \<^verbatim>\<open>beforeSeq > 0\<close>.\<close>

definition seq_before :: "int \<Rightarrow> Message \<Rightarrow> bool" where
  "seq_before beforeSeq m \<longleftrightarrow>
     beforeSeq > 0 \<longrightarrow> (case msg_SeqID m of None \<Rightarrow> False | Some s \<Rightarrow> s < beforeSeq)"

definition conversation_page :: "uuid \<Rightarrow> int \<Rightarrow> uuid \<Rightarrow> tables \<Rightarrow> Message list" where
  "conversation_page conv beforeSeq device t =
     order_desc msg_SeqID
       [with_ciphertext m c. m \<leftarrow> t_messages t, c \<leftarrow> t_ciphertexts t,
          mc_MessageID c = msg_ID m \<and> msg_ConversationID m = conv \<and> msg_DeletedAt m = None \<and>
          mc_RecipientDeviceID c = device \<and> seq_before beforeSeq m]"

definition msgRepo_GetConversationMessages ::
  "DBTX \<Rightarrow> uuid \<Rightarrow> int \<Rightarrow> int \<Rightarrow> uuid \<Rightarrow> Message list go" where
  "msgRepo_GetConversationMessages db conv beforeSeq limit device =
     sql db (query_page 0 limit (conversation_page conv beforeSeq device))"

definition msgRepo_GetMessagesBySeqRange :: "DBTX \<Rightarrow> uuid \<Rightarrow> int \<Rightarrow> int \<Rightarrow> Message list go" where
  "msgRepo_GetMessagesBySeqRange db conv startSeq endSeq =
     sql db (query (\<lambda>t. order_asc msg_SeqID (filter (\<lambda>m. msg_ConversationID m = conv \<and>
       (case msg_SeqID m of None \<Rightarrow> False | Some s \<Rightarrow> startSeq \<le> s \<and> s \<le> endSeq) \<and>
       msg_DeletedAt m = None) (t_messages t))))"

definition msgRepo_GetUnreadMessages :: "DBTX \<Rightarrow> uuid \<Rightarrow> uuid \<Rightarrow> Message list go" where
  "msgRepo_GetUnreadMessages db conv u =
     sql db (query (\<lambda>t. order_asc msg_SeqID (filter (\<lambda>m. msg_ConversationID m = conv \<and>
       msg_SenderID m \<noteq> u \<and> msg_DeletedAt m = None \<and>
       \<not> list_ex (\<lambda>r. rcp_MessageID r = msg_ID m \<and> rcp_UserID r = u \<and> rcp_ReadAt r \<noteq> None)
           (t_receipts t)) (t_messages t))))"

definition msgRepo_SearchMessages ::
  "DBTX \<Rightarrow> uuid \<Rightarrow> string \<Rightarrow> int \<Rightarrow> int \<Rightarrow> (Message list \<times> int) go" where
  "msgRepo_SearchMessages db conv q page limit = fail ErrForbidden"

definition msgRepo_GetMessagesByType :: "DBTX \<Rightarrow> uuid \<Rightarrow> string \<Rightarrow> int \<Rightarrow> Message list go" where
  "msgRepo_GetMessagesByType db conv msgType limit =
     sql db (checked InvalidText (\<lambda>_. typed [(msgType, message_type_enum)])
       (query_page 0 limit (\<lambda>t. order_desc (\<lambda>m. Some (msg_CreatedAt m))
         (filter (\<lambda>m. msg_ConversationID m = conv \<and> msg_Type m = msgType \<and>
           msg_DeletedAt m = None) (t_messages t)))))"

definition msgRepo_GetLatestMessage :: "DBTX \<Rightarrow> uuid \<Rightarrow> Message go" where
  "msgRepo_GetLatestMessage db conv =
     mapErr notFound (queryRow db (\<lambda>t. order_desc msg_SeqID
       (filter (\<lambda>m. msg_ConversationID m = conv \<and> msg_DeletedAt m = None) (t_messages t))))"

definition msgRepo_MarkAsEdited :: "DBTX \<Rightarrow> uuid \<Rightarrow> unit go" where
  "msgRepo_MarkAsEdited db i = do {
     now \<leftarrow> time_Now;
     affected (sql db (on_table t_messages t_messages_update
       (update_where (\<lambda>r. msg_ID r = i) (\<lambda>r. r\<lparr>msg_EditedAt := Some now\<rparr>))))
   }"

definition msgRepo_GetMessageCountSince :: "DBTX \<Rightarrow> uuid \<Rightarrow> time \<Rightarrow> int go" where
  "msgRepo_GetMessageCountSince db conv since =
     queryRow db (\<lambda>t. [count_where (\<lambda>m. msg_ConversationID m = conv \<and> msg_CreatedAt m > since \<and>
       msg_DeletedAt m = None) (t_messages t)])"

definition msgRepo_GetByIdempotencyKey :: "DBTX \<Rightarrow> string \<Rightarrow> Message go" where
  "msgRepo_GetByIdempotencyKey db key =
     mapErr notFound (queryRow db (\<lambda>t. filter (\<lambda>m. msg_IdempotencyKey m = Some key) (t_messages t)))"

definition msgRepo_GetByClientMessageID :: "DBTX \<Rightarrow> string \<Rightarrow> Message go" where
  "msgRepo_GetByClientMessageID db cid =
     mapErr notFound (queryRow db (\<lambda>t. filter (\<lambda>m. msg_ClientMessageID m = Some cid) (t_messages t)))"

section \<open>Reactions\<close>

definition msgRepo_AddReaction :: "DBTX \<Rightarrow> MessageReaction \<Rightarrow> unit go" where
  "msgRepo_AddReaction db r =
     mapErr alreadyExists (sql db (insert_into t_reactions t_reactions_update reaction_clash
       (\<lambda>t. has_message t (rct_MessageID r) \<and> has_user t (rct_UserID r)) r))"

definition msgRepo_RemoveReaction :: "DBTX \<Rightarrow> uuid \<Rightarrow> uuid \<Rightarrow> string \<Rightarrow> unit go" where
  "msgRepo_RemoveReaction db m u code =
     affected (sql db (on_table t_reactions t_reactions_update (delete_where
       (\<lambda>r. rct_MessageID r = m \<and> rct_UserID r = u \<and> rct_ReactionCode r = code))))"

definition msgRepo_GetMessageReactions :: "DBTX \<Rightarrow> uuid \<Rightarrow> MessageReaction list go" where
  "msgRepo_GetMessageReactions db m =
     sql db (query (\<lambda>t. filter (\<lambda>r. rct_MessageID r = m) (t_reactions t)))"

definition msgRepo_GetUserReaction :: "DBTX \<Rightarrow> uuid \<Rightarrow> uuid \<Rightarrow> MessageReaction go" where
  "msgRepo_GetUserReaction db m u =
     mapErr notFound (queryRow db (\<lambda>t. filter (\<lambda>r. rct_MessageID r = m \<and> rct_UserID r = u)
       (t_reactions t)))"

section \<open>Receipts\<close>

definition insert_receipt :: "MessageReceipt \<Rightarrow> unit stmt" where
  "insert_receipt r = checked InvalidText (\<lambda>_. typed [(rcp_Status r, delivery_status_enum)])
     (insert_into t_receipts t_receipts_update receipt_clash
       (\<lambda>t. has_message t (rcp_MessageID r) \<and> has_user t (rcp_UserID r)) r)"

definition msgRepo_CreateReceipt :: "DBTX \<Rightarrow> MessageReceipt \<Rightarrow> unit go" where
  "msgRepo_CreateReceipt db r = mapErr alreadyExists (sql db (insert_receipt r))"

definition msgRepo_UpdateReceipt :: "DBTX \<Rightarrow> MessageReceipt \<Rightarrow> unit go" where
  "msgRepo_UpdateReceipt db rcp =
     void (sql db (checked InvalidText (\<lambda>_. typed [(rcp_Status rcp, delivery_status_enum)])
       (on_table t_receipts t_receipts_update (update_where
         (\<lambda>r. rcp_MessageID r = rcp_MessageID rcp \<and> rcp_UserID r = rcp_UserID rcp)
         (\<lambda>r. r\<lparr>rcp_Status := rcp_Status rcp, rcp_DeliveredAt := rcp_DeliveredAt rcp,
              rcp_ReadAt := rcp_ReadAt rcp, rcp_PlayedAt := rcp_PlayedAt rcp,
              rcp_UpdatedAt := rcp_UpdatedAt rcp\<rparr>)))))"

definition msgRepo_GetMessageReceipts :: "DBTX \<Rightarrow> uuid \<Rightarrow> MessageReceipt list go" where
  "msgRepo_GetMessageReceipts db m =
     sql db (query (\<lambda>t. filter (\<lambda>r. rcp_MessageID r = m) (t_receipts t)))"

definition set_delivered :: "time \<Rightarrow> uuid \<Rightarrow> uuid \<Rightarrow> int stmt" where
  "set_delivered now m u = on_table t_receipts t_receipts_update (update_where
     (\<lambda>r. rcp_MessageID r = m \<and> rcp_UserID r = u)
     (\<lambda>r. r\<lparr>rcp_Status := ''DELIVERED'', rcp_DeliveredAt := Some now, rcp_UpdatedAt := now\<rparr>))"

definition set_read :: "time \<Rightarrow> uuid \<Rightarrow> uuid \<Rightarrow> int stmt" where
  "set_read now m u = on_table t_receipts t_receipts_update (update_where
     (\<lambda>r. rcp_MessageID r = m \<and> rcp_UserID r = u)
     (\<lambda>r. r\<lparr>rcp_Status := ''READ'', rcp_ReadAt := Some now, rcp_UpdatedAt := now\<rparr>))"

definition delivered_receipt :: "time \<Rightarrow> uuid \<Rightarrow> uuid \<Rightarrow> MessageReceipt" where
  "delivered_receipt now m u = \<lparr>rcp_MessageID = m, rcp_UserID = u, rcp_Status = ''DELIVERED'',
     rcp_DeliveredAt = Some now, rcp_ReadAt = None, rcp_PlayedAt = None, rcp_UpdatedAt = now\<rparr>"

definition read_receipt :: "time \<Rightarrow> uuid \<Rightarrow> uuid \<Rightarrow> MessageReceipt" where
  "read_receipt now m u = \<lparr>rcp_MessageID = m, rcp_UserID = u, rcp_Status = ''READ'',
     rcp_DeliveredAt = None, rcp_ReadAt = Some now, rcp_PlayedAt = None, rcp_UpdatedAt = now\<rparr>"

definition msgRepo_MarkAsDelivered :: "DBTX \<Rightarrow> uuid \<Rightarrow> uuid \<Rightarrow> unit go" where
  "msgRepo_MarkAsDelivered db m u = do {
     now \<leftarrow> time_Now;
     andThen (sql db (set_delivered now m u)) (\<lambda>rows.
       if rows = 0 then msgRepo_CreateReceipt db (delivered_receipt now m u) else ok ())
   }"

definition msgRepo_MarkAsRead :: "DBTX \<Rightarrow> uuid \<Rightarrow> uuid \<Rightarrow> unit go" where
  "msgRepo_MarkAsRead db m u = do {
     now \<leftarrow> time_Now;
     andThen (sql db (set_read now m u)) (\<lambda>rows.
       if rows = 0 then msgRepo_CreateReceipt db (read_receipt now m u) else ok ())
   }"

definition msgRepo_MarkAsPlayed :: "DBTX \<Rightarrow> uuid \<Rightarrow> uuid \<Rightarrow> unit go" where
  "msgRepo_MarkAsPlayed db m u = do {
     now \<leftarrow> time_Now;
     void (sql db (on_table t_receipts t_receipts_update (update_where
       (\<lambda>r. rcp_MessageID r = m \<and> rcp_UserID r = u)
       (\<lambda>r. r\<lparr>rcp_PlayedAt := Some now, rcp_UpdatedAt := now\<rparr>))))
   }"

definition msgRepo_BulkMarkAsDelivered :: "DBTX \<Rightarrow> uuid list \<Rightarrow> uuid \<Rightarrow> unit go" where
  "msgRepo_BulkMarkAsDelivered db ids u = do {
     now \<leftarrow> time_Now;
     WithTx db (\<lambda>tx. forEach ids (\<lambda>m.
       andThen (sql tx (set_delivered now m u)) (\<lambda>rows.
         if rows = 0 then sql tx (insert_receipt (delivered_receipt now m u)) else ok ())))
   }"

definition msgRepo_BulkMarkAsRead :: "DBTX \<Rightarrow> uuid list \<Rightarrow> uuid \<Rightarrow> unit go" where
  "msgRepo_BulkMarkAsRead db ids u = do {
     now \<leftarrow> time_Now;
     WithTx db (\<lambda>tx. forEach ids (\<lambda>m.
       andThen (sql tx (set_read now m u)) (\<lambda>rows.
         if rows = 0 then sql tx (insert_receipt (read_receipt now m u)) else ok ())))
   }"

section \<open>Mentions and stars\<close>

definition msgRepo_AddMention :: "DBTX \<Rightarrow> MessageMention \<Rightarrow> unit go" where
  "msgRepo_AddMention db m =
     mapErr alreadyExists (sql db (insert_into t_mentions t_mentions_update mention_clash
       (\<lambda>t. has_message t (mnt_MessageID m) \<and> has_user t (mnt_UserID m)) m))"

definition msgRepo_GetMessageMentions :: "DBTX \<Rightarrow> uuid \<Rightarrow> MessageMention list go" where
  "msgRepo_GetMessageMentions db i =
     sql db (query (\<lambda>t. filter (\<lambda>m. mnt_MessageID m = i) (t_mentions t)))"

definition mentions_user :: "uuid \<Rightarrow> tables \<Rightarrow> Message \<Rightarrow> bool" where
  "mentions_user u t m \<longleftrightarrow> msg_DeletedAt m = None \<and>
     list_ex (\<lambda>n. mnt_UserID n = u \<and> mnt_MessageID n = msg_ID m) (t_mentions t)"

definition msgRepo_GetUserMentions ::
  "DBTX \<Rightarrow> uuid \<Rightarrow> int \<Rightarrow> int \<Rightarrow> (Message list \<times> int) go" where
  "msgRepo_GetUserMentions db u page limit =
     andThen (queryRow db (\<lambda>t. [count_where (mentions_user u t) (t_messages t)])) (\<lambda>total.
     andThen (sql db (query_page ((page - 1) * limit) limit (\<lambda>t.
       order_desc (\<lambda>m. Some (msg_CreatedAt m)) (filter (mentions_user u t) (t_messages t)))))
     (\<lambda>messages. ok (messages, total)))"

definition msgRepo_StarMessage :: "DBTX \<Rightarrow> StarredMessage \<Rightarrow> unit go" where
  "msgRepo_StarMessage db s =
     mapErr alreadyExists (sql db (insert_into t_starred t_starred_update starred_clash
       (\<lambda>t. has_user t (star_UserID s) \<and> has_message t (star_MessageID s)) s))"

definition msgRepo_UnstarMessage :: "DBTX \<Rightarrow> uuid \<Rightarrow> uuid \<Rightarrow> unit go" where
  "msgRepo_UnstarMessage db u m =
     affected (sql db (on_table t_starred t_starred_update
       (delete_where (\<lambda>s. star_UserID s = u \<and> star_MessageID s = m))))"

definition msgRepo_GetUserStarredMessages ::
  "DBTX \<Rightarrow> uuid \<Rightarrow> int \<Rightarrow> int \<Rightarrow> (StarredMessage list \<times> int) go" where
  "msgRepo_GetUserStarredMessages db u page limit =
     andThen (queryRow db (\<lambda>t. [count_where (\<lambda>s. star_UserID s = u) (t_starred t)])) (\<lambda>total.
     andThen (sql db (query_page ((page - 1) * limit) limit (\<lambda>t.
       order_desc (\<lambda>s. Some (star_StarredAt s)) (filter (\<lambda>s. star_UserID s = u) (t_starred t)))))
     (\<lambda>starred. ok (starred, total)))"

definition msgRepo_IsMessageStarred :: "DBTX \<Rightarrow> uuid \<Rightarrow> uuid \<Rightarrow> bool go" where
  "msgRepo_IsMessageStarred db u m =
     andThen (queryRow db (\<lambda>t. [count_where (\<lambda>s. star_UserID s = u \<and> star_MessageID s = m)
       (t_starred t)])) (\<lambda>count. ok (count > 0))"

section \<open>Attachments and link previews\<close>

definition msgRepo_CreateAttachment :: "DBTX \<Rightarrow> Attachment \<Rightarrow> unit go" where
  "msgRepo_CreateAttachment db a =
     sql db (insert_into t_attachments t_attachments_update attachment_clash
       (\<lambda>t. opt_ref (has_user t) (att_UploaderID a)) a)"

definition msgRepo_GetAttachmentByID :: "DBTX \<Rightarrow> uuid \<Rightarrow> Attachment go" where
  "msgRepo_GetAttachmentByID db i =
     mapErr notFound (queryRow db (\<lambda>t. filter (\<lambda>a. att_ID a = i) (t_attachments t)))"

definition msgRepo_LinkAttachmentToMessage :: "DBTX \<Rightarrow> MessageAttachment \<Rightarrow> unit go" where
  "msgRepo_LinkAttachmentToMessage db ma =
     mapErr alreadyExists (sql db (insert_into t_message_attachments t_message_attachments_update
       message_attachment_clash
       (\<lambda>t. has_message t (ma_MessageID ma) \<and> has_attachment t (ma_AttachmentID ma)) ma))"

definition msgRepo_GetMessageAttachments :: "DBTX \<Rightarrow> uuid \<Rightarrow> Attachment list go" where
  "msgRepo_GetMessageAttachments db m =
     sql db (query (\<lambda>t. filter (\<lambda>a. list_ex (\<lambda>ma. ma_MessageID ma = m \<and>
       ma_AttachmentID ma = att_ID a) (t_message_attachments t)) (t_attachments t)))"

definition msgRepo_MarkViewOnceViewed :: "DBTX \<Rightarrow> uuid \<Rightarrow> unit go" where
  "msgRepo_MarkViewOnceViewed db i = do {
     now \<leftarrow> time_Now;
     affected (sql db (on_table t_attachments t_attachments_update (update_where
       (\<lambda>a. att_ID a = i \<and> att_ViewOnce a) (\<lambda>a. a\<lparr>att_ViewedAt := Some now\<rparr>))))
   }"

definition msgRepo_CreateLinkPreview :: "DBTX \<Rightarrow> LinkPreview \<Rightarrow> unit go" where
  "msgRepo_CreateLinkPreview db lp =
     mapErr alreadyExists (sql db (insert_into t_link_previews t_link_previews_update
       link_preview_clash (\<lambda>_. True) lp))"

definition msgRepo_GetLinkPreviewByHash :: "DBTX \<Rightarrow> string \<Rightarrow> LinkPreview go" where
  "msgRepo_GetLinkPreviewByHash db h =
     mapErr notFound (queryRow db (\<lambda>t. filter (\<lambda>l. lp_URLHash l = h) (t_link_previews t)))"

definition msgRepo_GetLinkPreviewByID :: "DBTX \<Rightarrow> uuid \<Rightarrow> LinkPreview go" where
  "msgRepo_GetLinkPreviewByID db i =
     mapErr notFound (queryRow db (\<lambda>t. filter (\<lambda>l. lp_ID l = i) (t_link_previews t)))"

section \<open>Polls\<close>

definition msgRepo_CreatePoll :: "DBTX \<Rightarrow> Poll \<Rightarrow> unit go" where
  "msgRepo_CreatePoll db p =
     sql db (insert_into t_polls t_polls_update poll_clash
       (\<lambda>t. opt_ref (has_message t) (poll_MessageID p)) p)"

definition msgRepo_GetPollByID :: "DBTX \<Rightarrow> uuid \<Rightarrow> Poll go" where
  "msgRepo_GetPollByID db i =
     mapErr notFound (queryRow db (\<lambda>t. filter (\<lambda>p. poll_ID p = i) (t_polls t)))"

definition msgRepo_ClosePoll :: "DBTX \<Rightarrow> uuid \<Rightarrow> unit go" where
  "msgRepo_ClosePoll db i = do {
     now \<leftarrow> time_Now;
     affected (sql db (on_table t_polls t_polls_update
       (update_where (\<lambda>p. poll_ID p = i) (\<lambda>p. p\<lparr>poll_ClosesAt := Some now\<rparr>))))
   }"

definition msgRepo_AddPollOption :: "DBTX \<Rightarrow> PollOption \<Rightarrow> unit go" where
  "msgRepo_AddPollOption db opt =
     sql db (insert_into t_poll_options t_poll_options_update poll_option_clash
       (\<lambda>t. has_poll t (opt_PollID opt)) opt)"

definition msgRepo_GetPollOptions :: "DBTX \<Rightarrow> uuid \<Rightarrow> PollOption list go" where
  "msgRepo_GetPollOptions db p =
     sql db (query (\<lambda>t. order_asc (\<lambda>x. Some (opt_Position x))
       (filter (\<lambda>x. opt_PollID x = p) (t_poll_options t))))"

definition msgRepo_VotePoll :: "DBTX \<Rightarrow> PollVote \<Rightarrow> unit go" where
  "msgRepo_VotePoll db v =
     mapErr alreadyExists (sql db (insert_into t_poll_votes t_poll_votes_update poll_vote_clash
       (\<lambda>t. has_poll t (vote_PollID v) \<and> has_poll_option t (vote_OptionID v) \<and>
         has_user t (vote_UserID v)) v))"

definition msgRepo_RemoveVote :: "DBTX \<Rightarrow> uuid \<Rightarrow> uuid \<Rightarrow> uuid \<Rightarrow> unit go" where
  "msgRepo_RemoveVote db p opt u =
     affected (sql db (on_table t_poll_votes t_poll_votes_update (delete_where
       (\<lambda>v. vote_PollID v = p \<and> vote_OptionID v = opt \<and> vote_UserID v = u))))"

definition msgRepo_GetPollVotes :: "DBTX \<Rightarrow> uuid \<Rightarrow> PollVote list go" where
  "msgRepo_GetPollVotes db p =
     sql db (query (\<lambda>t. filter (\<lambda>v. vote_PollID v = p) (t_poll_votes t)))"

definition msgRepo_GetUserVotes :: "DBTX \<Rightarrow> uuid \<Rightarrow> uuid \<Rightarrow> PollVote list go" where
  "msgRepo_GetUserVotes db p u =
     sql db (query (\<lambda>t. filter (\<lambda>v. vote_PollID v = p \<and> vote_UserID v = u) (t_poll_votes t)))"

definition msgRepo_DeleteExpiredMessages :: "DBTX \<Rightarrow> int go" where
  "msgRepo_DeleteExpiredMessages db = do {
     now \<leftarrow> time_Now;
     sql db (delete_messages (\<lambda>m. case msg_ExpiresAt m of None \<Rightarrow> False | Some e \<Rightarrow> e < now))
   }"

section \<open>What the operations do\<close>

text \<open>The last number handed out in a conversation; the trigger hands out the next one.\<close>

definition last_sequence :: "tables \<Rightarrow> uuid \<Rightarrow> int" where
  "last_sequence t c =
     (case find (\<lambda>s. cseq_ConversationID s = c) (t_sequences t) of
        None \<Rightarrow> 0 | Some s \<Rightarrow> cseq_LastSequence s)"

lemma find_map_where_same:
  assumes "\<And>r. P (f r) = P r"
  shows "find P (map_where P f rs) = map_option f (find P rs)"
  using assms by (induction rs) (auto simp: map_where_def)

lemma find_append: "find P (xs @ ys) = (case find P xs of None \<Rightarrow> find P ys | Some x \<Rightarrow> Some x)"
  by (induction xs) auto

lemma find_map_where_other:
  assumes "\<And>r. P r \<Longrightarrow> \<not> Q r" and "\<And>r. Q r \<Longrightarrow> \<not> P (f r)"
  shows "find P (map_where Q f rs) = find P rs"
  using assms by (induction rs) (auto simp: map_where_def)

lemma assign_sequence_Inr:
  assumes "assign_sequence now c t = Inr (n, t1)"
  shows "n = Some (last_sequence t c + 1)"
    and "last_sequence t1 c = last_sequence t c + 1"
    and "d \<noteq> c \<Longrightarrow> last_sequence t1 d = last_sequence t d"
    and "\<exists>seqs. t1 = t\<lparr>t_sequences := seqs\<rparr>"
proof -
  let ?P = "\<lambda>s. cseq_ConversationID s = c"
  let ?f = "\<lambda>s. s\<lparr>cseq_LastSequence := cseq_LastSequence s + 1, cseq_UpdatedAt := now\<rparr>"
  let ?new = "\<lparr>cseq_ConversationID = c, cseq_LastSequence = 0, cseq_UpdatedAt = now\<rparr>"
  obtain rs where rs: "rs = t_sequences t \<and> list_ex ?P (t_sequences t) \<or>
      rs = t_sequences t @ [?new] \<and> \<not> list_ex ?P (t_sequences t)"
    and n: "n = map_option cseq_LastSequence (find ?P (map_where ?P ?f rs))"
    and t1: "t1 = t\<lparr>t_sequences := map_where ?P ?f rs\<rparr>"
    using assms
    by (auto simp: assign_sequence_def Let_def insert_into_Inr split: sum.splits if_splits)
  have P: "find ?P (map_where ?P ?f rs) = map_option ?f (find ?P rs)"
    by (rule find_map_where_same) simp
  have some: "find ?P rs = (case find ?P (t_sequences t) of None \<Rightarrow> Some ?new | Some s \<Rightarrow> Some s)"
  proof (cases "list_ex ?P (t_sequences t)")
    case True
    then have "find ?P (t_sequences t) \<noteq> None" by (auto simp: find_None_iff list_ex_iff)
    with True rs show ?thesis by auto
  next
    case False
    then have "find ?P (t_sequences t) = None" by (auto simp: find_None_iff list_ex_iff)
    with False rs show ?thesis by (simp add: find_append)
  qed
  show "n = Some (last_sequence t c + 1)" "last_sequence t1 c = last_sequence t c + 1"
    by (simp_all add: n t1 P some last_sequence_def split: option.split)
  show "\<exists>seqs. t1 = t\<lparr>t_sequences := seqs\<rparr>"
    using t1 by blast
  assume "d \<noteq> c"
  then have "find (\<lambda>s. cseq_ConversationID s = d) (map_where ?P ?f rs) =
      find (\<lambda>s. cseq_ConversationID s = d) rs"
    by (intro find_map_where_other) auto
  also have "\<dots> = find (\<lambda>s. cseq_ConversationID s = d) (t_sequences t)"
    using rs \<open>d \<noteq> c\<close> by (auto simp: find_append split: option.split)
  finally show "last_sequence t1 d = last_sequence t d"
    by (simp add: last_sequence_def t1)
qed

lemma insert_message_Inr:
  assumes "insert_message jsonb now m t = Inr (u, t')"
  shows "message_typed jsonb m"
    and "\<exists>seqs row. row = (message_row m)\<lparr>msg_SeqID := Some (last_sequence t (msg_ConversationID m) + 1)\<rparr> \<and>
      t' = t\<lparr>t_sequences := seqs, t_messages := t_messages t @ [row]\<rparr> \<and>
      (\<forall>x\<in>set (t_messages t). \<not> message_clash x row) \<and> message_refs m t'"
    and "last_sequence t' (msg_ConversationID m) = last_sequence t (msg_ConversationID m) + 1"
proof -
  let ?c = "msg_ConversationID m"
  from assms show "message_typed jsonb m"
    by (auto simp: insert_message_def split: if_splits)
  from assms obtain n t1 where a: "assign_sequence now ?c t = Inr (n, t1)"
    and i: "insert_into t_messages t_messages_update message_clash (message_refs m)
       ((message_row m)\<lparr>msg_SeqID := n\<rparr>) t1 = Inr (u, t')"
    by (auto simp: insert_message_def split: if_splits sum.splits)
  note seq = assign_sequence_Inr [OF a]
  from seq(4) obtain seqs where t1: "t1 = t\<lparr>t_sequences := seqs\<rparr>" by blast
  show "\<exists>seqs row. row = (message_row m)\<lparr>msg_SeqID := Some (last_sequence t ?c + 1)\<rparr> \<and>
      t' = t\<lparr>t_sequences := seqs, t_messages := t_messages t @ [row]\<rparr> \<and>
      (\<forall>x\<in>set (t_messages t). \<not> message_clash x row) \<and> message_refs m t'"
    using i seq(1) t1 by (auto simp: insert_into_Inr)
  have "last_sequence t' ?c = last_sequence t1 ?c"
    using i by (auto simp: insert_into_Inr last_sequence_def)
  with seq(2) show "last_sequence t' ?c = last_sequence t ?c + 1" by simp
qed

lemma insert_message_other_sequence:
  assumes "insert_message jsonb now m t = Inr (u, t')" and "c \<noteq> msg_ConversationID m"
  shows "last_sequence t' c = last_sequence t c"
proof -
  from assms(1) obtain n t1 where a: "assign_sequence now (msg_ConversationID m) t = Inr (n, t1)"
    and "insert_into t_messages t_messages_update message_clash (message_refs m)
       ((message_row m)\<lparr>msg_SeqID := n\<rparr>) t1 = Inr (u, t')"
    by (auto simp: insert_message_def split: if_splits sum.splits)
  then have "last_sequence t' c = last_sequence t1 c"
    by (auto simp: insert_into_Inr last_sequence_def)
  with assign_sequence_Inr(3) [OF a assms(2)] show ?thesis by simp
qed

lemma msgRepo_Create_Inr:
  assumes "run_state (msgRepo_Create db m) w = (Inr u, w')"
  shows "\<exists>t t' now. visible db w = Some t \<and> visible db w' = Some t' \<and>
     insert_message (w_jsonb w) now m t = Inr ((), t')"
  using assms
  by (auto simp: msgRepo_Create_def sql_Inr visible_def put_visible_def
      split: prod.splits sum.splits DBTX.splits option.splits if_splits)

text \<open>The row of an UPDATE by identifier, when the identifier is new to all rows but the last.\<close>

lemma map_where_last:
  "(\<forall>x\<in>set rs. \<not> P x) \<Longrightarrow> P r \<Longrightarrow> map_where P f (rs @ [r]) = rs @ [f r]"
  by (simp add: map_where_none count_where_eq_0 map_where_def map_idI)

lemma msgRepo_Update_Inr:
  assumes "run_state (msgRepo_Update db m) w = (Inr u, w')"
  shows "\<exists>t. visible db w = Some t \<and>
     visible db w' = Some (t\<lparr>t_messages :=
       map_where (\<lambda>r. msg_ID r = msg_ID m) (set_message m) (t_messages t)\<rparr>) \<and>
     (\<exists>r\<in>set (t_messages t). msg_ID r = msg_ID m) \<and> message_typed (w_jsonb w) m"
  using assms
  by (auto simp: msgRepo_Update_def affected_Inr sql_Inr checked_Inr update_into_Inr
      count_where_eq_0 visible_def put_visible_def split: DBTX.splits option.splits if_splits)

lemma msgRepo_CreateCiphertext_Inr:
  assumes "run_state (msgRepo_CreateCiphertext db c) w = (Inr u, w')"
  shows "\<exists>t. visible db w = Some t \<and>
     visible db w' = Some (t\<lparr>t_ciphertexts := t_ciphertexts t @ [c]\<rparr>) \<and>
     has_message t (mc_MessageID c) \<and> has_device t (mc_RecipientDeviceID c)"
  using assms
  by (auto simp: msgRepo_CreateCiphertext_def mapErr_Inr sql_Inr checked_Inr insert_into_Inr
      has_message_def has_device_def visible_def put_visible_def simp del: run_mapErr
      split: DBTX.splits option.splits if_splits)

text \<open>A page of a conversation: what is in it, and in which order.\<close>

lemma conversation_page_iff:
  "x \<in> set (conversation_page conv before device t) \<longleftrightarrow>
     (\<exists>m\<in>set (t_messages t). \<exists>c\<in>set (t_ciphertexts t). x = with_ciphertext m c \<and>
        mc_MessageID c = msg_ID m \<and> msg_ConversationID m = conv \<and> msg_DeletedAt m = None \<and>
        mc_RecipientDeviceID c = device \<and> seq_before before m)"
  by (auto simp: conversation_page_def)

definition newest_first :: "int option \<Rightarrow> int option \<Rightarrow> bool" where
  "newest_first a b \<longleftrightarrow> (case b of None \<Rightarrow> a = None | Some y \<Rightarrow> (case a of None \<Rightarrow> True | Some x \<Rightarrow> y \<le> x))"

lemma order_desc_sorted: "sorted_wrt (\<lambda>a b. newest_first (key a) (key b)) (order_desc key rs)"
proof -
  have "sorted_wrt (\<lambda>a b. the (key a) \<le> the (key b))
      (sort_key (\<lambda>r. the (key r)) (filter (\<lambda>r. key r \<noteq> None) rs))"
    using sorted_sort_key [of "\<lambda>r. the (key r)"] by (simp add: sorted_map)
  then have "sorted_wrt (\<lambda>a b. newest_first (key b) (key a))
      (sort_key (\<lambda>r. the (key r)) (filter (\<lambda>r. key r \<noteq> None) rs))"
    by (rule sorted_wrt_mono_rel [rotated]) (auto simp: newest_first_def)
  moreover have "sorted_wrt (\<lambda>a b. newest_first (key b) (key a)) (filter (\<lambda>r. key r = None) rs)"
    by (induction rs) (auto simp: newest_first_def)
  ultimately show ?thesis
    by (auto simp: order_desc_def order_asc_def sorted_wrt_rev sorted_wrt_append newest_first_def)
qed

end
