(* ===== verification/ConversationRepo.thy ===== *)
theory ConversationRepo
  imports Cascades
begin

text \<open>
  \<^verbatim>\<open>internal/repository/conversation_repository.go\<close>: conversations, participants and the
  sequence counters. The trigger \<^verbatim>\<open>tr_conversations_updated\<close> overwrites \<^verbatim>\<open>updated_at\<close> in every
  UPDATE of a conversation.
\<close>

section \<open>Conversations\<close>

text \<open>The row has no participants; they are loaded separately.\<close>

definition conversation_row :: "Conversation \<Rightarrow> Conversation" where
  "conversation_row c = c\<lparr>conv_Participants := []\<rparr>"

definition conversation_typed :: "(string \<Rightarrow> bool) \<Rightarrow> Conversation \<Rightarrow> bool" where
  "conversation_typed jsonb c \<longleftrightarrow>
     typed [(conv_Type c, conversation_type_enum), (conv_DisappearingMode c, disappearing_mode_enum)] \<and>
     opt_jsonb jsonb (conv_GroupPermissions c)"

definition convRepo_Create :: "DBTX \<Rightarrow> Conversation \<Rightarrow> unit go" where
  "convRepo_Create db c = do {
     jsonb \<leftarrow> jsonb_input;
     mapErr alreadyExists (sql db (checked InvalidText (\<lambda>_. conversation_typed jsonb c)
       (insert_into t_conversations t_conversations_update conversation_clash
         (\<lambda>t. opt_ref (has_user t) (conv_CreatedBy c)) (conversation_row c))))
   }"

definition convRepo_GetParticipants :: "DBTX \<Rightarrow> uuid \<Rightarrow> Participant list go" where
  "convRepo_GetParticipants db c =
     sql db (query (\<lambda>t. filter (\<lambda>p. part_ConversationID p = c) (t_participants t)))"

definition load_participants :: "DBTX \<Rightarrow> Conversation \<Rightarrow> Conversation go" where
  "load_participants db c =
     andThen (convRepo_GetParticipants db (conv_ID c)) (\<lambda>ps. ok (c\<lparr>conv_Participants := ps\<rparr>))"

definition convRepo_GetByID :: "DBTX \<Rightarrow> uuid \<Rightarrow> Conversation go" where
  "convRepo_GetByID db i =
     andThen (mapErr notFound (queryRow db (\<lambda>t. filter (\<lambda>c. conv_ID c = i) (t_conversations t))))
       (load_participants db)"

definition set_conversation :: "time \<Rightarrow> Conversation \<Rightarrow> Conversation \<Rightarrow> Conversation" where
  "set_conversation now c r = (conversation_row c)\<lparr>conv_ID := conv_ID r,
     conv_CreatedAt := conv_CreatedAt r, conv_UpdatedAt := now\<rparr>"

definition convRepo_Update :: "DBTX \<Rightarrow> Conversation \<Rightarrow> unit go" where
  "convRepo_Update db c = do {
     now \<leftarrow> time_Now;
     jsonb \<leftarrow> jsonb_input;
     affected (sql db (checked InvalidText (\<lambda>_. conversation_typed jsonb c)
       (update_into t_conversations t_conversations_update conversation_clash
         (\<lambda>t. opt_ref (has_user t) (conv_CreatedBy c))
         (\<lambda>r. conv_ID r = conv_ID c) (set_conversation now c))))
   }"

definition convRepo_Delete :: "DBTX \<Rightarrow> uuid \<Rightarrow> unit go" where
  "convRepo_Delete db i = affected (sql db (delete_conversation i))"

definition conversation_of_user :: "tables \<Rightarrow> uuid \<Rightarrow> Conversation \<Rightarrow> bool" where
  "conversation_of_user t u c =
     list_ex (\<lambda>p. part_ConversationID p = conv_ID c \<and> part_UserID p = u) (t_participants t)"

definition convRepo_GetUserConversations ::
  "DBTX \<Rightarrow> uuid \<Rightarrow> int \<Rightarrow> int \<Rightarrow> (Conversation list \<times> int) go" where
  "convRepo_GetUserConversations db u page limit =
     andThen (queryRow db (\<lambda>t. [count_where (conversation_of_user t u) (t_conversations t)])) (\<lambda>total.
     andThen (sql db (query_page ((page - 1) * limit) limit (\<lambda>t.
       order_desc (\<lambda>c. Some (conv_UpdatedAt c))
         (filter (conversation_of_user t u) (t_conversations t))))) (\<lambda>rows.
     andThen (collect (load_participants db) rows) (\<lambda>conversations. ok (conversations, total))))"

text \<open>\<^verbatim>\<open>GROUP BY conversation_id HAVING COUNT(DISTINCT user_id) = 2\<close>\<close>

definition convRepo_GetDirectConversation :: "DBTX \<Rightarrow> uuid \<Rightarrow> uuid \<Rightarrow> Conversation go" where
  "convRepo_GetDirectConversation db u1 u2 =
     andThen (mapErr notFound (queryRow db (\<lambda>t. filter (\<lambda>c. conv_Type c = ''DM'' \<and>
       length (remdups (map part_UserID (filter (\<lambda>p. part_ConversationID p = conv_ID c \<and>
         part_UserID p \<in> {u1, u2}) (t_participants t)))) = 2) (t_conversations t))))
       (load_participants db)"

text \<open>LIKE: \<open>%\<close> stands for any text, \<open>_\<close> for one character, a backslash quotes the next one.\<close>

fun like_match :: "string \<Rightarrow> string \<Rightarrow> bool" where
  "like_match [] s = (s = [])"
| "like_match (p # ps) [] = (p = CHR ''%'' \<and> like_match ps [])"
| "like_match (p # ps) (c # s) =
     (if p = CHR ''%'' then like_match ps (c # s) \<or> like_match (p # ps) s
      else if p = CHR ''_'' then like_match ps s
      else if p = CHR 0x5C then (case ps of [] \<Rightarrow> False | q # qs \<Rightarrow> q = c \<and> like_match qs s)
      else p = c \<and> like_match ps s)"

definition ilike :: "string \<Rightarrow> string \<Rightarrow> bool" where
  "ilike s pattern = like_match (ToLower pattern) (ToLower s)"

definition opt_ilike :: "string option \<Rightarrow> string \<Rightarrow> bool" where
  "opt_ilike s pattern = (case s of None \<Rightarrow> False | Some x \<Rightarrow> ilike x pattern)"

definition convRepo_SearchConversations :: "DBTX \<Rightarrow> uuid \<Rightarrow> string \<Rightarrow> Conversation list go" where
  "convRepo_SearchConversations db u q =
     andThen (sql db (query (\<lambda>t. filter (\<lambda>c. conversation_of_user t u c \<and>
       opt_ilike (conv_Subject c) (''%'' @ q @ ''%'')) (t_conversations t))))
       (collect (load_participants db))"

definition convRepo_GetConversationsByType :: "DBTX \<Rightarrow> uuid \<Rightarrow> string \<Rightarrow> Conversation list go" where
  "convRepo_GetConversationsByType db u ty =
     andThen (sql db (checked InvalidText (\<lambda>_. typed [(ty, conversation_type_enum)])
       (query (\<lambda>t. filter (\<lambda>c. conversation_of_user t u c \<and> conv_Type c = ty) (t_conversations t)))))
       (collect (load_participants db))"

definition convRepo_GetByInviteLink :: "DBTX \<Rightarrow> string \<Rightarrow> Conversation go" where
  "convRepo_GetByInviteLink db link = do {
     now \<leftarrow> time_Now;
     andThen (mapErr notFound (queryRow db (\<lambda>t. filter (\<lambda>c. conv_InviteLink c = Some link \<and>
       (case conv_InviteLinkRevokedAt c of None \<Rightarrow> True | Some r \<Rightarrow> r > now)) (t_conversations t))))
       (load_participants db)
   }"

definition convRepo_RegenerateInviteLink :: "DBTX \<Rightarrow> uuid \<Rightarrow> string go" where
  "convRepo_RegenerateInviteLink db i = do {
     u \<leftarrow> uuid_New;
     now \<leftarrow> time_Now;
     andThen (affected (sql db (on_table t_conversations t_conversations_update (update_where
       (\<lambda>c. conv_ID c = i)
       (\<lambda>c. c\<lparr>conv_InviteLink := Some (uuid_String u), conv_InviteLinkRevokedAt := None,
            conv_UpdatedAt := now\<rparr>)))))
       (\<lambda>_. ok (uuid_String u))
   }"

section \<open>Participants\<close>

definition convRepo_AddParticipant :: "DBTX \<Rightarrow> Participant \<Rightarrow> unit go" where
  "convRepo_AddParticipant db p = do {
     jsonb \<leftarrow> jsonb_input;
     mapErr alreadyExists (sql db (checked InvalidText
       (\<lambda>_. typed [(part_Role p, participant_role_enum)] \<and> opt_jsonb jsonb (part_Permissions p))
       (insert_into t_participants t_participants_update participant_clash
         (\<lambda>t. has_conversation t (part_ConversationID p) \<and> has_user t (part_UserID p) \<and>
           opt_ref (has_user t) (part_AddedBy p)) p)))
   }"

definition is_participant :: "uuid \<Rightarrow> uuid \<Rightarrow> Participant \<Rightarrow> bool" where
  "is_participant c u p \<longleftrightarrow> part_ConversationID p = c \<and> part_UserID p = u"

definition convRepo_RemoveParticipant :: "DBTX \<Rightarrow> uuid \<Rightarrow> uuid \<Rightarrow> unit go" where
  "convRepo_RemoveParticipant db c u =
     affected (sql db (on_table t_participants t_participants_update
       (delete_where (is_participant c u))))"

definition convRepo_GetParticipant :: "DBTX \<Rightarrow> uuid \<Rightarrow> uuid \<Rightarrow> Participant go" where
  "convRepo_GetParticipant db c u =
     mapErr notFound (queryRow db (\<lambda>t. filter (is_participant c u) (t_participants t)))"

definition update_participant ::
  "DBTX \<Rightarrow> uuid \<Rightarrow> uuid \<Rightarrow> (Participant \<Rightarrow> Participant) \<Rightarrow> unit go" where
  "update_participant db c u f =
     affected (sql db (on_table t_participants t_participants_update
       (update_where (is_participant c u) f)))"

definition convRepo_UpdateParticipantRole :: "DBTX \<Rightarrow> uuid \<Rightarrow> uuid \<Rightarrow> string \<Rightarrow> unit go" where
  "convRepo_UpdateParticipantRole db c u role =
     affected (sql db (checked InvalidText (\<lambda>_. typed [(role, participant_role_enum)])
       (on_table t_participants t_participants_update
         (update_where (is_participant c u) (\<lambda>p. p\<lparr>part_Role := role\<rparr>)))))"

definition convRepo_IsParticipant :: "DBTX \<Rightarrow> uuid \<Rightarrow> uuid \<Rightarrow> bool go" where
  "convRepo_IsParticipant db c u =
     andThen (queryRow db (\<lambda>t. [count_where (is_participant c u) (t_participants t)]))
       (\<lambda>count. ok (count > 0))"

definition convRepo_GetParticipantCount :: "DBTX \<Rightarrow> uuid \<Rightarrow> int go" where
  "convRepo_GetParticipantCount db c =
     queryRow db (\<lambda>t. [count_where (\<lambda>p. part_ConversationID p = c) (t_participants t)])"

definition convRepo_MuteConversation :: "DBTX \<Rightarrow> uuid \<Rightarrow> uuid \<Rightarrow> time \<Rightarrow> unit go" where
  "convRepo_MuteConversation db c u until =
     update_participant db c u (\<lambda>p. p\<lparr>part_MutedUntil := Some until\<rparr>)"

definition convRepo_UnmuteConversation :: "DBTX \<Rightarrow> uuid \<Rightarrow> uuid \<Rightarrow> unit go" where
  "convRepo_UnmuteConversation db c u = update_participant db c u (\<lambda>p. p\<lparr>part_MutedUntil := None\<rparr>)"

definition convRepo_PinConversation :: "DBTX \<Rightarrow> uuid \<Rightarrow> uuid \<Rightarrow> unit go" where
  "convRepo_PinConversation db c u = do {
     now \<leftarrow> time_Now;
     update_participant db c u (\<lambda>p. p\<lparr>part_PinnedAt := Some now\<rparr>)
   }"

definition convRepo_UnpinConversation :: "DBTX \<Rightarrow> uuid \<Rightarrow> uuid \<Rightarrow> unit go" where
  "convRepo_UnpinConversation db c u = update_participant db c u (\<lambda>p. p\<lparr>part_PinnedAt := None\<rparr>)"

definition convRepo_ArchiveConversation :: "DBTX \<Rightarrow> uuid \<Rightarrow> uuid \<Rightarrow> unit go" where
  "convRepo_ArchiveConversation db c u = update_participant db c u (\<lambda>p. p\<lparr>part_Archived := True\<rparr>)"

definition convRepo_UnarchiveConversation :: "DBTX \<Rightarrow> uuid \<Rightarrow> uuid \<Rightarrow> unit go" where
  "convRepo_UnarchiveConversation db c u = update_participant db c u (\<lambda>p. p\<lparr>part_Archived := False\<rparr>)"

definition convRepo_UpdateLastReadSequence :: "DBTX \<Rightarrow> uuid \<Rightarrow> uuid \<Rightarrow> int \<Rightarrow> unit go" where
  "convRepo_UpdateLastReadSequence db c u seq =
     update_participant db c u (\<lambda>p. p\<lparr>part_LastReadSequence := seq\<rparr>)"

section \<open>Sequence counters\<close>

definition find_sequence :: "uuid \<Rightarrow> tables \<Rightarrow> ConversationSequence list" where
  "find_sequence c t = filter (\<lambda>s. cseq_ConversationID s = c) (t_sequences t)"

definition convRepo_GetConversationSequence :: "DBTX \<Rightarrow> uuid \<Rightarrow> ConversationSequence go" where
  "convRepo_GetConversationSequence db c = mapErr notFound (queryRow db (find_sequence c))"

definition convRepo_IncrementSequence :: "DBTX \<Rightarrow> uuid \<Rightarrow> int go" where
  "convRepo_IncrementSequence db c =
     WithTx db (\<lambda>tx. do {
       r \<leftarrow> queryRow tx (find_sequence c);
       (case r of
          Inl e \<Rightarrow>
            if e = SqlError NoRows then do {
              now \<leftarrow> time_Now;
              andThen (sql tx (insert_into t_sequences t_sequences_update sequence_clash
                (\<lambda>t. has_conversation t c)
                \<lparr>cseq_ConversationID = c, cseq_LastSequence = 1, cseq_UpdatedAt = now\<rparr>))
                (\<lambda>_. ok 1)
            }
            else fail e
        | Inr s \<Rightarrow> do {
            now \<leftarrow> time_Now;
            andThen (sql tx (on_table t_sequences t_sequences_update (update_where
              (\<lambda>x. cseq_ConversationID x = c)
              (\<lambda>x. x\<lparr>cseq_LastSequence := cseq_LastSequence s + 1, cseq_UpdatedAt := now\<rparr>))))
              (\<lambda>_. ok (cseq_LastSequence s + 1))
          })
     })"

section \<open>What the operations do\<close>

lemma run_IsParticipant [run_simps]:
  assumes "visible db w = Some t" and "w_fault w (w_step w) = None"
  shows "run_state (convRepo_IsParticipant db c u) w =
    (Inr (list_ex (is_participant c u) (t_participants t)), tick w)"
proof -
  have "count_where P rs > 0 \<longleftrightarrow> list_ex P rs" for P :: "Participant \<Rightarrow> bool" and rs
    by (metis count_where_eq_0 count_where_nonneg less_le list_ex_iff)
  then show ?thesis
    using assms by (simp add: convRepo_IsParticipant_def queryRow_def run_sql query_def)
qed

lemma IsParticipant_Inr:
  "run_state (convRepo_IsParticipant db c u) w = (Inr b, w') \<Longrightarrow>
   \<exists>t. visible db w = Some t \<and> b = list_ex (is_participant c u) (t_participants t) \<and> w' = tick w"
proof -
  assume r: "run_state (convRepo_IsParticipant db c u) w = (Inr b, w')"
  then obtain n w1 where q: "run_state (queryRow db (\<lambda>t. [count_where (is_participant c u)
      (t_participants t)])) w = (Inr n, w1)"
    by (auto simp: convRepo_IsParticipant_def split: prod.splits sum.splits)
  then obtain t where "visible db w = Some t" "w_fault w (w_step w) = None"
    by (auto simp: queryRow_Inr)
  with r show ?thesis by (simp add: run_IsParticipant)
qed

end
