(* ===== verification/OutboxRepo.thy ===== *)
theory OutboxRepo
  imports Cascades
begin

text \<open>
  \<^verbatim>\<open>internal/repository/outbox_repository.go\<close>: the transactional outbox. The identifier reaches
  the repository as the text of a UUID and is compared with a UUID column; the text of a UUID
  determines it, so the methods take the UUID.
\<close>

definition outboxRepo_Create :: "DBTX \<Rightarrow> DBTX \<Rightarrow> OutboxEvent \<Rightarrow> unit go" where
  "outboxRepo_Create db tx event =
     (let execDB = (if tx = NilDB then db else tx)
      in sql execDB (insert_into t_outbox t_outbox_update outbox_clash (\<lambda>_. True) event))"

definition is_pending :: "OutboxEvent \<Rightarrow> bool" where
  "is_pending e \<longleftrightarrow> ob_Status e = StatusPending \<and> ob_RetryCount e < 10"

definition outboxRepo_GetPending :: "DBTX \<Rightarrow> int \<Rightarrow> OutboxEvent list go" where
  "outboxRepo_GetPending db limit =
     sql db (query_page 0 limit (\<lambda>t. order_asc (\<lambda>e. Some (ob_CreatedAt e))
       (filter is_pending (t_outbox t))))"

definition update_event :: "DBTX \<Rightarrow> uuid \<Rightarrow> (OutboxEvent \<Rightarrow> OutboxEvent) \<Rightarrow> unit go" where
  "update_event db i f =
     void (sql db (on_table t_outbox t_outbox_update (update_where (\<lambda>e. ob_ID e = i) f)))"

definition outboxRepo_MarkProcessing :: "DBTX \<Rightarrow> uuid \<Rightarrow> unit go" where
  "outboxRepo_MarkProcessing db i = do {
     now \<leftarrow> time_Now;
     update_event db i (\<lambda>e. e\<lparr>ob_Status := StatusProcessing, ob_UpdatedAt := now\<rparr>)
   }"

definition outboxRepo_MarkCompleted :: "DBTX \<Rightarrow> uuid \<Rightarrow> unit go" where
  "outboxRepo_MarkCompleted db i = do {
     now \<leftarrow> time_Now;
     update_event db i (\<lambda>e. e\<lparr>ob_Status := StatusCompleted, ob_ProcessedAt := Some now,
       ob_UpdatedAt := now\<rparr>)
   }"

definition outboxRepo_MarkFailed :: "DBTX \<Rightarrow> uuid \<Rightarrow> string \<Rightarrow> unit go" where
  "outboxRepo_MarkFailed db i errorMsg = do {
     now \<leftarrow> time_Now;
     update_event db i (\<lambda>e. e\<lparr>ob_Status := StatusFailed, ob_Error := errorMsg,
       ob_UpdatedAt := now\<rparr>)
   }"

definition outboxRepo_IncrementRetry :: "DBTX \<Rightarrow> uuid \<Rightarrow> unit go" where
  "outboxRepo_IncrementRetry db i =
     update_event db i (\<lambda>e. e\<lparr>ob_RetryCount := ob_RetryCount e + 1\<rparr>)"

end
