(* ===== verification/Events.thy ===== *)
theory Events
  imports Prelude
begin

text \<open>
  \<^verbatim>\<open>internal/events\<close>: the domain events, their JSON form, the decoding that the outbox worker
  and the Redis bus share, and the choice of Redis channels.

  Each event struct embeds \<^verbatim>\<open>BaseEvent\<close>. \<^verbatim>\<open>encoding/json\<close> promotes the fields of the embedded
  struct unless the outer struct has a field of the same JSON name; such a shadowed field is
  neither written nor read. A decoder ignores unknown names, leaves the zero value for a
  missing or null field, and fails on a value of the wrong kind.
\<close>

section \<open>Event types and events (\<^verbatim>\<open>types.go\<close>)\<close>

definition EventMessageNew :: string where "EventMessageNew = ''message:new''"
definition EventMessageRead :: string where "EventMessageRead = ''message:read''"
definition EventMessageDelivered :: string where "EventMessageDelivered = ''message:delivered''"
definition EventTypingStarted :: string where "EventTypingStarted = ''typing:started''"
definition EventTypingStopped :: string where "EventTypingStopped = ''typing:stopped''"
definition EventPresenceOnline :: string where "EventPresenceOnline = ''presence:online''"
definition EventPresenceOffline :: string where "EventPresenceOffline = ''presence:offline''"
definition EventCallOffer :: string where "EventCallOffer = ''call:offer''"
definition EventCallAnswer :: string where "EventCallAnswer = ''call:answer''"
definition EventCallICE :: string where "EventCallICE = ''call:ice''"
definition EventCallEnded :: string where "EventCallEnded = ''call:ended''"

lemmas event_type_defs = EventMessageNew_def EventMessageRead_def EventMessageDelivered_def
  EventTypingStarted_def EventTypingStopped_def EventPresenceOnline_def EventPresenceOffline_def
  EventCallOffer_def EventCallAnswer_def EventCallICE_def EventCallEnded_def

record BaseEvent =
  EventTypeVal :: string
  TimestampVal :: time
  UserIDVal :: uuid
  ConvIDVal :: uuid

record MessageNewEvent =
  mne_Base :: BaseEvent
  mne_MessageID :: uuid
  mne_ConversationID :: uuid
  mne_SenderID :: uuid
  mne_Content :: string

record TypingEvent =
  te_Base :: BaseEvent
  te_ConversationID :: uuid
  te_UserID :: uuid
  te_DisplayName :: string
  te_IsTyping :: bool

record MessageReadEvent =
  mre_Base :: BaseEvent
  mre_MessageID :: uuid
  mre_ConversationID :: uuid
  mre_ReaderID :: uuid

record MessageDeliveredEvent =
  mde_Base :: BaseEvent
  mde_MessageID :: uuid
  mde_ConversationID :: uuid
  mde_RecipientID :: uuid

record PresenceEvent =
  pe_Base :: BaseEvent
  pe_UserID :: uuid
  pe_IsOnline :: bool
  pe_Status :: string

record CallSignalingEvent =
  cse_Base :: BaseEvent
  cse_CallID :: uuid
  cse_FromID :: uuid
  cse_ToID :: uuid
  cse_SignalType :: string
  cse_Data :: string

record CallEndedEvent =
  cee_Base :: BaseEvent
  cee_CallID :: uuid
  cee_ConversationID :: uuid
  cee_EndedBy :: uuid
  cee_Reason :: string
  cee_Duration :: int

datatype Event =
    MessageNew MessageNewEvent
  | MessageRead MessageReadEvent
  | MessageDelivered MessageDeliveredEvent
  | Typing TypingEvent
  | Presence PresenceEvent
  | CallSignaling CallSignalingEvent
  | CallEnded CallEndedEvent

fun event_base :: "Event \<Rightarrow> BaseEvent" where
  "event_base (MessageNew e) = mne_Base e"
| "event_base (MessageRead e) = mre_Base e"
| "event_base (MessageDelivered e) = mde_Base e"
| "event_base (Typing e) = te_Base e"
| "event_base (Presence e) = pe_Base e"
| "event_base (CallSignaling e) = cse_Base e"
| "event_base (CallEnded e) = cee_Base e"

definition event_Type :: "Event \<Rightarrow> string" where
  "event_Type e = EventTypeVal (event_base e)"

section \<open>\<^verbatim>\<open>json.Marshal\<close>\<close>

text \<open>The four fields of the base; \<open>shadowed\<close> lists the JSON names of the outer struct.\<close>

definition base_fields :: "string list \<Rightarrow> BaseEvent \<Rightarrow> (string \<times> json) list" where
  "base_fields shadowed b = filter (\<lambda>(k, _). k \<notin> set shadowed)
     [(''type'', JStr (EventTypeVal b)), (''timestamp'', JTime (TimestampVal b)),
      (''user_id'', JUUID (UserIDVal b)), (''conversation_id'', JUUID (ConvIDVal b))]"

definition embed :: "BaseEvent \<Rightarrow> (string \<times> json) list \<Rightarrow> json" where
  "embed b fs = JObj (base_fields (map fst fs) b @ fs)"

fun event_json :: "Event \<Rightarrow> json" where
  "event_json (MessageNew e) = embed (mne_Base e)
     [(''message_id'', JUUID (mne_MessageID e)),
      (''conversation_id'', JUUID (mne_ConversationID e)),
      (''sender_id'', JUUID (mne_SenderID e)), (''content'', JStr (mne_Content e))]"
| "event_json (MessageRead e) = embed (mre_Base e)
     [(''message_id'', JUUID (mre_MessageID e)),
      (''conversation_id'', JUUID (mre_ConversationID e)),
      (''reader_id'', JUUID (mre_ReaderID e))]"
| "event_json (MessageDelivered e) = embed (mde_Base e)
     [(''message_id'', JUUID (mde_MessageID e)),
      (''conversation_id'', JUUID (mde_ConversationID e)),
      (''recipient_id'', JUUID (mde_RecipientID e))]"
| "event_json (Typing e) = embed (te_Base e)
     [(''conversation_id'', JUUID (te_ConversationID e)), (''user_id'', JUUID (te_UserID e)),
      (''display_name'', JStr (te_DisplayName e)), (''is_typing'', JBool (te_IsTyping e))]"
| "event_json (Presence e) = embed (pe_Base e)
     [(''user_id'', JUUID (pe_UserID e)), (''is_online'', JBool (pe_IsOnline e)),
      (''status'', JStr (pe_Status e))]"
| "event_json (CallSignaling e) = embed (cse_Base e)
     [(''call_id'', JUUID (cse_CallID e)), (''from_id'', JUUID (cse_FromID e)),
      (''to_id'', JUUID (cse_ToID e)), (''signal_type'', JStr (cse_SignalType e)),
      (''data'', JStr (cse_Data e))]"
| "event_json (CallEnded e) = embed (cee_Base e)
     [(''call_id'', JUUID (cee_CallID e)),
      (''conversation_id'', JUUID (cee_ConversationID e)),
      (''ended_by'', JUUID (cee_EndedBy e)), (''reason'', JStr (cee_Reason e)),
      (''duration_seconds'', JNum (cee_Duration e))]"

section \<open>\<^verbatim>\<open>json.Unmarshal\<close>\<close>

text \<open>The JSON null leaves a struct as it is, which is zero.\<close>

definition zero_base :: BaseEvent where
  "zero_base = \<lparr>EventTypeVal = [], TimestampVal = 0, UserIDVal = uuid_Nil, ConvIDVal = uuid_Nil\<rparr>"

definition decode_base :: "string list \<Rightarrow> (string \<times> json) list \<Rightarrow> BaseEvent option" where
  "decode_base shadowed fs =
     (let own = filter (\<lambda>(k, _). k \<notin> set shadowed) fs
      in Option.bind (as_string (field own ''type'')) (\<lambda>ty.
         Option.bind (as_time (field own ''timestamp'')) (\<lambda>ts.
         Option.bind (as_uuid (field own ''user_id'')) (\<lambda>u.
         Option.bind (as_uuid (field own ''conversation_id'')) (\<lambda>c.
           Some \<lparr>EventTypeVal = ty, TimestampVal = ts, UserIDVal = u, ConvIDVal = c\<rparr>)))))"

fun decode_MessageNew :: "json \<Rightarrow> MessageNewEvent option" where
  "decode_MessageNew (JObj fs) =
     Option.bind (decode_base [''message_id'', ''conversation_id'', ''sender_id'', ''content''] fs) (\<lambda>b.
     Option.bind (as_uuid (field fs ''message_id'')) (\<lambda>m.
     Option.bind (as_uuid (field fs ''conversation_id'')) (\<lambda>c.
     Option.bind (as_uuid (field fs ''sender_id'')) (\<lambda>s.
     Option.bind (as_string (field fs ''content'')) (\<lambda>t.
       Some \<lparr>mne_Base = b, mne_MessageID = m, mne_ConversationID = c, mne_SenderID = s,
             mne_Content = t\<rparr>)))))"
| "decode_MessageNew JNull = Some \<lparr>mne_Base = zero_base, mne_MessageID = uuid_Nil, mne_ConversationID = uuid_Nil,
     mne_SenderID = uuid_Nil, mne_Content = []\<rparr>"
| "decode_MessageNew _ = None"

fun decode_MessageRead :: "json \<Rightarrow> MessageReadEvent option" where
  "decode_MessageRead (JObj fs) =
     Option.bind (decode_base [''message_id'', ''conversation_id'', ''reader_id''] fs) (\<lambda>b.
     Option.bind (as_uuid (field fs ''message_id'')) (\<lambda>m.
     Option.bind (as_uuid (field fs ''conversation_id'')) (\<lambda>c.
     Option.bind (as_uuid (field fs ''reader_id'')) (\<lambda>r.
       Some \<lparr>mre_Base = b, mre_MessageID = m, mre_ConversationID = c, mre_ReaderID = r\<rparr>))))"
| "decode_MessageRead JNull = Some \<lparr>mre_Base = zero_base, mre_MessageID = uuid_Nil, mre_ConversationID = uuid_Nil,
     mre_ReaderID = uuid_Nil\<rparr>"
| "decode_MessageRead _ = None"

fun decode_MessageDelivered :: "json \<Rightarrow> MessageDeliveredEvent option" where
  "decode_MessageDelivered (JObj fs) =
     Option.bind (decode_base [''message_id'', ''conversation_id'', ''recipient_id''] fs) (\<lambda>b.
     Option.bind (as_uuid (field fs ''message_id'')) (\<lambda>m.
     Option.bind (as_uuid (field fs ''conversation_id'')) (\<lambda>c.
     Option.bind (as_uuid (field fs ''recipient_id'')) (\<lambda>r.
       Some \<lparr>mde_Base = b, mde_MessageID = m, mde_ConversationID = c, mde_RecipientID = r\<rparr>))))"
| "decode_MessageDelivered JNull = Some \<lparr>mde_Base = zero_base, mde_MessageID = uuid_Nil, mde_ConversationID = uuid_Nil,
     mde_RecipientID = uuid_Nil\<rparr>"
| "decode_MessageDelivered _ = None"

fun decode_Typing :: "json \<Rightarrow> TypingEvent option" where
  "decode_Typing (JObj fs) =
     Option.bind (decode_base [''conversation_id'', ''user_id'', ''display_name'', ''is_typing''] fs) (\<lambda>b.
     Option.bind (as_uuid (field fs ''conversation_id'')) (\<lambda>c.
     Option.bind (as_uuid (field fs ''user_id'')) (\<lambda>u.
     Option.bind (as_string (field fs ''display_name'')) (\<lambda>d.
     Option.bind (as_bool (field fs ''is_typing'')) (\<lambda>t.
       Some \<lparr>te_Base = b, te_ConversationID = c, te_UserID = u, te_DisplayName = d,
             te_IsTyping = t\<rparr>)))))"
| "decode_Typing JNull = Some \<lparr>te_Base = zero_base, te_ConversationID = uuid_Nil, te_UserID = uuid_Nil,
     te_DisplayName = [], te_IsTyping = False\<rparr>"
| "decode_Typing _ = None"

fun decode_Presence :: "json \<Rightarrow> PresenceEvent option" where
  "decode_Presence (JObj fs) =
     Option.bind (decode_base [''user_id'', ''is_online'', ''status''] fs) (\<lambda>b.
     Option.bind (as_uuid (field fs ''user_id'')) (\<lambda>u.
     Option.bind (as_bool (field fs ''is_online'')) (\<lambda>i.
     Option.bind (as_string (field fs ''status'')) (\<lambda>s.
       Some \<lparr>pe_Base = b, pe_UserID = u, pe_IsOnline = i, pe_Status = s\<rparr>))))"
| "decode_Presence JNull = Some \<lparr>pe_Base = zero_base, pe_UserID = uuid_Nil, pe_IsOnline = False, pe_Status = []\<rparr>"
| "decode_Presence _ = None"

fun decode_CallSignaling :: "json \<Rightarrow> CallSignalingEvent option" where
  "decode_CallSignaling (JObj fs) =
     Option.bind (decode_base [''call_id'', ''from_id'', ''to_id'', ''signal_type'', ''data''] fs) (\<lambda>b.
     Option.bind (as_uuid (field fs ''call_id'')) (\<lambda>c.
     Option.bind (as_uuid (field fs ''from_id'')) (\<lambda>f.
     Option.bind (as_uuid (field fs ''to_id'')) (\<lambda>t.
     Option.bind (as_string (field fs ''signal_type'')) (\<lambda>s.
     Option.bind (as_string (field fs ''data'')) (\<lambda>d.
       Some \<lparr>cse_Base = b, cse_CallID = c, cse_FromID = f, cse_ToID = t, cse_SignalType = s,
             cse_Data = d\<rparr>))))))"
| "decode_CallSignaling JNull = Some \<lparr>cse_Base = zero_base, cse_CallID = uuid_Nil, cse_FromID = uuid_Nil, cse_ToID = uuid_Nil,
     cse_SignalType = [], cse_Data = []\<rparr>"
| "decode_CallSignaling _ = None"

fun decode_CallEnded :: "json \<Rightarrow> CallEndedEvent option" where
  "decode_CallEnded (JObj fs) =
     Option.bind (decode_base
       [''call_id'', ''conversation_id'', ''ended_by'', ''reason'', ''duration_seconds''] fs) (\<lambda>b.
     Option.bind (as_uuid (field fs ''call_id'')) (\<lambda>c.
     Option.bind (as_uuid (field fs ''conversation_id'')) (\<lambda>cv.
     Option.bind (as_uuid (field fs ''ended_by'')) (\<lambda>u.
     Option.bind (as_string (field fs ''reason'')) (\<lambda>r.
     Option.bind (as_int (field fs ''duration_seconds'')) (\<lambda>d.
       Some \<lparr>cee_Base = b, cee_CallID = c, cee_ConversationID = cv, cee_EndedBy = u,
             cee_Reason = r, cee_Duration = d\<rparr>))))))"
| "decode_CallEnded JNull = Some \<lparr>cee_Base = zero_base, cee_CallID = uuid_Nil, cee_ConversationID = uuid_Nil,
     cee_EndedBy = uuid_Nil, cee_Reason = [], cee_Duration = 0\<rparr>"
| "decode_CallEnded _ = None"

text \<open>\<^verbatim>\<open>unmarshalEvent\<close>: \<open>None\<close> is the nil event of an unknown type or undecodable payload.\<close>

definition unmarshalEvent :: "string \<Rightarrow> json \<Rightarrow> Event option" where
  "unmarshalEvent ty payload =
     (if ty = EventMessageNew then map_option MessageNew (decode_MessageNew payload)
      else if ty = EventMessageRead then map_option MessageRead (decode_MessageRead payload)
      else if ty = EventMessageDelivered
        then map_option MessageDelivered (decode_MessageDelivered payload)
      else if ty \<in> {EventTypingStarted, EventTypingStopped}
        then map_option Typing (decode_Typing payload)
      else if ty \<in> {EventPresenceOnline, EventPresenceOffline}
        then map_option Presence (decode_Presence payload)
      else if ty \<in> {EventCallOffer, EventCallAnswer, EventCallICE}
        then map_option CallSignaling (decode_CallSignaling payload)
      else if ty = EventCallEnded then map_option CallEnded (decode_CallEnded payload)
      else None)"

section \<open>Channels (\<^verbatim>\<open>channel_resolver.go\<close>)\<close>

definition conversation_channel :: "uuid \<Rightarrow> string" where
  "conversation_channel c = ''channel:conversation:'' @ uuid_String c"

definition user_channel :: "uuid \<Rightarrow> string" where
  "user_channel u = ''channel:user:'' @ uuid_String u"

fun ResolveChannels :: "Event \<Rightarrow> string list" where
  "ResolveChannels (MessageNew e) = [conversation_channel (mne_ConversationID e)]"
| "ResolveChannels (MessageRead e) = [conversation_channel (mre_ConversationID e)]"
| "ResolveChannels (MessageDelivered e) = [user_channel (mde_RecipientID e)]"
| "ResolveChannels (Typing e) = [conversation_channel (te_ConversationID e)]"
| "ResolveChannels (Presence e) = [user_channel (pe_UserID e)]"
| "ResolveChannels (CallSignaling e) = [user_channel (cse_ToID e)]"
| "ResolveChannels (CallEnded e) = [conversation_channel (cee_ConversationID e)]"

section \<open>Round trip\<close>

text \<open>
  What survives the wire: everything but the fields of the base that the outer struct
  shadows, which come back as the nil UUID. The type tag must be one that
  \<^verbatim>\<open>unmarshalEvent\<close> sends to the struct the event has.
\<close>

fun wire :: "Event \<Rightarrow> Event" where
  "wire (MessageNew e) = MessageNew (e\<lparr>mne_Base := (mne_Base e)\<lparr>ConvIDVal := uuid_Nil\<rparr>\<rparr>)"
| "wire (MessageRead e) = MessageRead (e\<lparr>mre_Base := (mre_Base e)\<lparr>ConvIDVal := uuid_Nil\<rparr>\<rparr>)"
| "wire (MessageDelivered e) =
     MessageDelivered (e\<lparr>mde_Base := (mde_Base e)\<lparr>ConvIDVal := uuid_Nil\<rparr>\<rparr>)"
| "wire (Typing e) =
     Typing (e\<lparr>te_Base := (te_Base e)\<lparr>UserIDVal := uuid_Nil, ConvIDVal := uuid_Nil\<rparr>\<rparr>)"
| "wire (Presence e) = Presence (e\<lparr>pe_Base := (pe_Base e)\<lparr>UserIDVal := uuid_Nil\<rparr>\<rparr>)"
| "wire (CallSignaling e) = CallSignaling e"
| "wire (CallEnded e) = CallEnded (e\<lparr>cee_Base := (cee_Base e)\<lparr>ConvIDVal := uuid_Nil\<rparr>\<rparr>)"

fun tags_of :: "Event \<Rightarrow> string set" where
  "tags_of (MessageNew e) = {EventMessageNew}"
| "tags_of (MessageRead e) = {EventMessageRead}"
| "tags_of (MessageDelivered e) = {EventMessageDelivered}"
| "tags_of (Typing e) = {EventTypingStarted, EventTypingStopped}"
| "tags_of (Presence e) = {EventPresenceOnline, EventPresenceOffline}"
| "tags_of (CallSignaling e) = {EventCallOffer, EventCallAnswer, EventCallICE}"
| "tags_of (CallEnded e) = {EventCallEnded}"

lemmas codec_defs = embed_def base_fields_def decode_base_def field_def Let_def

lemma decode_MessageNew_embed:
  "decode_MessageNew (event_json (MessageNew e)) =
     Some (e\<lparr>mne_Base := (mne_Base e)\<lparr>ConvIDVal := uuid_Nil\<rparr>\<rparr>)"
  by (simp add: codec_defs)

lemma decode_MessageRead_embed:
  "decode_MessageRead (event_json (MessageRead e)) =
     Some (e\<lparr>mre_Base := (mre_Base e)\<lparr>ConvIDVal := uuid_Nil\<rparr>\<rparr>)"
  by (simp add: codec_defs)

lemma decode_MessageDelivered_embed:
  "decode_MessageDelivered (event_json (MessageDelivered e)) =
     Some (e\<lparr>mde_Base := (mde_Base e)\<lparr>ConvIDVal := uuid_Nil\<rparr>\<rparr>)"
  by (simp add: codec_defs)

lemma decode_Typing_embed:
  "decode_Typing (event_json (Typing e)) =
     Some (e\<lparr>te_Base := (te_Base e)\<lparr>UserIDVal := uuid_Nil, ConvIDVal := uuid_Nil\<rparr>\<rparr>)"
  by (simp add: codec_defs)

lemma decode_Presence_embed:
  "decode_Presence (event_json (Presence e)) =
     Some (e\<lparr>pe_Base := (pe_Base e)\<lparr>UserIDVal := uuid_Nil\<rparr>\<rparr>)"
  by (simp add: codec_defs)

lemma decode_CallSignaling_embed:
  "decode_CallSignaling (event_json (CallSignaling e)) = Some e"
  by (simp add: codec_defs)

lemma decode_CallEnded_embed:
  "decode_CallEnded (event_json (CallEnded e)) =
     Some (e\<lparr>cee_Base := (cee_Base e)\<lparr>ConvIDVal := uuid_Nil\<rparr>\<rparr>)"
  by (simp add: codec_defs)

lemmas decode_embed = decode_MessageNew_embed decode_MessageRead_embed
  decode_MessageDelivered_embed decode_Typing_embed decode_Presence_embed
  decode_CallSignaling_embed decode_CallEnded_embed

lemma unmarshal_wire: "ty \<in> tags_of e \<Longrightarrow> unmarshalEvent ty (event_json e) = Some (wire e)"
  by (cases e)
     (auto simp: unmarshalEvent_def event_type_defs decode_embed simp del: event_json.simps)

lemma unmarshal_tag: "unmarshalEvent ty p = Some e \<Longrightarrow> ty \<in> tags_of e"
  by (auto simp: unmarshalEvent_def split: if_splits)

lemma wire_idem [simp]: "wire (wire e) = wire e"
  by (cases e) simp_all

lemma ResolveChannels_wire [simp]: "ResolveChannels (wire e) = ResolveChannels e"
  by (cases e) simp_all

lemma event_Type_wire [simp]: "event_Type (wire e) = event_Type e"
  by (cases e) (simp_all add: event_Type_def)

lemma tags_of_wire [simp]: "tags_of (wire e) = tags_of e"
  by (cases e) simp_all

end
