(* ===== verification/EventPublisher.thy ===== *)
theory EventPublisher
  imports OutboxRepo Events
begin

text \<open>
  \<^verbatim>\<open>internal/services/event_publisher.go\<close>: domain events written to the outbox inside the
  caller's transaction. The publisher is its repository's \<^verbatim>\<open>db\<close>; \<open>tx\<close> is the argument of
  the same name. An event that carries no conversation has the nil UUID in its base.
\<close>

definition saveToOutbox ::
  "DBTX \<Rightarrow> DBTX \<Rightarrow> string \<Rightarrow> string \<Rightarrow> string \<Rightarrow> Event \<Rightarrow> unit go" where
  "saveToOutbox p tx eventType aggregateType aggregateID event = do {
     i \<leftarrow> uuid_New;
     created \<leftarrow> time_Now;
     updated \<leftarrow> time_Now;
     outboxRepo_Create p tx \<lparr>ob_ID = i, ob_EventType = eventType,
       ob_AggregateType = aggregateType, ob_AggregateID = aggregateID,
       ob_Payload = event_json event, ob_Status = StatusPending, ob_RetryCount = 0,
       ob_Error = [], ob_CreatedAt = created, ob_UpdatedAt = updated, ob_ProcessedAt = None\<rparr>
   }"

definition base_event :: "string \<Rightarrow> uuid \<Rightarrow> uuid \<Rightarrow> (world, BaseEvent) state" where
  "base_event ty u c = do {
     now \<leftarrow> time_Now;
     State_Monad.return \<lparr>EventTypeVal = ty, TimestampVal = now, UserIDVal = u, ConvIDVal = c\<rparr>
   }"

definition PublishMessageNew :: "DBTX \<Rightarrow> DBTX \<Rightarrow> uuid \<Rightarrow> uuid \<Rightarrow> uuid \<Rightarrow> unit go" where
  "PublishMessageNew p tx msgID convID senderID = do {
     b \<leftarrow> base_event EventMessageNew senderID convID;
     saveToOutbox p tx EventMessageNew ''message'' (uuid_String convID)
       (MessageNew \<lparr>mne_Base = b, mne_MessageID = msgID, mne_ConversationID = convID,
          mne_SenderID = senderID, mne_Content = []\<rparr>)
   }"

definition PublishTypingStarted :: "DBTX \<Rightarrow> DBTX \<Rightarrow> uuid \<Rightarrow> uuid \<Rightarrow> string \<Rightarrow> unit go" where
  "PublishTypingStarted p tx convID userID displayName = do {
     b \<leftarrow> base_event EventTypingStarted userID convID;
     saveToOutbox p tx EventTypingStarted ''conversation'' (uuid_String convID)
       (Typing \<lparr>te_Base = b, te_ConversationID = convID, te_UserID = userID,
          te_DisplayName = displayName, te_IsTyping = True\<rparr>)
   }"

definition PublishTypingStopped :: "DBTX \<Rightarrow> DBTX \<Rightarrow> uuid \<Rightarrow> uuid \<Rightarrow> string \<Rightarrow> unit go" where
  "PublishTypingStopped p tx convID userID displayName = do {
     b \<leftarrow> base_event EventTypingStopped userID convID;
     saveToOutbox p tx EventTypingStopped ''conversation'' (uuid_String convID)
       (Typing \<lparr>te_Base = b, te_ConversationID = convID, te_UserID = userID,
          te_DisplayName = displayName, te_IsTyping = False\<rparr>)
   }"

definition PublishMessageRead :: "DBTX \<Rightarrow> DBTX \<Rightarrow> uuid \<Rightarrow> uuid \<Rightarrow> uuid \<Rightarrow> unit go" where
  "PublishMessageRead p tx msgID convID readerID = do {
     b \<leftarrow> base_event EventMessageRead readerID convID;
     saveToOutbox p tx EventMessageRead ''message'' (uuid_String msgID)
       (MessageRead \<lparr>mre_Base = b, mre_MessageID = msgID, mre_ConversationID = convID,
          mre_ReaderID = readerID\<rparr>)
   }"

definition PublishMessageDelivered :: "DBTX \<Rightarrow> DBTX \<Rightarrow> uuid \<Rightarrow> uuid \<Rightarrow> uuid \<Rightarrow> unit go" where
  "PublishMessageDelivered p tx msgID convID recipientID = do {
     b \<leftarrow> base_event EventMessageDelivered recipientID convID;
     saveToOutbox p tx EventMessageDelivered ''message'' (uuid_String msgID)
       (MessageDelivered \<lparr>mde_Base = b, mde_MessageID = msgID, mde_ConversationID = convID,
          mde_RecipientID = recipientID\<rparr>)
   }"

definition PublishPresenceOnline :: "DBTX \<Rightarrow> DBTX \<Rightarrow> uuid \<Rightarrow> unit go" where
  "PublishPresenceOnline p tx userID = do {
     b \<leftarrow> base_event EventPresenceOnline userID uuid_Nil;
     saveToOutbox p tx EventPresenceOnline ''user'' (uuid_String userID)
       (Presence \<lparr>pe_Base = b, pe_UserID = userID, pe_IsOnline = True, pe_Status = ''online''\<rparr>)
   }"

definition PublishPresenceOffline :: "DBTX \<Rightarrow> DBTX \<Rightarrow> uuid \<Rightarrow> unit go" where
  "PublishPresenceOffline p tx userID = do {
     b \<leftarrow> base_event EventPresenceOffline userID uuid_Nil;
     saveToOutbox p tx EventPresenceOffline ''user'' (uuid_String userID)
       (Presence \<lparr>pe_Base = b, pe_UserID = userID, pe_IsOnline = False, pe_Status = ''offline''\<rparr>)
   }"

definition PublishCallOffer :: "DBTX \<Rightarrow> DBTX \<Rightarrow> uuid \<Rightarrow> uuid \<Rightarrow> uuid \<Rightarrow> string \<Rightarrow> unit go" where
  "PublishCallOffer p tx callID fromID toID sdp = do {
     b \<leftarrow> base_event EventCallOffer fromID uuid_Nil;
     saveToOutbox p tx EventCallOffer ''call'' (uuid_String callID)
       (CallSignaling \<lparr>cse_Base = b, cse_CallID = callID, cse_FromID = fromID, cse_ToID = toID,
          cse_SignalType = ''offer'', cse_Data = sdp\<rparr>)
   }"

definition PublishCallAnswer :: "DBTX \<Rightarrow> DBTX \<Rightarrow> uuid \<Rightarrow> uuid \<Rightarrow> uuid \<Rightarrow> string \<Rightarrow> unit go" where
  "PublishCallAnswer p tx callID fromID toID sdp = do {
     b \<leftarrow> base_event EventCallAnswer fromID uuid_Nil;
     saveToOutbox p tx EventCallAnswer ''call'' (uuid_String callID)
       (CallSignaling \<lparr>cse_Base = b, cse_CallID = callID, cse_FromID = fromID, cse_ToID = toID,
          cse_SignalType = ''answer'', cse_Data = sdp\<rparr>)
   }"

definition PublishCallICE :: "DBTX \<Rightarrow> DBTX \<Rightarrow> uuid \<Rightarrow> uuid \<Rightarrow> uuid \<Rightarrow> string \<Rightarrow> unit go" where
  "PublishCallICE p tx callID fromID toID candidate = do {
     b \<leftarrow> base_event EventCallICE fromID uuid_Nil;
     saveToOutbox p tx EventCallICE ''call'' (uuid_String callID)
       (CallSignaling \<lparr>cse_Base = b, cse_CallID = callID, cse_FromID = fromID, cse_ToID = toID,
          cse_SignalType = ''ice'', cse_Data = candidate\<rparr>)
   }"

definition PublishCallEnded ::
  "DBTX \<Rightarrow> DBTX \<Rightarrow> uuid \<Rightarrow> uuid \<Rightarrow> uuid \<Rightarrow> string \<Rightarrow> int \<Rightarrow> unit go" where
  "PublishCallEnded p tx callID convID endedBy reason duration = do {
     b \<leftarrow> base_event EventCallEnded endedBy convID;
     saveToOutbox p tx EventCallEnded ''call'' (uuid_String callID)
       (CallEnded \<lparr>cee_Base = b, cee_CallID = callID, cee_ConversationID = convID,
          cee_EndedBy = endedBy, cee_Reason = reason, cee_Duration = duration\<rparr>)
   }"

lemmas publish_defs = PublishMessageNew_def PublishTypingStarted_def PublishTypingStopped_def
  PublishMessageRead_def PublishMessageDelivered_def PublishPresenceOnline_def
  PublishPresenceOffline_def PublishCallOffer_def PublishCallAnswer_def PublishCallICE_def
  PublishCallEnded_def

section \<open>What publishing does\<close>

text \<open>A pending event that the worker will decode to \<open>wire e\<close>.\<close>

definition pending_event :: "Event \<Rightarrow> OutboxEvent \<Rightarrow> bool" where
  "pending_event e r \<longleftrightarrow> is_pending r \<and> ob_RetryCount r = 0 \<and>
     ob_EventType r = event_Type e \<and> ob_Payload r = event_json e \<and>
     unmarshalEvent (ob_EventType r) (ob_Payload r) = Some (wire e)"

definition appends_event :: "Event \<Rightarrow> tables \<Rightarrow> tables \<Rightarrow> bool" where
  "appends_event e t t' \<longleftrightarrow> (\<exists>r. t' = t\<lparr>t_outbox := t_outbox t @ [r]\<rparr> \<and> pending_event e r)"

lemma saveToOutbox_Inr:
  assumes "run_state (saveToOutbox p Tx ty agg i e) w = (Inr u, w')"
    and "ty = event_Type e" "ty \<in> tags_of e"
  shows "\<exists>t t'. visible Tx w = Some t \<and> visible Tx w' = Some t' \<and> appends_event e t t' \<and>
     w_db w' = w_db w"
proof -
  have u: "unmarshalEvent ty (event_json e) = Some (wire e)"
    using assms(3) by (rule unmarshal_wire)
  from assms(1) show ?thesis
    using assms(2) u
    by (auto simp: saveToOutbox_def outboxRepo_Create_def sql_Inr insert_into_Inr tick_def
        appends_event_def pending_event_def is_pending_def visible_def put_visible_def
        split: option.splits if_splits)
qed

lemma keeps_saveToOutbox_committed [keeps_intros]:
  "keeps (committed d) (saveToOutbox p Tx ty agg i e)"
  unfolding saveToOutbox_def outboxRepo_Create_def
  by (auto intro!: keeps_intros simp: Let_def)

lemma keeps_saveToOutbox_same_params [keeps_intros]:
  "keeps (same_params w0) (saveToOutbox p tx ty agg i e)"
  unfolding saveToOutbox_def outboxRepo_Create_def
  by (auto intro!: keeps_intros simp: Let_def)

lemma run_base_event [simp, run_simps]:
  "run_state (base_event ty u c) w =
    (\<lparr>EventTypeVal = ty, TimestampVal = w_now w (w_step w), UserIDVal = u, ConvIDVal = c\<rparr>, tick w)"
  by (simp add: base_event_def tick_def)

lemma keeps_base_event_committed [keeps_intros]: "keeps (committed d) (base_event ty u c)"
  by (simp add: keeps_def committed_def)

lemma keeps_base_event_same_params [keeps_intros]: "keeps (same_params w0) (base_event ty u c)"
  by (auto simp: keeps_def same_params_def)

lemma keeps_publish_committed [keeps_intros]:
  "keeps (committed d) (PublishMessageNew p Tx a b c)"
  "keeps (committed d) (PublishMessageRead p Tx a b c)"
  "keeps (committed d) (PublishMessageDelivered p Tx a b c)"
  unfolding publish_defs by (auto intro!: keeps_intros)

lemma PublishMessageNew_Inr:
  assumes "run_state (PublishMessageNew p Tx m c s) w = (Inr u, w')"
  shows "\<exists>b t t'. visible Tx w = Some t \<and> visible Tx w' = Some t' \<and> w_db w' = w_db w \<and>
     EventTypeVal b = EventMessageNew \<and> UserIDVal b = s \<and>
     appends_event (MessageNew \<lparr>mne_Base = b, mne_MessageID = m, mne_ConversationID = c,
       mne_SenderID = s, mne_Content = []\<rparr>) t t'"
proof -
  let ?b = "\<lparr>EventTypeVal = EventMessageNew, TimestampVal = w_now w (w_step w), UserIDVal = s,
    ConvIDVal = c\<rparr>"
  from assms obtain t t' where "visible Tx (tick w) = Some t" "visible Tx w' = Some t'"
    "appends_event (MessageNew \<lparr>mne_Base = ?b, mne_MessageID = m, mne_ConversationID = c,
       mne_SenderID = s, mne_Content = []\<rparr>) t t'" "w_db w' = w_db (tick w)"
    unfolding PublishMessageNew_def
    by (auto dest!: saveToOutbox_Inr simp: event_Type_def)
  then show ?thesis
    by (intro exI [of _ ?b] exI [of _ t] exI [of _ t']) simp
qed

lemma PublishMessageRead_Inr:
  assumes "run_state (PublishMessageRead p Tx m c r) w = (Inr u, w')"
  shows "\<exists>b t t'. visible Tx w = Some t \<and> visible Tx w' = Some t' \<and> w_db w' = w_db w \<and>
     EventTypeVal b = EventMessageRead \<and> UserIDVal b = r \<and>
     appends_event (MessageRead \<lparr>mre_Base = b, mre_MessageID = m, mre_ConversationID = c,
       mre_ReaderID = r\<rparr>) t t'"
proof -
  let ?b = "\<lparr>EventTypeVal = EventMessageRead, TimestampVal = w_now w (w_step w), UserIDVal = r,
    ConvIDVal = c\<rparr>"
  from assms obtain t t' where "visible Tx (tick w) = Some t" "visible Tx w' = Some t'"
    "appends_event (MessageRead \<lparr>mre_Base = ?b, mre_MessageID = m, mre_ConversationID = c,
       mre_ReaderID = r\<rparr>) t t'" "w_db w' = w_db (tick w)"
    unfolding PublishMessageRead_def
    by (auto dest!: saveToOutbox_Inr simp: event_Type_def)
  then show ?thesis
    by (intro exI [of _ ?b] exI [of _ t] exI [of _ t']) simp
qed

text \<open>On a database that answers, with fresh identifiers, an event is stored.\<close>

definition fresh_events :: "world \<Rightarrow> bool" where
  "fresh_events w \<longleftrightarrow> (\<forall>e\<in>set (t_outbox (w_db w)). \<forall>n. ob_ID e \<noteq> w_new w n)"

lemma run_saveToOutbox:
  assumes "w_tx w = Some (t, False)" and "w_fault w (w_step w + 3) = None"
    and "\<forall>e\<in>set (t_outbox t). ob_ID e \<noteq> w_new w (w_step w)"
    and "ty = event_Type e" "ty \<in> tags_of e"
  obtains r where "pending_event e r"
    "run_state (saveToOutbox p Tx ty agg i e) w =
      (Inr (), w\<lparr>w_step := w_step w + 4, w_tx := Some (t\<lparr>t_outbox := t_outbox t @ [r]\<rparr>, False)\<rparr>)"
proof -
  define r where "r = \<lparr>ob_ID = w_new w (w_step w), ob_EventType = ty, ob_AggregateType = agg,
    ob_AggregateID = i, ob_Payload = event_json e, ob_Status = StatusPending, ob_RetryCount = 0,
    ob_Error = [], ob_CreatedAt = w_now w (Suc (w_step w)),
    ob_UpdatedAt = w_now w (Suc (Suc (w_step w))), ob_ProcessedAt = None\<rparr>"
  have "pending_event e r"
    using unmarshal_wire [OF assms(5)] assms(4)
    by (simp add: r_def pending_event_def is_pending_def)
  moreover have "insert_row outbox_clash r (t_outbox t) = Inr ((), t_outbox t @ [r])"
    using assms(3) by (auto simp: insert_row_def list_ex_iff outbox_clash_def r_def)
  then have "run_state (saveToOutbox p Tx ty agg i e) w =
      (Inr (), w\<lparr>w_step := w_step w + 4, w_tx := Some (t\<lparr>t_outbox := t_outbox t @ [r]\<rparr>, False)\<rparr>)"
    using assms(1,2)
    by (simp add: saveToOutbox_def outboxRepo_Create_def r_def [symmetric] run_sql_Tx
        uuid_New_def time_Now_def insert_into_def on_table_def eval_nat_numeral)
  ultimately show ?thesis using that by blast
qed

text \<open>A publication in a transaction of its own takes seven steps.\<close>

lemma run_publish_alone:
  assumes "w_fault w (w_step w) = None" "w_fault w (w_step w + 5) = None"
    "w_fault w (w_step w + 6) = None" "fresh_events w"
    and "\<And>b. event_Type (event b) = EventTypeVal b" "\<And>b. EventTypeVal b = ty \<Longrightarrow> ty \<in> tags_of (event b)"
  obtains b r where "pending_event (event b) r" "EventTypeVal b = ty"
    "run_state (WithTx Pool (\<lambda>tx. do {
         b \<leftarrow> base_event ty u c;
         saveToOutbox p tx ty agg i (event b)
       })) w = (Inr (), w\<lparr>w_step := w_step w + 7, w_tx := None,
        w_db := (w_db w)\<lparr>t_outbox := t_outbox (w_db w) @ [r]\<rparr>\<rparr>)"
proof -
  let ?w1 = "w\<lparr>w_step := Suc (w_step w), w_tx := Some (w_db w, False)\<rparr>"
  let ?b = "\<lparr>EventTypeVal = ty, TimestampVal = w_now w (Suc (w_step w)), UserIDVal = u, ConvIDVal = c\<rparr>"
  have f: "w_fault (tick ?w1) (w_step (tick ?w1) + 3) = None"
    using assms(2) by (simp add: eval_nat_numeral)
  have fresh: "\<forall>e\<in>set (t_outbox (w_db w)). ob_ID e \<noteq> w_new (tick ?w1) (w_step (tick ?w1))"
    using assms(4) by (auto simp: fresh_events_def)
  have tx: "w_tx (tick ?w1) = Some (w_db w, False)" by simp
  obtain r where r: "pending_event (event ?b) r" "run_state (saveToOutbox p Tx ty agg i (event ?b)) (tick ?w1) =
      (Inr (), (tick ?w1)\<lparr>w_step := w_step (tick ?w1) + 4,
        w_tx := Some ((w_db w)\<lparr>t_outbox := t_outbox (w_db w) @ [r]\<rparr>, False)\<rparr>)"
    by (rule run_saveToOutbox [OF tx f fresh, of ty "event ?b" p agg i]) (use assms(5,6) in auto)
  let ?w2 = "(tick ?w1)\<lparr>w_step := w_step (tick ?w1) + 4,
        w_tx := Some ((w_db w)\<lparr>t_outbox := t_outbox (w_db w) @ [r]\<rparr>, False)\<rparr>"
  have "run_state (WithTx Pool (\<lambda>tx. do {
         b \<leftarrow> base_event ty u c;
         saveToOutbox p tx ty agg i (event b)
       })) w = (Inr (), ?w2\<lparr>w_step := Suc (w_step ?w2), w_tx := None,
        w_db := (w_db w)\<lparr>t_outbox := t_outbox (w_db w) @ [r]\<rparr>\<rparr>)"
    using r(2) assms(1,3) by (intro run_WithTx_success) (simp_all add: eval_nat_numeral)
  then show ?thesis
    using r(1) by (intro that [of ?b r]) (simp_all add: tick_def eval_nat_numeral)
qed

end
