(* ===== verification/Samples.thy ===== *)
theory Samples
  imports Transactions
begin

text \<open>
  A small database on which the theorems are exercised: two users with one device each, a
  direct conversation between them, and one message sent before. The clock and the identifiers
  count up, nothing fails, and the JSONB type accepts every text.
\<close>

definition sample_user :: "uuid \<Rightarrow> string \<Rightarrow> User" where
  "sample_user u name = \<lparr>usr_ID = u, usr_PhoneNumber = None, usr_Username = Some name,
     usr_Email = None, usr_PasswordHash = [], usr_DisplayName = name, usr_Role = ''USER'',
     usr_Bio = [], usr_AvatarURL = [], usr_IsOnline = False, usr_LastSeenAt = None,
     usr_IsActive = True, usr_IsVerified = False, usr_CreatedAt = 0, usr_UpdatedAt = 0\<rparr>"

definition sample_device :: "uuid \<Rightarrow> uuid \<Rightarrow> Device" where
  "sample_device d u = \<lparr>dev_ID = d, dev_UserID = u, dev_DeviceID = ''phone'', dev_DeviceName = [],
     dev_DeviceType = [], dev_IsActive = True, dev_RegisteredAt = 0, dev_LastSeenAt = None\<rparr>"

definition sample_conversation :: Conversation where
  "sample_conversation = \<lparr>conv_ID = 5, conv_Type = ''DM'', conv_Subject = None,
     conv_Description = None, conv_AvatarURL = None, conv_ExpirySeconds = None,
     conv_DisappearingMode = ''OFF'', conv_MessageExpirySeconds = None,
     conv_GroupPermissions = None, conv_InviteLink = None, conv_InviteLinkRevokedAt = None,
     conv_CreatedBy = Some 1, conv_CreatedAt = 0, conv_UpdatedAt = 0, conv_Participants = []\<rparr>"

definition sample_participant :: "uuid \<Rightarrow> string \<Rightarrow> Participant" where
  "sample_participant u role = \<lparr>part_ConversationID = 5, part_UserID = u, part_Role = role,
     part_JoinedAt = 0, part_AddedBy = None, part_MutedUntil = None, part_PinnedAt = None,
     part_Archived = False, part_LastReadSequence = 0, part_Permissions = None\<rparr>"

definition sample_message :: Message where
  "sample_message = zero_Message\<lparr>msg_ID := 100, msg_ConversationID := 5, msg_SenderID := 1,
     msg_SeqID := Some 1, msg_Type := ''TEXT'', msg_Metadata := ''{}''\<rparr>"

definition sample_ciphertext :: MessageCiphertext where
  "sample_ciphertext = \<lparr>mc_ID = 200, mc_MessageID = 100, mc_RecipientUserID = 2,
     mc_RecipientDeviceID = 12, mc_SenderDeviceID = Some 11, mc_Ciphertext = [7],
     mc_Header = ''{}'', mc_CreatedAt = 0\<rparr>"

definition sample_tables :: tables where
  "sample_tables = empty_tables\<lparr>t_users := [sample_user 1 ''ann'', sample_user 2 ''bob''],
     t_devices := [sample_device 11 1, sample_device 12 2],
     t_conversations := [sample_conversation],
     t_participants := [sample_participant 1 ''OWNER'', sample_participant 2 ''MEMBER''],
     t_sequences := [\<lparr>cseq_ConversationID = 5, cseq_LastSequence = 1, cseq_UpdatedAt = 0\<rparr>],
     t_messages := [sample_message],
     t_ciphertexts := [sample_ciphertext]\<rparr>"

definition sample_world :: world where
  "sample_world = \<lparr>w_db = sample_tables, w_tx = None, w_step = 0, w_now = int,
     w_new = (\<lambda>n. of_nat (1000 + n)), w_fault = (\<lambda>_. None), w_jsonb = (\<lambda>_. True)\<rparr>"

lemmas sample_defs = sample_world_def sample_tables_def sample_ciphertext_def sample_message_def
  sample_participant_def sample_conversation_def sample_device_def sample_user_def
  empty_tables_def zero_Message_def

end
