(* ===== verification/MessageService.thy ===== *)
theory MessageService
  imports MessageRepo ConversationRepo EventPublisher Samples
begin

text \<open>
  \<^verbatim>\<open>internal/services/message_service.go\<close>: sending, reading and receipts of messages. The
  service's repositories are given by the \<^verbatim>\<open>DBTX\<close> they hold, an optional dependency that may
  be nil by an option. \<open>device\<close> is the result of \<^verbatim>\<open>DeviceIDFromContext(ctx)\<close>: \<open>None\<close> when
  the context has no value, \<open>Some None\<close> for an invalid \<^verbatim>\<open>uuid.NullUUID\<close>.

  A method whose body is a single call of the repository's method of the same name is that
  method of \<^verbatim>\<open>MessageRepo\<close>. The theorems below are about sending (all or nothing, what is
  stored, which inputs can never be stored), about who may read what, and about receipts.
\<close>

section \<open>Data\<close>

type_synonym go_map = "(string \<times> json) list"

record CiphertextPayload =
  cpl_RecipientDeviceID :: uuid
  cpl_Ciphertext :: bytes
  cpl_Header :: "go_map option"

record SendMessageInput =
  smi_ConversationID :: uuid
  smi_SenderID :: uuid
  smi_Ciphertexts :: "CiphertextPayload list"
  smi_MessageType :: string
  smi_ClientMsgID :: string
  smi_IdempotencyKey :: string
  smi_Metadata :: "go_map option"

record MessageService =
  msv_db :: DBTX
  msv_messageRepo :: DBTX
  msv_conversationRepo :: "DBTX option"
  msv_eventPublisher :: "DBTX option"

definition msgTypeOrDefault :: "string \<Rightarrow> string" where
  "msgTypeOrDefault value = (if TrimSpace value = [] then ''TEXT'' else value)"

definition msgNullString :: "string \<Rightarrow> string option" where
  "msgNullString value = (if value = [] then None else Some value)"

section \<open>Sending\<close>

definition lookupUserIDByDevice :: "DBTX \<Rightarrow> uuid \<Rightarrow> uuid go" where
  "lookupUserIDByDevice db device =
     (if db = NilDB then fail ErrInvalidInput
      else andThen (mapErr notFound (queryRow db (\<lambda>t. map dev_UserID
             (filter (\<lambda>d. dev_ID d = device) (t_devices t)))))
           (\<lambda>u. if u = uuid_Nil then fail ErrNotFound else ok u))"

text \<open>One turn of the loop that stores the ciphertexts.\<close>

definition storeCiphertext ::
  "DBTX \<Rightarrow> DBTX \<Rightarrow> uuid \<Rightarrow> uuid option \<Rightarrow> CiphertextPayload \<Rightarrow> unit go" where
  "storeCiphertext db repo msgID device payload =
     andThen (lookupUserIDByDevice db (cpl_RecipientDeviceID payload)) (\<lambda>recipientUserID. do {
       let header = (case cpl_Header payload of
                       None \<Rightarrow> [(''version'', JNum 1), (''cipher'', JStr ''signal'')]
                     | Some h \<Rightarrow> h);
       i \<leftarrow> uuid_New;
       now \<leftarrow> time_Now;
       msgRepo_CreateCiphertext repo \<lparr>mc_ID = i, mc_MessageID = msgID,
         mc_RecipientUserID = recipientUserID,
         mc_RecipientDeviceID = cpl_RecipientDeviceID payload, mc_SenderDeviceID = device,
         mc_Ciphertext = cpl_Ciphertext payload, mc_Header = map_text header, mc_CreatedAt = now\<rparr>
     })"

text \<open>The message as built before the first INSERT; its metadata is still the empty string.\<close>

definition new_message :: "SendMessageInput \<Rightarrow> uuid \<Rightarrow> time \<Rightarrow> Message" where
  "new_message input i now = zero_Message\<lparr>msg_ID := i,
     msg_ConversationID := smi_ConversationID input, msg_SenderID := smi_SenderID input,
     msg_Type := msgTypeOrDefault (smi_MessageType input), msg_CreatedAt := now,
     msg_ClientMessageID := msgNullString (smi_ClientMsgID input),
     msg_IdempotencyKey :=
       (if smi_IdempotencyKey input \<noteq> []
        then msgNullString (smi_IdempotencyKey input @ '':'' @
               uuid_String (smi_ConversationID input))
        else None)\<rparr>"

definition executeSendMessageDirect ::
  "DBTX \<Rightarrow> DBTX \<Rightarrow> uuid option option \<Rightarrow> SendMessageInput \<Rightarrow> Message go" where
  "executeSendMessageDirect db repo device input = do {
     i \<leftarrow> uuid_New;
     now \<leftarrow> time_Now;
     let msg = new_message input i now;
     let metadata = map_put ''e2ee'' (JBool True)
       (case smi_Metadata input of None \<Rightarrow> [] | Some m \<Rightarrow> m);
     andThen (msgRepo_Create repo msg) (\<lambda>_.
       case device of
         None \<Rightarrow> fail ErrInvalidInput
       | Some None \<Rightarrow> fail ErrInvalidInput
       | Some (Some deviceID) \<Rightarrow>
           (let msg' = msg\<lparr>msg_Metadata := map_text
                  (map_put ''sender_device_id'' (JStr (uuid_String deviceID)) metadata)\<rparr>
            in andThen (msgRepo_Update repo msg') (\<lambda>_.
               andThen (forEach (smi_Ciphertexts input)
                 (storeCiphertext db repo (msg_ID msg') (Some deviceID))) (\<lambda>_. ok msg'))))
   }"

definition invalid_payload :: "CiphertextPayload \<Rightarrow> bool" where
  "invalid_payload p \<longleftrightarrow> cpl_RecipientDeviceID p = uuid_Nil \<or> cpl_Ciphertext p = []"

definition invalid_input :: "SendMessageInput \<Rightarrow> bool" where
  "invalid_input input \<longleftrightarrow>
     smi_ConversationID input = uuid_Nil \<or> smi_SenderID input = uuid_Nil \<or>
     smi_Ciphertexts input = [] \<or> list_ex invalid_payload (smi_Ciphertexts input)"

text \<open>\<^verbatim>\<open>if s.conversationRepo != nil { ok, err := IsParticipant ... }\<close>\<close>

definition checkParticipant :: "DBTX option \<Rightarrow> uuid \<Rightarrow> uuid \<Rightarrow> unit go" where
  "checkParticipant convRepo c u =
     (case convRepo of
        None \<Rightarrow> ok ()
      | Some db \<Rightarrow> andThen (convRepo_IsParticipant db c u)
          (\<lambda>is_member. if is_member then ok () else fail ErrForbidden))"

text \<open>\<^verbatim>\<open>if s.eventPublisher != nil { ... PublishMessageNew ... }\<close>\<close>

definition publishSent :: "MessageService \<Rightarrow> DBTX \<Rightarrow> Message \<Rightarrow> Message go" where
  "publishSent s tx res =
     (case msv_eventPublisher s of
        None \<Rightarrow> ok res
      | Some p \<Rightarrow> andThen (PublishMessageNew p tx (msg_ID res) (msg_ConversationID res)
          (msg_SenderID res)) (\<lambda>_. ok res))"

definition executeSendMessage ::
  "MessageService \<Rightarrow> uuid option option \<Rightarrow> SendMessageInput \<Rightarrow> Message go" where
  "executeSendMessage s device input =
     (if invalid_input input then fail ErrInvalidInput
      else andThen (checkParticipant (msv_conversationRepo s) (smi_ConversationID input)
             (smi_SenderID input)) (\<lambda>_.
        if msv_db s = NilDB
        then executeSendMessageDirect (msv_db s) (msv_messageRepo s) device input
        else WithTx (msv_db s) (\<lambda>tx.
          andThen (executeSendMessageDirect (msv_db s) tx device input) (publishSent s tx))))"

definition msgSvc_SendMessage ::
  "MessageService \<Rightarrow> uuid option option \<Rightarrow> SendMessageInput \<Rightarrow> Message go" where
  "msgSvc_SendMessage s device input = executeSendMessage s device input"

section \<open>Reading\<close>

definition msgSvc_GetConversationMessages ::
  "MessageService \<Rightarrow> uuid option option \<Rightarrow> uuid \<Rightarrow> int \<Rightarrow> int \<Rightarrow> uuid \<Rightarrow> Message list go" where
  "msgSvc_GetConversationMessages s device conv beforeSeq limit u =
     (case msv_conversationRepo s of
        None \<Rightarrow> fail ErrForbidden
      | Some r \<Rightarrow>
          andThen (convRepo_IsParticipant r conv u) (\<lambda>is_member.
            if \<not> is_member then fail ErrForbidden
            else (let limit' = (if limit \<le> 0 then 50 else limit)
                  in case device of
                       Some (Some d) \<Rightarrow>
                         msgRepo_GetConversationMessages (msv_messageRepo s) conv beforeSeq limit' d
                     | _ \<Rightarrow> fail ErrInvalidInput)))"

definition msgSvc_GetByID :: "MessageService \<Rightarrow> uuid \<Rightarrow> uuid \<Rightarrow> Message go" where
  "msgSvc_GetByID s messageID u =
     andThen (msgRepo_GetByID (msv_messageRepo s) messageID) (\<lambda>msg.
     andThen (checkParticipant (msv_conversationRepo s) (msg_ConversationID msg) u)
       (\<lambda>_. ok msg))"

definition msgSvc_Delete :: "MessageService \<Rightarrow> uuid \<Rightarrow> unit go" where
  "msgSvc_Delete s messageID = msgRepo_SoftDelete (msv_messageRepo s) messageID"

section \<open>Receipts\<close>

definition msgSvc_MarkAsRead :: "MessageService \<Rightarrow> uuid \<Rightarrow> uuid \<Rightarrow> unit go" where
  "msgSvc_MarkAsRead s messageID u =
     andThen (msgRepo_GetByID (msv_messageRepo s) messageID) (\<lambda>msg.
       if msv_db s = NilDB then msgRepo_MarkAsRead (msv_messageRepo s) messageID u
       else WithTx (msv_db s) (\<lambda>tx.
         andThen (msgRepo_MarkAsRead tx messageID u) (\<lambda>_.
           case msv_eventPublisher s of
             None \<Rightarrow> ok ()
           | Some p \<Rightarrow> PublishMessageRead p tx messageID (msg_ConversationID msg) u)))"

definition msgSvc_MarkAsDelivered :: "MessageService \<Rightarrow> uuid \<Rightarrow> uuid \<Rightarrow> unit go" where
  "msgSvc_MarkAsDelivered s messageID u =
     andThen (msgRepo_GetByID (msv_messageRepo s) messageID) (\<lambda>msg.
       if msv_db s = NilDB then msgRepo_MarkAsDelivered (msv_messageRepo s) messageID u
       else WithTx (msv_db s) (\<lambda>tx.
         andThen (msgRepo_MarkAsDelivered tx messageID u) (\<lambda>_.
           case msv_eventPublisher s of
             None \<Rightarrow> ok ()
           | Some p \<Rightarrow> PublishMessageDelivered p tx messageID (msg_ConversationID msg) u)))"

section \<open>Frames: what a transaction body leaves alone\<close>

lemma keeps_msgRepo_Tx_committed [keeps_intros]:
  "keeps (committed d) (msgRepo_Create Tx m)"
  "keeps (committed d) (msgRepo_Update Tx m)"
  "keeps (committed d) (msgRepo_CreateCiphertext Tx c)"
  "keeps (committed d) (msgRepo_CreateReceipt Tx r)"
  unfolding msgRepo_Create_def msgRepo_Update_def msgRepo_CreateCiphertext_def
    msgRepo_CreateReceipt_def
  by (intro keeps_intros)+

lemma keeps_mark_Tx_committed [keeps_intros]:
  "keeps (committed d) (msgRepo_MarkAsRead Tx m u)"
  "keeps (committed d) (msgRepo_MarkAsDelivered Tx m u)"
  unfolding msgRepo_MarkAsRead_def msgRepo_MarkAsDelivered_def
  by (intro keeps_intros)+

lemma keeps_reads_committed [keeps_intros]:
  "keeps (committed d) (convRepo_IsParticipant db c u)"
  "keeps (committed d) (msgRepo_GetByID db m)"
  "keeps (committed d) (lookupUserIDByDevice db dv)"
  "keeps (committed d) (checkParticipant r c u)"
  unfolding convRepo_IsParticipant_def msgRepo_GetByID_def lookupUserIDByDevice_def
    checkParticipant_def
  by (auto intro!: keeps_intros)

lemma keeps_storeCiphertext_committed [keeps_intros]:
  "keeps (committed d) (storeCiphertext db Tx m dv p)"
  unfolding storeCiphertext_def Let_def by (intro keeps_intros)

lemma keeps_sendDirect_committed [keeps_intros]:
  "keeps (committed d) (executeSendMessageDirect db Tx dv input)"
  unfolding executeSendMessageDirect_def Let_def
  by (intro keeps_intros)

lemma keeps_publishSent_committed [keeps_intros]: "keeps (committed d) (publishSent s Tx res)"
  unfolding publishSent_def by (intro keeps_intros)

section \<open>What sending does\<close>

lemma storeCiphertext_Inr:
  assumes "run_state (storeCiphertext db Tx m dv p) w = (Inr u, w')"
  shows "\<exists>t c. visible Tx w = Some t \<and> visible Tx w' = Some (t\<lparr>t_ciphertexts := t_ciphertexts t @ [c]\<rparr>) \<and>
     mc_MessageID c = m \<and> mc_RecipientDeviceID c = cpl_RecipientDeviceID p \<and>
     mc_Ciphertext c = cpl_Ciphertext p \<and> mc_SenderDeviceID c = dv"
proof -
  have "\<exists>r w1 c n. run_state (lookupUserIDByDevice db (cpl_RecipientDeviceID p)) w = (Inr r, w1) \<and>
      run_state (msgRepo_CreateCiphertext Tx c) (w1\<lparr>w_step := n\<rparr>) = (Inr u, w') \<and>
      mc_MessageID c = m \<and> mc_RecipientDeviceID c = cpl_RecipientDeviceID p \<and>
      mc_Ciphertext c = cpl_Ciphertext p \<and> mc_SenderDeviceID c = dv"
    using assms unfolding storeCiphertext_def
    by (rule andThen_Inr) (fastforce simp: Let_def)
  then obtain r w1 c n where
    l: "run_state (lookupUserIDByDevice db (cpl_RecipientDeviceID p)) w = (Inr r, w1)"
    and c: "run_state (msgRepo_CreateCiphertext Tx c) (w1\<lparr>w_step := n\<rparr>) = (Inr u, w')"
      "mc_MessageID c = m" "mc_RecipientDeviceID c = cpl_RecipientDeviceID p"
      "mc_Ciphertext c = cpl_Ciphertext p" "mc_SenderDeviceID c = dv" by blast
  from l have "visible Tx w1 = visible Tx w"
    by (cases db) (auto simp: lookupUserIDByDevice_def mapErr_Inr queryRow_Inr simp del: run_mapErr
        split: if_splits prod.splits sum.splits)
  with c show ?thesis
    by (fastforce dest: msgRepo_CreateCiphertext_Inr simp: visible_def)
qed

definition stored_for :: "uuid \<Rightarrow> uuid option \<Rightarrow> CiphertextPayload \<Rightarrow> MessageCiphertext \<Rightarrow> bool" where
  "stored_for m dv p c \<longleftrightarrow> mc_MessageID c = m \<and> mc_RecipientDeviceID c = cpl_RecipientDeviceID p \<and>
     mc_Ciphertext c = cpl_Ciphertext p \<and> mc_SenderDeviceID c = dv"

lemma storeCiphertexts_Inr:
  assumes "run_state (forEach ps (storeCiphertext db Tx m dv)) w = (Inr u, w')"
    and "visible Tx w = Some t"
  shows "\<exists>cs. visible Tx w' = Some (t\<lparr>t_ciphertexts := t_ciphertexts t @ cs\<rparr>) \<and>
     list_all2 (stored_for m dv) ps cs"
  using assms
proof (induction ps arbitrary: w t)
  case Nil
  then show ?case by (intro exI [of _ "[]"]) auto
next
  case (Cons p ps)
  from Cons.prems(1) obtain w1 where p: "run_state (storeCiphertext db Tx m dv p) w = (Inr (), w1)"
    and ps: "run_state (forEach ps (storeCiphertext db Tx m dv)) w1 = (Inr u, w')"
    by (auto split: prod.splits sum.splits)
  from storeCiphertext_Inr [OF p] Cons.prems(2) obtain c where
    v: "visible Tx w1 = Some (t\<lparr>t_ciphertexts := t_ciphertexts t @ [c]\<rparr>)" and c: "stored_for m dv p c"
    by (auto simp: stored_for_def)
  from Cons.IH [OF ps v] obtain cs where
    "visible Tx w' = Some (t\<lparr>t_ciphertexts := (t_ciphertexts t @ [c]) @ cs\<rparr>)"
    "list_all2 (stored_for m dv) ps cs" by auto
  with c show ?case by (intro exI [of _ "c # cs"]) auto
qed

text \<open>What the transaction of a successful send leaves in the tables, apart from the event.\<close>

definition sent :: "SendMessageInput \<Rightarrow> uuid \<Rightarrow> Message \<Rightarrow> tables \<Rightarrow> tables \<Rightarrow> bool" where
  "sent input device msg t t' \<longleftrightarrow> (\<exists>cs seqs.
     t' = t\<lparr>t_sequences := seqs, t_messages := t_messages t @ [message_row msg],
            t_ciphertexts := t_ciphertexts t @ cs\<rparr> \<and>
     list_all2 (stored_for (msg_ID msg) (Some device)) (smi_Ciphertexts input) cs \<and>
     (\<forall>m\<in>set (t_messages t). msg_ID m \<noteq> msg_ID msg) \<and>
     msg_ConversationID msg = smi_ConversationID input \<and> msg_SenderID msg = smi_SenderID input)"

lemma executeSendMessageDirect_steps:
  assumes "run_state (executeSendMessageDirect db repo dv input) w = (Inr msg, w')"
  shows "\<exists>device md w1 w2.
     run_state (msgRepo_Create repo (new_message input (w_new w (w_step w)) (w_now w (Suc (w_step w)))))
       (w\<lparr>w_step := Suc (Suc (w_step w))\<rparr>) = (Inr (), w1) \<and>
     dv = Some (Some device) \<and>
     msg = (new_message input (w_new w (w_step w)) (w_now w (Suc (w_step w))))\<lparr>msg_Metadata := md\<rparr> \<and>
     run_state (msgRepo_Update repo msg) w1 = (Inr (), w2) \<and>
     run_state (forEach (smi_Ciphertexts input)
       (storeCiphertext db repo (msg_ID msg) (Some device))) w2 = (Inr (), w')"
  using assms
  by (auto simp: executeSendMessageDirect_def Let_def split: prod.splits sum.splits option.splits)

lemma executeSendMessageDirect_Inr:
  assumes "run_state (executeSendMessageDirect db Tx dv input) w = (Inr msg, w')"
    and t: "visible Tx w = Some t"
  shows "\<exists>device t'. dv = Some (Some device) \<and> visible Tx w' = Some t' \<and> sent input device msg t t' \<and>
     w_jsonb w [] \<and> msg_SeqID msg = None"
proof -
  let ?m = "new_message input (w_new w (w_step w)) (w_now w (Suc (w_step w)))"
  let ?w = "w\<lparr>w_step := Suc (Suc (w_step w))\<rparr>"
  from executeSendMessageDirect_steps [OF assms(1)] obtain device md w1 w2 where
    create: "run_state (msgRepo_Create Tx ?m) ?w = (Inr (), w1)" and dv: "dv = Some (Some device)"
    and msg: "msg = ?m\<lparr>msg_Metadata := md\<rparr>"
    and upd: "run_state (msgRepo_Update Tx msg) w1 = (Inr (), w2)"
    and loop: "run_state (forEach (smi_Ciphertexts input)
       (storeCiphertext db Tx (msg_ID msg) (Some device))) w2 = (Inr (), w')" by blast
  have t0: "visible Tx ?w = Some t" using t by (simp add: visible_def)
  from msgRepo_Create_Inr [OF create] t0 obtain t1 now where
    v1: "visible Tx w1 = Some t1" and ins: "insert_message (w_jsonb w) now ?m t = Inr ((), t1)" by auto
  note eff = insert_message_Inr [OF ins]
  from eff(2) obtain seqs row where row: "row = (message_row ?m)\<lparr>msg_SeqID := Some (last_sequence t (msg_ConversationID ?m) + 1)\<rparr>"
    and t1: "t1 = t\<lparr>t_sequences := seqs, t_messages := t_messages t @ [row]\<rparr>"
    and fresh: "\<forall>x\<in>set (t_messages t). \<not> message_clash x row" by blast
  have ids: "msg_ID row = msg_ID msg" "msg_ID msg = msg_ID ?m" by (simp_all add: row msg message_row_def)
  from fresh ids have new: "\<forall>x\<in>set (t_messages t). msg_ID x \<noteq> msg_ID msg"
    by (auto simp: message_clash_def)
  have "set_message msg row = message_row msg"
    by (simp add: row msg set_message_def message_row_def new_message_def)
  with new ids t1 have map: "map_where (\<lambda>r. msg_ID r = msg_ID msg) (set_message msg) (t_messages t1)
     = t_messages t @ [message_row msg]"
    by (simp add: map_where_last del: map_where_append)
  from msgRepo_Update_Inr [OF upd] v1 map have
    v2: "visible Tx w2 = Some (t1\<lparr>t_messages := t_messages t @ [message_row msg]\<rparr>)" by auto
  from storeCiphertexts_Inr [OF loop v2] obtain cs where
    v3: "visible Tx w' = Some (t1\<lparr>t_messages := t_messages t @ [message_row msg],
       t_ciphertexts := t_ciphertexts t1 @ cs\<rparr>)"
    and cs: "list_all2 (stored_for (msg_ID msg) (Some device)) (smi_Ciphertexts input) cs" by auto
  have "sent input device msg t (t1\<lparr>t_messages := t_messages t @ [message_row msg],
       t_ciphertexts := t_ciphertexts t1 @ cs\<rparr>)"
    unfolding sent_def using cs new msg t1 by (auto simp: new_message_def)
  moreover have "w_jsonb w []"
    using eff(1) by (simp add: message_typed_def new_message_def zero_Message_def)
  moreover have "msg_SeqID msg = None" by (simp add: msg new_message_def zero_Message_def)
  ultimately show ?thesis using dv v3 by blast
qed

section \<open>Sending: properties\<close>

lemma SendMessage_unfold:
  assumes "msv_db s = Pool"
  shows "msgSvc_SendMessage s dv input =
    andThen (if invalid_input input then fail ErrInvalidInput
             else checkParticipant (msv_conversationRepo s) (smi_ConversationID input)
                    (smi_SenderID input))
      (\<lambda>_. WithTx Pool (\<lambda>tx.
          andThen (executeSendMessageDirect Pool tx dv input) (publishSent s tx)))"
  by (rule state.expand, rule ext)
     (simp add: msgSvc_SendMessage_def executeSendMessage_def assms)

text \<open>
  C3. Sending is all or nothing. Whatever statement, begin, rollback or commit fails, and for
  every schedule of such failures, a send that returns an error leaves the committed
  database exactly as it was.
\<close>

theorem SendMessage_all_or_nothing:
  assumes "msv_db s = Pool"
    and "run_state (msgSvc_SendMessage s device input) w = (Inl e, w')"
  shows "w_db w' = w_db w"
  using assms(2) unfolding SendMessage_unfold [OF assms(1)]
  by (rule reads_then_tx_atomic [rotated 2])
     (auto intro!: keeps_intros)

definition sample_service :: MessageService where
  "sample_service = \<lparr>msv_db = Pool, msv_messageRepo = Pool, msv_conversationRepo = Some Pool,
     msv_eventPublisher = Some Pool\<rparr>"

definition sample_input :: SendMessageInput where
  "sample_input = \<lparr>smi_ConversationID = 5, smi_SenderID = 1,
     smi_Ciphertexts = [\<lparr>cpl_RecipientDeviceID = 12, cpl_Ciphertext = [1], cpl_Header = None\<rparr>],
     smi_MessageType = [], smi_ClientMsgID = [], smi_IdempotencyKey = [], smi_Metadata = None\<rparr>"

lemmas send_exec = exec_simps publishSent_def msgSvc_SendMessage_def executeSendMessage_def invalid_input_def
  invalid_payload_def checkParticipant_def convRepo_IsParticipant_def is_participant_def
  executeSendMessageDirect_def msgRepo_Create_def insert_message_def message_typed_def
  new_message_def msgTypeOrDefault_def TrimSpace_def message_type_enum_def assign_sequence_def
  message_row_def message_refs_def msgRepo_Update_def set_message_def msgNullString_def
  storeCiphertext_def lookupUserIDByDevice_def msgRepo_CreateCiphertext_def
  PublishMessageNew_def saveToOutbox_def outboxRepo_Create_def sample_service_def sample_input_def

text \<open>A world in which the statement that stores the ciphertext fails.\<close>

definition faulty_world :: "nat \<Rightarrow> world" where
  "faulty_world n = sample_world\<lparr>w_fault := (\<lambda>i. if i = n then Some (DriverError 1) else None)\<rparr>"

lemma SendMessage_all_or_nothing_witness:
  "\<exists>w'. run_state (msgSvc_SendMessage sample_service (Some (Some 11)) sample_input)
      (faulty_world 10) = (Inl (SqlError (DriverError 1)), w') \<and> w_db w' = sample_tables"
proof -
  have "\<exists>w'. run_state (msgSvc_SendMessage sample_service (Some (Some 11)) sample_input)
      (faulty_world 10) = (Inl (SqlError (DriverError 1)), w')"
    by (simp add: send_exec sample_defs faulty_world_def)
  then show ?thesis
    using SendMessage_all_or_nothing [of sample_service "Some (Some 11)" sample_input
        "faulty_world 10" "SqlError (DriverError 1)"]
    by (auto simp: sample_service_def faulty_world_def sample_world_def)
qed

text \<open>
  What a send would store, in a database whose JSONB type accepted the empty text: PostgreSQL's does not (see the
  next theorem). The lemma is for a version of the code that gives valid metadata to the first INSERT.
\<close>

lemma sending_core:
  assumes s: "msv_db s = Pool" "msv_conversationRepo s = Some Pool" "msv_eventPublisher s = Some p"
    and run: "run_state (msgSvc_SendMessage s dv input) w = (Inr msg, w')"
  shows "\<exists>device b t. dv = Some (Some device) \<and>
    list_ex (is_participant (smi_ConversationID input) (smi_SenderID input)) (t_participants (w_db w)) \<and>
    sent input device msg (w_db w) t \<and> msg_SeqID msg = None \<and>
    appends_event (MessageNew \<lparr>mne_Base = b, mne_MessageID = msg_ID msg,
      mne_ConversationID = smi_ConversationID input, mne_SenderID = smi_SenderID input,
      mne_Content = []\<rparr>) t (w_db w')"
proof -
  from run obtain w1 where chk: "run_state (checkParticipant (Some Pool) (smi_ConversationID input)
      (smi_SenderID input)) w = (Inr (), w1)"
    and tx: "run_state (WithTx Pool (\<lambda>tx. andThen (executeSendMessageDirect Pool tx dv input)
        (publishSent s tx))) w1 = (Inr msg, w')"
    unfolding SendMessage_unfold [OF s(1)] s
    by (rule andThen_Inr) (auto split: if_splits)
  from chk obtain b where "run_state (convRepo_IsParticipant Pool (smi_ConversationID input)
      (smi_SenderID input)) w = (Inr b, w1)" and "b"
    by (auto simp: checkParticipant_def split: prod.splits sum.splits if_splits)
  then have member: "list_ex (is_participant (smi_ConversationID input) (smi_SenderID input))
      (t_participants (w_db w))" and w1: "w_db w1 = w_db w"
    by (auto dest!: IsParticipant_Inr simp: visible_def)
  from tx obtain w2 w3 w4 where w2: "visible Tx w2 = Some (w_db w)"
    and direct: "run_state (executeSendMessageDirect Pool Tx dv input) w2 = (Inr msg, w3)"
    and pub: "run_state (PublishMessageNew p Tx (msg_ID msg) (msg_ConversationID msg)
        (msg_SenderID msg)) w3 = (Inr (), w4)"
    and t: "visible Tx w4 = Some (w_db w')"
    by (rule WithTx_Inr)
       (auto elim!: andThen_Inr simp: w1 publishSent_def s simp del: run_andThen)
  from executeSendMessageDirect_Inr [OF direct w2] obtain device t3 where
    "dv = Some (Some device)" "visible Tx w3 = Some t3" "sent input device msg (w_db w) t3"
    "msg_SeqID msg = None" by blast
  with PublishMessageNew_Inr [OF pub] t member show ?thesis
    by (fastforce simp: sent_def)
qed

text \<open>
  C8. No message can be sent. The first INSERT of a send gives the empty string as the JSONB metadata, which
  the JSONB type of PostgreSQL does not accept. Whatever the input, the devices, the state of the database
  and its faults, a send over a real database then returns an error.
\<close>

theorem SendMessage_needs_empty_jsonb:
  assumes "msv_db s = Pool" and "\<not> w_jsonb w []"
  shows "isl (fst (run_state (msgSvc_SendMessage s dv input) w))"
proof (rule ccontr)
  assume "\<not> isl (fst (run_state (msgSvc_SendMessage s dv input) w))"
  then obtain msg w' where run: "run_state (msgSvc_SendMessage s dv input) w = (Inr msg, w')"
    by (metis isl_def prod.collapse sum.exhaust_sel)
  let ?m = "if invalid_input input then fail ErrInvalidInput
    else checkParticipant (msv_conversationRepo s) (smi_ConversationID input) (smi_SenderID input)"
  from run obtain u w1 where chk: "run_state ?m w = (Inr u, w1)"
    and tx: "run_state (WithTx Pool (\<lambda>tx. andThen (executeSendMessageDirect Pool tx dv input) (publishSent s tx))) w1
       = (Inr msg, w')"
    unfolding SendMessage_unfold [OF assms(1)] by (rule andThen_Inr)
  have "keeps (same_params w) ?m"
    unfolding checkParticipant_def convRepo_IsParticipant_def
    by (auto intro!: keeps_intros)
  from keepsD [OF this _ chk] have jsonb1: "w_jsonb w1 = w_jsonb w"
    by (simp add: same_params_def)
  from tx obtain w2 m w3 where w2: "visible Tx w2 = Some (w_db w1)" "same_params w1 w2"
    and direct: "run_state (executeSendMessageDirect Pool Tx dv input) w2 = (Inr m, w3)"
    by (rule WithTx_Inr) (auto elim!: andThen_Inr simp del: run_andThen)
  from executeSendMessageDirect_Inr [OF direct w2(1)] have "w_jsonb w2 []" by blast
  with w2(2) jsonb1 assms(2) show False by (simp add: same_params_def)
qed

lemma SendMessage_needs_empty_jsonb_witness:
  "isl (fst (run_state (msgSvc_SendMessage sample_service (Some (Some 11)) sample_input)
     (sample_world\<lparr>w_jsonb := (\<lambda>s. s \<noteq> [])\<rparr>)))"
  by (rule SendMessage_needs_empty_jsonb) (simp_all add: sample_service_def)

text \<open>
  C23. The trigger numbers the messages of each conversation 1, 2, 3 and so on: an insert that
  succeeds appends one row, whose number is one more than the conversation's last one; the
  counter moves to that number and the counters of the other conversations stay.
\<close>

theorem Create_assigns_next_sequence:
  assumes "run_state (msgRepo_Create db m) w = (Inr u, w')" and "visible db w = Some t"
  shows "\<exists>t' row. visible db w' = Some t' \<and> t_messages t' = t_messages t @ [row] \<and>
    msg_SeqID row = Some (last_sequence t (msg_ConversationID m) + 1) \<and>
    last_sequence t' (msg_ConversationID m) = last_sequence t (msg_ConversationID m) + 1 \<and>
    (\<forall>c. c \<noteq> msg_ConversationID m \<longrightarrow> last_sequence t' c = last_sequence t c)"
proof -
  from msgRepo_Create_Inr [OF assms(1)] assms(2) obtain t' now where
    v: "visible db w' = Some t'" and i: "insert_message (w_jsonb w) now m t = Inr ((), t')" by auto
  from insert_message_Inr(2) [OF i] obtain seqs row where
    "row = (message_row m)\<lparr>msg_SeqID := Some (last_sequence t (msg_ConversationID m) + 1)\<rparr>"
    "t' = t\<lparr>t_sequences := seqs, t_messages := t_messages t @ [row]\<rparr>" by blast
  moreover have "last_sequence t' c = last_sequence t c" if "c \<noteq> msg_ConversationID m" for c
    using insert_message_other_sequence [OF i that] .
  ultimately show ?thesis
    using v insert_message_Inr(3) [OF i] by auto
qed

lemma Create_assigns_next_sequence_witness:
  "\<exists>w' t' row. run_state (msgRepo_Create Pool (sample_message\<lparr>msg_ID := 101\<rparr>)) sample_world = (Inr (), w') \<and>
    visible Pool w' = Some t' \<and> t_messages t' = [sample_message, row] \<and> msg_SeqID row = Some 2"
proof -
  have "\<exists>w'. run_state (msgRepo_Create Pool (sample_message\<lparr>msg_ID := 101\<rparr>)) sample_world = (Inr (), w')"
    by (simp add: send_exec sample_defs)
  moreover have "last_sequence sample_tables 5 = 1"
    by (simp add: last_sequence_def sample_defs)
  ultimately show ?thesis
    using Create_assigns_next_sequence [of Pool "sample_message\<lparr>msg_ID := 101\<rparr>" sample_world "()" _ sample_tables]
    by (fastforce simp: visible_def sample_world_def sample_tables_def sample_message_def)
qed

text \<open>
  C20. Only a participant of the conversation can send to it: for any other sender a
  well-formed send is refused with \<open>ErrForbidden\<close> after one read, before anything is written.
\<close>

theorem SendMessage_forbidden:
  assumes "msv_conversationRepo s = Some Pool" and "\<not> invalid_input input"
    and "\<not> list_ex (is_participant (smi_ConversationID input) (smi_SenderID input))
           (t_participants (w_db w))"
    and "w_fault w (w_step w) = None"
  shows "run_state (msgSvc_SendMessage s dv input) w = (Inl ErrForbidden, tick w)"
  using assms
  by (simp add: msgSvc_SendMessage_def executeSendMessage_def checkParticipant_def
      run_IsParticipant visible_def)

lemma SendMessage_forbidden_witness:
  "run_state (msgSvc_SendMessage sample_service (Some (Some 11)) (sample_input\<lparr>smi_SenderID := 3\<rparr>))
     sample_world = (Inl ErrForbidden, tick sample_world)"
  by (rule SendMessage_forbidden)
     (simp_all add: sample_service_def sample_input_def invalid_input_def invalid_payload_def
        is_participant_def sample_defs)

lemma GetConversationMessages_Inr:
  assumes "msv_messageRepo s = Pool" and "msv_conversationRepo s = Some Pool"
    and run: "run_state (msgSvc_GetConversationMessages s dv conv before limit u) w = (Inr ms, w')"
  shows "\<exists>device. dv = Some (Some device) \<and>
    list_ex (is_participant conv u) (t_participants (w_db w)) \<and>
    int (length ms) \<le> (if limit \<le> 0 then 50 else limit) \<and>
    sorted_wrt (\<lambda>a b. newest_first (msg_SeqID a) (msg_SeqID b)) ms \<and>
    (\<forall>x\<in>set ms. \<exists>m\<in>set (t_messages (w_db w)). \<exists>c\<in>set (t_ciphertexts (w_db w)).
       x = with_ciphertext m c \<and> msg_ConversationID m = conv \<and> msg_DeletedAt m = None \<and>
       seq_before before m \<and> mc_MessageID c = msg_ID m \<and> mc_RecipientDeviceID c = device)"
proof -
  let ?limit = "if limit \<le> 0 then 50 else limit"
  from run assms(1,2) obtain b w1 where
    part: "run_state (convRepo_IsParticipant Pool conv u) w = (Inr b, w1)" and b: "b"
    and read: "\<exists>device. dv = Some (Some device) \<and>
      run_state (msgRepo_GetConversationMessages Pool conv before ?limit device) w1 = (Inr ms, w')"
    by (auto simp: msgSvc_GetConversationMessages_def Let_def
        split: prod.splits sum.splits if_splits option.splits)
  from IsParticipant_Inr [OF part] b have
    member: "list_ex (is_participant conv u) (t_participants (w_db w))" and w1: "w1 = tick w"
    by (auto simp: visible_def)
  from read obtain device where dv: "dv = Some (Some device)"
    and "run_state (msgRepo_GetConversationMessages Pool conv before ?limit device) w1 = (Inr ms, w')"
    by blast
  then have ms: "ms = take (nat ?limit) (conversation_page conv before device (w_db w))"
    using w1 by (auto simp: msgRepo_GetConversationMessages_def sql_Pool_Inr query_page_def
        offset_limit_def split: if_splits)
  have "set ms \<subseteq> set (conversation_page conv before device (w_db w))"
    by (simp add: ms set_take_subset)
  moreover have "sorted_wrt (\<lambda>a b. newest_first (msg_SeqID a) (msg_SeqID b)) ms"
    unfolding ms conversation_page_def by (intro sorted_wrt_take order_desc_sorted)
  moreover have "int (length ms) \<le> ?limit"
    by (auto simp: ms)
  ultimately show ?thesis
    using dv member by (fastforce simp: conversation_page_iff)
qed

text \<open>
  C22. Reading a conversation. If the call succeeds, the caller is a participant with a known
  device, and the result has at most \<open>limit\<close> messages (50 if the limit is not positive), in
  descending order of sequence number with unnumbered ones first; every one is an undeleted
  message of this conversation, below the given number if that is positive, together with
  the ciphertext for the caller's own device.
\<close>

theorem GetConversationMessages_sound:
  assumes "msv_messageRepo s = Pool" and "msv_conversationRepo s = Some Pool"
    and run: "run_state (msgSvc_GetConversationMessages s dv conv before limit u) w = (Inr ms, w')"
  shows "\<exists>device. dv = Some (Some device) \<and>
    list_ex (is_participant conv u) (t_participants (w_db w)) \<and>
    int (length ms) \<le> (if limit \<le> 0 then 50 else limit) \<and>
    sorted_wrt (\<lambda>a b. newest_first (msg_SeqID a) (msg_SeqID b)) ms \<and>
    (\<forall>x\<in>set ms. \<exists>m\<in>set (t_messages (w_db w)). \<exists>c\<in>set (t_ciphertexts (w_db w)).
       x = with_ciphertext m c \<and> msg_ConversationID m = conv \<and> msg_DeletedAt m = None \<and>
       seq_before before m \<and> mc_MessageID c = msg_ID m \<and> mc_RecipientDeviceID c = device)"
  by (rule GetConversationMessages_Inr [OF assms])

lemma GetConversationMessages_sound_witness:
  "\<exists>ms w'. run_state (msgSvc_GetConversationMessages sample_service (Some (Some 12)) 5 0 0 2) sample_world
     = (Inr ms, w') \<and> length ms = 1 \<and>
   (\<forall>x\<in>set ms. \<exists>m\<in>set (t_messages sample_tables). \<exists>c\<in>set (t_ciphertexts sample_tables).
      x = with_ciphertext m c \<and> mc_RecipientDeviceID c = 12)"
proof -
  have run: "\<exists>ms w'. run_state (msgSvc_GetConversationMessages sample_service (Some (Some 12)) 5 0 0 2) sample_world
     = (Inr ms, w') \<and> length ms = 1"
    by (simp add: exec_simps msgSvc_GetConversationMessages_def sample_service_def
        convRepo_IsParticipant_def is_participant_def msgRepo_GetConversationMessages_def
        conversation_page_def seq_before_def sample_defs)
  then obtain ms w' where r: "run_state (msgSvc_GetConversationMessages sample_service (Some (Some 12)) 5 0 0 2)
    sample_world = (Inr ms, w')" "length ms = 1" by blast
  have "w_db sample_world = sample_tables" by (simp add: sample_world_def)
  with GetConversationMessages_sound [OF _ _ r(1)] r show ?thesis
    by (fastforce simp: sample_service_def)
qed

text \<open>
  Writing back a message whose Go value has no sequence number, as \<^verbatim>\<open>executeSendMessageDirect\<close> does after its
  INSERT, takes the number that the trigger gave away from the row.
\<close>

theorem update_drops_sequence:
  assumes "run_state (msgRepo_Update Pool m) w = (Inr x, w')" "msg_SeqID m = None"
  shows "\<forall>r\<in>set (t_messages (w_db w')). msg_ID r = msg_ID m \<longrightarrow> msg_SeqID r = None"
  using msgRepo_Update_Inr [OF assms(1)] assms(2)
  by (auto simp: visible_def map_where_def set_message_def message_row_def)

lemma update_drops_sequence_witness:
  "\<exists>w'. run_state (msgRepo_Update Pool (sample_message\<lparr>msg_SeqID := None\<rparr>)) sample_world = (Inr (), w') \<and>
     (\<forall>r\<in>set (t_messages (w_db w')). msg_ID r = 100 \<longrightarrow> msg_SeqID r = None)"
proof -
  have "\<exists>w'. run_state (msgRepo_Update Pool (sample_message\<lparr>msg_SeqID := None\<rparr>)) sample_world = (Inr (), w')"
    by (simp add: send_exec sample_defs)
  then show ?thesis
    using update_drops_sequence [of "sample_message\<lparr>msg_SeqID := None\<rparr>" sample_world "()"]
    by (fastforce simp: sample_message_def)
qed

section \<open>Receipts: properties\<close>

lemma filter_map_where_same:
  assumes "\<And>r. P (f r) = P r"
  shows "filter P (map_where P f rs) = map f (filter P rs)"
    and "filter (\<lambda>r. \<not> P r) (map_where P f rs) = filter (\<lambda>r. \<not> P r) rs"
  using assms by (induction rs) (auto simp: map_where_def)

lemma one_receipt:
  assumes "clash_free receipt_clash rs"
    and "\<exists>r\<in>set rs. rcp_MessageID r = m \<and> rcp_UserID r = u"
  shows "\<exists>r. filter (\<lambda>r. rcp_MessageID r = m \<and> rcp_UserID r = u) rs = [r]"
  using assms
proof (induction rs)
  case (Cons a rs)
  show ?case
  proof (cases "rcp_MessageID a = m \<and> rcp_UserID a = u")
    case True
    with Cons.prems(1) have "\<forall>r\<in>set rs. \<not> (rcp_MessageID r = m \<and> rcp_UserID r = u)"
      by (auto simp: receipt_clash_def)
    with True show ?thesis by (simp add: filter_empty_conv)
  next
    case False
    with Cons show ?thesis by auto
  qed
qed simp

text \<open>The receipt that user \<open>u\<close> has for message \<open>m\<close> is read at \<open>now\<close>; the others are as before.\<close>

definition read_at :: "uuid \<Rightarrow> uuid \<Rightarrow> time \<Rightarrow> MessageReceipt list \<Rightarrow> MessageReceipt list \<Rightarrow> bool" where
  "read_at m u now rs rs' \<longleftrightarrow>
     (let mine = (\<lambda>r. rcp_MessageID r = m \<and> rcp_UserID r = u)
      in (\<exists>r. filter mine rs' = [r] \<and> rcp_Status r = ''READ'' \<and> rcp_ReadAt r = Some now \<and>
            map rcp_DeliveredAt (filter mine rs) \<in> {[], [rcp_DeliveredAt r]}) \<and>
         filter (\<lambda>r. \<not> mine r) rs' = filter (\<lambda>r. \<not> mine r) rs)"

lemma msgRepo_MarkAsRead_Inr:
  assumes run: "run_state (msgRepo_MarkAsRead db m u) w = (Inr x, w')"
    and t: "visible db w = Some t" and key: "clash_free receipt_clash (t_receipts t)"
  shows "\<exists>rs. visible db w' = Some (t\<lparr>t_receipts := rs\<rparr>) \<and>
    read_at m u (w_now w (w_step w)) (t_receipts t) rs"
proof -
  let ?mine = "\<lambda>r. rcp_MessageID r = m \<and> rcp_UserID r = u" and ?now = "w_now w (w_step w)"
  let ?f = "\<lambda>r. r\<lparr>rcp_Status := ''READ'', rcp_ReadAt := Some ?now, rcp_UpdatedAt := ?now\<rparr>"
  have db: "db \<noteq> NilDB" using t by (auto simp: visible_def)
  from run obtain n w1 where upd: "run_state (sql db (set_read ?now m u)) (tick w) = (Inr n, w1)"
    and rest: "run_state (if n = 0 then msgRepo_CreateReceipt db (read_receipt ?now m u) else ok ()) w1
       = (Inr x, w')"
    by (auto simp: msgRepo_MarkAsRead_def tick_def elim!: andThen_Inr simp del: run_andThen)
  from upd t db have n: "n = count_where ?mine (t_receipts t)"
    and w1: "visible db w1 = Some (t\<lparr>t_receipts := map_where ?mine ?f (t_receipts t)\<rparr>)"
    by (auto simp: sql_Inr set_read_def stmt_simps)
  show ?thesis
  proof (cases "n = 0")
    case True
    then have none: "\<forall>r\<in>set (t_receipts t). \<not> ?mine r" by (simp add: n count_where_eq_0)
    with True rest w1 db have "visible db w' = Some (t\<lparr>t_receipts := t_receipts t @ [read_receipt ?now m u]\<rparr>)"
      by (auto simp: msgRepo_CreateReceipt_def mapErr_Inr sql_Inr insert_receipt_def stmt_simps
          map_where_none n simp del: run_mapErr)
    moreover have "read_at m u ?now (t_receipts t) (t_receipts t @ [read_receipt ?now m u])"
      using none by (auto simp: read_at_def read_receipt_def filter_empty_conv)
    ultimately show ?thesis by blast
  next
    case False
    then have "\<exists>r\<in>set (t_receipts t). ?mine r" by (simp add: n count_where_eq_0)
    from one_receipt [OF key this] obtain r where r: "filter ?mine (t_receipts t) = [r]" ..
    have "read_at m u ?now (t_receipts t) (map_where ?mine ?f (t_receipts t))"
      using filter_map_where_same [of ?mine ?f "t_receipts t"] by (simp add: read_at_def r)
    with False rest w1 show ?thesis by auto
  qed
qed

text \<open>
  Marking a message read, when it succeeds, leaves exactly one receipt for that message and
  user, with status READ and the time of the call; an earlier delivery time is kept, all other
  receipts and all messages are untouched, and one pending read event for the message's
  conversation goes to the outbox in the same transaction.
\<close>

theorem MarkAsRead_success:
  assumes s: "msv_db s = Pool" "msv_messageRepo s = Pool" "msv_eventPublisher s = Some p"
    and key: "clash_free receipt_clash (t_receipts (w_db w))"
    and run: "run_state (msgSvc_MarkAsRead s m u) w = (Inr x, w')"
  shows "\<exists>msg now b rs. msg \<in> set (t_messages (w_db w)) \<and> msg_ID msg = m \<and>
    read_at m u now (t_receipts (w_db w)) rs \<and>
    appends_event (MessageRead \<lparr>mre_Base = b, mre_MessageID = m,
      mre_ConversationID = msg_ConversationID msg, mre_ReaderID = u\<rparr>)
      ((w_db w)\<lparr>t_receipts := rs\<rparr>) (w_db w')"
proof -
  from run obtain msg w1 where get: "run_state (msgRepo_GetByID Pool m) w = (Inr msg, w1)"
    and tx: "run_state (WithTx Pool (\<lambda>tx. andThen (msgRepo_MarkAsRead tx m u) (\<lambda>_.
        PublishMessageRead p tx m (msg_ConversationID msg) u))) w1 = (Inr x, w')"
    unfolding msgSvc_MarkAsRead_def s by (rule andThen_Inr) auto
  from get have msg: "msg \<in> set (t_messages (w_db w))" "msg_ID msg = m" and w1: "w_db w1 = w_db w"
    by (auto simp: msgRepo_GetByID_def mapErr_Inr queryRow_Inr visible_def filter_eq_Cons_iff
        simp del: run_mapErr)
  from tx obtain w2 w3 w4 where w2: "visible Tx w2 = Some (w_db w)"
    and mark: "run_state (msgRepo_MarkAsRead Tx m u) w2 = (Inr (), w3)"
    and pub: "run_state (PublishMessageRead p Tx m (msg_ConversationID msg) u) w3 = (Inr x, w4)"
    and w4: "visible Tx w4 = Some (w_db w')"
    by (rule WithTx_Inr) (auto elim!: andThen_Inr simp: w1 simp del: run_andThen)
  from msgRepo_MarkAsRead_Inr [OF mark w2 key] obtain rs where
    w3: "visible Tx w3 = Some ((w_db w)\<lparr>t_receipts := rs\<rparr>)"
    and rs: "read_at m u (w_now w2 (w_step w2)) (t_receipts (w_db w)) rs" by blast
  from PublishMessageRead_Inr [OF pub] w3 w4 obtain b where
    "appends_event (MessageRead \<lparr>mre_Base = b, mre_MessageID = m,
      mre_ConversationID = msg_ConversationID msg, mre_ReaderID = u\<rparr>)
      ((w_db w)\<lparr>t_receipts := rs\<rparr>) (w_db w')" by auto
  with msg rs show ?thesis by blast
qed

lemma MarkAsRead_success_witness:
  "\<exists>w' now rs. run_state (msgSvc_MarkAsRead sample_service 100 2) sample_world = (Inr (), w') \<and>
     read_at 100 2 now [] rs \<and> t_receipts (w_db w') = rs"
proof -
  have "\<exists>w'. run_state (msgSvc_MarkAsRead sample_service 100 2) sample_world = (Inr (), w')"
    by (simp add: exec_simps msgSvc_MarkAsRead_def msgRepo_GetByID_def msgRepo_MarkAsRead_def
        set_read_def read_receipt_def msgRepo_CreateReceipt_def insert_receipt_def
        delivery_status_enum_def PublishMessageRead_def saveToOutbox_def outboxRepo_Create_def
        sample_service_def sample_defs)
  then show ?thesis
    using MarkAsRead_success [of sample_service Pool sample_world 100 2 "()"]
    by (fastforce simp: sample_service_def sample_world_def sample_tables_def empty_tables_def
        appends_event_def)
qed

section \<open>The operations that pass everything on to the repository\<close>

definition msgSvc_HardDelete :: "MessageService \<Rightarrow> uuid \<Rightarrow> unit go" where
  "msgSvc_HardDelete s i = msgRepo_HardDelete (msv_messageRepo s) i"

definition msgSvc_Update :: "MessageService \<Rightarrow> Message \<Rightarrow> unit go" where
  "msgSvc_Update s m = msgRepo_Update (msv_messageRepo s) m"

definition msgSvc_AddReaction ::
  "MessageService \<Rightarrow> MessageReaction \<Rightarrow> unit go" where
  "msgSvc_AddReaction s r = msgRepo_AddReaction (msv_messageRepo s) r"

definition msgSvc_RemoveReaction ::
  "MessageService \<Rightarrow> uuid \<Rightarrow> uuid \<Rightarrow> string \<Rightarrow> unit go" where
  "msgSvc_RemoveReaction s m u code = msgRepo_RemoveReaction (msv_messageRepo s) m u code"

definition msgSvc_MarkAsPlayed ::
  "MessageService \<Rightarrow> uuid \<Rightarrow> uuid \<Rightarrow> unit go" where
  "msgSvc_MarkAsPlayed s m u = msgRepo_MarkAsPlayed (msv_messageRepo s) m u"

definition msgSvc_GetMessagesBySeqRange ::
  "MessageService \<Rightarrow> uuid \<Rightarrow> int \<Rightarrow> int \<Rightarrow> Message list go" where
  "msgSvc_GetMessagesBySeqRange s conv startSeq endSeq =
     msgRepo_GetMessagesBySeqRange (msv_messageRepo s) conv startSeq endSeq"

definition msgSvc_GetUnreadMessages ::
  "MessageService \<Rightarrow> uuid \<Rightarrow> uuid \<Rightarrow> Message list go" where
  "msgSvc_GetUnreadMessages s conv u = msgRepo_GetUnreadMessages (msv_messageRepo s) conv u"

definition msgSvc_SearchMessages ::
  "MessageService \<Rightarrow> uuid \<Rightarrow> string \<Rightarrow> int \<Rightarrow> int \<Rightarrow> (Message list \<times> int) go" where
  "msgSvc_SearchMessages s conv q page limit =
     msgRepo_SearchMessages (msv_messageRepo s) conv q page limit"

definition msgSvc_GetMessagesByType ::
  "MessageService \<Rightarrow> uuid \<Rightarrow> string \<Rightarrow> int \<Rightarrow> Message list go" where
  "msgSvc_GetMessagesByType s conv msgType limit =
     msgRepo_GetMessagesByType (msv_messageRepo s) conv msgType limit"

definition msgSvc_GetLatestMessage ::
  "MessageService \<Rightarrow> uuid \<Rightarrow> Message go" where
  "msgSvc_GetLatestMessage s conv = msgRepo_GetLatestMessage (msv_messageRepo s) conv"

definition msgSvc_MarkAsEdited :: "MessageService \<Rightarrow> uuid \<Rightarrow> unit go" where
  "msgSvc_MarkAsEdited s i = msgRepo_MarkAsEdited (msv_messageRepo s) i"

definition msgSvc_GetMessageCountSince ::
  "MessageService \<Rightarrow> uuid \<Rightarrow> time \<Rightarrow> int go" where
  "msgSvc_GetMessageCountSince s conv since =
     msgRepo_GetMessageCountSince (msv_messageRepo s) conv since"

definition msgSvc_GetByIdempotencyKey ::
  "MessageService \<Rightarrow> string \<Rightarrow> Message go" where
  "msgSvc_GetByIdempotencyKey s key = msgRepo_GetByIdempotencyKey (msv_messageRepo s) key"

definition msgSvc_GetByClientMessageID ::
  "MessageService \<Rightarrow> string \<Rightarrow> Message go" where
  "msgSvc_GetByClientMessageID s cid = msgRepo_GetByClientMessageID (msv_messageRepo s) cid"

definition msgSvc_GetMessageReactions ::
  "MessageService \<Rightarrow> uuid \<Rightarrow> MessageReaction list go" where
  "msgSvc_GetMessageReactions s m = msgRepo_GetMessageReactions (msv_messageRepo s) m"

definition msgSvc_GetUserReaction ::
  "MessageService \<Rightarrow> uuid \<Rightarrow> uuid \<Rightarrow> MessageReaction go" where
  "msgSvc_GetUserReaction s m u = msgRepo_GetUserReaction (msv_messageRepo s) m u"

definition msgSvc_CreateReceipt ::
  "MessageService \<Rightarrow> MessageReceipt \<Rightarrow> unit go" where
  "msgSvc_CreateReceipt s r = msgRepo_CreateReceipt (msv_messageRepo s) r"

definition msgSvc_UpdateReceipt ::
  "MessageService \<Rightarrow> MessageReceipt \<Rightarrow> unit go" where
  "msgSvc_UpdateReceipt s rcp = msgRepo_UpdateReceipt (msv_messageRepo s) rcp"

definition msgSvc_GetMessageReceipts ::
  "MessageService \<Rightarrow> uuid \<Rightarrow> MessageReceipt list go" where
  "msgSvc_GetMessageReceipts s m = msgRepo_GetMessageReceipts (msv_messageRepo s) m"

definition msgSvc_BulkMarkAsDelivered ::
  "MessageService \<Rightarrow> uuid list \<Rightarrow> uuid \<Rightarrow> unit go" where
  "msgSvc_BulkMarkAsDelivered s ids u = msgRepo_BulkMarkAsDelivered (msv_messageRepo s) ids u"

definition msgSvc_BulkMarkAsRead ::
  "MessageService \<Rightarrow> uuid list \<Rightarrow> uuid \<Rightarrow> unit go" where
  "msgSvc_BulkMarkAsRead s ids u = msgRepo_BulkMarkAsRead (msv_messageRepo s) ids u"

definition msgSvc_AddMention ::
  "MessageService \<Rightarrow> MessageMention \<Rightarrow> unit go" where
  "msgSvc_AddMention s m = msgRepo_AddMention (msv_messageRepo s) m"

definition msgSvc_GetMessageMentions ::
  "MessageService \<Rightarrow> uuid \<Rightarrow> MessageMention list go" where
  "msgSvc_GetMessageMentions s i = msgRepo_GetMessageMentions (msv_messageRepo s) i"

definition msgSvc_GetUserMentions ::
  "MessageService \<Rightarrow> uuid \<Rightarrow> int \<Rightarrow> int \<Rightarrow> (Message list \<times> int) go" where
  "msgSvc_GetUserMentions s u page limit = msgRepo_GetUserMentions (msv_messageRepo s) u page limit"

definition msgSvc_StarMessage ::
  "MessageService \<Rightarrow> StarredMessage \<Rightarrow> unit go" where
  "msgSvc_StarMessage s x = msgRepo_StarMessage (msv_messageRepo s) x"

definition msgSvc_UnstarMessage ::
  "MessageService \<Rightarrow> uuid \<Rightarrow> uuid \<Rightarrow> unit go" where
  "msgSvc_UnstarMessage s u m = msgRepo_UnstarMessage (msv_messageRepo s) u m"

definition msgSvc_GetUserStarredMessages ::
  "MessageService \<Rightarrow> uuid \<Rightarrow> int \<Rightarrow> int \<Rightarrow> (StarredMessage list \<times> int) go" where
  "msgSvc_GetUserStarredMessages s u page limit =
     msgRepo_GetUserStarredMessages (msv_messageRepo s) u page limit"

definition msgSvc_IsMessageStarred ::
  "MessageService \<Rightarrow> uuid \<Rightarrow> uuid \<Rightarrow> bool go" where
  "msgSvc_IsMessageStarred s u m = msgRepo_IsMessageStarred (msv_messageRepo s) u m"

definition msgSvc_CreateAttachment ::
  "MessageService \<Rightarrow> Attachment \<Rightarrow> unit go" where
  "msgSvc_CreateAttachment s a = msgRepo_CreateAttachment (msv_messageRepo s) a"

definition msgSvc_GetAttachmentByID ::
  "MessageService \<Rightarrow> uuid \<Rightarrow> Attachment go" where
  "msgSvc_GetAttachmentByID s i = msgRepo_GetAttachmentByID (msv_messageRepo s) i"

definition msgSvc_LinkAttachmentToMessage ::
  "MessageService \<Rightarrow> MessageAttachment \<Rightarrow> unit go" where
  "msgSvc_LinkAttachmentToMessage s ma = msgRepo_LinkAttachmentToMessage (msv_messageRepo s) ma"

definition msgSvc_GetMessageAttachments ::
  "MessageService \<Rightarrow> uuid \<Rightarrow> Attachment list go" where
  "msgSvc_GetMessageAttachments s m = msgRepo_GetMessageAttachments (msv_messageRepo s) m"

definition msgSvc_MarkViewOnceViewed ::
  "MessageService \<Rightarrow> uuid \<Rightarrow> unit go" where
  "msgSvc_MarkViewOnceViewed s i = msgRepo_MarkViewOnceViewed (msv_messageRepo s) i"

definition msgSvc_CreateLinkPreview ::
  "MessageService \<Rightarrow> LinkPreview \<Rightarrow> unit go" where
  "msgSvc_CreateLinkPreview s lp = msgRepo_CreateLinkPreview (msv_messageRepo s) lp"

definition msgSvc_GetLinkPreviewByHash ::
  "MessageService \<Rightarrow> string \<Rightarrow> LinkPreview go" where
  "msgSvc_GetLinkPreviewByHash s h = msgRepo_GetLinkPreviewByHash (msv_messageRepo s) h"

definition msgSvc_GetLinkPreviewByID ::
  "MessageService \<Rightarrow> uuid \<Rightarrow> LinkPreview go" where
  "msgSvc_GetLinkPreviewByID s i = msgRepo_GetLinkPreviewByID (msv_messageRepo s) i"

definition msgSvc_CreatePoll :: "MessageService \<Rightarrow> Poll \<Rightarrow> unit go" where
  "msgSvc_CreatePoll s p = msgRepo_CreatePoll (msv_messageRepo s) p"

definition msgSvc_GetPollByID :: "MessageService \<Rightarrow> uuid \<Rightarrow> Poll go" where
  "msgSvc_GetPollByID s i = msgRepo_GetPollByID (msv_messageRepo s) i"

definition msgSvc_ClosePoll :: "MessageService \<Rightarrow> uuid \<Rightarrow> unit go" where
  "msgSvc_ClosePoll s i = msgRepo_ClosePoll (msv_messageRepo s) i"

definition msgSvc_AddPollOption ::
  "MessageService \<Rightarrow> PollOption \<Rightarrow> unit go" where
  "msgSvc_AddPollOption s opt = msgRepo_AddPollOption (msv_messageRepo s) opt"

definition msgSvc_GetPollOptions ::
  "MessageService \<Rightarrow> uuid \<Rightarrow> PollOption list go" where
  "msgSvc_GetPollOptions s p = msgRepo_GetPollOptions (msv_messageRepo s) p"

definition msgSvc_VotePoll :: "MessageService \<Rightarrow> PollVote \<Rightarrow> unit go" where
  "msgSvc_VotePoll s v = msgRepo_VotePoll (msv_messageRepo s) v"

definition msgSvc_RemoveVote ::
  "MessageService \<Rightarrow> uuid \<Rightarrow> uuid \<Rightarrow> uuid \<Rightarrow> unit go" where
  "msgSvc_RemoveVote s p opt u = msgRepo_RemoveVote (msv_messageRepo s) p opt u"

definition msgSvc_GetPollVotes ::
  "MessageService \<Rightarrow> uuid \<Rightarrow> PollVote list go" where
  "msgSvc_GetPollVotes s p = msgRepo_GetPollVotes (msv_messageRepo s) p"

definition msgSvc_GetUserVotes ::
  "MessageService \<Rightarrow> uuid \<Rightarrow> uuid \<Rightarrow> PollVote list go" where
  "msgSvc_GetUserVotes s p u = msgRepo_GetUserVotes (msv_messageRepo s) p u"

definition msgSvc_DeleteExpiredMessages :: "MessageService \<Rightarrow> int go" where
  "msgSvc_DeleteExpiredMessages s = msgRepo_DeleteExpiredMessages (msv_messageRepo s)"

end
