(* ===== verification/OutboxWorker.thy ===== *)
theory OutboxWorker
  imports EventPublisher Samples
begin

text \<open>
  \<^verbatim>\<open>internal/services/outbox_worker.go\<close> and the publishing half of
  \<^verbatim>\<open>internal/events/redis_bus.go\<close>. The worker knows the outbox and the bus only through the Go
  interfaces \<^verbatim>\<open>OutboxRepository\<close> and \<^verbatim>\<open>EventBus\<close>, which are records of operations here; the
  locale \<open>outbox_repository\<close> states what the worker's lemmas need of the first, and its
  interpretation shows that the Postgres repository provides it.

  Redis itself is a parameter of the bus: the channels on which its PUBLISH fails. Handlers
  run in goroutines of their own and are not part of this theory.
\<close>

section \<open>Interfaces\<close>

record 's OutboxRepository =
  orp_GetPending :: "int \<Rightarrow> ('s, error + OutboxEvent list) state"
  orp_MarkProcessing :: "uuid \<Rightarrow> ('s, error + unit) state"
  orp_MarkCompleted :: "uuid \<Rightarrow> ('s, error + unit) state"
  orp_MarkFailed :: "uuid \<Rightarrow> string \<Rightarrow> ('s, error + unit) state"
  orp_IncrementRetry :: "uuid \<Rightarrow> ('s, error + unit) state"

text \<open>\<^verbatim>\<open>Publish\<close> yields the text of its error.\<close>

type_synonym 'b EventBus = "Event \<Rightarrow> ('b, string + unit) state"

definition postgres_outbox :: "world OutboxRepository" where
  "postgres_outbox = \<lparr>orp_GetPending = outboxRepo_GetPending Pool,
     orp_MarkProcessing = outboxRepo_MarkProcessing Pool,
     orp_MarkCompleted = outboxRepo_MarkCompleted Pool,
     orp_MarkFailed = outboxRepo_MarkFailed Pool,
     orp_IncrementRetry = outboxRepo_IncrementRetry Pool\<rparr>"

section \<open>The Redis bus\<close>

record RedisBus =
  bus_running :: bool
  bus_down :: "string \<Rightarrow> bool"
  bus_sent :: "(string \<times> json) list"

text \<open>The loop over the channels prints the error of a failed PUBLISH and goes on.\<close>

definition publish_channel :: "json \<Rightarrow> string \<Rightarrow> RedisBus \<Rightarrow> RedisBus" where
  "publish_channel data channel b =
     (if bus_down b channel then b else b\<lparr>bus_sent := bus_sent b @ [(channel, data)]\<rparr>)"

definition bus_Publish :: "RedisBus EventBus" where
  "bus_Publish event = State (\<lambda>b.
     if \<not> bus_running b then (Inl ''event bus not started'', b)
     else (let channels = ResolveChannels event
           in if channels = [] then (Inr (), b)
              else (Inr (), fold (publish_channel (event_json event)) channels b)))"

definition bus_Start :: "RedisBus \<Rightarrow> RedisBus" where
  "bus_Start b = b\<lparr>bus_running := True\<rparr>"

definition bus_Stop :: "RedisBus \<Rightarrow> RedisBus" where
  "bus_Stop b = b\<lparr>bus_running := False\<rparr>"

section \<open>The worker\<close>

definition processEvent ::
  "'s OutboxRepository \<Rightarrow> 'b EventBus \<Rightarrow> OutboxEvent \<Rightarrow> ('s \<times> 'b, unit) state" where
  "processEvent repo publish event = do {
     r \<leftarrow> on_store (orp_MarkProcessing repo (ob_ID event));
     (case r of
        Inl _ \<Rightarrow> State_Monad.return ()
      | Inr _ \<Rightarrow>
          (case unmarshalEvent (ob_EventType event) (ob_Payload event) of
             None \<Rightarrow> do {
               _ \<leftarrow> on_store (orp_MarkFailed repo (ob_ID event) ''failed to unmarshal'');
               State_Monad.return ()
             }
           | Some domainEvent \<Rightarrow> do {
               p \<leftarrow> on_bus (publish domainEvent);
               (case p of
                  Inl err \<Rightarrow> do {
                    _ \<leftarrow> on_store (orp_IncrementRetry repo (ob_ID event));
                    (if ob_RetryCount event \<ge> 9
                     then do {
                       _ \<leftarrow> on_store (orp_MarkFailed repo (ob_ID event) err);
                       State_Monad.return ()
                     }
                     else State_Monad.return ())
                  }
                | Inr _ \<Rightarrow> do {
                    _ \<leftarrow> on_store (orp_MarkCompleted repo (ob_ID event));
                    State_Monad.return ()
                  })
             }))
   }"

fun processEvents ::
  "'s OutboxRepository \<Rightarrow> 'b EventBus \<Rightarrow> OutboxEvent list \<Rightarrow> ('s \<times> 'b, unit) state" where
  "processEvents repo publish [] = State_Monad.return ()"
| "processEvents repo publish (e # es) = do {
     _ \<leftarrow> processEvent repo publish e;
     processEvents repo publish es
   }"

definition batchSize :: int where "batchSize = 100"

definition processBatch :: "'s OutboxRepository \<Rightarrow> 'b EventBus \<Rightarrow> ('s \<times> 'b, unit) state" where
  "processBatch repo publish = do {
     r \<leftarrow> on_store (orp_GetPending repo batchSize);
     (case r of
        Inl _ \<Rightarrow> State_Monad.return ()
      | Inr events \<Rightarrow> processEvents repo publish events)
   }"

text \<open>
  The loop of \<^verbatim>\<open>run\<close>, over what its \<^verbatim>\<open>select\<close> receives, one signal after the other: a tick of the
  ticker or the closing of \<^verbatim>\<open>stopChan\<close>.
\<close>

datatype worker_signal = Tick | StopSignal

fun worker_run :: "'s OutboxRepository \<Rightarrow> 'b EventBus \<Rightarrow> worker_signal list \<Rightarrow> ('s \<times> 'b, unit) state" where
  "worker_run repo publish [] = State_Monad.return ()"
| "worker_run repo publish (StopSignal # signals) = State_Monad.return ()"
| "worker_run repo publish (Tick # signals) = do {
     _ \<leftarrow> processBatch repo publish;
     worker_run repo publish signals
   }"

section \<open>The contract of the outbox\<close>

text \<open>
  \<open>status s i\<close> is the status of the event with identifier \<open>i\<close>, if there is one; \<open>inv\<close> is an
  invariant of the store. Each marking moves its own event only, and not at all if it fails;
  what \<open>GetPending\<close> returns is pending.
\<close>

locale outbox_repository =
  fixes repo :: "'s OutboxRepository"
    and status :: "'s \<Rightarrow> uuid \<Rightarrow> OutboxStatus option"
    and inv :: "'s \<Rightarrow> bool"
  assumes mark_processing:
    "inv s \<Longrightarrow> run_state (orp_MarkProcessing repo i) s = (r, s') \<Longrightarrow> inv s' \<and>
       status s' = (if isl r then status s
                    else (status s)(i := map_option (\<lambda>_. StatusProcessing) (status s i)))"
    and mark_completed:
    "inv s \<Longrightarrow> run_state (orp_MarkCompleted repo i) s = (r, s') \<Longrightarrow> inv s' \<and>
       status s' = (if isl r then status s
                    else (status s)(i := map_option (\<lambda>_. StatusCompleted) (status s i)))"
    and mark_failed:
    "inv s \<Longrightarrow> run_state (orp_MarkFailed repo i msg) s = (r, s') \<Longrightarrow> inv s' \<and>
       status s' = (if isl r then status s
                    else (status s)(i := map_option (\<lambda>_. StatusFailed) (status s i)))"
    and increment_retry:
    "inv s \<Longrightarrow> run_state (orp_IncrementRetry repo i) s = (r, s') \<Longrightarrow>
       inv s' \<and> status s' = status s"
    and get_pending:
    "inv s \<Longrightarrow> run_state (orp_GetPending repo n) s = (Inr es, s') \<Longrightarrow>
       \<forall>e\<in>set es. status s (ob_ID e) = Some StatusPending"
    and get_pending_reads:
    "inv s \<Longrightarrow> run_state (orp_GetPending repo n) s = (q, s') \<Longrightarrow> inv s' \<and> status s' = status s"
begin

lemmas marking = mark_processing [OF _ surjective_pairing] mark_completed [OF _ surjective_pairing]
  mark_failed [OF _ surjective_pairing] increment_retry [OF _ surjective_pairing]

text \<open>
  Handling one event touches no other event, never makes an event pending, and touches the
  bus only if its own event is no longer pending.
\<close>

lemma processEvent_effect:
  assumes "inv s" and "run_state (processEvent repo publish e) (s, b) = (u, (s', b'))"
  shows "inv s' \<and> (\<forall>i. i \<noteq> ob_ID e \<longrightarrow> status s' i = status s i) \<and>
    (status s' (ob_ID e) = Some StatusPending \<longrightarrow> status s (ob_ID e) = Some StatusPending \<and> b' = b)"
  using assms marking
  by (auto simp: processEvent_def split: sum.splits option.splits if_splits)

lemma processEvents_effect:
  assumes "inv s" and "run_state (processEvents repo publish es) (s, b) = (u, (s', b'))"
  shows "inv s' \<and> (\<forall>i. status s' i = Some StatusPending \<longrightarrow> status s i = Some StatusPending) \<and>
    (\<forall>i. i \<notin> ob_ID ` set es \<longrightarrow> status s' i = status s i)"
  using assms
proof (induction es arbitrary: s b)
  case (Cons e es)
  obtain u1 s1 b1 where e: "run_state (processEvent repo publish e) (s, b) = (u1, (s1, b1))"
    by (metis prod.collapse)
  with Cons.prems(2) have es: "run_state (processEvents repo publish es) (s1, b1) = (u, (s', b'))"
    by simp
  note one = processEvent_effect [OF Cons.prems(1) e]
  from Cons.IH [OF conjunct1 [OF one] es] one show ?case
    by (metis image_insert insert_iff list.simps(15))
qed auto

lemma processBatch_effect:
  assumes "inv s" and "run_state (processBatch repo publish) (s, b) = (u, (s', b'))"
  shows "inv s' \<and> (\<forall>i. status s' i = Some StatusPending \<longrightarrow> status s i = Some StatusPending) \<and>
    (\<forall>i. status s i \<noteq> Some StatusPending \<longrightarrow> status s' i = status s i)"
proof -
  obtain r s1 where g: "run_state (orp_GetPending repo batchSize) s = (r, s1)"
    by fastforce
  note reads = get_pending_reads [OF assms(1) g]
  show ?thesis
  proof (cases r)
    case (Inl err)
    with assms g reads show ?thesis by (auto simp: processBatch_def)
  next
    case (Inr es)
    with assms(2) g have es: "run_state (processEvents repo publish es) (s1, b) = (u, (s', b'))"
      by (simp add: processBatch_def)
    from get_pending [OF assms(1) g [unfolded Inr]]
    have others: "i \<notin> ob_ID ` set es" if "status s i \<noteq> Some StatusPending" for i
      using that by auto
    from reads have "inv s1" "status s1 = status s" by simp_all
    with processEvents_effect [OF \<open>inv s1\<close> es] have
      "inv s'" "\<And>i. status s' i = Some StatusPending \<Longrightarrow> status s i = Some StatusPending"
      "\<And>i. i \<notin> ob_ID ` set es \<Longrightarrow> status s' i = status s i"
      by simp_all
    with others show ?thesis by blast
  qed
qed

end

section \<open>The Postgres outbox meets the contract\<close>

definition outbox_status :: "world \<Rightarrow> uuid \<Rightarrow> OutboxStatus option" where
  "outbox_status w i = map_option ob_Status (find (\<lambda>e. ob_ID e = i) (t_outbox (w_db w)))"

definition outbox_ok :: "world \<Rightarrow> bool" where
  "outbox_ok w \<longleftrightarrow> clash_free outbox_clash (t_outbox (w_db w))"

lemma find_map_where_outbox:
  assumes "\<And>e. ob_ID (f e) = ob_ID e"
  shows "find (\<lambda>e. ob_ID e = j) (map_where (\<lambda>e. ob_ID e = i) f es) =
    map_option (\<lambda>e. if j = i then f e else e) (find (\<lambda>e. ob_ID e = j) es)"
  using assms by (induction es) (auto simp: map_where_def)

lemma update_event_effect:
  assumes "\<And>e. ob_ID (f e) = ob_ID e" and "outbox_ok w"
    and "run_state (update_event Pool i f) w = (r, w')"
  shows "outbox_ok w' \<and> outbox_status w' =
    (if isl r then outbox_status w
     else (outbox_status w)(i := map_option (\<lambda>e. ob_Status (f e))
       (find (\<lambda>e. ob_ID e = i) (t_outbox (w_db w)))))"
proof -
  have key: "outbox_clash (f a) b = outbox_clash a b" for a b
    by (simp add: outbox_clash_def assms(1))
  show ?thesis
    using assms(2,3) outbox_key.map_where_keeps [of "t_outbox (w_db w)" f "\<lambda>e. ob_ID e = i", OF _ key]
    by (auto simp: update_event_def void_def run_sql_Pool Let_def outbox_ok_def outbox_status_def
        on_table_def update_where_def fun_eq_iff find_map_where_outbox assms(1) option.map_comp comp_def
        split: option.splits)
qed

lemma update_event_status:
  assumes "\<And>e. ob_ID (f e) = ob_ID e" and "\<And>e. ob_Status (f e) = x" and "outbox_ok w"
    and "run_state (update_event Pool i f) w = (r, w')"
  shows "outbox_ok w' \<and> outbox_status w' =
    (if isl r then outbox_status w
     else (outbox_status w)(i := map_option (\<lambda>_. x) (outbox_status w i)))"
  using update_event_effect [OF assms(1,3,4)] assms(2)
  by (simp add: outbox_status_def option.map_comp comp_def)

lemma update_event_keeps_status:
  assumes "\<And>e. ob_ID (f e) = ob_ID e" and "\<And>e. ob_Status (f e) = ob_Status e" and "outbox_ok w"
    and "run_state (update_event Pool i f) w = (r, w')"
  shows "outbox_ok w' \<and> outbox_status w' = outbox_status w"
  using update_event_effect [OF assms(1,3,4)] assms(2)
  by (auto simp: outbox_status_def fun_eq_iff)

lemma outbox_ok_tick [simp]: "outbox_ok (w\<lparr>w_step := n\<rparr>) = outbox_ok w"
  by (simp add: outbox_ok_def)

lemma outbox_status_tick [simp]: "outbox_status (w\<lparr>w_step := n\<rparr>) = outbox_status w"
  by (simp add: outbox_status_def fun_eq_iff)

lemma find_in_clash_free:
  assumes "clash_free outbox_clash es" "e \<in> set es"
  shows "find (\<lambda>x. ob_ID x = ob_ID e) es = Some e"
  using assms by (induction es) (auto simp: outbox_clash_def)

lemma outbox_GetPending_pending:
  assumes "outbox_ok w" and "run_state (outboxRepo_GetPending Pool n) w = (Inr es, w')" and "e \<in> set es"
  shows "e \<in> set (t_outbox (w_db w)) \<and> is_pending e \<and> outbox_status w (ob_ID e) = Some StatusPending"
proof -
  from assms(2,3) have "e \<in> set (t_outbox (w_db w))" "is_pending e"
    by (auto simp: outboxRepo_GetPending_def sql_Pool_Inr query_page_def offset_limit_def
        split: if_splits dest!: in_set_takeD)
  with assms(1) show ?thesis
    by (simp add: outbox_ok_def outbox_status_def find_in_clash_free is_pending_def)
qed

lemma GetPending_keeps:
  "run_state (outboxRepo_GetPending Pool n) w = (r, w') \<Longrightarrow> w_db w' = w_db w"
  using keepsD [OF keeps_committed_reads_only, of _ "w_db w" w Pool]
  by (force simp: outboxRepo_GetPending_def committed_def)

interpretation postgres: outbox_repository postgres_outbox outbox_status outbox_ok
proof
  fix w i r w'
  assume "outbox_ok w"
  then show "run_state (orp_MarkProcessing postgres_outbox i) w = (r, w') \<Longrightarrow> outbox_ok w' \<and>
       outbox_status w' = (if isl r then outbox_status w
         else (outbox_status w)(i := map_option (\<lambda>_. StatusProcessing) (outbox_status w i)))"
    by (auto simp: postgres_outbox_def outboxRepo_MarkProcessing_def dest!: update_event_status [rotated 3])
  from \<open>outbox_ok w\<close>
  show "run_state (orp_MarkCompleted postgres_outbox i) w = (r, w') \<Longrightarrow> outbox_ok w' \<and>
       outbox_status w' = (if isl r then outbox_status w
         else (outbox_status w)(i := map_option (\<lambda>_. StatusCompleted) (outbox_status w i)))"
    by (auto simp: postgres_outbox_def outboxRepo_MarkCompleted_def dest!: update_event_status [rotated 3])
  from \<open>outbox_ok w\<close>
  show "run_state (orp_MarkFailed postgres_outbox i msg) w = (r, w') \<Longrightarrow> outbox_ok w' \<and>
       outbox_status w' = (if isl r then outbox_status w
         else (outbox_status w)(i := map_option (\<lambda>_. StatusFailed) (outbox_status w i)))" for msg
    by (auto simp: postgres_outbox_def outboxRepo_MarkFailed_def dest!: update_event_status [rotated 3])
  from \<open>outbox_ok w\<close>
  show "run_state (orp_IncrementRetry postgres_outbox i) w = (r, w') \<Longrightarrow>
       outbox_ok w' \<and> outbox_status w' = outbox_status w"
    by (auto simp: postgres_outbox_def outboxRepo_IncrementRetry_def
        dest!: update_event_keeps_status [rotated 3])
next
  fix w n es w' and r :: "error + OutboxEvent list"
  assume w: "outbox_ok w"
  show "run_state (orp_GetPending postgres_outbox n) w = (Inr es, w') \<Longrightarrow>
       \<forall>e\<in>set es. outbox_status w (ob_ID e) = Some StatusPending"
    using outbox_GetPending_pending [OF w] by (auto simp: postgres_outbox_def)
  show "run_state (orp_GetPending postgres_outbox n) w = (r, w') \<Longrightarrow>
       outbox_ok w' \<and> outbox_status w' = outbox_status w"
    using w by (auto simp: postgres_outbox_def outbox_ok_def outbox_status_def fun_eq_iff
        dest!: GetPending_keeps)
qed

section \<open>The system of services, worker and Redis\<close>

text \<open>
  One step is a tick of the worker, a service saving an event, or a change of Redis or of
  the bus. Faults of the database are part of the world and can hit any of these.
\<close>

inductive outbox_step :: "world \<times> RedisBus \<Rightarrow> world \<times> RedisBus \<Rightarrow> bool" where
  worker_tick: "run_state (processBatch postgres_outbox bus_Publish) (w, b) = (u, s') \<Longrightarrow>
    outbox_step (w, b) s'"
| service_saves: "run_state (saveToOutbox p Pool ty agg i e) w = (r, w') \<Longrightarrow>
    outbox_step (w, b) (w', b)"
| redis_changes: "outbox_step (w, b) (w, b\<lparr>bus_down := f\<rparr>)"
| bus_starts: "outbox_step (w, b) (w, bus_Start b)"
| bus_stops: "outbox_step (w, b) (w, bus_Stop b)"

inductive_cases outbox_stepE: "outbox_step (w, b) s'"

text \<open>An event that exists and is not pending.\<close>

definition settled :: "uuid \<Rightarrow> world \<times> RedisBus \<Rightarrow> bool" where
  "settled i s \<longleftrightarrow> outbox_ok (fst s) \<and> outbox_status (fst s) i \<noteq> None \<and>
     outbox_status (fst s) i \<noteq> Some StatusPending"

lemma find_append_other: "find P xs \<noteq> None \<Longrightarrow> find P (xs @ ys) = find P xs"
  by (induction xs) auto

lemma saveToOutbox_status:
  assumes "run_state (saveToOutbox p Pool ty agg j e) w = (r, w')" and "outbox_ok w"
  shows "outbox_ok w' \<and> (outbox_status w i \<noteq> None \<longrightarrow> outbox_status w' i = outbox_status w i)"
  using assms
  by (auto simp: saveToOutbox_def outboxRepo_Create_def run_sql_Pool Let_def outbox_ok_def
      outbox_status_def insert_into_Inr sorted_wrt_append outbox_clash_def find_append_other
      split: option.splits sum.splits)

lemma settled_step: "outbox_step s s' \<Longrightarrow> settled i s \<Longrightarrow> settled i s'"
proof (induction rule: outbox_step.induct)
  case (worker_tick w b u s')
  obtain w' b' where s': "s' = (w', b')" by fastforce
  from worker_tick(2) have ok: "outbox_ok w" by (simp add: settled_def)
  from worker_tick(1) s' have "run_state (processBatch postgres_outbox bus_Publish) (w, b) = (u, (w', b'))"
    by simp
  from postgres.processBatch_effect [OF ok this]
  have "outbox_ok w'" "outbox_status w i \<noteq> Some StatusPending \<longrightarrow> outbox_status w' i = outbox_status w i"
    by blast+
  with worker_tick(2) s' show ?case by (simp add: settled_def)
next
  case (service_saves p ty agg j e w r w' b)
  then show ?case
    using saveToOutbox_status [OF service_saves(1)] by (auto simp: settled_def)
qed (auto simp: settled_def)

lemma settled_steps: "outbox_step\<^sup>*\<^sup>* s s' \<Longrightarrow> settled i s \<Longrightarrow> settled i s'"
  by (induction rule: rtranclp_induct) (auto intro: settled_step)

lemma settled_not_fetched:
  assumes "settled i (w, b)" and "run_state (outboxRepo_GetPending Pool n) w = (Inr es, w')"
  shows "i \<notin> ob_ID ` set es"
  using outbox_GetPending_pending [OF _ assms(2)] assms(1) by (force simp: settled_def)

text \<open>Processing an event of the table, when no statement fails.\<close>

lemma run_update_event:
  assumes "w_fault w (w_step w) = None"
  shows "run_state (update_event Pool i f) w = (Inr (),
    (tick w)\<lparr>w_db := (w_db w)\<lparr>t_outbox := map_where (\<lambda>e. ob_ID e = i) f (t_outbox (w_db w))\<rparr>\<rparr>)"
  using assms
  by (simp add: update_event_def void_def run_sql_Pool Let_def on_table_def update_where_def tick_def)

lemma outbox_status_update:
  assumes "\<And>e. ob_ID (f e) = ob_ID e"
  shows "outbox_status (w\<lparr>w_db := (w_db w)\<lparr>t_outbox := map_where (\<lambda>e. ob_ID e = i) f (t_outbox (w_db w))\<rparr>\<rparr>) i =
    map_option (\<lambda>e. ob_Status (f e)) (find (\<lambda>e. ob_ID e = i) (t_outbox (w_db w)))"
  using assms by (simp add: outbox_status_def find_map_where_outbox option.map_comp comp_def)

lemma processEvent_no_fault:
  assumes "outbox_ok w" "e \<in> set (t_outbox (w_db w))" "\<And>n. w_fault w n = None"
    and ev: "unmarshalEvent (ob_EventType e) (ob_Payload e) = Some ev"
    and run: "run_state (processEvent postgres_outbox bus_Publish e) (w, b) = (u, (w', b'))"
  shows "outbox_ok w' \<and> b' = snd (run_state (bus_Publish ev) b) \<and>
    outbox_status w' (ob_ID e) = Some (if bus_running b then StatusCompleted
      else if ob_RetryCount e \<ge> 9 then StatusFailed else StatusProcessing)"
proof -
  have inv: "outbox_ok w'"
    using postgres.processEvent_effect [OF assms(1) run] by simp
  have found: "find (\<lambda>x. ob_ID x = ob_ID e) (t_outbox (w_db w)) = Some e"
    using assms(1,2) by (simp add: outbox_ok_def find_in_clash_free)
  have pub: "isl (fst (run_state (bus_Publish ev) b)) = (\<not> bus_running b)"
    by (simp add: bus_Publish_def Let_def)
  show ?thesis
    using run ev pub found assms(3)
    by (auto simp: processEvent_def postgres_outbox_def outboxRepo_MarkProcessing_def
        outboxRepo_IncrementRetry_def outboxRepo_MarkFailed_def outboxRepo_MarkCompleted_def
        run_update_event outbox_status_def find_map_where_outbox inv
        split: sum.splits if_splits)
qed

text \<open>No operation of the worker removes an event.\<close>

lemma processEvent_keeps_event:
  assumes "outbox_ok w" "outbox_status w (ob_ID e) \<noteq> None"
    and "run_state (processEvent postgres_outbox publish e) (w, b) = (u, (w', b'))"
  shows "outbox_status w' (ob_ID e) \<noteq> None"
  using assms postgres.marking
  by (auto simp: processEvent_def split: sum.splits option.splits if_splits)

text \<open>
  Draining the outbox: on a database that answers, whatever the bus does, handling an event takes
  it, and only it, out of the pending ones.
\<close>

definition pending :: "world \<Rightarrow> OutboxEvent list" where
  "pending w = filter is_pending (t_outbox (w_db w))"

lemma pending_update_other:
  assumes "\<And>e. ob_ID (f e) = ob_ID e"
  shows "filter P (filter (\<lambda>e. ob_ID e \<noteq> i) (map_where (\<lambda>e. ob_ID e = i) f es)) = filter P (filter (\<lambda>e. ob_ID e \<noteq> i) es)"
  using assms by (induction es) (auto simp: map_where_def)

lemma pending_update:
  assumes "\<And>e. ob_ID (f e) = ob_ID e" "\<And>e. ob_Status (f e) \<noteq> StatusPending"
  shows "filter is_pending (map_where (\<lambda>e. ob_ID e = i) f es) = filter (\<lambda>e. is_pending e \<and> ob_ID e \<noteq> i) es"
  using assms by (induction es) (auto simp: map_where_def is_pending_def)

lemma map_where_twice:
  assumes "\<And>e. ob_ID (f e) = ob_ID e"
  shows "map_where (\<lambda>e. ob_ID e = i) g (map_where (\<lambda>e. ob_ID e = i) f es) = map_where (\<lambda>e. ob_ID e = i) (g \<circ> f) es"
  using assms by (simp add: map_where_def)

lemma processEvent_pending:
  assumes "\<And>n. w_fault w n = None"
    and "run_state (processEvent postgres_outbox publish e) (w, b) = (u, (w', b'))"
  shows "pending w' = filter (\<lambda>x. ob_ID x \<noteq> ob_ID e) (pending w) \<and> w_fault w' = w_fault w"
  using assms
  by (auto simp: processEvent_def postgres_outbox_def outboxRepo_MarkProcessing_def
      outboxRepo_IncrementRetry_def outboxRepo_MarkFailed_def outboxRepo_MarkCompleted_def
      run_update_event pending_def map_where_twice pending_update conj_commute
      split: sum.splits option.splits if_splits prod.splits)

lemma processEvents_pending:
  assumes "\<And>n. w_fault w n = None"
    and "run_state (processEvents postgres_outbox publish es) (w, b) = (u, (w', b'))"
  shows "pending w' = filter (\<lambda>x. ob_ID x \<notin> ob_ID ` set es) (pending w) \<and> w_fault w' = w_fault w"
  using assms
proof (induction es arbitrary: w b)
  case (Cons e es)
  obtain u1 w1 b1 where e: "run_state (processEvent postgres_outbox publish e) (w, b) = (u1, (w1, b1))"
    by (metis prod.collapse)
  with Cons.prems(2) have es: "run_state (processEvents postgres_outbox publish es) (w1, b1) = (u, (w', b'))"
    by simp
  note one = processEvent_pending [OF Cons.prems(1) e]
  from one Cons.prems(1) have "\<And>n. w_fault w1 n = None" by simp
  from Cons.IH [OF this es] one show ?case by (simp add: conj_commute cong: filter_cong)
qed simp

lemma distinct_pending: "clash_free outbox_clash es \<Longrightarrow> distinct (map ob_ID (filter is_pending es))"
  by (induction es) (auto simp: outbox_clash_def)

lemma length_filter_ids:
  assumes "distinct (map key xs)" "set ys \<subseteq> set xs" "distinct ys"
  shows "length (filter (\<lambda>x. key x \<notin> key ` set ys) xs) = length xs - length ys"
proof -
  have inj: "inj_on key (set xs)" and dist: "distinct xs" using assms(1) by (simp_all add: distinct_map)
  have "set (filter (\<lambda>x. key x \<notin> key ` set ys) xs) = set xs - set ys"
    using inj_on_image_mem_iff [OF inj _ assms(2)] by auto
  with dist assms(2,3) show ?thesis
    by (metis card_Diff_subset distinct_card distinct_filter finite_set)
qed

text \<open>One poll takes a batch of them, the oldest, out of the outbox.\<close>

lemma processBatch_pending:
  assumes ok: "outbox_ok w" and healthy: "\<And>n. w_fault w n = None"
    and run: "run_state (processBatch postgres_outbox publish) (w, b) = (u, (w', b'))"
  shows "length (pending w') = length (pending w) - nat batchSize \<and> w_fault w' = w_fault w"
proof -
  let ?es = "take (nat batchSize) (order_asc (\<lambda>e. Some (ob_CreatedAt e)) (pending w))"
  from run healthy have "run_state (processEvents postgres_outbox publish ?es) (tick w, b) = (u, (w', b'))"
    by (simp add: processBatch_def postgres_outbox_def outboxRepo_GetPending_def run_sql_Pool query_page_def
        offset_limit_def batchSize_def pending_def tick_def Let_def)
  from processEvents_pending [OF _ this] healthy
  have "pending w' = filter (\<lambda>x. ob_ID x \<notin> ob_ID ` set ?es) (pending w)" "w_fault w' = w_fault w"
    by (simp_all add: pending_def)
  moreover have dist: "distinct (map ob_ID (pending w))"
    using ok by (simp add: outbox_ok_def pending_def distinct_pending)
  moreover have "distinct ?es"
    using dist by (simp add: distinct_map order_asc_def)
  moreover have "set ?es \<subseteq> set (pending w)"
    by (auto dest: in_set_takeD)
  ultimately show ?thesis
    using length_filter_ids [of ob_ID "pending w" ?es] by simp
qed

lemma worker_run_pending:
  assumes "outbox_ok w" and "\<And>n. w_fault w n = None"
    and "run_state (worker_run postgres_outbox publish (replicate k Tick)) (w, b) = (u, (w', b'))"
  shows "length (pending w') = length (pending w) - k * nat batchSize"
  using assms
proof (induction k arbitrary: w b)
  case (Suc k)
  obtain u1 w1 b1 where one: "run_state (processBatch postgres_outbox publish) (w, b) = (u1, (w1, b1))"
    by (metis prod.collapse)
  with Suc.prems(3) have rest: "run_state (worker_run postgres_outbox publish (replicate k Tick)) (w1, b1) = (u, (w', b'))"
    by simp
  note batch = processBatch_pending [OF Suc.prems(1,2) one]
  with Suc.prems(2) have "\<And>n. w_fault w1 n = None" by simp
  moreover have "outbox_ok w1" using postgres.processBatch_effect [OF Suc.prems(1) one] by simp
  ultimately show ?case using Suc.IH [OF _ _ rest] batch by simp
qed simp

section \<open>What the worker publishes\<close>

text \<open>The messages that handling an event sends over a started bus\<close>

definition deliveries :: "(string \<Rightarrow> bool) \<Rightarrow> OutboxEvent \<Rightarrow> (string \<times> json) list" where
  "deliveries down e = (case unmarshalEvent (ob_EventType e) (ob_Payload e) of
     None \<Rightarrow> []
   | Some ev \<Rightarrow> map (\<lambda>c. (c, event_json ev)) (filter (\<lambda>c. \<not> down c) (ResolveChannels ev)))"

lemma fold_publish_channel:
  "fold (publish_channel d) cs b = b\<lparr>bus_sent := bus_sent b @ map (\<lambda>c. (c, d)) (filter (\<lambda>c. \<not> bus_down b c) cs)\<rparr>"
  by (induction cs arbitrary: b) (auto simp: publish_channel_def)

lemma run_bus_Publish:
  assumes "bus_running b"
  shows "run_state (bus_Publish ev) b = (Inr (), b\<lparr>bus_sent := bus_sent b @
    map (\<lambda>c. (c, event_json ev)) (filter (\<lambda>c. \<not> bus_down b c) (ResolveChannels ev))\<rparr>)"
  using assms by (simp add: bus_Publish_def fold_publish_channel Let_def)

lemma processEvent_delivers:
  assumes "\<And>n. w_fault w n = None" "bus_running b"
    and "run_state (processEvent postgres_outbox bus_Publish e) (w, b) = (u, (w', b'))"
  shows "b' = b\<lparr>bus_sent := bus_sent b @ deliveries (bus_down b) e\<rparr>"
  using assms
  by (auto simp: processEvent_def postgres_outbox_def outboxRepo_MarkProcessing_def run_update_event
      deliveries_def run_bus_Publish split: sum.splits option.splits if_splits)

lemma processEvents_delivers:
  assumes "\<And>n. w_fault w n = None" "bus_running b"
    and "run_state (processEvents postgres_outbox bus_Publish es) (w, b) = (u, (w', b'))"
  shows "b' = b\<lparr>bus_sent := bus_sent b @ concat (map (deliveries (bus_down b)) es)\<rparr>"
  using assms
proof (induction es arbitrary: w b)
  case (Cons e es)
  obtain u1 w1 b1 where e: "run_state (processEvent postgres_outbox bus_Publish e) (w, b) = (u1, (w1, b1))"
    by (metis prod.collapse)
  with Cons.prems(3) have es: "run_state (processEvents postgres_outbox bus_Publish es) (w1, b1) = (u, (w', b'))"
    by simp
  have "b1 = b\<lparr>bus_sent := bus_sent b @ deliveries (bus_down b) e\<rparr>"
    using processEvent_delivers [OF Cons.prems(1,2) e] .
  moreover have "\<And>n. w_fault w1 n = None" using processEvent_pending [OF Cons.prems(1) e] Cons.prems(1) by simp
  ultimately show ?case using Cons.IH [OF _ _ es] Cons.prems(2) by simp
qed simp

text \<open>The pending events in the order in which they are published\<close>

definition backlog :: "world \<Rightarrow> OutboxEvent list" where
  "backlog w = order_asc (\<lambda>e. Some (ob_CreatedAt e)) (pending w)"

lemma filter_taken:
  "distinct (map key xs) \<Longrightarrow> filter (\<lambda>x. key x \<notin> key ` set (take n xs)) xs = drop n xs"
proof -
  assume dist: "distinct (map key xs)"
  let ?P = "\<lambda>x. key x \<notin> key ` set (take n xs)"
  have "distinct (map key (take n xs) @ map key (drop n xs))" using dist by (simp flip: map_append)
  then have "filter ?P (take n xs) = []" "filter ?P (drop n xs) = drop n xs"
    by (auto simp: filter_empty_conv filter_id_conv)
  then have "filter ?P (take n xs @ drop n xs) = drop n xs" by (simp only: filter_append append_Nil)
  then show ?thesis by simp
qed

lemma processBatch_delivers:
  assumes ok: "outbox_ok w" and healthy: "\<And>n. w_fault w n = None" and "bus_running b"
    and run: "run_state (processBatch postgres_outbox bus_Publish) (w, b) = (u, (w', b'))"
  shows "b' = b\<lparr>bus_sent := bus_sent b @ concat (map (deliveries (bus_down b)) (take 100 (backlog w)))\<rparr>"
    "backlog w' = drop 100 (backlog w)"
proof -
  from run healthy have es: "run_state (processEvents postgres_outbox bus_Publish (take 100 (backlog w))) (tick w, b) = (u, (w', b'))"
    by (simp add: processBatch_def postgres_outbox_def outboxRepo_GetPending_def run_sql_Pool query_page_def
        offset_limit_def batchSize_def pending_def backlog_def tick_def Let_def)
  have "\<And>n. w_fault (tick w) n = None" using healthy by simp
  from processEvents_delivers [OF this assms(3) es]
  show "b' = b\<lparr>bus_sent := bus_sent b @ concat (map (deliveries (bus_down b)) (take 100 (backlog w)))\<rparr>" .
  have "pending w' = filter (\<lambda>x. ob_ID x \<notin> ob_ID ` set (take 100 (backlog w))) (pending w)"
    using processEvents_pending [OF _ es] healthy by (simp add: pending_def)
  then have "backlog w' = filter (\<lambda>x. ob_ID x \<notin> ob_ID ` set (take 100 (backlog w))) (backlog w)"
    by (simp add: backlog_def order_asc_def filter_sort)
  moreover have "distinct (map ob_ID (pending w))" using ok by (simp add: outbox_ok_def pending_def distinct_pending)
  then have "distinct (map ob_ID (backlog w))" by (simp add: backlog_def order_asc_def distinct_map)
  ultimately show "backlog w' = drop 100 (backlog w)" by (simp add: filter_taken)
qed

lemma worker_run_delivers:
  assumes "outbox_ok w" and "\<And>n. w_fault w n = None" and "bus_running b"
    and "run_state (worker_run postgres_outbox bus_Publish (replicate k Tick)) (w, b) = (u, (w', b'))"
  shows "bus_sent b' = bus_sent b @ concat (map (deliveries (bus_down b)) (take (k * 100) (backlog w)))"
  using assms
proof (induction k arbitrary: w b)
  case (Suc k)
  obtain u1 w1 b1 where one: "run_state (processBatch postgres_outbox bus_Publish) (w, b) = (u1, (w1, b1))"
    by (metis prod.collapse)
  with Suc.prems(4) have rest: "run_state (worker_run postgres_outbox bus_Publish (replicate k Tick)) (w1, b1) = (u, (w', b'))"
    by simp
  note batch = processBatch_delivers [OF Suc.prems(1-3) one]
  have "\<And>n. w_fault w1 n = None" using processBatch_pending [OF Suc.prems(1,2) one] Suc.prems(2) by simp
  moreover have "outbox_ok w1" using postgres.processBatch_effect [OF Suc.prems(1) one] by simp
  ultimately show ?case using Suc.IH [OF _ _ _ rest] batch Suc.prems(3) by (simp add: take_add)
qed simp

section \<open>Properties\<close>

definition sample_event :: OutboxEvent where
  "sample_event = \<lparr>ob_ID = 300, ob_EventType = EventMessageRead, ob_AggregateType = ''message'',
     ob_AggregateID = [], ob_Payload = event_json (MessageRead \<lparr>mre_Base =
       \<lparr>EventTypeVal = EventMessageRead, TimestampVal = 0, UserIDVal = 2, ConvIDVal = 0\<rparr>,
       mre_MessageID = 100, mre_ConversationID = 5, mre_ReaderID = 2\<rparr>),
     ob_Status = StatusPending, ob_RetryCount = 0, ob_Error = [], ob_CreatedAt = 0,
     ob_UpdatedAt = 0, ob_ProcessedAt = None\<rparr>"

definition sample_read :: Event where
  "sample_read = MessageRead \<lparr>mre_Base =
       \<lparr>EventTypeVal = EventMessageRead, TimestampVal = 0, UserIDVal = 2, ConvIDVal = 0\<rparr>,
       mre_MessageID = 100, mre_ConversationID = 5, mre_ReaderID = 2\<rparr>"

definition outbox_world :: world where
  "outbox_world = sample_world\<lparr>w_db := sample_tables\<lparr>t_outbox := [sample_event]\<rparr>\<rparr>"

lemma sample_event_decodes:
  "unmarshalEvent (ob_EventType sample_event) (ob_Payload sample_event) = Some sample_read"
proof -
  have "wire sample_read = sample_read" by (simp add: sample_read_def)
  with unmarshal_wire [of EventMessageRead sample_read] show ?thesis
    by (simp add: sample_event_def sample_read_def)
qed

lemma outbox_world_facts:
  "outbox_ok outbox_world" "sample_event \<in> set (t_outbox (w_db outbox_world))"
  "w_fault outbox_world n = None"
  by (simp_all add: outbox_ok_def outbox_world_def sample_world_def)

text \<open>
  C11. Delivery at most once. If handling an event touched the bus at all, then whatever the
  services, the worker, Redis and the database do afterwards, no later poll of the outbox
  returns that event.
\<close>

theorem event_reaches_bus_once:
  assumes "outbox_ok w" and "outbox_status w (ob_ID e) \<noteq> None"
    and run: "run_state (processEvent postgres_outbox bus_Publish e) (w, b) = (u, (w1, b1))"
    and "b1 \<noteq> b"
    and "outbox_step\<^sup>*\<^sup>* (w1, b1) (w2, b2)"
    and "run_state (outboxRepo_GetPending Pool n) w2 = (Inr es, w3)"
  shows "ob_ID e \<notin> ob_ID ` set es"
proof -
  have "settled (ob_ID e) (w1, b1)"
    using postgres.processEvent_effect [OF assms(1) run] assms(4)
      processEvent_keeps_event [OF assms(1,2) run]
    by (auto simp: settled_def)
  from settled_not_fetched [OF settled_steps [OF assms(5) this] assms(6)] show ?thesis .
qed

definition idle_bus :: "bool \<Rightarrow> RedisBus" where
  "idle_bus running = \<lparr>bus_running = running, bus_down = (\<lambda>_. False), bus_sent = []\<rparr>"

lemma event_reaches_bus_once_witness:
  "\<exists>w1 b1. run_state (processEvent postgres_outbox bus_Publish sample_event) (outbox_world, idle_bus True)
      = ((), (w1, b1)) \<and> length (bus_sent b1) = 1 \<and>
    (\<forall>es w3. run_state (outboxRepo_GetPending Pool 100) w1 = (Inr es, w3) \<longrightarrow> 300 \<notin> ob_ID ` set es)"
proof -
  obtain w1 b1 where run: "run_state (processEvent postgres_outbox bus_Publish sample_event)
      (outbox_world, idle_bus True) = ((), (w1, b1))"
    by (metis prod.collapse old.unit.exhaust)
  have b1: "b1 = snd (run_state (bus_Publish sample_read) (idle_bus True))"
    using processEvent_no_fault [OF outbox_world_facts sample_event_decodes run] by simp
  have sent: "length (bus_sent b1) = 1"
    by (simp add: b1 bus_Publish_def idle_bus_def sample_read_def publish_channel_def Let_def)
  have "b1 \<noteq> idle_bus True" using sent by (auto simp: idle_bus_def)
  moreover have "outbox_status outbox_world (ob_ID sample_event) \<noteq> None"
    by (simp add: outbox_status_def outbox_world_def)
  ultimately show ?thesis
    using event_reaches_bus_once [OF outbox_world_facts(1) _ run, of w1 b1 100] run sent
    by (fastforce simp: sample_event_def)
qed

text \<open>
  A started bus. The worker marks the event COMPLETED and sends it to exactly those of its
  channels that Redis accepts: an error of PUBLISH is printed and dropped, so that an event
  no channel accepted is completed all the same.
\<close>

theorem started_bus_completes:
  assumes "outbox_ok w" and "e \<in> set (t_outbox (w_db w))" and "\<And>n. w_fault w n = None"
    and "unmarshalEvent (ob_EventType e) (ob_Payload e) = Some ev" and "bus_running b"
    and "run_state (processEvent postgres_outbox bus_Publish e) (w, b) = (u, (w', b'))"
  shows "outbox_status w' (ob_ID e) = Some StatusCompleted \<and>
    bus_sent b' = bus_sent b @
      map (\<lambda>c. (c, event_json ev)) (filter (\<lambda>c. \<not> bus_down b c) (ResolveChannels ev))"
proof -
  have "bus_sent (fold (publish_channel d) cs b0) =
      bus_sent b0 @ map (\<lambda>c. (c, d)) (filter (\<lambda>c. \<not> bus_down b0 c) cs)" for d cs b0
    by (induction cs arbitrary: b0) (auto simp: publish_channel_def)
  then show ?thesis
    using processEvent_no_fault [OF assms(1,2,3,4,6)] assms(5)
    by (auto simp: bus_Publish_def Let_def)
qed

lemma started_bus_completes_witness:
  "\<exists>w' b'. run_state (processEvent postgres_outbox bus_Publish sample_event)
      (outbox_world, (idle_bus True)\<lparr>bus_down := (\<lambda>_. True)\<rparr>) = ((), (w', b')) \<and>
    outbox_status w' 300 = Some StatusCompleted \<and> bus_sent b' = []"
proof -
  let ?b = "(idle_bus True)\<lparr>bus_down := (\<lambda>_. True)\<rparr>"
  obtain w' b' where run: "run_state (processEvent postgres_outbox bus_Publish sample_event)
      (outbox_world, ?b) = ((), (w', b'))"
    by (metis prod.collapse old.unit.exhaust)
  have "bus_running ?b" by (simp add: idle_bus_def)
  from started_bus_completes [OF outbox_world_facts sample_event_decodes this run] run
  show ?thesis by (simp add: sample_event_def idle_bus_def)
qed

text \<open>
  C24. A stopped bus loses events. When \<open>Publish\<close> fails, the event is left PROCESSING (with its
  retry counter raised) and nothing ever makes it pending again: in every later state, after
  any number of ticks, no poll returns it. The retry counter that \<open>GetPending\<close> tests is
  therefore never read again.
\<close>

theorem failed_publish_never_retried:
  assumes "outbox_ok w" and "e \<in> set (t_outbox (w_db w))" and "\<And>n. w_fault w n = None"
    and "unmarshalEvent (ob_EventType e) (ob_Payload e) = Some ev"
    and "\<not> bus_running b" and "ob_RetryCount e < 9"
    and "run_state (processEvent postgres_outbox bus_Publish e) (w, b) = (u, (w1, b1))"
    and "outbox_step\<^sup>*\<^sup>* (w1, b1) (w2, b2)"
    and "run_state (outboxRepo_GetPending Pool n) w2 = (Inr es, w3)"
  shows "outbox_status w1 (ob_ID e) = Some StatusProcessing \<and> b1 = b \<and> ob_ID e \<notin> ob_ID ` set es"
proof -
  note one = processEvent_no_fault [OF assms(1-4,7)]
  have "b1 = b" using one assms(5) by (simp add: bus_Publish_def)
  moreover have "settled (ob_ID e) (w1, b1)"
    using one assms(5,6) by (simp add: settled_def)
  ultimately show ?thesis
    using one assms(5,6) settled_not_fetched [OF settled_steps [OF assms(8)] assms(9)] by simp
qed

lemma failed_publish_never_retried_witness:
  "\<exists>w1. run_state (processEvent postgres_outbox bus_Publish sample_event)
      (outbox_world, idle_bus False) = ((), (w1, idle_bus False)) \<and>
    outbox_status w1 300 = Some StatusProcessing"
proof -
  have "\<exists>w1. run_state (processEvent postgres_outbox bus_Publish sample_event)
      (outbox_world, idle_bus False) = ((), (w1, idle_bus False)) \<and> (\<forall>n. w_fault w1 n = None)"
    by (simp add: processEvent_def postgres_outbox_def outboxRepo_MarkProcessing_def
        outboxRepo_IncrementRetry_def run_update_event outbox_world_def sample_world_def
        sample_event_decodes bus_Publish_def idle_bus_def)
      (simp add: sample_event_def)
  then obtain w1 where run: "run_state (processEvent postgres_outbox bus_Publish sample_event)
      (outbox_world, idle_bus False) = ((), (w1, idle_bus False))" and ok: "\<forall>n. w_fault w1 n = None"
    by blast
  from ok obtain es w3 where get: "run_state (outboxRepo_GetPending Pool 100) w1 = (Inr es, w3)"
    by (force simp: outboxRepo_GetPending_def run_sql_Pool query_page_def offset_limit_def Let_def)
  have "\<not> bus_running (idle_bus False)" "ob_RetryCount sample_event < 9"
    by (simp_all add: idle_bus_def sample_event_def)
  from failed_publish_never_retried [OF outbox_world_facts sample_event_decodes this run
      rtranclp.rtrancl_refl get] run
  show ?thesis by (simp add: sample_event_def)
qed

text \<open>
  C6. The worker drains the outbox. On a database that answers, whatever the bus does with the
  events, every tick takes a batch of pending events out of the outbox, so that as many ticks as
  there are batches leave none: the backlog of any size comes to an end, and not a tick earlier.
\<close>

theorem Worker_drains:
  assumes "outbox_ok w" and "\<And>n. w_fault w n = None"
    and "run_state (worker_run postgres_outbox publish (replicate k Tick)) (w, b) = (u, (w', b'))"
  shows "pending w' = [] \<longleftrightarrow> length (pending w) \<le> k * 100"
  using worker_run_pending [OF assms] by (simp add: batchSize_def flip: length_0_conv)

lemma Worker_drains_witness:
  "pending (fst (snd (run_state (worker_run postgres_outbox bus_Publish [Tick]) (outbox_world, idle_bus False)))) = [] \<and>
   length (pending outbox_world) = 1"
proof -
  obtain w' b' where run: "run_state (worker_run postgres_outbox bus_Publish (replicate 1 Tick))
      (outbox_world, idle_bus False) = ((), (w', b'))"
    by (metis prod.collapse old.unit.exhaust)
  have "length (pending outbox_world) = 1"
    by (simp add: pending_def outbox_world_def is_pending_def sample_event_def)
  with Worker_drains [OF outbox_world_facts(1,3) run] run show ?thesis by simp
qed

text \<open>
  C5. The worker is a queue. On a database that answers and over a started bus, any number of ticks
  publishes the events that were pending in the order in which they were created, a hundred for each tick,
  each one exactly once on those of its channels that Redis accepts, and publishes nothing else; an
  event that cannot be decoded is passed over.
\<close>

theorem Worker_publishes_in_order:
  assumes "outbox_ok w" and "\<And>n. w_fault w n = None" and "bus_running b"
    and "run_state (worker_run postgres_outbox bus_Publish (replicate k Tick)) (w, b) = (u, (w', b'))"
  shows "bus_sent b' = bus_sent b @ concat (map (deliveries (bus_down b)) (take (k * 100) (backlog w)))"
  using worker_run_delivers [OF assms] .

lemma Worker_publishes_in_order_witness:
  "bus_sent (snd (snd (run_state (worker_run postgres_outbox bus_Publish [Tick]) (outbox_world, idle_bus True)))) =
     [(conversation_channel 5, event_json sample_read)]"
proof -
  obtain w' b' where run: "run_state (worker_run postgres_outbox bus_Publish (replicate 1 Tick))
      (outbox_world, idle_bus True) = ((), (w', b'))"
    by (metis prod.collapse old.unit.exhaust)
  have "bus_running (idle_bus True)" by (simp add: idle_bus_def)
  from Worker_publishes_in_order [OF outbox_world_facts(1,3) this run] run
  have "bus_sent (snd (snd (run_state (worker_run postgres_outbox bus_Publish [Tick]) (outbox_world, idle_bus True)))) =
     concat (map (deliveries (\<lambda>_. False)) (take 100 (backlog outbox_world)))" by (simp add: idle_bus_def)
  moreover have "backlog outbox_world = [sample_event]"
    by (simp add: backlog_def pending_def outbox_world_def is_pending_def order_asc_def) (simp add: sample_event_def)
  ultimately show ?thesis
    by (simp add: deliveries_def sample_event_decodes) (simp add: sample_read_def)
qed

end
