(* ===== verification/ConversationService.thy ===== *)
theory ConversationService
  imports ConversationRepo EventPublisher Samples
begin

text \<open>
  \<^verbatim>\<open>internal/services/conversation_service.go\<close>: creating conversations and typing events. The
  methods that only call the repository's method of the same name are that method, except for
  \<^verbatim>\<open>GetUserConversations\<close> and \<^verbatim>\<open>Update\<close>, which adjust an argument first.

  The error of \<^verbatim>\<open>AddParticipant\<close> is discarded, but the loop runs in a PostgreSQL transaction:
  after a failed statement the transaction is aborted and its commit fails. So a creation
  that succeeds added every participant it was given.
\<close>

section \<open>Definitions\<close>

record ConversationService =
  csv_db :: DBTX
  csv_repo :: DBTX
  csv_eventPublisher :: "DBTX option"

record CreateConversationInput =
  cci_Type :: string
  cci_Subject :: string
  cci_Description :: string
  cci_CreatorID :: uuid
  cci_ParticipantIDs :: "uuid list"

definition convNullString :: "string \<Rightarrow> string option" where
  "convNullString value = (if value = [] then None else Some value)"

definition new_participant :: "uuid \<Rightarrow> uuid \<Rightarrow> time \<Rightarrow> uuid \<Rightarrow> Participant" where
  "new_participant conv creator now u = \<lparr>part_ConversationID = conv, part_UserID = u,
     part_Role = (if u = creator then ''OWNER'' else ''MEMBER''), part_JoinedAt = now,
     part_AddedBy = None, part_MutedUntil = None, part_PinnedAt = None, part_Archived = False,
     part_LastReadSequence = 0, part_Permissions = None\<rparr>"

definition addNewParticipant :: "DBTX \<Rightarrow> uuid \<Rightarrow> uuid \<Rightarrow> uuid \<Rightarrow> unit go" where
  "addNewParticipant repo conv creator u = do {
     now \<leftarrow> time_Now;
     convRepo_AddParticipant repo (new_participant conv creator now u)
   }"

definition createDirect :: "DBTX \<Rightarrow> CreateConversationInput \<Rightarrow> Conversation go" where
  "createDirect repo input = do {
     i \<leftarrow> uuid_New;
     created \<leftarrow> time_Now;
     updated \<leftarrow> time_Now;
     let conv = \<lparr>conv_ID = i, conv_Type = cci_Type input,
       conv_Subject = convNullString (cci_Subject input),
       conv_Description = convNullString (cci_Description input), conv_AvatarURL = None,
       conv_ExpirySeconds = None, conv_DisappearingMode = ''OFF'',
       conv_MessageExpirySeconds = None, conv_GroupPermissions = None, conv_InviteLink = None,
       conv_InviteLinkRevokedAt = None, conv_CreatedBy = Some (cci_CreatorID input),
       conv_CreatedAt = created, conv_UpdatedAt = updated, conv_Participants = []\<rparr>;
     andThen (convRepo_Create repo conv) (\<lambda>_. do {
       forEachIgnore (cci_ParticipantIDs input) (addNewParticipant repo i (cci_CreatorID input));
       ok conv
     })
   }"

definition executeCreate :: "ConversationService \<Rightarrow> CreateConversationInput \<Rightarrow> Conversation go" where
  "executeCreate s input =
     (if csv_db s = NilDB then createDirect (csv_repo s) input
      else WithTx (csv_db s) (\<lambda>tx. createDirect tx input))"

definition convSvc_Create :: "ConversationService \<Rightarrow> CreateConversationInput \<Rightarrow> Conversation go" where
  "convSvc_Create s input =
     (if cci_CreatorID input = uuid_Nil then fail ErrInvalidInput
      else if cci_Type input \<noteq> ''DM'' \<and> cci_Type input \<noteq> ''GROUP'' then fail ErrInvalidInput
      else if cci_Type input = ''GROUP'' \<and> cci_Subject input = [] then fail ErrInvalidInput
      else if cci_ParticipantIDs input = [] then fail ErrInvalidInput
      else executeCreate s input)"

definition convSvc_GetUserConversations ::
  "ConversationService \<Rightarrow> uuid \<Rightarrow> int \<Rightarrow> int \<Rightarrow> (Conversation list \<times> int) go" where
  "convSvc_GetUserConversations s u page limit =
     convRepo_GetUserConversations (csv_repo s) u page (if limit \<le> 0 then 50 else limit)"

definition convSvc_Update :: "ConversationService \<Rightarrow> Conversation \<Rightarrow> unit go" where
  "convSvc_Update s conv = do {
     now \<leftarrow> time_Now;
     convRepo_Update (csv_repo s) (conv\<lparr>conv_UpdatedAt := now\<rparr>)
   }"

definition convSvc_StartTyping :: "ConversationService \<Rightarrow> uuid \<Rightarrow> uuid \<Rightarrow> string \<Rightarrow> unit go" where
  "convSvc_StartTyping s conv u displayName =
     (case csv_eventPublisher s of
        None \<Rightarrow> ok ()
      | Some p \<Rightarrow>
          if csv_db s = NilDB then ok ()
          else WithTx (csv_db s) (\<lambda>tx. PublishTypingStarted p tx conv u displayName))"

definition convSvc_StopTyping :: "ConversationService \<Rightarrow> uuid \<Rightarrow> uuid \<Rightarrow> string \<Rightarrow> unit go" where
  "convSvc_StopTyping s conv u displayName =
     (case csv_eventPublisher s of
        None \<Rightarrow> ok ()
      | Some p \<Rightarrow>
          if csv_db s = NilDB then ok ()
          else WithTx (csv_db s) (\<lambda>tx. PublishTypingStopped p tx conv u displayName))"

section \<open>Creating a conversation\<close>

lemma keeps_addNewParticipant [keeps_intros]:
  "keeps tx_dead (addNewParticipant Tx c cr u)"
  "keeps (committed d) (addNewParticipant Tx c cr u)"
  unfolding addNewParticipant_def convRepo_AddParticipant_def by (intro keeps_intros)+

lemma keeps_createDirect_committed [keeps_intros]: "keeps (committed d) (createDirect Tx input)"
  unfolding createDirect_def convRepo_Create_def Let_def by (intro keeps_intros)

lemma addNewParticipant_alive:
  assumes run: "run_state (addNewParticipant Tx c cr u) w = (r, w')" and t': "visible Tx w' = Some t'"
  shows "\<exists>t now. visible Tx w = Some t \<and> t' = t\<lparr>t_participants := t_participants t @ [new_participant c cr now u]\<rparr> \<and>
    has_user t u \<and> (\<forall>p\<in>set (t_participants t). \<not> is_participant c u p)"
proof -
  let ?p = "new_participant c cr (w_now w (w_step w)) u"
  have p: "part_ConversationID ?p = c" "part_UserID ?p = u" by (simp_all add: new_participant_def)
  from run obtain q where stmt: "run_state (sql Tx (checked InvalidText
       (\<lambda>_. typed [(part_Role ?p, participant_role_enum)] \<and> opt_jsonb (w_jsonb w) (part_Permissions ?p))
       (insert_into t_participants t_participants_update participant_clash
         (\<lambda>t. has_conversation t (part_ConversationID ?p) \<and> has_user t (part_UserID ?p) \<and>
           opt_ref (has_user t) (part_AddedBy ?p)) ?p))) (tick w) = (q, w')"
    by (fastforce simp: addNewParticipant_def convRepo_AddParticipant_def tick_def
        split: prod.splits sum.splits)
  show ?thesis
  proof (cases q)
    case (Inl e)
    with stmt t' sql_Tx_Inl_dead show ?thesis by fastforce
  next
    case (Inr x)
    with stmt t' show ?thesis
      by (auto simp: sql_Inr checked_Inr insert_into_Inr p participant_clash_def is_participant_def
          has_user_def)
  qed
qed

lemma addParticipants_alive:
  assumes "run_state (forEachIgnore us (addNewParticipant Tx c cr)) w = (r, w')"
    and "visible Tx w' = Some t'"
  shows "\<exists>t ps. visible Tx w = Some t \<and> t' = t\<lparr>t_participants := t_participants t @ ps\<rparr> \<and>
    list_all2 (\<lambda>u p. \<exists>now. p = new_participant c cr now u) us ps \<and>
    distinct us \<and> (\<forall>u\<in>set us. has_user t u \<and> (\<forall>p\<in>set (t_participants t). \<not> is_participant c u p))"
  using assms
proof (induction us arbitrary: w)
  case Nil
  then show ?case by (auto intro!: exI [of _ "[]"])
next
  case (Cons u us)
  obtain r1 w1 where one: "run_state (addNewParticipant Tx c cr u) w = (r1, w1)" by fastforce
  with Cons.prems(1) have rest: "run_state (forEachIgnore us (addNewParticipant Tx c cr)) w1 = (r, w')"
    by simp
  from Cons.IH [OF rest Cons.prems(2)] obtain t1 ps where
    t1: "visible Tx w1 = Some t1" "t' = t1\<lparr>t_participants := t_participants t1 @ ps\<rparr>"
    and ps: "list_all2 (\<lambda>u p. \<exists>now. p = new_participant c cr now u) us ps" "distinct us"
    and us: "\<forall>u\<in>set us. has_user t1 u \<and> (\<forall>p\<in>set (t_participants t1). \<not> is_participant c u p)"
    by blast
  from addNewParticipant_alive [OF one t1(1)] obtain t now where
    t: "visible Tx w = Some t" "t1 = t\<lparr>t_participants := t_participants t @ [new_participant c cr now u]\<rparr>"
    and u: "has_user t u" "\<forall>p\<in>set (t_participants t). \<not> is_participant c u p" by blast
  have "u \<notin> set us"
    using us t(2) by (auto simp: is_participant_def new_participant_def)
  with t t1(2) ps us u show ?case
    by (intro exI [of _ t] exI [of _ "new_participant c cr now u # ps"])
       (auto simp: has_user_def)
qed

lemma creation_core:
  assumes s: "csv_db s = Pool"
    and run: "run_state (convSvc_Create s input) w = (Inr conv, w')"
  shows "\<exists>ps. w_db w' = (w_db w)\<lparr>t_conversations := t_conversations (w_db w) @ [conv],
        t_participants := t_participants (w_db w) @ ps\<rparr> \<and>
    distinct (cci_ParticipantIDs input) \<and>
    list_all2 (\<lambda>u p. \<exists>now. p = new_participant (conv_ID conv) (cci_CreatorID input) now u)
      (cci_ParticipantIDs input) ps \<and>
    (\<forall>u\<in>set (cci_ParticipantIDs input). has_user (w_db w) u) \<and>
    (\<forall>c\<in>set (t_conversations (w_db w)). conv_ID c \<noteq> conv_ID conv)"
proof -
  from run s have "run_state (WithTx Pool (\<lambda>tx. createDirect tx input)) w = (Inr conv, w')"
    by (auto simp: convSvc_Create_def executeCreate_def split: if_splits)
  then obtain w1 w2 where w1: "visible Tx w1 = Some (w_db w)"
    and cd: "run_state (createDirect Tx input) w1 = (Inr conv, w2)"
    and w2: "visible Tx w2 = Some (w_db w')"
    by (rule WithTx_Inr)
  from cd obtain w3 n where
    create: "run_state (convRepo_Create Tx conv) (w1\<lparr>w_step := n\<rparr>) = (Inr (), w3)"
    and loop: "run_state (forEachIgnore (cci_ParticipantIDs input)
      (addNewParticipant Tx (conv_ID conv) (cci_CreatorID input))) w3 = ((), w2)"
    and conv: "conv_Participants conv = []"
    by (auto simp: createDirect_def Let_def split: prod.splits sum.splits)
  from create w1 have w3: "visible Tx w3 = Some ((w_db w)\<lparr>t_conversations := t_conversations (w_db w) @ [conv]\<rparr>)"
    and fresh: "\<forall>c\<in>set (t_conversations (w_db w)). conv_ID c \<noteq> conv_ID conv"
    using conv
    by (auto simp: convRepo_Create_def mapErr_Inr sql_Inr checked_Inr insert_into_Inr
        conversation_row_def conversation_clash_def visible_def simp del: run_mapErr
        split: option.splits if_splits)
  from addParticipants_alive [OF loop w2] w3 fresh show ?thesis
    by (auto simp: has_user_def)
qed

text \<open>
  C25. Creating a conversation is all or nothing and adds everybody. If it succeeds, the given
  participants are pairwise different existing users, the new conversation has a fresh
  identifier, and exactly one participant row was added per given user, with role OWNER for
  the creator and MEMBER for the others; nothing else changed. (A creator who is not among
  the given participants is no participant.)
\<close>

theorem Create_adds_everybody:
  assumes s: "csv_db s = Pool"
    and run: "run_state (convSvc_Create s input) w = (Inr conv, w')"
  shows "\<exists>ps. w_db w' = (w_db w)\<lparr>t_conversations := t_conversations (w_db w) @ [conv],
        t_participants := t_participants (w_db w) @ ps\<rparr> \<and>
    distinct (cci_ParticipantIDs input) \<and>
    list_all2 (\<lambda>u p. \<exists>now. p = new_participant (conv_ID conv) (cci_CreatorID input) now u)
      (cci_ParticipantIDs input) ps \<and>
    (\<forall>u\<in>set (cci_ParticipantIDs input). has_user (w_db w) u) \<and>
    (\<forall>c\<in>set (t_conversations (w_db w)). conv_ID c \<noteq> conv_ID conv)"
  using creation_core [OF assms] .

definition sample_conv_service :: ConversationService where
  "sample_conv_service = \<lparr>csv_db = Pool, csv_repo = Pool, csv_eventPublisher = Some Pool\<rparr>"

definition sample_conv_input :: CreateConversationInput where
  "sample_conv_input = \<lparr>cci_Type = ''DM'', cci_Subject = [], cci_Description = [],
     cci_CreatorID = 1, cci_ParticipantIDs = [1, 2]\<rparr>"

lemmas create_exec = exec_simps convSvc_Create_def executeCreate_def createDirect_def
  convRepo_Create_def convRepo_AddParticipant_def addNewParticipant_def new_participant_def
  convNullString_def conversation_typed_def conversation_type_enum_def disappearing_mode_enum_def
  participant_role_enum_def conversation_row_def sample_conv_service_def sample_conv_input_def

lemma Create_adds_everybody_witness:
  "\<exists>conv w' ps. run_state (convSvc_Create sample_conv_service sample_conv_input) sample_world
      = (Inr conv, w') \<and>
    t_participants (w_db w') = t_participants sample_tables @ ps \<and>
    map part_Role ps = [''OWNER'', ''MEMBER'']"
proof -
  obtain conv w' where run: "run_state (convSvc_Create sample_conv_service sample_conv_input) sample_world
      = (Inr conv, w')"
    by (simp add: create_exec sample_defs)
  with Create_adds_everybody [OF _ run] show ?thesis
    by (fastforce simp: sample_conv_service_def sample_conv_input_def sample_world_def
        new_participant_def list_all2_Cons1)
qed

text \<open>
  The discarded error is not harmless: with a participant who is named twice or does not
  exist, no conversation is created at all, and the caller gets an error.
\<close>

theorem Create_needs_every_participant:
  assumes "csv_db s = Pool"
    and "\<not> distinct (cci_ParticipantIDs input) \<or>
         (\<exists>u\<in>set (cci_ParticipantIDs input). \<not> has_user (w_db w) u)"
  shows "\<exists>e w'. run_state (convSvc_Create s input) w = (Inl e, w') \<and> w_db w' = w_db w"
proof -
  obtain r w' where run: "run_state (convSvc_Create s input) w = (r, w')" by fastforce
  show ?thesis
  proof (cases r)
    case (Inr conv)
    with run have "run_state (convSvc_Create s input) w = (Inr conv, w')" by simp
    from creation_core [OF assms(1) this] assms(2) show ?thesis by blast
  next
    case (Inl e)
    with run have e: "run_state (convSvc_Create s input) w = (Inl e, w')" by simp
    have "w_db w' = w_db w"
    proof (cases "run_state (convSvc_Create s input) w = run_state (fail ErrInvalidInput) w")
      case True
      with e show ?thesis by simp
    next
      case False
      with e assms(1) have "run_state (WithTx Pool (\<lambda>tx. createDirect tx input)) w = (Inl e, w')"
        by (auto simp: convSvc_Create_def executeCreate_def split: if_splits)
      then show ?thesis
        by (rule WithTx_error_keeps_db [rotated]) (intro keeps_intros)
    qed
    with e show ?thesis by blast
  qed
qed

lemma Create_needs_every_participant_witness:
  "\<exists>e w'. run_state (convSvc_Create sample_conv_service (sample_conv_input\<lparr>cci_ParticipantIDs := [1, 9]\<rparr>))
      sample_world = (Inl e, w') \<and> w_db w' = w_db sample_world"
  by (rule Create_needs_every_participant)
     (auto simp: sample_conv_service_def sample_conv_input_def has_user_def sample_defs)

section \<open>The operations that pass everything on to the repository\<close>

definition convSvc_GetByID ::
  "ConversationService \<Rightarrow> uuid \<Rightarrow> Conversation go" where
  "convSvc_GetByID s i = convRepo_GetByID (csv_repo s) i"

definition convSvc_Delete :: "ConversationService \<Rightarrow> uuid \<Rightarrow> unit go" where
  "convSvc_Delete s i = convRepo_Delete (csv_repo s) i"

definition convSvc_GetDirectConversation ::
  "ConversationService \<Rightarrow> uuid \<Rightarrow> uuid \<Rightarrow> Conversation go" where
  "convSvc_GetDirectConversation s u1 u2 = convRepo_GetDirectConversation (csv_repo s) u1 u2"

definition convSvc_SearchConversations ::
  "ConversationService \<Rightarrow> uuid \<Rightarrow> string \<Rightarrow> Conversation list go" where
  "convSvc_SearchConversations s u q = convRepo_SearchConversations (csv_repo s) u q"

definition convSvc_GetConversationsByType ::
  "ConversationService \<Rightarrow> uuid \<Rightarrow> string \<Rightarrow> Conversation list go" where
  "convSvc_GetConversationsByType s u ty = convRepo_GetConversationsByType (csv_repo s) u ty"

definition convSvc_GetByInviteLink ::
  "ConversationService \<Rightarrow> string \<Rightarrow> Conversation go" where
  "convSvc_GetByInviteLink s link = convRepo_GetByInviteLink (csv_repo s) link"

definition convSvc_RegenerateInviteLink ::
  "ConversationService \<Rightarrow> uuid \<Rightarrow> string go" where
  "convSvc_RegenerateInviteLink s i = convRepo_RegenerateInviteLink (csv_repo s) i"

definition convSvc_AddParticipant ::
  "ConversationService \<Rightarrow> Participant \<Rightarrow> unit go" where
  "convSvc_AddParticipant s p = convRepo_AddParticipant (csv_repo s) p"

definition convSvc_RemoveParticipant ::
  "ConversationService \<Rightarrow> uuid \<Rightarrow> uuid \<Rightarrow> unit go" where
  "convSvc_RemoveParticipant s c u = convRepo_RemoveParticipant (csv_repo s) c u"

definition convSvc_GetParticipants ::
  "ConversationService \<Rightarrow> uuid \<Rightarrow> Participant list go" where
  "convSvc_GetParticipants s c = convRepo_GetParticipants (csv_repo s) c"

definition convSvc_GetParticipant ::
  "ConversationService \<Rightarrow> uuid \<Rightarrow> uuid \<Rightarrow> Participant go" where
  "convSvc_GetParticipant s c u = convRepo_GetParticipant (csv_repo s) c u"

definition convSvc_UpdateParticipantRole ::
  "ConversationService \<Rightarrow> uuid \<Rightarrow> uuid \<Rightarrow> string \<Rightarrow> unit go" where
  "convSvc_UpdateParticipantRole s c u role = convRepo_UpdateParticipantRole (csv_repo s) c u role"

definition convSvc_IsParticipant ::
  "ConversationService \<Rightarrow> uuid \<Rightarrow> uuid \<Rightarrow> bool go" where
  "convSvc_IsParticipant s c u = convRepo_IsParticipant (csv_repo s) c u"

definition convSvc_GetParticipantCount ::
  "ConversationService \<Rightarrow> uuid \<Rightarrow> int go" where
  "convSvc_GetParticipantCount s c = convRepo_GetParticipantCount (csv_repo s) c"

definition convSvc_MuteConversation ::
  "ConversationService \<Rightarrow> uuid \<Rightarrow> uuid \<Rightarrow> time \<Rightarrow> unit go" where
  "convSvc_MuteConversation s c u until = convRepo_MuteConversation (csv_repo s) c u until"

definition convSvc_UnmuteConversation ::
  "ConversationService \<Rightarrow> uuid \<Rightarrow> uuid \<Rightarrow> unit go" where
  "convSvc_UnmuteConversation s c u = convRepo_UnmuteConversation (csv_repo s) c u"

definition convSvc_PinConversation ::
  "ConversationService \<Rightarrow> uuid \<Rightarrow> uuid \<Rightarrow> unit go" where
  "convSvc_PinConversation s c u = convRepo_PinConversation (csv_repo s) c u"

definition convSvc_UnpinConversation ::
  "ConversationService \<Rightarrow> uuid \<Rightarrow> uuid \<Rightarrow> unit go" where
  "convSvc_UnpinConversation s c u = convRepo_UnpinConversation (csv_repo s) c u"

definition convSvc_ArchiveConversation ::
  "ConversationService \<Rightarrow> uuid \<Rightarrow> uuid \<Rightarrow> unit go" where
  "convSvc_ArchiveConversation s c u = convRepo_ArchiveConversation (csv_repo s) c u"

definition convSvc_UnarchiveConversation ::
  "ConversationService \<Rightarrow> uuid \<Rightarrow> uuid \<Rightarrow> unit go" where
  "convSvc_UnarchiveConversation s c u = convRepo_UnarchiveConversation (csv_repo s) c u"

definition convSvc_UpdateLastReadSequence ::
  "ConversationService \<Rightarrow> uuid \<Rightarrow> uuid \<Rightarrow> int \<Rightarrow> unit go" where
  "convSvc_UpdateLastReadSequence s c u seq = convRepo_UpdateLastReadSequence (csv_repo s) c u seq"

definition convSvc_GetConversationSequence ::
  "ConversationService \<Rightarrow> uuid \<Rightarrow> ConversationSequence go" where
  "convSvc_GetConversationSequence s c = convRepo_GetConversationSequence (csv_repo s) c"

definition convSvc_IncrementSequence ::
  "ConversationService \<Rightarrow> uuid \<Rightarrow> int go" where
  "convSvc_IncrementSequence s c = convRepo_IncrementSequence (csv_repo s) c"

end
