(* ===== verification/Encryption.thy ===== *)
theory Encryption
  imports Samples
begin

text \<open>
  \<^verbatim>\<open>internal/repository/encryption_repository.go\<close> and \<^verbatim>\<open>internal/services/encryption_service.go\<close>:
  identity keys, signed pre-keys and one-time pre-keys, and the key bundle a device fetches to
  start a session. The service's other methods call the repository's method of the same name.

  The last section takes the two statements of \<^verbatim>\<open>ConsumeOneTimePreKey\<close> apart: at PostgreSQL's
  default isolation level two transactions can interleave between them.
\<close>

section \<open>Repository\<close>

definition owns_device :: "uuid \<Rightarrow> uuid \<Rightarrow> Device \<Rightarrow> bool" where
  "owns_device u d r \<longleftrightarrow> dev_ID r = d \<and> dev_UserID r = u \<and> dev_IsActive r"

definition encRepo_IsDeviceOwnedByUser :: "DBTX \<Rightarrow> uuid \<Rightarrow> uuid \<Rightarrow> bool go" where
  "encRepo_IsDeviceOwnedByUser db u d =
     andThen (queryRow db (\<lambda>t. [count_where (owns_device u d) (t_devices t)]))
       (\<lambda>count. ok (count > 0))"

definition encRepo_CreateIdentityKey :: "DBTX \<Rightarrow> IdentityKey \<Rightarrow> unit go" where
  "encRepo_CreateIdentityKey db k =
     WithTx db (\<lambda>tx. do {
       _ \<leftarrow> sql tx (on_table t_identity_keys t_identity_keys_update (delete_where
         (\<lambda>r. ik_UserID r = ik_UserID k \<and> ik_DeviceID r = ik_DeviceID k)));
       sql tx (insert_into t_identity_keys t_identity_keys_update identity_key_clash
         (\<lambda>t. has_user t (ik_UserID k) \<and> has_device t (ik_DeviceID k)) k)
     })"

definition active_identity :: "uuid \<Rightarrow> uuid \<Rightarrow> IdentityKey \<Rightarrow> bool" where
  "active_identity u d k \<longleftrightarrow> ik_UserID k = u \<and> ik_DeviceID k = d \<and> ik_IsActive k"

definition encRepo_GetIdentityKey :: "DBTX \<Rightarrow> uuid \<Rightarrow> uuid \<Rightarrow> IdentityKey go" where
  "encRepo_GetIdentityKey db u d =
     mapErr notFound (queryRow db (\<lambda>t. filter (active_identity u d) (t_identity_keys t)))"

definition encRepo_GetUserIdentityKeys :: "DBTX \<Rightarrow> uuid \<Rightarrow> IdentityKey list go" where
  "encRepo_GetUserIdentityKeys db u =
     sql db (query (\<lambda>t. filter (\<lambda>k. ik_UserID k = u \<and> ik_IsActive k) (t_identity_keys t)))"

definition encRepo_DeactivateIdentityKey :: "DBTX \<Rightarrow> uuid \<Rightarrow> unit go" where
  "encRepo_DeactivateIdentityKey db i =
     affected (sql db (on_table t_identity_keys t_identity_keys_update
       (update_where (\<lambda>k. ik_ID k = i) (\<lambda>k. k\<lparr>ik_IsActive := False\<rparr>))))"

definition encRepo_DeleteIdentityKey :: "DBTX \<Rightarrow> uuid \<Rightarrow> unit go" where
  "encRepo_DeleteIdentityKey db i =
     affected (sql db (on_table t_identity_keys t_identity_keys_update
       (delete_where (\<lambda>k. ik_ID k = i))))"

definition insert_signed_prekey :: "SignedPreKey \<Rightarrow> unit stmt" where
  "insert_signed_prekey k =
     insert_into t_signed_prekeys t_signed_prekeys_update signed_prekey_clash
       (\<lambda>t. has_user t (sk_UserID k) \<and> has_device t (sk_DeviceID k)) k"

definition encRepo_CreateSignedPreKey :: "DBTX \<Rightarrow> SignedPreKey \<Rightarrow> unit go" where
  "encRepo_CreateSignedPreKey db k = mapErr alreadyExists (sql db (insert_signed_prekey k))"

definition encRepo_GetSignedPreKey :: "DBTX \<Rightarrow> uuid \<Rightarrow> uuid \<Rightarrow> int \<Rightarrow> SignedPreKey go" where
  "encRepo_GetSignedPreKey db u d keyID =
     mapErr notFound (queryRow db (\<lambda>t. filter (\<lambda>k. sk_UserID k = u \<and> sk_DeviceID k = d \<and>
       sk_KeyID k = keyID) (t_signed_prekeys t)))"

definition active_signed :: "uuid \<Rightarrow> uuid \<Rightarrow> SignedPreKey \<Rightarrow> bool" where
  "active_signed u d k \<longleftrightarrow> sk_UserID k = u \<and> sk_DeviceID k = d \<and> sk_IsActive k"

definition encRepo_GetActiveSignedPreKey :: "DBTX \<Rightarrow> uuid \<Rightarrow> uuid \<Rightarrow> SignedPreKey go" where
  "encRepo_GetActiveSignedPreKey db u d =
     mapErr notFound (queryRow db (\<lambda>t. order_desc (\<lambda>k. Some (sk_CreatedAt k))
       (filter (active_signed u d) (t_signed_prekeys t))))"

definition encRepo_RotateSignedPreKey :: "DBTX \<Rightarrow> uuid \<Rightarrow> uuid \<Rightarrow> SignedPreKey \<Rightarrow> unit go" where
  "encRepo_RotateSignedPreKey db u d newKey =
     WithTx db (\<lambda>tx.
       andThen (sql tx (on_table t_signed_prekeys t_signed_prekeys_update
         (update_where (active_signed u d) (\<lambda>k. k\<lparr>sk_IsActive := False\<rparr>)))) (\<lambda>_.
       sql tx (insert_signed_prekey newKey)))"

definition encRepo_DeactivateSignedPreKey :: "DBTX \<Rightarrow> uuid \<Rightarrow> unit go" where
  "encRepo_DeactivateSignedPreKey db i =
     affected (sql db (on_table t_signed_prekeys t_signed_prekeys_update
       (update_where (\<lambda>k. sk_ID k = i) (\<lambda>k. k\<lparr>sk_IsActive := False\<rparr>))))"

definition insert_onetime_prekey :: "OneTimePreKey \<Rightarrow> unit stmt" where
  "insert_onetime_prekey k =
     insert_into t_onetime_prekeys t_onetime_prekeys_update onetime_prekey_clash
       (\<lambda>t. has_user t (otk_UserID k) \<and> has_device t (otk_DeviceID k) \<and>
         opt_ref (has_user t) (otk_ConsumedBy k) \<and>
         opt_ref (has_device t) (otk_ConsumedByDeviceID k)) k"

definition encRepo_UploadOneTimePreKeys :: "DBTX \<Rightarrow> OneTimePreKey list \<Rightarrow> unit go" where
  "encRepo_UploadOneTimePreKeys db ks =
     (if ks = [] then ok ()
      else WithTx db (\<lambda>tx. forEach ks (\<lambda>k. sql tx (insert_onetime_prekey k))))"

definition available :: "uuid \<Rightarrow> uuid \<Rightarrow> OneTimePreKey \<Rightarrow> bool" where
  "available u d k \<longleftrightarrow> otk_UserID k = u \<and> otk_DeviceID k = d \<and> otk_ConsumedAt k = None"

definition select_prekey :: "uuid \<Rightarrow> uuid \<Rightarrow> tables \<Rightarrow> OneTimePreKey list" where
  "select_prekey u d t =
     order_asc (\<lambda>k. Some (otk_UploadedAt k)) (filter (available u d) (t_onetime_prekeys t))"

definition mark_consumed :: "time \<Rightarrow> uuid \<Rightarrow> uuid \<Rightarrow> uuid \<Rightarrow> int stmt" where
  "mark_consumed now consumer device i =
     update_into t_onetime_prekeys t_onetime_prekeys_update onetime_prekey_clash
       (\<lambda>t. has_user t consumer \<and> has_device t device)
       (\<lambda>k. otk_ID k = i)
       (\<lambda>k. k\<lparr>otk_ConsumedAt := Some now, otk_ConsumedBy := Some consumer,
            otk_ConsumedByDeviceID := Some device\<rparr>)"

definition encRepo_ConsumeOneTimePreKey ::
  "DBTX \<Rightarrow> uuid \<Rightarrow> uuid \<Rightarrow> uuid \<Rightarrow> uuid \<Rightarrow> OneTimePreKey go" where
  "encRepo_ConsumeOneTimePreKey db u d consumer consumerDevice =
     WithTx db (\<lambda>tx.
       andThen (mapErr notFound (queryRow tx (select_prekey u d))) (\<lambda>key. do {
         now \<leftarrow> time_Now;
         andThen (sql tx (mark_consumed now consumer consumerDevice (otk_ID key))) (\<lambda>_. ok key)
       }))"

definition encRepo_GetAvailablePreKeyCount :: "DBTX \<Rightarrow> uuid \<Rightarrow> uuid \<Rightarrow> int go" where
  "encRepo_GetAvailablePreKeyCount db u d =
     queryRow db (\<lambda>t. [count_where (available u d) (t_onetime_prekeys t)])"

definition encRepo_DeleteConsumedPreKeys :: "DBTX \<Rightarrow> time \<Rightarrow> int go" where
  "encRepo_DeleteConsumedPreKeys db olderThan =
     sql db (on_table t_onetime_prekeys t_onetime_prekeys_update (delete_where
       (\<lambda>k. case otk_ConsumedAt k of None \<Rightarrow> False | Some c \<Rightarrow> c < olderThan)))"

definition encRepo_HasActiveKeys :: "DBTX \<Rightarrow> uuid \<Rightarrow> uuid \<Rightarrow> bool go" where
  "encRepo_HasActiveKeys db u d =
     andThen (queryRow db (\<lambda>t. [count_where (active_identity u d) (t_identity_keys t)]))
       (\<lambda>count. ok (count > 0))"

section \<open>Key bundles\<close>

record KeyBundle =
  kb_UserID :: uuid
  kb_DeviceID :: uuid
  kb_IdentityKey :: bytes
  kb_SignedPreKeyID :: int
  kb_SignedPreKey :: bytes
  kb_SignedPreKeySignature :: bytes
  kb_OneTimePreKeyID :: "int option"
  kb_OneTimePreKey :: bytes

definition encSvc_GetKeyBundle :: "DBTX \<Rightarrow> uuid \<Rightarrow> uuid \<Rightarrow> uuid \<Rightarrow> uuid \<Rightarrow> KeyBundle go" where
  "encSvc_GetKeyBundle repo u d consumer consumerDevice =
     andThen (encRepo_IsDeviceOwnedByUser repo consumer consumerDevice) (\<lambda>owned.
       if \<not> owned then fail ErrForbidden
       else if u = consumer then fail ErrInvalidInput
       else
         andThen (encRepo_GetIdentityKey repo u d) (\<lambda>identity.
         andThen (encRepo_GetActiveSignedPreKey repo u d) (\<lambda>signed. do {
           let bundle = \<lparr>kb_UserID = u, kb_DeviceID = d, kb_IdentityKey = ik_PublicKey identity,
             kb_SignedPreKeyID = sk_KeyID signed, kb_SignedPreKey = sk_PublicKey signed,
             kb_SignedPreKeySignature = sk_Signature signed, kb_OneTimePreKeyID = None,
             kb_OneTimePreKey = []\<rparr>;
           r \<leftarrow> encRepo_ConsumeOneTimePreKey repo u d consumer consumerDevice;
           (case r of
              Inr prekey \<Rightarrow> ok (bundle\<lparr>kb_OneTimePreKeyID := Some (otk_KeyID prekey),
                kb_OneTimePreKey := otk_PublicKey prekey\<rparr>)
            | Inl prekeyErr \<Rightarrow> if prekeyErr = ErrNotFound then ok bundle else fail prekeyErr)
         })))"

section \<open>Consuming a key\<close>

lemma order_asc_head:
  assumes "order_asc (\<lambda>r. Some (k r)) rs = x # xs"
  shows "x \<in> set rs" and "\<And>y. y \<in> set rs \<Longrightarrow> k x \<le> k y"
proof -
  have eq: "sort_key k rs = x # xs"
    using assms by (simp add: order_asc_def)
  then have "set (x # xs) = set rs" by (metis set_sort)
  then show "x \<in> set rs" by auto
  have "sorted (map k (x # xs))"
    using eq by (metis sorted_sort_key)
  with \<open>set (x # xs) = set rs\<close> show "\<And>y. y \<in> set rs \<Longrightarrow> k x \<le> k y"
    by (metis (no_types, lifting) list.set_intros(1) list.simps(9) order_refl set_ConsD
        sorted_simps(2) image_eqI list.set_map)
qed

definition consumed_by :: "time \<Rightarrow> uuid \<Rightarrow> uuid \<Rightarrow> OneTimePreKey \<Rightarrow> OneTimePreKey" where
  "consumed_by now c cd k = k\<lparr>otk_ConsumedAt := Some now, otk_ConsumedBy := Some c,
     otk_ConsumedByDeviceID := Some cd\<rparr>"

lemma Consume_Inr:
  assumes "run_state (encRepo_ConsumeOneTimePreKey Pool u d c cd) w = (Inr k, w')"
  shows "k \<in> set (t_onetime_prekeys (w_db w)) \<and> available u d k \<and>
    (\<forall>x\<in>set (t_onetime_prekeys (w_db w)). available u d x \<longrightarrow> otk_UploadedAt k \<le> otk_UploadedAt x) \<and>
    (\<exists>now. w_db w' = (w_db w)\<lparr>t_onetime_prekeys :=
       map_where (\<lambda>x. otk_ID x = otk_ID k) (consumed_by now c cd) (t_onetime_prekeys (w_db w))\<rparr>)"
proof -
  from assms obtain w1 w2 w3 now where w1: "visible Tx w1 = Some (w_db w)"
    and sel: "run_state (queryRow Tx (select_prekey u d)) w1 = (Inr k, w2)"
    and upd: "\<exists>n. run_state (sql Tx (mark_consumed now c cd (otk_ID k))) (tick w2) = (Inr n, w3)"
    and w3: "visible Tx w3 = Some (w_db w')"
    unfolding encRepo_ConsumeOneTimePreKey_def
    by (rule WithTx_Inr) (fastforce simp: tick_def split: prod.splits sum.splits)
  from sel w1 obtain ks where ks: "select_prekey u d (w_db w) = k # ks" and w2: "w2 = tick w1"
    by (auto simp: queryRow_Inr)
  note head = order_asc_head [OF ks [unfolded select_prekey_def]]
  from upd w1 w2 w3 have "w_db w' = (w_db w)\<lparr>t_onetime_prekeys :=
       map_where (\<lambda>x. otk_ID x = otk_ID k) (consumed_by now c cd) (t_onetime_prekeys (w_db w))\<rparr>"
    by (auto simp: sql_Inr mark_consumed_def update_into_Inr consumed_by_def [abs_def])
  with head show ?thesis by auto
qed

lemma consumed_not_available [simp]: "\<not> available u d (consumed_by now c cd k)"
  by (simp add: available_def consumed_by_def)

lemma consumed_by_ID [simp]: "otk_ID (consumed_by now c cd k) = otk_ID k"
  by (simp add: consumed_by_def)

text \<open>
  Consuming hands out the oldest key: a one-time pre-key that is returned belonged to the
  requested device, was unconsumed, was uploaded no later than any other unconsumed key of
  that device, and is marked consumed by the requester in the same transaction; the row is
  the only one that changed.
\<close>

theorem Consume_oldest:
  assumes "run_state (encRepo_ConsumeOneTimePreKey Pool u d c cd) w = (Inr k, w')"
    and "clash_free onetime_prekey_clash (t_onetime_prekeys (w_db w))"
  shows "available u d k \<and>
    (\<forall>x\<in>set (t_onetime_prekeys (w_db w)). available u d x \<longrightarrow> otk_UploadedAt k \<le> otk_UploadedAt x) \<and>
    (\<exists>now. consumed_by now c cd k \<in> set (t_onetime_prekeys (w_db w'))) \<and>
    (\<forall>x. x \<noteq> k \<longrightarrow> x \<in> set (t_onetime_prekeys (w_db w)) \<longrightarrow> x \<in> set (t_onetime_prekeys (w_db w')))"
proof -
  note eff = Consume_Inr [OF assms(1)]
  then obtain now where db: "w_db w' = (w_db w)\<lparr>t_onetime_prekeys :=
       map_where (\<lambda>x. otk_ID x = otk_ID k) (consumed_by now c cd) (t_onetime_prekeys (w_db w))\<rparr>"
    by blast
  have "otk_ID x \<noteq> otk_ID k" if "x \<in> set (t_onetime_prekeys (w_db w))" "x \<noteq> k" for x
    using onetime_prekeys_key.clash_eq [OF assms(2) that(1)] eff that(2)
    by (auto simp: onetime_prekey_clash_def)
  with db have others: "\<forall>x. x \<noteq> k \<longrightarrow> x \<in> set (t_onetime_prekeys (w_db w)) \<longrightarrow>
      x \<in> set (t_onetime_prekeys (w_db w'))"
    by (auto simp: in_map_where intro: bexI)
  have "consumed_by now c cd k \<in> set (t_onetime_prekeys (w_db w'))"
    using eff db by (auto simp: in_map_where intro: bexI [of _ k])
  with others eff show ?thesis by blast
qed

definition sample_prekey :: "uuid \<Rightarrow> int \<Rightarrow> OneTimePreKey" where
  "sample_prekey i n = \<lparr>otk_ID = i, otk_UserID = 2, otk_DeviceID = 12, otk_KeyID = n,
     otk_PublicKey = [1], otk_UploadedAt = n, otk_ConsumedAt = None, otk_ConsumedBy = None,
     otk_ConsumedByDeviceID = None\<rparr>"

definition prekey_world :: world where
  "prekey_world = sample_world\<lparr>w_db := sample_tables
     \<lparr>t_onetime_prekeys := [sample_prekey 402 2, sample_prekey 401 1]\<rparr>\<rparr>"

lemmas prekey_exec = exec_simps encRepo_ConsumeOneTimePreKey_def select_prekey_def available_def
  order_asc_def mark_consumed_def prekey_world_def sample_prekey_def

lemma Consume_oldest_witness:
  "\<exists>k w'. run_state (encRepo_ConsumeOneTimePreKey Pool 2 12 1 11) prekey_world = (Inr k, w') \<and>
    otk_KeyID k = 1 \<and> (\<exists>now. consumed_by now 1 11 k \<in> set (t_onetime_prekeys (w_db w')))"
proof -
  have "\<exists>k w'. run_state (encRepo_ConsumeOneTimePreKey Pool 2 12 1 11) prekey_world = (Inr k, w') \<and>
      otk_KeyID k = 1"
    by (simp add: prekey_exec sample_defs)
  moreover have "clash_free onetime_prekey_clash (t_onetime_prekeys (w_db prekey_world))"
    by (simp add: prekey_exec sample_defs)
  ultimately show ?thesis
    using Consume_oldest [of 2 12 1 11 prekey_world] by blast
qed

text \<open>
  C27. One after the other, two consumptions never return the same key: a key that was handed
  out is not available in the resulting database, so a later call returns another one.
\<close>

theorem Consume_never_twice:
  assumes "run_state (encRepo_ConsumeOneTimePreKey Pool u d c cd) w = (Inr k, w1)"
    and "run_state (encRepo_ConsumeOneTimePreKey Pool u' d' c' cd') w2 = (Inr k', w3)"
    and "w_db w2 = w_db w1"
  shows "otk_ID k' \<noteq> otk_ID k"
proof -
  from Consume_Inr [OF assms(1)] obtain now where
    "w_db w1 = (w_db w)\<lparr>t_onetime_prekeys :=
       map_where (\<lambda>x. otk_ID x = otk_ID k) (consumed_by now c cd) (t_onetime_prekeys (w_db w))\<rparr>"
    by blast
  moreover from Consume_Inr [OF assms(2)] assms(3)
  have "k' \<in> set (t_onetime_prekeys (w_db w1))" "available u' d' k'" by simp_all
  ultimately obtain x where "available u' d' k'"
    "k' = (if otk_ID x = otk_ID k then consumed_by now c cd x else x)"
    by (auto simp: in_map_where)
  then show ?thesis by (metis consumed_not_available)
qed

lemma Consume_never_twice_witness:
  "\<exists>k w1 k' w3. run_state (encRepo_ConsumeOneTimePreKey Pool 2 12 1 11) prekey_world = (Inr k, w1) \<and>
    run_state (encRepo_ConsumeOneTimePreKey Pool 2 12 1 11) w1 = (Inr k', w3) \<and>
    otk_ID k' \<noteq> otk_ID k"
proof -
  have "\<exists>k w1 k' w3. run_state (encRepo_ConsumeOneTimePreKey Pool 2 12 1 11) prekey_world = (Inr k, w1) \<and>
    run_state (encRepo_ConsumeOneTimePreKey Pool 2 12 1 11) w1 = (Inr k', w3)"
    by (simp add: prekey_exec sample_defs)
  then show ?thesis using Consume_never_twice by metis
qed

section \<open>Key bundles: what a requester gets\<close>

text \<open>A missing row is only reported when there is none: the connection never makes it up.\<close>

definition honest_faults :: "world \<Rightarrow> bool" where
  "honest_faults w \<longleftrightarrow> (\<forall>n. w_fault w n \<noteq> Some NoRows)"

lemma queryRow_NoRows:
  assumes "run_state (queryRow db f) w = (Inl (SqlError NoRows), w')" and "honest_faults w"
  shows "\<exists>t. visible db w = Some t \<and> f t = []"
  using assms
  by (cases db)
     (auto simp: queryRow_def run_sql_Pool run_sql_Tx Let_def query_def visible_def honest_faults_def
        split: option.splits list.splits if_splits)

lemma notFound_ErrNotFound: "notFound e = ErrNotFound \<Longrightarrow> e = SqlError NoRows \<or> e = ErrNotFound"
  by (auto simp: notFound_def split: if_splits)

lemma queryRow_not_ErrNotFound: "run_state (queryRow db f) w \<noteq> (Inl ErrNotFound, w')"
  by (cases db)
     (auto simp: queryRow_def run_sql_Pool run_sql_Tx Let_def query_def
        split: option.splits list.splits if_splits)

lemma sql_not_ErrNotFound: "run_state (sql db f) w \<noteq> (Inl ErrNotFound, w')"
  by (cases db)
     (auto simp: run_sql_Pool run_sql_Tx Let_def split: option.splits sum.splits if_splits)

lemma Commit_not_ErrNotFound: "run_state Commit w \<noteq> (Inl ErrNotFound, w')"
  by (auto simp: Commit_def Let_def split: option.splits if_splits)

lemma WithTx_ErrNotFound:
  assumes "run_state (WithTx Pool fn) w = (Inl ErrNotFound, w')"
  shows "\<exists>w1 w2. visible Tx w1 = Some (w_db w) \<and> w_fault w1 = w_fault w \<and>
    run_state (fn Tx) w1 = (Inl ErrNotFound, w2)"
proof -
  let ?w1 = "w\<lparr>w_step := Suc (w_step w), w_tx := Some (w_db w, False)\<rparr>"
  have b: "run_state BeginTx w = (Inr (), ?w1)"
    using assms by (auto simp: WithTx_def BeginTx_def Let_def split: option.splits)
  obtain r w2 where f: "run_state (fn Tx) ?w1 = (r, w2)" by fastforce
  have "r = Inl ErrNotFound"
    using assms b f Commit_not_ErrNotFound
    by (auto simp: WithTx_def split: sum.splits error.splits prod.splits)
  with f show ?thesis by (intro exI [of _ ?w1] exI [of _ w2]) (simp add: visible_def)
qed

lemma Consume_NotFound:
  assumes "run_state (encRepo_ConsumeOneTimePreKey Pool u d c cd) w = (Inl ErrNotFound, w')"
    and "honest_faults w"
  shows "\<forall>k\<in>set (t_onetime_prekeys (w_db w)). \<not> available u d k"
proof -
  from WithTx_ErrNotFound [OF assms(1) [unfolded encRepo_ConsumeOneTimePreKey_def]]
  obtain w1 w2 where w1: "visible Tx w1 = Some (w_db w)" "w_fault w1 = w_fault w"
    and body: "run_state (andThen (mapErr notFound (queryRow Tx (select_prekey u d))) (\<lambda>key. do {
         now \<leftarrow> time_Now;
         andThen (sql Tx (mark_consumed now c cd (otk_ID key))) (\<lambda>_. ok key)
       })) w1 = (Inl ErrNotFound, w2)" by blast
  from body obtain e where "run_state (queryRow Tx (select_prekey u d)) w1 = (Inl e, w2)"
    "notFound e = ErrNotFound"
    using sql_not_ErrNotFound
    by (auto split: prod.splits sum.splits)
  moreover from this have "e = SqlError NoRows"
    using notFound_ErrNotFound queryRow_not_ErrNotFound by blast
  moreover have "honest_faults w1" using assms(2) w1(2) by (simp add: honest_faults_def)
  ultimately have "select_prekey u d (w_db w) = []"
    using queryRow_NoRows w1(1) by fastforce
  then have "set (select_prekey u d (w_db w)) = {}" by simp
  then show ?thesis by (auto simp: select_prekey_def)
qed

lemma keeps_enc_reads [keeps_intros]:
  "keeps (committed x) (encRepo_IsDeviceOwnedByUser db u d)"
  "keeps (committed x) (encRepo_GetIdentityKey db u d)"
  "keeps (committed x) (encRepo_GetActiveSignedPreKey db u d)"
  "keeps (same_params w0) (encRepo_IsDeviceOwnedByUser db u d)"
  "keeps (same_params w0) (encRepo_GetIdentityKey db u d)"
  "keeps (same_params w0) (encRepo_GetActiveSignedPreKey db u d)"
  unfolding encRepo_IsDeviceOwnedByUser_def encRepo_GetIdentityKey_def
    encRepo_GetActiveSignedPreKey_def
  by (auto intro!: keeps_intros)

lemma enc_read_frame:
  assumes "run_state m w = (r, w')" "keeps (committed (w_db w)) m" "keeps (same_params w) m"
  shows "w_db w' = w_db w" "w_fault w' = w_fault w"
  using keepsD [OF assms(2) _ assms(1)] keepsD [OF assms(3) _ assms(1)]
  by (simp_all add: committed_def same_params_def)

lemma encRepo_reads_Inr:
  "run_state (encRepo_IsDeviceOwnedByUser Pool u d) w = (Inr b, w') \<Longrightarrow>
     b = (\<exists>r\<in>set (t_devices (w_db w)). owns_device u d r)"
  "run_state (encRepo_GetIdentityKey Pool u d) w = (Inr k, w') \<Longrightarrow>
     k \<in> set (t_identity_keys (w_db w)) \<and> active_identity u d k"
  "run_state (encRepo_GetActiveSignedPreKey Pool u d) w = (Inr s, w') \<Longrightarrow>
     s \<in> set (t_signed_prekeys (w_db w)) \<and> active_signed u d s"
proof -
  have pos: "(count_where P rs > 0) = (\<exists>r\<in>set rs. P r)" for P :: "Device \<Rightarrow> bool" and rs
    by (metis count_where_eq_0 count_where_nonneg less_le)
  show "run_state (encRepo_IsDeviceOwnedByUser Pool u d) w = (Inr b, w') \<Longrightarrow>
     b = (\<exists>r\<in>set (t_devices (w_db w)). owns_device u d r)"
    by (auto simp: encRepo_IsDeviceOwnedByUser_def queryRow_Inr visible_def pos simp del: run_andThen
        elim!: andThen_Inr)
  show "run_state (encRepo_GetIdentityKey Pool u d) w = (Inr k, w') \<Longrightarrow>
     k \<in> set (t_identity_keys (w_db w)) \<and> active_identity u d k"
    by (auto simp: encRepo_GetIdentityKey_def mapErr_Inr queryRow_Inr visible_def filter_eq_Cons_iff
        simp del: run_mapErr)
  show "run_state (encRepo_GetActiveSignedPreKey Pool u d) w = (Inr s, w') \<Longrightarrow>
     s \<in> set (t_signed_prekeys (w_db w)) \<and> active_signed u d s"
  proof -
    assume "run_state (encRepo_GetActiveSignedPreKey Pool u d) w = (Inr s, w')"
    then obtain ks where "order_desc (\<lambda>k. Some (sk_CreatedAt k))
       (filter (active_signed u d) (t_signed_prekeys (w_db w))) = s # ks"
      by (auto simp: encRepo_GetActiveSignedPreKey_def mapErr_Inr queryRow_Inr visible_def
          simp del: run_mapErr)
    then have "s \<in> set (filter (active_signed u d) (t_signed_prekeys (w_db w)))"
      by (metis list.set_intros(1) set_order_desc)
    then show ?thesis by simp
  qed
qed

definition bare_bundle :: "uuid \<Rightarrow> uuid \<Rightarrow> IdentityKey \<Rightarrow> SignedPreKey \<Rightarrow> KeyBundle" where
  "bare_bundle u d i s = \<lparr>kb_UserID = u, kb_DeviceID = d, kb_IdentityKey = ik_PublicKey i,
       kb_SignedPreKeyID = sk_KeyID s, kb_SignedPreKey = sk_PublicKey s,
       kb_SignedPreKeySignature = sk_Signature s, kb_OneTimePreKeyID = None, kb_OneTimePreKey = []\<rparr>"

text \<open>A bundle is handed out in four steps, the last of which may find no key.\<close>

lemma GetKeyBundle_steps:
  assumes "run_state (encSvc_GetKeyBundle Pool u d c cd) w = (Inr b, w')"
  obtains w1 i w2 s w3 r where
    "run_state (encRepo_IsDeviceOwnedByUser Pool c cd) w = (Inr True, w1)" "u \<noteq> c"
    "run_state (encRepo_GetIdentityKey Pool u d) w1 = (Inr i, w2)"
    "run_state (encRepo_GetActiveSignedPreKey Pool u d) w2 = (Inr s, w3)"
    "run_state (encRepo_ConsumeOneTimePreKey Pool u d c cd) w3 = (r, w')"
    "b = (case r of Inr prekey \<Rightarrow> (bare_bundle u d i s)\<lparr>kb_OneTimePreKeyID := Some (otk_KeyID prekey),
       kb_OneTimePreKey := otk_PublicKey prekey\<rparr> | Inl _ \<Rightarrow> bare_bundle u d i s)"
    "isl r \<longrightarrow> r = Inl ErrNotFound"
proof -
  from assms obtain ow w1 where o1: "run_state (encRepo_IsDeviceOwnedByUser Pool c cd) w = (Inr ow, w1)"
    and ow: "ow" "u \<noteq> c"
    and rest1: "run_state (andThen (encRepo_GetIdentityKey Pool u d) (\<lambda>identity.
         andThen (encRepo_GetActiveSignedPreKey Pool u d) (\<lambda>signed. do {
           let bundle = bare_bundle u d identity signed;
           r \<leftarrow> encRepo_ConsumeOneTimePreKey Pool u d c cd;
           (case r of
              Inr prekey \<Rightarrow> ok (bundle\<lparr>kb_OneTimePreKeyID := Some (otk_KeyID prekey),
                kb_OneTimePreKey := otk_PublicKey prekey\<rparr>)
            | Inl prekeyErr \<Rightarrow> if prekeyErr = ErrNotFound then ok bundle else fail prekeyErr)
         }))) w1 = (Inr b, w')"
    unfolding encSvc_GetKeyBundle_def bare_bundle_def by (rule andThen_Inr) (auto split: if_splits)
  from rest1 obtain i w2 s w3 r where
    "run_state (encRepo_GetIdentityKey Pool u d) w1 = (Inr i, w2)"
    "run_state (encRepo_GetActiveSignedPreKey Pool u d) w2 = (Inr s, w3)"
    "run_state (encRepo_ConsumeOneTimePreKey Pool u d c cd) w3 = (r, w')"
    "b = (case r of Inr prekey \<Rightarrow> (bare_bundle u d i s)\<lparr>kb_OneTimePreKeyID := Some (otk_KeyID prekey),
       kb_OneTimePreKey := otk_PublicKey prekey\<rparr> | Inl _ \<Rightarrow> bare_bundle u d i s)"
    "isl r \<longrightarrow> r = Inl ErrNotFound"
    by (force elim!: andThen_Inr simp: Let_def simp del: run_andThen split: prod.splits sum.splits if_splits)
  with o1 ow that show thesis by simp
qed

text \<open>
  C28. A key bundle is handed out only to the owner of an active device, and only for somebody
  else. It carries an active identity key and an active signed pre-key of the requested
  device. A one-time key in it was available before and is consumed afterwards by the
  requester; if the bundle has none, the device had no available key left.
\<close>

theorem GetKeyBundle_sound:
  assumes run: "run_state (encSvc_GetKeyBundle Pool u d c cd) w = (Inr b, w')"
    and honest: "honest_faults w"
  shows "(\<exists>r\<in>set (t_devices (w_db w)). owns_device c cd r) \<and> u \<noteq> c \<and>
    (\<exists>i\<in>set (t_identity_keys (w_db w)). active_identity u d i \<and> kb_IdentityKey b = ik_PublicKey i) \<and>
    (\<exists>s\<in>set (t_signed_prekeys (w_db w)). active_signed u d s \<and> kb_SignedPreKeyID b = sk_KeyID s \<and>
       kb_SignedPreKey b = sk_PublicKey s \<and> kb_SignedPreKeySignature b = sk_Signature s) \<and>
    (case kb_OneTimePreKeyID b of
       None \<Rightarrow> \<forall>k\<in>set (t_onetime_prekeys (w_db w)). \<not> available u d k
     | Some i \<Rightarrow> \<exists>k\<in>set (t_onetime_prekeys (w_db w)). available u d k \<and> otk_KeyID k = i \<and>
         kb_OneTimePreKey b = otk_PublicKey k \<and>
         (\<exists>now. consumed_by now c cd k \<in> set (t_onetime_prekeys (w_db w'))))"
proof -
  from run obtain w1 i w2 s w3 r where
    o1: "run_state (encRepo_IsDeviceOwnedByUser Pool c cd) w = (Inr True, w1)" and neq: "u \<noteq> c"
    and o2: "run_state (encRepo_GetIdentityKey Pool u d) w1 = (Inr i, w2)"
    and o3: "run_state (encRepo_GetActiveSignedPreKey Pool u d) w2 = (Inr s, w3)"
    and o4: "run_state (encRepo_ConsumeOneTimePreKey Pool u d c cd) w3 = (r, w')"
    and b: "b = (case r of Inr prekey \<Rightarrow> (bare_bundle u d i s)\<lparr>kb_OneTimePreKeyID := Some (otk_KeyID prekey),
       kb_OneTimePreKey := otk_PublicKey prekey\<rparr> | Inl _ \<Rightarrow> bare_bundle u d i s)"
    and e: "isl r \<longrightarrow> r = Inl ErrNotFound"
    by (rule GetKeyBundle_steps)
  note f1 = enc_read_frame [OF o1 keeps_enc_reads(1,4)]
  note f2 = enc_read_frame [OF o2 keeps_enc_reads(2,5)]
  note f3 = enc_read_frame [OF o3 keeps_enc_reads(3,6)]
  have db: "w_db w3 = w_db w" "honest_faults w3"
    using f1 f2 f3 honest by (simp_all add: honest_faults_def)
  note reads = encRepo_reads_Inr(1) [OF o1] encRepo_reads_Inr(2) [OF o2] encRepo_reads_Inr(3) [OF o3]
  show ?thesis
  proof (cases r)
    case (Inl err)
    with e o4 Consume_NotFound [OF _ db(2)] db have
      "\<forall>k\<in>set (t_onetime_prekeys (w_db w)). \<not> available u d k" by fastforce
    with reads f1 f2 neq b Inl show ?thesis by (auto simp: bare_bundle_def)
  next
    case (Inr k)
    note eff = Consume_Inr [OF o4 [unfolded Inr], unfolded db(1)]
    then obtain now where t: "w_db w' = (w_db w)\<lparr>t_onetime_prekeys :=
       map_where (\<lambda>x. otk_ID x = otk_ID k) (consumed_by now c cd) (t_onetime_prekeys (w_db w))\<rparr>"
      by blast
    have "consumed_by now c cd k \<in> set (t_onetime_prekeys (w_db w'))"
      using eff t by (auto simp: in_map_where intro: bexI [of _ k])
    with eff reads f1 f2 neq b Inr show ?thesis by (auto simp: bare_bundle_def)
  qed
qed

definition bundle_world :: world where
  "bundle_world = sample_world\<lparr>w_db := sample_tables
     \<lparr>t_onetime_prekeys := [sample_prekey 401 1],
      t_identity_keys := [\<lparr>ik_ID = 410, ik_UserID = 2, ik_DeviceID = 12, ik_PublicKey = [4],
        ik_IsActive = True, ik_CreatedAt = 0\<rparr>],
      t_signed_prekeys := [\<lparr>sk_ID = 411, sk_UserID = 2, sk_DeviceID = 12, sk_KeyID = 7,
        sk_PublicKey = [5], sk_Signature = [6], sk_CreatedAt = 0, sk_IsActive = True\<rparr>]\<rparr>\<rparr>"

lemma GetKeyBundle_sound_witness:
  "\<exists>b w'. run_state (encSvc_GetKeyBundle Pool 2 12 1 11) bundle_world = (Inr b, w') \<and>
    kb_OneTimePreKeyID b = Some 1 \<and>
    (\<exists>k\<in>set (t_onetime_prekeys (w_db bundle_world)). available 2 12 k \<and> otk_KeyID k = 1)"
proof -
  have "\<exists>b w'. run_state (encSvc_GetKeyBundle Pool 2 12 1 11) bundle_world = (Inr b, w') \<and>
      kb_OneTimePreKeyID b = Some 1"
    by (simp add: prekey_exec encSvc_GetKeyBundle_def encRepo_IsDeviceOwnedByUser_def
        owns_device_def encRepo_GetIdentityKey_def active_identity_def
        encRepo_GetActiveSignedPreKey_def active_signed_def order_desc_def bundle_world_def sample_defs)
  moreover have "honest_faults bundle_world"
    by (simp add: honest_faults_def bundle_world_def sample_world_def)
  ultimately show ?thesis
    using GetKeyBundle_sound [of 2 12 1 11 bundle_world] by fastforce
qed

section \<open>Two consumers at once\<close>

text \<open>
  The phases of a consuming transaction: before its SELECT, between SELECT and UPDATE, and
  committed. At READ COMMITTED the SELECT takes no lock and sees the committed rows; an UPDATE
  that waited for another one re-reads the row by its identifier, which still matches.
\<close>

datatype consume_phase = Waiting | Selected OneTimePreKey | Committed OneTimePreKey

inductive consume_step ::
  "uuid \<Rightarrow> uuid \<Rightarrow> tables \<times> (nat \<Rightarrow> consume_phase) \<Rightarrow> tables \<times> (nat \<Rightarrow> consume_phase) \<Rightarrow> bool"
  for u d where
  consumer_selects: "p i = Waiting \<Longrightarrow> select_prekey u d t = k # ks \<Longrightarrow>
    consume_step u d (t, p) (t, p(i := Selected k))"
| consumer_updates: "p i = Selected k \<Longrightarrow> mark_consumed now c cd (otk_ID k) t = Inr (n, t') \<Longrightarrow>
    consume_step u d (t, p) (t', p(i := Committed k))"

text \<open>
  A one-time key can be used twice. Whenever the requested device has an available key and
  the requesters exist, two transactions of \<open>ConsumeOneTimePreKey\<close> can interleave so that both
  commit and both hand out the same key.
\<close>

theorem Consume_race_duplicates:
  assumes "select_prekey u d t = k # ks" and "has_user t c" and "has_device t cd"
    and "clash_free onetime_prekey_clash (t_onetime_prekeys t)"
  shows "\<exists>t' p. (consume_step u d)\<^sup>*\<^sup>* (t, \<lambda>_. Waiting) (t', p) \<and> p 0 = Committed k \<and> p 1 = Committed k"
proof -
  let ?mark = "mark_consumed 0 c cd (otk_ID k)"
  have key: "clash_free onetime_prekey_clash (map_where (\<lambda>x. otk_ID x = otk_ID k)
      (\<lambda>k. k\<lparr>otk_ConsumedAt := Some 0, otk_ConsumedBy := Some c, otk_ConsumedByDeviceID := Some cd\<rparr>) rs)"
    if "clash_free onetime_prekey_clash rs" for rs
    by (rule onetime_prekeys_key.map_where_keeps [OF that]) (simp add: onetime_prekey_clash_def)
  have "\<exists>n t1. ?mark t1' = Inr (n, t1) \<and> has_user t1 c \<and> has_device t1 cd \<and>
      clash_free onetime_prekey_clash (t_onetime_prekeys t1)"
    if "has_user t1' c" "has_device t1' cd" "clash_free onetime_prekey_clash (t_onetime_prekeys t1')" for t1'
    using that key by (simp add: mark_consumed_def update_into_Inr has_user_def has_device_def)
  with assms(2-4) obtain n1 t1 n2 t2 where m: "?mark t = Inr (n1, t1)" "?mark t1 = Inr (n2, t2)"
    by metis
  let ?p = "\<lambda>_::nat. Waiting"
  have "consume_step u d (t, ?p) (t, ?p(0 := Selected k))"
    using assms(1) by (intro consumer_selects) auto
  moreover have "consume_step u d (t, ?p(0 := Selected k)) (t, ?p(0 := Selected k, 1 := Selected k))"
    using assms(1) by (intro consumer_selects) auto
  moreover have "consume_step u d (t, ?p(0 := Selected k, 1 := Selected k))
      (t1, ?p(0 := Selected k, 1 := Selected k, 0 := Committed k))"
    using m(1) by (intro consumer_updates) auto
  moreover have "consume_step u d (t1, ?p(0 := Selected k, 1 := Selected k, 0 := Committed k))
      (t2, ?p(0 := Selected k, 1 := Selected k, 0 := Committed k, 1 := Committed k))"
    using m(2) by (intro consumer_updates) auto
  ultimately have "(consume_step u d)\<^sup>*\<^sup>* (t, ?p)
      (t2, ?p(0 := Selected k, 1 := Selected k, 0 := Committed k, 1 := Committed k))"
    by (meson converse_rtranclp_into_rtranclp rtranclp.rtrancl_refl)
  then show ?thesis
    by (intro exI [of _ t2] exI [of _ "?p(0 := Selected k, 1 := Selected k, 0 := Committed k, 1 := Committed k)"])
      simp
qed

lemma Consume_race_duplicates_witness:
  "\<exists>t' p. (consume_step 2 12)\<^sup>*\<^sup>* (w_db prekey_world, \<lambda>_. Waiting) (t', p) \<and>
     p 0 = Committed (sample_prekey 401 1) \<and> p 1 = Committed (sample_prekey 401 1)"
proof -
  have "\<exists>ks. select_prekey 2 12 (w_db prekey_world) = sample_prekey 401 1 # ks"
    "has_user (w_db prekey_world) 1" "has_device (w_db prekey_world) 11"
    "clash_free onetime_prekey_clash (t_onetime_prekeys (w_db prekey_world))"
    by (simp_all add: prekey_exec sample_defs)
  then show ?thesis using Consume_race_duplicates by blast
qed

section \<open>The operations that pass everything on to the repository\<close>

definition encSvc_CreateIdentityKey :: "DBTX \<Rightarrow> IdentityKey \<Rightarrow> unit go" where
  "encSvc_CreateIdentityKey s k = encRepo_CreateIdentityKey s k"

definition encSvc_GetIdentityKey ::
  "DBTX \<Rightarrow> uuid \<Rightarrow> uuid \<Rightarrow> IdentityKey go" where
  "encSvc_GetIdentityKey s u d = encRepo_GetIdentityKey s u d"

definition encSvc_GetUserIdentityKeys ::
  "DBTX \<Rightarrow> uuid \<Rightarrow> IdentityKey list go" where
  "encSvc_GetUserIdentityKeys s u = encRepo_GetUserIdentityKeys s u"

definition encSvc_DeactivateIdentityKey :: "DBTX \<Rightarrow> uuid \<Rightarrow> unit go" where
  "encSvc_DeactivateIdentityKey s i = encRepo_DeactivateIdentityKey s i"

definition encSvc_DeleteIdentityKey :: "DBTX \<Rightarrow> uuid \<Rightarrow> unit go" where
  "encSvc_DeleteIdentityKey s i = encRepo_DeleteIdentityKey s i"

definition encSvc_CreateSignedPreKey ::
  "DBTX \<Rightarrow> SignedPreKey \<Rightarrow> unit go" where
  "encSvc_CreateSignedPreKey s k = encRepo_CreateSignedPreKey s k"

definition encSvc_GetSignedPreKey ::
  "DBTX \<Rightarrow> uuid \<Rightarrow> uuid \<Rightarrow> int \<Rightarrow> SignedPreKey go" where
  "encSvc_GetSignedPreKey s u d keyID = encRepo_GetSignedPreKey s u d keyID"

definition encSvc_GetActiveSignedPreKey ::
  "DBTX \<Rightarrow> uuid \<Rightarrow> uuid \<Rightarrow> SignedPreKey go" where
  "encSvc_GetActiveSignedPreKey s u d = encRepo_GetActiveSignedPreKey s u d"

definition encSvc_RotateSignedPreKey ::
  "DBTX \<Rightarrow> uuid \<Rightarrow> uuid \<Rightarrow> SignedPreKey \<Rightarrow> unit go" where
  "encSvc_RotateSignedPreKey s u d newKey = encRepo_RotateSignedPreKey s u d newKey"

definition encSvc_DeactivateSignedPreKey :: "DBTX \<Rightarrow> uuid \<Rightarrow> unit go" where
  "encSvc_DeactivateSignedPreKey s i = encRepo_DeactivateSignedPreKey s i"

definition encSvc_UploadOneTimePreKeys ::
  "DBTX \<Rightarrow> OneTimePreKey list \<Rightarrow> unit go" where
  "encSvc_UploadOneTimePreKeys s ks = encRepo_UploadOneTimePreKeys s ks"

definition encSvc_ConsumeOneTimePreKey ::
  "DBTX \<Rightarrow> uuid \<Rightarrow> uuid \<Rightarrow> uuid \<Rightarrow> uuid \<Rightarrow> OneTimePreKey go" where
  "encSvc_ConsumeOneTimePreKey s u d consumer consumerDevice =
     encRepo_ConsumeOneTimePreKey s u d consumer consumerDevice"

definition encSvc_GetAvailablePreKeyCount ::
  "DBTX \<Rightarrow> uuid \<Rightarrow> uuid \<Rightarrow> int go" where
  "encSvc_GetAvailablePreKeyCount s u d = encRepo_GetAvailablePreKeyCount s u d"

definition encSvc_DeleteConsumedPreKeys :: "DBTX \<Rightarrow> time \<Rightarrow> int go" where
  "encSvc_DeleteConsumedPreKeys s olderThan = encRepo_DeleteConsumedPreKeys s olderThan"

definition encSvc_HasActiveKeys ::
  "DBTX \<Rightarrow> uuid \<Rightarrow> uuid \<Rightarrow> bool go" where
  "encSvc_HasActiveKeys s u d = encRepo_HasActiveKeys s u d"

end
