(* ===== verification/CallRepo.thy ===== *)
theory CallRepo
  imports ConversationRepo
begin

text \<open>
  \<^verbatim>\<open>internal/repository/call_repository.go\<close>: calls, their participants and quality metrics.

  The columns \<^verbatim>\<open>type\<close>, \<^verbatim>\<open>topology\<close>, \<^verbatim>\<open>end_reason\<close> and \<^verbatim>\<open>status\<close> are enumerations of the schema. A
  literal or a parameter compared with or assigned to such a column is converted before the
  statement runs, so a value outside the enumeration fails even when no row matches.
\<close>

section \<open>Calls\<close>

definition call_typed :: "Call \<Rightarrow> bool" where
  "call_typed c \<longleftrightarrow>
     typed [(call_Type c, call_type_enum), (call_Topology c, call_topology_enum)] \<and>
     (case call_EndReason c of None \<Rightarrow> True | Some r \<Rightarrow> typed [(r, call_end_reason_enum)])"

definition call_refs :: "Call \<Rightarrow> tables \<Rightarrow> bool" where
  "call_refs c t \<longleftrightarrow> has_conversation t (call_ConversationID c) \<and> has_user t (call_InitiatedBy c)"

definition callRepo_Create :: "DBTX \<Rightarrow> Call \<Rightarrow> unit go" where
  "callRepo_Create db c =
     mapErr alreadyExists (sql db (checked InvalidText (\<lambda>_. call_typed c)
       (insert_into t_calls t_calls_update call_clash (call_refs c) c)))"

definition callRepo_GetByID :: "DBTX \<Rightarrow> uuid \<Rightarrow> Call go" where
  "callRepo_GetByID db i =
     mapErr notFound (queryRow db (\<lambda>t. filter (\<lambda>c. call_ID c = i) (t_calls t)))"

text \<open>Every column but \<^verbatim>\<open>id\<close> and \<^verbatim>\<open>created_at\<close>.\<close>

definition callRepo_Update :: "DBTX \<Rightarrow> Call \<Rightarrow> unit go" where
  "callRepo_Update db c =
     affected (sql db (checked InvalidText (\<lambda>_. call_typed c)
       (update_into t_calls t_calls_update call_clash (call_refs c)
         (\<lambda>r. call_ID r = call_ID c)
         (\<lambda>r. c\<lparr>call_ID := call_ID r, call_CreatedAt := call_CreatedAt r\<rparr>))))"

definition callRepo_GetConversationCalls ::
  "DBTX \<Rightarrow> uuid \<Rightarrow> int \<Rightarrow> int \<Rightarrow> (Call list \<times> int) go" where
  "callRepo_GetConversationCalls db conv page limit =
     (let P = (\<lambda>c. call_ConversationID c = conv)
      in andThen (queryRow db (\<lambda>t. [count_where P (t_calls t)])) (\<lambda>total.
         andThen (sql db (query_page ((page - 1) * limit) limit (\<lambda>t.
           order_desc (\<lambda>c. Some (call_StartedAt c)) (filter P (t_calls t)))))
         (\<lambda>calls. ok (calls, total))))"

definition involves :: "tables \<Rightarrow> uuid \<Rightarrow> (CallParticipant \<Rightarrow> bool) \<Rightarrow> Call \<Rightarrow> bool" where
  "involves t u P c \<longleftrightarrow>
     list_ex (\<lambda>p. cp_CallID p = call_ID c \<and> cp_UserID p = u \<and> P p) (t_call_participants t)"

definition callRepo_GetUserCalls :: "DBTX \<Rightarrow> uuid \<Rightarrow> int \<Rightarrow> int \<Rightarrow> (Call list \<times> int) go" where
  "callRepo_GetUserCalls db u page limit =
     (let P = (\<lambda>t c. call_InitiatedBy c = u \<or> involves t u (\<lambda>_. True) c)
      in andThen (queryRow db (\<lambda>t. [count_where (P t) (t_calls t)])) (\<lambda>total.
         andThen (sql db (query_page ((page - 1) * limit) limit (\<lambda>t.
           order_desc (\<lambda>c. Some (call_StartedAt c)) (filter (P t) (t_calls t)))))
         (\<lambda>calls. ok (calls, total))))"

definition callRepo_GetActiveCalls :: "DBTX \<Rightarrow> uuid \<Rightarrow> Call list go" where
  "callRepo_GetActiveCalls db u =
     sql db (checked InvalidText
       (\<lambda>_. typed [(''INVITED'', participant_call_status_enum), (''JOINED'', participant_call_status_enum)])
       (query (\<lambda>t. filter (\<lambda>c. call_EndedAt c = None \<and> (call_InitiatedBy c = u \<or>
         involves t u (\<lambda>p. cp_Status p \<in> {''INVITED'', ''JOINED''}) c)) (t_calls t))))"

definition callRepo_GetMissedCalls :: "DBTX \<Rightarrow> uuid \<Rightarrow> time \<Rightarrow> Call list go" where
  "callRepo_GetMissedCalls db u since =
     sql db (checked InvalidText (\<lambda>_. typed [(''INVITED'', participant_call_status_enum)])
       (query (\<lambda>t. order_desc (\<lambda>c. Some (call_StartedAt c)) (filter (\<lambda>c.
         involves t u (\<lambda>p. cp_Status p = ''INVITED'' \<and> cp_JoinedAt p = None) c \<and>
         call_EndedAt c \<noteq> None \<and> call_StartedAt c > since) (t_calls t)))))"

definition callRepo_MarkConnected :: "DBTX \<Rightarrow> uuid \<Rightarrow> unit go" where
  "callRepo_MarkConnected db i = do {
     now \<leftarrow> time_Now;
     affected (sql db (on_table t_calls t_calls_update (update_where (\<lambda>c. call_ID c = i)
       (\<lambda>c. c\<lparr>call_ConnectedAt := Some now\<rparr>))))
   }"

text \<open>
  \<^verbatim>\<open>int32(d.Seconds())\<close>: whole seconds, rounded toward zero, in 32 bits. Go leaves the result
  of a conversion out of range to the implementation; here it wraps around.
\<close>

definition int32_seconds :: "duration \<Rightarrow> int" where
  "int32_seconds d = signed_take_bit 31 (sgn d * (\<bar>d\<bar> div Second))"

definition end_call :: "time \<Rightarrow> string \<Rightarrow> Call \<Rightarrow> Call \<Rightarrow> Call" where
  "end_call now reason c r = r\<lparr>call_EndedAt := Some now, call_EndReason := Some reason,
     call_DurationSeconds := (case call_ConnectedAt c of
         Some connected \<Rightarrow> Some (int32_seconds (now - connected))
       | None \<Rightarrow> call_DurationSeconds r)\<rparr>"

definition callRepo_EndCall :: "DBTX \<Rightarrow> uuid \<Rightarrow> string \<Rightarrow> unit go" where
  "callRepo_EndCall db i reason = do {
     now \<leftarrow> time_Now;
     WithTx db (\<lambda>tx.
       andThen (callRepo_GetByID tx i) (\<lambda>c.
       void (sql tx (checked InvalidText (\<lambda>_. typed [(reason, call_end_reason_enum)])
         (on_table t_calls t_calls_update
           (update_where (\<lambda>r. call_ID r = i) (end_call now reason c)))))))
   }"

definition callRepo_GetCallDuration :: "DBTX \<Rightarrow> uuid \<Rightarrow> int go" where
  "callRepo_GetCallDuration db i =
     andThen (mapErr notFound (queryRow db (\<lambda>t.
         map call_DurationSeconds (filter (\<lambda>c. call_ID c = i) (t_calls t)))))
       (\<lambda>duration. case duration of Some d \<Rightarrow> ok d | None \<Rightarrow> ok 0)"

section \<open>Participants\<close>

definition callRepo_AddParticipant :: "DBTX \<Rightarrow> CallParticipant \<Rightarrow> unit go" where
  "callRepo_AddParticipant db p =
     mapErr alreadyExists (sql db (checked InvalidText
       (\<lambda>_. typed [(cp_Status p, participant_call_status_enum)])
       (insert_into t_call_participants t_call_participants_update call_participant_clash
         (\<lambda>t. has_call t (cp_CallID p) \<and> has_user t (cp_UserID p)) p)))"

definition is_call_participant :: "uuid \<Rightarrow> uuid \<Rightarrow> CallParticipant \<Rightarrow> bool" where
  "is_call_participant i u p \<longleftrightarrow> cp_CallID p = i \<and> cp_UserID p = u"

definition update_call_participant ::
  "DBTX \<Rightarrow> uuid \<Rightarrow> uuid \<Rightarrow> string list \<Rightarrow> (CallParticipant \<Rightarrow> CallParticipant) \<Rightarrow> unit go" where
  "update_call_participant db i u statuses f =
     affected (sql db (checked InvalidText
       (\<lambda>_. typed (map (\<lambda>s. (s, participant_call_status_enum)) statuses))
       (on_table t_call_participants t_call_participants_update
         (update_where (is_call_participant i u) f))))"

definition callRepo_RemoveParticipant :: "DBTX \<Rightarrow> uuid \<Rightarrow> uuid \<Rightarrow> unit go" where
  "callRepo_RemoveParticipant db i u = do {
     now \<leftarrow> time_Now;
     update_call_participant db i u [''LEFT'']
       (\<lambda>p. p\<lparr>cp_Status := ''LEFT'', cp_LeftAt := Some now\<rparr>)
   }"

definition callRepo_GetCallParticipants :: "DBTX \<Rightarrow> uuid \<Rightarrow> CallParticipant list go" where
  "callRepo_GetCallParticipants db i =
     sql db (query (\<lambda>t. filter (\<lambda>p. cp_CallID p = i) (t_call_participants t)))"

definition callRepo_IsCallParticipant :: "DBTX \<Rightarrow> uuid \<Rightarrow> uuid \<Rightarrow> bool go" where
  "callRepo_IsCallParticipant db i u =
     andThen (queryRow db (\<lambda>t. [count_where (is_call_participant i u) (t_call_participants t)]))
       (\<lambda>n. ok (n > 0))"

definition StatusJoined :: string where "StatusJoined = ''JOINED''"
definition StatusLeft :: string where "StatusLeft = ''LEFT''"

text \<open>\<^verbatim>\<open>COALESCE($2, joined_at)\<close>\<close>

definition coalesce :: "'a option \<Rightarrow> 'a option \<Rightarrow> 'a option" where
  "coalesce a b = (case a of None \<Rightarrow> b | Some _ \<Rightarrow> a)"

definition set_call_status ::
  "string \<Rightarrow> time option \<Rightarrow> time option \<Rightarrow> CallParticipant \<Rightarrow> CallParticipant" where
  "set_call_status status joined left p = p\<lparr>cp_Status := status,
     cp_JoinedAt := coalesce joined (cp_JoinedAt p), cp_LeftAt := coalesce left (cp_LeftAt p)\<rparr>"

definition callRepo_UpdateParticipantStatus :: "DBTX \<Rightarrow> uuid \<Rightarrow> uuid \<Rightarrow> string \<Rightarrow> unit go" where
  "callRepo_UpdateParticipantStatus db i u status =
     (if status = StatusJoined then do {
        now \<leftarrow> time_Now;
        update_call_participant db i u [status] (set_call_status status (Some now) None)
      }
      else if status = StatusLeft then do {
        now \<leftarrow> time_Now;
        update_call_participant db i u [status] (set_call_status status None (Some now))
      }
      else update_call_participant db i u [status] (set_call_status status None None))"

definition callRepo_UpdateParticipantMuteStatus ::
  "DBTX \<Rightarrow> uuid \<Rightarrow> uuid \<Rightarrow> bool \<Rightarrow> bool \<Rightarrow> unit go" where
  "callRepo_UpdateParticipantMuteStatus db i u audioMuted videoMuted =
     update_call_participant db i u []
       (\<lambda>p. p\<lparr>cp_MutedAudio := audioMuted, cp_MutedVideo := videoMuted\<rparr>)"

definition callRepo_GetActiveParticipantCount :: "DBTX \<Rightarrow> uuid \<Rightarrow> int go" where
  "callRepo_GetActiveParticipantCount db i =
     andThen (sql db (checked InvalidText (\<lambda>_. typed [(''JOINED'', participant_call_status_enum)])
       (query (\<lambda>t. count_where (\<lambda>p. cp_CallID p = i \<and> cp_Status p = ''JOINED'')
         (t_call_participants t)))))
     ok"

section \<open>Quality metrics\<close>

text \<open>
  A \<^verbatim>\<open>DECIMAL\<close> column gives a \<^verbatim>\<open>float64\<close> back as it was stored. The average that the database
  computes in decimals and the driver rounds to a \<^verbatim>\<open>float64\<close> is the parameter \<open>average\<close>.
\<close>

definition callRepo_RecordQualityMetric :: "DBTX \<Rightarrow> CallQualityMetric \<Rightarrow> unit go" where
  "callRepo_RecordQualityMetric db m =
     sql db (insert_into t_quality_metrics t_quality_metrics_update quality_metric_clash
       (\<lambda>t. has_call t (cqm_CallID m) \<and> has_user t (cqm_UserID m)) m)"

definition callRepo_GetCallQualityMetrics :: "DBTX \<Rightarrow> uuid \<Rightarrow> CallQualityMetric list go" where
  "callRepo_GetCallQualityMetrics db i =
     sql db (query (\<lambda>t. order_asc (\<lambda>m. Some (cqm_RecordedAt m)) (filter (\<lambda>m. cqm_CallID m = i) (t_quality_metrics t))))"

definition callRepo_GetUserCallQualityMetrics :: "DBTX \<Rightarrow> uuid \<Rightarrow> uuid \<Rightarrow> CallQualityMetric list go" where
  "callRepo_GetUserCallQualityMetrics db i u =
     sql db (query (\<lambda>t. order_asc (\<lambda>m. Some (cqm_RecordedAt m))
       (filter (\<lambda>m. cqm_CallID m = i \<and> cqm_UserID m = u) (t_quality_metrics t))))"

text \<open>\<^verbatim>\<open>AVG\<close> of no rows is NULL.\<close>

definition callRepo_GetAverageCallQuality :: "(float64 list \<Rightarrow> float64) \<Rightarrow> DBTX \<Rightarrow> uuid \<Rightarrow> float64 go" where
  "callRepo_GetAverageCallQuality average db i =
     sql db (query (\<lambda>t. case map cqm_JitterMs (filter (\<lambda>m. cqm_CallID m = i) (t_quality_metrics t)) of
       [] \<Rightarrow> 0
     | js \<Rightarrow> average js))"

end
