(* ===== verification/Redis.thy ===== *)
theory Redis
  imports Prelude
begin

text \<open>
  The Redis commands that \<^verbatim>\<open>internal/redis\<close> sends, on a store of keys with an optional time of
  expiry. The server's clock (\<open>rd_now\<close>) and the failures of the connection (\<open>rd_fault\<close>) are
  parameters; each command uses up one index of both. A key is visible until its time of
  expiry. A command on a value of another type fails with WRONGTYPE and changes nothing; a
  collection that becomes empty is removed. JSON texts are kept as the JSON value they encode.
\<close>

datatype redis_value =
    RInt int
  | RJson json
  | RList "json list"
  | RSet "string list"
  | RHash "(string \<times> json) list"
  | RZset "(string \<times> int) list"

record redis =
  rd_keys :: "string \<Rightarrow> (redis_value \<times> time option) option"
  rd_step :: nat
  rd_now :: "nat \<Rightarrow> time"
  rd_fault :: "nat \<Rightarrow> string option"

type_synonym 'a redis_cmd = "(redis, error + 'a) state"
type_synonym keyspace = "string \<Rightarrow> (redis_value \<times> time option) option"

definition live :: "time \<Rightarrow> keyspace \<Rightarrow> string \<Rightarrow> (redis_value \<times> time option) option" where
  "live now ks k = (case ks k of
     Some (v, Some e) \<Rightarrow> if now < e then Some (v, Some e) else None
   | x \<Rightarrow> x)"

definition command :: "(time \<Rightarrow> keyspace \<Rightarrow> error + 'a \<times> keyspace) \<Rightarrow> 'a redis_cmd" where
  "command f = State (\<lambda>r.
     let r1 = r\<lparr>rd_step := Suc (rd_step r)\<rparr>
     in case rd_fault r (rd_step r) of
          Some msg \<Rightarrow> (Inl (OtherError msg), r1)
        | None \<Rightarrow> (case f (rd_now r (rd_step r)) (rd_keys r) of
                     Inl e \<Rightarrow> (Inl e, r1)
                   | Inr (x, ks) \<Rightarrow> (Inr x, r1\<lparr>rd_keys := ks\<rparr>)))"

text \<open>
  A pipeline sends all its commands and then reports the first error. Its commands are run one
  after the other; other clients may run theirs in between.
\<close>

fun pipeline :: "unit redis_cmd list \<Rightarrow> unit redis_cmd" where
  "pipeline [] = ok ()"
| "pipeline (c # cs) = do {
     r \<leftarrow> c;
     s \<leftarrow> pipeline cs;
     State_Monad.return (case r of Inl e \<Rightarrow> Inl e | Inr _ \<Rightarrow> s)
   }"

abbreviation WRONGTYPE :: error where
  "WRONGTYPE \<equiv> OtherError ''WRONGTYPE''"

section \<open>Strings and keys\<close>

text \<open>\<open>None\<close> is \<^verbatim>\<open>redis.Nil\<close>. A non-positive duration means no expiry in \<^verbatim>\<open>Set\<close>.\<close>

definition redis_Get :: "string \<Rightarrow> redis_value option redis_cmd" where
  "redis_Get k = command (\<lambda>now ks. case live now ks k of
     None \<Rightarrow> Inr (None, ks)
   | Some (RInt i, _) \<Rightarrow> Inr (Some (RInt i), ks)
   | Some (RJson j, _) \<Rightarrow> Inr (Some (RJson j), ks)
   | _ \<Rightarrow> Inl WRONGTYPE)"

definition redis_Set :: "string \<Rightarrow> json \<Rightarrow> duration \<Rightarrow> unit redis_cmd" where
  "redis_Set k v ttl = command (\<lambda>now ks.
     Inr ((), ks(k := Some (RJson v, if ttl > 0 then Some (now + ttl) else None))))"

text \<open>\<^verbatim>\<open>Expire\<close> sets the time of expiry of a live key; one that is not positive deletes it.\<close>

definition expire_key :: "string \<Rightarrow> duration \<Rightarrow> time \<Rightarrow> keyspace \<Rightarrow> keyspace" where
  "expire_key k ttl now ks = (case live now ks k of
     None \<Rightarrow> ks
   | Some (v, _) \<Rightarrow> ks(k := if ttl > 0 then Some (v, Some (now + ttl)) else None))"

definition redis_Expire :: "string \<Rightarrow> duration \<Rightarrow> unit redis_cmd" where
  "redis_Expire k ttl = command (\<lambda>now ks. Inr ((), expire_key k ttl now ks))"

definition redis_Del :: "string list \<Rightarrow> unit redis_cmd" where
  "redis_Del qs = command (\<lambda>now ks. Inr ((), fold (\<lambda>k m. m(k := None)) qs ks))"

definition incr_key :: "string \<Rightarrow> time \<Rightarrow> keyspace \<Rightarrow> error + int \<times> keyspace" where
  "incr_key k now ks = (case live now ks k of
     None \<Rightarrow> Inr (1, ks(k := Some (RInt 1, None)))
   | Some (RInt i, e) \<Rightarrow> Inr (i + 1, ks(k := Some (RInt (i + 1), e)))
   | Some (RJson _, _) \<Rightarrow> Inl (OtherError ''ERR value is not an integer or out of range'')
   | _ \<Rightarrow> Inl WRONGTYPE)"

definition redis_Incr :: "string \<Rightarrow> unit redis_cmd" where
  "redis_Incr k = command (\<lambda>now ks. map_sum id (\<lambda>(_, ks'). ((), ks')) (incr_key k now ks))"

text \<open>
  The time to live in whole seconds, rounded to the nearest: -2 for a missing key and -1 for
  one that does not expire.
\<close>

definition ttl_key :: "string \<Rightarrow> time \<Rightarrow> keyspace \<Rightarrow> int" where
  "ttl_key k now ks = (case live now ks k of
     None \<Rightarrow> - 2
   | Some (_, None) \<Rightarrow> - 1
   | Some (_, Some e) \<Rightarrow> (e - now + Second div 2) div Second)"

definition redis_TTL :: "string \<Rightarrow> int redis_cmd" where
  "redis_TTL k = command (\<lambda>now ks. Inr (ttl_key k now ks, ks))"

section \<open>Lists\<close>

definition redis_RPush :: "string \<Rightarrow> json \<Rightarrow> unit redis_cmd" where
  "redis_RPush k v = command (\<lambda>now ks. case live now ks k of
     None \<Rightarrow> Inr ((), ks(k := Some (RList [v], None)))
   | Some (RList vs, e) \<Rightarrow> Inr ((), ks(k := Some (RList (vs @ [v]), e)))
   | _ \<Rightarrow> Inl WRONGTYPE)"

definition redis_LRange_all :: "string \<Rightarrow> json list redis_cmd" where
  "redis_LRange_all k = command (\<lambda>now ks. case live now ks k of
     None \<Rightarrow> Inr ([], ks)
   | Some (RList vs, _) \<Rightarrow> Inr (vs, ks)
   | _ \<Rightarrow> Inl WRONGTYPE)"

section \<open>Sets, sorted sets and hashes\<close>

text \<open>A collection is a list without duplicates; \<open>redis_keep\<close> stores one and removes an empty one.\<close>

definition redis_keep :: "string \<Rightarrow> redis_value \<Rightarrow> bool \<Rightarrow> time option \<Rightarrow> keyspace \<Rightarrow> keyspace" where
  "redis_keep k v nonempty e ks = ks(k := if nonempty then Some (v, e) else None)"

definition set_key :: "string \<Rightarrow> time \<Rightarrow> keyspace \<Rightarrow> error + string list \<times> time option" where
  "set_key k now ks = (case live now ks k of
     None \<Rightarrow> Inr ([], None)
   | Some (RSet xs, e) \<Rightarrow> Inr (xs, e)
   | _ \<Rightarrow> Inl WRONGTYPE)"

definition zset_key :: "string \<Rightarrow> time \<Rightarrow> keyspace \<Rightarrow> error + (string \<times> int) list \<times> time option" where
  "zset_key k now ks = (case live now ks k of
     None \<Rightarrow> Inr ([], None)
   | Some (RZset zs, e) \<Rightarrow> Inr (zs, e)
   | _ \<Rightarrow> Inl WRONGTYPE)"

definition hash_key :: "string \<Rightarrow> time \<Rightarrow> keyspace \<Rightarrow> error + (string \<times> json) list \<times> time option" where
  "hash_key k now ks = (case live now ks k of
     None \<Rightarrow> Inr ([], None)
   | Some (RHash fs, e) \<Rightarrow> Inr (fs, e)
   | _ \<Rightarrow> Inl WRONGTYPE)"

definition redis_SAdd :: "string \<Rightarrow> string \<Rightarrow> unit redis_cmd" where
  "redis_SAdd k x = command (\<lambda>now ks. map_sum id
     (\<lambda>(xs, e). ((), redis_keep k (RSet (List.insert x xs)) True e ks)) (set_key k now ks))"

definition redis_SRem :: "string \<Rightarrow> string \<Rightarrow> unit redis_cmd" where
  "redis_SRem k x = command (\<lambda>now ks. map_sum id
     (\<lambda>(xs, e). ((), redis_keep k (RSet (removeAll x xs)) (removeAll x xs \<noteq> []) e ks)) (set_key k now ks))"

definition redis_SIsMember :: "string \<Rightarrow> string \<Rightarrow> bool redis_cmd" where
  "redis_SIsMember k x = command (\<lambda>now ks. map_sum id (\<lambda>(xs, e). (x \<in> set xs, ks)) (set_key k now ks))"

definition redis_SMembers :: "string \<Rightarrow> string list redis_cmd" where
  "redis_SMembers k = command (\<lambda>now ks. map_sum id (\<lambda>(xs, e). (xs, ks)) (set_key k now ks))"

definition redis_SCard :: "string \<Rightarrow> int redis_cmd" where
  "redis_SCard k = command (\<lambda>now ks. map_sum id (\<lambda>(xs, e). (int (length xs), ks)) (set_key k now ks))"

definition redis_ZAdd :: "string \<Rightarrow> int \<Rightarrow> string \<Rightarrow> unit redis_cmd" where
  "redis_ZAdd k score x = command (\<lambda>now ks. map_sum id
     (\<lambda>(zs, e). ((), redis_keep k (RZset (map_put x score zs)) True e ks)) (zset_key k now ks))"

definition redis_ZRem :: "string \<Rightarrow> string \<Rightarrow> unit redis_cmd" where
  "redis_ZRem k x = command (\<lambda>now ks. map_sum id
     (\<lambda>(zs, e). let zs' = filter (\<lambda>(y, _). y \<noteq> x) zs in ((), redis_keep k (RZset zs') (zs' \<noteq> []) e ks))
     (zset_key k now ks))"

text \<open>\<^verbatim>\<open>ZRANGEBYSCORE k -inf max\<close>\<close>

definition redis_ZRangeTo :: "string \<Rightarrow> int \<Rightarrow> string list redis_cmd" where
  "redis_ZRangeTo k bound = command (\<lambda>now ks. map_sum id
     (\<lambda>(zs, e). (map fst (sort_key snd (filter (\<lambda>(_, s). s \<le> bound) zs)), ks)) (zset_key k now ks))"

definition redis_HSet :: "string \<Rightarrow> string \<Rightarrow> json \<Rightarrow> unit redis_cmd" where
  "redis_HSet k f v = command (\<lambda>now ks. map_sum id
     (\<lambda>(fs, e). ((), redis_keep k (RHash (map_put f v fs)) True e ks)) (hash_key k now ks))"

definition redis_HDel :: "string \<Rightarrow> string \<Rightarrow> unit redis_cmd" where
  "redis_HDel k f = command (\<lambda>now ks. map_sum id
     (\<lambda>(fs, e). let fs' = filter (\<lambda>(g, _). g \<noteq> f) fs in ((), redis_keep k (RHash fs') (fs' \<noteq> []) e ks))
     (hash_key k now ks))"

definition redis_HLen :: "string \<Rightarrow> int redis_cmd" where
  "redis_HLen k = command (\<lambda>now ks. map_sum id (\<lambda>(fs, e). (int (length fs), ks)) (hash_key k now ks))"

definition redis_HGetAll :: "string \<Rightarrow> (string \<times> json) list redis_cmd" where
  "redis_HGetAll k = command (\<lambda>now ks. map_sum id (\<lambda>(fs, e). (fs, ks)) (hash_key k now ks))"

section \<open>Running commands\<close>

lemma run_command:
  "run_state (command f) r =
     (case rd_fault r (rd_step r) of
        Some msg \<Rightarrow> (Inl (OtherError msg), r\<lparr>rd_step := Suc (rd_step r)\<rparr>)
      | None \<Rightarrow> (case f (rd_now r (rd_step r)) (rd_keys r) of
                   Inl e \<Rightarrow> (Inl e, r\<lparr>rd_step := Suc (rd_step r)\<rparr>)
                 | Inr (x, ks) \<Rightarrow> (Inr x, r\<lparr>rd_step := Suc (rd_step r), rd_keys := ks\<rparr>)))"
  by (simp add: command_def Let_def)

lemma command_Inr:
  "run_state (command f) r = (Inr x, r') \<longleftrightarrow>
     rd_fault r (rd_step r) = None \<and>
     (\<exists>ks. f (rd_now r (rd_step r)) (rd_keys r) = Inr (x, ks) \<and>
       r' = r\<lparr>rd_step := Suc (rd_step r), rd_keys := ks\<rparr>)"
  by (auto simp: run_command split: option.splits sum.splits)

lemmas redis_defs = redis_Get_def redis_Set_def redis_Expire_def redis_Del_def redis_Incr_def
  redis_TTL_def redis_RPush_def redis_LRange_all_def redis_SAdd_def redis_SRem_def
  redis_SIsMember_def redis_SMembers_def redis_SCard_def redis_ZAdd_def redis_ZRem_def
  redis_ZRangeTo_def redis_HSet_def redis_HDel_def redis_HLen_def redis_HGetAll_def

text \<open>A command touches only its own keys, and what the other clients see of the rest stays.\<close>

definition only_key :: "string \<Rightarrow> keyspace \<Rightarrow> redis \<Rightarrow> bool" where
  "only_key k ks r \<longleftrightarrow> (\<forall>k'. k' \<noteq> k \<longrightarrow> rd_keys r k' = ks k')"

lemma keeps_only_key_command:
  assumes "\<And>now ks' x ks''. f now ks' = Inr (x, ks'') \<Longrightarrow> \<forall>k'. k' \<noteq> k \<longrightarrow> ks'' k' = ks' k'"
  shows "keeps (only_key k ks) (command f)"
  using assms by (fastforce simp: keeps_def run_command only_key_def split: option.splits sum.splits)

lemma keeps_only_key [keeps_intros]:
  "keeps (only_key k ks) (redis_Get k')"
  "keeps (only_key k ks) (redis_Set k v ttl)"
  "keeps (only_key k ks) (redis_Expire k ttl)"
  "keeps (only_key k ks) (redis_Del [k])"
  "keeps (only_key k ks) (redis_Incr k)"
  "keeps (only_key k ks) (redis_TTL k')"
  "keeps (only_key k ks) (redis_RPush k v)"
  "keeps (only_key k ks) (redis_LRange_all k')"
  "keeps (only_key k ks) (redis_SAdd k x)"
  "keeps (only_key k ks) (redis_SRem k x)"
  "keeps (only_key k ks) (redis_ZAdd k i x)"
  "keeps (only_key k ks) (redis_ZRem k x)"
  "keeps (only_key k ks) (redis_HSet k x v)"
  "keeps (only_key k ks) (redis_HDel k x)"
  unfolding redis_defs
  by (rule keeps_only_key_command;
      auto simp: expire_key_def incr_key_def map_sum_def redis_keep_def Let_def
        split: option.splits prod.splits redis_value.splits sum.splits if_splits)+

lemma keeps_pipeline [keeps_intros]: "(\<And>c. c \<in> set cs \<Longrightarrow> keeps I c) \<Longrightarrow> keeps I (pipeline cs)"
  by (induction cs) (auto intro!: keeps_intros)

text \<open>An empty server whose clock counts up and that never fails.\<close>

definition empty_redis :: redis where
  "empty_redis = \<lparr>rd_keys = (\<lambda>_. None), rd_step = 0, rd_now = int, rd_fault = (\<lambda>_. None)\<rparr>"

end
