(* ===== verification/CallService.thy ===== *)
theory CallService
  imports CallRepo EventPublisher Redis Samples
begin

text \<open>
  \<^verbatim>\<open>internal/redis/signaling.go\<close> and \<^verbatim>\<open>internal/services/call_service.go\<close>: the state of a call in
  Redis, the signaling messages stored there, and the operations on calls, which work on the
  database and on Redis. An operation acts on the pair of both; \<^verbatim>\<open>time.Now\<close> is the clock of the
  first, the times of expiry follow the clock of the second.
\<close>

type_synonym 'a svc = "(world \<times> redis, error + 'a) state"

section \<open>Signaling store\<close>

record ICECandidate =
  ice_Candidate :: string
  ice_SDPMid :: string
  ice_SDPMLineIndex :: int

record SignalingMessage =
  sig_Type :: string
  sig_CallID :: string
  sig_FromID :: string
  sig_ToID :: string
  sig_SDP :: string
  sig_Candidate :: "ICECandidate option"
  sig_Timestamp :: time

text \<open>A nil map is \<open>None\<close>; \<^verbatim>\<open>ConnectedAt\<close> is a pointer.\<close>

record CallState =
  cst_CallID :: string
  cst_ConversationID :: string
  cst_InitiatorID :: string
  cst_CallType :: string
  cst_Status :: string
  cst_Participants :: "(string \<times> string) list option"
  cst_StartedAt :: time
  cst_ConnectedAt :: "time option"

definition candidate_json :: "ICECandidate \<Rightarrow> json" where
  "candidate_json c = JObj [(''candidate'', JStr (ice_Candidate c)), (''sdp_mid'', JStr (ice_SDPMid c)),
     (''sdp_mline_index'', JNum (ice_SDPMLineIndex c))]"

definition signaling_json :: "SignalingMessage \<Rightarrow> json" where
  "signaling_json m = JObj ([(''type'', JStr (sig_Type m)), (''call_id'', JStr (sig_CallID m)),
     (''from_id'', JStr (sig_FromID m)), (''to_id'', JStr (sig_ToID m))] @
     (if sig_SDP m = [] then [] else [(''sdp'', JStr (sig_SDP m))]) @
     (case sig_Candidate m of None \<Rightarrow> [] | Some c \<Rightarrow> [(''candidate'', candidate_json c)]) @
     [(''timestamp'', JTime (sig_Timestamp m))])"

definition string_map_json :: "(string \<times> string) list option \<Rightarrow> json" where
  "string_map_json m = (case m of None \<Rightarrow> JNull
     | Some xs \<Rightarrow> JObj (map (\<lambda>(k, v). (k, JStr v)) (sort_key fst xs)))"

definition call_state_json :: "CallState \<Rightarrow> json" where
  "call_state_json s = JObj ([(''call_id'', JStr (cst_CallID s)),
     (''conversation_id'', JStr (cst_ConversationID s)), (''initiator_id'', JStr (cst_InitiatorID s)),
     (''call_type'', JStr (cst_CallType s)), (''status'', JStr (cst_Status s)),
     (''participants'', string_map_json (cst_Participants s)),
     (''started_at'', JTime (cst_StartedAt s))] @
     (case cst_ConnectedAt s of None \<Rightarrow> [] | Some t \<Rightarrow> [(''connected_at'', JTime t)]))"

fun string_entries :: "(string \<times> json) list \<Rightarrow> (string \<times> string) list option" where
  "string_entries [] = Some []"
| "string_entries ((k, v) # fs) =
     Option.bind (as_string v) (\<lambda>s. Option.bind (string_entries fs) (\<lambda>xs. Some ((k, s) # xs)))"

fun as_string_map :: "json \<Rightarrow> (string \<times> string) list option option" where
  "as_string_map JNull = Some None"
| "as_string_map (JObj fs) = map_option Some (string_entries fs)"
| "as_string_map _ = None"

fun as_time_pointer :: "json \<Rightarrow> time option option" where
  "as_time_pointer JNull = Some None"
| "as_time_pointer (JTime t) = Some (Some t)"
| "as_time_pointer _ = None"

fun decode_CallState :: "json \<Rightarrow> CallState option" where
  "decode_CallState (JObj fs) =
     Option.bind (as_string (field fs ''call_id'')) (\<lambda>i.
     Option.bind (as_string (field fs ''conversation_id'')) (\<lambda>c.
     Option.bind (as_string (field fs ''initiator_id'')) (\<lambda>u.
     Option.bind (as_string (field fs ''call_type'')) (\<lambda>ty.
     Option.bind (as_string (field fs ''status'')) (\<lambda>st.
     Option.bind (as_string_map (field fs ''participants'')) (\<lambda>ps.
     Option.bind (as_time (field fs ''started_at'')) (\<lambda>t.
     Option.bind (as_time_pointer (field fs ''connected_at'')) (\<lambda>ca.
       Some \<lparr>cst_CallID = i, cst_ConversationID = c, cst_InitiatorID = u, cst_CallType = ty,
         cst_Status = st, cst_Participants = ps, cst_StartedAt = t, cst_ConnectedAt = ca\<rparr>))))))))"
| "decode_CallState JNull = Some \<lparr>cst_CallID = [], cst_ConversationID = [], cst_InitiatorID = [],
     cst_CallType = [], cst_Status = [], cst_Participants = None, cst_StartedAt = 0,
     cst_ConnectedAt = None\<rparr>"
| "decode_CallState _ = None"

definition signalingTTL :: duration where "signalingTTL = 5 * Minute"

definition call_state_key :: "string \<Rightarrow> string" where
  "call_state_key callID = ''call:state:'' @ callID"

definition candidates_key :: "string \<Rightarrow> string \<Rightarrow> string \<Rightarrow> string" where
  "candidates_key callID fromID toID =
     ''call:candidates:'' @ callID @ '':'' @ fromID @ '':'' @ toID"

definition CreateCallState :: "CallState \<Rightarrow> unit svc" where
  "CreateCallState s =
     on_bus (redis_Set (call_state_key (cst_CallID s)) (call_state_json s) signalingTTL)"

text \<open>A missing state is \<open>None\<close>. A counter's text is not the JSON object of a call state.\<close>

definition GetCallState :: "string \<Rightarrow> CallState option svc" where
  "GetCallState callID =
     andThen (on_bus (redis_Get (call_state_key callID))) (\<lambda>data.
       case data of
         None \<Rightarrow> ok None
       | Some (RJson j) \<Rightarrow>
           (case decode_CallState j of
              None \<Rightarrow> fail (OtherError ''json: cannot unmarshal'')
            | Some s \<Rightarrow> ok (Some s))
       | Some _ \<Rightarrow> fail (OtherError ''json: cannot unmarshal''))"

definition UpdateCallState :: "CallState \<Rightarrow> unit svc" where
  "UpdateCallState s = CreateCallState s"

definition UpdateCallStatus :: "string \<Rightarrow> string \<Rightarrow> unit svc" where
  "UpdateCallStatus callID status =
     andThen (GetCallState callID) (\<lambda>state.
       case state of
         None \<Rightarrow> fail (OtherError (''call not found: '' @ callID))
       | Some s \<Rightarrow>
           if status = ''CONNECTED'' then do {
             now \<leftarrow> on_store time_Now;
             UpdateCallState (s\<lparr>cst_Status := status, cst_ConnectedAt := Some now\<rparr>)
           }
           else UpdateCallState (s\<lparr>cst_Status := status\<rparr>))"

definition sig_AddParticipant :: "string \<Rightarrow> string \<Rightarrow> string \<Rightarrow> unit svc" where
  "sig_AddParticipant callID userID status =
     andThen (GetCallState callID) (\<lambda>state.
       case state of
         None \<Rightarrow> fail (OtherError (''call not found: '' @ callID))
       | Some s \<Rightarrow>
           (let participants = (case cst_Participants s of None \<Rightarrow> [] | Some ps \<Rightarrow> ps)
            in UpdateCallState (s\<lparr>cst_Participants := Some (map_put userID status participants)\<rparr>)))"

definition RemoveCallState :: "string \<Rightarrow> unit svc" where
  "RemoveCallState callID = on_bus (redis_Del [call_state_key callID])"

definition storeSignalingMessage :: "SignalingMessage \<Rightarrow> unit svc" where
  "storeSignalingMessage m =
     (let key = ''call:signal:'' @ sig_CallID m @ '':'' @ sig_ToID m
      in on_bus (pipeline [redis_RPush key (signaling_json m), redis_Expire key signalingTTL]))"

definition storeICECandidate :: "string \<Rightarrow> string \<Rightarrow> string \<Rightarrow> ICECandidate \<Rightarrow> unit svc" where
  "storeICECandidate callID fromID toID candidate =
     (let key = candidates_key callID fromID toID
      in on_bus (pipeline [redis_RPush key (candidate_json candidate), redis_Expire key signalingTTL]))"

definition sig_SendOffer :: "string \<Rightarrow> string \<Rightarrow> string \<Rightarrow> string \<Rightarrow> unit svc" where
  "sig_SendOffer callID fromID toID sdp = do {
     now \<leftarrow> on_store time_Now;
     storeSignalingMessage \<lparr>sig_Type = ''offer'', sig_CallID = callID, sig_FromID = fromID,
       sig_ToID = toID, sig_SDP = sdp, sig_Candidate = None, sig_Timestamp = now\<rparr>
   }"

definition sig_SendAnswer :: "string \<Rightarrow> string \<Rightarrow> string \<Rightarrow> string \<Rightarrow> unit svc" where
  "sig_SendAnswer callID fromID toID sdp = do {
     now \<leftarrow> on_store time_Now;
     storeSignalingMessage \<lparr>sig_Type = ''answer'', sig_CallID = callID, sig_FromID = fromID,
       sig_ToID = toID, sig_SDP = sdp, sig_Candidate = None, sig_Timestamp = now\<rparr>
   }"

definition sig_SendICECandidate :: "string \<Rightarrow> string \<Rightarrow> string \<Rightarrow> ICECandidate \<Rightarrow> unit svc" where
  "sig_SendICECandidate callID fromID toID candidate = do {
     now \<leftarrow> on_store time_Now;
     _ \<leftarrow> storeICECandidate callID fromID toID candidate;
     storeSignalingMessage \<lparr>sig_Type = ''ice_candidate'', sig_CallID = callID,
       sig_FromID = fromID, sig_ToID = toID, sig_SDP = [], sig_Candidate = Some candidate,
       sig_Timestamp = now\<rparr>
   }"

definition ClearICECandidates :: "string \<Rightarrow> string \<Rightarrow> string \<Rightarrow> unit svc" where
  "ClearICECandidates callID fromID toID = on_bus (redis_Del [candidates_key callID fromID toID])"

text \<open>\<^verbatim>\<open>SendCallEnded\<close> does nothing.\<close>

definition SendCallEnded :: "string \<Rightarrow> string \<Rightarrow> unit svc" where
  "SendCallEnded callID reason = ok ()"

definition SendCallRinging :: "string \<Rightarrow> string \<Rightarrow> string list \<Rightarrow> unit svc" where
  "SendCallRinging callID initiatorID participantIDs = ok ()"

text \<open>The user name, the password and the time they expire. The secret is not used.\<close>

definition GenerateTURNCredentials :: "string \<Rightarrow> string \<Rightarrow> duration \<Rightarrow> (world \<times> redis, string \<times> string \<times> time) state" where
  "GenerateTURNCredentials userID turnSecret ttl = do {
     now \<leftarrow> on_store time_Now;
     let timestamp = (now + ttl) div Second;
     i \<leftarrow> on_store uuid_New;
     now' \<leftarrow> on_store time_Now;
     State_Monad.return (Itoa timestamp @ '':'' @ userID, ''turn_'' @ take 8 (uuid_String i) @ ''_'' @ Itoa timestamp,
       now' + ttl)
   }"

definition GetActiveCallsForUser :: "string \<Rightarrow> string list svc" where
  "GetActiveCallsForUser userID = ok []"

definition ExtendCallTTL :: "string \<Rightarrow> duration \<Rightarrow> unit svc" where
  "ExtendCallTTL callID ttl = on_bus (redis_Expire (call_state_key callID) ttl)"

section \<open>Call service\<close>

record CallService =
  clv_db :: DBTX
  clv_repo :: DBTX
  clv_signalingStore :: bool
  clv_eventPublisher :: "DBTX option"

text \<open>\<^verbatim>\<open>Create\<close> sets the identifier of the call it is given; the call it created is the value.\<close>

definition callSvc_Create :: "CallService \<Rightarrow> Call \<Rightarrow> Call svc" where
  "callSvc_Create s c0 = do {
     i \<leftarrow> (if call_ID c0 = uuid_Nil then on_store uuid_New else State_Monad.return (call_ID c0));
     let c = c0\<lparr>call_ID := i\<rparr>;
     andThen (on_store (callRepo_Create (clv_repo s) c)) (\<lambda>_.
       if clv_signalingStore s then do {
         _ \<leftarrow> CreateCallState \<lparr>cst_CallID = uuid_String i,
           cst_ConversationID = uuid_String (call_ConversationID c),
           cst_InitiatorID = uuid_String (call_InitiatedBy c), cst_CallType = call_Type c,
           cst_Status = ''RINGING'',
           cst_Participants = Some [(uuid_String (call_InitiatedBy c), ''JOINED'')],
           cst_StartedAt = call_StartedAt c, cst_ConnectedAt = None\<rparr>;
         ok c
       }
       else ok c)
   }"

definition callSvc_MarkConnected :: "CallService \<Rightarrow> uuid \<Rightarrow> unit svc" where
  "callSvc_MarkConnected s i =
     andThen (on_store (callRepo_MarkConnected (clv_repo s) i)) (\<lambda>_.
       if clv_signalingStore s then UpdateCallStatus (uuid_String i) ''CONNECTED'' else ok ())"

text \<open>The event of an operation, in a transaction of its own.\<close>

definition publishing :: "CallService \<Rightarrow> (DBTX \<Rightarrow> DBTX \<Rightarrow> unit go) \<Rightarrow> unit svc" where
  "publishing s publish =
     (case clv_eventPublisher s of
        Some p \<Rightarrow> if clv_db s \<noteq> NilDB then on_store (WithTx (clv_db s) (publish p)) else ok ()
      | None \<Rightarrow> ok ())"

definition callSvc_EndCall :: "CallService \<Rightarrow> uuid \<Rightarrow> string \<Rightarrow> unit svc" where
  "callSvc_EndCall s i reason =
     (if reason = [] then fail ErrInvalidInput
      else
        andThen (on_store (callRepo_GetByID (clv_repo s) i)) (\<lambda>call.
        andThen (on_store (callRepo_EndCall (clv_repo s) i reason)) (\<lambda>_. do {
          _ \<leftarrow> (if clv_signalingStore s then do {
                  _ \<leftarrow> SendCallEnded (uuid_String i) reason;
                  RemoveCallState (uuid_String i)
                } else ok ());
          (if clv_eventPublisher s \<noteq> None \<and> clv_db s \<noteq> NilDB then do {
             r \<leftarrow> on_store (callRepo_GetCallDuration (clv_repo s) i);
             let duration = (case r of Inl _ \<Rightarrow> 0 | Inr d \<Rightarrow> d);
             publishing s (\<lambda>p tx. PublishCallEnded p tx i (call_ConversationID call)
               (call_InitiatedBy call) reason duration)
           } else ok ())
        })))"

definition callSvc_SendOffer :: "CallService \<Rightarrow> uuid \<Rightarrow> uuid \<Rightarrow> uuid \<Rightarrow> string \<Rightarrow> unit svc" where
  "callSvc_SendOffer s callID fromID toID sdp =
     (if \<not> clv_signalingStore s then fail ErrInvalidInput
      else if callID = uuid_Nil \<or> fromID = uuid_Nil \<or> toID = uuid_Nil \<or> sdp = []
      then fail ErrInvalidInput
      else
        andThen (sig_SendOffer (uuid_String callID) (uuid_String fromID) (uuid_String toID) sdp) (\<lambda>_.
        publishing s (\<lambda>p tx. PublishCallOffer p tx callID fromID toID sdp)))"

definition callSvc_SendAnswer :: "CallService \<Rightarrow> uuid \<Rightarrow> uuid \<Rightarrow> uuid \<Rightarrow> string \<Rightarrow> unit svc" where
  "callSvc_SendAnswer s callID fromID toID sdp =
     (if \<not> clv_signalingStore s then fail ErrInvalidInput
      else if callID = uuid_Nil \<or> fromID = uuid_Nil \<or> toID = uuid_Nil \<or> sdp = []
      then fail ErrInvalidInput
      else
        andThen (sig_SendAnswer (uuid_String callID) (uuid_String fromID) (uuid_String toID) sdp) (\<lambda>_.
        andThen (UpdateCallStatus (uuid_String callID) ''CONNECTED'') (\<lambda>_.
        publishing s (\<lambda>p tx. PublishCallAnswer p tx callID fromID toID sdp))))"

definition callSvc_SendICECandidate ::
  "CallService \<Rightarrow> uuid \<Rightarrow> uuid \<Rightarrow> uuid \<Rightarrow> string \<Rightarrow> string \<Rightarrow> int \<Rightarrow> unit svc" where
  "callSvc_SendICECandidate s callID fromID toID candidate sdpMid sdpMLineIndex =
     (if \<not> clv_signalingStore s then fail ErrInvalidInput
      else if callID = uuid_Nil \<or> fromID = uuid_Nil \<or> toID = uuid_Nil \<or> candidate = []
      then fail ErrInvalidInput
      else
        andThen (sig_SendICECandidate (uuid_String callID) (uuid_String fromID) (uuid_String toID)
          \<lparr>ice_Candidate = candidate, ice_SDPMid = sdpMid, ice_SDPMLineIndex = sdpMLineIndex\<rparr>) (\<lambda>_.
        publishing s (\<lambda>p tx. PublishCallICE p tx callID fromID toID candidate)))"

section \<open>Call state\<close>

lemma string_entries_map [simp]: "string_entries (map (\<lambda>(k, v). (k, JStr v)) xs) = Some xs"
  by (induction xs) auto

lemma as_string_map_json [simp]:
  "as_string_map (string_map_json m) = Some (map_option (sort_key fst) m)"
  by (cases m) (simp_all add: string_map_json_def)

lemma decode_call_state_json [simp]:
  "decode_CallState (call_state_json st) =
     Some (st\<lparr>cst_Participants := map_option (sort_key fst) (cst_Participants st)\<rparr>)"
  by (cases "cst_ConnectedAt st") (simp_all add: call_state_json_def field_def)

text \<open>
  The state of a call survives its way through Redis: decoding its JSON text gives the same
  state, with the participants in the order of their keys, which a Go map does not have.
\<close>

theorem CallState_roundtrip:
  "decode_CallState (call_state_json st) =
     Some (st\<lparr>cst_Participants := map_option (sort_key fst) (cst_Participants st)\<rparr>)"
  by (rule decode_call_state_json)

text \<open>
  After \<open>Create\<close> the call is stored in the database and, for the next five minutes, Redis
  holds its state: ringing, with the initiator as the only participant, as joined.
\<close>

theorem Create_rings:
  assumes run: "run_state (callSvc_Create s c0) (w, r) = (Inr c, (w', r'))"
    and "clv_repo s = Pool" "clv_signalingStore s" "rd_fault r = (\<lambda>_. None)"
    and soon: "rd_now r (rd_step r') < rd_now r (rd_step r) + 5 * Minute"
  shows "c \<in> set (t_calls (w_db w')) \<and>
    (\<exists>st r2. run_state (GetCallState (uuid_String (call_ID c))) (w', r') = (Inr (Some st), (w', r2)) \<and>
       cst_Status st = ''RINGING'' \<and> cst_CallID st = uuid_String (call_ID c) \<and>
       cst_Participants st = Some [(uuid_String (call_InitiatedBy c), ''JOINED'')])"
proof -
  have *: "run_state (callRepo_Create Pool c) w1 = (Inr u, w2) \<Longrightarrow> c \<in> set (t_calls (w_db w2))"
    for c w1 w2 u
    by (auto simp: callRepo_Create_def mapErr_Inr sql_Inr checked_def insert_into_def on_table_def
        insert_row_def simp del: run_mapErr split: if_splits sum.splits)
  have "c \<in> set (t_calls (w_db (snd (run_state (callRepo_Create Pool c) w1))))"
    if "fst (run_state (callRepo_Create Pool c) w1) = Inr ()" for c w1
    using that * by (metis prod.collapse)
  with assms(2-4) run soon show ?thesis
    by (auto simp: callSvc_Create_def CreateCallState_def redis_Set_def run_command GetCallState_def
        redis_Get_def live_def signalingTTL_def Let_def
        simp del: run_mapErr split: sum.splits if_splits prod.splits)
qed

definition sample_call :: Call where
  "sample_call = \<lparr>call_ID = 700, call_ConversationID = 5, call_InitiatedBy = 1, call_Type = ''AUDIO'',
     call_Topology = ''P2P'', call_IsGroupCall = False, call_StartedAt = 0,
     call_ConnectedAt = Some 0, call_EndedAt = None, call_EndReason = None,
     call_DurationSeconds = None, call_CreatedAt = 0\<rparr>"

definition call_world :: world where
  "call_world = sample_world\<lparr>w_db := sample_tables\<lparr>t_calls := [sample_call]\<rparr>\<rparr>"

definition sample_redis :: redis where
  "sample_redis = \<lparr>rd_keys = (\<lambda>_. None), rd_step = 0, rd_now = int, rd_fault = (\<lambda>_. None)\<rparr>"

definition sample_call_service :: CallService where
  "sample_call_service = \<lparr>clv_db = Pool, clv_repo = Pool, clv_signalingStore = True,
     clv_eventPublisher = Some Pool\<rparr>"

lemmas call_sample_defs = sample_call_def call_world_def sample_redis_def sample_call_service_def

lemma Create_rings_witness:
  "\<exists>w' r' st r2. run_state (callSvc_Create sample_call_service sample_call)
       (call_world\<lparr>w_db := sample_tables\<rparr>, sample_redis) = (Inr sample_call, (w', r')) \<and>
     run_state (GetCallState (uuid_String 700)) (w', r') = (Inr (Some st), (w', r2)) \<and>
     cst_Status st = ''RINGING''"
proof -
  let ?w = "call_world\<lparr>w_db := sample_tables\<rparr>"
  obtain w' r' where run: "run_state (callSvc_Create sample_call_service sample_call) (?w, sample_redis) =
      (Inr sample_call, (w', r'))" and step: "rd_step r' = 1"
    by (simp add: callSvc_Create_def CreateCallState_def redis_Set_def run_command callRepo_Create_def
        call_typed_def call_refs_def call_type_enum_def call_topology_enum_def exec_simps
        call_sample_defs sample_defs)
  have "clv_repo sample_call_service = Pool" "clv_signalingStore sample_call_service"
    "rd_fault sample_redis = (\<lambda>_. None)"
    "rd_now sample_redis (rd_step r') < rd_now sample_redis (rd_step sample_redis) + 5 * Minute"
    "call_ID sample_call = 700"
    using step by (simp_all add: call_sample_defs)
  then show ?thesis
    using Create_rings [OF run] run by metis
qed

section \<open>Ending a call\<close>

lemma call_by_ID:
  "clash_free call_clash cs \<Longrightarrow> c \<in> set cs \<Longrightarrow> filter (\<lambda>x. call_ID x = call_ID c) cs = [c]"
  by (rule calls_key.filter_key) (auto simp: call_clash_def)

definition ended :: "time \<Rightarrow> string \<Rightarrow> Call \<Rightarrow> Call list \<Rightarrow> Call list" where
  "ended now reason c cs = map_where (\<lambda>x. call_ID x = call_ID c) (end_call now reason c) cs"

lemma ended_by_ID:
  assumes "clash_free call_clash cs" "c \<in> set cs"
  shows "filter (\<lambda>x. call_ID x = call_ID c) (ended now reason c cs) = [end_call now reason c c]"
proof -
  have "filter (\<lambda>x. call_ID x = call_ID c) (ended now reason c cs) =
      map (end_call now reason c) (filter (\<lambda>x. call_ID x = call_ID c) cs)"
    unfolding ended_def map_where_def by (induction cs) (auto simp: end_call_def)
  with call_by_ID [OF assms] show ?thesis by simp
qed

lemma ended_as_map:
  assumes "clash_free call_clash cs" "c \<in> set cs"
  shows "ended now reason c cs = map (\<lambda>x. if call_ID x = call_ID c then end_call now reason c c else x) cs"
proof -
  have "x = c" if "x \<in> set cs" "call_ID x = call_ID c" for x
  proof -
    from that have "x \<in> set (filter (\<lambda>x. call_ID x = call_ID c) cs)" by simp
    then show ?thesis by (simp add: call_by_ID [OF assms])
  qed
  then show ?thesis by (auto simp: ended_def map_where_def)
qed

text \<open>The stored number of seconds, where it fits into 32 bits\<close>

lemma int32_seconds_bounds:
  assumes "0 \<le> d" "d < 2 ^ 31 * 1000000000"
  shows "int32_seconds d * 1000000000 \<le> d \<and> d < (int32_seconds d + 1) * 1000000000"
proof -
  have "- (2 ^ 31) \<le> d div 1000000000" "d div 1000000000 < 2 ^ 31" using assms by auto
  then have "signed_take_bit 31 (d div 1000000000) = d div 1000000000"
    using signed_take_bit_int_eq_self_iff [of 31 "d div 1000000000"] by simp
  moreover from assms(1) have "sgn d * (\<bar>d\<bar> div 1000000000) = d div 1000000000" by (cases "d = 0") auto
  ultimately show ?thesis by (simp add: int32_seconds_def) presburger
qed

text \<open>
  The two halves of \<open>EndCall\<close> on a database that answers: the transaction that ends the call,
  and the reading of its duration.
\<close>

lemma run_repo_EndCall:
  assumes "\<And>n. n < 5 \<Longrightarrow> w_fault w (w_step w + n) = None" and "clash_free call_clash (t_calls (w_db w))"
    and "c \<in> set (t_calls (w_db w))" and "reason \<in> set call_end_reason_enum"
  shows "run_state (callRepo_EndCall Pool (call_ID c) reason) w =
    (Inr (), w\<lparr>w_step := w_step w + 5, w_tx := None,
       w_db := t_calls_update (\<lambda>_. ended (w_now w (w_step w)) reason c (t_calls (w_db w))) (w_db w)\<rparr>)"
proof -
  let ?w1 = "w\<lparr>w_step := Suc (w_step w)\<rparr>"
  let ?w2 = "w\<lparr>w_step := w_step w + 4,
    w_tx := Some (t_calls_update (\<lambda>_. ended (w_now w (w_step w)) reason c (t_calls (w_db w))) (w_db w), False)\<rparr>"
  have no_fault: "w_fault w (Suc (w_step w)) = None" "w_fault w (Suc (Suc (w_step w))) = None"
    "w_fault w (Suc (Suc (Suc (w_step w)))) = None" "w_fault w (Suc (Suc (Suc (Suc (w_step w))))) = None"
    using assms(1) [of 1] assms(1) [of 2] assms(1) [of 3] assms(1) [of 4]
    by (simp_all add: eval_nat_numeral)
  have "run_state (WithTx Pool (\<lambda>tx.
       andThen (callRepo_GetByID tx (call_ID c)) (\<lambda>x.
       void (sql tx (checked InvalidText (\<lambda>_. typed [(reason, call_end_reason_enum)])
         (on_table t_calls t_calls_update
           (update_where (\<lambda>r. call_ID r = call_ID c) (end_call (w_now w (w_step w)) reason x)))))))) ?w1 =
     (Inr (), ?w2\<lparr>w_step := Suc (w_step ?w2), w_tx := None,
        w_db := t_calls_update (\<lambda>_. ended (w_now w (w_step w)) reason c (t_calls (w_db w))) (w_db w)\<rparr>)"
    using no_fault assms(2-4)
    by (intro run_WithTx_success)
      (simp_all add: callRepo_GetByID_def queryRow_def run_sql_Tx query_def call_by_ID void_def
        checked_def typed_def on_table_def update_where_def ended_def eval_nat_numeral)
  then show ?thesis
    by (simp add: callRepo_EndCall_def time_Now_def eval_nat_numeral)
qed

definition duration_of :: "Call \<Rightarrow> int" where
  "duration_of c = (case call_DurationSeconds c of None \<Rightarrow> 0 | Some d \<Rightarrow> d)"

text \<open>The world after the call is ended and its duration read, seven steps later.\<close>

definition after_end :: "string \<Rightarrow> Call \<Rightarrow> world \<Rightarrow> world" where
  "after_end reason c w = w\<lparr>w_step := w_step w + 7, w_tx := None,
     w_db := t_calls_update (\<lambda>_. ended (w_now w (w_step w + 1)) reason c (t_calls (w_db w))) (w_db w)\<rparr>"

lemma run_EndCall_until_publish:
  assumes "clv_db s = Pool" "clv_repo s = Pool" "clv_eventPublisher s = Some p"
    and "\<And>n. n < 7 \<Longrightarrow> w_fault w (w_step w + n) = None"
    and "clash_free call_clash (t_calls (w_db w))" "c \<in> set (t_calls (w_db w))"
    and "reason \<in> set call_end_reason_enum"
  shows "\<exists>r1. run_state (callSvc_EndCall s (call_ID c) reason) (w, r) =
    (case run_state (WithTx Pool (\<lambda>tx. PublishCallEnded p tx (call_ID c) (call_ConversationID c)
       (call_InitiatedBy c) reason (duration_of (end_call (w_now w (w_step w + 1)) reason c c)))) (after_end reason c w)
     of (x, w') \<Rightarrow> (x, (w', r1))) \<and>
    (clv_signalingStore s \<longrightarrow> rd_fault r (rd_step r) = None \<longrightarrow>
      rd_keys r1 = (rd_keys r)(call_state_key (uuid_String (call_ID c)) := None))"
proof -
  have f0: "w_fault w (w_step w) = None" and f6: "w_fault w (w_step w + 6) = None"
    using assms(4) [of 0] assms(4) [of 6] by simp_all
  have get: "run_state (callRepo_GetByID Pool (call_ID c)) w = (Inr c, tick w)"
    using f0 call_by_ID [OF assms(5,6)]
    by (simp add: callRepo_GetByID_def mapErr_Inr queryRow_Inr visible_def del: run_mapErr)
  let ?w6 = "(tick w)\<lparr>w_step := w_step w + 6, w_tx := None,
    w_db := t_calls_update (\<lambda>_. ended (w_now w (w_step w + 1)) reason c (t_calls (w_db w))) (w_db w)\<rparr>"
  have stop: "run_state (callRepo_EndCall Pool (call_ID c) reason) (tick w) = (Inr (), ?w6)"
    using run_repo_EndCall [of "tick w" c reason] assms(4) [of "Suc n" for n] assms(5-7)
    by (simp add: eval_nat_numeral)
  have dur: "run_state (callRepo_GetCallDuration Pool (call_ID c)) ?w6 =
      (Inr (duration_of (end_call (w_now w (w_step w + 1)) reason c c)), after_end reason c w)"
    using f6 ended_by_ID [OF assms(5,6), of "w_now w (w_step w + 1)" reason]
    by (simp add: callRepo_GetCallDuration_def queryRow_def run_sql_Pool query_def duration_of_def
        after_end_def tick_def eval_nat_numeral split: option.split)
  have "reason \<noteq> []" using assms(7) by (auto simp: call_end_reason_enum_def)
  then show ?thesis
    using assms(1-3) get stop dur
    by (cases "clv_signalingStore s")
      (auto simp: callSvc_EndCall_def publishing_def SendCallEnded_def RemoveCallState_def
        redis_Del_def run_command split: prod.split option.split)
qed

text \<open>
  C26. On a database that answers, ending an existing call with a reason of the schema succeeds.
  The row of the call gets its end, which is a time that the clock showed meanwhile, its reason and, if it was
  connected, the whole seconds from the connection to the end, as far as they fit into 32 bits; the rest of
  the row and every other call stay as they were. One pending event reports the duration of the row to the
  conversation; and Redis forgets the state of the call, if it answers too.
\<close>

theorem EndCall_ends:
  assumes "clv_db s = Pool" "clv_repo s = Pool" "clv_eventPublisher s = Some p"
    and "w_fault w = (\<lambda>_. None)" "fresh_events w"
    and "clash_free call_clash (t_calls (w_db w))" "c \<in> set (t_calls (w_db w))"
    and "reason \<in> set call_end_reason_enum"
  shows "\<exists>w' r' n e b seconds. run_state (callSvc_EndCall s (call_ID c) reason) (w, r) = (Inr (), (w', r')) \<and>
    w_step w \<le> n \<and> n < w_step w' \<and>
    w_db w' = (w_db w)\<lparr>t_calls := map (\<lambda>x. if call_ID x = call_ID c
        then c\<lparr>call_EndedAt := Some (w_now w n), call_EndReason := Some reason, call_DurationSeconds := seconds\<rparr>
        else x) (t_calls (w_db w)), t_outbox := t_outbox (w_db w) @ [e]\<rparr> \<and>
    (call_ConnectedAt c = None \<longrightarrow> seconds = call_DurationSeconds c) \<and>
    (\<forall>connected. call_ConnectedAt c = Some connected \<and> connected \<le> w_now w n \<and>
        w_now w n - connected < 2 ^ 31 * 1000000000 \<longrightarrow>
      (\<exists>d. seconds = Some d \<and> connected + d * 1000000000 \<le> w_now w n \<and> w_now w n < connected + (d + 1) * 1000000000)) \<and>
    pending_event (CallEnded \<lparr>cee_Base = b, cee_CallID = call_ID c,
      cee_ConversationID = call_ConversationID c, cee_EndedBy = call_InitiatedBy c,
      cee_Reason = reason, cee_Duration = (case seconds of None \<Rightarrow> 0 | Some d \<Rightarrow> d)\<rparr>) e \<and>
    (clv_signalingStore s \<longrightarrow> rd_fault r (rd_step r) = None \<longrightarrow>
      rd_keys r' (call_state_key (uuid_String (call_ID c))) = None)"
proof -
  let ?n = "w_step w + 1" and ?w = "after_end reason c w"
  let ?row = "end_call (w_now w ?n) reason c c"
  let ?event = "\<lambda>b. CallEnded \<lparr>cee_Base = b, cee_CallID = call_ID c,
      cee_ConversationID = call_ConversationID c, cee_EndedBy = call_InitiatedBy c,
      cee_Reason = reason, cee_Duration = duration_of ?row\<rparr>"
  obtain b e where e: "pending_event (?event b) e" and pub: "run_state (WithTx Pool (\<lambda>tx.
        PublishCallEnded p tx (call_ID c) (call_ConversationID c)
          (call_InitiatedBy c) reason (duration_of ?row))) ?w =
      (Inr (), ?w\<lparr>w_step := w_step ?w + 7, w_tx := None,
        w_db := (w_db ?w)\<lparr>t_outbox := t_outbox (w_db ?w) @ [e]\<rparr>\<rparr>)"
    unfolding PublishCallEnded_def
    by (rule run_publish_alone [of ?w ?event EventCallEnded])
      (use assms(4,5) in \<open>auto simp: after_end_def fresh_events_def event_Type_def\<close>)
  obtain w' r' where run: "run_state (callSvc_EndCall s (call_ID c) reason) (w, r) = (Inr (), (w', r'))"
    and w': "?n < w_step w'" "w_db w' = (w_db w)\<lparr>t_calls := ended (w_now w ?n) reason c (t_calls (w_db w)),
      t_outbox := t_outbox (w_db w) @ [e]\<rparr>"
    and redis: "clv_signalingStore s \<longrightarrow> rd_fault r (rd_step r) = None \<longrightarrow>
      rd_keys r' (call_state_key (uuid_String (call_ID c))) = None"
    using run_EndCall_until_publish [OF assms(1-3) _ assms(6-8), of r] assms(4) pub
    by (fastforce simp: after_end_def)
  obtain seconds where row: "?row = c\<lparr>call_EndedAt := Some (w_now w ?n), call_EndReason := Some reason,
      call_DurationSeconds := seconds\<rparr>"
    and seconds: "call_ConnectedAt c = None \<Longrightarrow> seconds = call_DurationSeconds c"
      "\<And>t. call_ConnectedAt c = Some t \<Longrightarrow> seconds = Some (int32_seconds (w_now w ?n - t))"
    by (cases "call_ConnectedAt c") (simp_all add: end_call_def)
  have stored: "\<exists>d. seconds = Some d \<and> t + d * 1000000000 \<le> w_now w ?n \<and> w_now w ?n < t + (d + 1) * 1000000000"
    if "call_ConnectedAt c = Some t" "t \<le> w_now w ?n" "w_now w ?n - t < 2 ^ 31 * 1000000000" for t
    using seconds(2) [OF that(1)] int32_seconds_bounds [of "w_now w ?n - t"] that(2,3) by simp
  show ?thesis
  proof (intro exI conjI)
    show "run_state (callSvc_EndCall s (call_ID c) reason) (w, r) = (Inr (), (w', r'))" by (rule run)
    show "w_step w \<le> ?n" "?n < w_step w'" using w' by simp_all
    show "w_db w' = (w_db w)\<lparr>t_calls := map (\<lambda>x. if call_ID x = call_ID c
        then c\<lparr>call_EndedAt := Some (w_now w ?n), call_EndReason := Some reason, call_DurationSeconds := seconds\<rparr>
        else x) (t_calls (w_db w)), t_outbox := t_outbox (w_db w) @ [e]\<rparr>"
      unfolding w'(2) ended_as_map [OF assms(6,7)] row ..
    show "pending_event (CallEnded \<lparr>cee_Base = b, cee_CallID = call_ID c,
      cee_ConversationID = call_ConversationID c, cee_EndedBy = call_InitiatedBy c,
      cee_Reason = reason, cee_Duration = (case seconds of None \<Rightarrow> 0 | Some d \<Rightarrow> d)\<rparr>) e"
      using e unfolding row duration_of_def by simp
    show "call_ConnectedAt c = None \<longrightarrow> seconds = call_DurationSeconds c" using seconds(1) by blast
  qed (use stored redis in blast)+
qed

lemma EndCall_ends_witness:
  "\<exists>w' r'. run_state (callSvc_EndCall sample_call_service 700 ''COMPLETED'') (call_world, sample_redis) =
     (Inr (), (w', r')) \<and> length (t_outbox (w_db w')) = 1"
proof -
  have "clv_db sample_call_service = Pool" "clv_repo sample_call_service = Pool"
    "clv_eventPublisher sample_call_service = Some Pool" "w_fault call_world = (\<lambda>_. None)"
    "fresh_events call_world" "clash_free call_clash (t_calls (w_db call_world))"
    "sample_call \<in> set (t_calls (w_db call_world))" "''COMPLETED'' \<in> set call_end_reason_enum"
    "t_outbox (w_db call_world) = []" "call_ID sample_call = 700"
    by (simp_all add: call_sample_defs sample_defs fresh_events_def call_end_reason_enum_def)
  then show ?thesis
    using EndCall_ends [of sample_call_service Pool call_world sample_call "''COMPLETED''" sample_redis]
    by fastforce
qed

text \<open>
  An error of \<open>EndCall\<close> does not mean that the call goes on: if the connection is lost just
  before the event is written, the operation fails with that error, the call has ended all the
  same, and no event says so, then or later.
\<close>

theorem EndCall_not_atomic:
  assumes "clv_db s = Pool" "clv_repo s = Pool" "clv_eventPublisher s = Some p"
    and "\<And>n. n < 7 \<Longrightarrow> w_fault w (w_step w + n) = None" "w_fault w (w_step w + 7) = Some err"
    and "clash_free call_clash (t_calls (w_db w))" "c \<in> set (t_calls (w_db w))"
    and "reason \<in> set call_end_reason_enum"
  shows "\<exists>w' r' now. run_state (callSvc_EndCall s (call_ID c) reason) (w, r) = (Inl (SqlError err), (w', r')) \<and>
    w_db w' = (w_db w)\<lparr>t_calls := ended now reason c (t_calls (w_db w))\<rparr>"
proof -
  have "w_fault (after_end reason c w) (w_step (after_end reason c w)) = Some err"
    using assms(5) by (simp add: after_end_def)
  note stop = run_WithTx_no_begin [OF this]
  have "\<exists>r1. run_state (callSvc_EndCall s (call_ID c) reason) (w, r) =
      (Inl (SqlError err), ((after_end reason c w)\<lparr>w_step := Suc (w_step (after_end reason c w))\<rparr>, r1))"
    using run_EndCall_until_publish [of s p w c reason r] assms unfolding stop by auto
  then show ?thesis by (auto simp: after_end_def)
qed

lemma EndCall_not_atomic_witness:
  "\<exists>w' r' now. run_state (callSvc_EndCall sample_call_service 700 ''COMPLETED'')
     (call_world\<lparr>w_fault := (\<lambda>n. if n = 7 then Some (DriverError 0) else None)\<rparr>, sample_redis) =
       (Inl (SqlError (DriverError 0)), (w', r')) \<and>
     t_calls (w_db w') = [end_call now ''COMPLETED'' sample_call sample_call] \<and> t_outbox (w_db w') = []"
proof -
  let ?w = "call_world\<lparr>w_fault := (\<lambda>n. if n = 7 then Some (DriverError 0) else None)\<rparr>"
  have "clv_db sample_call_service = Pool" "clv_repo sample_call_service = Pool"
    "clv_eventPublisher sample_call_service = Some Pool"
    "\<And>n. n < 7 \<Longrightarrow> w_fault ?w (w_step ?w + n) = None" "w_fault ?w (w_step ?w + 7) = Some (DriverError 0)"
    "clash_free call_clash (t_calls (w_db ?w))"
    "sample_call \<in> set (t_calls (w_db ?w))" "''COMPLETED'' \<in> set call_end_reason_enum"
    by (simp_all add: call_sample_defs sample_defs call_end_reason_enum_def)
  note * = EndCall_not_atomic [OF this, of sample_redis]
  have "call_ID sample_call = 700" "t_outbox (w_db ?w) = []" "t_calls (w_db ?w) = [sample_call]"
    by (simp_all add: call_sample_defs sample_defs)
  with * show ?thesis by (auto simp: ended_def map_where_def)
qed

text \<open>
  A reason outside the enumeration of the schema never ends a call: the operation reports an
  error, and the committed database is untouched.
\<close>

theorem EndCall_unknown_reason:
  assumes "run_state (callSvc_EndCall s i reason) (w, r) = (x, (w', r'))"
    and "clv_repo s = Pool" "reason \<notin> set call_end_reason_enum"
  shows "isl x \<and> w_db w' = w_db w \<and> r' = r"
proof (cases "reason = []")
  case True
  with assms show ?thesis by (auto simp: callSvc_EndCall_def)
next
  case False
  obtain y w1 where g: "run_state (callRepo_GetByID Pool i) w = (y, w1)" by fastforce
  have "keeps (committed (w_db w)) (callRepo_GetByID Pool i)"
    unfolding callRepo_GetByID_def by (intro keeps_intros)
  from keepsD [OF this _ g] have w1: "w_db w1 = w_db w" by (simp add: committed_def)
  obtain z w2 where e: "run_state (callRepo_EndCall Pool i reason) w1 = (z, w2)" by fastforce
  let ?fn = "\<lambda>now tx. andThen (callRepo_GetByID tx i) (\<lambda>c.
       void (sql tx (checked InvalidText (\<lambda>_. typed [(reason, call_end_reason_enum)])
         (on_table t_calls t_calls_update
           (update_where (\<lambda>r. call_ID r = i) (end_call now reason c))))))"
  have fn: "run_state (?fn now Tx) v \<noteq> (Inr u, v')" for now v u v'
    using assms(3) by (auto simp: void_def typed_def simp del: run_andThen elim!: andThen_Inr)
  obtain now v where v: "run_state (WithTx Pool (?fn now)) v = (z, w2)" "w_db v = w_db w1"
    using e by (auto simp: callRepo_EndCall_def time_Now_def)
  have "isl z"
  proof (cases z)
    case (Inr u)
    with v(1) have "run_state (WithTx Pool (?fn now)) v = (Inr u, w2)" by simp
    then show ?thesis by (rule WithTx_success) (use fn in blast)
  qed simp
  moreover have "w_db w2 = w_db v"
  proof -
    have "keeps (committed d) (?fn now Tx)" for d
      unfolding callRepo_GetByID_def by (intro keeps_intros)
    with \<open>isl z\<close> v(1) show ?thesis
      by (auto simp: isl_def intro: WithTx_error_keeps_db [of "?fn now"])
  qed
  ultimately show ?thesis
    using assms(1,2) False g e w1 v(2)
    by (auto simp: callSvc_EndCall_def split: sum.splits)
qed

lemma EndCall_unknown_reason_witness:
  "isl (fst (run_state (callSvc_EndCall sample_call_service 700 ''completed'') (call_world, sample_redis)))"
proof -
  have "clv_repo sample_call_service = Pool" "''completed'' \<notin> set call_end_reason_enum"
    by (simp_all add: sample_call_service_def call_end_reason_enum_def)
  then show ?thesis
    using EndCall_unknown_reason [of sample_call_service 700 "''completed''" call_world sample_redis]
    by (metis prod.collapse)
qed

section \<open>The status that the schema does not have\<close>

text \<open>
  The status \<open>JOINED\<close>, which the code gives to a participant in a call, is not a value of the
  column's type. The list of active calls, the count of active participants and the change to
  that status therefore always fail, whatever the database contains.
\<close>

theorem JOINED_always_fails:
  "isl (fst (run_state (callRepo_GetActiveCalls db u) w)) \<and>
   isl (fst (run_state (callRepo_GetActiveParticipantCount db i) w)) \<and>
   isl (fst (run_state (callRepo_UpdateParticipantStatus db i u StatusJoined) w))"
proof -
  have "\<not> typed [(''INVITED'', participant_call_status_enum), (''JOINED'', participant_call_status_enum)]"
    "\<not> typed [(''JOINED'', participant_call_status_enum)]"
    by (simp_all add: typed_def participant_call_status_enum_def)
  note no = this
  have isl: "isl (fst m) \<longleftrightarrow> (\<forall>x w'. m \<noteq> (Inr x, w'))" for m :: "(error + 'x) \<times> world"
    by (cases m; cases "fst m") auto
  show ?thesis
    by (auto simp: isl callRepo_GetActiveCalls_def callRepo_GetActiveParticipantCount_def no
        callRepo_UpdateParticipantStatus_def StatusJoined_def update_call_participant_def
        affected_Inr time_Now_def simp del: run_andThen elim!: andThen_Inr)
qed

section \<open>Calls longer than the state in Redis\<close>

text \<open>
  Nothing extends the five minutes of the state in Redis while a call rings. Marking a call
  connected after that time fails although the database has recorded the connection.
\<close>

theorem MarkConnected_after_expiry:
  assumes "clv_repo s = Pool" "clv_signalingStore s" "w_fault w = (\<lambda>_. None)" "rd_fault r = (\<lambda>_. None)"
    and "c \<in> set (t_calls (w_db w))"
    and "live (rd_now r (rd_step r)) (rd_keys r) (call_state_key (uuid_String (call_ID c))) = None"
  shows "\<exists>e w' r' now. run_state (callSvc_MarkConnected s (call_ID c)) (w, r) = (Inl e, (w', r')) \<and>
    c\<lparr>call_ConnectedAt := Some now\<rparr> \<in> set (t_calls (w_db w'))"
proof -
  have n: "count_where (\<lambda>x. call_ID x = call_ID c) (t_calls (w_db w)) \<noteq> 0"
    using assms(5) by (auto simp: count_where_eq_0)
  let ?now = "w_now w (w_step w)"
  let ?t = "t_calls_update (\<lambda>_. map_where (\<lambda>x. call_ID x = call_ID c)
      (\<lambda>x. x\<lparr>call_ConnectedAt := Some ?now\<rparr>) (t_calls (w_db w))) (w_db w)"
  have "run_state (callRepo_MarkConnected Pool (call_ID c)) w =
      (Inr (), w\<lparr>w_step := Suc (Suc (w_step w)), w_db := ?t\<rparr>)"
    using assms(3) n
    by (simp add: callRepo_MarkConnected_def time_Now_def affected_def run_sql_Pool on_table_def
        update_where_def)
  moreover have "c\<lparr>call_ConnectedAt := Some ?now\<rparr> \<in> set (t_calls ?t)"
    using assms(5) by (auto simp: in_map_where intro!: bexI [of _ c])
  ultimately show ?thesis
    using assms(1,2,4,6)
    by (auto simp: callSvc_MarkConnected_def UpdateCallStatus_def GetCallState_def redis_Get_def
        run_command)
qed

lemma MarkConnected_after_expiry_witness:
  "\<exists>e w' r'. run_state (callSvc_MarkConnected sample_call_service 700) (call_world, sample_redis) =
     (Inl e, (w', r'))"
proof -
  have "clv_repo sample_call_service = Pool" "clv_signalingStore sample_call_service"
    "w_fault call_world = (\<lambda>_. None)" "rd_fault sample_redis = (\<lambda>_. None)"
    "sample_call \<in> set (t_calls (w_db call_world))"
    "live (rd_now sample_redis (rd_step sample_redis)) (rd_keys sample_redis)
       (call_state_key (uuid_String (call_ID sample_call))) = None" "call_ID sample_call = 700"
    by (simp_all add: call_sample_defs sample_defs live_def)
  then show ?thesis
    using MarkConnected_after_expiry [of sample_call_service call_world sample_redis sample_call]
    by metis
qed

section \<open>The operations that pass everything on to the repository\<close>

definition callSvc_GetByID :: "CallService \<Rightarrow> uuid \<Rightarrow> Call svc" where
  "callSvc_GetByID s i = on_store (callRepo_GetByID (clv_repo s) i)"

definition callSvc_Update :: "CallService \<Rightarrow> Call \<Rightarrow> unit svc" where
  "callSvc_Update s c = on_store (callRepo_Update (clv_repo s) c)"

definition callSvc_GetConversationCalls ::
  "CallService \<Rightarrow> uuid \<Rightarrow> int \<Rightarrow> int \<Rightarrow> (Call list \<times> int) svc" where
  "callSvc_GetConversationCalls s conv page limit =
     on_store (callRepo_GetConversationCalls (clv_repo s) conv page limit)"

definition callSvc_GetUserCalls ::
  "CallService \<Rightarrow> uuid \<Rightarrow> int \<Rightarrow> int \<Rightarrow> (Call list \<times> int) svc" where
  "callSvc_GetUserCalls s u page limit = on_store (callRepo_GetUserCalls (clv_repo s) u page limit)"

definition callSvc_GetActiveCalls ::
  "CallService \<Rightarrow> uuid \<Rightarrow> Call list svc" where
  "callSvc_GetActiveCalls s u = on_store (callRepo_GetActiveCalls (clv_repo s) u)"

definition callSvc_GetMissedCalls ::
  "CallService \<Rightarrow> uuid \<Rightarrow> time \<Rightarrow> Call list svc" where
  "callSvc_GetMissedCalls s u since = on_store (callRepo_GetMissedCalls (clv_repo s) u since)"

definition callSvc_GetCallDuration :: "CallService \<Rightarrow> uuid \<Rightarrow> int svc" where
  "callSvc_GetCallDuration s i = on_store (callRepo_GetCallDuration (clv_repo s) i)"

definition callSvc_AddParticipant ::
  "CallService \<Rightarrow> CallParticipant \<Rightarrow> unit svc" where
  "callSvc_AddParticipant s p = on_store (callRepo_AddParticipant (clv_repo s) p)"

definition callSvc_RemoveParticipant ::
  "CallService \<Rightarrow> uuid \<Rightarrow> uuid \<Rightarrow> unit svc" where
  "callSvc_RemoveParticipant s i u = on_store (callRepo_RemoveParticipant (clv_repo s) i u)"

definition callSvc_GetCallParticipants ::
  "CallService \<Rightarrow> uuid \<Rightarrow> CallParticipant list svc" where
  "callSvc_GetCallParticipants s i = on_store (callRepo_GetCallParticipants (clv_repo s) i)"

definition callSvc_UpdateParticipantStatus ::
  "CallService \<Rightarrow> uuid \<Rightarrow> uuid \<Rightarrow> string \<Rightarrow> unit svc" where
  "callSvc_UpdateParticipantStatus s i u status =
     on_store (callRepo_UpdateParticipantStatus (clv_repo s) i u status)"

definition callSvc_UpdateParticipantMuteStatus ::
  "CallService \<Rightarrow> uuid \<Rightarrow> uuid \<Rightarrow> bool \<Rightarrow> bool \<Rightarrow> unit svc" where
  "callSvc_UpdateParticipantMuteStatus s i u audioMuted videoMuted =
     on_store (callRepo_UpdateParticipantMuteStatus (clv_repo s) i u audioMuted videoMuted)"

definition callSvc_GetActiveParticipantCount ::
  "CallService \<Rightarrow> uuid \<Rightarrow> int svc" where
  "callSvc_GetActiveParticipantCount s i =
     on_store (callRepo_GetActiveParticipantCount (clv_repo s) i)"

definition callSvc_RecordQualityMetric :: "CallService \<Rightarrow> CallQualityMetric \<Rightarrow> unit svc" where
  "callSvc_RecordQualityMetric s m = on_store (callRepo_RecordQualityMetric (clv_repo s) m)"

definition callSvc_GetCallQualityMetrics :: "CallService \<Rightarrow> uuid \<Rightarrow> CallQualityMetric list svc" where
  "callSvc_GetCallQualityMetrics s i = on_store (callRepo_GetCallQualityMetrics (clv_repo s) i)"

definition callSvc_GetUserCallQualityMetrics ::
  "CallService \<Rightarrow> uuid \<Rightarrow> uuid \<Rightarrow> CallQualityMetric list svc" where
  "callSvc_GetUserCallQualityMetrics s i u = on_store (callRepo_GetUserCallQualityMetrics (clv_repo s) i u)"

definition callSvc_GetAverageCallQuality ::
  "(float64 list \<Rightarrow> float64) \<Rightarrow> CallService \<Rightarrow> uuid \<Rightarrow> float64 svc" where
  "callSvc_GetAverageCallQuality average s i = on_store (callRepo_GetAverageCallQuality average (clv_repo s) i)"

end
