(* ===== verification/UserRepo.thy ===== *)
theory UserRepo
  imports ConversationRepo
begin

text \<open>
  \<^verbatim>\<open>internal/repository/user_repository.go\<close>: users, contacts, settings, devices, push tokens
  and sessions. The columns \<^verbatim>\<open>username\<close>, \<^verbatim>\<open>email\<close> and \<^verbatim>\<open>phone_number\<close> are CITEXT, so equality
  ignores letter case; the trigger \<^verbatim>\<open>tr_users_updated\<close> overwrites \<^verbatim>\<open>updated_at\<close>.
\<close>

section \<open>Users\<close>

definition userRepo_Create :: "DBTX \<Rightarrow> User \<Rightarrow> unit go" where
  "userRepo_Create db u =
     mapErr alreadyExists (sql db (checked InvalidText (\<lambda>_. typed [(usr_Role u, user_role_enum)])
       (insert_into t_users t_users_update user_clash (\<lambda>_. True) u)))"

definition visible_user :: "User \<Rightarrow> bool" where
  "visible_user u \<longleftrightarrow> usr_Role u \<noteq> ''SUPER_ADMIN''"

definition userRepo_GetAllUsers :: "DBTX \<Rightarrow> int \<Rightarrow> int \<Rightarrow> (User list \<times> int) go" where
  "userRepo_GetAllUsers db page limit =
     andThen (queryRow db (\<lambda>t. [count_where visible_user (t_users t)])) (\<lambda>total.
     andThen (sql db (query_page ((page - 1) * limit) limit (\<lambda>t.
       order_desc (\<lambda>u. Some (usr_CreatedAt u)) (filter visible_user (t_users t)))))
     (\<lambda>users. ok (users, total)))"

definition userRepo_GetUserByID :: "DBTX \<Rightarrow> uuid \<Rightarrow> User go" where
  "userRepo_GetUserByID db i =
     mapErr notFound (queryRow db (\<lambda>t. filter (\<lambda>u. usr_ID u = i) (t_users t)))"

text \<open>The UPDATE sets every column but \<^verbatim>\<open>id\<close> and \<^verbatim>\<open>created_at\<close>; the trigger sets the time.\<close>

definition set_user :: "time \<Rightarrow> User \<Rightarrow> User \<Rightarrow> User" where
  "set_user now u r = u\<lparr>usr_ID := usr_ID r, usr_CreatedAt := usr_CreatedAt r, usr_UpdatedAt := now\<rparr>"

definition userRepo_UpdateUser :: "DBTX \<Rightarrow> User \<Rightarrow> unit go" where
  "userRepo_UpdateUser db u = do {
     now \<leftarrow> time_Now;
     affected (sql db (checked InvalidText (\<lambda>_. typed [(usr_Role u, user_role_enum)])
       (update_into t_users t_users_update user_clash (\<lambda>_. True)
         (\<lambda>r. usr_ID r = usr_ID u) (set_user now u))))
   }"

definition userRepo_DeleteUser :: "DBTX \<Rightarrow> uuid \<Rightarrow> unit go" where
  "userRepo_DeleteUser db i = affected (sql db (delete_user i))"

definition userRepo_GetUserByEmail :: "DBTX \<Rightarrow> string \<Rightarrow> User go" where
  "userRepo_GetUserByEmail db email =
     mapErr notFound (queryRow db (\<lambda>t. filter (\<lambda>u. citext_eq (usr_Email u) (Some email)) (t_users t)))"

definition userRepo_GetUserByUsername :: "DBTX \<Rightarrow> string \<Rightarrow> User go" where
  "userRepo_GetUserByUsername db username =
     mapErr notFound (queryRow db (\<lambda>t.
       filter (\<lambda>u. citext_eq (usr_Username u) (Some username)) (t_users t)))"

definition userRepo_GetUserByPhoneNumber :: "DBTX \<Rightarrow> string \<Rightarrow> User go" where
  "userRepo_GetUserByPhoneNumber db phone =
     mapErr notFound (queryRow db (\<lambda>t.
       filter (\<lambda>u. citext_eq (usr_PhoneNumber u) (Some phone)) (t_users t)))"

definition matches_user :: "string \<Rightarrow> User \<Rightarrow> bool" where
  "matches_user pattern u \<longleftrightarrow> visible_user u \<and>
     (ilike (usr_DisplayName u) pattern \<or> opt_ilike (usr_Username u) pattern \<or>
      opt_ilike (usr_Email u) pattern)"

definition userRepo_SearchUsers ::
  "DBTX \<Rightarrow> string \<Rightarrow> int \<Rightarrow> int \<Rightarrow> (User list \<times> int) go" where
  "userRepo_SearchUsers db q page limit =
     (let pattern = ''%'' @ q @ ''%''
      in andThen (queryRow db (\<lambda>t. [count_where (matches_user pattern) (t_users t)])) (\<lambda>total.
         andThen (sql db (query_page ((page - 1) * limit) limit (\<lambda>t.
           order_asc (\<lambda>u. Some (usr_DisplayName u)) (filter (matches_user pattern) (t_users t)))))
         (\<lambda>users. ok (users, total))))"

definition update_user :: "DBTX \<Rightarrow> uuid \<Rightarrow> (User \<Rightarrow> User) \<Rightarrow> unit go" where
  "update_user db i f =
     affected (sql db (on_table t_users t_users_update (update_where (\<lambda>u. usr_ID u = i) f)))"

definition userRepo_UpdateOnlineStatus :: "DBTX \<Rightarrow> uuid \<Rightarrow> bool \<Rightarrow> unit go" where
  "userRepo_UpdateOnlineStatus db i isOnline = do {
     updated \<leftarrow> time_Now;
     (if isOnline
      then update_user db i (\<lambda>u. u\<lparr>usr_IsOnline := True, usr_UpdatedAt := updated\<rparr>)
      else do {
        lastSeen \<leftarrow> time_Now;
        update_user db i (\<lambda>u. u\<lparr>usr_IsOnline := False, usr_LastSeenAt := Some lastSeen,
          usr_UpdatedAt := updated\<rparr>)
      })
   }"

definition userRepo_UpdateLastSeen :: "DBTX \<Rightarrow> uuid \<Rightarrow> time \<Rightarrow> unit go" where
  "userRepo_UpdateLastSeen db i lastSeen = do {
     now \<leftarrow> time_Now;
     update_user db i (\<lambda>u. u\<lparr>usr_LastSeenAt := Some lastSeen, usr_UpdatedAt := now\<rparr>)
   }"

section \<open>Contacts\<close>

definition is_contact :: "uuid \<Rightarrow> uuid \<Rightarrow> UserContact \<Rightarrow> bool" where
  "is_contact u v c \<longleftrightarrow> con_UserID c = u \<and> con_ContactUserID c = v"

definition userRepo_GetUserContacts :: "DBTX \<Rightarrow> uuid \<Rightarrow> UserContact list go" where
  "userRepo_GetUserContacts db u =
     sql db (query (\<lambda>t. filter (\<lambda>c. con_UserID c = u) (t_user_contacts t)))"

definition insert_contact :: "UserContact \<Rightarrow> unit stmt" where
  "insert_contact c = insert_into t_user_contacts t_user_contacts_update contact_clash
     (\<lambda>t. has_user t (con_UserID c) \<and> has_user t (con_ContactUserID c)) c"

definition userRepo_AddUserContact :: "DBTX \<Rightarrow> UserContact \<Rightarrow> unit go" where
  "userRepo_AddUserContact db c = mapErr alreadyExists (sql db (insert_contact c))"

definition userRepo_RemoveUserContact :: "DBTX \<Rightarrow> uuid \<Rightarrow> uuid \<Rightarrow> unit go" where
  "userRepo_RemoveUserContact db u v =
     affected (sql db (on_table t_user_contacts t_user_contacts_update
       (delete_where (is_contact u v))))"

definition set_blocked :: "uuid \<Rightarrow> uuid \<Rightarrow> bool \<Rightarrow> int stmt" where
  "set_blocked u v b = on_table t_user_contacts t_user_contacts_update
     (update_where (is_contact u v) (\<lambda>c. c\<lparr>con_IsBlocked := b\<rparr>))"

definition userRepo_BlockContact :: "DBTX \<Rightarrow> uuid \<Rightarrow> uuid \<Rightarrow> unit go" where
  "userRepo_BlockContact db u v =
     andThen (sql db (set_blocked u v True)) (\<lambda>rows.
       if rows = 0 then do {
         now \<leftarrow> time_Now;
         sql db (insert_contact \<lparr>con_UserID = u, con_ContactUserID = v, con_Nickname = [],
           con_IsBlocked = True, con_CreatedAt = now\<rparr>)
       }
       else ok ())"

definition userRepo_UnblockContact :: "DBTX \<Rightarrow> uuid \<Rightarrow> uuid \<Rightarrow> unit go" where
  "userRepo_UnblockContact db u v = affected (sql db (set_blocked u v False))"

definition userRepo_GetBlockedContacts :: "DBTX \<Rightarrow> uuid \<Rightarrow> UserContact list go" where
  "userRepo_GetBlockedContacts db u =
     sql db (query (\<lambda>t. filter (\<lambda>c. con_UserID c = u \<and> con_IsBlocked c) (t_user_contacts t)))"

section \<open>Settings\<close>

definition settings_typed :: "UserSettings \<Rightarrow> bool" where
  "settings_typed s \<longleftrightarrow>
     typed [(st_PrivacyLastSeen s, privacy_setting_enum), (st_PrivacyProfilePhoto s, privacy_setting_enum),
       (st_PrivacyAbout s, privacy_setting_enum), (st_PrivacyGroups s, privacy_setting_enum),
       (st_Theme s, theme_mode_enum), (st_Language s, language_code_enum)]"

definition userRepo_GetUserSettings :: "DBTX \<Rightarrow> uuid \<Rightarrow> UserSettings go" where
  "userRepo_GetUserSettings db u =
     mapErr notFound (queryRow db (\<lambda>t. filter (\<lambda>s. st_UserID s = u) (t_user_settings t)))"

definition userRepo_UpdateUserSettings :: "DBTX \<Rightarrow> UserSettings \<Rightarrow> unit go" where
  "userRepo_UpdateUserSettings db s = do {
     now \<leftarrow> time_Now;
     affected (sql db (checked InvalidText (\<lambda>_. settings_typed s)
       (on_table t_user_settings t_user_settings_update (update_where
         (\<lambda>r. st_UserID r = st_UserID s) (\<lambda>r. s\<lparr>st_UserID := st_UserID r, st_UpdatedAt := now\<rparr>)))))
   }"

definition userRepo_CreateUserSettings :: "DBTX \<Rightarrow> UserSettings \<Rightarrow> unit go" where
  "userRepo_CreateUserSettings db s =
     mapErr alreadyExists (sql db (checked InvalidText (\<lambda>_. settings_typed s)
       (insert_into t_user_settings t_user_settings_update settings_clash
         (\<lambda>t. has_user t (st_UserID s)) s)))"

section \<open>Devices and push tokens\<close>

definition userRepo_AddDevice :: "DBTX \<Rightarrow> Device \<Rightarrow> unit go" where
  "userRepo_AddDevice db d =
     mapErr alreadyExists (sql db (insert_into t_devices t_devices_update device_clash
       (\<lambda>t. has_user t (dev_UserID d)) d))"

definition userRepo_GetUserDevices :: "DBTX \<Rightarrow> uuid \<Rightarrow> Device list go" where
  "userRepo_GetUserDevices db u =
     sql db (query (\<lambda>t. filter (\<lambda>d. dev_UserID d = u \<and> dev_IsActive d) (t_devices t)))"

definition userRepo_GetDeviceByID :: "DBTX \<Rightarrow> uuid \<Rightarrow> Device go" where
  "userRepo_GetDeviceByID db i =
     mapErr notFound (queryRow db (\<lambda>t. filter (\<lambda>d. dev_ID d = i) (t_devices t)))"

definition update_device :: "DBTX \<Rightarrow> uuid \<Rightarrow> (Device \<Rightarrow> Device) \<Rightarrow> unit go" where
  "update_device db i f =
     affected (sql db (on_table t_devices t_devices_update (update_where (\<lambda>d. dev_ID d = i) f)))"

definition userRepo_DeactivateDevice :: "DBTX \<Rightarrow> uuid \<Rightarrow> unit go" where
  "userRepo_DeactivateDevice db i = update_device db i (\<lambda>d. d\<lparr>dev_IsActive := False\<rparr>)"

definition userRepo_UpdateDeviceLastSeen :: "DBTX \<Rightarrow> uuid \<Rightarrow> unit go" where
  "userRepo_UpdateDeviceLastSeen db i = do {
     now \<leftarrow> time_Now;
     update_device db i (\<lambda>d. d\<lparr>dev_LastSeenAt := Some now\<rparr>)
   }"

definition userRepo_AddPushToken :: "DBTX \<Rightarrow> PushToken \<Rightarrow> unit go" where
  "userRepo_AddPushToken db p =
     mapErr alreadyExists (sql db (insert_into t_push_tokens t_push_tokens_update push_token_clash
       (\<lambda>t. has_user t (pt_UserID p) \<and> has_device t (pt_DeviceID p)) p))"

definition userRepo_GetUserPushTokens :: "DBTX \<Rightarrow> uuid \<Rightarrow> PushToken list go" where
  "userRepo_GetUserPushTokens db u =
     sql db (query (\<lambda>t. filter (\<lambda>p. pt_UserID p = u \<and> pt_IsActive p) (t_push_tokens t)))"

definition userRepo_DeactivatePushToken :: "DBTX \<Rightarrow> uuid \<Rightarrow> unit go" where
  "userRepo_DeactivatePushToken db i =
     affected (sql db (on_table t_push_tokens t_push_tokens_update
       (update_where (\<lambda>p. pt_ID p = i) (\<lambda>p. p\<lparr>pt_IsActive := False\<rparr>))))"

section \<open>Sessions\<close>

text \<open>A session's device record is loaded only by \<^verbatim>\<open>GetUserSessions\<close>; the row has its identifier.\<close>

definition session_row :: "UserSession \<Rightarrow> UserSession" where
  "session_row s = s\<lparr>ses_Device := None\<rparr>"

definition live_session :: "time \<Rightarrow> UserSession \<Rightarrow> bool" where
  "live_session now s \<longleftrightarrow> \<not> ses_IsRevoked s \<and> ses_ExpiresAt s > now"

definition userRepo_CreateSession :: "DBTX \<Rightarrow> UserSession \<Rightarrow> unit go" where
  "userRepo_CreateSession db s =
     mapErr alreadyExists (sql db (insert_into t_user_sessions t_user_sessions_update session_clash
       (\<lambda>t. has_user t (ses_UserID s) \<and> opt_ref (has_device t) (ses_DeviceID s)) (session_row s)))"

definition userRepo_GetSessionByID :: "DBTX \<Rightarrow> uuid \<Rightarrow> UserSession go" where
  "userRepo_GetSessionByID db i = do {
     now \<leftarrow> time_Now;
     mapErr notFound (queryRow db (\<lambda>t.
       filter (\<lambda>s. ses_ID s = i \<and> live_session now s) (t_user_sessions t)))
   }"

text \<open>
  The LEFT JOIN gives NULL device columns for a session without a device; scanning NULL into
  the plain string \<^verbatim>\<open>device.DeviceID\<close> fails, and with it the whole listing.
\<close>

definition join_device :: "tables \<Rightarrow> UserSession \<Rightarrow> UserSession" where
  "join_device t s = s\<lparr>ses_Device := (case ses_DeviceID s of None \<Rightarrow> None
     | Some d \<Rightarrow> find (\<lambda>r. dev_ID r = d) (t_devices t))\<rparr>"

definition userRepo_GetUserSessions :: "DBTX \<Rightarrow> uuid \<Rightarrow> UserSession list go" where
  "userRepo_GetUserSessions db u = do {
     now \<leftarrow> time_Now;
     andThen (sql db (query (\<lambda>t. map (join_device t) (order_desc (\<lambda>s. Some (ses_CreatedAt s))
       (filter (\<lambda>s. ses_UserID s = u \<and> live_session now s) (t_user_sessions t))))))
       (\<lambda>rows. if list_ex (\<lambda>s. ses_Device s = None) rows
               then fail (OtherError ''converting NULL to string is unsupported'')
               else ok rows)
   }"

definition userRepo_UpdateSession :: "DBTX \<Rightarrow> UserSession \<Rightarrow> unit go" where
  "userRepo_UpdateSession db s =
     affected (sql db (on_table t_user_sessions t_user_sessions_update (update_where
       (\<lambda>r. ses_ID r = ses_ID s)
       (\<lambda>r. r\<lparr>ses_RefreshTokenHash := ses_RefreshTokenHash s, ses_ExpiresAt := ses_ExpiresAt s,
            ses_IsRevoked := ses_IsRevoked s\<rparr>))))"

definition userRepo_RevokeSession :: "DBTX \<Rightarrow> uuid \<Rightarrow> unit go" where
  "userRepo_RevokeSession db i =
     affected (sql db (on_table t_user_sessions t_user_sessions_update (update_where
       (\<lambda>r. ses_ID r = i) (\<lambda>r. r\<lparr>ses_IsRevoked := True\<rparr>))))"

definition userRepo_RevokeAllUserSessions :: "DBTX \<Rightarrow> uuid \<Rightarrow> unit go" where
  "userRepo_RevokeAllUserSessions db u =
     void (sql db (on_table t_user_sessions t_user_sessions_update (update_where
       (\<lambda>r. ses_UserID r = u \<and> \<not> ses_IsRevoked r) (\<lambda>r. r\<lparr>ses_IsRevoked := True\<rparr>))))"

definition userRepo_CleanExpiredSessions :: "DBTX \<Rightarrow> unit go" where
  "userRepo_CleanExpiredSessions db = do {
     now \<leftarrow> time_Now;
     void (sql db (on_table t_user_sessions t_user_sessions_update
       (delete_where (\<lambda>s. ses_ExpiresAt s < now))))
   }"

end
