(* ===== verification/UuidText.thy ===== *)
theory UuidText
  imports Prelude
begin

text \<open>
  The canonical text of a UUID determines the UUID: \<open>read_uuid\<close> undoes \<open>uuid_String\<close>.
\<close>

definition hex_value :: "char \<Rightarrow> nat" where
  "hex_value c = (let n = of_char c :: nat in if n < 97 then n - 48 else n - 87)"

definition read_uuid :: "string \<Rightarrow> uuid option" where
  "read_uuid s =
     Some (of_nat (foldl (\<lambda>a c. 16 * a + hex_value c) 0 (filter (\<lambda>c. c \<noteq> CHR ''-'') s)))"

lemma hexdigit_value: "n < 16 \<Longrightarrow> hex_value (hexdigit n) = n \<and> hexdigit n \<noteq> CHR ''-''"
proof -
  assume n: "n < 16"
  then have c: "of_char (hexdigit n) = (if n < 10 then 48 + n else 87 + n)"
    by (simp add: hexdigit_def)
  then have "of_char (hexdigit n) \<noteq> (of_char (CHR ''-'') :: nat)" by simp
  with c show ?thesis by (auto simp: hex_value_def Let_def)
qed

lemma hex_text_value:
  "foldl (\<lambda>a c. 16 * a + hex_value c) a (hex_text k n) = a * 16 ^ k + n mod 16 ^ k"
proof (induction k arbitrary: n)
  case (Suc k)
  have "n mod 16 ^ Suc k = 16 * (n div 16 mod 16 ^ k) + n mod 16"
    unfolding power_Suc by (rule mod_mult2_eq)
  with Suc show ?case by (simp add: hexdigit_value algebra_simps)
qed simp

lemma hex_text_no_dash: "filter (\<lambda>c. c \<noteq> CHR ''-'') (hex_text k n) = hex_text k n"
  by (induction k arbitrary: n) (simp_all add: hexdigit_value)

lemma length_hex_text [simp]: "length (hex_text k n) = k"
  by (induction k arbitrary: n) simp_all

lemma read_uuid_String: "read_uuid (uuid_String u) = Some u"
proof -
  let ?h = "hex_text 32 (unat u)"
  have "filter (\<lambda>c. c \<noteq> CHR ''-'') (uuid_String u) = filter (\<lambda>c. c \<noteq> CHR ''-'')
      (take 8 ?h @ take 4 (drop 8 ?h) @ take 4 (drop 12 ?h) @ take 4 (drop 16 ?h) @ drop 20 ?h)"
    by (simp add: uuid_String_def Let_def)
  also have "take 8 ?h @ take 4 (drop 8 ?h) @ take 4 (drop 12 ?h) @ take 4 (drop 16 ?h) @ drop 20 ?h = ?h"
  proof -
    have "drop 20 ?h = drop 4 (drop 16 ?h)" "drop 16 ?h = drop 4 (drop 12 ?h)"
      "drop 12 ?h = drop 4 (drop 8 ?h)" by simp_all
    then show ?thesis by (simp only: append_take_drop_id)
  qed
  finally have "filter (\<lambda>c. c \<noteq> CHR ''-'') (uuid_String u) = ?h" by (simp add: hex_text_no_dash)
  moreover have "unat u < 2 ^ LENGTH(128)" by (rule unsigned_less)
  then have "unat u < 16 ^ 32" by simp
  ultimately show ?thesis
    by (simp add: read_uuid_def hex_text_value)
qed

lemma uuid_String_not_empty [simp]: "uuid_String u \<noteq> []"
  by (simp add: uuid_String_def Let_def)

lemma uuid_String_inject [simp]: "uuid_String u = uuid_String v \<longleftrightarrow> u = v"
  by (metis option.inject read_uuid_String)

lemma length_uuid_String [simp]: "length (uuid_String u) = 36"
  by (simp add: uuid_String_def Let_def)

end
