(* ===== verification/Base64.thy ===== *)
theory Base64
  imports Prelude
begin

text \<open>
  \<^verbatim>\<open>base64.StdEncoding\<close>: the encoding of Go's \<^verbatim>\<open>[]byte\<close> in JSON and of the keys and ciphertexts in requests
  and responses. Decoding skips line breaks and does not look at the unused bits of the last digit.
\<close>

definition base64_digit :: "nat \<Rightarrow> char" where
  "base64_digit n = char_of (if n < 26 then 65 + n else if n < 52 then 71 + n
     else if n < 62 then n - 4 else if n = 62 then 43 else 47)"

fun base64 :: "bytes \<Rightarrow> string" where
  "base64 [] = []"
| "base64 [a] = (let n = unat a in
     [base64_digit (n div 4), base64_digit (n mod 4 * 16), CHR ''='', CHR ''=''])"
| "base64 [a, b] = (let n = unat a * 256 + unat b in
     [base64_digit (n div 1024), base64_digit (n div 16 mod 64), base64_digit (n mod 16 * 4), CHR ''=''])"
| "base64 (a # b # c # bs) = (let n = (unat a * 256 + unat b) * 256 + unat c in
     [base64_digit (n div 262144), base64_digit (n div 4096 mod 64),
      base64_digit (n div 64 mod 64), base64_digit (n mod 64)] @ base64 bs)"

definition base64_value :: "char \<Rightarrow> nat option" where
  "base64_value c = (let n = of_char c in
     if 65 \<le> n \<and> n \<le> 90 then Some (n - 65)
     else if 97 \<le> n \<and> n \<le> 122 then Some (n - 71)
     else if 48 \<le> n \<and> n \<le> 57 then Some (n + 4)
     else if n = 43 then Some 62
     else if n = 47 then Some 63
     else None)"

fun base64_digits :: "string \<Rightarrow> nat option" where
  "base64_digits [] = Some 0"
| "base64_digits (c # cs) = Option.bind (base64_value c) (\<lambda>v.
     map_option (\<lambda>n. v * 64 ^ length cs + n) (base64_digits cs))"

fun base64_groups :: "string \<Rightarrow> bytes option" where
  "base64_groups [] = Some []"
| "base64_groups (a # b # c # d # rest) =
     (if c = CHR ''='' \<and> d = CHR ''='' \<and> rest = [] then
        map_option (\<lambda>n. [of_nat (n div 16)]) (base64_digits [a, b])
      else if d = CHR ''='' \<and> rest = [] then
        map_option (\<lambda>n. [of_nat (n div 1024), of_nat (n div 4 mod 256)]) (base64_digits [a, b, c])
      else Option.bind (base64_digits [a, b, c, d]) (\<lambda>n.
        map_option (\<lambda>bs. [of_nat (n div 65536), of_nat (n div 256 mod 256), of_nat (n mod 256)] @ bs)
          (base64_groups rest)))"
| "base64_groups _ = None"

definition base64_DecodeString :: "string \<Rightarrow> bytes option" where
  "base64_DecodeString s = base64_groups (filter (\<lambda>c. c \<noteq> CHR 0x0A \<and> c \<noteq> CHR 0x0D) s)"

lemma base64_value_digit [simp]: "n < 64 \<Longrightarrow> base64_value (base64_digit n) = Some n"
  by (auto simp: base64_value_def base64_digit_def Let_def)

lemma base64_digit_plain: "n < 64 \<Longrightarrow> base64_digit n \<noteq> CHR ''='' \<and> base64_digit n \<noteq> CHR 0x0A \<and> base64_digit n \<noteq> CHR 0x0D"
  using base64_value_digit [of n] by (auto simp: base64_value_def simp del: base64_value_digit)

lemma byte_less: "unat (a :: 8 word) < 256"
  using unsigned_less [of a] by simp

lemma div_steps: "(n :: nat) div 262144 = n div 64 div 64 div 64" "n div 4096 = n div 64 div 64"
  "n div 1024 = n div 16 div 64"
  by (simp_all add: div_mult2_eq [symmetric])

lemma digits_four: "n div 262144 * 262144 + (n div 4096 mod 64 * 4096 + (n div 64 mod 64 * 64 + n mod 64)) = (n :: nat)"
  using div_mult_mod_eq [of n 64] div_mult_mod_eq [of "n div 64" 64] div_mult_mod_eq [of "n div 64 div 64" 64]
  unfolding div_steps by linarith

lemma digits_three: "n div 1024 * 4096 + (n div 16 mod 64 * 64 + n mod 16 * 4) = (n :: nat) * 4"
  using div_mult_mod_eq [of n 16] div_mult_mod_eq [of "n div 16" 64] unfolding div_steps(3) by linarith

lemma digits_two: "n div 4 * 64 + n mod 4 * 16 = (n :: nat) * 16"
  using div_mult_mod_eq [of n 4] by linarith

lemma base64_groups_base64: "base64_groups (base64 bs) = Some bs"
proof (induction bs rule: base64.induct)
  case (2 a)
  have "unat a div 4 < 64" by (rule less_mult_imp_div_less) (use byte_less [of a] in simp)
  moreover have "unat a mod 4 * 16 < 64" by simp
  ultimately show ?case by (simp add: Let_def digits_two)
next
  case (3 a b)
  define n where "n = unat a * 256 + unat b"
  have "n < 65536" using byte_less [of a] byte_less [of b] by (simp add: n_def)
  then have "n div 1024 < 64" by (intro less_mult_imp_div_less) simp
  moreover have "n mod 16 * 4 < 64" by simp
  moreover have "n * 4 div 1024 = unat a" "n mod 256 = unat b"
    using byte_less [of b] by (auto simp: n_def)
  ultimately show ?case
    using base64_digit_plain [of "n mod 16 * 4"] digits_three [of n]
    by (simp add: n_def [symmetric] Let_def)
next
  case (4 a b c bs)
  define n where "n = (unat a * 256 + unat b) * 256 + unat c"
  have "n < 16777216" using byte_less [of a] byte_less [of b] byte_less [of c] by (simp add: n_def)
  then have "n div 262144 < 64" by (intro less_mult_imp_div_less) simp
  moreover have "n div 256 = unat a * 256 + unat b" using byte_less [of c] by (simp add: n_def)
  then have "n div 65536 = unat a" "n div 256 mod 256 = unat b"
    using byte_less [of b] div_mult2_eq [of n 256 256] by auto
  moreover have "n mod 256 = unat c"
    unfolding n_def mod_mult_self3 using byte_less [of c] by simp
  moreover have "base64 (a # b # c # bs) = base64_digit (n div 262144) # base64_digit (n div 4096 mod 64) #
      base64_digit (n div 64 mod 64) # base64_digit (n mod 64) # base64 bs"
    by (simp add: n_def Let_def)
  ultimately show ?case
    using digits_four [of n] 4 base64_digit_plain [of "n mod 64"] by (simp del: base64.simps)
qed simp

lemma base64_plain: "c \<in> set (base64 bs) \<Longrightarrow> c \<noteq> CHR 0x0A \<and> c \<noteq> CHR 0x0D"
proof (induction bs rule: base64.induct)
  case (2 a)
  then show ?case using base64_digit_plain [of "unat a div 4"] base64_digit_plain [of "unat a mod 4 * 16"] byte_less [of a]
    by (auto simp: Let_def less_mult_imp_div_less)
next
  case (3 a b)
  have "(unat a * 256 + unat b) div 1024 < 64"
    by (rule less_mult_imp_div_less) (use byte_less [of a] byte_less [of b] in simp)
  with 3 base64_digit_plain show ?case by (auto simp: Let_def)
next
  case (4 a b c bs)
  have "((unat a * 256 + unat b) * 256 + unat c) div 262144 < 64"
    by (rule less_mult_imp_div_less) (use byte_less [of a] byte_less [of b] byte_less [of c] in simp)
  with 4 base64_digit_plain show ?case by (auto simp: Let_def)
qed simp

lemma base64_decode: "base64_DecodeString (base64 bs) = Some bs"
proof -
  have "filter (\<lambda>c. c \<noteq> CHR 0x0A \<and> c \<noteq> CHR 0x0D) (base64 bs) = base64 bs"
    using base64_plain by (auto simp: filter_id_conv)
  then show ?thesis by (simp add: base64_DecodeString_def base64_groups_base64)
qed

end
