(* ===== verification/Http.thy ===== *)
theory Http
  imports Database Base64 UuidText
begin

text \<open>
  What the HTTP handlers share: requests and replies as Gin presents them, the envelope of
  \<^verbatim>\<open>internal/transport/httpdto/response.go\<close>, and the checks nearly every handler of
  \<^verbatim>\<open>internal/handler\<close> makes. A handler is an action on the state whose value is its reply.

  Not in the repository, and so fields of \<open>HttpLib\<close>: the parser of UUIDs, the text of a database
  error, and the formatting and parsing of times, which depends on the server's time zone.
\<close>

section \<open>Requests and replies\<close>

text \<open>
  What \<^verbatim>\<open>WithUserSessionContext\<close> puts into the context of an authenticated request; the device is
  there only when it is valid.
\<close>

record request_context =
  rc_userID :: uuid
  rc_sessionID :: uuid
  rc_deviceID :: "uuid option"

definition UserIDFromContext :: "request_context option \<Rightarrow> uuid option" where
  "UserIDFromContext ctx = map_option rc_userID ctx"

definition SessionIDFromContext :: "request_context option \<Rightarrow> uuid option" where
  "SessionIDFromContext ctx = map_option rc_sessionID ctx"

text \<open>\<open>None\<close> when there is no value; a value is always a valid \<^verbatim>\<open>uuid.NullUUID\<close>.\<close>

definition DeviceIDFromContext :: "request_context option \<Rightarrow> uuid option option" where
  "DeviceIDFromContext ctx = map_option Some (Option.bind ctx rc_deviceID)"

text \<open>
  A request as a handler sees it: its context, the path and query parameters (empty when absent), and
  the body, \<open>None\<close> when it is not JSON. A reply without a body has \<open>None\<close>.
\<close>

record Request =
  rq_ctx :: "request_context option"
  rq_param :: "string \<Rightarrow> string"
  rq_query :: "string \<Rightarrow> string"
  rq_body :: "json option"

record Response =
  rs_status :: int
  rs_headers :: "(string \<times> string) list"
  rs_body :: "json option"

type_synonym 's handler = "('s, Response) state"

record HttpLib =
  hl_uuid_Parse :: "string \<Rightarrow> uuid option"
  hl_sqlText :: "sql_error \<Rightarrow> string"
  hl_RFC3339 :: "time \<Rightarrow> string"
  hl_ParseRFC3339 :: "string \<Rightarrow> time option"

text \<open>\<^verbatim>\<open>err.Error()\<close>\<close>

fun error_text :: "HttpLib \<Rightarrow> error \<Rightarrow> string" where
  "error_text _ ErrInvalidTransition = ''invalid status transition''"
| "error_text _ ErrUnauthorized = ''unauthorized''"
| "error_text _ ErrForbidden = ''forbidden''"
| "error_text _ ErrNotFound = ''not found''"
| "error_text _ ErrConflict = ''conflict''"
| "error_text _ ErrInvalidInput = ''invalid input''"
| "error_text _ ErrTooLarge = ''file too large''"
| "error_text _ ErrRateLimited = ''rate limited''"
| "error_text _ ErrQueueFull = ''queue full''"
| "error_text _ ErrServiceUnavailable = ''service unavailable''"
| "error_text _ ErrAlreadyExists = ''already exists''"
| "error_text _ ErrNotUploaded = ''file not uploaded''"
| "error_text lib (SqlError e) = hl_sqlText lib e"
| "error_text lib (RollbackError e rb) =
     ''tx error: '' @ error_text lib e @ '' (rollback error: '' @ hl_sqlText lib rb @ '')''"
| "error_text _ (OtherError s) = s"
| "error_text lib (WrappedError s e) = s @ '': '' @ error_text lib e"
| "error_text _ (Panic s) = s"

definition JSON :: "int \<Rightarrow> json \<Rightarrow> 's handler" where
  "JSON status body = State_Monad.return \<lparr>rs_status = status, rs_headers = [], rs_body = Some body\<rparr>"

definition AbortWithStatus :: "int \<Rightarrow> 's handler" where
  "AbortWithStatus status = State_Monad.return \<lparr>rs_status = status, rs_headers = [], rs_body = None\<rparr>"

text \<open>\<open>None\<close> is the nil data of \<^verbatim>\<open>NewSuccessResponse[any](nil)\<close>.\<close>

definition NewSuccessResponse :: "json option \<Rightarrow> json" where
  "NewSuccessResponse data = JObj ((''success'', JBool True) #
     (case data of None \<Rightarrow> [] | Some d \<Rightarrow> [(''data'', d)]))"

definition NewErrorResponse :: "string \<Rightarrow> string \<Rightarrow> json" where
  "NewErrorResponse err code = JObj ((''success'', JBool False) #
     unless_empty ''error'' err @ unless_empty ''code'' code)"

definition replyOK :: "json \<Rightarrow> 's handler" where
  "replyOK d = JSON 200 (NewSuccessResponse (Some d))"

definition replyNil :: "'s handler" where
  "replyNil = JSON 200 (NewSuccessResponse None)"

definition badRequest :: "string \<Rightarrow> 's handler" where
  "badRequest msg = JSON 400 (NewErrorResponse msg ''INVALID_REQUEST'')"

definition requestFailed :: "string \<Rightarrow> 's handler" where
  "requestFailed msg = JSON 400 (NewErrorResponse msg ''REQUEST_FAILED'')"

definition unauthorized :: "'s handler" where
  "unauthorized = JSON 401 (NewErrorResponse ''unauthorized'' ''UNAUTHORIZED'')"

section \<open>The checks of a handler\<close>

text \<open>\<^verbatim>\<open>c.ShouldBindJSON(&req)\<close>\<close>

definition bindJSON :: "(json \<Rightarrow> 'r option) \<Rightarrow> Request \<Rightarrow> ('r \<Rightarrow> 's handler) \<Rightarrow> 's handler" where
  "bindJSON dec rq k = (case Option.bind (rq_body rq) dec of
     None \<Rightarrow> badRequest ''invalid request'' | Some r \<Rightarrow> k r)"

definition withUser :: "Request \<Rightarrow> (uuid \<Rightarrow> 's handler) \<Rightarrow> 's handler" where
  "withUser rq k = (case UserIDFromContext (rq_ctx rq) of None \<Rightarrow> unauthorized | Some u \<Rightarrow> k u)"

definition orBadRequest :: "'a option \<Rightarrow> string \<Rightarrow> ('a \<Rightarrow> 's handler) \<Rightarrow> 's handler" where
  "orBadRequest x msg k = (case x of None \<Rightarrow> badRequest msg | Some a \<Rightarrow> k a)"

text \<open>
  A call of the service, with the reply to an error. A panic ends in \<^verbatim>\<open>gin.Recovery\<close>, which answers
  500 with no body.
\<close>

definition serveOr ::
  "(error \<Rightarrow> 's handler) \<Rightarrow> ('s, error + 'a) state \<Rightarrow> ('a \<Rightarrow> 's handler) \<Rightarrow> 's handler" where
  "serveOr onerr m k = do {
     r \<leftarrow> m;
     (case r of
        Inl (Panic _) \<Rightarrow> AbortWithStatus 500
      | Inl err \<Rightarrow> onerr err
      | Inr x \<Rightarrow> k x)
   }"

definition serve :: "HttpLib \<Rightarrow> ('s, error + 'a) state \<Rightarrow> ('a \<Rightarrow> 's handler) \<Rightarrow> 's handler" where
  "serve lib m k = serveOr (\<lambda>err. requestFailed (error_text lib err)) m k"

text \<open>
  The decoding of a JSON object into a struct: \<^verbatim>\<open>null\<close> leaves every field at its zero value.
\<close>

definition json_list :: "('a \<Rightarrow> json) \<Rightarrow> 'a list \<Rightarrow> json" where
  "json_list f xs = JArr (map f xs)"

definition decode_struct :: "((string \<times> json) list \<Rightarrow> 'r option) \<Rightarrow> json \<Rightarrow> 'r option" where
  "decode_struct f j = (case j of JObj fs \<Rightarrow> f fs | JNull \<Rightarrow> f [] | _ \<Rightarrow> None)"

text \<open>A field of type \<^verbatim>\<open>map[string]interface{}\<close>: \<open>None\<close> is nil.\<close>

definition as_map :: "json \<Rightarrow> (string \<times> json) list option option" where
  "as_map j = (case j of JNull \<Rightarrow> Some None | JObj fs \<Rightarrow> Some (Some fs) | _ \<Rightarrow> None)"

text \<open>\<^verbatim>\<open>binding:"required"\<close>: a string is not empty, a number not zero, a slice not nil.\<close>

definition required_string :: "json \<Rightarrow> string option" where
  "required_string j = Option.bind (as_string j) (\<lambda>s. if s = [] then None else Some s)"

definition required_int :: "json \<Rightarrow> int option" where
  "required_int j = Option.bind (as_int j) (\<lambda>i. if i = 0 then None else Some i)"

definition required_list :: "(json \<Rightarrow> 'a option) \<Rightarrow> json \<Rightarrow> 'a list option" where
  "required_list f j = (case j of JNull \<Rightarrow> None | _ \<Rightarrow> as_list f j)"

text \<open>
  \<^verbatim>\<open>strconv.Atoi\<close>: the value and whether there was no error. A number out of range gives the nearest
  64-bit value with an error, anything else that is no number gives zero with an error.
\<close>

definition Atoi :: "string \<Rightarrow> int \<times> bool" where
  "Atoi s = (let neg = (take 1 s = ''-''); ds = (if take 1 s = ''-'' \<or> take 1 s = ''+'' then drop 1 s else s) in
     if ds = [] \<or> \<not> list_all is_digit ds then (0, False)
     else let n = (if neg then - digits_value ds else digits_value ds) in
       if n > 2 ^ 63 - 1 then (2 ^ 63 - 1, False)
       else if n < - (2 ^ 63) then (- (2 ^ 63), False)
       else (n, True))"

text \<open>\<^verbatim>\<open>parseInt\<close> and \<^verbatim>\<open>parseInt64\<close> of \<^verbatim>\<open>message_handler.go\<close>\<close>

definition parseInt :: "string \<Rightarrow> int option" where
  "parseInt value = (if value = [] then Some 0
     else case Atoi value of (n, valid) \<Rightarrow> if valid then Some n else None)"

text \<open>\<^verbatim>\<open>time.Duration(n) * time.Second\<close> in 64 bits\<close>

definition seconds :: "int \<Rightarrow> duration" where
  "seconds n = signed_take_bit 63 (n * Second)"

lemma run_JSON [simp]:
  "run_state (JSON code body) s = (\<lparr>rs_status = code, rs_headers = [], rs_body = Some body\<rparr>, s)"
  by (simp add: JSON_def)

lemma run_AbortWithStatus [simp]:
  "run_state (AbortWithStatus code) s = (\<lparr>rs_status = code, rs_headers = [], rs_body = None\<rparr>, s)"
  by (simp add: AbortWithStatus_def)

lemmas reply_defs = replyOK_def replyNil_def badRequest_def requestFailed_def unauthorized_def

text \<open>A reply other than 200 of a checked handler comes from a failed check or a failed call.\<close>

lemma serveOr_Inr: "run_state m s = (Inr x, s') \<Longrightarrow> run_state (serveOr f m k) s = run_state (k x) s'"
  by (simp add: serveOr_def)

lemma serveOr_Inl:
  assumes "run_state m s = (Inl e, s')" and "\<And>e. rs_status (fst (run_state (f e) s')) \<noteq> 200"
    and "\<And>e. snd (run_state (f e) s') = s'"
  shows "snd (run_state (serveOr f m k) s) = s' \<and> rs_status (fst (run_state (serveOr f m k) s)) \<noteq> 200"
  using assms by (cases e) (simp_all add: serveOr_def)

lemmas serve_Inr = serveOr_Inr [where f = "\<lambda>e. requestFailed (error_text lib e)" for lib, folded serve_def]

lemma serve_Inl:
  "run_state m s = (Inl e, s') \<Longrightarrow> snd (run_state (serve lib m k) s) = s' \<and> rs_status (fst (run_state (serve lib m k) s)) \<noteq> 200"
  unfolding serve_def by (rule serveOr_Inl) (simp_all add: requestFailed_def)

lemma serveOr_200:
  assumes "run_state (serveOr f m k) s = (r, s')" "rs_status r = 200"
    and "\<And>e s. rs_status (fst (run_state (f e) s)) \<noteq> 200"
  obtains x s1 where "run_state m s = (Inr x, s1)" "run_state (k x) s1 = (r, s')"
proof (cases "run_state m s")
  case (Pair y s1)
  have no: "rs_status r' \<noteq> 200" if "run_state (f e) s = (r', s')" for e s r' s'
    using that assms(3) [of e s] by simp
  show thesis
  proof (cases y)
    case (Inl e)
    with Pair assms(1) have "rs_status r \<noteq> 200"
      by (cases e) (auto simp: serveOr_def dest: no)
    with assms(2) show thesis by simp
  next
    case (Inr x)
    with Pair assms(1) that show thesis by (auto simp: serveOr_Inr)
  qed
qed

lemma serve_200:
  assumes "run_state (serve lib m k) s = (r, s')" "rs_status r = 200"
  obtains x s1 where "run_state m s = (Inr x, s1)" "run_state (k x) s1 = (r, s')"
  using assms unfolding serve_def by (rule serveOr_200) (simp_all add: requestFailed_def)

lemma bindJSON_200:
  assumes "run_state (bindJSON dec rq k) s = (r, s')" "rs_status r = 200"
  obtains x where "Option.bind (rq_body rq) dec = Some x" "run_state (k x) s = (r, s')"
  using assms by (auto simp: bindJSON_def badRequest_def split: option.splits)

lemma withUser_200:
  assumes "run_state (withUser rq k) s = (r, s')" "rs_status r = 200"
  obtains u where "UserIDFromContext (rq_ctx rq) = Some u" "run_state (k u) s = (r, s')"
  using assms by (auto simp: withUser_def unauthorized_def split: option.splits)

lemma orBadRequest_200:
  assumes "run_state (orBadRequest x msg k) s = (r, s')" "rs_status r = 200"
  obtains a where "x = Some a" "run_state (k a) s = (r, s')"
  using assms by (auto simp: orBadRequest_def badRequest_def split: option.splits)

lemma bindJSON_cases:
  assumes "run_state (bindJSON dec rq k) s = (r, s')"
  obtains "rs_status r = 400" "s' = s" | x where "Option.bind (rq_body rq) dec = Some x" "run_state (k x) s = (r, s')"
  using assms by (auto simp: bindJSON_def badRequest_def split: option.splits)

lemma withUser_cases:
  assumes "run_state (withUser rq k) s = (r, s')"
  obtains "rs_status r = 401" "s' = s" | u where "UserIDFromContext (rq_ctx rq) = Some u" "run_state (k u) s = (r, s')"
  using assms by (auto simp: withUser_def unauthorized_def split: option.splits)

lemma orBadRequest_cases:
  assumes "run_state (orBadRequest x msg k) s = (r, s')"
  obtains "rs_status r = 400" "s' = s" | a where "x = Some a" "run_state (k a) s = (r, s')"
  using assms by (auto simp: orBadRequest_def badRequest_def split: option.splits)

lemma keeps_JSON [keeps_intros]: "keeps I (JSON code body)" "keeps I (AbortWithStatus code)"
  by (simp_all add: JSON_def AbortWithStatus_def keeps_intros)

lemma keeps_serveOr [keeps_intros]:
  "keeps I m \<Longrightarrow> (\<And>e. keeps I (f e)) \<Longrightarrow> (\<And>x. keeps I (k x)) \<Longrightarrow> keeps I (serveOr f m k)"
  unfolding serveOr_def by (auto intro!: keeps_intros split: sum.split error.split)

lemma keeps_serve [keeps_intros]: "keeps I m \<Longrightarrow> (\<And>x. keeps I (k x)) \<Longrightarrow> keeps I (serve lib m k)"
  unfolding serve_def by (auto intro!: keeps_intros simp: requestFailed_def)

lemma keeps_replies [keeps_intros]:
  "keeps I (replyOK d)" "keeps I replyNil" "keeps I (badRequest m)" "keeps I (requestFailed m)" "keeps I unauthorized"
  by (simp_all add: reply_defs keeps_intros)

lemma keeps_checks [keeps_intros]:
  "(\<And>x. keeps I (k x)) \<Longrightarrow> keeps I (bindJSON dec rq k)"
  "(\<And>x. keeps I (k' x)) \<Longrightarrow> keeps I (withUser rq k')"
  "(\<And>x. keeps I (k'' x)) \<Longrightarrow> keeps I (orBadRequest y msg k'')"
  by (auto simp: bindJSON_def withUser_def orBadRequest_def intro!: keeps_intros split: option.split)

text \<open>A library to run the handlers with.\<close>

definition sample_http :: HttpLib where
  "sample_http = \<lparr>hl_uuid_Parse = read_uuid, hl_sqlText = (\<lambda>_. ''sql''), hl_RFC3339 = Itoa,
     hl_ParseRFC3339 = (\<lambda>_. None)\<rparr>"

lemma sample_http_uuid [simp]: "hl_uuid_Parse sample_http (uuid_String u) = Some u"
  by (simp add: sample_http_def read_uuid_String)

end
