(* ===== verification/AuthService.thy ===== *)
theory AuthService
  imports UserRepo Samples UuidText Http
begin

text \<open>
  \<^verbatim>\<open>internal/services/auth_service.go\<close> and \<^verbatim>\<open>internal/middleware/auth_middleware.go\<close>: accounts,
  sessions with rotating refresh tokens, access tokens, and the check of a request.

  Cryptography is a parameter: the record \<open>auth_lib\<close> holds bcrypt, SHA-256, the random source,
  the signing and checking of JWTs and the parser of UUIDs. Every operation that draws random
  numbers uses up one index of the world, as the clock does.
\<close>

section \<open>Data\<close>

record RegisterInput =
  rin_Email :: string
  rin_Username :: string
  rin_PhoneNumber :: string
  rin_Password :: string
  rin_DisplayName :: string
  rin_DeviceID :: string
  rin_DeviceName :: string
  rin_DeviceType :: string

record LoginInput =
  lin_Identity :: string
  lin_Password :: string
  lin_DeviceID :: string
  lin_DeviceName :: string
  lin_DeviceType :: string

record RefreshInput =
  fin_SessionID :: string
  fin_RefreshToken :: string

record ResetInput =
  sin_Identity :: string
  sin_NewPassword :: string

record UserInfo =
  ui_ID :: string
  ui_DisplayName :: string
  ui_Username :: string
  ui_Email :: string
  ui_PhoneNumber :: string

record AuthResponse =
  ar_AccessToken :: string
  ar_RefreshToken :: string
  ar_ExpiresIn :: int
  ar_SessionID :: string
  ar_DeviceID :: string
  ar_User :: UserInfo

record SessionInfo =
  si_ID :: string
  si_DeviceID :: string
  si_DeviceName :: string
  si_DeviceType :: string
  si_ExpiresAt :: time
  si_CreatedAt :: time
  si_IsRevoked :: bool

text \<open>The registered claims the code sets: subject, expiry and issue, in whole seconds.\<close>

record AccessClaims =
  ac_UserID :: string
  ac_SessionID :: string
  ac_DeviceID :: string
  ac_Subject :: string
  ac_ExpiresAt :: int
  ac_IssuedAt :: int

record AuthService =
  asv_userRepo :: DBTX
  asv_jwtSecret :: string
  asv_accessTTL :: duration
  asv_refreshTTL :: duration

text \<open>
  The JSON of the claims, which is the payload of a token. The field \<^verbatim>\<open>UserID\<close> has the name \<^verbatim>\<open>sub\<close> and thereby
  hides the field \<^verbatim>\<open>Subject\<close> of the embedded \<^verbatim>\<open>RegisteredClaims\<close>: a subject is neither written nor read.
\<close>

definition AccessClaims_json :: "AccessClaims \<Rightarrow> json" where
  "AccessClaims_json c = JObj ([(''sub'', JStr (ac_UserID c)), (''sid'', JStr (ac_SessionID c))] @
     unless_empty ''did'' (ac_DeviceID c) @ [(''exp'', JNum (ac_ExpiresAt c)), (''iat'', JNum (ac_IssuedAt c))])"

definition decode_AccessClaims :: "json \<Rightarrow> AccessClaims option" where
  "decode_AccessClaims = decode_struct (\<lambda>fs.
     Option.bind (as_string (field fs ''sub'')) (\<lambda>sub.
     Option.bind (as_string (field fs ''sid'')) (\<lambda>sid.
     Option.bind (as_string (field fs ''did'')) (\<lambda>did.
     Option.bind (as_int (field fs ''exp'')) (\<lambda>exp.
     Option.bind (as_int (field fs ''iat'')) (\<lambda>iat.
       Some \<lparr>ac_UserID = sub, ac_SessionID = sid, ac_DeviceID = did, ac_Subject = [],
         ac_ExpiresAt = exp, ac_IssuedAt = iat\<rparr>))))))"

text \<open>
  \<open>jwt_SignedString secret payload\<close> is the token that is signed with HS256; \<open>jwt_Payload now secret token\<close> is the
  payload of a token with a signature that fits, an HMAC method and an expiry that is still to come.
\<close>

record auth_lib =
  bcrypt_Generate :: "nat \<Rightarrow> string \<Rightarrow> string option"
  bcrypt_Compare :: "string \<Rightarrow> string \<Rightarrow> bool"
  sha256_Sum :: "bytes \<Rightarrow> bytes"
  rand_Read :: "nat \<Rightarrow> bytes option"
  jwt_SignedString :: "string \<Rightarrow> json \<Rightarrow> string option"
  jwt_Payload :: "time \<Rightarrow> string \<Rightarrow> string \<Rightarrow> json option"
  uuid_Parse :: "string \<Rightarrow> uuid option"

text \<open>\<^verbatim>\<open>jwt.NewWithClaims\<close> with \<^verbatim>\<open>SignedString\<close>, and \<^verbatim>\<open>jwt.ParseWithClaims\<close> into an \<^verbatim>\<open>AccessClaims\<close>\<close>

definition jwt_Sign :: "auth_lib \<Rightarrow> string \<Rightarrow> AccessClaims \<Rightarrow> string option" where
  "jwt_Sign lib secret c = jwt_SignedString lib secret (AccessClaims_json c)"

definition jwt_Parse :: "auth_lib \<Rightarrow> time \<Rightarrow> string \<Rightarrow> string \<Rightarrow> AccessClaims option" where
  "jwt_Parse lib now secret token = Option.bind (jwt_Payload lib now secret token) decode_AccessClaims"

text \<open>What is read of the claims that were written\<close>

lemma decode_written_AccessClaims [simp]: "decode_AccessClaims (AccessClaims_json c) = Some (c\<lparr>ac_Subject := []\<rparr>)"
  by (cases c) (simp add: AccessClaims_json_def decode_AccessClaims_def decode_struct_def field_def unless_empty_def)

section \<open>Helpers\<close>

definition draw :: "(nat \<Rightarrow> 'a) \<Rightarrow> (world, 'a) state" where
  "draw f = State (\<lambda>w. (f (w_step w), w\<lparr>w_step := Suc (w_step w)\<rparr>))"

definition hex_byte :: "8 word \<Rightarrow> string" where
  "hex_byte b = [hexdigit (unat b div 16), hexdigit (unat b mod 16)]"

definition hex_EncodeToString :: "bytes \<Rightarrow> string" where
  "hex_EncodeToString bs = concat (map hex_byte bs)"

definition string_bytes :: "string \<Rightarrow> bytes" where
  "string_bytes s = map (\<lambda>c. of_nat (of_char c)) s"

definition toNullString :: "string \<Rightarrow> string option" where
  "toNullString value = (if value = [] then None else Some value)"

definition toUserInfo :: "User \<Rightarrow> UserInfo" where
  "toUserInfo u = \<lparr>ui_ID = uuid_String (usr_ID u), ui_DisplayName = usr_DisplayName u,
     ui_Username = opt_string (usr_Username u), ui_Email = opt_string (usr_Email u),
     ui_PhoneNumber = opt_string (usr_PhoneNumber u)\<rparr>"

definition validateRegister :: "RegisterInput \<Rightarrow> error option" where
  "validateRegister input =
     (if rin_Password input = [] \<or> rin_DisplayName input = [] then Some ErrInvalidInput
      else if rin_Email input = [] \<and> rin_Username input = [] \<and> rin_PhoneNumber input = []
      then Some ErrInvalidInput
      else if length (rin_Password input) < 8 then Some ErrInvalidInput
      else None)"

definition validateLogin :: "LoginInput \<Rightarrow> error option" where
  "validateLogin input =
     (if lin_Identity input = [] \<or> lin_Password input = [] then Some ErrInvalidInput else None)"

definition hashPassword :: "auth_lib \<Rightarrow> string \<Rightarrow> string go" where
  "hashPassword lib password = do {
     h \<leftarrow> draw (\<lambda>n. bcrypt_Generate lib n password);
     (case h of None \<Rightarrow> fail (OtherError ''bcrypt'') | Some hash \<Rightarrow> ok hash)
   }"

definition generateToken :: "auth_lib \<Rightarrow> string go" where
  "generateToken lib = do {
     b \<leftarrow> draw (rand_Read lib);
     (case b of None \<Rightarrow> fail (OtherError ''rand'') | Some buf \<Rightarrow> ok (hex_EncodeToString buf))
   }"

definition hashRefreshToken :: "auth_lib \<Rightarrow> string \<Rightarrow> string" where
  "hashRefreshToken lib token = hex_EncodeToString (sha256_Sum lib (string_bytes token))"

definition compareRefreshToken :: "auth_lib \<Rightarrow> string \<Rightarrow> string \<Rightarrow> bool" where
  "compareRefreshToken lib hash token \<longleftrightarrow> hash = hashRefreshToken lib token"

definition newAccessToken ::
  "auth_lib \<Rightarrow> AuthService \<Rightarrow> uuid \<Rightarrow> uuid \<Rightarrow> uuid option \<Rightarrow> (string \<times> int) go" where
  "newAccessToken lib s userID sessionID deviceID = do {
     now \<leftarrow> time_Now;
     (case jwt_Sign lib (asv_jwtSecret s)
        \<lparr>ac_UserID = uuid_String userID, ac_SessionID = uuid_String sessionID,
         ac_DeviceID = opt_uuid_String deviceID, ac_Subject = uuid_String userID,
         ac_ExpiresAt = (now + asv_accessTTL s) div Second, ac_IssuedAt = now div Second\<rparr> of
        None \<Rightarrow> fail (OtherError ''jwt'')
      | Some jwt \<Rightarrow> ok (jwt, asv_accessTTL s div Second))
   }"

text \<open>\<open>available_if\<close>: nothing to look up, or the lookup finds nobody.\<close>

definition available_if :: "bool \<Rightarrow> User go \<Rightarrow> unit go" where
  "available_if given lookup =
     (if given then do {
        r \<leftarrow> lookup;
        (case r of
           Inr _ \<Rightarrow> fail ErrAlreadyExists
         | Inl err \<Rightarrow> if err \<noteq> ErrNotFound then fail err else ok ())
      } else ok ())"

definition ensureIdentityAvailable :: "AuthService \<Rightarrow> RegisterInput \<Rightarrow> unit go" where
  "ensureIdentityAvailable s input =
     (let repo = asv_userRepo s
      in andThen (available_if (rin_Email input \<noteq> []) (userRepo_GetUserByEmail repo (rin_Email input))) (\<lambda>_.
         andThen (available_if (rin_Username input \<noteq> []) (userRepo_GetUserByUsername repo (rin_Username input))) (\<lambda>_.
         available_if (rin_PhoneNumber input \<noteq> [])
           (userRepo_GetUserByPhoneNumber repo (rin_PhoneNumber input)))))"

text \<open>\<open>or_else\<close>: the first lookup, or the rest if it finds nobody.\<close>

definition or_else :: "User go \<Rightarrow> User go \<Rightarrow> User go" where
  "or_else lookup rest = do {
     r \<leftarrow> lookup;
     (case r of
        Inr u \<Rightarrow> ok u
      | Inl err \<Rightarrow> if err \<noteq> ErrNotFound then fail err else rest)
   }"

definition getUserByIdentity :: "AuthService \<Rightarrow> string \<Rightarrow> User go" where
  "getUserByIdentity s identity =
     (let repo = asv_userRepo s;
          byName = or_else (userRepo_GetUserByUsername repo identity)
            (or_else (userRepo_GetUserByPhoneNumber repo identity) (fail ErrNotFound))
      in if identity = [] then fail ErrInvalidInput
         else if CHR ''@'' \<in> set identity
         then or_else (userRepo_GetUserByEmail repo identity) byName
         else byName)"

definition find_device :: "string \<Rightarrow> Device list \<Rightarrow> Device option" where
  "find_device deviceID ds = find (\<lambda>d. dev_DeviceID d = deviceID) ds"

definition getOrCreateDevice ::
  "AuthService \<Rightarrow> uuid \<Rightarrow> string \<Rightarrow> string \<Rightarrow> string \<Rightarrow> uuid option go" where
  "getOrCreateDevice s userID deviceID deviceName deviceType =
     (let repo = asv_userRepo s
      in if deviceID = [] then ok None
         else andThen (userRepo_GetUserDevices repo userID) (\<lambda>devices.
           case find_device deviceID devices of
             Some d \<Rightarrow> do {
               _ \<leftarrow> userRepo_UpdateDeviceLastSeen repo (dev_ID d);
               ok (Some (dev_ID d))
             }
           | None \<Rightarrow> do {
               i \<leftarrow> uuid_New;
               registered \<leftarrow> time_Now;
               seen \<leftarrow> time_Now;
               r \<leftarrow> userRepo_AddDevice repo \<lparr>dev_ID = i, dev_UserID = userID,
                 dev_DeviceID = deviceID, dev_DeviceName = deviceName, dev_DeviceType = deviceType,
                 dev_IsActive = True, dev_RegisteredAt = registered, dev_LastSeenAt = Some seen\<rparr>;
               (case r of
                  Inr _ \<Rightarrow> ok (Some i)
                | Inl err \<Rightarrow>
                    if err = ErrAlreadyExists
                    then andThen (userRepo_GetUserDevices repo userID) (\<lambda>devices.
                      case find_device deviceID devices of
                        Some d \<Rightarrow> ok (Some (dev_ID d))
                      | None \<Rightarrow> fail err)
                    else fail err)
             }))"

text \<open>A new session of the user, as \<^verbatim>\<open>Register\<close> and \<^verbatim>\<open>Login\<close> open it; the value has its refresh token.\<close>

definition openSession :: "auth_lib \<Rightarrow> AuthService \<Rightarrow> uuid \<Rightarrow> uuid option \<Rightarrow> (UserSession \<times> string) go" where
  "openSession lib s userID deviceID =
     andThen (generateToken lib) (\<lambda>refreshToken. do {
       createdAt \<leftarrow> time_Now;
       i \<leftarrow> uuid_New;
       let session = \<lparr>ses_ID = i, ses_UserID = userID, ses_DeviceID = deviceID, ses_Device = None,
         ses_RefreshTokenHash = hashRefreshToken lib refreshToken,
         ses_ExpiresAt = createdAt + asv_refreshTTL s, ses_IsRevoked = False,
         ses_CreatedAt = createdAt\<rparr>;
       andThen (userRepo_CreateSession (asv_userRepo s) session) (\<lambda>_. ok (session, refreshToken))
     })"

definition response :: "string \<times> int \<Rightarrow> string \<Rightarrow> uuid \<Rightarrow> uuid option \<Rightarrow> User \<Rightarrow> AuthResponse" where
  "response access refresh sessionID deviceID u = \<lparr>ar_AccessToken = fst access,
     ar_RefreshToken = refresh, ar_ExpiresIn = snd access, ar_SessionID = uuid_String sessionID,
     ar_DeviceID = opt_uuid_String deviceID, ar_User = toUserInfo u\<rparr>"

section \<open>Operations\<close>

definition default_settings :: "uuid \<Rightarrow> time \<Rightarrow> UserSettings" where
  "default_settings u now = \<lparr>st_UserID = u, st_PrivacyLastSeen = ''EVERYONE'',
     st_PrivacyProfilePhoto = ''EVERYONE'', st_PrivacyAbout = ''EVERYONE'',
     st_PrivacyGroups = ''EVERYONE'', st_ReadReceipts = True, st_NotificationsEnabled = True,
     st_NotificationSound = [], st_NotificationVibrate = False, st_Theme = ''SYSTEM'',
     st_Language = ''en'', st_EnterToSend = False, st_MediaAutoDownloadWiFi = False,
     st_MediaAutoDownloadMobile = False, st_UpdatedAt = now\<rparr>"

definition new_user :: "RegisterInput \<Rightarrow> string \<Rightarrow> uuid \<Rightarrow> time \<Rightarrow> time \<Rightarrow> User" where
  "new_user input hash i created updated = \<lparr>usr_ID = i,
     usr_PhoneNumber = toNullString (rin_PhoneNumber input),
     usr_Username = toNullString (rin_Username input), usr_Email = toNullString (rin_Email input),
     usr_PasswordHash = hash, usr_DisplayName = rin_DisplayName input, usr_Role = [], usr_Bio = [],
     usr_AvatarURL = [], usr_IsOnline = False, usr_LastSeenAt = None, usr_IsActive = True,
     usr_IsVerified = False, usr_CreatedAt = created, usr_UpdatedAt = updated\<rparr>"

definition authSvc_Register :: "auth_lib \<Rightarrow> AuthService \<Rightarrow> RegisterInput \<Rightarrow> AuthResponse go" where
  "authSvc_Register lib s input =
     (case validateRegister input of
        Some err \<Rightarrow> fail err
      | None \<Rightarrow>
          andThen (ensureIdentityAvailable s input) (\<lambda>_.
          andThen (hashPassword lib (rin_Password input)) (\<lambda>hash. do {
            i \<leftarrow> uuid_New;
            created \<leftarrow> time_Now;
            updated \<leftarrow> time_Now;
            let newUser = new_user input hash i created updated;
            andThen (userRepo_Create (asv_userRepo s) newUser) (\<lambda>_. do {
              now \<leftarrow> time_Now;
              andThen (userRepo_CreateUserSettings (asv_userRepo s) (default_settings i now)) (\<lambda>_.
              andThen (getOrCreateDevice s i (rin_DeviceID input) (rin_DeviceName input)
                (rin_DeviceType input)) (\<lambda>deviceID.
              andThen (openSession lib s i deviceID) (\<lambda>(session, refresh).
              andThen (newAccessToken lib s i (ses_ID session) (ses_DeviceID session)) (\<lambda>access.
                ok (response access refresh (ses_ID session) deviceID newUser)))))
            })
          })))"

definition authSvc_Login :: "auth_lib \<Rightarrow> AuthService \<Rightarrow> LoginInput \<Rightarrow> AuthResponse go" where
  "authSvc_Login lib s input =
     (case validateLogin input of
        Some err \<Rightarrow> fail err
      | None \<Rightarrow>
          andThen (getUserByIdentity s (lin_Identity input)) (\<lambda>u.
          if \<not> usr_IsActive u then fail ErrForbidden
          else if \<not> bcrypt_Compare lib (usr_PasswordHash u) (lin_Password input)
          then fail ErrUnauthorized
          else
            andThen (getOrCreateDevice s (usr_ID u) (lin_DeviceID input) (lin_DeviceName input)
              (lin_DeviceType input)) (\<lambda>deviceID.
            andThen (openSession lib s (usr_ID u) deviceID) (\<lambda>(session, refresh). do {
              _ \<leftarrow> userRepo_UpdateOnlineStatus (asv_userRepo s) (usr_ID u) True;
              andThen (newAccessToken lib s (usr_ID u) (ses_ID session) (ses_DeviceID session)) (\<lambda>access.
                ok (response access refresh (ses_ID session) deviceID u))
            }))))"

text \<open>The second half of \<^verbatim>\<open>Refresh\<close>: the session gets a new token and a new expiry.\<close>

definition rotateSession :: "auth_lib \<Rightarrow> AuthService \<Rightarrow> UserSession \<Rightarrow> AuthResponse go" where
  "rotateSession lib s session =
     andThen (generateToken lib) (\<lambda>newRefresh. do {
       now \<leftarrow> time_Now;
       let session' = session\<lparr>ses_RefreshTokenHash := hashRefreshToken lib newRefresh,
         ses_ExpiresAt := now + asv_refreshTTL s\<rparr>;
       andThen (userRepo_UpdateSession (asv_userRepo s) session') (\<lambda>_.
       andThen (newAccessToken lib s (ses_UserID session') (ses_ID session') (ses_DeviceID session')) (\<lambda>access.
       andThen (userRepo_GetUserByID (asv_userRepo s) (ses_UserID session')) (\<lambda>u.
         ok (response access newRefresh (ses_ID session') (ses_DeviceID session') u))))
     })"

definition session_over :: "UserSession \<Rightarrow> (world, bool) state" where
  "session_over session =
     (if ses_IsRevoked session then State_Monad.return True
      else do { now \<leftarrow> time_Now; State_Monad.return (now > ses_ExpiresAt session) })"

definition authSvc_Refresh :: "auth_lib \<Rightarrow> AuthService \<Rightarrow> RefreshInput \<Rightarrow> AuthResponse go" where
  "authSvc_Refresh lib s input =
     (let repo = asv_userRepo s
      in if fin_SessionID input = [] \<or> fin_RefreshToken input = [] then fail ErrInvalidInput
         else case uuid_Parse lib (fin_SessionID input) of
           None \<Rightarrow> fail ErrInvalidInput
         | Some sessionID \<Rightarrow>
             andThen (userRepo_GetSessionByID repo sessionID) (\<lambda>session. do {
               over \<leftarrow> session_over session;
               (if over then fail ErrUnauthorized
                else if \<not> compareRefreshToken lib (ses_RefreshTokenHash session) (fin_RefreshToken input)
                then do {
                  _ \<leftarrow> userRepo_RevokeSession repo (ses_ID session);
                  fail ErrUnauthorized
                }
                else rotateSession lib s session)
             }))"

definition authSvc_Logout :: "auth_lib \<Rightarrow> AuthService \<Rightarrow> string \<Rightarrow> unit go" where
  "authSvc_Logout lib s sessionID =
     (if sessionID = [] then fail ErrInvalidInput
      else case uuid_Parse lib sessionID of
        None \<Rightarrow> fail ErrInvalidInput
      | Some i \<Rightarrow> userRepo_RevokeSession (asv_userRepo s) i)"

definition authSvc_LogoutAll :: "AuthService \<Rightarrow> uuid \<Rightarrow> unit go" where
  "authSvc_LogoutAll s u = userRepo_RevokeAllUserSessions (asv_userRepo s) u"

text \<open>
  \<^verbatim>\<open>Sessions\<close>: the repository returns no session without its device, so the cache and the
  lookup of a single device serve nothing; they are kept as the code has them.
\<close>

definition session_info :: "UserSession \<Rightarrow> SessionInfo" where
  "session_info r = \<lparr>si_ID = uuid_String (ses_ID r), si_DeviceID = opt_uuid_String (ses_DeviceID r),
     si_DeviceName = [], si_DeviceType = [], si_ExpiresAt = ses_ExpiresAt r,
     si_CreatedAt = ses_CreatedAt r, si_IsRevoked = ses_IsRevoked r\<rparr>"

definition named_after :: "Device \<Rightarrow> SessionInfo \<Rightarrow> SessionInfo" where
  "named_after d item = item\<lparr>si_DeviceName := dev_DeviceName d, si_DeviceType := dev_DeviceType d\<rparr>"

fun session_infos ::
  "DBTX \<Rightarrow> (uuid \<times> Device) list \<Rightarrow> UserSession list \<Rightarrow> (world, SessionInfo list) state" where
  "session_infos repo cache [] = State_Monad.return []"
| "session_infos repo cache (r # rs) =
     (let item = session_info r
      in case ses_DeviceID r of
           None \<Rightarrow> do {
             items \<leftarrow> session_infos repo cache rs;
             State_Monad.return (item # items)
           }
         | Some i \<Rightarrow>
             (case ses_Device r of
                Some d \<Rightarrow> do {
                  items \<leftarrow> session_infos repo (map_put i d cache) rs;
                  State_Monad.return (named_after d item # items)
                }
              | None \<Rightarrow>
                  (case map_of cache i of
                     Some d \<Rightarrow> do {
                       items \<leftarrow> session_infos repo cache rs;
                       State_Monad.return (named_after d item # items)
                     }
                   | None \<Rightarrow> do {
                       q \<leftarrow> userRepo_GetDeviceByID repo i;
                       (case q of
                          Inl _ \<Rightarrow> do {
                            items \<leftarrow> session_infos repo cache rs;
                            State_Monad.return (item # items)
                          }
                        | Inr d \<Rightarrow> do {
                            items \<leftarrow> session_infos repo (map_put (dev_ID d) d cache) rs;
                            State_Monad.return (named_after d item # items)
                          })
                     })))"

definition authSvc_Sessions :: "AuthService \<Rightarrow> uuid \<Rightarrow> SessionInfo list go" where
  "authSvc_Sessions s u =
     andThen (userRepo_GetUserSessions (asv_userRepo s) u) (\<lambda>sessions. do {
       items \<leftarrow> session_infos (asv_userRepo s) [] sessions;
       ok items
     })"

definition authSvc_PasswordForgot :: "AuthService \<Rightarrow> string \<Rightarrow> unit go" where
  "authSvc_PasswordForgot s identity =
     (if identity = [] then fail ErrInvalidInput
      else do {
        r \<leftarrow> getUserByIdentity s identity;
        (case r of
           Inl err \<Rightarrow> if err = ErrNotFound then ok () else fail err
         | Inr _ \<Rightarrow> ok ())
      })"

definition authSvc_PasswordReset :: "auth_lib \<Rightarrow> AuthService \<Rightarrow> ResetInput \<Rightarrow> unit go" where
  "authSvc_PasswordReset lib s input =
     (if sin_Identity input = [] \<or> sin_NewPassword input = [] then fail ErrInvalidInput
      else if length (sin_NewPassword input) < 8 then fail ErrInvalidInput
      else
        andThen (getUserByIdentity s (sin_Identity input)) (\<lambda>u.
        andThen (hashPassword lib (sin_NewPassword input)) (\<lambda>newHash. do {
          now \<leftarrow> time_Now;
          andThen (userRepo_UpdateUser (asv_userRepo s)
            (u\<lparr>usr_PasswordHash := newHash, usr_UpdatedAt := now\<rparr>)) (\<lambda>_.
          userRepo_RevokeAllUserSessions (asv_userRepo s) (usr_ID u))
        })))"

definition authSvc_ParseAccessToken :: "auth_lib \<Rightarrow> AuthService \<Rightarrow> string \<Rightarrow> AccessClaims go" where
  "authSvc_ParseAccessToken lib s token =
     (if token = [] then fail ErrUnauthorized
      else do {
        now \<leftarrow> time_Now;
        (case jwt_Parse lib now (asv_jwtSecret s) token of
           None \<Rightarrow> fail ErrUnauthorized
         | Some claims \<Rightarrow> ok claims)
      })"

definition authSvc_ValidateSession :: "AuthService \<Rightarrow> uuid \<Rightarrow> uuid \<Rightarrow> UserSession go" where
  "authSvc_ValidateSession s sessionID userID =
     andThen (userRepo_GetSessionByID (asv_userRepo s) sessionID) (\<lambda>session.
       if ses_UserID session \<noteq> userID then fail ErrUnauthorized else ok session)"

fun HTTPStatus :: "error \<Rightarrow> int" where
  "HTTPStatus ErrInvalidInput = 400"
| "HTTPStatus ErrUnauthorized = 401"
| "HTTPStatus ErrForbidden = 403"
| "HTTPStatus ErrNotFound = 404"
| "HTTPStatus ErrAlreadyExists = 409"
| "HTTPStatus ErrConflict = 409"
| "HTTPStatus ErrRateLimited = 429"
| "HTTPStatus _ = 500"

section \<open>The check of a request (\<^verbatim>\<open>auth_middleware.go\<close>)\<close>

text \<open>\<^verbatim>\<open>strings.SplitN(value, " ", 2)\<close> has two parts only if there is a space.\<close>

definition extractBearer :: "string \<Rightarrow> string" where
  "extractBearer value =
     (let scheme = takeWhile (\<lambda>c. c \<noteq> CHR '' '') value; rest = dropWhile (\<lambda>c. c \<noteq> CHR '' '') value
      in case rest of
           [] \<Rightarrow> []
         | _ # tok \<Rightarrow> if ToLower scheme = ToLower ''Bearer'' then TrimSpace tok else [])"

text \<open>
  The value is the context the request goes on with; every error is answered with 401 and
  aborts the request.
\<close>

definition AuthMiddleware :: "auth_lib \<Rightarrow> AuthService \<Rightarrow> string \<Rightarrow> request_context go" where
  "AuthMiddleware lib s header =
     mapErr (\<lambda>_. ErrUnauthorized) (
       andThen (authSvc_ParseAccessToken lib s (extractBearer header)) (\<lambda>claims.
       case uuid_Parse lib (ac_UserID claims) of
         None \<Rightarrow> fail ErrUnauthorized
       | Some userID \<Rightarrow>
           (case uuid_Parse lib (ac_SessionID claims) of
              None \<Rightarrow> fail ErrUnauthorized
            | Some sessionID \<Rightarrow>
                andThen (authSvc_ValidateSession s sessionID userID) (\<lambda>session.
                if ac_DeviceID claims \<noteq> [] \<and> ses_DeviceID session \<noteq> None \<and>
                   opt_uuid_String (ses_DeviceID session) \<noteq> ac_DeviceID claims
                then fail ErrUnauthorized
                else ok \<lparr>rc_userID = userID, rc_sessionID = sessionID,
                  rc_deviceID = ses_DeviceID session\<rparr>))))"

section \<open>Operations that always fail\<close>

lemma keeps_draw [keeps_intros]:
  "keeps (committed d) (draw f)" "keeps (same_params w0) (draw f)" "keeps (all_dbs J) (draw f)"
  by (auto simp: keeps_def draw_def committed_def same_params_def all_dbs_def)

lemma keeps_lookups [keeps_intros]:
  "keeps (committed d) (userRepo_GetUserByEmail db x)"
  "keeps (committed d) (userRepo_GetUserByUsername db x)"
  "keeps (committed d) (userRepo_GetUserByPhoneNumber db x)"
  "keeps (same_params w0) (userRepo_GetUserByEmail db x)"
  "keeps (same_params w0) (userRepo_GetUserByUsername db x)"
  "keeps (same_params w0) (userRepo_GetUserByPhoneNumber db x)"
  unfolding userRepo_GetUserByEmail_def userRepo_GetUserByUsername_def
    userRepo_GetUserByPhoneNumber_def by (intro keeps_intros)+

lemma keeps_available_if [keeps_intros]: "keeps I m \<Longrightarrow> keeps I (available_if b m)"
  unfolding available_if_def by (auto intro!: keeps_intros split: sum.split)

lemma keeps_or_else [keeps_intros]: "keeps I m \<Longrightarrow> keeps I n \<Longrightarrow> keeps I (or_else m n)"
  unfolding or_else_def by (auto intro!: keeps_intros split: sum.split)

lemma keeps_identity [keeps_intros]:
  "keeps (committed d) (ensureIdentityAvailable s input)"
  "keeps (committed d) (getUserByIdentity s identity)"
  "keeps (same_params w0) (getUserByIdentity s identity)"
  unfolding ensureIdentityAvailable_def getUserByIdentity_def Let_def by (intro keeps_intros)+

lemma keeps_hashPassword [keeps_intros]:
  "keeps (committed d) (hashPassword lib pw)" "keeps (same_params w0) (hashPassword lib pw)"
  unfolding hashPassword_def by (auto intro!: keeps_intros split: option.split)

lemma keeps_generateToken [keeps_intros]:
  "keeps (committed d) (generateToken lib)" "keeps (same_params w0) (generateToken lib)"
  unfolding generateToken_def by (auto intro!: keeps_intros split: option.split)

text \<open>
  C31. Nobody can register. The new account is inserted with the empty role, which is not a value
  of the column's type, so \<open>Register\<close> returns an error for every input in every state and leaves
  the committed database as it was.
\<close>

theorem Register_always_fails:
  "isl (fst (run_state (authSvc_Register lib s input) w)) \<and>
   w_db (snd (run_state (authSvc_Register lib s input) w)) = w_db w"
proof -
  have "fails (userRepo_Create db (new_user input hash i created updated))" for db hash i created updated
    by (simp add: userRepo_Create_def new_user_def typed_def user_role_enum_def fails_ill_typed)
  then have "fails (authSvc_Register lib s input)"
    unfolding authSvc_Register_def Let_def
    by (cases "validateRegister input")
      (auto intro!: fails_fail fails_bind fails_andThen_first [of "userRepo_Create _ _"]
        fails_andThen [of "ensureIdentityAvailable _ _"] fails_andThen [of "hashPassword _ _"] keeps_intros)
  then show ?thesis by (metis fails_def prod.collapse)
qed

section \<open>Finding the user\<close>

definition identified :: "string \<Rightarrow> User \<Rightarrow> bool" where
  "identified identity u \<longleftrightarrow> citext_eq (usr_Email u) (Some identity) \<and> CHR ''@'' \<in> set identity \<or>
     citext_eq (usr_Username u) (Some identity) \<or> citext_eq (usr_PhoneNumber u) (Some identity)"

lemma or_else_Inr:
  assumes "run_state (or_else m n) w = (Inr u, w')"
  obtains "run_state m w = (Inr u, w')"
    | w1 where "run_state m w = (Inl ErrNotFound, w1)" "run_state n w1 = (Inr u, w')"
  using assms by (auto simp: or_else_def split: prod.splits sum.splits if_splits)

lemma lookup_Inr:
  assumes "run_state (mapErr notFound (queryRow Pool (\<lambda>t. filter P (t_users t)))) w = (Inr u, w')"
  shows "u \<in> set (t_users (w_db w)) \<and> P u"
  using assms by (auto simp: mapErr_Inr queryRow_Inr visible_def filter_eq_Cons_iff simp del: run_mapErr)

lemmas lookups_Inr = lookup_Inr [of "\<lambda>u. citext_eq (usr_Email u) (Some x)" for x, folded userRepo_GetUserByEmail_def]
  lookup_Inr [of "\<lambda>u. citext_eq (usr_Username u) (Some x)" for x, folded userRepo_GetUserByUsername_def]
  lookup_Inr [of "\<lambda>u. citext_eq (usr_PhoneNumber u) (Some x)" for x, folded userRepo_GetUserByPhoneNumber_def]

lemma lookups_keep_db:
  "run_state (userRepo_GetUserByEmail db x) w = (r, w') \<Longrightarrow> w_db w' = w_db w"
  "run_state (userRepo_GetUserByUsername db x) w = (r, w') \<Longrightarrow> w_db w' = w_db w"
  "run_state (userRepo_GetUserByPhoneNumber db x) w = (r, w') \<Longrightarrow> w_db w' = w_db w"
  using keepsD [OF keeps_lookups(1), of "w_db w" w] keepsD [OF keeps_lookups(2), of "w_db w" w]
    keepsD [OF keeps_lookups(3), of "w_db w" w]
  by (simp_all add: committed_def)

lemma getUserByIdentity_Inr:
  assumes run: "run_state (getUserByIdentity s identity) w = (Inr u, w')" and "asv_userRepo s = Pool"
  shows "u \<in> set (t_users (w_db w)) \<and> identified identity u \<and> w_db w' = w_db w \<and> same_params w w'"
proof -
  have frame: "w_db w' = w_db w" "same_params w w'"
    using keepsD [OF keeps_identity(2) _ run] keepsD [OF keeps_identity(3) _ run]
    by (auto simp: committed_def same_params_def)
  have "u \<in> set (t_users (w_db w)) \<and> identified identity u"
    using run assms(2) unfolding getUserByIdentity_def Let_def
    by (auto split: if_splits elim!: or_else_Inr simp: identified_def
        dest: lookups_keep_db dest!: lookups_Inr) (metis lookups_keep_db(1,2))
  with frame show ?thesis by blast
qed

section \<open>Signing in\<close>

lemma keeps_getOrCreateDevice [keeps_intros]:
  "keeps (pool_holds (\<lambda>t. t_users t = us \<and> t_user_sessions t = ss))
     (getOrCreateDevice s u i name ty)"
  unfolding getOrCreateDevice_def userRepo_GetUserDevices_def userRepo_AddDevice_def Let_def
    userRepo_UpdateDeviceLastSeen_def update_device_def
  by (auto intro!: keeps_intros stmt_intros split: option.split sum.split
      simp: stmt_keeps_def stmt_simps)

lemma keeps_getOrCreateDevice_params [keeps_intros]:
  "keeps (same_params w0) (getOrCreateDevice s u i name ty)"
  unfolding getOrCreateDevice_def userRepo_GetUserDevices_def userRepo_AddDevice_def Let_def
    userRepo_UpdateDeviceLastSeen_def update_device_def
  by (auto intro!: keeps_intros split: option.split sum.split)

lemma keeps_newAccessToken [keeps_intros]:
  "keeps (committed d) (newAccessToken lib s u i dev)"
  "keeps (same_params w0) (newAccessToken lib s u i dev)"
  unfolding newAccessToken_def by (auto intro!: keeps_intros split: option.split)

text \<open>The claims of an access token issued at \<open>now\<close>.\<close>

definition claims_for :: "AuthService \<Rightarrow> uuid \<Rightarrow> uuid \<Rightarrow> uuid option \<Rightarrow> time \<Rightarrow> AccessClaims" where
  "claims_for s u i dev now = \<lparr>ac_UserID = uuid_String u, ac_SessionID = uuid_String i,
     ac_DeviceID = opt_uuid_String dev, ac_Subject = uuid_String u,
     ac_ExpiresAt = (now + asv_accessTTL s) div Second, ac_IssuedAt = now div Second\<rparr>"

lemma newAccessToken_Inr:
  "run_state (newAccessToken lib s u i dev) w = (Inr tok, w') \<Longrightarrow>
     jwt_Sign lib (asv_jwtSecret s) (claims_for s u i dev (w_now w (w_step w))) = Some (fst tok) \<and>
     snd tok = asv_accessTTL s div Second \<and> w_step w' = Suc (w_step w)"
  by (auto simp: newAccessToken_def claims_for_def split: option.splits)

lemma generateToken_Inr:
  "run_state (generateToken lib) w = (Inr tok, w') \<Longrightarrow>
     w_db w' = w_db w \<and> w_now w' = w_now w \<and> w_step w \<le> w_step w'"
  by (auto simp: generateToken_def draw_def split: option.splits)

lemma openSession_Inr:
  assumes "run_state (openSession lib s u dev) w = (Inr (ses, tok), w')" and "asv_userRepo s = Pool"
  shows "t_user_sessions (w_db w') = t_user_sessions (w_db w) @ [ses] \<and>
    t_users (w_db w') = t_users (w_db w) \<and> ses_UserID ses = u \<and> ses_DeviceID ses = dev \<and>
    ses_RefreshTokenHash ses = hashRefreshToken lib tok \<and> \<not> ses_IsRevoked ses \<and>
    ses_ExpiresAt ses = ses_CreatedAt ses + asv_refreshTTL s \<and>
    (\<exists>n. w_step w \<le> n \<and> n < w_step w' \<and> ses_CreatedAt ses = w_now w n) \<and> (\<forall>x\<in>set (t_user_sessions (w_db w)). ses_ID x \<noteq> ses_ID ses)"
proof -
  from assms(1) obtain w1 where tok: "run_state (generateToken lib) w = (Inr tok, w1)"
    and ses: "ses = \<lparr>ses_ID = w_new w1 (Suc (w_step w1)), ses_UserID = u, ses_DeviceID = dev, ses_Device = None,
         ses_RefreshTokenHash = hashRefreshToken lib tok,
         ses_ExpiresAt = w_now w1 (w_step w1) + asv_refreshTTL s, ses_IsRevoked = False,
         ses_CreatedAt = w_now w1 (w_step w1)\<rparr>"
    and create: "run_state (userRepo_CreateSession Pool ses) (w1\<lparr>w_step := Suc (Suc (w_step w1))\<rparr>) = (Inr (), w')"
    using assms(2) unfolding openSession_def
    by (auto simp: Let_def simp del: run_andThen elim!: andThen_Inr)
  from ses have "session_row ses = ses" by (simp add: session_row_def)
  with create have "t_user_sessions (w_db w') = t_user_sessions (w_db w1) @ [ses] \<and>
      t_users (w_db w') = t_users (w_db w1) \<and> (\<forall>x\<in>set (t_user_sessions (w_db w1)). ses_ID x \<noteq> ses_ID ses)"
    by (auto simp: userRepo_CreateSession_def mapErr_Inr sql_Inr insert_into_Inr visible_def
        session_clash_def simp del: run_mapErr)
  moreover have "keeps (same_params w0) (userRepo_CreateSession Pool ses)" for w0
    unfolding userRepo_CreateSession_def by (intro keeps_intros)
  from keepsD [OF this _ create, of "w1\<lparr>w_step := Suc (Suc (w_step w1))\<rparr>"] have "Suc (w_step w1) < w_step w'"
    by (simp add: same_params_def)
  ultimately show ?thesis using generateToken_Inr [OF tok] ses by (auto intro!: exI [of _ "w_step w1"])
qed

lemma keeps_openSession_params [keeps_intros]:
  "keeps (same_params w0) (openSession lib s u dev)"
  unfolding openSession_def userRepo_CreateSession_def Let_def by (intro keeps_intros)

lemma UpdateOnlineStatus_frame:
  assumes "run_state (userRepo_UpdateOnlineStatus db i b) w = (r, w')"
  shows "t_user_sessions (w_db w') = t_user_sessions (w_db w)" "same_params w w'"
proof -
  have "keeps (pool_holds (\<lambda>t. t_user_sessions t = ss)) (userRepo_UpdateOnlineStatus db i b)" for ss
    unfolding userRepo_UpdateOnlineStatus_def update_user_def
    by (auto intro!: keeps_intros simp: stmt_keeps_def stmt_simps)
  from pool_holdsD [OF assms this] show "t_user_sessions (w_db w') = t_user_sessions (w_db w)" by blast
  have "keeps (same_params w) (userRepo_UpdateOnlineStatus db i b)"
    unfolding userRepo_UpdateOnlineStatus_def update_user_def by (intro keeps_intros)
  from keepsD [OF this _ assms] show "same_params w w'" by (simp add: same_params_def)
qed

lemma same_params_refl: "same_params w w"
  by (simp add: same_params_def)

lemma Login_Inr:
  assumes run: "run_state (authSvc_Login lib s input) w = (Inr resp, w')" and pool: "asv_userRepo s = Pool"
  shows "\<exists>u ses n m. u \<in> set (t_users (w_db w)) \<and> identified (lin_Identity input) u \<and> usr_IsActive u \<and>
    bcrypt_Compare lib (usr_PasswordHash u) (lin_Password input) \<and>
    t_user_sessions (w_db w') = t_user_sessions (w_db w) @ [ses] \<and>
    (\<forall>x\<in>set (t_user_sessions (w_db w)). ses_ID x \<noteq> ses_ID ses) \<and>
    w_step w \<le> n \<and> n < m \<and> m < w_step w' \<and>
    ses_UserID ses = usr_ID u \<and> \<not> ses_IsRevoked ses \<and> ses_CreatedAt ses = w_now w n \<and>
    ses_ExpiresAt ses = w_now w n + asv_refreshTTL s \<and>
    ses_RefreshTokenHash ses = hashRefreshToken lib (ar_RefreshToken resp) \<and>
    ar_SessionID resp = uuid_String (ses_ID ses) \<and> ar_ExpiresIn resp = asv_accessTTL s div Second \<and>
    jwt_Sign lib (asv_jwtSecret s) (claims_for s (usr_ID u) (ses_ID ses) (ses_DeviceID ses) (w_now w m)) =
      Some (ar_AccessToken resp) \<and> same_params w w'"
proof -
  from run have "validateLogin input = None"
    by (auto simp: authSvc_Login_def split: option.splits)
  with run obtain u w1 dev w2 ses tok w3 r w4 access w5 where
    u: "run_state (getUserByIdentity s (lin_Identity input)) w = (Inr u, w1)" "usr_IsActive u"
      "bcrypt_Compare lib (usr_PasswordHash u) (lin_Password input)"
    and dev: "run_state (getOrCreateDevice s (usr_ID u) (lin_DeviceID input) (lin_DeviceName input)
      (lin_DeviceType input)) w1 = (Inr dev, w2)"
    and opened: "run_state (openSession lib s (usr_ID u) dev) w2 = (Inr (ses, tok), w3)"
    and online: "run_state (userRepo_UpdateOnlineStatus (asv_userRepo s) (usr_ID u) True) w3 = (r, w4)"
    and tok: "run_state (newAccessToken lib s (usr_ID u) (ses_ID ses) (ses_DeviceID ses)) w4 = (Inr access, w5)"
    and resp: "resp = response access tok (ses_ID ses) dev u" "w' = w5"
    by (auto simp: authSvc_Login_def simp del: run_andThen elim!: andThen_Inr
        split: if_splits prod.splits)
  note found = getUserByIdentity_Inr [OF u(1) pool]
  have s2: "t_user_sessions (w_db w2) = t_user_sessions (w_db w1)"
    using pool_holdsD [OF dev keeps_getOrCreateDevice] by blast
  note new = openSession_Inr [OF opened pool]
  note s4 = UpdateOnlineStatus_frame(1) [OF online]
  have s5: "w_db w5 = w_db w4"
    using keepsD [OF keeps_newAccessToken(1) _ tok] by (simp add: committed_def)
  have "same_params w w1" "same_params w1 w2" "same_params w2 w3" "same_params w3 w4" "same_params w4 w5"
    using found keepsD [OF keeps_getOrCreateDevice_params same_params_refl dev]
      keepsD [OF keeps_openSession_params same_params_refl opened] UpdateOnlineStatus_frame(2) [OF online]
      keepsD [OF keeps_newAccessToken(2) same_params_refl tok] by simp_all
  then have now: "w_now w2 = w_now w" "w_now w4 = w_now w" "w_step w \<le> w_step w2" "w_step w3 \<le> w_step w4"
    and same: "same_params w w5"
    by (simp_all add: same_params_def)
  from new obtain n where "w_step w2 \<le> n" "n < w_step w3" "ses_CreatedAt ses = w_now w2 n" by blast
  with now have n: "w_step w \<le> n" "n < w_step w4" "ses_CreatedAt ses = w_now w n" by simp_all
  show ?thesis
    by (rule exI [of _ u], rule exI [of _ ses], rule exI [of _ n], rule exI [of _ "w_step w4"])
      (use newAccessToken_Inr [OF tok] now same found new s2 s4 s5 u(2,3) resp n in \<open>auto simp: response_def\<close>)
qed

text \<open>
  C15. A successful \<open>Login\<close> found an active user by the given identity, whose stored password hash
  accepts the given password. It added one session of that user, made at a time the clock showed during the
  login and expiring after exactly the configured time, that knows the returned refresh token by its hash
  only; the returned access token is signed for this user and this session with the expiry that follows from a
  later reading of the clock, still during the login, and the reply says how long it lasts.
\<close>

theorem Login_opens_session:
  assumes "run_state (authSvc_Login lib s input) w = (Inr resp, w')" and "asv_userRepo s = Pool"
  shows "\<exists>u ses m n. u \<in> set (t_users (w_db w)) \<and> identified (lin_Identity input) u \<and> usr_IsActive u \<and>
    bcrypt_Compare lib (usr_PasswordHash u) (lin_Password input) \<and>
    t_user_sessions (w_db w') = t_user_sessions (w_db w) @ [ses] \<and>
    w_step w \<le> m \<and> m < n \<and> n < w_step w' \<and>
    ses_UserID ses = usr_ID u \<and> \<not> ses_IsRevoked ses \<and> ses_CreatedAt ses = w_now w m \<and>
    ses_ExpiresAt ses = w_now w m + asv_refreshTTL s \<and>
    ses_RefreshTokenHash ses = hashRefreshToken lib (ar_RefreshToken resp) \<and>
    ar_SessionID resp = uuid_String (ses_ID ses) \<and> ar_ExpiresIn resp = asv_accessTTL s div Second \<and>
    jwt_Sign lib (asv_jwtSecret s)
      \<lparr>ac_UserID = uuid_String (usr_ID u), ac_SessionID = uuid_String (ses_ID ses),
       ac_DeviceID = opt_uuid_String (ses_DeviceID ses), ac_Subject = uuid_String (usr_ID u),
       ac_ExpiresAt = (w_now w n + asv_accessTTL s) div Second, ac_IssuedAt = w_now w n div Second\<rparr> =
      Some (ar_AccessToken resp)"
  using Login_Inr [OF assms] unfolding claims_for_def by metis

section \<open>Refreshing\<close>

lemma GetSessionByID_Inr:
  assumes "run_state (userRepo_GetSessionByID Pool i) w = (Inr ses, w')"
  shows "ses \<in> set (t_user_sessions (w_db w)) \<and> ses_ID ses = i \<and>
    live_session (w_now w (w_step w)) ses \<and> w_db w' = w_db w \<and> same_params w w'"
  using assms
  by (auto simp: userRepo_GetSessionByID_def mapErr_Inr queryRow_Inr visible_def filter_eq_Cons_iff
      same_params_def simp del: run_mapErr)

text \<open>What \<open>UpdateSession\<close> writes into the rows of a session.\<close>

definition rotated :: "string \<Rightarrow> time \<Rightarrow> UserSession \<Rightarrow> UserSession" where
  "rotated hash expires = (\<lambda>r. r\<lparr>ses_RefreshTokenHash := hash, ses_ExpiresAt := expires, ses_IsRevoked := False\<rparr>)"

lemma rotateSession_Inr:
  assumes run: "run_state (rotateSession lib s ses) w = (Inr resp, w')" and pool: "asv_userRepo s = Pool"
    and "\<not> ses_IsRevoked ses"
  shows "\<exists>m n. w_step w \<le> m \<and> m < n \<and> n < w_step w' \<and>
    t_user_sessions (w_db w') = map_where (\<lambda>r. ses_ID r = ses_ID ses)
      (rotated (hashRefreshToken lib (ar_RefreshToken resp)) (w_now w m + asv_refreshTTL s))
      (t_user_sessions (w_db w)) \<and>
    ar_SessionID resp = uuid_String (ses_ID ses) \<and> ar_ExpiresIn resp = asv_accessTTL s div Second \<and>
    jwt_Sign lib (asv_jwtSecret s) (claims_for s (ses_UserID ses) (ses_ID ses) (ses_DeviceID ses) (w_now w n)) =
      Some (ar_AccessToken resp)"
proof -
  from run pool obtain tok w2 where tok: "run_state (generateToken lib) w = (Inr tok, w2)"
    and rest: "run_state (do {
       now \<leftarrow> time_Now;
       let session' = ses\<lparr>ses_RefreshTokenHash := hashRefreshToken lib tok,
         ses_ExpiresAt := now + asv_refreshTTL s\<rparr>;
       andThen (userRepo_UpdateSession Pool session') (\<lambda>_.
       andThen (newAccessToken lib s (ses_UserID session') (ses_ID session') (ses_DeviceID session')) (\<lambda>access.
       andThen (userRepo_GetUserByID Pool (ses_UserID session')) (\<lambda>u.
         ok (response access tok (ses_ID session') (ses_DeviceID session') u))))
     }) w2 = (Inr resp, w')"
    unfolding rotateSession_def by (auto elim!: andThen_Inr simp del: run_andThen)
  let ?now = "w_now w2 (w_step w2)"
  from rest obtain w4 access w5 u where
    upd: "run_state (userRepo_UpdateSession Pool (ses\<lparr>ses_RefreshTokenHash := hashRefreshToken lib tok,
        ses_ExpiresAt := ?now + asv_refreshTTL s\<rparr>)) (tick w2) = (Inr (), w4)"
    and acc: "run_state (newAccessToken lib s (ses_UserID ses) (ses_ID ses) (ses_DeviceID ses)) w4 = (Inr access, w5)"
    and u: "run_state (userRepo_GetUserByID Pool (ses_UserID ses)) w5 = (Inr u, w')"
    and resp: "resp = response access tok (ses_ID ses) (ses_DeviceID ses) u"
    by (auto elim!: andThen_Inr simp: Let_def tick_def simp del: run_andThen)
  have "keeps (committed (w_db w5)) (userRepo_GetUserByID Pool (ses_UserID ses))"
    unfolding userRepo_GetUserByID_def by (intro keeps_intros)
  from keepsD [OF this _ u] have "w_db w' = w_db w5" by (simp add: committed_def)
  moreover have "w_db w5 = w_db w4"
    using keepsD [OF keeps_newAccessToken(1) _ acc] by (simp add: committed_def)
  moreover have "w_db w2 = w_db w" using generateToken_Inr [OF tok] by simp
  moreover have "rotated hash e = (\<lambda>r. r\<lparr>ses_RefreshTokenHash := hash, ses_ExpiresAt := e,
      ses_IsRevoked := ses_IsRevoked ses\<rparr>)" for hash e
    using assms(3) by (auto simp: rotated_def)
  ultimately have rows: "t_user_sessions (w_db w') = map_where (\<lambda>r. ses_ID r = ses_ID ses)
      (rotated (hashRefreshToken lib tok) (?now + asv_refreshTTL s)) (t_user_sessions (w_db w))"
    using upd
    by (auto simp: userRepo_UpdateSession_def affected_Inr sql_Inr on_table_Inr update_where_def visible_def)
  have "keeps (same_params w0) (userRepo_UpdateSession Pool x)" "keeps (same_params w0) (userRepo_GetUserByID Pool i)"
    for w0 x i
    unfolding userRepo_UpdateSession_def userRepo_GetUserByID_def by (intro keeps_intros)+
  from keepsD [OF this(1) same_params_refl upd] keepsD [OF this(2) same_params_refl u]
  have "same_params (tick w2) w4" "same_params w5 w'" .
  then have "w_step w \<le> w_step w2" "w_step w2 < w_step w4" "w_step w4 < w_step w'" "w_now w2 = w_now w" "w_now w4 = w_now w"
    using generateToken_Inr [OF tok] newAccessToken_Inr [OF acc] by (simp_all add: same_params_def tick_def)
  with rows newAccessToken_Inr [OF acc] resp show ?thesis
    by (intro exI [of _ "w_step w2"] exI [of _ "w_step w4"]) (simp add: response_def)
qed

lemma Refresh_Inr:
  assumes run: "run_state (authSvc_Refresh lib s input) w = (Inr resp, w')" and pool: "asv_userRepo s = Pool"
  shows "\<exists>ses m n. ses \<in> set (t_user_sessions (w_db w)) \<and> \<not> ses_IsRevoked ses \<and>
    w_now w (w_step w) < ses_ExpiresAt ses \<and>
    uuid_Parse lib (fin_SessionID input) = Some (ses_ID ses) \<and>
    ses_RefreshTokenHash ses = hashRefreshToken lib (fin_RefreshToken input) \<and>
    w_step w < m \<and> m < n \<and> n < w_step w' \<and>
    t_user_sessions (w_db w') = map_where (\<lambda>r. ses_ID r = ses_ID ses)
      (rotated (hashRefreshToken lib (ar_RefreshToken resp)) (w_now w m + asv_refreshTTL s))
      (t_user_sessions (w_db w)) \<and>
    ar_SessionID resp = uuid_String (ses_ID ses) \<and> ar_ExpiresIn resp = asv_accessTTL s div Second \<and>
    jwt_Sign lib (asv_jwtSecret s) (claims_for s (ses_UserID ses) (ses_ID ses) (ses_DeviceID ses) (w_now w n)) =
      Some (ar_AccessToken resp)"
proof -
  from run obtain i where i: "uuid_Parse lib (fin_SessionID input) = Some i"
    by (auto simp: authSvc_Refresh_def Let_def split: option.splits if_splits)
  with run pool obtain ses w1 where
    g: "run_state (userRepo_GetSessionByID Pool i) w = (Inr ses, w1)"
    and cmp: "compareRefreshToken lib (ses_RefreshTokenHash ses) (fin_RefreshToken input)"
    and rot: "run_state (rotateSession lib s ses) (tick w1) = (Inr resp, w')"
    by (auto simp: authSvc_Refresh_def session_over_def Let_def tick_def simp del: run_andThen
        elim!: andThen_Inr split: if_splits prod.splits)
  note ses = GetSessionByID_Inr [OF g]
  then have live: "\<not> ses_IsRevoked ses" "w_now w (w_step w) < ses_ExpiresAt ses" by (simp_all add: live_session_def)
  from ses have w1: "w_step w \<le> w_step w1" "w_now w1 = w_now w" "w_db w1 = w_db w" by (simp_all add: same_params_def)
  from rotateSession_Inr [OF rot pool live(1)] obtain m n where
    "Suc (w_step w1) \<le> m" "m < n" "n < w_step w'"
    "t_user_sessions (w_db w') = map_where (\<lambda>r. ses_ID r = ses_ID ses)
      (rotated (hashRefreshToken lib (ar_RefreshToken resp)) (w_now w1 m + asv_refreshTTL s)) (t_user_sessions (w_db w1))"
    "ar_SessionID resp = uuid_String (ses_ID ses)" "ar_ExpiresIn resp = asv_accessTTL s div Second"
    "jwt_Sign lib (asv_jwtSecret s) (claims_for s (ses_UserID ses) (ses_ID ses) (ses_DeviceID ses) (w_now w1 n)) =
      Some (ar_AccessToken resp)" by (auto simp: tick_def)
  with ses live i cmp w1 show ?thesis
    by (intro exI [of _ ses] exI [of _ m] exI [of _ n]) (simp add: compareRefreshToken_def)
qed

text \<open>
  C18. A successful \<open>Refresh\<close> was asked for a session that is neither revoked nor expired when the refresh
  begins, with the refresh token this session knows. The session now knows the returned token instead and
  expires after the configured time, counted from a time the clock showed during the refresh; nothing else of it
  changes, nor any other session. The returned access token is signed for the user, the session and the device
  of the session, with the expiry that follows from a later reading of the clock.
\<close>

theorem Refresh_rotates:
  assumes "run_state (authSvc_Refresh lib s input) w = (Inr resp, w')" and "asv_userRepo s = Pool"
  shows "\<exists>ses m n. ses \<in> set (t_user_sessions (w_db w)) \<and> \<not> ses_IsRevoked ses \<and>
    w_now w (w_step w) < ses_ExpiresAt ses \<and>
    uuid_Parse lib (fin_SessionID input) = Some (ses_ID ses) \<and>
    ses_RefreshTokenHash ses = hashRefreshToken lib (fin_RefreshToken input) \<and>
    w_step w < m \<and> m < n \<and> n < w_step w' \<and>
    t_user_sessions (w_db w') = map (\<lambda>r. if ses_ID r = ses_ID ses
      then r\<lparr>ses_RefreshTokenHash := hashRefreshToken lib (ar_RefreshToken resp),
        ses_ExpiresAt := w_now w m + asv_refreshTTL s, ses_IsRevoked := False\<rparr> else r) (t_user_sessions (w_db w)) \<and>
    ar_SessionID resp = uuid_String (ses_ID ses) \<and> ar_ExpiresIn resp = asv_accessTTL s div Second \<and>
    jwt_Sign lib (asv_jwtSecret s)
      \<lparr>ac_UserID = uuid_String (ses_UserID ses), ac_SessionID = uuid_String (ses_ID ses),
       ac_DeviceID = opt_uuid_String (ses_DeviceID ses), ac_Subject = uuid_String (ses_UserID ses),
       ac_ExpiresAt = (w_now w n + asv_accessTTL s) div Second, ac_IssuedAt = w_now w n div Second\<rparr> =
      Some (ar_AccessToken resp)"
  by (rule Refresh_Inr [OF assms, unfolded claims_for_def rotated_def map_where_def])

text \<open>
  A refresh token works once. After a successful \<open>Refresh\<close> the same request cannot succeed
  again, as long as the two tokens have different hashes.
\<close>

theorem Refresh_token_once:
  assumes one: "run_state (authSvc_Refresh lib s input) w = (Inr resp, w1)" and pool: "asv_userRepo s = Pool"
    and neq: "hashRefreshToken lib (fin_RefreshToken input) \<noteq> hashRefreshToken lib (ar_RefreshToken resp)"
    and two: "run_state (authSvc_Refresh lib s input) w1 = (x, w2)"
  shows "isl x"
proof (cases x)
  case (Inr resp')
  from Refresh_Inr [OF one pool] obtain a :: UserSession and now where a: "uuid_Parse lib (fin_SessionID input) = Some (ses_ID a)"
    "t_user_sessions (w_db w1) = map_where (\<lambda>r. ses_ID r = ses_ID a)
      (rotated (hashRefreshToken lib (ar_RefreshToken resp)) (now + asv_refreshTTL s))
      (t_user_sessions (w_db w))" by blast
  from a(2) have new: "\<forall>r\<in>set (t_user_sessions (w_db w1)). ses_ID r = ses_ID a \<longrightarrow>
      ses_RefreshTokenHash r = hashRefreshToken lib (ar_RefreshToken resp)"
    by (simp add: ball_map_where rotated_def)
  from Refresh_Inr [OF two [unfolded Inr] pool] a(1) obtain b :: UserSession where
    "b \<in> set (t_user_sessions (w_db w1))" "ses_ID b = ses_ID a"
    "ses_RefreshTokenHash b = hashRefreshToken lib (fin_RefreshToken input)" by auto
  with new neq show ?thesis by simp
qed simp

text \<open>
  On a database that answers, a wrong refresh token for a live session is refused and ends
  the session, whoever sent it.
\<close>

theorem Refresh_wrong_token_revokes:
  assumes "asv_userRepo s = Pool" "w_fault w = (\<lambda>_. None)"
    and "fin_SessionID input \<noteq> []" "fin_RefreshToken input \<noteq> []"
    and "uuid_Parse lib (fin_SessionID input) = Some (ses_ID ses)"
    and "clash_free session_clash (t_user_sessions (w_db w))" "ses \<in> set (t_user_sessions (w_db w))"
    and "\<not> ses_IsRevoked ses" "\<And>n. w_now w n < ses_ExpiresAt ses"
    and "ses_RefreshTokenHash ses \<noteq> hashRefreshToken lib (fin_RefreshToken input)"
  shows "\<exists>w'. run_state (authSvc_Refresh lib s input) w = (Inl ErrUnauthorized, w') \<and>
    w_db w' = (w_db w)\<lparr>t_user_sessions := map_where (\<lambda>r. ses_ID r = ses_ID ses)
      (\<lambda>r. r\<lparr>ses_IsRevoked := True\<rparr>) (t_user_sessions (w_db w))\<rparr>"
proof -
  let ?live = "\<lambda>r. ses_ID r = ses_ID ses \<and> live_session (w_now w (w_step w)) r"
  have sel: "filter ?live (t_user_sessions (w_db w)) = [ses]"
    by (rule sessions_key.filter_key [OF assms(6,7)])
      (use assms(8,9) in \<open>auto simp: live_session_def session_clash_def\<close>)
  have n: "count_where (\<lambda>r. ses_ID r = ses_ID ses) (t_user_sessions (w_db w)) \<noteq> 0"
    using assms(7) by (auto simp: count_where_eq_0)
  have "\<not> w_now w m > ses_ExpiresAt ses" for m
    using assms(9) [of m] by simp
  with sel n assms(1-5,8,10) show ?thesis
    by (simp add: authSvc_Refresh_def userRepo_GetSessionByID_def queryRow_def run_sql_Pool query_def
        session_over_def compareRefreshToken_def userRepo_RevokeSession_def affected_def
        on_table_def update_where_def Let_def)
qed

section \<open>Requests\<close>

lemma ValidateSession_Inr:
  assumes "run_state (authSvc_ValidateSession s i u) w = (Inr ses, w')" and "asv_userRepo s = Pool"
  shows "ses \<in> set (t_user_sessions (w_db w)) \<and> ses_ID ses = i \<and> ses_UserID ses = u \<and>
    live_session (w_now w (w_step w)) ses"
  using assms
  by (auto simp: authSvc_ValidateSession_def simp del: run_andThen elim!: andThen_Inr
      dest!: GetSessionByID_Inr split: if_splits)

lemma AuthMiddleware_Inr:
  assumes run: "run_state (AuthMiddleware lib s header) w = (Inr ctx, w')" and pool: "asv_userRepo s = Pool"
  shows "\<exists>claims ses. jwt_Parse lib (w_now w (w_step w)) (asv_jwtSecret s) (extractBearer header) = Some claims \<and>
    uuid_Parse lib (ac_UserID claims) = Some (rc_userID ctx) \<and>
    uuid_Parse lib (ac_SessionID claims) = Some (rc_sessionID ctx) \<and>
    ses \<in> set (t_user_sessions (w_db w)) \<and> ses_ID ses = rc_sessionID ctx \<and>
    ses_UserID ses = rc_userID ctx \<and> ses_DeviceID ses = rc_deviceID ctx \<and>
    live_session (w_now w (Suc (w_step w))) ses"
proof -
  from run pool obtain claims u i ses w1 where
    p: "jwt_Parse lib (w_now w (w_step w)) (asv_jwtSecret s) (extractBearer header) = Some claims"
    and ids: "uuid_Parse lib (ac_UserID claims) = Some u" "uuid_Parse lib (ac_SessionID claims) = Some i"
    and v: "run_state (authSvc_ValidateSession s i u) (tick w) = (Inr ses, w1)"
    and ctx: "ctx = \<lparr>rc_userID = u, rc_sessionID = i, rc_deviceID = ses_DeviceID ses\<rparr>"
    by (auto simp: AuthMiddleware_def mapErr_Inr authSvc_ParseAccessToken_def tick_def
        simp del: run_mapErr run_andThen elim!: andThen_Inr split: option.splits if_splits)
  from ValidateSession_Inr [OF v pool] p ids ctx show ?thesis by auto
qed

lemma keeps_AuthMiddleware [keeps_intros]: "keeps (committed d) (AuthMiddleware lib s header)"
  by (auto simp: AuthMiddleware_def authSvc_ParseAccessToken_def authSvc_ValidateSession_def
      userRepo_GetSessionByID_def intro!: keeps_intros split: option.split)

text \<open>
  A request is let through only with an access token that the signature check accepts, and
  only for the user and the session of that token: the session exists, belongs to the user, is
  not revoked and has not expired.
\<close>

theorem AuthMiddleware_sound:
  assumes "run_state (AuthMiddleware lib s header) w = (Inr ctx, w')" and "asv_userRepo s = Pool"
  shows "\<exists>claims ses. jwt_Parse lib (w_now w (w_step w)) (asv_jwtSecret s) (extractBearer header) = Some claims \<and>
    uuid_Parse lib (ac_UserID claims) = Some (rc_userID ctx) \<and>
    uuid_Parse lib (ac_SessionID claims) = Some (rc_sessionID ctx) \<and>
    ses \<in> set (t_user_sessions (w_db w)) \<and> ses_ID ses = rc_sessionID ctx \<and>
    ses_UserID ses = rc_userID ctx \<and> \<not> ses_IsRevoked ses \<and>
    w_now w (Suc (w_step w)) < ses_ExpiresAt ses"
  using AuthMiddleware_Inr [OF assms] by (auto simp: live_session_def)

lemma Logout_revokes:
  assumes out: "run_state (authSvc_Logout lib s sid) w = (Inr (), w1)" and pool: "asv_userRepo s = Pool"
    and i: "uuid_Parse lib sid = Some i"
  shows "\<forall>r\<in>set (t_user_sessions (w_db w1)). ses_ID r = i \<longrightarrow> ses_IsRevoked r"
proof -
  from out i pool have "run_state (userRepo_RevokeSession Pool i) w = (Inr (), w1)"
    by (auto simp: authSvc_Logout_def split: if_splits)
  then have "t_user_sessions (w_db w1) = map_where (\<lambda>r. ses_ID r = i) (\<lambda>r. r\<lparr>ses_IsRevoked := True\<rparr>)
      (t_user_sessions (w_db w))"
    by (auto simp: userRepo_RevokeSession_def affected_Inr sql_Inr on_table_Inr update_where_def visible_def)
  then show ?thesis
    by (simp add: ball_map_where)
qed

text \<open>
  C17. After \<open>Logout\<close> of a session, no request is let through in its name and its refresh token is
  worth nothing, whatever tokens are still around.
\<close>

theorem Logout_ends_session:
  assumes out: "run_state (authSvc_Logout lib s sid) w = (Inr (), w1)" and pool: "asv_userRepo s = Pool"
    and i: "uuid_Parse lib sid = Some i"
  shows "(run_state (AuthMiddleware lib s header) w1 = (Inr ctx, w2) \<longrightarrow> rc_sessionID ctx \<noteq> i) \<and>
    (uuid_Parse lib (fin_SessionID input) = Some i \<longrightarrow>
      isl (fst (run_state (authSvc_Refresh lib s input) w1)))"
proof -
  have revoked: "\<forall>r\<in>set (t_user_sessions (w_db w1)). ses_ID r = i \<longrightarrow> ses_IsRevoked r"
    by (rule Logout_revokes [OF assms])
  have "isl (fst (run_state (authSvc_Refresh lib s input) w1))" if parse: "uuid_Parse lib (fin_SessionID input) = Some i"
  proof (rule ccontr)
    assume "\<not> ?thesis"
    then obtain resp w3 where "run_state (authSvc_Refresh lib s input) w1 = (Inr resp, w3)"
      by (metis prod.collapse sum.collapse(2))
    from Refresh_Inr [OF this pool] revoked parse show False by auto
  qed
  moreover have "rc_sessionID ctx \<noteq> i" if "run_state (AuthMiddleware lib s header) w1 = (Inr ctx, w2)"
  proof -
    from AuthMiddleware_Inr [OF that pool] obtain ses :: UserSession where "ses \<in> set (t_user_sessions (w_db w1))"
      "ses_ID ses = rc_sessionID ctx" "\<not> ses_IsRevoked ses" by (auto simp: live_session_def)
    with revoked show ?thesis by auto
  qed
  ultimately show ?thesis by blast
qed

text \<open>
  C16. The access token that \<open>Login\<close> returns opens the door: sent as a bearer token while neither
  it nor the session has expired, on a database that answers, it lets the request through as the
  user who signed in, with the session of the reply. This needs of the libraries that a signed payload
  is what a check of the token yields until its expiry, that a signed token is a text without surrounding
  space, and that parsing a UUID undoes printing it.
\<close>

theorem Login_token_accepted:
  assumes login: "run_state (authSvc_Login lib s input) w = (Inr resp, w1)" and pool: "asv_userRepo s = Pool"
    and uuid: "\<And>u. uuid_Parse lib (uuid_String u) = Some u"
    and jwt: "\<And>payload tok. jwt_SignedString lib (asv_jwtSecret s) payload = Some tok \<Longrightarrow> tok \<noteq> [] \<and> TrimSpace tok = tok"
      "\<And>fields expiry tok now. jwt_SignedString lib (asv_jwtSecret s) (JObj fields) = Some tok \<Longrightarrow>
        map_of fields ''exp'' = Some (JNum expiry) \<Longrightarrow> now < expiry * Second \<Longrightarrow>
        jwt_Payload lib now (asv_jwtSecret s) tok = Some (JObj fields)"
    and healthy: "w_fault w = (\<lambda>_. None)"
    and soon: "\<And>n. start \<le> w_now w n \<and> w_now w n < start + asv_accessTTL s - Second \<and>
      w_now w n < start + asv_refreshTTL s"
  shows "\<exists>u ctx w2. run_state (AuthMiddleware lib s (''Bearer '' @ ar_AccessToken resp)) w1 = (Inr ctx, w2) \<and>
    u \<in> set (t_users (w_db w)) \<and> identified (lin_Identity input) u \<and> rc_userID ctx = usr_ID u \<and>
    uuid_String (rc_sessionID ctx) = ar_SessionID resp"
proof -
  obtain u ses n m where u: "u \<in> set (t_users (w_db w))" "identified (lin_Identity input) u"
    and db: "t_user_sessions (w_db w1) = t_user_sessions (w_db w) @ [ses]"
      "\<forall>x\<in>set (t_user_sessions (w_db w)). ses_ID x \<noteq> ses_ID ses"
    and ses: "ses_UserID ses = usr_ID u" "\<not> ses_IsRevoked ses" "ses_ExpiresAt ses = w_now w n + asv_refreshTTL s"
    and tok: "jwt_Sign lib (asv_jwtSecret s) (claims_for s (usr_ID u) (ses_ID ses) (ses_DeviceID ses) (w_now w m)) =
      Some (ar_AccessToken resp)"
    and same: "same_params w w1" and sid: "ar_SessionID resp = uuid_String (ses_ID ses)"
    using Login_Inr [OF login pool] by metis
  let ?c = "claims_for s (usr_ID u) (ses_ID ses) (ses_DeviceID ses) (w_now w m)"
  have now: "w_now w1 = w_now w" "w_fault w1 = (\<lambda>_. None)"
    using same healthy by (simp_all add: same_params_def)
  have "w_now w k < ac_ExpiresAt ?c * Second" for k
    using soon [of m] soon [of k] by (simp add: claims_for_def) linarith
  moreover from tok have signed: "jwt_SignedString lib (asv_jwtSecret s) (AccessClaims_json ?c) = Some (ar_AccessToken resp)"
    by (simp add: jwt_Sign_def)
  ultimately have "jwt_Payload lib (w_now w k) (asv_jwtSecret s) (ar_AccessToken resp) = Some (AccessClaims_json ?c)" for k
    using jwt(2) [OF signed [unfolded AccessClaims_json_def]] by (simp add: AccessClaims_json_def unless_empty_def)
  then have parse: "jwt_Parse lib (w_now w k) (asv_jwtSecret s) (ar_AccessToken resp) = Some (?c\<lparr>ac_Subject := []\<rparr>)" for k
    by (simp add: jwt_Parse_def)
  have bearer: "extractBearer (''Bearer '' @ ar_AccessToken resp) = ar_AccessToken resp"
    using jwt(1) [OF signed] by (simp add: extractBearer_def)
  have live: "live_session (w_now w k) ses" for k
    using soon [of n] soon [of k] ses(2,3) by (simp add: live_session_def)
  have sel: "filter (\<lambda>r. ses_ID r = ses_ID ses \<and> live_session (w_now w k) r) (t_user_sessions (w_db w1)) = [ses]" for k
    using db live by (auto simp: filter_empty_conv)
  have "run_state (AuthMiddleware lib s (''Bearer '' @ ar_AccessToken resp)) w1 =
    (Inr \<lparr>rc_userID = usr_ID u, rc_sessionID = ses_ID ses, rc_deviceID = ses_DeviceID ses\<rparr>,
     w1\<lparr>w_step := w_step w1 + 3\<rparr>)"
    using now parse [of "w_step w1"] sel [of "Suc (w_step w1)"] ses(1) pool uuid jwt(1) [OF signed]
    unfolding AuthMiddleware_def bearer authSvc_ParseAccessToken_def authSvc_ValidateSession_def
      userRepo_GetSessionByID_def
    by (simp add: parse sel queryRow_def run_sql_Pool query_def claims_for_def opt_uuid_String_def
        eval_nat_numeral)
  with u sid show ?thesis by fastforce
qed

section \<open>Resetting the password\<close>

lemma citext_eq_common: "citext_eq a (Some x) \<Longrightarrow> citext_eq b (Some x) \<Longrightarrow> citext_eq a b"
  by (cases a; cases b) auto

lemma reset_user_clash_free:
  assumes "clash_free user_clash users" "u \<in> set users"
  shows "clash_free user_clash (map_where (\<lambda>r. usr_ID r = usr_ID u)
    (set_user now (u\<lparr>usr_PasswordHash := hash, usr_UpdatedAt := k\<rparr>)) users)"
proof -
  have by_id: "x = u" if "x \<in> set users" "usr_ID x = usr_ID u" for x
    using users_key.clash_eq [OF assms(1) that(1) assms(2)] that(2) by (simp add: user_clash_def)
  have "map_where (\<lambda>r. usr_ID r = usr_ID u) (set_user now (u\<lparr>usr_PasswordHash := hash, usr_UpdatedAt := k\<rparr>)) users =
      map_where (\<lambda>r. usr_ID r = usr_ID u) (\<lambda>r. r\<lparr>usr_PasswordHash := hash, usr_UpdatedAt := now\<rparr>) users"
    unfolding map_where_def by (rule map_cong [OF refl]) (auto dest: by_id simp: set_user_def)
  then show ?thesis
    using users_key.map_where_keeps [OF assms(1)] by (simp add: user_clash_def)
qed

lemma run_PasswordReset:
  assumes "asv_userRepo s = Pool" "w_fault w = (\<lambda>_. None)"
    and "clash_free user_clash (t_users (w_db w))" "u \<in> set (t_users (w_db w))"
    and "citext_eq (usr_Username u) (Some (sin_Identity input))" "CHR ''@'' \<notin> set (sin_Identity input)"
    and "sin_Identity input \<noteq> []" "8 \<le> length (sin_NewPassword input)" "usr_Role u \<in> set user_role_enum"
    and hash: "bcrypt_Generate lib (Suc (w_step w)) (sin_NewPassword input) = Some hash"
  shows "run_state (authSvc_PasswordReset lib s input) w =
     (Inr (), w\<lparr>w_step := w_step w + 6, w_db := (w_db w)\<lparr>t_users := map_where (\<lambda>r. usr_ID r = usr_ID u)
         (set_user (w_now w (Suc (Suc (Suc (w_step w)))))
           (u\<lparr>usr_PasswordHash := hash, usr_UpdatedAt := w_now w (Suc (Suc (w_step w)))\<rparr>)) (t_users (w_db w)),
       t_user_sessions := map_where (\<lambda>r. ses_UserID r = usr_ID u \<and> \<not> ses_IsRevoked r) (\<lambda>r. r\<lparr>ses_IsRevoked := True\<rparr>)
         (t_user_sessions (w_db w))\<rparr>\<rparr>)"
proof -
  have "filter (\<lambda>x. citext_eq (usr_Username x) (Some (sin_Identity input))) (t_users (w_db w)) = [u]"
    by (rule users_key.filter_key [OF assms(3,4)])
      (use assms(5) in \<open>auto simp: user_clash_def intro: citext_eq_common\<close>)
  moreover have "count_where (\<lambda>r. usr_ID r = usr_ID u) (t_users (w_db w)) \<noteq> 0"
    using assms(4) by (auto simp: count_where_eq_0)
  moreover have "sin_NewPassword input \<noteq> []" using assms(8) by auto
  ultimately show ?thesis
    using assms(1,2,6-9) hash reset_user_clash_free [OF assms(3,4)]
    by (simp add: authSvc_PasswordReset_def getUserByIdentity_def or_else_def Let_def
        userRepo_GetUserByUsername_def queryRow_def run_sql_Pool query_def hashPassword_def draw_def
        userRepo_UpdateUser_def affected_def checked_def typed_def update_into_def on_table_def
        update_keyed_def userRepo_RevokeAllUserSessions_def void_def update_where_def
        eval_nat_numeral)
qed

text \<open>
  C19. \<open>PasswordReset\<close> asks for no proof of identity. On a database that answers, whoever knows a
  user name can set a new password of eight or more characters for its owner: the stored hash is
  the hash of the new password, and all sessions of the owner are revoked.
\<close>

theorem PasswordReset_needs_no_proof:
  assumes "asv_userRepo s = Pool" "w_fault w = (\<lambda>_. None)"
    and "clash_free user_clash (t_users (w_db w))" "u \<in> set (t_users (w_db w))"
    and "citext_eq (usr_Username u) (Some (sin_Identity input))" "CHR ''@'' \<notin> set (sin_Identity input)"
    and "sin_Identity input \<noteq> []" "8 \<le> length (sin_NewPassword input)"
    and "usr_Role u \<in> set user_role_enum" "\<And>n. bcrypt_Generate lib n (sin_NewPassword input) \<noteq> None"
  shows "\<exists>w' n hash u'. run_state (authSvc_PasswordReset lib s input) w = (Inr (), w') \<and>
    bcrypt_Generate lib n (sin_NewPassword input) = Some hash \<and>
    u' \<in> set (t_users (w_db w')) \<and> usr_ID u' = usr_ID u \<and> usr_PasswordHash u' = hash \<and>
    (\<forall>r\<in>set (t_user_sessions (w_db w')). ses_UserID r = usr_ID u \<longrightarrow> ses_IsRevoked r)"
proof -
  obtain hash where hash: "bcrypt_Generate lib (Suc (w_step w)) (sin_NewPassword input) = Some hash"
    using assms(10) by blast
  let ?now = "w_now w (Suc (Suc (Suc (w_step w))))"
  let ?new = "u\<lparr>usr_PasswordHash := hash, usr_UpdatedAt := w_now w (Suc (Suc (w_step w)))\<rparr>"
  have "set_user ?now ?new u \<in> set (map_where (\<lambda>r. usr_ID r = usr_ID u) (set_user ?now ?new) (t_users (w_db w)))"
    using assms(4) by (auto simp: in_map_where intro!: bexI [of _ u])
  moreover have "usr_ID (set_user ?now ?new u) = usr_ID u" "usr_PasswordHash (set_user ?now ?new u) = hash"
    by (simp_all add: set_user_def)
  moreover note run = run_PasswordReset [OF assms(1-9) hash]
  ultimately show ?thesis
    by (intro exI conjI) (rule run, rule hash, auto simp: ball_map_where)
qed

section \<open>Concrete runs\<close>

text \<open>
  Libraries to run the operations with: an invertible stand-in for each hash, a signer that signs
  one set of claims, and a parser that undoes the printing of UUIDs.
\<close>

definition sample_auth :: AuthService where
  "sample_auth = \<lparr>asv_userRepo = Pool, asv_jwtSecret = ''s'', asv_accessTTL = 24 * Hour,
     asv_refreshTTL = 168 * Hour\<rparr>"

definition sample_claims :: AccessClaims where
  "sample_claims = claims_for sample_auth 1 1003 None 5"

definition sample_lib :: auth_lib where
  "sample_lib = \<lparr>bcrypt_Generate = (\<lambda>_ pw. Some (''h'' @ pw)),
     bcrypt_Compare = (\<lambda>h pw. h = ''h'' @ pw), sha256_Sum = (\<lambda>bs. bs),
     rand_Read = (\<lambda>n. Some [of_nat n]),
     jwt_SignedString = (\<lambda>_ p. if p = AccessClaims_json sample_claims then Some ''t'' else None),
     jwt_Payload = (\<lambda>now _ tok. if tok = ''t'' \<and> now < ac_ExpiresAt sample_claims * Second
       then Some (AccessClaims_json sample_claims) else None),
     uuid_Parse = read_uuid\<rparr>"

text \<open>The same with a signer that signs every claim.\<close>

definition signing_lib :: auth_lib where
  "signing_lib = sample_lib\<lparr>jwt_SignedString := (\<lambda>_ _. Some ''t'')\<rparr>"

lemma sample_lib_simps [simp]:
  "bcrypt_Generate sample_lib n pw = Some (''h'' @ pw)" "bcrypt_Compare sample_lib h pw = (h = ''h'' @ pw)"
  "sha256_Sum sample_lib bs = bs" "rand_Read sample_lib n = Some [of_nat n]"
  "uuid_Parse sample_lib (uuid_String u) = Some u"
  "rand_Read signing_lib n = Some [of_nat n]" "sha256_Sum signing_lib bs = bs"
  "jwt_Sign signing_lib k c = Some ''t''" "uuid_Parse signing_lib (uuid_String u) = Some u"
  by (simp_all add: sample_lib_def signing_lib_def jwt_Sign_def read_uuid_String)

lemma sample_lib_Sign:
  "jwt_Sign sample_lib k c = (if AccessClaims_json c = AccessClaims_json sample_claims then Some ''t'' else None)"
  by (simp add: sample_lib_def jwt_Sign_def)

lemma hash_sample_lib [simp]: "hashRefreshToken signing_lib = hashRefreshToken sample_lib"
  by (simp add: hashRefreshToken_def fun_eq_iff)

definition sample_session :: UserSession where
  "sample_session = \<lparr>ses_ID = 900, ses_UserID = 2, ses_DeviceID = None, ses_Device = None,
     ses_RefreshTokenHash = hashRefreshToken sample_lib ''tok'', ses_ExpiresAt = Hour,
     ses_IsRevoked = False, ses_CreatedAt = 0\<rparr>"

definition auth_world :: world where
  "auth_world = sample_world\<lparr>w_now := (\<lambda>_. 5), w_db := sample_tables
     \<lparr>t_users := [(sample_user 1 ''ann'')\<lparr>usr_PasswordHash := ''hpassword''\<rparr>, sample_user 2 ''bob''],
      t_user_sessions := [sample_session]\<rparr>\<rparr>"

definition sample_login :: LoginInput where
  "sample_login = \<lparr>lin_Identity = ''ann'', lin_Password = ''password'', lin_DeviceID = [],
     lin_DeviceName = [], lin_DeviceType = []\<rparr>"

lemmas auth_sample_defs = sample_auth_def sample_session_def auth_world_def sample_login_def

lemma sample_login_runs:
  "\<exists>resp w'. run_state (authSvc_Login sample_lib sample_auth sample_login) auth_world = (Inr resp, w')"
  by (simp add: authSvc_Login_def validateLogin_def getUserByIdentity_def or_else_def
      userRepo_GetUserByUsername_def getOrCreateDevice_def openSession_def generateToken_def draw_def
      userRepo_CreateSession_def session_row_def userRepo_UpdateOnlineStatus_def update_user_def
      newAccessToken_def sample_lib_Sign sample_claims_def claims_for_def opt_uuid_String_def exec_simps
      ToLower_def lower_char_def auth_sample_defs sample_defs)

lemma Login_opens_session_witness:
  "\<exists>resp w' ses. run_state (authSvc_Login sample_lib sample_auth sample_login) auth_world = (Inr resp, w') \<and>
     t_user_sessions (w_db w') = t_user_sessions (w_db auth_world) @ [ses] \<and>
     ses_RefreshTokenHash ses = hashRefreshToken sample_lib (ar_RefreshToken resp)"
  using sample_login_runs Login_opens_session [of sample_lib sample_auth sample_login auth_world]
  by (fastforce simp: sample_auth_def)

lemma Login_token_accepted_witness:
  "\<exists>resp w1 ctx w2. run_state (authSvc_Login sample_lib sample_auth sample_login) auth_world = (Inr resp, w1) \<and>
     run_state (AuthMiddleware sample_lib sample_auth (''Bearer '' @ ar_AccessToken resp)) w1 = (Inr ctx, w2) \<and>
     (\<exists>u\<in>set (t_users (w_db auth_world)). rc_userID ctx = usr_ID u)"
proof -
  obtain resp w1 where run: "run_state (authSvc_Login sample_lib sample_auth sample_login) auth_world = (Inr resp, w1)"
    using sample_login_runs by blast
  have pool: "asv_userRepo sample_auth = Pool" and uuid: "\<And>u. uuid_Parse sample_lib (uuid_String u) = Some u"
    and healthy: "w_fault auth_world = (\<lambda>_. None)"
    and soon: "\<And>n. 5 \<le> w_now auth_world n \<and> w_now auth_world n < 5 + asv_accessTTL sample_auth - Second \<and>
       w_now auth_world n < 5 + asv_refreshTTL sample_auth"
    by (simp_all add: auth_sample_defs sample_world_def read_uuid_String)
  have plain: "tok \<noteq> [] \<and> TrimSpace tok = tok"
    if "jwt_SignedString sample_lib (asv_jwtSecret sample_auth) p = Some tok" for p tok
    using that by (auto simp: sample_lib_def TrimSpace_def is_space_def split: if_splits)
  have payload: "jwt_Payload sample_lib now (asv_jwtSecret sample_auth) tok = Some (JObj fs)"
    if "jwt_SignedString sample_lib (asv_jwtSecret sample_auth) (JObj fs) = Some tok"
      "map_of fs ''exp'' = Some (JNum e)" "now < e * Second" for fs e tok now
  proof -
    from that(1) have "tok = ''t''" "JObj fs = AccessClaims_json sample_claims"
      by (auto simp: sample_lib_def split: if_splits)
    moreover from this(2) that(2) have "e = ac_ExpiresAt sample_claims"
      by (auto simp: AccessClaims_json_def unless_empty_def split: if_splits)
    ultimately show ?thesis using that(3) by (simp add: sample_lib_def)
  qed
  have "\<exists>u ctx w2. run_state (AuthMiddleware sample_lib sample_auth (''Bearer '' @ ar_AccessToken resp)) w1 =
      (Inr ctx, w2) \<and> u \<in> set (t_users (w_db auth_world)) \<and>
      identified (lin_Identity sample_login) u \<and> rc_userID ctx = usr_ID u \<and>
      uuid_String (rc_sessionID ctx) = ar_SessionID resp"
    by (rule Login_token_accepted [OF run pool uuid plain payload healthy soon])
  with run show ?thesis by blast
qed

definition sample_refresh :: "string \<Rightarrow> RefreshInput" where
  "sample_refresh tok = \<lparr>fin_SessionID = uuid_String 900, fin_RefreshToken = tok\<rparr>"

lemmas refresh_exec = authSvc_Refresh_def sample_refresh_def userRepo_GetSessionByID_def
  session_over_def live_session_def compareRefreshToken_def rotateSession_def generateToken_def draw_def
  userRepo_UpdateSession_def newAccessToken_def userRepo_GetUserByID_def exec_simps response_def

lemma sample_refresh_runs:
  "\<exists>resp w'. run_state (authSvc_Refresh signing_lib sample_auth (sample_refresh ''tok'')) auth_world = (Inr resp, w') \<and>
     ar_RefreshToken resp = ''03''"
  by (simp add: refresh_exec hex_EncodeToString_def hex_byte_def hexdigit_def char_of_def bit_0 auth_sample_defs sample_defs)

lemma sample_hash: "hashRefreshToken sample_lib ''tok'' \<noteq> hashRefreshToken sample_lib ''03''"
  by (simp add: hashRefreshToken_def string_bytes_def hex_EncodeToString_def hex_byte_def)

lemma Refresh_rotates_witness:
  "\<exists>resp w'. run_state (authSvc_Refresh signing_lib sample_auth (sample_refresh ''tok'')) auth_world = (Inr resp, w') \<and>
     (\<forall>r\<in>set (t_user_sessions (w_db w')).
       ses_RefreshTokenHash r = hashRefreshToken sample_lib (ar_RefreshToken resp))"
proof -
  obtain resp w' where run: "run_state (authSvc_Refresh signing_lib sample_auth (sample_refresh ''tok'')) auth_world =
      (Inr resp, w')" using sample_refresh_runs by blast
  have "t_user_sessions (w_db auth_world) = [sample_session]" "asv_userRepo sample_auth = Pool"
    by (simp_all add: auth_world_def sample_auth_def)
  with Refresh_rotates [OF run] run show ?thesis by (fastforce simp: map_where_def rotated_def)
qed

lemma Refresh_token_once_witness:
  "\<exists>resp w1 x w2. run_state (authSvc_Refresh signing_lib sample_auth (sample_refresh ''tok'')) auth_world = (Inr resp, w1) \<and>
     run_state (authSvc_Refresh signing_lib sample_auth (sample_refresh ''tok'')) w1 = (x, w2) \<and> isl x"
proof -
  obtain resp w1 where run: "run_state (authSvc_Refresh signing_lib sample_auth (sample_refresh ''tok'')) auth_world =
      (Inr resp, w1)" "ar_RefreshToken resp = ''03''" using sample_refresh_runs by blast
  obtain x w2 where two: "run_state (authSvc_Refresh signing_lib sample_auth (sample_refresh ''tok'')) w1 = (x, w2)"
    by fastforce
  have "isl x"
    by (rule Refresh_token_once [OF run(1) _ _ two])
      (use sample_hash run(2) in \<open>simp_all add: sample_auth_def sample_refresh_def\<close>)
  with run two show ?thesis by blast
qed

lemma Refresh_wrong_token_revokes_witness:
  "\<exists>w'. run_state (authSvc_Refresh sample_lib sample_auth (sample_refresh ''03'')) auth_world = (Inl ErrUnauthorized, w') \<and>
     t_user_sessions (w_db w') = [sample_session\<lparr>ses_IsRevoked := True\<rparr>]"
proof -
  have "asv_userRepo sample_auth = Pool" "w_fault auth_world = (\<lambda>_. None)"
    "fin_SessionID (sample_refresh ''03'') \<noteq> []" "fin_RefreshToken (sample_refresh ''03'') \<noteq> []"
    "uuid_Parse sample_lib (fin_SessionID (sample_refresh ''03'')) = Some (ses_ID sample_session)"
    "clash_free session_clash (t_user_sessions (w_db auth_world))"
    "sample_session \<in> set (t_user_sessions (w_db auth_world))" "\<not> ses_IsRevoked sample_session"
    "\<And>n. w_now auth_world n < ses_ExpiresAt sample_session"
    "ses_RefreshTokenHash sample_session \<noteq> hashRefreshToken sample_lib (fin_RefreshToken (sample_refresh ''03''))"
    using sample_hash by (simp_all add: auth_sample_defs sample_world_def sample_refresh_def)
  note * = Refresh_wrong_token_revokes [OF this]
  have "t_user_sessions (w_db auth_world) = [sample_session]" by (simp add: auth_world_def)
  with * show ?thesis by (auto simp: map_where_def)
qed

lemma AuthMiddleware_sound_witness:
  "\<exists>ctx w'. run_state (AuthMiddleware (sample_lib\<lparr>jwt_Payload := (\<lambda>_ _ _. Some (AccessClaims_json (claims_for sample_auth 2 900 None 5)))\<rparr>)
      sample_auth ''bearer t'') auth_world = (Inr ctx, w') \<and>
    (\<exists>ses\<in>set (t_user_sessions (w_db auth_world)). ses_ID ses = rc_sessionID ctx)"
proof -
  let ?lib = "sample_lib\<lparr>jwt_Payload := (\<lambda>_ _ _. Some (AccessClaims_json (claims_for sample_auth 2 900 None 5)))\<rparr>"
  have "\<exists>ctx w'. run_state (AuthMiddleware ?lib sample_auth ''bearer t'') auth_world = (Inr ctx, w')"
    by (simp add: AuthMiddleware_def authSvc_ParseAccessToken_def extractBearer_def ToLower_def
        lower_char_def TrimSpace_def is_space_def claims_for_def opt_uuid_String_def jwt_Parse_def
        authSvc_ValidateSession_def userRepo_GetSessionByID_def live_session_def exec_simps
        char_of_def bit_0 auth_sample_defs sample_world_def)
  then obtain ctx w' where run: "run_state (AuthMiddleware ?lib sample_auth ''bearer t'') auth_world = (Inr ctx, w')"
    by blast
  have "asv_userRepo sample_auth = Pool" by (simp add: sample_auth_def)
  from AuthMiddleware_sound [OF run this] run show ?thesis by blast
qed

lemma Logout_ends_session_witness:
  "\<exists>w1. run_state (authSvc_Logout sample_lib sample_auth (uuid_String 900)) auth_world = (Inr (), w1) \<and>
     isl (fst (run_state (authSvc_Refresh sample_lib sample_auth (sample_refresh ''tok'')) w1))"
proof -
  have "\<exists>w1. run_state (authSvc_Logout sample_lib sample_auth (uuid_String 900)) auth_world = (Inr (), w1)"
    by (simp add: authSvc_Logout_def userRepo_RevokeSession_def exec_simps auth_sample_defs sample_world_def)
  then obtain w1 where out: "run_state (authSvc_Logout sample_lib sample_auth (uuid_String 900)) auth_world = (Inr (), w1)"
    by blast
  have "asv_userRepo sample_auth = Pool" "uuid_Parse sample_lib (uuid_String 900) = Some 900"
    "uuid_Parse sample_lib (fin_SessionID (sample_refresh ''tok'')) = Some 900"
    by (simp_all add: sample_auth_def sample_refresh_def)
  with Logout_ends_session [OF out, of 900 "[]" undefined undefined "sample_refresh ''tok''"] out
  show ?thesis by blast
qed

lemma PasswordReset_needs_no_proof_witness:
  "\<exists>w'. run_state (authSvc_PasswordReset sample_lib sample_auth
       \<lparr>sin_Identity = ''bob'', sin_NewPassword = ''password''\<rparr>) auth_world = (Inr (), w') \<and>
     (\<forall>r\<in>set (t_user_sessions (w_db w')). ses_UserID r = 2 \<longrightarrow> ses_IsRevoked r)"
proof -
  let ?in = "\<lparr>sin_Identity = ''bob'', sin_NewPassword = ''password''\<rparr>" and ?u = "sample_user 2 ''bob''"
  have "asv_userRepo sample_auth = Pool" "w_fault auth_world = (\<lambda>_. None)"
    "clash_free user_clash (t_users (w_db auth_world))" "?u \<in> set (t_users (w_db auth_world))"
    "citext_eq (usr_Username ?u) (Some (sin_Identity ?in))" "CHR ''@'' \<notin> set (sin_Identity ?in)"
    "sin_Identity ?in \<noteq> []" "8 \<le> length (sin_NewPassword ?in)" "usr_Role ?u \<in> set user_role_enum"
    "\<And>n. bcrypt_Generate sample_lib n (sin_NewPassword ?in) \<noteq> None"
    by (simp_all add: auth_sample_defs sample_defs user_clash_def user_role_enum_def ToLower_def lower_char_def)
  note * = PasswordReset_needs_no_proof [OF this]
  have "usr_ID ?u = 2" by (simp add: sample_user_def)
  with * show ?thesis by auto
qed

end
