(* ===== verification/Commands.thy ===== *)
theory Commands
  imports MessageRepo ConversationRepo EventPublisher Samples Base64
begin

text \<open>
  The command pattern: \<^verbatim>\<open>internal/commands\<close>, \<^verbatim>\<open>internal/repository/command_repository.go\<close> and
  \<^verbatim>\<open>internal/services/command_executor.go\<close>. A command is one of the four structs that implement
  the interface; \<^verbatim>\<open>Execute\<close> and \<^verbatim>\<open>Undo\<close> of the structs themselves do nothing, the executor does
  the work. The text of a database error, which ends up in logs and results, is a parameter of
  the executor.
\<close>

section \<open>The command log (\<^verbatim>\<open>command_repository.go\<close>)\<close>

text \<open>\<^verbatim>\<open>command.Status\<close>\<close>

definition cmd_StatusPending :: string where "cmd_StatusPending = ''PENDING''"
definition cmd_StatusExecuting :: string where "cmd_StatusExecuting = ''EXECUTING''"
definition cmd_StatusCompleted :: string where "cmd_StatusCompleted = ''COMPLETED''"
definition cmd_StatusFailed :: string where "cmd_StatusFailed = ''FAILED''"
definition cmd_StatusUndone :: string where "cmd_StatusUndone = ''UNDONE''"

lemmas cmd_status_defs = cmd_StatusPending_def cmd_StatusExecuting_def cmd_StatusCompleted_def
  cmd_StatusFailed_def cmd_StatusUndone_def

definition cmdRepo_CreateLog :: "DBTX \<Rightarrow> CommandLog \<Rightarrow> unit go" where
  "cmdRepo_CreateLog db log =
     sql db (checked InvalidText (\<lambda>_. typed [(log_Status log, command_status_enum)])
       (insert_into t_command_logs t_command_logs_update command_log_clash
         (\<lambda>t. has_user t (log_UserID log)) log))"

definition cmdRepo_UpdateLog :: "DBTX \<Rightarrow> CommandLog \<Rightarrow> unit go" where
  "cmdRepo_UpdateLog db log =
     void (sql db (checked InvalidText (\<lambda>_. typed [(log_Status log, command_status_enum)])
       (update_into t_command_logs t_command_logs_update command_log_clash
         (\<lambda>t. has_user t (log_UserID log)) (\<lambda>r. log_ID r = log_ID log) (\<lambda>_. log))))"

definition cmdRepo_GetLogByID :: "DBTX \<Rightarrow> uuid \<Rightarrow> CommandLog go" where
  "cmdRepo_GetLogByID db i = queryRow db (\<lambda>t. filter (\<lambda>r. log_ID r = i) (t_command_logs t))"

definition cmdRepo_GetPendingCommands :: "DBTX \<Rightarrow> int \<Rightarrow> CommandLog list go" where
  "cmdRepo_GetPendingCommands db limit =
     sql db (query_page 0 limit (\<lambda>t. filter (\<lambda>r. log_Status r = cmd_StatusPending) (t_command_logs t)))"

definition cmdRepo_GetCommandsByUser :: "DBTX \<Rightarrow> uuid \<Rightarrow> int \<Rightarrow> CommandLog list go" where
  "cmdRepo_GetCommandsByUser db u limit =
     sql db (query_page 0 limit (\<lambda>t. order_desc (\<lambda>r. Some (log_CreatedAt r))
       (filter (\<lambda>r. log_UserID r = u) (t_command_logs t))))"

definition cmdRepo_CanUndo :: "DBTX \<Rightarrow> uuid \<Rightarrow> uuid \<Rightarrow> bool go" where
  "cmdRepo_CanUndo db i u =
     andThen (queryRow db (\<lambda>t. filter (\<lambda>r. log_ID r = i \<and> log_UserID r = u) (t_command_logs t)))
       (\<lambda>log. ok (log_Status log = cmd_StatusCompleted \<and> log_UndoneAt log = None))"

section \<open>Commands\<close>

record BaseCommand =
  bc_ID :: uuid
  bc_Type :: string
  bc_UserID :: uuid
  bc_CreatedAt :: time

record SendMessageCommand =
  smc_Base :: BaseCommand
  smc_ConversationID :: uuid
  smc_SenderID :: uuid
  smc_Content :: string
  smc_ScheduledFor :: "time option"
  smc_MaxRetries :: int

record DeleteMessageCommand =
  dmc_Base :: BaseCommand
  dmc_MessageID :: uuid
  dmc_DeleteForAll :: bool
  dmc_OriginalContent :: string
  dmc_OriginalState :: "bytes option"

record EditMessageCommand =
  emc_Base :: BaseCommand
  emc_MessageID :: uuid
  emc_NewContent :: string
  emc_PreviousContent :: string

record BulkArchiveResult =
  bar_ConversationID :: uuid
  bar_Success :: bool
  bar_Error :: string

record BulkArchiveCommand =
  bac_Base :: BaseCommand
  bac_ConversationIDs :: "uuid list"
  bac_Results :: "BulkArchiveResult list"

datatype Command =
    SendMessageCmd SendMessageCommand
  | DeleteMessageCmd DeleteMessageCommand
  | EditMessageCmd EditMessageCommand
  | BulkArchiveCmd BulkArchiveCommand

fun cmd_base :: "Command \<Rightarrow> BaseCommand" where
  "cmd_base (SendMessageCmd c) = smc_Base c"
| "cmd_base (DeleteMessageCmd c) = dmc_Base c"
| "cmd_base (EditMessageCmd c) = emc_Base c"
| "cmd_base (BulkArchiveCmd c) = bac_Base c"

definition GetType :: "Command \<Rightarrow> string" where "GetType c = bc_Type (cmd_base c)"
definition GetUserID :: "Command \<Rightarrow> uuid" where "GetUserID c = bc_UserID (cmd_base c)"

definition new_base :: "string \<Rightarrow> uuid \<Rightarrow> (world, BaseCommand) state" where
  "new_base ty u = do {
     i \<leftarrow> uuid_New;
     now \<leftarrow> time_Now;
     State_Monad.return \<lparr>bc_ID = i, bc_Type = ty, bc_UserID = u, bc_CreatedAt = now\<rparr>
   }"

definition NewSendMessageCommand :: "uuid \<Rightarrow> uuid \<Rightarrow> string \<Rightarrow> (world, Command) state" where
  "NewSendMessageCommand convID senderID content = do {
     b \<leftarrow> new_base ''SendMessage'' senderID;
     State_Monad.return (SendMessageCmd \<lparr>smc_Base = b, smc_ConversationID = convID,
       smc_SenderID = senderID, smc_Content = content, smc_ScheduledFor = None, smc_MaxRetries = 3\<rparr>)
   }"

definition NewDeleteMessageCommand :: "uuid \<Rightarrow> uuid \<Rightarrow> bool \<Rightarrow> (world, Command) state" where
  "NewDeleteMessageCommand msgID userID deleteForAll = do {
     b \<leftarrow> new_base ''DeleteMessage'' userID;
     State_Monad.return (DeleteMessageCmd \<lparr>dmc_Base = b, dmc_MessageID = msgID,
       dmc_DeleteForAll = deleteForAll, dmc_OriginalContent = [], dmc_OriginalState = None\<rparr>)
   }"

definition NewEditMessageCommand :: "uuid \<Rightarrow> uuid \<Rightarrow> string \<Rightarrow> (world, Command) state" where
  "NewEditMessageCommand msgID userID newContent = do {
     b \<leftarrow> new_base ''EditMessage'' userID;
     State_Monad.return (EditMessageCmd \<lparr>emc_Base = b, emc_MessageID = msgID,
       emc_NewContent = newContent, emc_PreviousContent = []\<rparr>)
   }"

definition NewBulkArchiveCommand :: "uuid \<Rightarrow> uuid list \<Rightarrow> (world, Command) state" where
  "NewBulkArchiveCommand userID convIDs = do {
     b \<leftarrow> new_base ''BulkArchive'' userID;
     State_Monad.return (BulkArchiveCmd \<lparr>bac_Base = b, bac_ConversationIDs = convIDs, bac_Results = []\<rparr>)
   }"

definition GetID :: "Command \<Rightarrow> uuid" where "GetID c = bc_ID (cmd_base c)"

definition sendCmd_Validate :: "SendMessageCommand \<Rightarrow> unit go" where
  "sendCmd_Validate c =
     (if smc_ConversationID c = uuid_Nil then fail (OtherError ''conversation_id is required'')
      else if smc_SenderID c = uuid_Nil then fail (OtherError ''sender_id is required'')
      else if TrimSpace (smc_Content c) = [] then fail (OtherError ''content cannot be empty'')
      else case smc_ScheduledFor c of
        None \<Rightarrow> ok ()
      | Some t \<Rightarrow> do {
          now \<leftarrow> time_Now;
          (if t < now then fail (OtherError ''scheduled time must be in the future'') else ok ())
        })"

definition deleteCmd_Validate :: "DeleteMessageCommand \<Rightarrow> unit go" where
  "deleteCmd_Validate c =
     (if dmc_MessageID c = uuid_Nil then fail (OtherError ''message_id is required'') else ok ())"

definition editCmd_Validate :: "EditMessageCommand \<Rightarrow> unit go" where
  "editCmd_Validate c =
     (if emc_MessageID c = uuid_Nil then fail (OtherError ''message_id is required'')
      else if TrimSpace (emc_NewContent c) = [] then fail (OtherError ''new content cannot be empty'')
      else ok ())"

definition archiveCmd_Validate :: "BulkArchiveCommand \<Rightarrow> unit go" where
  "archiveCmd_Validate c =
     (if bac_ConversationIDs c = [] then fail (OtherError ''at least one conversation_id is required'')
      else if length (bac_ConversationIDs c) > 100
      then fail (OtherError ''cannot archive more than 100 conversations at once'')
      else ok ())"

text \<open>The methods of the interface: those of the struct, or else those of \<^verbatim>\<open>BaseCommand\<close> in it.\<close>

fun Validate :: "Command \<Rightarrow> unit go" where
  "Validate (SendMessageCmd c) = sendCmd_Validate c"
| "Validate (DeleteMessageCmd c) = deleteCmd_Validate c"
| "Validate (EditMessageCmd c) = editCmd_Validate c"
| "Validate (BulkArchiveCmd c) = archiveCmd_Validate c"

lemmas Validate_defs = sendCmd_Validate_def deleteCmd_Validate_def editCmd_Validate_def archiveCmd_Validate_def

definition base_GetUndoDeadline :: "BaseCommand \<Rightarrow> time" where
  "base_GetUndoDeadline b = bc_CreatedAt b + 5 * Minute"

definition editCmd_GetUndoDeadline :: "EditMessageCommand \<Rightarrow> time" where
  "editCmd_GetUndoDeadline c = bc_CreatedAt (emc_Base c) + 15 * Minute"

definition archiveCmd_GetUndoDeadline :: "BulkArchiveCommand \<Rightarrow> time" where
  "archiveCmd_GetUndoDeadline c = bc_CreatedAt (bac_Base c) + 30 * Minute"

fun GetUndoDeadline :: "Command \<Rightarrow> time" where
  "GetUndoDeadline (EditMessageCmd c) = editCmd_GetUndoDeadline c"
| "GetUndoDeadline (BulkArchiveCmd c) = archiveCmd_GetUndoDeadline c"
| "GetUndoDeadline c = base_GetUndoDeadline (cmd_base c)"

definition base_CanUndo :: "BaseCommand \<Rightarrow> (world, bool) state" where
  "base_CanUndo b = do { now \<leftarrow> time_Now; State_Monad.return (now < base_GetUndoDeadline b) }"

definition deleteCmd_CanUndo :: "DeleteMessageCommand \<Rightarrow> (world, bool) state" where
  "deleteCmd_CanUndo c = do {
     now \<leftarrow> time_Now;
     State_Monad.return (now < base_GetUndoDeadline (dmc_Base c) \<and> dmc_OriginalState c \<noteq> None)
   }"

definition editCmd_CanUndo :: "EditMessageCommand \<Rightarrow> (world, bool) state" where
  "editCmd_CanUndo c = do { now \<leftarrow> time_Now; State_Monad.return (now < bc_CreatedAt (emc_Base c) + 15 * Minute) }"

definition archiveCmd_CanUndo :: "BulkArchiveCommand \<Rightarrow> (world, bool) state" where
  "archiveCmd_CanUndo c = do { now \<leftarrow> time_Now; State_Monad.return (now < bc_CreatedAt (bac_Base c) + 30 * Minute) }"

fun CanUndo :: "Command \<Rightarrow> (world, bool) state" where
  "CanUndo (SendMessageCmd c) = base_CanUndo (smc_Base c)"
| "CanUndo (DeleteMessageCmd c) = deleteCmd_CanUndo c"
| "CanUndo (EditMessageCmd c) = editCmd_CanUndo c"
| "CanUndo (BulkArchiveCmd c) = archiveCmd_CanUndo c"

lemmas CanUndo_defs = base_CanUndo_def deleteCmd_CanUndo_def editCmd_CanUndo_def archiveCmd_CanUndo_def
  base_GetUndoDeadline_def editCmd_GetUndoDeadline_def archiveCmd_GetUndoDeadline_def

text \<open>
  A command can be undone until its deadline; the deletion of a message never, as nothing sets its original
  state.
\<close>

lemma CanUndo_iff:
  "run_state (CanUndo c) w = (w_now w (w_step w) < GetUndoDeadline c \<and>
     (case c of DeleteMessageCmd d \<Rightarrow> dmc_OriginalState d \<noteq> None | _ \<Rightarrow> True), w\<lparr>w_step := Suc (w_step w)\<rparr>)"
  by (cases c) (simp_all add: CanUndo_defs time_Now_def)

lemma NewDeleteMessageCommand_not_undoable:
  assumes "run_state (NewDeleteMessageCommand m u everybody) w = (c, w1)"
  shows "fst (run_state (CanUndo c) w2) = False"
  using assms by (auto simp: NewDeleteMessageCommand_def CanUndo_defs split: prod.splits)

text \<open>\<^verbatim>\<open>Execute\<close> and \<^verbatim>\<open>Undo\<close> of the structs\<close>

definition command_Execute :: "Command \<Rightarrow> unit go" where "command_Execute c = ok ()"
definition command_Undo :: "Command \<Rightarrow> unit go" where "command_Undo c = ok ()"

subsection \<open>JSON\<close>

definition base_json :: "BaseCommand \<Rightarrow> (string \<times> json) list" where
  "base_json b = [(''id'', JUUID (bc_ID b)), (''type'', JStr (bc_Type b)),
     (''user_id'', JUUID (bc_UserID b)), (''created_at'', JTime (bc_CreatedAt b))]"

definition result_json :: "BulkArchiveResult \<Rightarrow> json" where
  "result_json r = JObj ([(''conversation_id'', JUUID (bar_ConversationID r)),
     (''success'', JBool (bar_Success r))] @ unless_empty ''error'' (bar_Error r))"

definition sendCmd_ToJSON :: "SendMessageCommand \<Rightarrow> json" where
  "sendCmd_ToJSON c = JObj (base_json (smc_Base c) @
     [(''conversation_id'', JUUID (smc_ConversationID c)), (''sender_id'', JUUID (smc_SenderID c)),
      (''content'', JStr (smc_Content c))] @
     (case smc_ScheduledFor c of None \<Rightarrow> [] | Some t \<Rightarrow> [(''scheduled_for'', JTime t)]) @
     [(''max_retries'', JNum (smc_MaxRetries c))])"

definition deleteCmd_ToJSON :: "DeleteMessageCommand \<Rightarrow> json" where
  "deleteCmd_ToJSON c = JObj (base_json (dmc_Base c) @
     [(''message_id'', JUUID (dmc_MessageID c)), (''delete_for_all'', JBool (dmc_DeleteForAll c))] @
     unless_empty ''original_content'' (dmc_OriginalContent c) @
     unless_empty ''original_state''
       (case dmc_OriginalState c of None \<Rightarrow> [] | Some bs \<Rightarrow> base64 bs))"

definition editCmd_ToJSON :: "EditMessageCommand \<Rightarrow> json" where
  "editCmd_ToJSON c = JObj (base_json (emc_Base c) @
     [(''message_id'', JUUID (emc_MessageID c)), (''new_content'', JStr (emc_NewContent c))] @
     unless_empty ''previous_content'' (emc_PreviousContent c))"

definition archiveCmd_ToJSON :: "BulkArchiveCommand \<Rightarrow> json" where
  "archiveCmd_ToJSON c = JObj (base_json (bac_Base c) @
     [(''conversation_ids'', JArr (map JUUID (bac_ConversationIDs c)))] @
     (if bac_Results c = [] then [] else [(''results'', JArr (map result_json (bac_Results c)))]))"

fun ToJSON :: "Command \<Rightarrow> json" where
  "ToJSON (SendMessageCmd c) = sendCmd_ToJSON c"
| "ToJSON (DeleteMessageCmd c) = deleteCmd_ToJSON c"
| "ToJSON (EditMessageCmd c) = editCmd_ToJSON c"
| "ToJSON (BulkArchiveCmd c) = archiveCmd_ToJSON c"

fun decode_result :: "json \<Rightarrow> BulkArchiveResult option" where
  "decode_result (JObj fs) =
     Option.bind (as_uuid (field fs ''conversation_id'')) (\<lambda>c.
     Option.bind (as_bool (field fs ''success'')) (\<lambda>b.
     Option.bind (as_string (field fs ''error'')) (\<lambda>e.
       Some \<lparr>bar_ConversationID = c, bar_Success = b, bar_Error = e\<rparr>)))"
| "decode_result JNull = Some \<lparr>bar_ConversationID = uuid_Nil, bar_Success = False, bar_Error = []\<rparr>"
| "decode_result _ = None"

fun decode_BulkArchive :: "json \<Rightarrow> BulkArchiveCommand option" where
  "decode_BulkArchive (JObj fs) =
     Option.bind (as_uuid (field fs ''id'')) (\<lambda>i.
     Option.bind (as_string (field fs ''type'')) (\<lambda>ty.
     Option.bind (as_uuid (field fs ''user_id'')) (\<lambda>u.
     Option.bind (as_time (field fs ''created_at'')) (\<lambda>t.
     Option.bind (as_list as_uuid (field fs ''conversation_ids'')) (\<lambda>cs.
     Option.bind (as_list decode_result (field fs ''results'')) (\<lambda>rs.
       Some \<lparr>bac_Base = \<lparr>bc_ID = i, bc_Type = ty, bc_UserID = u, bc_CreatedAt = t\<rparr>,
         bac_ConversationIDs = cs, bac_Results = rs\<rparr>))))))"
| "decode_BulkArchive JNull = Some \<lparr>bac_Base = \<lparr>bc_ID = uuid_Nil, bc_Type = [], bc_UserID = uuid_Nil,
     bc_CreatedAt = 0\<rparr>, bac_ConversationIDs = [], bac_Results = []\<rparr>"
| "decode_BulkArchive _ = None"

text \<open>What is kept to undo an archiving is read back unchanged.\<close>

lemma decode_result_json: "decode_result (result_json r) = Some r"
  by (cases r) (auto simp: result_json_def unless_empty_def field_def)

lemma all_some_map: "(\<And>x. x \<in> set xs \<Longrightarrow> f (g x) = Some x) \<Longrightarrow> all_some (map f (map g xs)) = Some xs"
  by (induction xs) simp_all

lemma BulkArchive_roundtrip: "decode_BulkArchive (archiveCmd_ToJSON c) = Some c"
proof (cases c)
  case (fields base cs rs)
  have "all_some (map as_uuid (map JUUID cs)) = Some cs" "all_some (map decode_result (map result_json rs)) = Some rs"
    by (rule all_some_map; simp add: decode_result_json)+
  then show ?thesis
    by (cases base) (auto simp: fields archiveCmd_ToJSON_def base_json_def field_def as_list_def)
qed

section \<open>The executor\<close>

record CommandExecutor =
  cex_db :: DBTX
  cex_commandRepo :: DBTX
  cex_messageRepo :: DBTX
  cex_convRepo :: DBTX
  cex_eventPublisher :: "DBTX option"
  cex_errText :: "error \<Rightarrow> string"

text \<open>
  The four executions return the command as they leave it, because its JSON becomes the undo
  data, and the error, if any.
\<close>

definition cmd_executeSendMessage :: "CommandExecutor \<Rightarrow> SendMessageCommand \<Rightarrow> unit go" where
  "cmd_executeSendMessage ex cmd = do {
     i \<leftarrow> uuid_New;
     now \<leftarrow> time_Now;
     let msg = zero_Message\<lparr>msg_ID := i, msg_ConversationID := smc_ConversationID cmd,
       msg_SenderID := smc_SenderID cmd, msg_Content := Some (smc_Content cmd),
       msg_CreatedAt := now\<rparr>;
     WithTx (cex_db ex) (\<lambda>tx.
       andThen (msgRepo_Create tx msg) (\<lambda>_.
       case cex_eventPublisher ex of
         None \<Rightarrow> ok ()
       | Some p \<Rightarrow> PublishMessageNew p tx (msg_ID msg) (msg_ConversationID msg) (msg_SenderID msg)))
   }"

text \<open>\<^verbatim>\<open>msg.Content.String\<close> is empty for a NULL content.\<close>

definition content_text :: "Message \<Rightarrow> string" where
  "content_text m = (case msg_Content m of None \<Rightarrow> [] | Some s \<Rightarrow> s)"

definition cmd_executeDeleteMessage ::
  "CommandExecutor \<Rightarrow> DeleteMessageCommand \<Rightarrow> (world, DeleteMessageCommand \<times> error option) state" where
  "cmd_executeDeleteMessage ex cmd = do {
     r \<leftarrow> msgRepo_GetByID (cex_messageRepo ex) (dmc_MessageID cmd);
     (case r of
        Inl err \<Rightarrow> State_Monad.return (cmd, Some err)
      | Inr msg \<Rightarrow> do {
          let cmd' = cmd\<lparr>dmc_OriginalContent := content_text msg\<rparr>;
          q \<leftarrow> WithTx (cex_db ex) (\<lambda>tx.
            if dmc_DeleteForAll cmd' then msgRepo_SoftDelete tx (dmc_MessageID cmd')
            else msgRepo_HardDelete tx (dmc_MessageID cmd'));
          State_Monad.return (cmd', case q of Inl err \<Rightarrow> Some err | Inr _ \<Rightarrow> None)
        })
   }"

text \<open>The version record (\<^verbatim>\<open>domain/command/command.go\<close>) is built and dropped.\<close>

record MessageVersion =
  mv_ID :: uuid
  mv_MessageID :: uuid
  mv_Content :: string
  mv_EditedBy :: uuid
  mv_EditedAt :: time
  mv_VersionNumber :: int

definition new_version :: "EditMessageCommand \<Rightarrow> Message \<Rightarrow> MessageVersion" where
  "new_version cmd msg = \<lparr>mv_ID = uuid_Nil, mv_MessageID = emc_MessageID cmd, mv_Content = content_text msg,
     mv_EditedBy = bc_UserID (emc_Base cmd), mv_EditedAt = 0, mv_VersionNumber = 1\<rparr>"

definition cmd_executeEditMessage ::
  "CommandExecutor \<Rightarrow> EditMessageCommand \<Rightarrow> (world, EditMessageCommand \<times> error option) state" where
  "cmd_executeEditMessage ex cmd = do {
     r \<leftarrow> msgRepo_GetByID (cex_messageRepo ex) (emc_MessageID cmd);
     (case r of
        Inl err \<Rightarrow> State_Monad.return (cmd, Some err)
      | Inr msg \<Rightarrow> do {
          let cmd' = cmd\<lparr>emc_PreviousContent := content_text msg\<rparr>;
          q \<leftarrow> WithTx (cex_db ex) (\<lambda>tx. let version = new_version cmd' msg in
            msgRepo_Update tx (msg\<lparr>msg_Content := Some (emc_NewContent cmd')\<rparr>));
          State_Monad.return (cmd', case q of Inl err \<Rightarrow> Some err | Inr _ \<Rightarrow> None)
        })
   }"

definition archive_one :: "CommandExecutor \<Rightarrow> uuid \<Rightarrow> uuid \<Rightarrow> (world, BulkArchiveResult) state" where
  "archive_one ex u conv = do {
     r \<leftarrow> convRepo_IsParticipant (cex_convRepo ex) conv u;
     (case r of
        Inl err \<Rightarrow> State_Monad.return
          \<lparr>bar_ConversationID = conv, bar_Success = False, bar_Error = cex_errText ex err\<rparr>
      | Inr isParticipant \<Rightarrow>
          if \<not> isParticipant then State_Monad.return
            \<lparr>bar_ConversationID = conv, bar_Success = False, bar_Error = ''not a participant''\<rparr>
          else do {
            _ \<leftarrow> convRepo_ArchiveConversation (cex_convRepo ex) conv u;
            State_Monad.return \<lparr>bar_ConversationID = conv, bar_Success = True, bar_Error = []\<rparr>
          })
   }"

fun archive_all :: "CommandExecutor \<Rightarrow> uuid \<Rightarrow> uuid list \<Rightarrow> (world, BulkArchiveResult list) state" where
  "archive_all ex u [] = State_Monad.return []"
| "archive_all ex u (c # cs) = do {
     r \<leftarrow> archive_one ex u c;
     rs \<leftarrow> archive_all ex u cs;
     State_Monad.return (r # rs)
   }"

definition cmd_executeBulkArchive ::
  "CommandExecutor \<Rightarrow> BulkArchiveCommand \<Rightarrow> (world, BulkArchiveCommand) state" where
  "cmd_executeBulkArchive ex cmd = do {
     results \<leftarrow> archive_all ex (bc_UserID (bac_Base cmd)) (bac_ConversationIDs cmd);
     State_Monad.return (cmd\<lparr>bac_Results := results\<rparr>)
   }"

fun run_command_type :: "CommandExecutor \<Rightarrow> Command \<Rightarrow> (world, Command \<times> error option) state" where
  "run_command_type ex (SendMessageCmd c) = do {
     r \<leftarrow> cmd_executeSendMessage ex c;
     State_Monad.return (SendMessageCmd c, case r of Inl err \<Rightarrow> Some err | Inr _ \<Rightarrow> None)
   }"
| "run_command_type ex (DeleteMessageCmd c) = do {
     r \<leftarrow> cmd_executeDeleteMessage ex c;
     State_Monad.return (DeleteMessageCmd (fst r), snd r)
   }"
| "run_command_type ex (EditMessageCmd c) = do {
     r \<leftarrow> cmd_executeEditMessage ex c;
     State_Monad.return (EditMessageCmd (fst r), snd r)
   }"
| "run_command_type ex (BulkArchiveCmd c) = do {
     c' \<leftarrow> cmd_executeBulkArchive ex c;
     State_Monad.return (BulkArchiveCmd c', None)
   }"

text \<open>The log entry of a new command: its identifier and its times are not set.\<close>

definition new_log :: "Command \<Rightarrow> CommandLog" where
  "new_log cmd = \<lparr>log_ID = uuid_Nil, log_CommandType = GetType cmd, log_UserID = GetUserID cmd,
     log_Status = cmd_StatusPending, log_Payload = ToJSON cmd, log_Result = None,
     log_UndoData = None, log_ErrorMessage = [], log_ExecutionTimeMs = 0, log_CreatedAt = 0,
     log_ExecutedAt = None, log_UndoneAt = None\<rparr>"

text \<open>The log and the error that \<^verbatim>\<open>Execute\<close> returns.\<close>

definition cmdExec_Execute ::
  "CommandExecutor \<Rightarrow> Command \<Rightarrow> (world, CommandLog option \<times> error option) state" where
  "cmdExec_Execute ex cmd = do {
     start \<leftarrow> time_Now;
     v \<leftarrow> Validate cmd;
     (case v of
        Inl err \<Rightarrow> State_Monad.return (None, Some err)
      | Inr _ \<Rightarrow> do {
          let log = new_log cmd;
          r \<leftarrow> cmdRepo_CreateLog (cex_commandRepo ex) log;
          (case r of
             Inl err \<Rightarrow> State_Monad.return (None, Some err)
           | Inr _ \<Rightarrow> do {
               let log = log\<lparr>log_Status := cmd_StatusExecuting\<rparr>;
               r \<leftarrow> cmdRepo_UpdateLog (cex_commandRepo ex) log;
               (case r of
                  Inl err \<Rightarrow> State_Monad.return (None, Some err)
                | Inr _ \<Rightarrow> do {
                    ce \<leftarrow> run_command_type ex cmd;
                    ended \<leftarrow> time_Now;
                    now \<leftarrow> time_Now;
                    let log = log\<lparr>log_ExecutionTimeMs := (ended - start) div 1000000,
                      log_ExecutedAt := Some now\<rparr>;
                    log \<leftarrow> (case snd ce of
                      Some err \<Rightarrow> State_Monad.return (log\<lparr>log_Status := cmd_StatusFailed,
                        log_ErrorMessage := cex_errText ex err\<rparr>)
                    | None \<Rightarrow> do {
                        undoable \<leftarrow> CanUndo (fst ce);
                        State_Monad.return (log\<lparr>log_Status := cmd_StatusCompleted,
                          log_UndoData := (if undoable then Some (ToJSON (fst ce)) else None)\<rparr>)
                      });
                    _ \<leftarrow> cmdRepo_UpdateLog (cex_commandRepo ex) log;
                    State_Monad.return (Some log, snd ce)
                  })
             })
        })
   }"

text \<open>
  \<^verbatim>\<open>undoSendMessage\<close>, \<^verbatim>\<open>undoDeleteMessage\<close> and \<^verbatim>\<open>undoEditMessage\<close> do nothing, so it does not matter
  whether their undo data can be decoded.
\<close>

definition undoSendMessage :: "CommandExecutor \<Rightarrow> SendMessageCommand \<Rightarrow> unit go" where
  "undoSendMessage ex cmd = ok ()"

definition undoDeleteMessage :: "CommandExecutor \<Rightarrow> DeleteMessageCommand \<Rightarrow> unit go" where
  "undoDeleteMessage ex cmd = ok ()"

definition undoEditMessage :: "CommandExecutor \<Rightarrow> EditMessageCommand \<Rightarrow> unit go" where
  "undoEditMessage ex cmd = ok ()"

definition undoBulkArchive :: "CommandExecutor \<Rightarrow> BulkArchiveCommand \<Rightarrow> (world, unit) state" where
  "undoBulkArchive ex cmd =
     forEachIgnore (filter bar_Success (bac_Results cmd)) (\<lambda>r.
       convRepo_UnarchiveConversation (cex_convRepo ex) (bar_ConversationID r) (bc_UserID (bac_Base cmd)))"

definition cmdExec_Undo :: "CommandExecutor \<Rightarrow> uuid \<Rightarrow> uuid \<Rightarrow> unit go" where
  "cmdExec_Undo ex commandID userID =
     andThen (cmdRepo_CanUndo (cex_commandRepo ex) commandID userID) (\<lambda>canUndo.
     if \<not> canUndo then fail (OtherError ''cannot undo this command'')
     else andThen (cmdRepo_GetLogByID (cex_commandRepo ex) commandID) (\<lambda>log. do {
       _ \<leftarrow> (if log_CommandType log = ''BulkArchive''
            then case Option.bind (log_UndoData log) decode_BulkArchive of
              None \<Rightarrow> State_Monad.return ()
            | Some cmd \<Rightarrow> undoBulkArchive ex cmd
            else State_Monad.return ());
       now \<leftarrow> time_Now;
       cmdRepo_UpdateLog (cex_commandRepo ex)
         (log\<lparr>log_Status := cmd_StatusUndone, log_UndoneAt := Some now\<rparr>)
     }))"

definition cmdExec_GetCommandHistory :: "CommandExecutor \<Rightarrow> uuid \<Rightarrow> int \<Rightarrow> CommandLog list go" where
  "cmdExec_GetCommandHistory ex u limit = cmdRepo_GetCommandsByUser (cex_commandRepo ex) u limit"


section \<open>Operations that never succeed\<close>

text \<open>
  The statuses of the command package beyond \<^verbatim>\<open>PENDING\<close> and \<^verbatim>\<open>FAILED\<close> are not values of the type
  that the migration creates first.
\<close>

lemma fails_UpdateLog:
  "log_Status log \<notin> set command_status_enum \<Longrightarrow> fails (cmdRepo_UpdateLog db log)"
  unfolding cmdRepo_UpdateLog_def by (simp add: typed_def fails_void fails_sql)

lemma unknown_statuses [simp]:
  "cmd_StatusExecuting \<notin> set command_status_enum"
  "cmd_StatusCompleted \<notin> set command_status_enum"
  "cmd_StatusUndone \<notin> set command_status_enum"
  by (simp_all add: cmd_status_defs command_status_enum_def)

lemma keeps_Validate [keeps_intros]: "keeps (committed d) (Validate c)"
  by (cases c) (auto simp: Validate_defs intro!: keeps_intros split: option.split)

lemma CreateLog_Inr:
  assumes "run_state (cmdRepo_CreateLog db log) w = (Inr u, w')"
  shows "w_db w' = w_db w \<or>
    (\<forall>l\<in>set (t_command_logs (w_db w)). log_ID l \<noteq> log_ID log) \<and> has_user (w_db w) (log_UserID log) \<and>
    w_db w' = t_command_logs_update (\<lambda>ls. ls @ [log]) (w_db w)"
  using assms
  by (cases db)
    (auto simp: cmdRepo_CreateLog_def sql_Pool_Inr sql_Tx_Inr stmt_simps command_log_clash_def has_user_def)

lemma CreateLog_Inl:
  assumes "run_state (cmdRepo_CreateLog db log) w = (Inl e, w')"
  shows "w_db w' = w_db w"
  using assms
  by (cases db)
    (auto simp: cmdRepo_CreateLog_def run_sql_Pool run_sql_Tx Let_def split: option.splits sum.splits if_splits)

text \<open>
  No command is ever executed: whatever the command and the state, \<^verbatim>\<open>Execute\<close> returns no log and
  an error. At most it leaves the PENDING log of the command behind, and it does that only as long
  as no log with the nil identifier exists, which is to say once: the executor never sets the
  identifier of a log, and EXECUTING is not a status of the database.
\<close>

theorem Execute_never_runs:
  assumes "run_state (cmdExec_Execute ex cmd) w = ((log, err), w')"
  shows "log = None \<and> err \<noteq> None \<and>
    (w_db w' = w_db w \<or>
     (\<forall>l\<in>set (t_command_logs (w_db w)). log_ID l \<noteq> uuid_Nil) \<and>
     w_db w' = t_command_logs_update (\<lambda>ls. ls @ [new_log cmd]) (w_db w))"
proof -
  obtain v w1 where v: "run_state (Validate cmd) (w\<lparr>w_step := Suc (w_step w)\<rparr>) = (v, w1)"
    by fastforce
  from keepsD [OF keeps_Validate _ v, of "w_db w"] have w1: "w_db w1 = w_db w"
    by (simp add: committed_def)
  obtain r w2 where r: "run_state (cmdRepo_CreateLog (cex_commandRepo ex) (new_log cmd)) w1 = (r, w2)"
    by fastforce
  obtain q w3 where q: "run_state (cmdRepo_UpdateLog (cex_commandRepo ex)
      ((new_log cmd)\<lparr>log_Status := cmd_StatusExecuting\<rparr>)) w2 = (q, w3)"
    by fastforce
  from failsD [OF q fails_UpdateLog] obtain e where e: "q = Inl e" and w3: "w_db w3 = w_db w2"
    by (auto simp: isl_def)
  have nil: "log_ID (new_log cmd) = uuid_Nil" by (simp add: new_log_def)
  show ?thesis
  proof (cases v)
    case (Inl a)
    with assms v w1 show ?thesis by (auto simp: cmdExec_Execute_def)
  next
    case v_ok: (Inr a)
    show ?thesis
    proof (cases r)
      case (Inl b)
      with assms v v_ok r w1 CreateLog_Inl show ?thesis by (auto simp: cmdExec_Execute_def Let_def)
    next
      case (Inr b)
      with assms v v_ok r q e have "log = None" "err \<noteq> None" "w' = w3"
        by (auto simp: cmdExec_Execute_def Let_def)
      with CreateLog_Inr [OF r [unfolded Inr]] w1 w3 nil show ?thesis by auto
    qed
  qed
qed

definition sample_executor :: CommandExecutor where
  "sample_executor = \<lparr>cex_db = Pool, cex_commandRepo = Pool, cex_messageRepo = Pool,
     cex_convRepo = Pool, cex_eventPublisher = Some Pool, cex_errText = (\<lambda>_. ''error'')\<rparr>"

definition sample_archive :: Command where
  "sample_archive = BulkArchiveCmd \<lparr>bac_Base = \<lparr>bc_ID = 70, bc_Type = ''BulkArchive'', bc_UserID = 1,
     bc_CreatedAt = 0\<rparr>, bac_ConversationIDs = [5], bac_Results = []\<rparr>"

lemma Execute_never_runs_witness:
  "snd (fst (run_state (cmdExec_Execute sample_executor sample_archive) sample_world)) \<noteq> None"
  using Execute_never_runs [of sample_executor sample_archive sample_world]
  by (metis prod.collapse)

lemma keeps_queryRow_unchanged:
  assumes "run_state (queryRow db f) w = (x, w')"
  shows "w_db w' = w_db w"
  using keepsD [OF keeps_queryRow_committed _ assms, of "w_db w"] by (simp add: committed_def)

text \<open>
  As long as every log has a status that the database accepts, which the type of the column
  guarantees, no command can be undone: \<^verbatim>\<open>Undo\<close> returns an error and changes nothing.
\<close>

theorem Undo_always_refused:
  assumes "\<forall>l\<in>set (t_command_logs (w_db w)). log_Status l \<in> set command_status_enum"
    and "cex_commandRepo ex = Pool"
    and run: "run_state (cmdExec_Undo ex commandID userID) w = (x, w')"
  shows "isl x \<and> w_db w' = w_db w"
proof -
  obtain c w1 where c: "run_state (cmdRepo_CanUndo Pool commandID userID) w = (c, w1)"
    by fastforce
  obtain q w2 where q: "run_state (queryRow Pool (\<lambda>t. filter (\<lambda>r. log_ID r = commandID \<and> log_UserID r = userID)
      (t_command_logs t))) w = (q, w2)"
    by fastforce
  have w2: "w_db w2 = w_db w" by (rule keeps_queryRow_unchanged [OF q])
  show ?thesis
  proof (cases q)
    case (Inl e)
    with q c run assms(2) w2 show ?thesis by (auto simp: cmdExec_Undo_def cmdRepo_CanUndo_def)
  next
    case (Inr l)
    from q [unfolded Inr] have "l \<in> set (t_command_logs (w_db w))"
      by (auto simp: queryRow_Inr visible_def dest!: filter_eq_ConsD)
    with assms(1) have "log_Status l \<noteq> cmd_StatusCompleted" by auto
    with q Inr run assms(2) w2 show ?thesis by (auto simp: cmdExec_Undo_def cmdRepo_CanUndo_def)
  qed
qed

lemma Undo_always_refused_witness:
  "isl (fst (run_state (cmdExec_Undo sample_executor 70 1)
     (sample_world\<lparr>w_db := sample_tables\<lparr>t_command_logs := [new_log sample_archive]\<rparr>\<rparr>)))"
  by (rule Undo_always_refused [OF _ _ surjective_pairing, THEN conjunct1])
    (simp_all add: new_log_def sample_executor_def cmd_StatusPending_def command_status_enum_def)

end
