(* ===== verification/UserService.thy ===== *)
theory UserService
  imports UserRepo Samples
begin

text \<open>
  \<^verbatim>\<open>internal/services/user_service.go\<close>. A user service is its repository's connection. Almost every
  operation takes the identifier of the caller beside that of the user it is about and refuses to
  act when they differ (\<open>only_self\<close>).
\<close>

definition only_self :: "uuid \<Rightarrow> uuid \<Rightarrow> 'a go \<Rightarrow> 'a go" where
  "only_self actorID userID m = (if actorID \<noteq> userID then fail ErrForbidden else m)"

definition userSvc_List :: "DBTX \<Rightarrow> int \<Rightarrow> int \<Rightarrow> string \<Rightarrow> (User list \<times> int) go" where
  "userSvc_List db page limit search =
     (if search \<noteq> [] then userRepo_SearchUsers db search page limit
      else userRepo_GetAllUsers db page limit)"

definition userSvc_GetByEmail :: "DBTX \<Rightarrow> string \<Rightarrow> User go" where
  "userSvc_GetByEmail db email = userRepo_GetUserByEmail db email"

definition userSvc_GetByUsername :: "DBTX \<Rightarrow> string \<Rightarrow> User go" where
  "userSvc_GetByUsername db username = userRepo_GetUserByUsername db username"

definition userSvc_GetByPhoneNumber :: "DBTX \<Rightarrow> string \<Rightarrow> User go" where
  "userSvc_GetByPhoneNumber db phone = userRepo_GetUserByPhoneNumber db phone"

definition userSvc_UpdateProfile :: "DBTX \<Rightarrow> uuid \<Rightarrow> User \<Rightarrow> User go" where
  "userSvc_UpdateProfile db actorID input = only_self actorID (usr_ID input) (do {
     now \<leftarrow> time_Now;
     andThen (userRepo_UpdateUser db (input\<lparr>usr_UpdatedAt := now\<rparr>))
       (\<lambda>_. userRepo_GetUserByID db (usr_ID input))
   })"

definition userSvc_GetByID :: "DBTX \<Rightarrow> uuid \<Rightarrow> uuid \<Rightarrow> User go" where
  "userSvc_GetByID db actorID u = only_self actorID u (
     userRepo_GetUserByID db u)"

definition userSvc_UpdateOnlineStatus :: "DBTX \<Rightarrow> uuid \<Rightarrow> uuid \<Rightarrow> bool \<Rightarrow> unit go" where
  "userSvc_UpdateOnlineStatus db actorID u isOnline = only_self actorID u (
     userRepo_UpdateOnlineStatus db u isOnline)"

definition userSvc_UpdateLastSeen :: "DBTX \<Rightarrow> uuid \<Rightarrow> uuid \<Rightarrow> time \<Rightarrow> unit go" where
  "userSvc_UpdateLastSeen db actorID u lastSeen = only_self actorID u (
     userRepo_UpdateLastSeen db u lastSeen)"

definition userSvc_Delete :: "DBTX \<Rightarrow> uuid \<Rightarrow> uuid \<Rightarrow> unit go" where
  "userSvc_Delete db actorID u = only_self actorID u (
     userRepo_DeleteUser db u)"

definition userSvc_GetSettings :: "DBTX \<Rightarrow> uuid \<Rightarrow> uuid \<Rightarrow> UserSettings go" where
  "userSvc_GetSettings db actorID u = only_self actorID u (
     userRepo_GetUserSettings db u)"

definition userSvc_UpdateSettings :: "DBTX \<Rightarrow> uuid \<Rightarrow> UserSettings \<Rightarrow> UserSettings go" where
  "userSvc_UpdateSettings db actorID settings = only_self actorID (st_UserID settings) (
     andThen (userRepo_UpdateUserSettings db settings)
       (\<lambda>_. userRepo_GetUserSettings db (st_UserID settings)))"

definition userSvc_GetContacts :: "DBTX \<Rightarrow> uuid \<Rightarrow> uuid \<Rightarrow> UserContact list go" where
  "userSvc_GetContacts db actorID u = only_self actorID u (
     userRepo_GetUserContacts db u)"

definition userSvc_AddContact :: "DBTX \<Rightarrow> uuid \<Rightarrow> UserContact \<Rightarrow> unit go" where
  "userSvc_AddContact db actorID contact = only_self actorID (con_UserID contact) (
     do {
       now \<leftarrow> time_Now;
       userRepo_AddUserContact db (contact\<lparr>con_CreatedAt := now\<rparr>)
     })"

definition userSvc_RemoveContact :: "DBTX \<Rightarrow> uuid \<Rightarrow> uuid \<Rightarrow> uuid \<Rightarrow> unit go" where
  "userSvc_RemoveContact db actorID u contactUserID = only_self actorID u (
     userRepo_RemoveUserContact db u contactUserID)"

definition userSvc_BlockContact :: "DBTX \<Rightarrow> uuid \<Rightarrow> uuid \<Rightarrow> uuid \<Rightarrow> unit go" where
  "userSvc_BlockContact db actorID u contactUserID = only_self actorID u (
     userRepo_BlockContact db u contactUserID)"

definition userSvc_UnblockContact :: "DBTX \<Rightarrow> uuid \<Rightarrow> uuid \<Rightarrow> uuid \<Rightarrow> unit go" where
  "userSvc_UnblockContact db actorID u contactUserID = only_self actorID u (
     userRepo_UnblockContact db u contactUserID)"

definition userSvc_GetBlockedContacts :: "DBTX \<Rightarrow> uuid \<Rightarrow> uuid \<Rightarrow> UserContact list go" where
  "userSvc_GetBlockedContacts db actorID u = only_self actorID u (
     userRepo_GetBlockedContacts db u)"

definition userSvc_GetDevices :: "DBTX \<Rightarrow> uuid \<Rightarrow> uuid \<Rightarrow> Device list go" where
  "userSvc_GetDevices db actorID u = only_self actorID u (
     userRepo_GetUserDevices db u)"

definition userSvc_GetDeviceByID :: "DBTX \<Rightarrow> uuid \<Rightarrow> uuid \<Rightarrow> uuid \<Rightarrow> Device go" where
  "userSvc_GetDeviceByID db actorID u deviceID = only_self actorID u (
     userRepo_GetDeviceByID db deviceID)"

definition userSvc_AddDevice :: "DBTX \<Rightarrow> uuid \<Rightarrow> Device \<Rightarrow> unit go" where
  "userSvc_AddDevice db actorID device = only_self actorID (dev_UserID device) (
     do {
       now \<leftarrow> time_Now;
       userRepo_AddDevice db (device\<lparr>dev_RegisteredAt := now\<rparr>)
     })"

definition userSvc_DeactivateDevice :: "DBTX \<Rightarrow> uuid \<Rightarrow> uuid \<Rightarrow> uuid \<Rightarrow> unit go" where
  "userSvc_DeactivateDevice db actorID u deviceID = only_self actorID u (
     userRepo_DeactivateDevice db deviceID)"

definition userSvc_UpdateDeviceLastSeen :: "DBTX \<Rightarrow> uuid \<Rightarrow> uuid \<Rightarrow> uuid \<Rightarrow> unit go" where
  "userSvc_UpdateDeviceLastSeen db actorID u deviceID = only_self actorID u (
     userRepo_UpdateDeviceLastSeen db deviceID)"

definition userSvc_AddPushToken :: "DBTX \<Rightarrow> uuid \<Rightarrow> PushToken \<Rightarrow> unit go" where
  "userSvc_AddPushToken db actorID tk = only_self actorID (pt_UserID tk) (
     userRepo_AddPushToken db tk)"

definition userSvc_GetPushTokens :: "DBTX \<Rightarrow> uuid \<Rightarrow> uuid \<Rightarrow> PushToken list go" where
  "userSvc_GetPushTokens db actorID u = only_self actorID u (
     userRepo_GetUserPushTokens db u)"

definition userSvc_DeactivatePushToken :: "DBTX \<Rightarrow> uuid \<Rightarrow> uuid \<Rightarrow> uuid \<Rightarrow> unit go" where
  "userSvc_DeactivatePushToken db actorID u tokenID = only_self actorID u (
     userRepo_DeactivatePushToken db tokenID)"

definition userSvc_GetSessions :: "DBTX \<Rightarrow> uuid \<Rightarrow> uuid \<Rightarrow> UserSession list go" where
  "userSvc_GetSessions db actorID u = only_self actorID u (
     userRepo_GetUserSessions db u)"

definition userSvc_GetSessionByID :: "DBTX \<Rightarrow> uuid \<Rightarrow> uuid \<Rightarrow> uuid \<Rightarrow> UserSession go" where
  "userSvc_GetSessionByID db actorID u sessionID = only_self actorID u (
     userRepo_GetSessionByID db sessionID)"

definition userSvc_CreateSession :: "DBTX \<Rightarrow> uuid \<Rightarrow> UserSession \<Rightarrow> unit go" where
  "userSvc_CreateSession db actorID session = only_self actorID (ses_UserID session) (
     userRepo_CreateSession db session)"

definition userSvc_RevokeSession :: "DBTX \<Rightarrow> uuid \<Rightarrow> uuid \<Rightarrow> uuid \<Rightarrow> unit go" where
  "userSvc_RevokeSession db actorID u sessionID = only_self actorID u (
     userRepo_RevokeSession db sessionID)"

definition userSvc_RevokeAllSessions :: "DBTX \<Rightarrow> uuid \<Rightarrow> uuid \<Rightarrow> unit go" where
  "userSvc_RevokeAllSessions db actorID u = only_self actorID u (
     userRepo_RevokeAllUserSessions db u)"

definition userSvc_CleanExpiredSessions :: "DBTX \<Rightarrow> unit go" where
  "userSvc_CleanExpiredSessions db = userRepo_CleanExpiredSessions db"

definition userSvc_CreateUserSettings :: "DBTX \<Rightarrow> UserSettings \<Rightarrow> unit go" where
  "userSvc_CreateUserSettings db settings = userRepo_CreateUserSettings db settings"

section \<open>Whose rows the operations touch\<close>

text \<open>
  The guard compares the caller with the user named in the call, not with the owner of the row.
  A row named by its own identifier can therefore belong to anybody.
\<close>

lemma RevokeSession_of_others:
  assumes "s \<in> set (t_user_sessions (w_db w))" "w_fault w (w_step w) = None"
    and run: "run_state (userSvc_RevokeSession Pool actorID actorID (ses_ID s)) w = (x, w')"
  shows "x = Inr () \<and> s\<lparr>ses_IsRevoked := True\<rparr> \<in> set (t_user_sessions (w_db w'))"
  using assms
  by (auto simp: userSvc_RevokeSession_def only_self_def userRepo_RevokeSession_def affected_def
      run_sql_Pool on_table_def update_where_def count_where_def map_where_def filter_empty_conv Let_def
      split: if_splits)

lemma DeactivateDevice_of_others:
  assumes "d \<in> set (t_devices (w_db w))" "w_fault w (w_step w) = None"
    and run: "run_state (userSvc_DeactivateDevice Pool actorID actorID (dev_ID d)) w = (x, w')"
  shows "x = Inr () \<and> d\<lparr>dev_IsActive := False\<rparr> \<in> set (t_devices (w_db w'))"
  using assms
  by (auto simp: userSvc_DeactivateDevice_def only_self_def userRepo_DeactivateDevice_def
      update_device_def affected_def run_sql_Pool on_table_def update_where_def count_where_def
      map_where_def filter_empty_conv Let_def split: if_splits)

end
