(* ===== verification/WsLimits.thy ===== *)
theory WsLimits
  imports Prelude
begin

text \<open>
  The two in-memory rate limiters of the WebSocket server: \<^verbatim>\<open>ClientRateLimiter\<close>
  (\<^verbatim>\<open>internal/server/client.go\<close>), which counts the messages of one connection, and
  \<^verbatim>\<open>WebSocketRateLimiter\<close> (\<^verbatim>\<open>internal/server/hub.go\<close>), which counts new connections per user. Both
  run under their mutex; the time of a call is an argument.
\<close>

section \<open>Messages of one client\<close>

record RateLimits =
  MaxTypingEvents :: int
  MaxReadReceipts :: int
  MaxPresenceUpdates :: int
  MaxCallSignals :: int
  MaxPingMessages :: int

definition DefaultRateLimits :: RateLimits where
  "DefaultRateLimits = \<lparr>MaxTypingEvents = 60, MaxReadReceipts = 120, MaxPresenceUpdates = 30,
     MaxCallSignals = 120, MaxPingMessages = 60\<rparr>"

record ClientRateLimiter =
  typingTokens :: int
  readReceiptTokens :: int
  presenceTokens :: int
  callTokens :: int
  pingTokens :: int
  lastRefill :: time

definition NewClientRateLimiter :: "time \<Rightarrow> ClientRateLimiter" where
  "NewClientRateLimiter now = \<lparr>typingTokens = MaxTypingEvents DefaultRateLimits,
     readReceiptTokens = MaxReadReceipts DefaultRateLimits,
     presenceTokens = MaxPresenceUpdates DefaultRateLimits,
     callTokens = MaxCallSignals DefaultRateLimits,
     pingTokens = MaxPingMessages DefaultRateLimits, lastRefill = now\<rparr>"

definition refillTokens :: "ClientRateLimiter \<Rightarrow> ClientRateLimiter" where
  "refillTokens rl = rl\<lparr>typingTokens := MaxTypingEvents DefaultRateLimits,
     readReceiptTokens := MaxReadReceipts DefaultRateLimits,
     presenceTokens := MaxPresenceUpdates DefaultRateLimits,
     callTokens := MaxCallSignals DefaultRateLimits,
     pingTokens := MaxPingMessages DefaultRateLimits\<rparr>"

definition refillWhenDue :: "time \<Rightarrow> ClientRateLimiter \<Rightarrow> ClientRateLimiter" where
  "refillWhenDue now rl =
     (if now - lastRefill rl \<ge> Minute then (refillTokens rl)\<lparr>lastRefill := now\<rparr> else rl)"

definition Allow :: "string \<Rightarrow> time \<Rightarrow> ClientRateLimiter \<Rightarrow> bool \<times> ClientRateLimiter" where
  "Allow msgType now rl0 = (let rl = refillWhenDue now rl0 in
     if msgType = ''typing:start'' \<or> msgType = ''typing:stop'' then
       (if typingTokens rl > 0 then (True, rl\<lparr>typingTokens := typingTokens rl - 1\<rparr>) else (False, rl))
     else if msgType = ''read'' then
       (if readReceiptTokens rl > 0
        then (True, rl\<lparr>readReceiptTokens := readReceiptTokens rl - 1\<rparr>) else (False, rl))
     else if msgType = ''presence'' then
       (if presenceTokens rl > 0
        then (True, rl\<lparr>presenceTokens := presenceTokens rl - 1\<rparr>) else (False, rl))
     else if msgType = ''call'' then
       (if callTokens rl > 0 then (True, rl\<lparr>callTokens := callTokens rl - 1\<rparr>) else (False, rl))
     else if msgType = ''ping'' then
       (if pingTokens rl > 0 then (True, rl\<lparr>pingTokens := pingTokens rl - 1\<rparr>) else (False, rl))
     else (False, rl))"

text \<open>The kinds of message that share a budget.\<close>

datatype budget = TypingBudget | ReadBudget | PresenceBudget | CallBudget | PingBudget

definition budget_of :: "string \<Rightarrow> budget option" where
  "budget_of msgType =
     (if msgType = ''typing:start'' \<or> msgType = ''typing:stop'' then Some TypingBudget
      else if msgType = ''read'' then Some ReadBudget
      else if msgType = ''presence'' then Some PresenceBudget
      else if msgType = ''call'' then Some CallBudget
      else if msgType = ''ping'' then Some PingBudget
      else None)"

fun budget_tokens :: "budget \<Rightarrow> ClientRateLimiter \<Rightarrow> int" where
  "budget_tokens TypingBudget rl = typingTokens rl"
| "budget_tokens ReadBudget rl = readReceiptTokens rl"
| "budget_tokens PresenceBudget rl = presenceTokens rl"
| "budget_tokens CallBudget rl = callTokens rl"
| "budget_tokens PingBudget rl = pingTokens rl"

fun budget_limit :: "budget \<Rightarrow> int" where
  "budget_limit TypingBudget = 60"
| "budget_limit ReadBudget = 120"
| "budget_limit PresenceBudget = 30"
| "budget_limit CallBudget = 120"
| "budget_limit PingBudget = 60"

text \<open>The messages of a client in the order of their arrival, each with its time and type.\<close>

fun allow_all :: "(time \<times> string) list \<Rightarrow> ClientRateLimiter \<Rightarrow> bool list \<times> ClientRateLimiter" where
  "allow_all [] rl = ([], rl)"
| "allow_all ((now, ty) # ms) rl =
     (let (b, rl1) = Allow ty now rl; (bs, rl2) = allow_all ms rl1 in (b # bs, rl2))"

fun accepted :: "budget \<Rightarrow> (time \<times> string) list \<Rightarrow> bool list \<Rightarrow> int" where
  "accepted k ((now, ty) # ms) (b # bs) =
     (if b \<and> budget_of ty = Some k then 1 else 0) + accepted k ms bs"
| "accepted k _ _ = 0"

definition limiter_ok :: "ClientRateLimiter \<Rightarrow> bool" where
  "limiter_ok rl \<longleftrightarrow> (\<forall>k. 0 \<le> budget_tokens k rl \<and> budget_tokens k rl \<le> budget_limit k)"

lemma all_budgets: "(\<forall>k. P k) \<longleftrightarrow> P TypingBudget \<and> P ReadBudget \<and> P PresenceBudget \<and> P CallBudget \<and> P PingBudget"
  by (metis budget.exhaust)

lemma limiter_ok_new: "limiter_ok (NewClientRateLimiter now)"
  by (simp add: limiter_ok_def all_budgets NewClientRateLimiter_def DefaultRateLimits_def)

lemma budget_tokens_refill: "budget_tokens k (refillTokens rl) = budget_limit k"
  by (cases k) (simp_all add: refillTokens_def DefaultRateLimits_def)

lemma budget_tokens_lastRefill [simp]: "budget_tokens k (rl\<lparr>lastRefill := t\<rparr>) = budget_tokens k rl"
  by (cases k) simp_all

lemma budget_tokens_refillWhenDue:
  "budget_tokens k (refillWhenDue now rl) =
     (if now - lastRefill rl \<ge> Minute then budget_limit k else budget_tokens k rl)"
  by (simp add: refillWhenDue_def budget_tokens_refill)

fun spend :: "budget \<Rightarrow> ClientRateLimiter \<Rightarrow> ClientRateLimiter" where
  "spend TypingBudget rl = rl\<lparr>typingTokens := typingTokens rl - 1\<rparr>"
| "spend ReadBudget rl = rl\<lparr>readReceiptTokens := readReceiptTokens rl - 1\<rparr>"
| "spend PresenceBudget rl = rl\<lparr>presenceTokens := presenceTokens rl - 1\<rparr>"
| "spend CallBudget rl = rl\<lparr>callTokens := callTokens rl - 1\<rparr>"
| "spend PingBudget rl = rl\<lparr>pingTokens := pingTokens rl - 1\<rparr>"

lemma budget_tokens_spend: "budget_tokens k (spend j rl) = budget_tokens k rl - (if j = k then 1 else 0)"
  by (cases j; cases k) simp_all

lemma lastRefill_spend [simp]: "lastRefill (spend j rl) = lastRefill rl"
  by (cases j) simp_all

lemma Allow_budget:
  "Allow ty now rl = (let rl1 = refillWhenDue now rl in case budget_of ty of
     None \<Rightarrow> (False, rl1)
   | Some k \<Rightarrow> if budget_tokens k rl1 > 0 then (True, spend k rl1) else (False, rl1))"
proof -
  consider "ty = ''typing:start''" | "ty = ''typing:stop''" | "ty = ''read''" | "ty = ''presence''"
    | "ty = ''call''" | "ty = ''ping''"
    | "ty \<noteq> ''typing:start''" "ty \<noteq> ''typing:stop''" "ty \<noteq> ''read''" "ty \<noteq> ''presence''" "ty \<noteq> ''call''" "ty \<noteq> ''ping''"
    by argo
  then show ?thesis
    by cases (simp_all add: Allow_def Let_def budget_of_def)
qed

lemma lastRefill_refillWhenDue:
  "lastRefill (refillWhenDue now rl) = (if now - lastRefill rl \<ge> Minute then now else lastRefill rl)"
  by (simp add: refillWhenDue_def)

lemma Allow_tokens:
  assumes "Allow ty now rl = (b, rl')"
  shows "budget_tokens k rl' =
      budget_tokens k (refillWhenDue now rl) - (if b \<and> budget_of ty = Some k then 1 else 0)"
    and "lastRefill rl' = (if now - lastRefill rl \<ge> Minute then now else lastRefill rl)"
    and "b \<Longrightarrow> budget_of ty = Some k \<Longrightarrow> budget_tokens k (refillWhenDue now rl) > 0"
  using assms
  by (auto simp: Allow_budget Let_def budget_tokens_spend lastRefill_refillWhenDue
      split: option.splits if_splits)

lemma limiter_ok_refillWhenDue: "limiter_ok rl \<Longrightarrow> limiter_ok (refillWhenDue now rl)"
  by (simp add: limiter_ok_def budget_tokens_refillWhenDue all_budgets)

lemma limiter_ok_Allow:
  assumes "limiter_ok rl" "Allow ty now rl = (b, rl')"
  shows "limiter_ok rl'"
  unfolding limiter_ok_def
proof
  fix k
  from limiter_ok_refillWhenDue [OF assms(1)]
  have "0 \<le> budget_tokens k (refillWhenDue now rl)" "budget_tokens k (refillWhenDue now rl) \<le> budget_limit k"
    by (simp_all add: limiter_ok_def)
  with Allow_tokens(1,3) [OF assms(2), of k]
  show "0 \<le> budget_tokens k rl' \<and> budget_tokens k rl' \<le> budget_limit k" by (auto split: if_splits)
qed

lemma limiter_ok_allow_all: "allow_all ms rl = (bs, rl') \<Longrightarrow> limiter_ok rl \<Longrightarrow> limiter_ok rl'"
proof (induction ms arbitrary: rl bs)
  case (Cons m ms)
  then show ?case by (cases m) (auto split: prod.splits dest: limiter_ok_Allow)
qed simp

text \<open>Within a minute of the last refill nothing is refilled.\<close>

lemma accepted_no_refill:
  assumes "allow_all ms rl = (bs, rl')" "limiter_ok rl" "\<forall>(t, ty)\<in>set ms. t < lastRefill rl + Minute"
  shows "accepted k ms bs \<le> budget_tokens k rl"
  using assms
proof (induction ms arbitrary: rl bs)
  case Nil
  then show ?case by (auto simp: limiter_ok_def)
next
  case (Cons m ms)
  obtain now ty where m: "m = (now, ty)" by fastforce
  obtain b rl1 where a: "Allow ty now rl = (b, rl1)" by fastforce
  obtain cs where r: "allow_all ms rl1 = (cs, rl')" and bs: "bs = b # cs"
    using Cons.prems(1) m a by (auto split: prod.splits)
  have due: "\<not> now - lastRefill rl \<ge> Minute" using Cons.prems(3) m by auto
  with Allow_tokens(2) [OF a] have "lastRefill rl1 = lastRefill rl" by simp
  with Cons.IH [OF r limiter_ok_Allow [OF Cons.prems(2) a]] Cons.prems(3)
  have "accepted k ms cs \<le> budget_tokens k rl1" by auto
  with Allow_tokens(1) [OF a, of k] due m bs show ?case
    by (auto simp: budget_tokens_refillWhenDue)
qed

lemma accepted_one_refill:
  assumes "allow_all ms rl = (bs, rl')" "limiter_ok rl" "sorted (map fst ms)"
    "\<forall>(t, ty)\<in>set ms. t0 \<le> t \<and> t < t0 + Minute"
  shows "accepted k ms bs \<le> budget_tokens k rl + budget_limit k"
  using assms
proof (induction ms arbitrary: rl bs)
  case Nil
  then show ?case by (cases k) (auto simp: limiter_ok_def all_budgets)
next
  case (Cons m ms)
  obtain now ty where m: "m = (now, ty)" by fastforce
  obtain b rl1 where a: "Allow ty now rl = (b, rl1)" by fastforce
  obtain cs where r: "allow_all ms rl1 = (cs, rl')" and bs: "bs = b # cs"
    using Cons.prems(1) m a by (auto split: prod.splits)
  note ok1 = limiter_ok_Allow [OF Cons.prems(2) a]
  show ?case
  proof (cases "now - lastRefill rl \<ge> Minute")
    case True
    with Allow_tokens(2) [OF a] have "lastRefill rl1 = now" by simp
    with Cons.prems(4) m have "\<forall>(t, ty)\<in>set ms. t < lastRefill rl1 + Minute" by fastforce
    from accepted_no_refill [OF r ok1 this, of k] Allow_tokens(1) [OF a, of k] True m bs
    have "accepted k (m # ms) bs \<le> budget_limit k" by (simp add: budget_tokens_refillWhenDue)
    moreover from Cons.prems(2) have "0 \<le> budget_tokens k rl" by (simp add: limiter_ok_def)
    ultimately show ?thesis by simp
  next
    case False
    from Cons.IH [OF r ok1] Cons.prems(3,4)
    have "accepted k ms cs \<le> budget_tokens k rl1 + budget_limit k" by auto
    with Allow_tokens(1) [OF a, of k] False m bs show ?thesis
      by (auto simp: budget_tokens_refillWhenDue)
  qed
qed

text \<open>
  C35. However a client times its messages, and whatever happened before, of those that arrive
  within one minute at most twice the configured number of each kind gets through. (Twice, because
  the budget is refilled at once and not by and by: a full budget may be spent just before and
  another just after the refill.)
\<close>

theorem Allow_twice_per_minute:
  assumes "sorted (map fst (before @ ms))"
    and "\<forall>(t, ty)\<in>set ms. t0 \<le> t \<and> t < t0 + Minute"
    and "allow_all before (NewClientRateLimiter start) = (bs0, rl)"
    and "allow_all ms rl = (bs, rl')"
  shows "accepted k ms bs \<le> 2 * budget_limit k"
proof -
  note ok = limiter_ok_allow_all [OF assms(3) limiter_ok_new]
  then have "budget_tokens k rl \<le> budget_limit k" by (simp add: limiter_ok_def)
  moreover from assms(1) have "sorted (map fst ms)" by (simp add: sorted_append)
  ultimately show ?thesis using accepted_one_refill [OF assms(4) ok _ assms(2), of k] by simp
qed

lemma Allow_twice_per_minute_witness:
  "accepted PingBudget [(70, ''ping''), (80, ''ping'')] [True, True] \<le> 2 * budget_limit PingBudget"
proof (rule Allow_twice_per_minute)
  show "sorted (map fst ([(60, ''read'')] @ [(70, ''ping''), (80, ''ping'')] :: (time \<times> string) list))"
    by simp
  show "\<forall>(t, ty)\<in>set [(70, ''ping''), (80, ''ping'')]. (60 :: time) \<le> t \<and> t < 60 + Minute" by simp
  show "allow_all [(60, ''read'')] (NewClientRateLimiter 0) =
      ([True], (NewClientRateLimiter 0)\<lparr>readReceiptTokens := 119\<rparr>)"
    by (simp add: Allow_def refillWhenDue_def NewClientRateLimiter_def DefaultRateLimits_def)
  show "allow_all [(70, ''ping''), (80, ''ping'')] ((NewClientRateLimiter 0)\<lparr>readReceiptTokens := 119\<rparr>) =
      ([True, True], (NewClientRateLimiter 0)\<lparr>readReceiptTokens := 119, pingTokens := 58\<rparr>)"
    by (simp add: Allow_def refillWhenDue_def NewClientRateLimiter_def DefaultRateLimits_def)
qed

section \<open>Connections of one user\<close>

text \<open>The per-address map of the Go struct is never used. A missing key reads as the empty slice.\<close>

record WebSocketRateLimiter =
  connectionsPerUser :: "(uuid \<times> time list) list"

definition NewWebSocketRateLimiter :: WebSocketRateLimiter where
  "NewWebSocketRateLimiter = \<lparr>connectionsPerUser = []\<rparr>"

definition connections_of :: "uuid \<Rightarrow> WebSocketRateLimiter \<Rightarrow> time list" where
  "connections_of u w = (case map_of (connectionsPerUser w) u of None \<Rightarrow> [] | Some ts \<Rightarrow> ts)"

definition AllowConnection ::
  "uuid \<Rightarrow> time \<Rightarrow> WebSocketRateLimiter \<Rightarrow> bool \<times> WebSocketRateLimiter" where
  "AllowConnection userID now w =
     (let windowStart = now - Minute;
          validConnections = filter (\<lambda>t. t > windowStart) (connections_of userID w)
      in if length validConnections \<ge> 10 then (False, w)
         else (True, w\<lparr>connectionsPerUser :=
           map_put userID (validConnections @ [now]) (connectionsPerUser w)\<rparr>))"

definition limiter_cleanup :: "time \<Rightarrow> WebSocketRateLimiter \<Rightarrow> WebSocketRateLimiter" where
  "limiter_cleanup now w = w\<lparr>connectionsPerUser :=
     filter (\<lambda>(u, ts). ts \<noteq> [])
       (map (\<lambda>(u, ts). (u, filter (\<lambda>t. t > now - 10 * Minute) ts)) (connectionsPerUser w))\<rparr>"

text \<open>
  \<^verbatim>\<open>RecordConnection\<close> has an empty body: \<^verbatim>\<open>AllowConnection\<close> has recorded the connection.
  \<^verbatim>\<open>cleanupLoop\<close> cleans at each tick of its ticker, and the ticker is only stopped when the loop
  ends, which it does not: \<open>cleanupLoop ticks\<close> is what it has done after the ticks at the times given.
\<close>

definition RecordConnection :: "uuid \<Rightarrow> WebSocketRateLimiter \<Rightarrow> WebSocketRateLimiter" where
  "RecordConnection userID w = w"

fun cleanupLoop :: "time list \<Rightarrow> WebSocketRateLimiter \<Rightarrow> WebSocketRateLimiter" where
  "cleanupLoop [] w = w"
| "cleanupLoop (now # ticks) w = cleanupLoop ticks (limiter_cleanup now w)"

text \<open>
  The limiter in use: \<open>limiter_reach now admitted w\<close> says that \<open>w\<close> can be its state at the time
  \<open>now\<close> when \<open>admitted\<close> lists the connections let through so far, with their times. The clean-up
  of the background loop may come at any moment.
\<close>

inductive limiter_reach :: "time \<Rightarrow> (time \<times> uuid) list \<Rightarrow> WebSocketRateLimiter \<Rightarrow> bool" where
  start: "limiter_reach now [] NewWebSocketRateLimiter"
| attempt: "limiter_reach t adm w \<Longrightarrow> t \<le> now \<Longrightarrow> AllowConnection u now w = (b, w') \<Longrightarrow>
    limiter_reach now (if b then adm @ [(now, u)] else adm) w'"
| cleanup: "limiter_reach t adm w \<Longrightarrow> t \<le> now \<Longrightarrow> limiter_reach now adm (limiter_cleanup now w)"

definition admitted_times :: "uuid \<Rightarrow> (time \<times> uuid) list \<Rightarrow> time list" where
  "admitted_times u adm = map fst (filter (\<lambda>(t, v). v = u) adm)"

lemma limiter_reach_cleanupLoop:
  "limiter_reach t adm w \<Longrightarrow> sorted (t # ticks) \<Longrightarrow>
     limiter_reach (last (t # ticks)) adm (cleanupLoop ticks w)"
proof (induction ticks arbitrary: t w)
  case (Cons now ticks)
  then have "limiter_reach now adm (limiter_cleanup now w)" by (auto intro: limiter_reach.cleanup)
  with Cons show ?case by simp
qed simp

lemma admitted_times_snoc [simp]:
  "admitted_times u (adm @ [(t, v)]) = admitted_times u adm @ (if v = u then [t] else [])"
  by (simp add: admitted_times_def)

lemma connections_of_put [simp]:
  "connections_of u (w\<lparr>connectionsPerUser := map_put v ts (connectionsPerUser w)\<rparr>) =
     (if u = v then ts else connections_of u w)"
  by (simp add: connections_of_def)

lemma map_of_cleanup:
  assumes "distinct (map fst m)"
  shows "(case map_of (filter (\<lambda>(u, ts). ts \<noteq> []) (map (\<lambda>(u, ts). (u, filter P ts)) m)) u of
      None \<Rightarrow> [] | Some ts \<Rightarrow> ts) = filter P (case map_of m u of None \<Rightarrow> [] | Some ts \<Rightarrow> ts)"
  using assms
proof (induction m)
  case (Cons a m)
  have none: "map_of (filter (\<lambda>(u, ts). ts \<noteq> []) (map (\<lambda>(u, ts). (u, filter P ts)) m)) (fst a) = None"
    using Cons.prems unfolding map_of_eq_None_iff by (auto simp: image_iff split_def)
  with Cons show ?case by (cases a) auto
qed simp

lemma connections_of_cleanup:
  "distinct (map fst (connectionsPerUser w)) \<Longrightarrow>
   connections_of u (limiter_cleanup now w) = filter (\<lambda>t. t > now - 10 * Minute) (connections_of u w)"
  by (simp add: connections_of_def limiter_cleanup_def map_of_cleanup)

text \<open>
  What the limiter keeps for a user agrees with what it has admitted, as far as the last minute
  goes.
\<close>

definition limiter_agrees :: "time \<Rightarrow> (time \<times> uuid) list \<Rightarrow> WebSocketRateLimiter \<Rightarrow> bool" where
  "limiter_agrees now adm w \<longleftrightarrow> distinct (map fst (connectionsPerUser w)) \<and>
     (\<forall>u. \<forall>s \<ge> now - Minute. filter (\<lambda>t. t > s) (connections_of u w) = filter (\<lambda>t. t > s) (admitted_times u adm)) \<and>
     (\<forall>u. \<forall>t \<in> set (admitted_times u adm). t \<le> now)"

lemma limiter_agrees_mono: "limiter_agrees t adm w \<Longrightarrow> t \<le> now \<Longrightarrow> limiter_agrees now adm w"
  unfolding limiter_agrees_def by force

lemma filter_sharper: "(\<And>t. P t \<Longrightarrow> Q t) \<Longrightarrow> filter P (filter Q ts) = filter P ts"
  by (induction ts) auto

lemma filter_length_mono: "(\<And>x. P x \<Longrightarrow> Q x) \<Longrightarrow> length (filter P xs) \<le> length (filter Q xs)"
  by (induction xs) auto

lemma limiter_agrees_Allow:
  assumes "limiter_agrees now adm w" "AllowConnection u now w = (b, w')"
  shows "limiter_agrees now (if b then adm @ [(now, u)] else adm) w'"
proof (cases b)
  case True
  define kept where "kept = filter (\<lambda>t. t > now - Minute) (connections_of u w)"
  from assms(2) True have w': "w' = w\<lparr>connectionsPerUser := map_put u (kept @ [now]) (connectionsPerUser w)\<rparr>"
    by (auto simp: AllowConnection_def Let_def kept_def split: if_splits)
  have "filter (\<lambda>t. t > s) kept = filter (\<lambda>t. t > s) (connections_of u w)" if "s \<ge> now - Minute" for s
    unfolding kept_def using that by (intro filter_sharper) simp
  with assms(1) True show ?thesis
    unfolding limiter_agrees_def w' by (auto simp: distinct_map_put)
next
  case False
  with assms(2) have "w' = w" by (auto simp: AllowConnection_def Let_def split: if_splits)
  with assms(1) False show ?thesis by simp
qed

lemma limiter_agrees_cleanup:
  assumes "limiter_agrees now adm w"
  shows "limiter_agrees now adm (limiter_cleanup now w)"
proof -
  have d: "distinct (map fst (connectionsPerUser w))" using assms by (simp add: limiter_agrees_def)
  then have "distinct (map fst (connectionsPerUser (limiter_cleanup now w)))"
    by (auto simp: limiter_cleanup_def split_def comp_def intro!: distinct_map_filter)
  moreover have "filter (\<lambda>t. t > s) (connections_of u (limiter_cleanup now w)) =
      filter (\<lambda>t. t > s) (connections_of u w)" if "s \<ge> now - Minute" for s u
    unfolding connections_of_cleanup [OF d] using that by (intro filter_sharper) simp
  ultimately show ?thesis using assms by (simp add: limiter_agrees_def)
qed

lemma limiter_reach_agrees: "limiter_reach now adm w \<Longrightarrow> limiter_agrees now adm w"
proof (induction rule: limiter_reach.induct)
  case start
  then show ?case
    by (simp add: limiter_agrees_def NewWebSocketRateLimiter_def connections_of_def admitted_times_def)
qed (blast intro: limiter_agrees_mono limiter_agrees_Allow limiter_agrees_cleanup)+

text \<open>
  C36. The connection limiter is a true sliding window: in whatever order attempts of any users and
  the clean-up come, no user is ever let through more than ten times within one minute.
\<close>

theorem AllowConnection_ten_per_minute:
  assumes "limiter_reach now adm w"
  shows "length (filter (\<lambda>t. T - Minute < t \<and> t \<le> T) (admitted_times u adm)) \<le> 10"
  using assms
proof (induction arbitrary: T rule: limiter_reach.induct)
  case (start now)
  then show ?case by (simp add: admitted_times_def)
next
  case (attempt t adm w now v b w')
  from limiter_agrees_mono [OF limiter_reach_agrees [OF attempt.hyps(1)] attempt.hyps(2)]
  have agree: "limiter_agrees now adm w" .
  show ?case
  proof (cases "b \<and> v = u \<and> T - Minute < now \<and> now \<le> T")
    case True
    from agree have "filter (\<lambda>t. t > now - Minute) (connections_of u w) =
        filter (\<lambda>t. t > now - Minute) (admitted_times u adm)"
      by (simp add: limiter_agrees_def)
    with True attempt.hyps(3) have "length (filter (\<lambda>t. t > now - Minute) (admitted_times u adm)) < 10"
      by (auto simp: AllowConnection_def Let_def split: if_splits)
    moreover have "length (filter (\<lambda>t. T - Minute < t \<and> t \<le> T) (admitted_times u adm)) \<le>
        length (filter (\<lambda>t. t > now - Minute) (admitted_times u adm))"
      using True by (intro filter_length_mono) auto
    ultimately show ?thesis using True by simp
  next
    case False
    with attempt.IH [of T] show ?thesis by auto
  qed
qed simp

lemma AllowConnection_ten_per_minute_witness:
  "length (filter (\<lambda>t. 9 - Minute < t \<and> t \<le> 9) (admitted_times 1 [(5, 1 :: uuid), (6, 1)])) \<le> 10"
proof (rule AllowConnection_ten_per_minute)
  have "limiter_reach 5 [(5, 1)] \<lparr>connectionsPerUser = [(1, [5])]\<rparr>"
    using limiter_reach.attempt [OF limiter_reach.start [of 0], of 5 1 True
        "\<lparr>connectionsPerUser = [(1, [5])]\<rparr>"]
    by (simp add: AllowConnection_def NewWebSocketRateLimiter_def connections_of_def map_put_def)
  from limiter_reach.attempt [OF this, of 6 1 True "\<lparr>connectionsPerUser = [(1, [5, 6])]\<rparr>"]
  show "limiter_reach 6 [(5, 1), (6, 1)] \<lparr>connectionsPerUser = [(1, [5, 6])]\<rparr>"
    by (simp add: AllowConnection_def connections_of_def map_put_def)
qed

end
