(* ===== verification/Hub.thy ===== *)
theory Hub
  imports ConversationService MessageService UserService WsLimits
begin

text \<open>
  The WebSocket hub (\<^verbatim>\<open>internal/server/hub.go\<close>) and its clients (\<^verbatim>\<open>internal/server/client.go\<close>).
  Clients are pointers: the hub's store maps addresses to them, and the registry of the hub maps a
  user and a client identifier to an address. The three channels of the hub are the lists of
  what has been sent and not yet received, senders that wait for room included; \<^verbatim>\<open>Run\<close> takes from
  any of them. A channel of a client is its buffer of at most 256 texts and whether it is closed:
  closing it twice and sending on it when closed are panics. Logging is left out. \<open>hub_pick\<close> says
  where the iteration over a map of clients starts, which Go leaves open.

  A handler of \<^verbatim>\<open>Run\<close> holds the hub's mutex from its first to its last line, so it is one step.
\<close>

section \<open>State\<close>

record Client =
  cl_send :: "string list"
  cl_sendClosed :: bool
  cl_connClosed :: bool
  cl_userID :: uuid
  cl_clientID :: string
  cl_deviceID :: uuid
  cl_conversations :: "uuid list"
  cl_rateLimiter :: ClientRateLimiter
  cl_connectedAt :: time
  cl_lastActivity :: time

record BroadcastMessage =
  bm_UserIDs :: "uuid list"
  bm_ConversationID :: "uuid option"
  bm_Event :: Event

record Hub =
  hub_clients :: "(uuid \<times> (string \<times> nat) list) list"
  hub_register :: "nat list"
  hub_unregister :: "nat list"
  hub_broadcast :: "BroadcastMessage list"
  hub_conversationService :: "ConversationService option"
  hub_messageService :: "MessageService option"
  hub_userService :: "DBTX option"
  hub_rateLimiter :: WebSocketRateLimiter
  hub_stopped :: bool
  hub_heap :: "nat \<Rightarrow> Client option"
  hub_fresh :: nat
  hub_pick :: "(string \<times> nat) list \<Rightarrow> nat"

type_synonym hub_state = "world \<times> Hub"

definition NewHub :: "ConversationService option \<Rightarrow> MessageService option \<Rightarrow> DBTX option \<Rightarrow>
    ((string \<times> nat) list \<Rightarrow> nat) \<Rightarrow> Hub" where
  "NewHub cs ms us pick = \<lparr>hub_clients = [], hub_register = [], hub_unregister = [],
     hub_broadcast = [], hub_conversationService = cs, hub_messageService = ms,
     hub_userService = us, hub_rateLimiter = NewWebSocketRateLimiter, hub_stopped = False,
     hub_heap = (\<lambda>_. None), hub_fresh = 0, hub_pick = pick\<rparr>"

definition NewClient :: "time \<Rightarrow> uuid \<Rightarrow> uuid \<Rightarrow> string \<Rightarrow> Client" where
  "NewClient now userID deviceID clientID = \<lparr>cl_send = [], cl_sendClosed = False,
     cl_connClosed = False, cl_userID = userID, cl_clientID = clientID, cl_deviceID = deviceID,
     cl_conversations = [], cl_rateLimiter = NewClientRateLimiter now, cl_connectedAt = now,
     cl_lastActivity = now\<rparr>"

abbreviation nil_pointer :: error where "nil_pointer \<equiv> Panic ''nil pointer dereference''"

section \<open>Clients\<close>

definition hub_read :: "(Hub \<Rightarrow> 'a) \<Rightarrow> (Hub, 'a) state" where
  "hub_read f = State (\<lambda>h. (f h, h))"

definition hub_modify :: "(Hub \<Rightarrow> Hub) \<Rightarrow> (Hub, unit) state" where
  "hub_modify f = State (\<lambda>h. ((), f h))"

definition deref :: "nat \<Rightarrow> (Hub, error + Client) state" where
  "deref a = State (\<lambda>h. (case hub_heap h a of None \<Rightarrow> Inl nil_pointer | Some c \<Rightarrow> Inr c, h))"

definition set_client :: "nat \<Rightarrow> (Client \<Rightarrow> Client) \<Rightarrow> (Hub, unit) state" where
  "set_client a f = hub_modify (\<lambda>h. h\<lparr>hub_heap := (hub_heap h)(a := map_option f (hub_heap h a))\<rparr>)"

text \<open>\<^verbatim>\<open>select { case client.send <- data: default: }\<close>\<close>

definition trySend :: "nat \<Rightarrow> string \<Rightarrow> (Hub, error + unit) state" where
  "trySend a data = andThen (deref a) (\<lambda>c.
     if cl_sendClosed c then fail (Panic ''send on closed channel'')
     else if length (cl_send c) < 256
     then do { set_client a (\<lambda>c. c\<lparr>cl_send := cl_send c @ [data]\<rparr>); ok () }
     else ok ())"

text \<open>
  \<^verbatim>\<open>client.send <- data\<close>. On a full buffer the sender waits for the writer; the value \<open>blocked\<close> says
  that it does.
\<close>

definition blocked :: error where "blocked = OtherError ''blocked''"

definition sendOrWait :: "nat \<Rightarrow> string \<Rightarrow> (Hub, error + unit) state" where
  "sendOrWait a data = andThen (deref a) (\<lambda>c.
     if cl_sendClosed c then fail (Panic ''send on closed channel'')
     else if length (cl_send c) < 256
     then do { set_client a (\<lambda>c. c\<lparr>cl_send := cl_send c @ [data]\<rparr>); ok () }
     else fail blocked)"

definition removeClient :: "nat \<Rightarrow> (Hub, error + unit) state" where
  "removeClient a = andThen (deref a) (\<lambda>c.
     if cl_sendClosed c then fail (Panic ''close of closed channel'')
     else do { set_client a (\<lambda>c. c\<lparr>cl_sendClosed := True, cl_connClosed := True\<rparr>); ok () })"

section \<open>The handlers of the hub\<close>

definition clients_of :: "uuid \<Rightarrow> Hub \<Rightarrow> (string \<times> nat) list" where
  "clients_of u h = (case map_of (hub_clients h) u of None \<Rightarrow> [] | Some m \<Rightarrow> m)"

definition map_delete :: "'k \<Rightarrow> ('k \<times> 'v) list \<Rightarrow> ('k \<times> 'v) list" where
  "map_delete k m = filter (\<lambda>(k', _). k' \<noteq> k) m"

definition hub_AllowConnection :: "uuid \<Rightarrow> time \<Rightarrow> (Hub, bool) state" where
  "hub_AllowConnection u now = State (\<lambda>h.
     case AllowConnection u now (hub_rateLimiter h) of (b, rl) \<Rightarrow> (b, h\<lparr>hub_rateLimiter := rl\<rparr>))"

definition evictOne :: "uuid \<Rightarrow> (Hub, error + unit) state" where
  "evictOne u = do {
     mine \<leftarrow> hub_read (clients_of u);
     pick \<leftarrow> hub_read hub_pick;
     (if length mine \<ge> 10 then
        let (i, c) = mine ! (pick mine mod length mine) in
        andThen (removeClient c) (\<lambda>_. do {
          hub_modify (\<lambda>h. h\<lparr>hub_clients := map_put u (map_delete i mine) (hub_clients h)\<rparr>);
          ok ()
        })
      else ok ())
   }"

definition putClient :: "nat \<Rightarrow> Client \<Rightarrow> (Hub, unit) state" where
  "putClient a c = hub_modify (\<lambda>h. h\<lparr>hub_clients := map_put (cl_userID c)
     (map_put (cl_clientID c) a (clients_of (cl_userID c) h)) (hub_clients h)\<rparr>)"

definition loadConversations :: "uuid \<Rightarrow> (hub_state, uuid list) state" where
  "loadConversations u = do {
     svc \<leftarrow> on_bus (hub_read hub_conversationService);
     (case svc of
        None \<Rightarrow> State_Monad.return []
      | Some s \<Rightarrow> do {
          r \<leftarrow> on_store (convSvc_GetUserConversations s u 1 1000);
          State_Monad.return (case r of Inl _ \<Rightarrow> [] | Inr (cs, _) \<Rightarrow> map conv_ID cs)
        })
   }"

definition setOnline :: "uuid \<Rightarrow> bool \<Rightarrow> (hub_state, unit) state" where
  "setOnline u isOnline = do {
     svc \<leftarrow> on_bus (hub_read hub_userService);
     (case svc of
        None \<Rightarrow> State_Monad.return ()
      | Some s \<Rightarrow> do {
          _ \<leftarrow> on_store (userSvc_UpdateOnlineStatus s u u isOnline);
          State_Monad.return ()
        })
   }"

definition handleRegister :: "nat \<Rightarrow> (hub_state, error + unit) state" where
  "handleRegister a = andThen (on_bus (deref a)) (\<lambda>client. do {
     now \<leftarrow> on_store time_Now;
     allowed \<leftarrow> on_bus (hub_AllowConnection (cl_userID client) now);
     (if \<not> allowed then do {
        on_bus (set_client a (\<lambda>c. c\<lparr>cl_connClosed := True\<rparr>));
        ok ()
      }
      else andThen (on_bus (evictOne (cl_userID client))) (\<lambda>_. do {
        on_bus (putClient a client);
        convs \<leftarrow> loadConversations (cl_userID client);
        on_bus (set_client a (\<lambda>c. c\<lparr>cl_conversations := cl_conversations c @ convs\<rparr>));
        setOnline (cl_userID client) True;
        ok ()
      }))
   })"

definition handleUnregister :: "nat \<Rightarrow> (hub_state, error + unit) state" where
  "handleUnregister a = andThen (on_bus (deref a)) (\<lambda>client. do {
     clients \<leftarrow> on_bus (hub_read hub_clients);
     (case map_of clients (cl_userID client) of
        None \<Rightarrow> ok ()
      | Some userClients \<Rightarrow>
          (case map_of userClients (cl_clientID client) of
             None \<Rightarrow> ok ()
           | Some _ \<Rightarrow> do {
               let rest = map_delete (cl_clientID client) userClients;
               on_bus (hub_modify (\<lambda>h. h\<lparr>hub_clients :=
                 map_put (cl_userID client) rest (hub_clients h)\<rparr>));
               andThen (on_bus (removeClient a)) (\<lambda>_.
                 if rest = [] then do {
                   on_bus (hub_modify (\<lambda>h. h\<lparr>hub_clients :=
                     map_delete (cl_userID client) (hub_clients h)\<rparr>));
                   setOnline (cl_userID client) False;
                   ok ()
                 }
                 else ok ())
             }))
   })"

definition broadcastToUser :: "uuid \<Rightarrow> string \<Rightarrow> (Hub, error + unit) state" where
  "broadcastToUser u data = do {
     mine \<leftarrow> hub_read (clients_of u);
     forEach (map snd mine) (\<lambda>a. trySend a data)
   }"

definition all_addresses :: "Hub \<Rightarrow> nat list" where
  "all_addresses h = concat (map (\<lambda>(_, m). map snd m) (hub_clients h))"

definition broadcastToConversation :: "uuid \<Rightarrow> string \<Rightarrow> (Hub, error + unit) state" where
  "broadcastToConversation convID data = do {
     as \<leftarrow> hub_read all_addresses;
     forEach as (\<lambda>a. andThen (deref a) (\<lambda>c.
       if convID \<in> set (cl_conversations c) then trySend a data else ok ()))
   }"

definition handleBroadcast :: "BroadcastMessage \<Rightarrow> (Hub, error + unit) state" where
  "handleBroadcast msg = (let data = json_text (event_json (bm_Event msg)) in
     case bm_ConversationID msg of
       Some c \<Rightarrow> broadcastToConversation c data
     | None \<Rightarrow>
         if bm_UserIDs msg \<noteq> [] then forEach (bm_UserIDs msg) (\<lambda>u. broadcastToUser u data)
         else ok ())"

text \<open>\<^verbatim>\<open>WebSocketEventHandler.Handle\<close>\<close>

definition handleEvent :: "Event \<Rightarrow> (Hub, unit) state" where
  "handleEvent e = hub_modify (\<lambda>h. h\<lparr>hub_broadcast := hub_broadcast h @
     [\<lparr>bm_UserIDs = [], bm_ConversationID = None, bm_Event = e\<rparr>]\<rparr>)"

definition subscribedEvents :: "string list" where
  "subscribedEvents = [EventMessageNew, EventMessageRead, EventTypingStarted, EventTypingStopped,
     EventCallOffer, EventCallAnswer, EventCallICE, EventCallEnded]"

definition hub_Stop :: "(Hub, error + unit) state" where
  "hub_Stop = do {
     stopped \<leftarrow> hub_read hub_stopped;
     (if stopped then fail (Panic ''close of closed channel'')
      else do {
        hub_modify (\<lambda>h. h\<lparr>hub_stopped := True\<rparr>);
        as \<leftarrow> hub_read all_addresses;
        andThen (forEach as removeClient) (\<lambda>_. do {
          hub_modify (\<lambda>h. h\<lparr>hub_clients := []\<rparr>);
          ok ()
        })
      })
   }"

text \<open>The end of \<^verbatim>\<open>WebSocketHandler.Handle\<close>: a new client is allocated and sent to the hub.\<close>

definition connect :: "uuid \<Rightarrow> uuid \<Rightarrow> (hub_state, nat) state" where
  "connect userID deviceID = do {
     i \<leftarrow> on_store uuid_New;
     now \<leftarrow> on_store time_Now;
     a \<leftarrow> on_bus (hub_read hub_fresh);
     on_bus (hub_modify (\<lambda>h. h\<lparr>hub_fresh := Suc a, hub_register := hub_register h @ [a],
       hub_heap := (hub_heap h)(a \<mapsto> NewClient now userID deviceID (uuid_String i))\<rparr>));
     State_Monad.return a
   }"

section \<open>Messages from a client\<close>

record ClientMessage =
  cm_Type :: string
  cm_ConversationID :: uuid
  cm_MessageID :: uuid

fun decode_ClientMessage :: "json \<Rightarrow> ClientMessage option" where
  "decode_ClientMessage (JObj fs) =
     Option.bind (as_string (field fs ''type'')) (\<lambda>ty.
     Option.bind (as_uuid (field fs ''conversation_id'')) (\<lambda>c.
     Option.bind (as_uuid (field fs ''message_id'')) (\<lambda>m.
       Some \<lparr>cm_Type = ty, cm_ConversationID = c, cm_MessageID = m\<rparr>)))"
| "decode_ClientMessage JNull = Some \<lparr>cm_Type = [], cm_ConversationID = uuid_Nil, cm_MessageID = uuid_Nil\<rparr>"
| "decode_ClientMessage _ = None"

definition handleTypingStart :: "Client \<Rightarrow> ClientMessage \<Rightarrow> (hub_state, error + unit) state" where
  "handleTypingStart c msg = do {
     svc \<leftarrow> on_bus (hub_read hub_conversationService);
     (case svc of None \<Rightarrow> ok ()
      | Some s \<Rightarrow> on_store (convSvc_StartTyping s (cm_ConversationID msg) (cl_userID c) []))
   }"

definition handleTypingStop :: "Client \<Rightarrow> ClientMessage \<Rightarrow> (hub_state, error + unit) state" where
  "handleTypingStop c msg = do {
     svc \<leftarrow> on_bus (hub_read hub_conversationService);
     (case svc of None \<Rightarrow> ok ()
      | Some s \<Rightarrow> on_store (convSvc_StopTyping s (cm_ConversationID msg) (cl_userID c) []))
   }"

definition handleReadReceipt :: "Client \<Rightarrow> ClientMessage \<Rightarrow> (hub_state, error + unit) state" where
  "handleReadReceipt c msg = do {
     svc \<leftarrow> on_bus (hub_read hub_messageService);
     (case svc of None \<Rightarrow> ok ()
      | Some s \<Rightarrow> on_store (msgSvc_MarkAsRead s (cm_MessageID msg) (cl_userID c)))
   }"

definition pong :: string where
  "pong = json_text (JObj [(''type'', JStr ''pong'')])"

definition handlePing :: "nat \<Rightarrow> (hub_state, error + unit) state" where
  "handlePing a = on_bus (sendOrWait a pong)"

definition client_Allow :: "nat \<Rightarrow> Client \<Rightarrow> string \<Rightarrow> time \<Rightarrow> (Hub, bool) state" where
  "client_Allow a c ty now = (case Allow ty now (cl_rateLimiter c) of (b, rl) \<Rightarrow> do {
     set_client a (\<lambda>c. c\<lparr>cl_rateLimiter := rl\<rparr>);
     State_Monad.return b
   })"

text \<open>\<open>None\<close> stands for a message that is not JSON.\<close>

definition handleMessage :: "nat \<Rightarrow> json option \<Rightarrow> (hub_state, error + unit) state" where
  "handleMessage a message =
     (case Option.bind message decode_ClientMessage of
        None \<Rightarrow> fail (OtherError ''json'')
      | Some msg \<Rightarrow> andThen (on_bus (deref a)) (\<lambda>c. do {
          now \<leftarrow> on_store time_Now;
          allowed \<leftarrow> on_bus (client_Allow a c (cm_Type msg) now);
          (if \<not> allowed then ok ()
           else if cm_Type msg = ''typing:start'' then handleTypingStart c msg
           else if cm_Type msg = ''typing:stop'' then handleTypingStop c msg
           else if cm_Type msg = ''read'' then handleReadReceipt c msg
           else if cm_Type msg = ''ping'' then handlePing a
           else ok ())
        }))"

text \<open>One turn of the loop of \<^verbatim>\<open>readPump\<close>: the error is logged.\<close>

definition readPump_turn :: "nat \<Rightarrow> json option \<Rightarrow> (hub_state, error + unit) state" where
  "readPump_turn a message = do {
     now \<leftarrow> on_store time_Now;
     on_bus (set_client a (\<lambda>c. c\<lparr>cl_lastActivity := now\<rparr>));
     r \<leftarrow> handleMessage a message;
     (case r of Inl (Panic m) \<Rightarrow> fail (Panic m) | _ \<Rightarrow> ok ())
   }"

text \<open>The deferred function of \<^verbatim>\<open>readPump\<close>.\<close>

definition readPump_end :: "nat \<Rightarrow> (Hub, unit) state" where
  "readPump_end a = do {
     hub_modify (\<lambda>h. h\<lparr>hub_unregister := hub_unregister h @ [a]\<rparr>);
     set_client a (\<lambda>c. c\<lparr>cl_connClosed := True\<rparr>)
   }"

text \<open>
  One turn of \<^verbatim>\<open>writePump\<close> writes everything in the buffer as one frame, one text per line, and
  the frame is the value; it ends when the channel is closed and empty.
\<close>

definition writePump_turn :: "nat \<Rightarrow> (Hub, string option) state" where
  "writePump_turn a = do {
     h \<leftarrow> hub_read id;
     (case hub_heap h a of
        None \<Rightarrow> State_Monad.return None
      | Some c \<Rightarrow>
          if cl_send c = [] then do {
            (if cl_sendClosed c then set_client a (\<lambda>c. c\<lparr>cl_connClosed := True\<rparr>)
             else State_Monad.return ());
            State_Monad.return None
          }
          else do {
            set_client a (\<lambda>c. c\<lparr>cl_send := []\<rparr>);
            State_Monad.return (Some (join_text [CHR 0x0A] (cl_send c)))
          })
   }"

text \<open>
  The handler of pongs notes the activity of the client; a writer that fails closes the connection,
  and the text it has taken from the buffer, if it has taken one, is lost.
\<close>

definition noteActivity :: "nat \<Rightarrow> (hub_state, unit) state" where
  "noteActivity a = do {
     now \<leftarrow> on_store time_Now;
     on_bus (set_client a (\<lambda>c. c\<lparr>cl_lastActivity := now\<rparr>))
   }"

definition writePump_end :: "nat \<Rightarrow> (Hub, unit) state" where
  "writePump_end a = set_client a (\<lambda>c. c\<lparr>cl_connClosed := True\<rparr>)"

definition writePump_fail :: "bool \<Rightarrow> nat \<Rightarrow> (Hub, unit) state" where
  "writePump_fail taken a = do {
     (if taken then set_client a (\<lambda>c. c\<lparr>cl_send := tl (cl_send c)\<rparr>) else State_Monad.return ());
     writePump_end a
   }"

section \<open>The invariant of the hub\<close>

text \<open>
  \<open>registered h u i a\<close>: the registry has the client at \<open>a\<close> under the user \<open>u\<close> and the identifier
  \<open>i\<close>.
\<close>

definition registered :: "Hub \<Rightarrow> uuid \<Rightarrow> string \<Rightarrow> nat \<Rightarrow> bool" where
  "registered h u i a \<longleftrightarrow> (\<exists>m. (u, m) \<in> set (hub_clients h) \<and> (i, a) \<in> set m)"

definition open_client :: "Hub \<Rightarrow> nat \<Rightarrow> Client \<Rightarrow> bool" where
  "open_client h a c \<longleftrightarrow> hub_heap h a = Some c \<and> \<not> cl_sendClosed c"

definition registry_ok :: "Hub \<Rightarrow> bool" where
  "registry_ok h \<longleftrightarrow> distinct (map fst (hub_clients h)) \<and>
     (\<forall>(u, m)\<in>set (hub_clients h). m \<noteq> [] \<and> distinct (map fst m) \<and> length m \<le> 10)"

definition heap_ok :: "Hub \<Rightarrow> bool" where
  "heap_ok h \<longleftrightarrow>
     (\<forall>a c. hub_heap h a = Some c \<longrightarrow> a < hub_fresh h) \<and>
     (\<forall>a b c d. hub_heap h a = Some c \<longrightarrow> hub_heap h b = Some d \<longrightarrow> cl_clientID c = cl_clientID d \<longrightarrow> a = b) \<and>
     (\<forall>u i a. registered h u i a \<longrightarrow> (\<exists>c. open_client h a c \<and> cl_userID c = u \<and> cl_clientID c = i))"

text \<open>A client waiting to be registered is open and not in the registry, and waits only once.\<close>

definition waiting_ok :: "Hub \<Rightarrow> nat list \<Rightarrow> bool" where
  "waiting_ok h q \<longleftrightarrow> distinct q \<and>
     (\<forall>a\<in>set q. (\<exists>c. open_client h a c) \<and> (\<forall>u i. \<not> registered h u i a))"

definition hub_ok :: "Hub \<Rightarrow> bool" where
  "hub_ok h \<longleftrightarrow> registry_ok h \<and> heap_ok h \<and> waiting_ok h (hub_register h) \<and>
     (\<forall>a\<in>set (hub_unregister h). hub_heap h a \<noteq> None)"

lemmas hub_ok_defs = hub_ok_def registry_ok_def heap_ok_def waiting_ok_def open_client_def registered_def

subsection \<open>Go maps\<close>

lemma set_map_put: "set (map_put k v m) = insert (k, v) {p \<in> set m. fst p \<noteq> k}"
  by (auto simp: map_put_def)

lemma set_map_delete: "set (map_delete k m) = {p \<in> set m. fst p \<noteq> k}"
  by (auto simp: map_delete_def)

lemma map_of_map_delete [simp]: "map_of (map_delete k m) = (map_of m)(k := None)"
  by (induction m) (auto simp: map_delete_def fun_eq_iff)

lemma distinct_map_delete: "distinct (map fst m) \<Longrightarrow> distinct (map fst (map_delete k m))"
  by (auto simp: map_delete_def distinct_map_filter)

lemma length_map_delete: "length (map_delete k m) \<le> length m"
  by (simp add: map_delete_def)

lemma length_map_delete_present:
  "distinct (map fst m) \<Longrightarrow> (k, v) \<in> set m \<Longrightarrow> Suc (length (map_delete k m)) = length m"
proof (induction m)
  case (Cons p m)
  show ?case
  proof (cases "fst p = k")
    case True
    with Cons.prems have "map_delete k m = m"
      unfolding map_delete_def by (intro filter_True) (auto simp: image_iff)
    with True show ?thesis by (cases p) (simp add: map_delete_def)
  next
    case False
    with Cons show ?thesis by (cases p) (auto simp: map_delete_def)
  qed
qed simp

lemma length_map_put: "length (map_put k v m) \<le> Suc (length m)"
  by (simp add: map_put_def)

subsection \<open>Running the pieces\<close>

lemma run_hub_read [simp]: "run_state (hub_read f) h = (f h, h)"
  by (simp add: hub_read_def)

lemma run_hub_modify [simp]: "run_state (hub_modify f) h = ((), f h)"
  by (simp add: hub_modify_def)

lemma run_deref [simp]:
  "run_state (deref a) h = (case hub_heap h a of None \<Rightarrow> Inl nil_pointer | Some c \<Rightarrow> Inr c, h)"
  by (simp add: deref_def)

lemma run_set_client [simp]:
  "run_state (set_client a f) h =
     ((), h\<lparr>hub_heap := (hub_heap h)(a := map_option f (hub_heap h a))\<rparr>)"
  by (simp add: set_client_def)

lemma run_hub_AllowConnection:
  "run_state (hub_AllowConnection u now) h = (case AllowConnection u now (hub_rateLimiter h) of
     (b, rl) \<Rightarrow> (b, h\<lparr>hub_rateLimiter := rl\<rparr>))"
  by (simp add: hub_AllowConnection_def split: prod.split)

lemma registered_update [simp]:
  "registered (h\<lparr>hub_heap := x\<rparr>) = registered h"
  "registered (h\<lparr>hub_rateLimiter := rl\<rparr>) = registered h"
  "registered (h\<lparr>hub_register := q\<rparr>) = registered h"
  "registered (h\<lparr>hub_unregister := q\<rparr>) = registered h"
  "registered (h\<lparr>hub_broadcast := bs\<rparr>) = registered h"
  "registered (h\<lparr>hub_stopped := b\<rparr>) = registered h"
  "registered (h\<lparr>hub_fresh := n\<rparr>) = registered h"
  by (auto simp: registered_def fun_eq_iff)

lemma hub_ok_frame [simp]:
  "hub_ok (h\<lparr>hub_rateLimiter := rl\<rparr>) = hub_ok h"
  "hub_ok (h\<lparr>hub_broadcast := bs\<rparr>) = hub_ok h"
  "hub_ok (h\<lparr>hub_stopped := b\<rparr>) = hub_ok h"
  by (simp_all add: hub_ok_defs)

text \<open>Changing anything but the identity of a client and its channel's end.\<close>

definition same_client :: "(Client \<Rightarrow> Client) \<Rightarrow> bool" where
  "same_client f \<longleftrightarrow> (\<forall>c. cl_userID (f c) = cl_userID c \<and> cl_clientID (f c) = cl_clientID c \<and>
     cl_sendClosed (f c) = cl_sendClosed c)"

lemma hub_ok_map_heap:
  assumes "hub_ok h" "\<And>a. same_client (f a)"
  shows "hub_ok (h\<lparr>hub_heap := (\<lambda>a. map_option (f a) (hub_heap h a))\<rparr>)"
proof -
  let ?h = "h\<lparr>hub_heap := (\<lambda>a. map_option (f a) (hub_heap h a))\<rparr>"
  have same [simp]: "cl_userID (f a c) = cl_userID c" "cl_clientID (f a c) = cl_clientID c"
    "cl_sendClosed (f a c) = cl_sendClosed c" for a c
    using assms(2) by (simp_all add: same_client_def)
  have op: "open_client h a c \<Longrightarrow> open_client ?h a (f a c)" for a c
    by (simp add: open_client_def)
  from assms(1) have reg: "registry_ok ?h" by (simp add: hub_ok_def registry_ok_def)
  from assms(1) have "heap_ok h" by (simp add: hub_ok_def)
  then have "heap_ok ?h"
    unfolding heap_ok_def by (intro conjI) (fastforce, fastforce, (metis op registered_update(1) same(1,2)))
  moreover from assms(1) have "waiting_ok ?h (hub_register h)"
    unfolding hub_ok_def waiting_ok_def by (metis op registered_update(1))
  ultimately show ?thesis using assms(1) reg by (simp add: hub_ok_def)
qed

lemma hub_ok_set_client:
  assumes "hub_ok h" "same_client f"
  shows "hub_ok (h\<lparr>hub_heap := (hub_heap h)(a := map_option f (hub_heap h a))\<rparr>)"
proof -
  have "(hub_heap h)(a := map_option f (hub_heap h a)) =
      (\<lambda>b. map_option (if b = a then f else id) (hub_heap h b))"
    by (auto simp: fun_eq_iff option.map_id)
  with hub_ok_map_heap [OF assms(1), of "\<lambda>b. if b = a then f else id"] assms(2)
  show ?thesis by (simp add: same_client_def)
qed

subsection \<open>Changing the registry\<close>

lemma registered_put [simp]:
  "registered (h\<lparr>hub_clients := map_put u m (hub_clients h)\<rparr>) v i a \<longleftrightarrow>
     (if v = u then (i, a) \<in> set m else registered h v i a)"
  by (auto simp: registered_def set_map_put)

lemma registered_delete [simp]:
  "registered (h\<lparr>hub_clients := map_delete u (hub_clients h)\<rparr>) v i a \<longleftrightarrow> v \<noteq> u \<and> registered h v i a"
  by (auto simp: registered_def set_map_delete)

lemma clients_of_put [simp]: "clients_of u (h\<lparr>hub_clients := map_put u m cs\<rparr>) = m"
  by (simp add: clients_of_def)

lemma clients_of_registered:
  "registry_ok h \<Longrightarrow> (i, a) \<in> set (clients_of u h) \<longleftrightarrow> registered h u i a"
  by (auto simp: clients_of_def registered_def registry_ok_def split: option.splits dest: map_of_SomeD)

lemma clients_of_ok:
  "registry_ok h \<Longrightarrow> distinct (map fst (clients_of u h)) \<and> length (clients_of u h) \<le> 10"
  by (force simp: clients_of_def registry_ok_def split: option.splits dest: map_of_SomeD)

lemma registry_ok_put:
  assumes "registry_ok h" "m \<noteq> []" "distinct (map fst m)" "length m \<le> 10"
  shows "registry_ok (h\<lparr>hub_clients := map_put u m (hub_clients h)\<rparr>)"
  using assms by (auto simp: registry_ok_def set_map_put distinct_map_put)

lemma registry_ok_delete:
  "registry_ok h \<Longrightarrow> registry_ok (h\<lparr>hub_clients := map_delete u (hub_clients h)\<rparr>)"
  by (auto simp: registry_ok_def set_map_delete distinct_map_delete)

text \<open>The address determines the place in the registry.\<close>

lemma registered_unique:
  "heap_ok h \<Longrightarrow> registered h u i a \<Longrightarrow> registered h v j a \<Longrightarrow> u = v \<and> i = j"
  unfolding heap_ok_def open_client_def by (metis option.inject)

lemma registered_open:
  "heap_ok h \<Longrightarrow> registered h u i a \<Longrightarrow> \<exists>c. open_client h a c \<and> cl_userID c = u \<and> cl_clientID c = i"
  by (simp add: heap_ok_def)

definition close_client :: "Client \<Rightarrow> Client" where
  "close_client c = c\<lparr>cl_sendClosed := True, cl_connClosed := True\<rparr>"

text \<open>Taking one client out of the registry and closing it, however the registry is updated.\<close>

lemma heap_ok_remove:
  assumes "heap_ok h" "waiting_ok h q" "registered h u i a"
    and fewer: "\<And>v j b. registered h' v j b \<Longrightarrow> registered h v j b \<and> b \<noteq> a"
    and heap: "hub_heap h' = (hub_heap h)(a := map_option close_client (hub_heap h a))"
    and fresh: "hub_fresh h' = hub_fresh h"
  shows "heap_ok h' \<and> waiting_ok h' q"
proof
  have other: "open_client h b c \<Longrightarrow> b \<noteq> a \<Longrightarrow> open_client h' b c" for b c
    by (simp add: open_client_def heap)
  have ids: "\<exists>c0. hub_heap h b = Some c0 \<and> cl_clientID c0 = cl_clientID c" if "hub_heap h' b = Some c" for b c
    using that by (auto simp: heap close_client_def split: if_splits)
  show "heap_ok h'"
    unfolding heap_ok_def
  proof (intro conjI allI impI)
    fix b c assume "hub_heap h' b = Some c"
    with ids assms(1) show "b < hub_fresh h'" unfolding heap_ok_def fresh by metis
  next
    fix b c d e assume "hub_heap h' b = Some d" "hub_heap h' c = Some e" "cl_clientID d = cl_clientID e"
    with ids assms(1) show "b = c" unfolding heap_ok_def by metis
  next
    fix v j b assume "registered h' v j b"
    with fewer assms(1) other show "\<exists>c. open_client h' b c \<and> cl_userID c = v \<and> cl_clientID c = j"
      unfolding heap_ok_def by metis
  qed
  show "waiting_ok h' q"
    using assms(2,3) fewer other unfolding waiting_ok_def by metis
qed

lemma run_removeClient:
  "open_client h a c \<Longrightarrow> run_state (removeClient a) h =
     (Inr (), h\<lparr>hub_heap := (hub_heap h)(a := map_option close_client (hub_heap h a))\<rparr>)"
  by (simp add: removeClient_def open_client_def close_client_def)

lemma hub_ok_evictOne:
  assumes ok: "hub_ok h" and wait: "waiting_ok h q"
  obtains h' where "run_state (evictOne u) h = (Inr (), h')" "hub_ok h'" "waiting_ok h' q"
    "length (clients_of u h') < 10"
    "hub_register h' = hub_register h" "hub_unregister h' = hub_unregister h"
    "\<And>a c. a \<in> set q \<Longrightarrow> hub_heap h a = Some c \<Longrightarrow> hub_heap h' a = Some c"
proof (cases "length (clients_of u h) \<ge> 10")
  case False
  then have "run_state (evictOne u) h = (Inr (), h)" by (simp add: evictOne_def)
  with that ok wait False show ?thesis by simp
next
  case True
  let ?mine = "clients_of u h"
  obtain i a where ia: "?mine ! (hub_pick h ?mine mod length ?mine) = (i, a)" by fastforce
  from ok have rok: "registry_ok h" and hok: "heap_ok h" and wok: "waiting_ok h (hub_register h)"
    by (simp_all add: hub_ok_def)
  have "(i, a) \<in> set ?mine" using True unfolding ia [symmetric]
    by (intro nth_mem mod_less_divisor) auto
  then have reg: "registered h u i a" using clients_of_registered [OF rok] by simp
  then obtain c where c: "open_client h a c" using registered_open [OF hok] by blast
  define h' where "h' = h\<lparr>hub_heap := (hub_heap h)(a := map_option close_client (hub_heap h a)),
    hub_clients := map_put u (map_delete i ?mine) (hub_clients h)\<rparr>"
  from True ia run_removeClient [OF c] have run: "run_state (evictOne u) h = (Inr (), h')"
    by (simp add: evictOne_def h'_def)
  from length_map_delete_present [OF _ \<open>(i, a) \<in> set ?mine\<close>] clients_of_ok [OF rok, of u] True
  have len: "length (map_delete i ?mine) = 9" by simp
  have fewer: "registered h v j b \<and> b \<noteq> a" if "registered h' v j b" for v j b
  proof -
    have "registered h' = registered (h\<lparr>hub_clients := map_put u (map_delete i ?mine) (hub_clients h)\<rparr>)"
      by (simp add: h'_def registered_def fun_eq_iff)
    with that have "if v = u then (j, b) \<in> set ?mine \<and> j \<noteq> i else registered h v j b"
      by (simp add: set_map_delete split: if_splits)
    with clients_of_registered [OF rok] have "registered h v j b" "\<not> (v = u \<and> j = i)"
      by (auto split: if_splits)
    with registered_unique [OF hok reg] show ?thesis by blast
  qed
  have heap: "hub_heap h' = (hub_heap h)(a := map_option close_client (hub_heap h a))"
    and fresh: "hub_fresh h' = hub_fresh h" and queues: "hub_register h' = hub_register h"
    "hub_unregister h' = hub_unregister h"
    by (simp_all add: h'_def)
  note rem = heap_ok_remove [OF hok _ reg fewer heap fresh]
  have "registry_ok h'"
    unfolding h'_def using rok clients_of_ok [OF rok, of u] len
    by (auto simp: registry_ok_def set_map_put intro!: distinct_map_put distinct_map_delete)
  moreover from ok have "\<forall>b\<in>set (hub_unregister h'). hub_heap h' b \<noteq> None"
    by (auto simp: hub_ok_def queues heap)
  ultimately have "hub_ok h'"
    using rem [OF wok] by (simp add: hub_ok_def queues)
  moreover have "length (clients_of u h') < 10" by (simp add: h'_def len)
  moreover have "hub_heap h' b = Some d" if "b \<in> set q" "hub_heap h b = Some d" for b d
    using that reg wait by (auto simp: heap waiting_ok_def)
  ultimately show ?thesis using that [OF run] rem [OF wait] queues by blast
qed

lemma hub_ok_putClient:
  assumes ok: "hub_ok h" and c: "open_client h a c" and new: "\<And>u i. \<not> registered h u i a"
    and room: "length (clients_of (cl_userID c) h) < 10" and a: "a \<notin> set (hub_register h)"
  shows "hub_ok (snd (run_state (putClient a c) h))"
proof -
  let ?m = "map_put (cl_clientID c) a (clients_of (cl_userID c) h)"
  let ?h = "h\<lparr>hub_clients := map_put (cl_userID c) ?m (hub_clients h)\<rparr>"
  from ok have rok: "registry_ok h" and hok: "heap_ok h" and wok: "waiting_ok h (hub_register h)"
    by (simp_all add: hub_ok_def)
  have op: "open_client ?h = open_client h" by (simp add: open_client_def fun_eq_iff)
  have reg: "registered ?h v j b \<Longrightarrow> registered h v j b \<or> (v = cl_userID c \<and> j = cl_clientID c \<and> b = a)" for v j b
    using clients_of_registered [OF rok] by (auto simp: set_map_put split: if_splits)
  have "registry_ok ?h"
  proof (intro registry_ok_put)
    show "?m \<noteq> []" by (simp add: map_put_def)
    show "distinct (map fst ?m)" using clients_of_ok [OF rok] by (simp add: distinct_map_put)
    show "length ?m \<le> 10"
      using room length_map_put [of "cl_clientID c" a "clients_of (cl_userID c) h"] by simp
  qed (fact rok)
  moreover have "heap_ok ?h"
    unfolding heap_ok_def op
  proof (intro conjI allI impI)
    fix v j b assume "registered ?h v j b"
    with reg registered_open [OF hok] c show "\<exists>d. open_client h b d \<and> cl_userID d = v \<and> cl_clientID d = j"
      by blast
  qed (use hok in \<open>auto simp: heap_ok_def\<close>)
  moreover have "waiting_ok ?h (hub_register h)"
    using wok a reg unfolding waiting_ok_def op by metis
  ultimately show ?thesis using ok by (simp add: hub_ok_def putClient_def)
qed

section \<open>The handlers keep the invariant and never panic\<close>

lemma keeps_hub_on_store [keeps_intros]: "keeps (\<lambda>(w, h). P h) (on_store m)"
  by (auto simp: keeps_def on_store_def split: prod.splits)

lemma keeps_hub_on_bus [keeps_intros]: "keeps P m \<Longrightarrow> keeps (\<lambda>(w, h). P h) (on_bus m)"
  by (auto simp: keeps_def on_bus_def split: prod.splits)

lemma keeps_hub_read [keeps_intros]: "keeps P (hub_read f)"
  by (simp add: keeps_def)

lemma keeps_hub_loadConversations [keeps_intros]: "keeps (\<lambda>(w, h). P h) (loadConversations u)"
  unfolding loadConversations_def by (auto intro!: keeps_intros split: option.split)

lemma keeps_hub_setOnline [keeps_intros]: "keeps (\<lambda>(w, h). P h) (setOnline u b)"
  unfolding setOnline_def by (auto intro!: keeps_intros split: option.split)

lemma keeps_hubD:
  "keeps (\<lambda>(w, h). P h) m \<Longrightarrow> P h \<Longrightarrow> run_state m (w, h) = (x, (w', h')) \<Longrightarrow> P h'"
  using keepsD [of "\<lambda>(w, h). P h" m "(w, h)" x "(w', h')"] by simp

lemma same_client_updates [simp]:
  "same_client (\<lambda>c. c\<lparr>cl_connClosed := b\<rparr>)" "same_client (\<lambda>c. c\<lparr>cl_send := s\<rparr>)"
  "same_client (\<lambda>c. c\<lparr>cl_send := f c\<rparr>)" "same_client (\<lambda>c. c\<lparr>cl_rateLimiter := rl\<rparr>)"
  "same_client (\<lambda>c. c\<lparr>cl_lastActivity := t\<rparr>)" "same_client (\<lambda>c. c\<lparr>cl_conversations := g c\<rparr>)"
  by (simp_all add: same_client_def)

lemma keeps_hub_ok_set_client [keeps_intros]: "same_client f \<Longrightarrow> keeps hub_ok (set_client a f)"
  by (simp add: keeps_def hub_ok_set_client)

lemma keeps_hub_ok_AllowConnection [keeps_intros]: "keeps hub_ok (hub_AllowConnection u now)"
  by (auto simp: keeps_def run_hub_AllowConnection split: prod.split)

text \<open>
  After a client has been put into the registry, what remains of \<^verbatim>\<open>handleRegister\<close> only reads the
  database and changes the client's conversations.
\<close>

lemma hub_ok_handleRegister:
  assumes ok: "hub_ok h" and q: "hub_register h = a # q"
    and run: "run_state (handleRegister a) (w, h\<lparr>hub_register := q\<rparr>) = (r, (w', h'))"
  shows "r = Inr () \<and> hub_ok h'"
proof -
  let ?h = "h\<lparr>hub_register := q\<rparr>"
  from ok q have ok0: "hub_ok ?h" and wait: "waiting_ok ?h [a]" and aq: "a \<notin> set q"
    by (auto simp: hub_ok_def registry_ok_def heap_ok_def waiting_ok_def open_client_def)
  from ok q obtain c where c: "open_client h a c" by (auto simp: hub_ok_def waiting_ok_def)
  obtain b rl where al: "AllowConnection (cl_userID c) (w_now w (w_step w)) (hub_rateLimiter h) = (b, rl)"
    by fastforce
  let ?h1 = "?h\<lparr>hub_rateLimiter := rl\<rparr>" and ?w1 = "w\<lparr>w_step := Suc (w_step w)\<rparr>"
  from ok0 have ok1: "hub_ok ?h1" by simp
  show ?thesis
  proof (cases b)
    case False
    with run al c have "r = Inr ()"
      "h' = ?h1\<lparr>hub_heap := (hub_heap ?h1)(a := map_option (\<lambda>c. c\<lparr>cl_connClosed := True\<rparr>) (hub_heap ?h1 a))\<rparr>"
      by (auto simp: handleRegister_def open_client_def run_hub_AllowConnection)
    with hub_ok_set_client [OF ok1, of "\<lambda>c. c\<lparr>cl_connClosed := True\<rparr>" a] show ?thesis by simp
  next
    case True
    have wait1: "waiting_ok ?h1 [a]" using wait by (simp add: waiting_ok_def open_client_def)
    obtain h2 where h2: "run_state (evictOne (cl_userID c)) ?h1 = (Inr (), h2)" "hub_ok h2" "waiting_ok h2 [a]"
      "length (clients_of (cl_userID c) h2) < 10" "hub_register h2 = q" "hub_heap h2 a = Some c"
      using hub_ok_evictOne [OF ok1 wait1, of "cl_userID c" thesis] c by (auto simp: open_client_def)
    let ?h3 = "snd (run_state (putClient a c) h2)"
    have c2: "open_client h2 a c" using c h2(6) by (simp add: open_client_def)
    from hub_ok_putClient [OF h2(2) c2 _ h2(4)] h2(3,5) aq have ok3: "hub_ok ?h3"
      by (auto simp: waiting_ok_def)
    define rest where "rest = (do {
        convs \<leftarrow> loadConversations (cl_userID c);
        on_bus (set_client a (\<lambda>c. c\<lparr>cl_conversations := cl_conversations c @ convs\<rparr>));
        setOnline (cl_userID c) True;
        ok () :: (hub_state, error + unit) state
      })"
    have "keeps (\<lambda>(w, h). hub_ok h) rest"
      unfolding rest_def by (intro keeps_intros) simp
    moreover have "run_state rest (?w1, ?h3) = (r, (w', h'))"
      using run al c True h2(1)
      by (simp add: handleRegister_def rest_def open_client_def run_hub_AllowConnection)
    ultimately have "hub_ok h'" using keeps_hubD [of hub_ok rest] ok3 by blast
    moreover from \<open>run_state rest (?w1, ?h3) = (r, (w', h'))\<close> have "r = Inr ()"
      by (auto simp: rest_def split: prod.splits)
    ultimately show ?thesis by simp
  qed
qed

text \<open>The hub after the client has been taken out of the registry and closed\<close>

definition without_client :: "nat \<Rightarrow> Client \<Rightarrow> Hub \<Rightarrow> Hub" where
  "without_client a c h = (let rest = map_delete (cl_clientID c) (clients_of (cl_userID c) h);
       h1 = h\<lparr>hub_clients := map_put (cl_userID c) rest (hub_clients h),
         hub_heap := (hub_heap h)(a := map_option close_client (hub_heap h a))\<rparr>
     in if rest = [] then h1\<lparr>hub_clients := map_delete (cl_userID c) (hub_clients h1)\<rparr> else h1)"

lemma hub_ok_without_client:
  assumes ok: "hub_ok h" and reg: "registered h (cl_userID c) (cl_clientID c) a"
  shows "hub_ok (without_client a c h)"
proof -
  let ?h2 = "without_client a c h" and ?u = "cl_userID c" and ?i = "cl_clientID c"
  from ok have rok: "registry_ok h" and hok: "heap_ok h" and wok: "waiting_ok h (hub_register h)"
    by (simp_all add: hub_ok_def)
  have fewer: "registered h v j d \<and> d \<noteq> a" if "registered ?h2 v j d" for v j d
  proof -
    from that have "if v = ?u then (j, d) \<in> set (clients_of ?u h) \<and> j \<noteq> ?i else registered h v j d"
      by (auto simp: without_client_def Let_def registered_def set_map_put set_map_delete split: if_splits)
    with clients_of_registered [OF rok, of j d ?u] have "registered h v j d" "\<not> (v = ?u \<and> j = ?i)"
      by (auto split: if_splits)
    with registered_unique [OF hok reg] show ?thesis by blast
  qed
  have "heap_ok ?h2 \<and> waiting_ok ?h2 (hub_register h)"
    using heap_ok_remove [OF hok wok reg fewer] by (simp add: without_client_def Let_def)
  moreover have "registry_ok ?h2"
    using rok clients_of_ok [OF rok, of ?u] length_map_delete [of ?i "clients_of ?u h"]
    by (auto simp: without_client_def Let_def registry_ok_def set_map_put set_map_delete
        intro!: distinct_map_put distinct_map_delete)
  moreover have "hub_register ?h2 = hub_register h" "hub_unregister ?h2 = hub_unregister h"
    "\<And>d. hub_heap ?h2 d = None \<longleftrightarrow> hub_heap h d = None"
    by (simp_all add: without_client_def Let_def)
  ultimately show ?thesis using ok by (simp add: hub_ok_def)
qed

lemma hub_ok_handleUnregister:
  assumes ok: "hub_ok h" and a: "hub_heap h a \<noteq> None"
    and run: "run_state (handleUnregister a) (w, h) = (r, (w', h'))"
  shows "r = Inr () \<and> hub_ok h'"
proof -
  from ok have rok: "registry_ok h" and hok: "heap_ok h" and wok: "waiting_ok h (hub_register h)"
    by (simp_all add: hub_ok_def)
  from a obtain c where c: "hub_heap h a = Some c" by auto
  let ?u = "cl_userID c" and ?i = "cl_clientID c"
  consider (none) "map_of (hub_clients h) ?u = None"
    | (other) m where "map_of (hub_clients h) ?u = Some m" "map_of m ?i = None"
    | (mine) m b where "map_of (hub_clients h) ?u = Some m" "map_of m ?i = Some b"
    by (cases "map_of (hub_clients h) ?u"; cases "map_of (the (map_of (hub_clients h) ?u)) ?i") auto
  then show ?thesis
  proof cases
    case none
    with run c ok show ?thesis by (auto simp: handleUnregister_def)
  next
    case other
    with run c ok show ?thesis by (auto simp: handleUnregister_def)
  next
    case mine
    then have m: "clients_of ?u h = m" by (simp add: clients_of_def)
    from mine have "registered h ?u ?i b"
      using clients_of_registered [OF rok] m map_of_SomeD by metis
    with registered_open [OF hok] c hok have "b = a" unfolding heap_ok_def open_client_def by metis
    with \<open>registered h ?u ?i b\<close> have reg: "registered h ?u ?i a" by simp
    then have open': "open_client h a c" using registered_open [OF hok reg] c by (auto simp: open_client_def)
    let ?rest = "map_delete ?i m"
    have "open_client (h\<lparr>hub_clients := map_put ?u ?rest (hub_clients h)\<rparr>) a c"
      using open' by (simp add: open_client_def)
    note rem = run_removeClient [OF this]
    have "\<exists>w2. run_state (setOnline ?u False) (w, without_client a c h) = ((), (w2, without_client a c h))"
      using keeps_hubD [OF keeps_hub_setOnline [of "\<lambda>x. x = without_client a c h"], of "without_client a c h" ?u False w "()"]
      by (metis (full_types) prod.exhaust unit.exhaust)
    with run c mine rem have "r = Inr ()" "h' = without_client a c h"
      by (auto simp: handleUnregister_def without_client_def m Let_def split: if_splits prod.splits)
    with hub_ok_without_client [OF ok reg] show ?thesis by simp
  qed
qed

section \<open>Broadcasting\<close>

text \<open>What a text sent with \<open>trySend\<close> does to a client.\<close>

definition deliver :: "string \<Rightarrow> Client \<Rightarrow> Client" where
  "deliver data c = (if length (cl_send c) < 256 then c\<lparr>cl_send := cl_send c @ [data]\<rparr> else c)"

lemma same_client_deliver [simp]: "same_client (deliver data)"
  by (simp add: same_client_def deliver_def)

lemma run_trySend:
  "open_client h a c \<Longrightarrow> run_state (trySend a data) h =
     (Inr (), h\<lparr>hub_heap := (hub_heap h)(a := map_option (deliver data) (hub_heap h a))\<rparr>)"
  by (auto simp: trySend_def open_client_def deliver_def fun_upd_idem)

lemma set_all_addresses: "a \<in> set (all_addresses h) \<longleftrightarrow> (\<exists>u i. registered h u i a)"
  by (force simp: all_addresses_def registered_def)

lemma distinct_all_addresses:
  assumes "registry_ok h" "heap_ok h"
  shows "distinct (all_addresses h)"
proof -
  have "distinct (concat (map (\<lambda>(_, m). map snd m) cs))"
    if "distinct (map fst cs)" "set cs \<subseteq> set (hub_clients h)" for cs
    using that
  proof (induction cs)
    case (Cons p cs)
    obtain u m where p: "p = (u, m)" by fastforce
    with Cons.prems assms(1) have um: "(u, m) \<in> set (hub_clients h)" "distinct (map fst m)"
      by (auto simp: registry_ok_def)
    have "inj_on snd (set m)"
    proof (rule inj_onI)
      fix x y assume "x \<in> set m" "y \<in> set m" "snd x = snd y"
      with um(1) have "registered h u (fst x) (snd x)" "registered h u (fst y) (snd x)"
        by (auto simp: registered_def) (metis prod.collapse)+
      with registered_unique [OF assms(2)] \<open>snd x = snd y\<close> show "x = y" by (metis prod.expand)
    qed
    with um(2) have "distinct (map snd m)" by (simp add: distinct_map)
    moreover have "b \<notin> set (map snd m)" if vn: "(v, n) \<in> set cs" and b: "b \<in> set (map snd n)" for v n b
    proof
      assume "b \<in> set (map snd m)"
      with um(1) have "\<exists>i. registered h u i b" by (force simp: registered_def)
      moreover from vn b Cons.prems(2) have "\<exists>j. registered h v j b" by (force simp: registered_def)
      ultimately have "u = v" using registered_unique [OF assms(2)] by blast
      with Cons.prems(1) vn p show False by (force simp: image_iff)
    qed
    then have "set (map snd m) \<inter> set (concat (map (\<lambda>(_, m). map snd m) cs)) = {}"
      by (auto simp: split_def) (metis image_eqI prod.collapse snd_conv)
    moreover have "distinct (concat (map (\<lambda>(_, m). map snd m) cs))"
      using Cons by simp
    ultimately show ?case by (simp add: p)
  qed simp
  with assms(1) show ?thesis by (simp add: all_addresses_def registry_ok_def)
qed

text \<open>Sending to some of a list of different open clients.\<close>

lemma run_forEach_trySend:
  assumes "distinct as" "\<forall>a\<in>set as. \<exists>c. open_client h a c"
    and step: "\<And>a c h. open_client h a c \<Longrightarrow> run_state (f a) h =
      (if P a c then run_state (trySend a data) h else (Inr (), h))"
  shows "run_state (forEach as f) h = (Inr (), h\<lparr>hub_heap := (\<lambda>a. map_option
    (\<lambda>c. if a \<in> set as \<and> P a c then deliver data c else c) (hub_heap h a))\<rparr>)"
  using assms(1,2)
proof (induction as arbitrary: h)
  case Nil
  then show ?case by (simp add: option.map_ident)
next
  case (Cons a as)
  then obtain c where c: "open_client h a c" by auto
  let ?h = "h\<lparr>hub_heap := (hub_heap h)(a := map_option
    (\<lambda>c. if P a c then deliver data c else c) (hub_heap h a))\<rparr>"
  from c have "run_state (f a) h = (Inr (), ?h)"
    by (auto simp: step [OF c] run_trySend [OF c] open_client_def fun_upd_idem)
  moreover have "\<forall>b\<in>set as. \<exists>c. open_client ?h b c"
    using Cons.prems by (auto simp: open_client_def)
  note Cons.IH [OF _ this]
  ultimately show ?case
    using Cons.prems(1) by (auto simp: fun_eq_iff option.map_comp comp_def intro!: option.map_cong)
qed

lemma run_broadcastToConversation:
  assumes "hub_ok h"
  shows "run_state (broadcastToConversation conv data) h = (Inr (), h\<lparr>hub_heap := (\<lambda>a. map_option
    (\<lambda>c. if a \<in> set (all_addresses h) \<and> conv \<in> set (cl_conversations c) then deliver data c else c)
    (hub_heap h a))\<rparr>)"
proof -
  from assms have "registry_ok h" "heap_ok h" by (simp_all add: hub_ok_def)
  then have "distinct (all_addresses h)" "\<forall>a\<in>set (all_addresses h). \<exists>c. open_client h a c"
    using distinct_all_addresses registered_open by (auto simp: set_all_addresses) blast
  from run_forEach_trySend [OF this, where P = "\<lambda>a c. conv \<in> set (cl_conversations c)"] show ?thesis
    by (simp add: broadcastToConversation_def open_client_def)
qed

lemma run_broadcastToUser:
  assumes "hub_ok h"
  shows "run_state (broadcastToUser u data) h = (Inr (), h\<lparr>hub_heap := (\<lambda>a. map_option
    (\<lambda>c. if \<exists>i. registered h u i a then deliver data c else c) (hub_heap h a))\<rparr>)"
proof -
  from assms have ok: "registry_ok h" "heap_ok h" by (simp_all add: hub_ok_def)
  let ?as = "map snd (clients_of u h)"
  have as: "a \<in> set ?as \<longleftrightarrow> (\<exists>i. registered h u i a)" for a
    using clients_of_registered [OF ok(1)] by force
  have "inj_on snd (set (clients_of u h))"
  proof (rule inj_onI)
    fix x y assume "x \<in> set (clients_of u h)" "y \<in> set (clients_of u h)" "snd x = snd y"
    with clients_of_registered [OF ok(1), of _ _ u] registered_unique [OF ok(2)] show "x = y"
      by (metis prod.collapse)
  qed
  with clients_of_ok [OF ok(1), of u] have "distinct ?as" by (simp add: distinct_map)
  moreover have "\<forall>a\<in>set ?as. \<exists>c. open_client h a c"
    using registered_open [OF ok(2)] as by blast
  ultimately show ?thesis
    using run_forEach_trySend [of ?as h "\<lambda>a. trySend a data" "\<lambda>a c. True" data] as
    by (simp add: broadcastToUser_def)
qed

lemma hub_ok_broadcastToUser:
  assumes "hub_ok h"
  shows "fst (run_state (broadcastToUser u data) h) = Inr () \<and> hub_ok (snd (run_state (broadcastToUser u data) h))"
  using hub_ok_map_heap [OF assms, of "\<lambda>a c. if \<exists>i. registered h u i a then deliver data c else c"]
  by (simp add: run_broadcastToUser [OF assms] same_client_def deliver_def)

lemma hub_ok_handleBroadcast:
  assumes "hub_ok h" "run_state (handleBroadcast msg) h = (r, h')"
  shows "r = Inr () \<and> hub_ok h'"
proof (cases "bm_ConversationID msg")
  case (Some conv)
  with assms(2) hub_ok_map_heap [OF assms(1), of "\<lambda>a c. if a \<in> set (all_addresses h) \<and>
      conv \<in> set (cl_conversations c) then deliver (json_text (event_json (bm_Event msg))) c else c"]
  show ?thesis
    by (auto simp: handleBroadcast_def run_broadcastToConversation [OF assms(1)] same_client_def deliver_def
        simp del: json_text.simps)
next
  case None
  have "fst (run_state (forEach us (\<lambda>u. broadcastToUser u data)) h) = Inr () \<and>
      hub_ok (snd (run_state (forEach us (\<lambda>u. broadcastToUser u data)) h))" for us data
    using assms(1)
  proof (induction us arbitrary: h)
    case (Cons u us)
    from hub_ok_broadcastToUser [OF Cons.prems, of u data] Cons.IH show ?case
      by (auto split: prod.splits sum.splits)
  qed simp
  from this [of "bm_UserIDs msg" "json_text (event_json (bm_Event msg))"] None assms show ?thesis
    by (cases "bm_UserIDs msg = []") (simp_all add: handleBroadcast_def Let_def)
qed

section \<open>Runs of the server\<close>

lemma run_forEach_removeClient:
  assumes "distinct as" "\<forall>a\<in>set as. \<exists>c. open_client h a c"
  shows "run_state (forEach as removeClient) h = (Inr (), h\<lparr>hub_heap := (\<lambda>a. map_option
    (\<lambda>c. if a \<in> set as then close_client c else c) (hub_heap h a))\<rparr>)"
  using assms
proof (induction as arbitrary: h)
  case Nil
  then show ?case by (simp add: option.map_ident)
next
  case (Cons a as)
  then obtain c where c: "open_client h a c" by auto
  let ?h = "h\<lparr>hub_heap := (hub_heap h)(a := map_option close_client (hub_heap h a))\<rparr>"
  have "\<forall>b\<in>set as. \<exists>c. open_client ?h b c" using Cons.prems by (auto simp: open_client_def)
  note Cons.IH [OF _ this]
  with run_removeClient [OF c] show ?case
    using Cons.prems(1) by (auto simp: fun_eq_iff option.map_comp comp_def intro!: option.map_cong)
qed

lemma hub_ok_Stop:
  assumes ok: "hub_ok h" and "\<not> hub_stopped h" and run: "run_state hub_Stop h = (r, h')"
  shows "r = Inr () \<and> hub_ok h'"
proof -
  from ok have rok: "registry_ok h" and hok: "heap_ok h" and wok: "waiting_ok h (hub_register h)"
    by (simp_all add: hub_ok_def)
  let ?h = "h\<lparr>hub_stopped := True\<rparr>"
  have as: "all_addresses ?h = all_addresses h" by (simp add: all_addresses_def)
  have "\<forall>a\<in>set (all_addresses h). \<exists>c. open_client ?h a c"
  proof
    fix a assume "a \<in> set (all_addresses h)"
    then obtain u i where "registered h u i a" by (auto simp: set_all_addresses)
    from registered_open [OF hok this] show "\<exists>c. open_client ?h a c" by (auto simp: open_client_def)
  qed
  from run_forEach_removeClient [OF distinct_all_addresses [OF rok hok] this] run assms(2)
  have r: "r = Inr ()" and h': "h' = ?h\<lparr>hub_heap := (\<lambda>a. map_option
    (\<lambda>c. if a \<in> set (all_addresses h) then close_client c else c) (hub_heap h a)), hub_clients := []\<rparr>"
    by (auto simp: hub_Stop_def as)
  have none: "\<not> registered h' u i a" for u i a by (simp add: h' registered_def)
  have ids: "\<exists>c0. hub_heap h b = Some c0 \<and> cl_clientID c0 = cl_clientID c" if "hub_heap h' b = Some c" for b c
    using that by (auto simp: h' close_client_def)
  have "heap_ok h'"
    unfolding heap_ok_def
  proof (intro conjI allI impI)
    fix b c assume "hub_heap h' b = Some c"
    with ids hok have "b < hub_fresh h" unfolding heap_ok_def by metis
    then show "b < hub_fresh h'" by (simp add: h')
  next
    fix b c d e assume "hub_heap h' b = Some d" "hub_heap h' c = Some e" "cl_clientID d = cl_clientID e"
    with ids hok show "b = c" unfolding heap_ok_def by metis
  qed (simp add: none)
  moreover have "waiting_ok h' (hub_register h)"
  proof -
    have "open_client h' a c" if "a \<in> set (hub_register h)" "open_client h a c" for a c
      using that wok by (auto simp: h' open_client_def set_all_addresses waiting_ok_def)
    with wok none show ?thesis unfolding waiting_ok_def by blast
  qed
  ultimately have "hub_ok h'" using ok by (auto simp: hub_ok_def registry_ok_def h')
  with r show ?thesis by simp
qed

text \<open>
  One step of the server: a connection is accepted, with a random identifier that no client has
  yet; the loop of \<^verbatim>\<open>Run\<close> takes from one of its channels; the event bus calls the handler; a
  client's reader or writer makes a turn, or the reader ends; the rest of the program changes the
  database; the hub is stopped.
\<close>

inductive hub_step :: "hub_state \<Rightarrow> hub_state \<Rightarrow> bool" where
  connect: "(\<And>a c. hub_heap h a = Some c \<Longrightarrow> cl_clientID c \<noteq> uuid_String (w_new w (w_step w))) \<Longrightarrow>
    run_state (connect u d) (w, h) = (a, s') \<Longrightarrow> hub_step (w, h) s'"
| register: "hub_register h = a # q \<Longrightarrow>
    run_state (handleRegister a) (w, h\<lparr>hub_register := q\<rparr>) = (r, s') \<Longrightarrow> hub_step (w, h) s'"
| unregister: "hub_unregister h = a # q \<Longrightarrow>
    run_state (handleUnregister a) (w, h\<lparr>hub_unregister := q\<rparr>) = (r, s') \<Longrightarrow> hub_step (w, h) s'"
| broadcast: "hub_broadcast h = msg # q \<Longrightarrow>
    run_state (handleBroadcast msg) (h\<lparr>hub_broadcast := q\<rparr>) = (r, h') \<Longrightarrow> hub_step (w, h) (w, h')"
| event: "run_state (handleEvent e) h = ((), h') \<Longrightarrow> hub_step (w, h) (w, h')"
| read: "run_state (readPump_turn a m) (w, h) = (r, s') \<Longrightarrow> hub_step (w, h) s'"
| hang_up: "hub_heap h a \<noteq> None \<Longrightarrow> run_state (readPump_end a) h = ((), h') \<Longrightarrow> hub_step (w, h) (w, h')"
| flush: "run_state (writePump_turn a) h = (x, h') \<Longrightarrow> hub_step (w, h) (w, h')"
| pong: "run_state (noteActivity a) (w, h) = (u, s') \<Longrightarrow> hub_step (w, h) s'"
| give_up: "run_state (writePump_fail taken a) h = (u, h') \<Longrightarrow> hub_step (w, h) (w, h')"
| elsewhere: "hub_step (w, h) (w', h)"
| stop: "\<not> hub_stopped h \<Longrightarrow> run_state hub_Stop h = (r, h') \<Longrightarrow> hub_step (w, h) (w, h')"

inductive hub_reach :: "hub_state \<Rightarrow> bool" where
  start: "hub_reach (w, NewHub cs ms us pick)"
| step: "hub_reach s \<Longrightarrow> hub_step s s' \<Longrightarrow> hub_reach s'"

lemma hub_ok_NewHub: "hub_ok (NewHub cs ms us pick)"
  by (simp add: hub_ok_defs NewHub_def)

lemma hub_ok_connect:
  assumes ok: "hub_ok h" and new: "\<And>a c. hub_heap h a = Some c \<Longrightarrow> cl_clientID c \<noteq> uuid_String (w_new w (w_step w))"
    and run: "run_state (connect u d) (w, h) = (a, (w', h'))"
  shows "hub_ok h'"
proof -
  let ?c = "NewClient (w_now w (Suc (w_step w))) u d (uuid_String (w_new w (w_step w)))"
  from run have h': "h' = h\<lparr>hub_fresh := Suc (hub_fresh h), hub_register := hub_register h @ [hub_fresh h],
      hub_heap := (hub_heap h)(hub_fresh h \<mapsto> ?c)\<rparr>"
    by (auto simp: connect_def)
  from ok have rok: "registry_ok h" and hok: "heap_ok h" and wok: "waiting_ok h (hub_register h)"
    by (simp_all add: hub_ok_def)
  have free: "hub_heap h (hub_fresh h) = None"
    using hok unfolding heap_ok_def by (metis nat_less_le option.exhaust)
  have reg: "registered h' = registered h" by (simp add: h')
  have op: "open_client h b c \<Longrightarrow> open_client h' b c" for b c
    using free by (auto simp: open_client_def h')
  have old: "hub_fresh h \<notin> set (hub_register h)" "\<not> registered h v i (hub_fresh h)" for v i
    using wok registered_open [OF hok] free unfolding waiting_ok_def open_client_def by fastforce+
  have "heap_ok h'"
    unfolding heap_ok_def
  proof (intro conjI allI impI)
    fix b c assume "hub_heap h' b = Some c"
    with hok show "b < hub_fresh h'" by (auto simp: h' heap_ok_def less_Suc_eq split: if_splits)
  next
    fix b c e f assume "hub_heap h' b = Some e" "hub_heap h' c = Some f" "cl_clientID e = cl_clientID f"
    with hok new show "b = c"
      by (auto simp: h' heap_ok_def NewClient_def split: if_splits) metis+
  next
    fix v i b assume "registered h' v i b"
    with registered_open [OF hok] op reg show "\<exists>c. open_client h' b c \<and> cl_userID c = v \<and> cl_clientID c = i"
      by metis
  qed
  moreover have "waiting_ok h' (hub_register h')"
  proof -
    have "open_client h' (hub_fresh h) ?c" by (simp add: h' open_client_def NewClient_def)
    moreover from wok op reg have "\<forall>b\<in>set (hub_register h). (\<exists>c. open_client h' b c) \<and> (\<forall>v i. \<not> registered h' v i b)"
      unfolding waiting_ok_def by metis
    ultimately show ?thesis using wok old unfolding waiting_ok_def reg by (auto simp: h')
  qed
  moreover have "registry_ok h'" using rok by (simp add: registry_ok_def h')
  moreover have "\<forall>b\<in>set (hub_unregister h'). hub_heap h' b \<noteq> None"
    using ok by (auto simp: hub_ok_def h')
  ultimately show ?thesis by (simp add: hub_ok_def)
qed

lemma keeps_case_json [keeps_intros]: "keeps I m \<Longrightarrow> (\<And>x. keeps I (f x)) \<Longrightarrow>
    keeps I (case r of Inl (Panic x) \<Rightarrow> f x | _ \<Rightarrow> m)"
  by (simp split: sum.split error.split)

lemma keeps_deref [keeps_intros]: "keeps P (deref a)"
  by (simp add: keeps_def)

lemma keeps_hub_ok_sendOrWait [keeps_intros]: "keeps hub_ok (sendOrWait a data)"
  unfolding sendOrWait_def by (auto intro!: keeps_intros)

lemma keeps_hub_ok_client_Allow [keeps_intros]: "keeps hub_ok (client_Allow a c ty now)"
  unfolding client_Allow_def by (auto intro!: keeps_intros split: prod.split)

lemma keeps_hub_ok_readPump_turn: "keeps (\<lambda>(w, h). hub_ok h) (readPump_turn a m)"
  unfolding readPump_turn_def handleMessage_def handleTypingStart_def handleTypingStop_def
    handleReadReceipt_def handlePing_def
  by (auto intro!: keeps_intros split: option.split sum.split error.split)

lemma keeps_hub_ok_writePump_turn: "keeps hub_ok (writePump_turn a)"
  unfolding writePump_turn_def by (auto intro!: keeps_intros split: option.split)

lemma keeps_hub_ok_noteActivity: "keeps (\<lambda>(w, h). hub_ok h) (noteActivity a)"
  unfolding noteActivity_def by (auto intro!: keeps_intros)

lemma keeps_hub_ok_writePump_fail: "keeps hub_ok (writePump_fail taken a)"
  unfolding writePump_fail_def writePump_end_def by (auto intro!: keeps_intros)

lemma hub_ok_readPump_end:
  assumes "hub_ok h" "hub_heap h a \<noteq> None" "run_state (readPump_end a) h = ((), h')"
  shows "hub_ok h'"
proof -
  from assms(1,2) have "hub_ok (h\<lparr>hub_unregister := hub_unregister h @ [a]\<rparr>)"
    by (auto simp: hub_ok_def registry_ok_def heap_ok_def waiting_ok_def open_client_def)
  from hub_ok_set_client [OF this, of "\<lambda>c. c\<lparr>cl_connClosed := True\<rparr>" a] assms(3) show ?thesis
    by (auto simp: readPump_end_def)
qed

lemma hub_ok_unregister_queue:
  "hub_ok h \<Longrightarrow> hub_unregister h = a # q \<Longrightarrow> hub_ok (h\<lparr>hub_unregister := q\<rparr>) \<and> hub_heap h a \<noteq> None"
  by (auto simp: hub_ok_def registry_ok_def heap_ok_def waiting_ok_def open_client_def)

lemma hub_ok_unregister_heap [simp]: "hub_heap (h\<lparr>hub_unregister := q\<rparr>) = hub_heap h"
  by simp

lemma hub_ok_step: "hub_step s s' \<Longrightarrow> hub_ok (snd s) \<Longrightarrow> hub_ok (snd s')"
proof (induction rule: hub_step.induct)
  case (connect h w u d a s')
  obtain w' h' where "s' = (w', h')" by fastforce
  with connect hub_ok_connect [of h w u d a w' h'] show ?case by simp
next
  case (register h a q w r s')
  obtain w' h' where "s' = (w', h')" by fastforce
  with register hub_ok_handleRegister [of h a q w r w' h'] show ?case by simp
next
  case (unregister h a q w r s')
  obtain w' h' where s': "s' = (w', h')" by fastforce
  with unregister hub_ok_handleUnregister [of "h\<lparr>hub_unregister := q\<rparr>" a w r w' h']
    hub_ok_unregister_queue [of h a q] show ?case by simp
next
  case (broadcast h msg q r h' w)
  then show ?case using hub_ok_handleBroadcast [of "h\<lparr>hub_broadcast := q\<rparr>" msg r h'] by simp
next
  case (event e h h' w)
  then show ?case by (auto simp: handleEvent_def)
next
  case (read a m w h r s')
  obtain w' h' where s': "s' = (w', h')" by fastforce
  with read keeps_hubD [OF keeps_hub_ok_readPump_turn, of h a m w r w' h'] show ?case by simp
next
  case (hang_up h a h' w)
  then show ?case using hub_ok_readPump_end [of h a h'] by simp
next
  case (flush a h x h' w)
  then show ?case using keepsD [OF keeps_hub_ok_writePump_turn, of h a x h'] by simp
next
  case (pong a w h u s')
  then show ?case using keeps_hubD [OF keeps_hub_ok_noteActivity] by (metis prod.collapse snd_conv)
next
  case (give_up taken a h u h' w)
  then show ?case using keepsD [OF keeps_hub_ok_writePump_fail, of h taken a u h'] by simp
next
  case (stop h r h' w)
  then show ?case using hub_ok_Stop [of h r h'] by simp
qed simp

lemma hub_reach_ok: "hub_reach s \<Longrightarrow> hub_ok (snd s)"
  by (induction rule: hub_reach.induct) (auto simp: hub_ok_NewHub intro: hub_ok_step)

text \<open>
  C7. In every state the hub can reach, each of its handlers runs to its end without a panic: no
  channel is closed twice and nothing is sent on a closed one. The registry has at most ten clients
  per user and no user without clients, and every client in it has an open channel and stands under
  its own user and identifier.
\<close>

theorem Hub_never_panics:
  assumes "hub_reach (w, h)"
  shows "(\<forall>a q. hub_register h = a # q \<longrightarrow> fst (run_state (handleRegister a) (w, h\<lparr>hub_register := q\<rparr>)) = Inr ()) \<and>
    (\<forall>a q. hub_unregister h = a # q \<longrightarrow> fst (run_state (handleUnregister a) (w, h\<lparr>hub_unregister := q\<rparr>)) = Inr ()) \<and>
    (\<forall>msg. fst (run_state (handleBroadcast msg) h) = Inr ()) \<and>
    (\<forall>(u, m)\<in>set (hub_clients h). 0 < length m \<and> length m \<le> 10) \<and>
    (\<forall>u i a. registered h u i a \<longrightarrow> (\<exists>c. open_client h a c \<and> cl_userID c = u \<and> cl_clientID c = i))"
proof -
  from hub_reach_ok [OF assms] have ok: "hub_ok h" by simp
  then have "registry_ok h" "heap_ok h" by (simp_all add: hub_ok_def)
  moreover have "fst (run_state (handleRegister a) (w, h\<lparr>hub_register := q\<rparr>)) = Inr ()"
    if "hub_register h = a # q" for a q
    using hub_ok_handleRegister [OF ok that] by (metis prod.collapse)
  moreover have "fst (run_state (handleUnregister a) (w, h\<lparr>hub_unregister := q\<rparr>)) = Inr ()"
    if "hub_unregister h = a # q" for a q
    using hub_ok_handleUnregister [of "h\<lparr>hub_unregister := q\<rparr>" a] hub_ok_unregister_queue [OF ok that]
    by (metis hub_ok_unregister_heap prod.collapse)
  moreover have "fst (run_state (handleBroadcast msg) h) = Inr ()" for msg
    using hub_ok_handleBroadcast [OF ok] by (metis prod.collapse)
  ultimately show ?thesis by (auto simp: registry_ok_def heap_ok_def)
qed

definition sample_hub :: Hub where
  "sample_hub = NewHub None None None (\<lambda>_. 0)"

text \<open>A run: one user connects and is registered.\<close>

definition sample_connected :: hub_state where
  "sample_connected = snd (run_state (connect 1 11) (sample_world, sample_hub))"

lemma sample_connected_reach: "hub_reach sample_connected"
proof (rule hub_reach.step)
  show "hub_reach (sample_world, sample_hub)" unfolding sample_hub_def by (rule hub_reach.start)
  show "hub_step (sample_world, sample_hub) sample_connected"
    unfolding sample_connected_def
    by (rule hub_step.connect [where a = "fst (run_state (connect 1 11) (sample_world, sample_hub))"])
      (simp_all add: sample_hub_def NewHub_def)
qed

lemma Hub_never_panics_witness:
  "\<forall>msg. fst (run_state (handleBroadcast msg) (snd sample_connected)) = Inr ()"
  using Hub_never_panics [of "fst sample_connected" "snd sample_connected"] sample_connected_reach
  by simp

subsection \<open>What a broadcast does, seen from outside\<close>

text \<open>
  The hub as the users see it: each of their connections, by user and identifier, has an inbox and
  the conversations it listens to.
\<close>

definition hub_view :: "Hub \<Rightarrow> uuid \<times> string \<Rightarrow> (string list \<times> uuid list) option" where
  "hub_view h k = Option.bind (map_of (clients_of (fst k) h) (snd k))
     (\<lambda>a. map_option (\<lambda>c. (cl_send c, cl_conversations c)) (hub_heap h a))"

definition post :: "string \<Rightarrow> string list \<Rightarrow> string list" where
  "post data inbox = (if length inbox < 256 then inbox @ [data] else inbox)"

definition view_broadcast :: "BroadcastMessage \<Rightarrow> (uuid \<times> string \<Rightarrow> (string list \<times> uuid list) option) \<Rightarrow>
    uuid \<times> string \<Rightarrow> (string list \<times> uuid list) option" where
  "view_broadcast msg v k = map_option (\<lambda>(inbox, convs).
     (case bm_ConversationID msg of
        Some c \<Rightarrow> if c \<in> set convs then post (json_text (event_json (bm_Event msg))) inbox else inbox
      | None \<Rightarrow> if fst k \<in> set (bm_UserIDs msg) then post (json_text (event_json (bm_Event msg))) inbox else inbox,
      convs)) (v k)"

lemma deliver_post [simp]:
  "cl_send (deliver data c) = post data (cl_send c)" "cl_conversations (deliver data c) = cl_conversations c"
  by (simp_all add: deliver_def post_def)

lemma map_of_clients_of:
  "registry_ok h \<Longrightarrow> map_of (clients_of u h) i = Some a \<longleftrightarrow> registered h u i a"
  using clients_of_registered clients_of_ok by (metis map_of_eq_Some_iff)

lemma hub_view_Some:
  assumes "hub_ok h"
  shows "hub_view h (u, i) = (case map_of (clients_of u h) i of None \<Rightarrow> None
    | Some a \<Rightarrow> Some (cl_send (the (hub_heap h a)), cl_conversations (the (hub_heap h a))))"
proof (cases "map_of (clients_of u h) i")
  case (Some a)
  from assms have "registry_ok h" "heap_ok h" by (simp_all add: hub_ok_def)
  with Some map_of_clients_of registered_open obtain c where "open_client h a c" by metis
  with Some show ?thesis by (simp add: hub_view_def open_client_def)
qed (simp add: hub_view_def)

text \<open>Delivering to the clients that satisfy \<open>P\<close>, which depends on what the view shows.\<close>

lemma hub_view_deliver:
  assumes "hub_ok h"
    and same: "\<And>u i a c. registered h u i a \<Longrightarrow> hub_heap h a = Some c \<Longrightarrow> P a c \<longleftrightarrow> Q (u, i) (cl_conversations c)"
  shows "hub_view (h\<lparr>hub_heap := (\<lambda>a. map_option (\<lambda>c. if P a c then deliver data c else c) (hub_heap h a))\<rparr>) (u, i) =
    map_option (\<lambda>(inbox, convs). (if Q (u, i) convs then post data inbox else inbox, convs)) (hub_view h (u, i))"
proof (cases "map_of (clients_of u h) i")
  case (Some a)
  from assms(1) have "registry_ok h" "heap_ok h" by (simp_all add: hub_ok_def)
  with Some map_of_clients_of registered_open obtain c where "registered h u i a" "hub_heap h a = Some c"
    by (metis open_client_def)
  with same [OF this] Some show ?thesis by (simp add: hub_view_def clients_of_def)
qed (simp add: hub_view_def clients_of_def)

lemma view_broadcast_users:
  assumes "hub_ok h" "distinct us"
  shows "hub_view (snd (run_state (forEach us (\<lambda>u. broadcastToUser u data)) h)) (v, i) =
    map_option (\<lambda>(inbox, convs). (if v \<in> set us then post data inbox else inbox, convs)) (hub_view h (v, i))"
  using assms
proof (induction us arbitrary: h)
  case Nil
  then show ?case by (simp add: option.map_ident split_def)
next
  case (Cons u us)
  let ?h = "snd (run_state (broadcastToUser u data) h)"
  from Cons.prems(1) have uniq: "registered h x j a \<Longrightarrow> (\<exists>i. registered h u i a) \<longleftrightarrow> x = u" for x j a
    using registered_unique by (auto simp: hub_ok_def)
  have "hub_view ?h (v, i) = map_option (\<lambda>(inbox, convs). (if v = u then post data inbox else inbox, convs)) (hub_view h (v, i))"
    unfolding run_broadcastToUser [OF Cons.prems(1)] snd_conv
    by (rule hub_view_deliver [OF Cons.prems(1), where Q = "\<lambda>k _. fst k = u", simplified]) (rule uniq)
  moreover from hub_ok_broadcastToUser [OF Cons.prems(1), of u data] have "hub_ok ?h"
    "fst (run_state (broadcastToUser u data) h) = Inr ()" by simp_all
  ultimately show ?case
    using Cons.IH [of ?h] Cons.prems(2)
    by (auto simp: split_def option.map_comp comp_def split: prod.split sum.split intro!: option.map_cong0)
qed

text \<open>
  C13. The hub refines its view: in every reachable state a broadcast appends the JSON text of the
  event to the inbox of exactly the connections that listen to its conversation, or that belong to
  its users (each once, the users being different), as long as there is room, and leaves the others
  and the registry as they were.
\<close>

theorem Broadcast_refines:
  assumes "hub_reach (w, h)" "distinct (bm_UserIDs msg)"
  shows "hub_view (snd (run_state (handleBroadcast msg) h)) = view_broadcast msg (hub_view h)"
proof
  fix k
  from hub_reach_ok [OF assms(1)] have ok: "hub_ok h" by simp
  let ?data = "json_text (event_json (bm_Event msg))"
  show "hub_view (snd (run_state (handleBroadcast msg) h)) k = view_broadcast msg (hub_view h) k"
  proof (cases "bm_ConversationID msg")
    case (Some conv)
    have "hub_view (snd (run_state (broadcastToConversation conv ?data) h)) (fst k, snd k) =
        map_option (\<lambda>(inbox, convs). (if conv \<in> set convs then post ?data inbox else inbox, convs)) (hub_view h (fst k, snd k))"
      unfolding run_broadcastToConversation [OF ok] snd_conv
      by (rule hub_view_deliver [OF ok, where Q = "\<lambda>_ cs. conv \<in> set cs"]) (auto simp: set_all_addresses)
    with Some show ?thesis by (simp add: handleBroadcast_def Let_def view_broadcast_def)
  next
    case None
    have "handleBroadcast msg = forEach (bm_UserIDs msg) (\<lambda>u. broadcastToUser u ?data)"
      using None by (auto simp: handleBroadcast_def Let_def)
    with view_broadcast_users [OF ok assms(2), of ?data "fst k" "snd k"] None show ?thesis
      by (simp add: view_broadcast_def)
  qed
qed

lemma Broadcast_refines_witness:
  "\<forall>e. hub_view (snd (run_state (handleBroadcast \<lparr>bm_UserIDs = [1], bm_ConversationID = None, bm_Event = e\<rparr>)
     (snd sample_connected))) =
   view_broadcast \<lparr>bm_UserIDs = [1], bm_ConversationID = None, bm_Event = e\<rparr> (hub_view (snd sample_connected))"
  using Broadcast_refines [of "fst sample_connected" "snd sample_connected"] sample_connected_reach
  by simp

section \<open>What clients ever receive\<close>

text \<open>
  Only \<^verbatim>\<open>WebSocketEventHandler.Handle\<close> sends to the broadcast channel, and its messages name neither
  users nor a conversation.
\<close>

definition pongs_only :: "Hub \<Rightarrow> bool" where
  "pongs_only h \<longleftrightarrow> (\<forall>msg\<in>set (hub_broadcast h). bm_UserIDs msg = [] \<and> bm_ConversationID msg = None) \<and>
     (\<forall>a c. hub_heap h a = Some c \<longrightarrow> set (cl_send c) \<subseteq> {pong})"

lemma keeps_pongs_set_client [keeps_intros]:
  "(\<And>c. set (cl_send (f c)) \<subseteq> set (cl_send c)) \<Longrightarrow> keeps pongs_only (set_client a f)"
  by (fastforce simp: keeps_def pongs_only_def split: if_splits)

lemma keeps_pongs_modify [keeps_intros]:
  "(\<And>h. hub_broadcast (f h) = hub_broadcast h) \<Longrightarrow> (\<And>h. hub_heap (f h) = hub_heap h) \<Longrightarrow>
   keeps pongs_only (hub_modify f)"
  by (simp add: keeps_def pongs_only_def)

lemma keeps_pongs_AllowConnection [keeps_intros]: "keeps pongs_only (hub_AllowConnection u now)"
  by (auto simp: keeps_def run_hub_AllowConnection pongs_only_def split: prod.split)

lemma keeps_pongs_removeClient [keeps_intros]: "keeps pongs_only (removeClient a)"
  unfolding removeClient_def by (auto intro!: keeps_intros)

lemma keeps_pongs_evictOne [keeps_intros]: "keeps pongs_only (evictOne u)"
  unfolding evictOne_def by (auto intro!: keeps_intros split: prod.split)

lemma keeps_pongs_handleRegister: "keeps (\<lambda>(w, h). pongs_only h) (handleRegister a)"
  unfolding handleRegister_def putClient_def by (auto intro!: keeps_intros)

lemma keeps_pongs_handleUnregister: "keeps (\<lambda>(w, h). pongs_only h) (handleUnregister a)"
  unfolding handleUnregister_def by (auto intro!: keeps_intros split: option.split)

lemma keeps_pongs_Stop: "keeps pongs_only hub_Stop"
  unfolding hub_Stop_def by (auto intro!: keeps_intros)

lemma keeps_pongs_connect: "keeps (\<lambda>(w, h). pongs_only h) (connect u d)"
  by (auto simp: keeps_def connect_def pongs_only_def NewClient_def split: if_splits)

lemma keeps_pongs_sendOrWait [keeps_intros]: "keeps pongs_only (sendOrWait a pong)"
  by (auto simp: keeps_def sendOrWait_def pongs_only_def split: option.split if_splits)

lemma keeps_pongs_client_Allow [keeps_intros]: "keeps pongs_only (client_Allow a c ty now)"
  unfolding client_Allow_def by (auto intro!: keeps_intros split: prod.split)

lemma keeps_pongs_readPump_turn: "keeps (\<lambda>(w, h). pongs_only h) (readPump_turn a m)"
  unfolding readPump_turn_def handleMessage_def handleTypingStart_def handleTypingStop_def
    handleReadReceipt_def handlePing_def
  by (auto intro!: keeps_intros split: option.split sum.split error.split)

lemma keeps_pongs_readPump_end: "keeps pongs_only (readPump_end a)"
  unfolding readPump_end_def by (auto intro!: keeps_intros)

lemma keeps_pongs_writePump_turn: "keeps pongs_only (writePump_turn a)"
  unfolding writePump_turn_def by (auto intro!: keeps_intros split: option.split)

lemma set_tl: "set (tl xs) \<subseteq> set xs"
  by (cases xs) auto

lemma keeps_pongs_noteActivity: "keeps (\<lambda>(w, h). pongs_only h) (noteActivity a)"
  unfolding noteActivity_def by (auto intro!: keeps_intros)

lemma keeps_pongs_writePump_fail: "keeps pongs_only (writePump_fail taken a)"
  unfolding writePump_fail_def writePump_end_def by (auto intro!: keeps_intros dest: subsetD [OF set_tl])

lemma pongs_only_step: "hub_step s s' \<Longrightarrow> pongs_only (snd s) \<Longrightarrow> pongs_only (snd s')"
proof (induction rule: hub_step.induct)
  case (connect h w u d a s')
  then show ?case using keeps_hubD [OF keeps_pongs_connect] by (metis prod.collapse snd_conv)
next
  case (register h a q w r s')
  then have "pongs_only (h\<lparr>hub_register := q\<rparr>)" by (simp add: pongs_only_def)
  with register show ?case using keeps_hubD [OF keeps_pongs_handleRegister] by (metis prod.collapse)
next
  case (unregister h a q w r s')
  then have "pongs_only (h\<lparr>hub_unregister := q\<rparr>)" by (simp add: pongs_only_def)
  with unregister show ?case using keeps_hubD [OF keeps_pongs_handleUnregister] by (metis prod.collapse)
next
  case (broadcast h msg q r h' w)
  then have "h' = h\<lparr>hub_broadcast := q\<rparr>" by (auto simp: handleBroadcast_def pongs_only_def)
  with broadcast show ?case by (simp add: pongs_only_def)
next
  case (event e h h' w)
  then have "hub_heap h' = hub_heap h"
    "hub_broadcast h' = hub_broadcast h @ [\<lparr>bm_UserIDs = [], bm_ConversationID = None, bm_Event = e\<rparr>]"
    by (auto simp: handleEvent_def)
  with event show ?case by (simp add: pongs_only_def)
next
  case (read a m w h r s')
  then show ?case using keeps_hubD [OF keeps_pongs_readPump_turn] by (metis prod.collapse snd_conv)
next
  case (hang_up h a h' w)
  then show ?case using keepsD [OF keeps_pongs_readPump_end, of h a "()" h'] by simp
next
  case (flush a h x h' w)
  then show ?case using keepsD [OF keeps_pongs_writePump_turn, of h a x h'] by simp
next
  case (pong a w h u s')
  then show ?case using keeps_hubD [OF keeps_pongs_noteActivity] by (metis prod.collapse snd_conv)
next
  case (give_up taken a h u h' w)
  then show ?case using keepsD [OF keeps_pongs_writePump_fail, of h taken a u h'] by simp
next
  case (stop h r h' w)
  then show ?case using keepsD [OF keeps_pongs_Stop, of h r h'] by simp
qed simp

lemma pongs_only_reach: "hub_reach s \<Longrightarrow> pongs_only (snd s)"
proof (induction rule: hub_reach.induct)
  case (start w cs ms us pick)
  then show ?case by (simp add: pongs_only_def NewHub_def)
qed (rule pongs_only_step)

text \<open>
  Whatever events the bus delivers, no client ever receives anything but the answers to its own
  pings: in every reachable state the buffers hold pongs only, and what a writer writes as one frame
  is a sequence of pongs.
\<close>

theorem Clients_get_only_pongs:
  assumes "hub_reach (w, h)"
  shows "(\<forall>a c. hub_heap h a = Some c \<longrightarrow> set (cl_send c) \<subseteq> {pong}) \<and>
    (\<forall>a frame h'. run_state (writePump_turn a) h = (Some frame, h') \<longrightarrow>
      (\<exists>n. frame = join_text [CHR 0x0A] (replicate n pong)))"
proof -
  from pongs_only_reach [OF assms] have only: "\<forall>a c. hub_heap h a = Some c \<longrightarrow> set (cl_send c) \<subseteq> {pong}"
    by (simp add: pongs_only_def)
  moreover have "\<exists>n. frame = join_text [CHR 0x0A] (replicate n pong)"
    if "run_state (writePump_turn a) h = (Some frame, h')" for a frame h'
  proof -
    from that obtain c where "hub_heap h a = Some c" "frame = join_text [CHR 0x0A] (cl_send c)"
      by (auto simp: writePump_turn_def split: option.splits if_splits)
    with only show ?thesis by (metis replicate_eqI singletonD subsetD)
  qed
  ultimately show ?thesis by blast
qed

lemma Clients_get_only_pongs_witness:
  "case hub_heap (snd sample_connected) 0 of None \<Rightarrow> True | Some c \<Rightarrow> set (cl_send c) \<subseteq> {pong}"
  using Clients_get_only_pongs [of "fst sample_connected" "snd sample_connected"] sample_connected_reach
  by (auto split: option.split)

subsection \<open>A client that has been evicted\<close>

text \<open>
  The reader of an evicted client may still have a message to handle. A ping then sends on the
  closed channel, which stops the whole program.
\<close>

lemma ping_of_closed_client_panics:
  assumes "hub_heap h a = Some c" "cl_sendClosed c" "limiter_ok (cl_rateLimiter c)"
    and "pingTokens (cl_rateLimiter c) > 0"
    and "decode_ClientMessage j = Some msg" "cm_Type msg = ''ping''"
  shows "fst (run_state (readPump_turn a (Some j)) (w, h)) = Inl (Panic ''send on closed channel'')"
proof -
  have b: "budget_of ''ping'' = Some PingBudget" by (simp add: budget_of_def)
  obtain now ok rl where al: "Allow ''ping'' now (cl_rateLimiter c) = (ok, rl)" and now: "now = w_now w (Suc (w_step w))"
    by fastforce
  have "budget_tokens PingBudget (refillWhenDue now (cl_rateLimiter c)) > 0"
    using assms(4) by (simp add: budget_tokens_refillWhenDue)
  with al b have "ok" by (auto simp: Allow_budget Let_def split: if_splits)
  with assms al now show ?thesis
    by (simp add: readPump_turn_def handleMessage_def client_Allow_def handlePing_def sendOrWait_def)
qed

end
