(* ===== verification/RateLimiter.thy ===== *)
theory RateLimiter
  imports Redis
begin

text \<open>
  The Redis rate limiter (\<^verbatim>\<open>internal/redis/ratelimit.go\<close>). The Lua script of \<^verbatim>\<open>checkLimit\<close> runs as
  one command of the server: \<open>limit_script\<close> is its text, on the key's value and its time to live.
  The text that wraps an error is kept, the wrapped text is not.
\<close>

section \<open>Definitions\<close>

record RateLimitConfig =
  MessageLimit :: int
  MessageWindow :: duration
  CallLimit :: int
  CallWindow :: duration
  AuthLimit :: int
  AuthWindow :: duration

definition DefaultRateLimitConfig :: RateLimitConfig where
  "DefaultRateLimitConfig = \<lparr>MessageLimit = 60, MessageWindow = 60 * Second, CallLimit = 10,
     CallWindow = 60 * Second, AuthLimit = 5, AuthWindow = 60 * Second\<rparr>"

record RateLimitResult =
  rr_Allowed :: bool
  rr_Remaining :: int
  rr_ResetIn :: duration
  rr_Limit :: int

definition messages_key :: "string \<Rightarrow> string" where
  "messages_key userID = ''ratelimit:'' @ userID @ '':messages''"

definition calls_key :: "string \<Rightarrow> string" where
  "calls_key userID = ''ratelimit:'' @ userID @ '':calls''"

definition auth_key :: "string \<Rightarrow> string" where
  "auth_key ip = ''ratelimit:'' @ ip @ '':auth''"

text \<open>\<^verbatim>\<open>tonumber(redis.call('GET', key))\<close>, with 0 for a missing key.\<close>

definition script_current :: "string \<Rightarrow> time \<Rightarrow> keyspace \<Rightarrow> error + int" where
  "script_current key now ks = (case live now ks key of
     None \<Rightarrow> Inr 0
   | Some (RInt i, _) \<Rightarrow> Inr i
   | _ \<Rightarrow> Inl WRONGTYPE)"

definition limit_script ::
  "string \<Rightarrow> int \<Rightarrow> int \<Rightarrow> time \<Rightarrow> keyspace \<Rightarrow> error + (int \<times> int \<times> int) \<times> keyspace" where
  "limit_script key limit window now ks = (case script_current key now ks of
     Inl e \<Rightarrow> Inl e
   | Inr current \<Rightarrow>
       (let ttl0 = ttl_key key now ks; ttl = (if ttl0 < 0 then window else ttl0) in
        if current < limit then
          (case incr_key key now ks of
             Inl e \<Rightarrow> Inl e
           | Inr (_, ks1) \<Rightarrow>
               Inr ((1, limit - current - 1, ttl),
                 if ttl = window then expire_key key (window * Second) now ks1 else ks1))
        else Inr ((0, 0, ttl), ks)))"

definition checkLimit :: "string \<Rightarrow> int \<Rightarrow> duration \<Rightarrow> RateLimitResult redis_cmd" where
  "checkLimit key limit window =
     andThen (mapErr (\<lambda>_. OtherError ''rate limit check failed'')
       (command (limit_script key limit (window div Second))))
     (\<lambda>(a, remaining, ttl). ok \<lparr>rr_Allowed = (a = 1), rr_Remaining = remaining,
        rr_ResetIn = ttl * Second, rr_Limit = limit\<rparr>)"

definition AllowMessage :: "RateLimitConfig \<Rightarrow> string \<Rightarrow> RateLimitResult redis_cmd" where
  "AllowMessage r userID = checkLimit (messages_key userID) (MessageLimit r) (MessageWindow r)"

definition AllowCall :: "RateLimitConfig \<Rightarrow> string \<Rightarrow> RateLimitResult redis_cmd" where
  "AllowCall r userID = checkLimit (calls_key userID) (CallLimit r) (CallWindow r)"

definition AllowAuth :: "RateLimitConfig \<Rightarrow> string \<Rightarrow> RateLimitResult redis_cmd" where
  "AllowAuth r ip = checkLimit (auth_key ip) (AuthLimit r) (AuthWindow r)"

definition limiter_consume :: "string \<Rightarrow> duration \<Rightarrow> unit redis_cmd" where
  "limiter_consume key window = pipeline [redis_Incr key, redis_Expire key window]"

definition ConsumeMessage :: "RateLimitConfig \<Rightarrow> string \<Rightarrow> unit redis_cmd" where
  "ConsumeMessage r userID = limiter_consume (messages_key userID) (MessageWindow r)"

definition ConsumeCall :: "RateLimitConfig \<Rightarrow> string \<Rightarrow> unit redis_cmd" where
  "ConsumeCall r userID = limiter_consume (calls_key userID) (CallWindow r)"

definition ConsumeAuth :: "RateLimitConfig \<Rightarrow> string \<Rightarrow> unit redis_cmd" where
  "ConsumeAuth r ip = limiter_consume (auth_key ip) (AuthWindow r)"

definition limiter_Reset :: "string \<Rightarrow> unit redis_cmd" where
  "limiter_Reset key = redis_Del [key]"

definition ResetUser :: "string \<Rightarrow> unit redis_cmd" where
  "ResetUser userID = redis_Del [messages_key userID, calls_key userID]"

definition ResetAuth :: "string \<Rightarrow> unit redis_cmd" where
  "ResetAuth ip = redis_Del [auth_key ip]"

text \<open>
  Errors of the two commands are dropped; a missing or failed counter reads 0, and only a positive
  time to live replaces the window.
\<close>

definition GetStatus :: "string \<Rightarrow> int \<Rightarrow> duration \<Rightarrow> RateLimitResult redis_cmd" where
  "GetStatus key limit window = do {
     g \<leftarrow> redis_Get key;
     t \<leftarrow> redis_TTL key;
     let current = (case g of Inr (Some (RInt i)) \<Rightarrow> i | _ \<Rightarrow> 0);
     let ttl = (case t of Inr n \<Rightarrow> if n > 0 then n * Second else window | Inl _ \<Rightarrow> window);
     ok \<lparr>rr_Allowed = (current < limit), rr_Remaining = limit - current, rr_ResetIn = ttl,
       rr_Limit = limit\<rparr>
   }"

definition GetMessageStatus :: "RateLimitConfig \<Rightarrow> string \<Rightarrow> RateLimitResult redis_cmd" where
  "GetMessageStatus r userID = GetStatus (messages_key userID) (MessageLimit r) (MessageWindow r)"

definition GetCallStatus :: "RateLimitConfig \<Rightarrow> string \<Rightarrow> RateLimitResult redis_cmd" where
  "GetCallStatus r userID = GetStatus (calls_key userID) (CallLimit r) (CallWindow r)"

definition GetAuthStatus :: "RateLimitConfig \<Rightarrow> string \<Rightarrow> RateLimitResult redis_cmd" where
  "GetAuthStatus r ip = GetStatus (auth_key ip) (AuthLimit r) (AuthWindow r)"

section \<open>The script as a counter\<close>

text \<open>
  The counter of a key: its value and its time of expiry, \<open>None\<close> once it has expired. A counter
  without a time of expiry gets one from the next script that counts.
\<close>

definition counter :: "string \<Rightarrow> time \<Rightarrow> keyspace \<Rightarrow> (int \<times> time option) option" where
  "counter key now ks = map_option (\<lambda>(v, e). (case v of RInt i \<Rightarrow> i | _ \<Rightarrow> 0, e)) (live now ks key)"

definition is_counter :: "string \<Rightarrow> time \<Rightarrow> keyspace \<Rightarrow> bool" where
  "is_counter key now ks \<longleftrightarrow> (\<forall>v e. live now ks key = Some (v, e) \<longrightarrow> (\<exists>i\<ge>0. v = RInt i))"

definition counted :: "string \<Rightarrow> time \<Rightarrow> keyspace \<Rightarrow> int" where
  "counted key now ks = (case live now ks key of Some (RInt i, _) \<Rightarrow> i | _ \<Rightarrow> 0)"

definition expires_by :: "string \<Rightarrow> keyspace \<Rightarrow> time \<Rightarrow> bool" where
  "expires_by key ks t \<longleftrightarrow> (\<exists>v e. ks key = Some (v, Some e) \<and> t \<le> e)"

lemma live_later: "live now ks k = None \<Longrightarrow> now \<le> t \<Longrightarrow> live t ks k = None"
  by (auto simp: live_def split: option.splits prod.splits if_splits)

lemma live_mono: "live t ks k = Some x \<Longrightarrow> now \<le> t \<Longrightarrow> live now ks k = Some x"
  by (auto simp: live_def split: option.splits prod.splits if_splits)

lemma is_counter_mono: "is_counter key now ks \<Longrightarrow> now \<le> t \<Longrightarrow> is_counter key t ks"
  unfolding is_counter_def using live_mono by metis

lemma counted_mono: "is_counter key now ks \<Longrightarrow> now \<le> t \<Longrightarrow> counted key t ks \<le> counted key now ks"
  unfolding counted_def is_counter_def
  using live_mono [of t ks key _ now]
  by (fastforce split: option.splits prod.splits redis_value.splits)

lemma counted_nonneg: "is_counter key now ks \<Longrightarrow> 0 \<le> counted key now ks"
  unfolding counted_def is_counter_def by (fastforce split: option.splits prod.splits redis_value.splits)

text \<open>
  One run of the script on a counter, seen from outside: it allows exactly while the count is below the
  limit, counts what it allows, gives a new counter the whole window and never shortens the life of an
  old one.
\<close>

definition counts ::
  "string \<Rightarrow> int \<Rightarrow> int \<Rightarrow> time \<Rightarrow> keyspace \<Rightarrow> bool \<Rightarrow> keyspace \<Rightarrow> bool" where
  "counts key limit window now ks yes ks' \<longleftrightarrow>
     (yes \<longleftrightarrow> counted key now ks < limit) \<and> is_counter key now ks' \<and>
     counted key now ks' = counted key now ks + (if yes then 1 else 0) \<and>
     (live now ks key = None \<longrightarrow> yes \<longrightarrow> expires_by key ks' (now + window * Second)) \<and>
     (\<forall>t \<le> now + window * Second. live now ks key \<noteq> None \<longrightarrow> expires_by key ks t \<longrightarrow> expires_by key ks' t) \<and>
     (\<not> yes \<longrightarrow> ks' = ks)"

lemma limit_script_fresh:
  assumes "window > 0" and None: "live now ks key = None"
  shows "\<exists>a remaining ttl ks'. limit_script key limit window now ks = Inr ((a, remaining, ttl), ks') \<and>
    counts key limit window now ks (a = 1) ks'"
proof -
  have ttl: "ttl_key key now ks = - 2" by (simp add: ttl_key_def None)
  define ks2 where "ks2 = ks(key \<mapsto> (RInt 1, Some (now + window * Second)))"
  have "expire_key key (window * Second) now (ks(key \<mapsto> (RInt 1, None))) = ks2"
    using assms(1) by (simp add: expire_key_def live_def ks2_def)
  with None have script: "limit_script key limit window now ks =
      (if 0 < limit then Inr ((1, limit - 1, window), ks2) else Inr ((0, 0, window), ks))"
    by (simp add: limit_script_def script_current_def ttl incr_key_def Let_def)
  have "live now ks2 key = Some (RInt 1, Some (now + window * Second))"
    using assms(1) by (simp add: live_def ks2_def)
  moreover have "expires_by key ks2 (now + window * Second)" by (simp add: expires_by_def ks2_def)
  ultimately have "0 < limit \<Longrightarrow> counts key limit window now ks True ks2"
    using None by (simp add: counts_def counted_def is_counter_def)
  moreover have "\<not> 0 < limit \<Longrightarrow> counts key limit window now ks False ks"
    using None by (simp add: counts_def counted_def is_counter_def)
  ultimately show ?thesis using script by (cases "0 < limit") auto
qed

lemma limit_script_live:
  assumes "window > 0" and live: "live now ks key = Some (RInt i, e)" and i: "i \<ge> 0"
  shows "\<exists>a remaining ttl ks'. limit_script key limit window now ks = Inr ((a, remaining, ttl), ks') \<and>
    counts key limit window now ks (a = 1) ks'"
proof -
  from live have raw: "ks key = Some (RInt i, e)" and e: "\<And>x. e = Some x \<Longrightarrow> now < x"
    by (auto simp: live_def split: option.splits prod.splits if_splits)
  let ?ks1 = "ks(key \<mapsto> (RInt (i + 1), e))"
  define ttl where "ttl = (if ttl_key key now ks < 0 then window else ttl_key key now ks)"
  define ks2 where "ks2 = (if ttl = window then expire_key key (window * Second) now ?ks1 else ?ks1)"
  have live1: "live now ?ks1 key = Some (RInt (i + 1), e)"
    using live by (auto simp: live_def split: option.splits if_splits)
  have ks2: "ks2 = ks(key \<mapsto> (RInt (i + 1), if ttl = window then Some (now + window * Second) else e))"
    using assms(1) live1 by (simp add: ks2_def expire_key_def)
  have script: "limit_script key limit window now ks =
      (if i < limit then Inr ((1, limit - i - 1, ttl), ks2) else Inr ((0, 0, ttl), ks))"
    using live by (simp add: limit_script_def script_current_def incr_key_def ttl_def ks2_def Let_def)
  have live2: "live now ks2 key = Some (RInt (i + 1), if ttl = window then Some (now + window * Second) else e)"
    using assms(1) e by (auto simp: live_def ks2 split: option.splits)
  have exp: "expires_by key ks2 t" if "expires_by key ks t" "t \<le> now + window * Second" for t
    using that raw by (auto simp: expires_by_def ks2)
  have "i < limit \<Longrightarrow> counts key limit window now ks True ks2"
    using live live2 i exp by (simp add: counts_def counted_def is_counter_def)
  moreover have "\<not> i < limit \<Longrightarrow> counts key limit window now ks False ks"
    using live i by (simp add: counts_def counted_def is_counter_def)
  ultimately show ?thesis using script by (cases "i < limit") auto
qed

lemma limit_script_counter:
  assumes "is_counter key now ks" "window > 0"
  shows "\<exists>a remaining ttl ks'. limit_script key limit window now ks = Inr ((a, remaining, ttl), ks') \<and>
    counts key limit window now ks (a = 1) ks'"
proof (cases "live now ks key")
  case None
  with assms(2) show ?thesis by (rule limit_script_fresh)
next
  case (Some p)
  with assms(1) obtain i e where "p = (RInt i, e)" "i \<ge> 0" by (cases p) (auto simp: is_counter_def)
  with Some assms(2) show ?thesis by (auto intro: limit_script_live)
qed

section \<open>How many get through\<close>

definition allowed :: "RateLimitResult list \<Rightarrow> int" where
  "allowed rs = int (length (filter rr_Allowed rs))"

lemma allowed_simps [simp]:
  "allowed [] = 0" "allowed (r # rs) = (if rr_Allowed r then 1 else 0) + allowed rs"
  by (simp_all add: allowed_def)

lemma checkLimit_step:
  assumes run: "run_state (checkLimit key limit window) rd = (Inr r, rd')"
    and cnt: "is_counter key (rd_now rd (rd_step rd)) (rd_keys rd)" and pos: "window div Second > 0"
  obtains ks' where "rd' = rd\<lparr>rd_step := Suc (rd_step rd), rd_keys := ks'\<rparr>"
    "counts key limit (window div Second) (rd_now rd (rd_step rd)) (rd_keys rd) (rr_Allowed r) ks'"
proof -
  obtain a remaining ttl ks' where sc: "limit_script key limit (window div Second) (rd_now rd (rd_step rd)) (rd_keys rd) =
      Inr ((a, remaining, ttl), ks')"
    and "counts key limit (window div Second) (rd_now rd (rd_step rd)) (rd_keys rd) (a = 1) ks'"
    using limit_script_counter [OF cnt pos] by metis
  moreover from run sc have "rr_Allowed r \<longleftrightarrow> a = 1" "rd' = rd\<lparr>rd_step := Suc (rd_step rd), rd_keys := ks'\<rparr>"
    by (auto simp: checkLimit_def run_command split: option.splits)
  ultimately show thesis using that [of ks'] by simp
qed

text \<open>
  The setting of the next lemmas: the server's clock does not go back, and the runs of the script on
  one key follow each other.
\<close>

definition clock_ok :: "redis \<Rightarrow> bool" where
  "clock_ok rd \<longleftrightarrow> (\<forall>i j. i \<le> j \<longrightarrow> rd_now rd i \<le> rd_now rd j)"

definition checks_within :: "redis \<Rightarrow> 'n list \<Rightarrow> time \<Rightarrow> time \<Rightarrow> bool" where
  "checks_within rd ns lo hi \<longleftrightarrow> (\<forall>i<length ns. lo \<le> rd_now rd (rd_step rd + i) \<and> rd_now rd (rd_step rd + i) < hi)"

lemma checks_within_head:
  "checks_within rd (n # ns) lo hi \<Longrightarrow> lo \<le> rd_now rd (rd_step rd) \<and> rd_now rd (rd_step rd) < hi"
  by (fastforce simp: checks_within_def)

lemma checks_within_tail:
  "checks_within rd (n # ns) lo hi \<Longrightarrow> checks_within (rd\<lparr>rd_step := Suc (rd_step rd), rd_keys := ks\<rparr>) ns lo hi"
  by (fastforce simp: checks_within_def)

lemma checks_within_next:
  "checks_within (rd\<lparr>rd_step := Suc (rd_step rd), rd_keys := ks\<rparr>) ns lo hi \<Longrightarrow> ns \<noteq> [] \<Longrightarrow>
   rd_now rd (Suc (rd_step rd)) < hi"
  by (fastforce simp: checks_within_def)

lemma clock_ok_step: "clock_ok rd \<Longrightarrow> clock_ok (rd\<lparr>rd_step := n, rd_keys := ks\<rparr>)"
  by (simp add: clock_ok_def)

text \<open>While the counter cannot expire, no more than the rest of the limit gets through.\<close>

lemma allowed_before_expiry:
  assumes "run_state (collect (\<lambda>_. checkLimit key limit window) ns) rd = (Inr rs, rd')" "clock_ok rd"
    and "is_counter key (rd_now rd (rd_step rd)) (rd_keys rd)" "window div Second > 0"
    and "expires_by key (rd_keys rd) e" "checks_within rd ns (e - window div Second * Second) e"
  shows "allowed rs \<le> max 0 (limit - counted key (rd_now rd (rd_step rd)) (rd_keys rd))"
  using assms
proof (induction ns arbitrary: rd rs)
  case (Cons n ns)
  let ?now = "rd_now rd (rd_step rd)" and ?next = "rd_now rd (Suc (rd_step rd))"
  from Cons.prems(1) obtain r rd1 rs1 where r: "run_state (checkLimit key limit window) rd = (Inr r, rd1)"
    and rest: "run_state (collect (\<lambda>_. checkLimit key limit window) ns) rd1 = (Inr rs1, rd')" and rs: "rs = r # rs1"
    by (auto split: prod.splits sum.splits)
  from Cons.prems(5,6) have live: "live ?now (rd_keys rd) key \<noteq> None" and now: "?now < e"
    "e \<le> ?now + window div Second * Second"
    using checks_within_head [OF Cons.prems(6)] by (auto simp: expires_by_def live_def)
  obtain ks' where rd1: "rd1 = rd\<lparr>rd_step := Suc (rd_step rd), rd_keys := ks'\<rparr>"
    and cs: "counts key limit (window div Second) ?now (rd_keys rd) (rr_Allowed r) ks'"
    using checkLimit_step [OF r Cons.prems(3,4)] .
  from cs have al: "rr_Allowed r \<longleftrightarrow> counted key ?now (rd_keys rd) < limit" and c: "is_counter key ?now ks'"
    "counted key ?now ks' = counted key ?now (rd_keys rd) + (if rr_Allowed r then 1 else 0)"
    by (simp_all add: counts_def)
  from cs live now(2) Cons.prems(5) have e': "expires_by key ks' e" unfolding counts_def by blast
  have le: "?now \<le> ?next" using Cons.prems(2) by (simp add: clock_ok_def)
  have "allowed rs1 \<le> max 0 (limit - counted key ?next ks')"
    using Cons.IH [OF rest [unfolded rd1] clock_ok_step [OF Cons.prems(2)]] is_counter_mono [OF c(1) le]
      Cons.prems(4) e' checks_within_tail [OF Cons.prems(6)] by simp
  moreover have "counted key ?next ks' = counted key ?now ks'" if "ns \<noteq> []"
  proof -
    have "?next < e" using checks_within_next [OF checks_within_tail [OF Cons.prems(6)] that] .
    with e' now show ?thesis by (auto simp: counted_def live_def expires_by_def)
  qed
  moreover have "allowed rs1 = 0" if "ns = []" using rest that by auto
  ultimately show ?case using c(2) al rs by (cases "ns = []") auto
qed simp

lemma allowed_from_expired:
  assumes "run_state (collect (\<lambda>_. checkLimit key limit window) ns) rd = (Inr rs, rd')" "clock_ok rd"
    and "live (rd_now rd (rd_step rd)) (rd_keys rd) key = None" "window div Second > 0"
    and "checks_within rd ns T (T + window div Second * Second)" "0 \<le> limit"
  shows "allowed rs \<le> limit"
  using assms
proof (induction ns arbitrary: rd rs)
  case (Cons n ns)
  let ?now = "rd_now rd (rd_step rd)" and ?next = "rd_now rd (Suc (rd_step rd))" and ?w = "window div Second * Second"
  from Cons.prems(1) obtain r rd1 rs1 where r: "run_state (checkLimit key limit window) rd = (Inr r, rd1)"
    and rest: "run_state (collect (\<lambda>_. checkLimit key limit window) ns) rd1 = (Inr rs1, rd')" and rs: "rs = r # rs1"
    by (auto split: prod.splits sum.splits)
  have c0: "is_counter key ?now (rd_keys rd)" "counted key ?now (rd_keys rd) = 0"
    using Cons.prems(3) by (simp_all add: is_counter_def counted_def)
  obtain ks' where rd1: "rd1 = rd\<lparr>rd_step := Suc (rd_step rd), rd_keys := ks'\<rparr>"
    and cs: "counts key limit (window div Second) ?now (rd_keys rd) (rr_Allowed r) ks'"
    using checkLimit_step [OF r c0(1) Cons.prems(4)] .
  from cs c0(2) Cons.prems(3) have al: "rr_Allowed r \<longleftrightarrow> 0 < limit" and c: "is_counter key ?now ks'"
    "counted key ?now ks' = (if rr_Allowed r then 1 else 0)"
    and new: "rr_Allowed r \<Longrightarrow> expires_by key ks' (?now + ?w)" and same: "\<not> rr_Allowed r \<Longrightarrow> ks' = rd_keys rd"
    by (simp_all add: counts_def)
  have le: "?now \<le> ?next" using Cons.prems(2) by (simp add: clock_ok_def)
  have win: "checks_within rd1 ns T (T + ?w)" and T: "T \<le> ?now"
    using checks_within_tail [OF Cons.prems(5)] checks_within_head [OF Cons.prems(5)] by (simp_all add: rd1)
  show ?case
  proof (cases "rr_Allowed r")
    case True
    have exp: "expires_by key ks' (T + ?w)" using new [OF True] T by (auto simp: expires_by_def)
    have "allowed rs1 \<le> max 0 (limit - counted key ?next ks')"
      using allowed_before_expiry [OF rest [unfolded rd1] clock_ok_step [OF Cons.prems(2)] _ Cons.prems(4), of "T + ?w"]
        is_counter_mono [OF c(1) le] exp win by (simp add: rd1)
    moreover have "counted key ?next ks' = 1" if "ns \<noteq> []"
    proof -
      have "?next < T + ?w" using checks_within_next [OF win [unfolded rd1] that] .
      with exp le c(2) True show ?thesis by (auto simp: counted_def live_def expires_by_def)
    qed
    moreover have "allowed rs1 = 0" if "ns = []" using rest that by auto
    ultimately show ?thesis using al True rs by (cases "ns = []") auto
  next
    case False
    with same have "live ?next ks' key = None" using live_later [OF Cons.prems(3) le] by simp
    with Cons.IH [OF rest [unfolded rd1] clock_ok_step [OF Cons.prems(2)] _ Cons.prems(4)] win Cons.prems(6)
    show ?thesis using False rs by (simp add: rd1)
  qed
qed simp

lemma allowed_in_window:
  assumes "run_state (collect (\<lambda>_. checkLimit key limit window) ns) rd = (Inr rs, rd')" "clock_ok rd"
    and "is_counter key (rd_now rd (rd_step rd)) (rd_keys rd)" "window div Second > 0"
    and "checks_within rd ns T (T + window div Second * Second)" "0 \<le> limit"
  shows "allowed rs \<le> max 0 (limit - counted key (rd_now rd (rd_step rd)) (rd_keys rd)) + limit"
  using assms
proof (induction ns arbitrary: rd rs)
  case (Cons n ns)
  let ?now = "rd_now rd (rd_step rd)" and ?next = "rd_now rd (Suc (rd_step rd))"
  from Cons.prems(1) obtain r rd1 rs1 where r: "run_state (checkLimit key limit window) rd = (Inr r, rd1)"
    and rest: "run_state (collect (\<lambda>_. checkLimit key limit window) ns) rd1 = (Inr rs1, rd')" and rs: "rs = r # rs1"
    by (auto split: prod.splits sum.splits)
  obtain ks' where rd1: "rd1 = rd\<lparr>rd_step := Suc (rd_step rd), rd_keys := ks'\<rparr>"
    and cs: "counts key limit (window div Second) ?now (rd_keys rd) (rr_Allowed r) ks'"
    using checkLimit_step [OF r Cons.prems(3,4)] .
  from cs have al: "rr_Allowed r \<longleftrightarrow> counted key ?now (rd_keys rd) < limit" and c: "is_counter key ?now ks'"
    "counted key ?now ks' = counted key ?now (rd_keys rd) + (if rr_Allowed r then 1 else 0)"
    by (simp_all add: counts_def)
  have le: "?now \<le> ?next" using Cons.prems(2) by (simp add: clock_ok_def)
  have win: "checks_within rd1 ns T (T + window div Second * Second)"
    using checks_within_tail [OF Cons.prems(5)] checks_within_head [OF Cons.prems(5)] by (simp_all add: rd1)
  note next_ok = rest [unfolded rd1] clock_ok_step [OF Cons.prems(2)]
  show ?case
  proof (cases "live ?next ks' key = None")
    case True
    with allowed_from_expired [OF next_ok _ Cons.prems(4) win [unfolded rd1] Cons.prems(6)]
    have "allowed rs1 \<le> limit" by simp
    with al rs show ?thesis by auto
  next
    case False
    then have "counted key ?next ks' = counted key ?now ks'"
      using live_mono [OF _ le] by (auto simp: counted_def)
    moreover have "allowed rs1 \<le> max 0 (limit - counted key ?next ks') + limit"
      using Cons.IH [OF next_ok _ Cons.prems(4)] is_counter_mono [OF c(1) le] win Cons.prems(6) by (simp add: rd1)
    ultimately show ?thesis using c(2) al rs by auto
  qed
qed simp

text \<open>
  C34. Of the messages that a user asks to send within one window, however they are timed and whatever
  was counted before, at most twice the limit is allowed (the counter may expire once in between). The
  window starts with the first message and not, as the comment says, with each.
\<close>

theorem AllowMessage_twice_per_window:
  assumes "run_state (collect (\<lambda>_. AllowMessage r userID) ns) rd = (Inr rs, rd')" "clock_ok rd"
    and "is_counter (messages_key userID) (rd_now rd (rd_step rd)) (rd_keys rd)"
    and "checks_within rd ns T (T + MessageWindow r)"
    and "MessageWindow r = n * Second" "0 < n" "0 \<le> MessageLimit r"
  shows "allowed rs \<le> 2 * MessageLimit r"
proof -
  from assms(5,6) have w: "MessageWindow r div Second * Second = MessageWindow r" "MessageWindow r div Second > 0"
    by simp_all
  from allowed_in_window [of "messages_key userID" "MessageLimit r" "MessageWindow r" ns rd rs rd' T] assms w
  have "allowed rs \<le> max 0 (MessageLimit r - counted (messages_key userID) (rd_now rd (rd_step rd)) (rd_keys rd)) + MessageLimit r"
    by (simp add: AllowMessage_def)
  with counted_nonneg [OF assms(3)] assms(7) show ?thesis by auto
qed

lemma AllowMessage_twice_per_window_witness:
  "\<exists>rs rd'. run_state (collect (\<lambda>_. AllowMessage DefaultRateLimitConfig ''ann'') [1, 2 :: nat]) empty_redis = (Inr rs, rd') \<and>
     rs \<noteq> [] \<and> allowed rs \<le> 2 * MessageLimit DefaultRateLimitConfig"
proof -
  obtain rs rd' where run: "run_state (collect (\<lambda>_. AllowMessage DefaultRateLimitConfig ''ann'') [1, 2 :: nat]) empty_redis = (Inr rs, rd')"
    and "rs \<noteq> []"
    by (simp add: AllowMessage_def checkLimit_def run_command limit_script_def script_current_def empty_redis_def
        live_def incr_key_def ttl_key_def expire_key_def DefaultRateLimitConfig_def messages_key_def Let_def)
  moreover have "allowed rs \<le> 2 * MessageLimit DefaultRateLimitConfig"
    by (rule AllowMessage_twice_per_window [OF run, where T = 0 and n = 60])
      (simp_all add: clock_ok_def is_counter_def checks_within_def empty_redis_def live_def DefaultRateLimitConfig_def)
  ultimately show ?thesis by blast
qed

text \<open>
  A message that has been allowed is counted already; consuming it, as the comment of
  \<^verbatim>\<open>ConsumeMessage\<close> asks for, counts it again and renews the whole window.
\<close>

lemma ConsumeMessage_counts_twice:
  assumes "rd_keys rd (messages_key u) = None" "\<And>i. rd_fault rd i = None" "\<And>i. rd_now rd i = t"
    "0 < MessageLimit r" "MessageWindow r = n * Second" "0 < n"
  shows "counted (messages_key u) t (rd_keys (snd (run_state (ConsumeMessage r u) (snd (run_state (AllowMessage r u) rd))))) = 2"
  using assms
  by (simp add: AllowMessage_def checkLimit_def run_command limit_script_def script_current_def
      live_def incr_key_def ttl_key_def expire_key_def ConsumeMessage_def limiter_consume_def redis_Incr_def
      redis_Expire_def counted_def Let_def)

end
