(* ===== verification/Cache.thy ===== *)
theory Cache
  imports Redis Domain UuidText
begin

text \<open>
  The Redis cache (\<^verbatim>\<open>internal/redis/cache.go\<close>): sessions, users, conversations and participants, each
  stored as JSON under a key made from an identifier, for a limited time. The four kinds share one
  pattern, of which the locale \<open>json_cache\<close> states the laws: the encoding can be undone and the keys of
  different identifiers differ. \<open>scan\<close> gives the keys that the iteration of \<^verbatim>\<open>SCAN\<close> with a pattern
  returns.
\<close>

section \<open>Definitions\<close>

record CacheConfig =
  SessionTTL :: duration
  UserTTL :: duration
  ConversationTTL :: duration

definition DefaultCacheConfig :: CacheConfig where
  "DefaultCacheConfig = \<lparr>SessionTTL = 15 * Minute, UserTTL = 5 * Minute, ConversationTTL = 5 * Minute\<rparr>"

text \<open>
  \<^verbatim>\<open>Get\<close> and \<^verbatim>\<open>json.Unmarshal\<close>: \<open>None\<close> is a cache miss. The text of a counter is a number, which is
  none of the cached types.
\<close>

definition cacheGet :: "string \<Rightarrow> (json \<Rightarrow> 'a option) \<Rightarrow> 'a option redis_cmd" where
  "cacheGet key dec = andThen (redis_Get key) (\<lambda>data.
     case data of
       None \<Rightarrow> ok None
     | Some (RJson j) \<Rightarrow>
         (case dec j of None \<Rightarrow> fail (OtherError ''json: cannot unmarshal'') | Some x \<Rightarrow> ok (Some x))
     | Some _ \<Rightarrow> fail (OtherError ''json: cannot unmarshal''))"

subsection \<open>Sessions\<close>

record SessionCache =
  sc_SessionID :: uuid
  sc_UserID :: uuid
  sc_DeviceID :: string
  sc_ExpiresAt :: time
  sc_LastActive :: time

definition session_json :: "SessionCache \<Rightarrow> json" where
  "session_json s = JObj ([(''session_id'', JUUID (sc_SessionID s)), (''user_id'', JUUID (sc_UserID s))] @
     unless_empty ''device_id'' (sc_DeviceID s) @
     [(''expires_at'', JTime (sc_ExpiresAt s)), (''last_active'', JTime (sc_LastActive s))])"

fun decode_SessionCache :: "json \<Rightarrow> SessionCache option" where
  "decode_SessionCache (JObj fs) =
     Option.bind (as_uuid (field fs ''session_id'')) (\<lambda>i.
     Option.bind (as_uuid (field fs ''user_id'')) (\<lambda>u.
     Option.bind (as_string (field fs ''device_id'')) (\<lambda>d.
     Option.bind (as_time (field fs ''expires_at'')) (\<lambda>e.
     Option.bind (as_time (field fs ''last_active'')) (\<lambda>l.
       Some \<lparr>sc_SessionID = i, sc_UserID = u, sc_DeviceID = d, sc_ExpiresAt = e, sc_LastActive = l\<rparr>)))))"
| "decode_SessionCache JNull = Some \<lparr>sc_SessionID = uuid_Nil, sc_UserID = uuid_Nil, sc_DeviceID = [],
     sc_ExpiresAt = 0, sc_LastActive = 0\<rparr>"
| "decode_SessionCache _ = None"

definition session_key :: "uuid \<Rightarrow> string" where
  "session_key i = ''session:'' @ uuid_String i"

definition cache_GetSession :: "uuid \<Rightarrow> SessionCache option redis_cmd" where
  "cache_GetSession i = cacheGet (session_key i) decode_SessionCache"

definition cache_SetSession :: "CacheConfig \<Rightarrow> SessionCache \<Rightarrow> unit redis_cmd" where
  "cache_SetSession c s = redis_Set (session_key (sc_SessionID s)) (session_json s) (SessionTTL c)"

definition SetSessionFromEntity :: "CacheConfig \<Rightarrow> UserSession \<Rightarrow> time \<Rightarrow> unit redis_cmd" where
  "SetSessionFromEntity c session now = cache_SetSession c \<lparr>sc_SessionID = ses_ID session,
     sc_UserID = ses_UserID session,
     sc_DeviceID = (case ses_DeviceID session of None \<Rightarrow> [] | Some d \<Rightarrow> uuid_String d),
     sc_ExpiresAt = ses_ExpiresAt session, sc_LastActive = now\<rparr>"

definition RefreshSession :: "CacheConfig \<Rightarrow> uuid \<Rightarrow> unit redis_cmd" where
  "RefreshSession c i = redis_Expire (session_key i) (SessionTTL c)"

definition InvalidateSession :: "uuid \<Rightarrow> unit redis_cmd" where
  "InvalidateSession i = redis_Del [session_key i]"

fun sessionsToDelete :: "uuid \<Rightarrow> string list \<Rightarrow> (redis, string list) state" where
  "sessionsToDelete u [] = State_Monad.return []"
| "sessionsToDelete u (key # keys) = do {
     data \<leftarrow> redis_Get key;
     rest \<leftarrow> sessionsToDelete u keys;
     State_Monad.return (case data of
       Inr (Some (RJson j)) \<Rightarrow>
         (case decode_SessionCache j of
            Some s \<Rightarrow> if sc_UserID s = u then key # rest else rest
          | None \<Rightarrow> rest)
     | _ \<Rightarrow> rest)
   }"

definition InvalidateUserSessions :: "(string \<Rightarrow> string list) \<Rightarrow> uuid \<Rightarrow> unit redis_cmd" where
  "InvalidateUserSessions scan u = do {
     keysToDelete \<leftarrow> sessionsToDelete u (scan ''session:*'');
     (if keysToDelete \<noteq> [] then redis_Del keysToDelete else ok ())
   }"

subsection \<open>Users\<close>

record UserCache =
  uc_ID :: uuid
  uc_Username :: string
  uc_DisplayName :: string
  uc_AvatarURL :: string
  uc_IsOnline :: bool
  uc_LastSeenAt :: time
  uc_Role :: string

definition user_json :: "UserCache \<Rightarrow> json" where
  "user_json u = JObj ([(''id'', JUUID (uc_ID u))] @ unless_empty ''username'' (uc_Username u) @
     [(''display_name'', JStr (uc_DisplayName u))] @ unless_empty ''avatar_url'' (uc_AvatarURL u) @
     [(''is_online'', JBool (uc_IsOnline u)), (''last_seen_at'', JTime (uc_LastSeenAt u)),
      (''role'', JStr (uc_Role u))])"

fun decode_UserCache :: "json \<Rightarrow> UserCache option" where
  "decode_UserCache (JObj fs) =
     Option.bind (as_uuid (field fs ''id'')) (\<lambda>i.
     Option.bind (as_string (field fs ''username'')) (\<lambda>n.
     Option.bind (as_string (field fs ''display_name'')) (\<lambda>d.
     Option.bind (as_string (field fs ''avatar_url'')) (\<lambda>a.
     Option.bind (as_bool (field fs ''is_online'')) (\<lambda>b.
     Option.bind (as_time (field fs ''last_seen_at'')) (\<lambda>l.
     Option.bind (as_string (field fs ''role'')) (\<lambda>r.
       Some \<lparr>uc_ID = i, uc_Username = n, uc_DisplayName = d, uc_AvatarURL = a, uc_IsOnline = b,
         uc_LastSeenAt = l, uc_Role = r\<rparr>)))))))"
| "decode_UserCache JNull = Some \<lparr>uc_ID = uuid_Nil, uc_Username = [], uc_DisplayName = [],
     uc_AvatarURL = [], uc_IsOnline = False, uc_LastSeenAt = 0, uc_Role = []\<rparr>"
| "decode_UserCache _ = None"

definition user_key :: "uuid \<Rightarrow> string" where
  "user_key i = ''user:'' @ uuid_String i"

definition cache_GetUser :: "uuid \<Rightarrow> UserCache option redis_cmd" where
  "cache_GetUser i = cacheGet (user_key i) decode_UserCache"

definition cache_SetUser :: "CacheConfig \<Rightarrow> UserCache \<Rightarrow> unit redis_cmd" where
  "cache_SetUser c u = redis_Set (user_key (uc_ID u)) (user_json u) (UserTTL c)"

definition SetUserFromEntity :: "CacheConfig \<Rightarrow> User \<Rightarrow> unit redis_cmd" where
  "SetUserFromEntity c u = cache_SetUser c \<lparr>uc_ID = usr_ID u,
     uc_Username = (case usr_Username u of None \<Rightarrow> [] | Some n \<Rightarrow> n),
     uc_DisplayName = usr_DisplayName u, uc_AvatarURL = usr_AvatarURL u, uc_IsOnline = usr_IsOnline u,
     uc_LastSeenAt = (case usr_LastSeenAt u of None \<Rightarrow> 0 | Some t \<Rightarrow> t), uc_Role = usr_Role u\<rparr>"

definition InvalidateUser :: "uuid \<Rightarrow> unit redis_cmd" where
  "InvalidateUser i = redis_Del [user_key i]"

text \<open>The replies of the pipeline by identifier; a repeated identifier keeps the last.\<close>

fun fetchUsers :: "uuid list \<Rightarrow> (uuid \<times> (error + UserCache option)) list \<Rightarrow>
    (redis, (uuid \<times> (error + UserCache option)) list) state" where
  "fetchUsers [] cmds = State_Monad.return cmds"
| "fetchUsers (u # us) cmds = do { r \<leftarrow> cache_GetUser u; fetchUsers us (map_put u r cmds) }"

definition GetMultipleUsers ::
  "uuid list \<Rightarrow> (redis, (uuid \<times> UserCache) list \<times> uuid list) state" where
  "GetMultipleUsers userIDs = do {
     cmds \<leftarrow> fetchUsers userIDs [];
     State_Monad.return
       ([(u, x). (u, r) \<leftarrow> cmds, x \<leftarrow> (case r of Inr (Some x) \<Rightarrow> [x] | _ \<Rightarrow> [])],
        [u. (u, r) \<leftarrow> cmds, case r of Inr (Some x) \<Rightarrow> False | _ \<Rightarrow> True])
   }"

subsection \<open>Conversations and their participants\<close>

record ConversationCache =
  cc_ID :: uuid
  cc_Type :: string
  cc_Subject :: string
  cc_Description :: string
  cc_AvatarURL :: string
  cc_DisappearingMode :: string
  cc_CreatedBy :: uuid
  cc_CreatedAt :: time

definition conversation_json :: "ConversationCache \<Rightarrow> json" where
  "conversation_json c = JObj ([(''id'', JUUID (cc_ID c)), (''type'', JStr (cc_Type c))] @
     unless_empty ''subject'' (cc_Subject c) @ unless_empty ''description'' (cc_Description c) @
     unless_empty ''avatar_url'' (cc_AvatarURL c) @
     [(''disappearing_mode'', JStr (cc_DisappearingMode c)), (''created_by'', JUUID (cc_CreatedBy c)),
      (''created_at'', JTime (cc_CreatedAt c))])"

fun decode_ConversationCache :: "json \<Rightarrow> ConversationCache option" where
  "decode_ConversationCache (JObj fs) =
     Option.bind (as_uuid (field fs ''id'')) (\<lambda>i.
     Option.bind (as_string (field fs ''type'')) (\<lambda>ty.
     Option.bind (as_string (field fs ''subject'')) (\<lambda>s.
     Option.bind (as_string (field fs ''description'')) (\<lambda>d.
     Option.bind (as_string (field fs ''avatar_url'')) (\<lambda>a.
     Option.bind (as_string (field fs ''disappearing_mode'')) (\<lambda>m.
     Option.bind (as_uuid (field fs ''created_by'')) (\<lambda>b.
     Option.bind (as_time (field fs ''created_at'')) (\<lambda>t.
       Some \<lparr>cc_ID = i, cc_Type = ty, cc_Subject = s, cc_Description = d, cc_AvatarURL = a,
         cc_DisappearingMode = m, cc_CreatedBy = b, cc_CreatedAt = t\<rparr>))))))))"
| "decode_ConversationCache JNull = Some \<lparr>cc_ID = uuid_Nil, cc_Type = [], cc_Subject = [],
     cc_Description = [], cc_AvatarURL = [], cc_DisappearingMode = [], cc_CreatedBy = uuid_Nil,
     cc_CreatedAt = 0\<rparr>"
| "decode_ConversationCache _ = None"

definition conversation_key :: "uuid \<Rightarrow> string" where
  "conversation_key i = ''conversation:'' @ uuid_String i"

definition participants_key :: "uuid \<Rightarrow> string" where
  "participants_key i = ''conversation:'' @ uuid_String i @ '':participants''"

definition cache_GetConversation :: "uuid \<Rightarrow> ConversationCache option redis_cmd" where
  "cache_GetConversation i = cacheGet (conversation_key i) decode_ConversationCache"

definition cache_SetConversation :: "CacheConfig \<Rightarrow> ConversationCache \<Rightarrow> unit redis_cmd" where
  "cache_SetConversation c conv =
     redis_Set (conversation_key (cc_ID conv)) (conversation_json conv) (ConversationTTL c)"

definition SetConversationFromEntity :: "CacheConfig \<Rightarrow> Conversation \<Rightarrow> unit redis_cmd" where
  "SetConversationFromEntity c conv = cache_SetConversation c \<lparr>cc_ID = conv_ID conv,
     cc_Type = conv_Type conv, cc_Subject = opt_string (conv_Subject conv),
     cc_Description = opt_string (conv_Description conv), cc_AvatarURL = opt_string (conv_AvatarURL conv),
     cc_DisappearingMode = conv_DisappearingMode conv,
     cc_CreatedBy = (case conv_CreatedBy conv of None \<Rightarrow> uuid_Nil | Some u \<Rightarrow> u),
     cc_CreatedAt = conv_CreatedAt conv\<rparr>"

definition InvalidateConversation :: "uuid \<Rightarrow> unit redis_cmd" where
  "InvalidateConversation i = redis_Del [conversation_key i, participants_key i]"

text \<open>The empty list stands for the nil slice too.\<close>

definition participants_json :: "uuid list \<Rightarrow> json" where
  "participants_json us = JArr (map JUUID us)"

definition cache_GetConversationParticipants :: "uuid \<Rightarrow> uuid list option redis_cmd" where
  "cache_GetConversationParticipants i = cacheGet (participants_key i) (as_list as_uuid)"

definition cache_SetConversationParticipants :: "CacheConfig \<Rightarrow> uuid \<Rightarrow> uuid list \<Rightarrow> unit redis_cmd" where
  "cache_SetConversationParticipants c i us =
     redis_Set (participants_key i) (participants_json us) (ConversationTTL c)"

definition InvalidateConversationParticipants :: "uuid \<Rightarrow> unit redis_cmd" where
  "InvalidateConversationParticipants i = redis_Del [participants_key i]"

definition cache_Ping :: "unit redis_cmd" where
  "cache_Ping = command (\<lambda>_ ks. Inr ((), ks))"

definition cache_FlushAll :: "unit redis_cmd" where
  "cache_FlushAll = command (\<lambda>_ _. Inr ((), \<lambda>_. None))"

record CacheStats =
  SessionCount :: int
  UserCount :: int
  ConversationCount :: int

definition GetStats :: "(string \<Rightarrow> string list) \<Rightarrow> CacheStats" where
  "GetStats scan = \<lparr>SessionCount = int (length (scan ''session:*'')),
     UserCount = int (length (scan ''user:*'')), ConversationCount = int (length (scan ''conversation:*''))\<rparr>"

section \<open>The laws of a cache\<close>

definition read_value :: "(redis_value \<times> time option) option \<Rightarrow> error + redis_value option" where
  "read_value x = (case x of
     None \<Rightarrow> Inr None
   | Some (RInt i, _) \<Rightarrow> Inr (Some (RInt i))
   | Some (RJson j, _) \<Rightarrow> Inr (Some (RJson j))
   | _ \<Rightarrow> Inl WRONGTYPE)"

lemma read_value_simps [simp]:
  "read_value None = Inr None" "read_value (Some (RInt i, e)) = Inr (Some (RInt i))"
  "read_value (Some (RJson j, e)) = Inr (Some (RJson j))"
  by (simp_all add: read_value_def)

lemma read_value_RJson: "read_value x = Inr (Some (RJson j)) \<Longrightarrow> \<exists>e. x = Some (RJson j, e)"
  by (auto simp: read_value_def split: option.splits redis_value.splits prod.splits)

lemma run_Get:
  "rd_fault rd (rd_step rd) = None \<Longrightarrow> run_state (redis_Get k) rd =
     (read_value (live (rd_now rd (rd_step rd)) (rd_keys rd) k), rd\<lparr>rd_step := Suc (rd_step rd)\<rparr>)"
  by (auto simp: redis_Get_def run_command read_value_def split: option.split redis_value.split prod.split)

lemma run_Get_fault:
  "rd_fault rd (rd_step rd) = Some m \<Longrightarrow>
   run_state (redis_Get k) rd = (Inl (OtherError m), rd\<lparr>rd_step := Suc (rd_step rd)\<rparr>)"
  by (simp add: redis_Get_def run_command)

lemma cacheGet_Some:
  assumes "fst (run_state (cacheGet k dec) rd) = Inr (Some x)"
  obtains j e where "live (rd_now rd (rd_step rd)) (rd_keys rd) k = Some (RJson j, e)" "dec j = Some x"
proof (cases "rd_fault rd (rd_step rd)")
  case None
  let ?v = "read_value (live (rd_now rd (rd_step rd)) (rd_keys rd) k)"
  from assms None obtain j where "?v = Inr (Some (RJson j))" "dec j = Some x"
    by (auto simp: cacheGet_def run_Get split: sum.splits option.splits redis_value.splits)
  with read_value_RJson that show ?thesis by metis
next
  case (Some m)
  with assms show ?thesis by (simp add: cacheGet_def run_Get_fault)
qed

lemma fold_del: "fold (\<lambda>k m. m(k := None)) ks m k = (if k \<in> set ks then None else m k)"
  by (induction ks arbitrary: m) auto

locale json_cache =
  fixes key_of :: "'k \<Rightarrow> string" and enc :: "'a \<Rightarrow> json" and dec :: "json \<Rightarrow> 'a option"
  assumes dec_enc: "dec (enc x) = Some x"
    and key_inj: "key_of i = key_of j \<Longrightarrow> i = j"
begin

lemma get_after_set:
  assumes "run_state (redis_Set (key_of i) (enc x) ttl) rd = (Inr (), rd1)" "0 < ttl"
    and "rd_fault rd1 (rd_step rd1) = None"
  shows "fst (run_state (cacheGet (key_of i) dec) rd1) =
    Inr (if rd_now rd1 (rd_step rd1) < rd_now rd (rd_step rd) + ttl then Some x else None)"
proof -
  from assms(1,2) have "rd_keys rd1 (key_of i) = Some (RJson (enc x), Some (rd_now rd (rd_step rd) + ttl))"
    by (auto simp: redis_Set_def command_Inr)
  then have "live (rd_now rd1 (rd_step rd1)) (rd_keys rd1) (key_of i) =
      (if rd_now rd1 (rd_step rd1) < rd_now rd (rd_step rd) + ttl
       then Some (RJson (enc x), Some (rd_now rd (rd_step rd) + ttl)) else None)"
    by (simp add: live_def)
  with assms(3) show ?thesis by (simp add: cacheGet_def run_Get dec_enc)
qed

lemma get_other:
  assumes "run_state (redis_Set (key_of j) v ttl) rd = (Inr (), rd1)" "i \<noteq> j"
  shows "rd_keys rd1 (key_of i) = rd_keys rd (key_of i)"
  using assms key_inj by (auto simp: redis_Set_def command_Inr)

lemma get_after_del:
  assumes "run_state (redis_Del ks) rd = (Inr (), rd1)" "key_of i \<in> set ks"
    and "rd_fault rd1 (rd_step rd1) = None"
  shows "fst (run_state (cacheGet (key_of i) dec) rd1) = Inr None"
proof -
  from assms have "rd_keys rd1 (key_of i) = None" by (auto simp: redis_Del_def command_Inr fold_del)
  with assms(3) show ?thesis by (simp add: cacheGet_def run_Get live_def)
qed

end

interpretation session_cache: json_cache session_key session_json decode_SessionCache
  by unfold_locales (auto simp: session_json_def unless_empty_def session_key_def field_def)

interpretation user_cache: json_cache user_key user_json decode_UserCache
  by unfold_locales (auto simp: user_json_def unless_empty_def user_key_def field_def)

interpretation conversation_cache: json_cache conversation_key conversation_json decode_ConversationCache
  by unfold_locales (auto simp: conversation_json_def unless_empty_def conversation_key_def field_def)

lemma all_some_uuids [simp]: "all_some (map (as_uuid \<circ> JUUID) us) = Some us"
  by (induction us) simp_all

interpretation participants_cache: json_cache participants_key participants_json "as_list as_uuid"
  by unfold_locales (auto simp: participants_json_def as_list_def participants_key_def)

section \<open>What the caches give back\<close>

text \<open>
  C33. A session that has been cached is given back unchanged until its time is over and is a miss
  afterwards; once it has been invalidated it is a miss; and caching one session leaves the others.
\<close>

theorem Session_cache_roundtrip:
  assumes "run_state (cache_SetSession c s) rd = (Inr (), rd1)" "0 < SessionTTL c"
    and "rd_fault rd1 (rd_step rd1) = None"
    and "run_state (InvalidateSession (sc_SessionID s)) rd1 = (Inr (), rd2)" "rd_fault rd2 (rd_step rd2) = None"
  shows "fst (run_state (cache_GetSession (sc_SessionID s)) rd1) =
      Inr (if rd_now rd1 (rd_step rd1) < rd_now rd (rd_step rd) + SessionTTL c then Some s else None) \<and>
    fst (run_state (cache_GetSession (sc_SessionID s)) rd2) = Inr None \<and>
    (\<forall>j. j \<noteq> sc_SessionID s \<longrightarrow> rd_keys rd1 (session_key j) = rd_keys rd (session_key j))"
  using assms session_cache.get_after_set [of "sc_SessionID s" s "SessionTTL c" rd rd1]
    session_cache.get_other [of "sc_SessionID s" "session_json s" "SessionTTL c" rd rd1]
    session_cache.get_after_del [of "[session_key (sc_SessionID s)]" rd1 rd2 "sc_SessionID s"]
  by (auto simp: cache_SetSession_def cache_GetSession_def InvalidateSession_def)

definition sample_cache_redis :: redis where
  "sample_cache_redis = \<lparr>rd_keys = (\<lambda>_. None), rd_step = 0, rd_now = int, rd_fault = (\<lambda>_. None)\<rparr>"

definition sample_session :: SessionCache where
  "sample_session = \<lparr>sc_SessionID = 7, sc_UserID = 1, sc_DeviceID = [], sc_ExpiresAt = 100, sc_LastActive = 0\<rparr>"

definition sample_cached :: redis where
  "sample_cached = sample_cache_redis\<lparr>rd_step := 1, rd_keys := [session_key 7 \<mapsto>
     (RJson (session_json sample_session), Some (15 * Minute))]\<rparr>"

lemma Session_cache_roundtrip_witness:
  "fst (run_state (cache_GetSession 7) sample_cached) = Inr (Some sample_session)"
proof -
  have "run_state (cache_SetSession DefaultCacheConfig sample_session) sample_cache_redis = (Inr (), sample_cached)"
    by (simp add: cache_SetSession_def redis_Set_def run_command sample_cache_redis_def sample_cached_def
        sample_session_def DefaultCacheConfig_def)
  moreover have "run_state (InvalidateSession (sc_SessionID sample_session)) sample_cached =
      (Inr (), sample_cache_redis\<lparr>rd_step := 2\<rparr>)"
    by (simp add: InvalidateSession_def redis_Del_def run_command sample_cached_def sample_cache_redis_def
        sample_session_def)
  ultimately show ?thesis
    using Session_cache_roundtrip [of DefaultCacheConfig sample_session sample_cache_redis sample_cached
        "sample_cache_redis\<lparr>rd_step := 2\<rparr>"]
    by (simp add: sample_cached_def sample_cache_redis_def sample_session_def DefaultCacheConfig_def)
qed

text \<open>Invalidating the sessions of a user.\<close>

lemma sessionsToDelete_run:
  assumes "run_state (sessionsToDelete u keys) rd = (del, rd1)"
  shows "rd_keys rd1 = rd_keys rd \<and> rd_step rd \<le> rd_step rd1 \<and> rd_now rd1 = rd_now rd \<and> rd_fault rd1 = rd_fault rd"
  using assms
proof (induction keys arbitrary: rd del rd1)
  case (Cons k keys)
  obtain d where g: "run_state (redis_Get k) rd = (d, rd\<lparr>rd_step := Suc (rd_step rd)\<rparr>)"
    by (cases "rd_fault rd (rd_step rd)") (auto simp: run_Get run_Get_fault)
  obtain del2 where "run_state (sessionsToDelete u keys) (rd\<lparr>rd_step := Suc (rd_step rd)\<rparr>) = (del2, rd1)"
    using Cons.prems g by (auto split: prod.splits)
  from Cons.IH [OF this] show ?case by simp
qed auto

lemma sessionsToDelete_complete:
  assumes "run_state (sessionsToDelete u keys) rd = (del, rd1)" "\<And>i. rd_fault rd i = None"
    and "\<And>i j. i \<le> j \<Longrightarrow> rd_now rd i \<le> rd_now rd j"
    and "k \<in> set keys" "live (rd_now rd n) (rd_keys rd) k = Some (RJson j, e)" "rd_step rd1 \<le> n"
    and "decode_SessionCache j = Some s" "sc_UserID s = u"
  shows "k \<in> set del"
  using assms
proof (induction keys arbitrary: rd del)
  case (Cons k' keys)
  let ?rd2 = "rd\<lparr>rd_step := Suc (rd_step rd)\<rparr>"
  obtain d where g: "run_state (redis_Get k') rd = (d, ?rd2)"
    and d: "live (rd_now rd (rd_step rd)) (rd_keys rd) k' = Some (RJson j, e) \<Longrightarrow> d = Inr (Some (RJson j))"
    using run_Get [of rd k'] Cons.prems(2) by (metis read_value_simps(3))
  then obtain del2 where del2: "run_state (sessionsToDelete u keys) ?rd2 = (del2, rd1)"
    using Cons.prems(1) by (auto split: prod.splits)
  from sessionsToDelete_run [OF this] have "rd_step rd \<le> n" using Cons.prems(6) by simp
  then have early: "live (rd_now rd (rd_step rd)) (rd_keys rd) k = Some (RJson j, e)"
    using Cons.prems(3) [of "rd_step rd" n] Cons.prems(5)
    by (auto simp: live_def split: option.splits prod.splits if_splits)
  show ?case
  proof (cases "k = k'")
    case True
    with early d have "d = Inr (Some (RJson j))" by simp
    with g del2 Cons.prems(1,7,8) True show ?thesis by (auto split: prod.splits)
  next
    case False
    with Cons.IH [OF del2] Cons.prems have "k \<in> set del2" by simp
    with g del2 Cons.prems(1) show ?thesis
      by (auto split: prod.splits sum.splits option.splits redis_value.splits if_splits)
  qed
qed simp

text \<open>
  After \<^verbatim>\<open>InvalidateUserSessions\<close> no session of that user can be read from the cache any more,
  provided the scan returns every key that exists while it runs, which Redis guarantees.
\<close>

theorem InvalidateUserSessions_complete:
  assumes "run_state (InvalidateUserSessions scan u) rd = (Inr (), rd1)" "\<And>i. rd_fault rd i = None"
    and "\<And>i j. i \<le> j \<Longrightarrow> rd_now rd i \<le> rd_now rd j"
    and "\<And>i. rd_keys rd (session_key i) \<noteq> None \<Longrightarrow> session_key i \<in> set (scan ''session:*'')"
    and "fst (run_state (cache_GetSession i) rd1) = Inr (Some s)"
  shows "sc_UserID s \<noteq> u"
proof
  assume u: "sc_UserID s = u"
  obtain del rd2 where del: "run_state (sessionsToDelete u (scan ''session:*'')) rd = (del, rd2)" by fastforce
  from sessionsToDelete_run [OF del] have same: "rd_keys rd2 = rd_keys rd" "rd_now rd2 = rd_now rd"
    "rd_fault rd2 = rd_fault rd" by simp_all
  have rd1: "rd_keys rd1 k = (if k \<in> set del then None else rd_keys rd k)" "rd_now rd1 = rd_now rd"
    "rd_step rd2 \<le> rd_step rd1" for k
    using assms(1) del same by (auto simp: InvalidateUserSessions_def redis_Del_def command_Inr fold_del split: if_splits)
  obtain j e where "live (rd_now rd1 (rd_step rd1)) (rd_keys rd1) (session_key i) = Some (RJson j, e)"
    and dec: "decode_SessionCache j = Some s"
    using cacheGet_Some [OF assms(5) [unfolded cache_GetSession_def]] .
  then have notdel: "session_key i \<notin> set del" and live: "live (rd_now rd (rd_step rd1)) (rd_keys rd) (session_key i) = Some (RJson j, e)"
    by (auto simp: live_def rd1 split: option.splits if_splits prod.splits)
  then have "session_key i \<in> set (scan ''session:*'')"
    by (intro assms(4)) (auto simp: live_def split: option.splits)
  from sessionsToDelete_complete [OF del assms(2,3) this live rd1(3) dec u] notdel show False by simp
qed

lemma InvalidateUserSessions_complete_witness:
  "\<exists>rd1. run_state (InvalidateUserSessions (\<lambda>_. [session_key 7]) 1) sample_cached = (Inr (), rd1) \<and>
     (\<forall>i s. fst (run_state (cache_GetSession i) rd1) = Inr (Some s) \<longrightarrow> sc_UserID s \<noteq> 1)"
proof -
  have "live 1 (rd_keys sample_cached) (session_key 7) =
      Some (RJson (session_json sample_session), Some (15 * Minute))"
    by (simp add: live_def sample_cached_def)
  then have "run_state (sessionsToDelete 1 [session_key 7]) sample_cached = ([session_key 7], sample_cached\<lparr>rd_step := 2\<rparr>)"
    using session_cache.dec_enc [of sample_session]
    by (simp add: run_Get sample_cached_def sample_cache_redis_def sample_session_def)
  then obtain rd1 where run: "run_state (InvalidateUserSessions (\<lambda>_. [session_key 7]) 1) sample_cached = (Inr (), rd1)"
    by (simp add: InvalidateUserSessions_def redis_Del_def run_command sample_cached_def sample_cache_redis_def
        del: sessionsToDelete.simps)
  moreover have "sc_UserID s \<noteq> 1" if "fst (run_state (cache_GetSession i) rd1) = Inr (Some s)" for i s
    by (rule InvalidateUserSessions_complete [OF run _ _ _ that])
      (simp_all add: sample_cached_def sample_cache_redis_def split: if_splits)
  ultimately show ?thesis by blast
qed

text \<open>The count of conversations includes the lists of participants.\<close>

lemma GetStats_counts_participants:
  assumes "set (scan ''conversation:*'') = {conversation_key i, participants_key i}" "distinct (scan ''conversation:*'')"
  shows "ConversationCount (GetStats scan) = 2"
proof -
  have "conversation_key i \<noteq> participants_key i" by (simp add: conversation_key_def participants_key_def)
  with assms have "length (scan ''conversation:*'') = 2"
    by (metis card_2_iff distinct_card)
  then show ?thesis by (simp add: GetStats_def)
qed

end
