(* ===== verification/Presence.thy ===== *)
theory Presence
  imports Redis Samples
begin

text \<open>
  Presence (\<^verbatim>\<open>internal/redis/presence.go\<close>): who is online, typing indicators and the connections of a
  user. \<^verbatim>\<open>time.Now\<close> is the clock of the world, expiry is by the clock of the Redis server. The online
  users and the heartbeats form an abstract state (\<open>presence_view\<close>) that the operations refine.
\<close>

section \<open>Definitions\<close>

record PresenceStatus =
  ps_UserID :: string
  ps_IsOnline :: bool
  ps_LastSeen :: time
  ps_Status :: string
  ps_DeviceID :: string
  ps_ClientID :: string

text \<open>\<open>pst_RFC3339\<close> prints a time, for the record of a connection.\<close>

record PresenceStore =
  pst_ttl :: duration
  pst_RFC3339 :: "time \<Rightarrow> string"

type_synonym 'a presence_op = "(world \<times> redis, error + 'a) state"

definition NewPresenceStore :: "duration \<Rightarrow> (time \<Rightarrow> string) \<Rightarrow> PresenceStore" where
  "NewPresenceStore ttl f = \<lparr>pst_ttl = (if ttl = 0 then 5 * Minute else ttl), pst_RFC3339 = f\<rparr>"

definition presence_key :: "string \<Rightarrow> string" where "presence_key u = ''presence:'' @ u"
definition presenceOnlineSet :: string where "presenceOnlineSet = ''presence:online''"
definition presenceHeartbeats :: string where "presenceHeartbeats = ''presence:heartbeat:all''"
definition typing_key :: "string \<Rightarrow> string" where "typing_key c = ''typing:'' @ c"
definition connections_key :: "string \<Rightarrow> string" where "connections_key u = ''connections:'' @ u"

definition presence_json :: "PresenceStatus \<Rightarrow> json" where
  "presence_json s = JObj ([(''user_id'', JStr (ps_UserID s)), (''is_online'', JBool (ps_IsOnline s)),
     (''last_seen'', JTime (ps_LastSeen s)), (''status'', JStr (ps_Status s))] @
     (if ps_DeviceID s = [] then [] else [(''device_id'', JStr (ps_DeviceID s))]) @
     (if ps_ClientID s = [] then [] else [(''client_id'', JStr (ps_ClientID s))]))"

definition zero_status :: PresenceStatus where
  "zero_status = \<lparr>ps_UserID = [], ps_IsOnline = False, ps_LastSeen = 0, ps_Status = [],
     ps_DeviceID = [], ps_ClientID = []\<rparr>"

fun decode_PresenceStatus :: "json \<Rightarrow> PresenceStatus option" where
  "decode_PresenceStatus (JObj fs) =
     Option.bind (as_string (field fs ''user_id'')) (\<lambda>u.
     Option.bind (as_bool (field fs ''is_online'')) (\<lambda>b.
     Option.bind (as_time (field fs ''last_seen'')) (\<lambda>t.
     Option.bind (as_string (field fs ''status'')) (\<lambda>s.
     Option.bind (as_string (field fs ''device_id'')) (\<lambda>d.
     Option.bind (as_string (field fs ''client_id'')) (\<lambda>c.
       Some \<lparr>ps_UserID = u, ps_IsOnline = b, ps_LastSeen = t, ps_Status = s, ps_DeviceID = d,
         ps_ClientID = c\<rparr>))))))"
| "decode_PresenceStatus JNull = Some zero_status"
| "decode_PresenceStatus _ = None"

definition unix :: "time \<Rightarrow> int" where "unix t = t div Second"

definition SetOnline :: "PresenceStore \<Rightarrow> string \<Rightarrow> string \<Rightarrow> string \<Rightarrow> unit presence_op" where
  "SetOnline p userID deviceID clientID = do {
     now \<leftarrow> on_store time_Now;
     let status = \<lparr>ps_UserID = userID, ps_IsOnline = True, ps_LastSeen = now, ps_Status = ''online'',
       ps_DeviceID = deviceID, ps_ClientID = clientID\<rparr>;
     on_bus (pipeline
       [redis_Set (presence_key userID) (presence_json status) (pst_ttl p),
        redis_SAdd presenceOnlineSet userID,
        redis_ZAdd presenceHeartbeats (unix now) userID])
   }"

definition SetOffline :: "string \<Rightarrow> unit presence_op" where
  "SetOffline userID = do {
     now \<leftarrow> on_store time_Now;
     let status = zero_status\<lparr>ps_UserID := userID, ps_LastSeen := now, ps_Status := ''offline''\<rparr>;
     on_bus (pipeline
       [redis_Set (presence_key userID) (presence_json status) (24 * Hour),
        redis_SRem presenceOnlineSet userID,
        redis_ZRem presenceHeartbeats userID])
   }"

text \<open>The text of a counter, which is never stored here, does not decode.\<close>

definition UpdateStatus :: "PresenceStore \<Rightarrow> string \<Rightarrow> string \<Rightarrow> unit presence_op" where
  "UpdateStatus p userID status = do {
     now \<leftarrow> on_store time_Now;
     andThen (on_bus (redis_Get (presence_key userID))) (\<lambda>existing.
       let old = (case existing of Some (RJson j) \<Rightarrow>
             (case decode_PresenceStatus j of Some s \<Rightarrow> s | None \<Rightarrow> zero_status)
           | _ \<Rightarrow> zero_status);
           new = old\<lparr>ps_UserID := userID, ps_Status := status, ps_LastSeen := now,
             ps_IsOnline := (status \<noteq> ''offline'')\<rparr>
       in andThen (on_bus (redis_Set (presence_key userID) (presence_json new) (pst_ttl p))) (\<lambda>_. do {
            _ \<leftarrow> on_bus (if status = ''offline'' then redis_SRem presenceOnlineSet userID
                    else redis_SAdd presenceOnlineSet userID);
            ok ()
          }))
   }"

definition Heartbeat :: "PresenceStore \<Rightarrow> string \<Rightarrow> unit presence_op" where
  "Heartbeat p userID = do {
     now \<leftarrow> on_store time_Now;
     on_bus (pipeline
       [redis_Expire (presence_key userID) (pst_ttl p),
        redis_ZAdd presenceHeartbeats (unix now) userID])
   }"

definition offline_status :: "string \<Rightarrow> PresenceStatus" where
  "offline_status userID = zero_status\<lparr>ps_UserID := userID, ps_Status := ''offline''\<rparr>"

definition GetPresence :: "string \<Rightarrow> PresenceStatus presence_op" where
  "GetPresence userID = andThen (on_bus (redis_Get (presence_key userID))) (\<lambda>data.
     case data of
       None \<Rightarrow> ok (offline_status userID)
     | Some (RJson j) \<Rightarrow>
         (case decode_PresenceStatus j of None \<Rightarrow> fail (OtherError ''json: cannot unmarshal'') | Some s \<Rightarrow> ok s)
     | Some _ \<Rightarrow> fail (OtherError ''json: cannot unmarshal''))"

text \<open>One reply of the pipeline; whatever goes wrong reads as offline.\<close>

fun presence_replies :: "string list \<Rightarrow> (string \<times> PresenceStatus) list \<Rightarrow>
    (world \<times> redis, (string \<times> PresenceStatus) list) state" where
  "presence_replies [] m = State_Monad.return m"
| "presence_replies (u # us) m = do {
     r \<leftarrow> GetPresence u;
     presence_replies us (map_put u (case r of Inr s \<Rightarrow> s | Inl _ \<Rightarrow> offline_status u) m)
   }"

definition GetMultiplePresence :: "string list \<Rightarrow> (string \<times> PresenceStatus) list presence_op" where
  "GetMultiplePresence userIDs = do { m \<leftarrow> presence_replies userIDs []; ok m }"

definition IsOnline :: "string \<Rightarrow> bool presence_op" where
  "IsOnline userID = on_bus (redis_SIsMember presenceOnlineSet userID)"

definition GetOnlineUsers :: "string list presence_op" where
  "GetOnlineUsers = on_bus (redis_SMembers presenceOnlineSet)"

definition GetOnlineCount :: "int presence_op" where
  "GetOnlineCount = on_bus (redis_SCard presenceOnlineSet)"

definition CleanupStalePresence :: "duration \<Rightarrow> int presence_op" where
  "CleanupStalePresence maxAge = do {
     now \<leftarrow> on_store time_Now;
     andThen (on_bus (redis_ZRangeTo presenceHeartbeats (unix (now - maxAge)))) (\<lambda>staleUsers. do {
       forEachIgnore staleUsers SetOffline;
       ok (int (length staleUsers))
     })
   }"

definition TrackTyping :: "string \<Rightarrow> string \<Rightarrow> bool \<Rightarrow> unit presence_op" where
  "TrackTyping conversationID userID isTyping =
     (if isTyping then on_bus (pipeline
        [redis_SAdd (typing_key conversationID) userID,
         redis_Expire (typing_key conversationID) (10 * Second)])
      else on_bus (redis_SRem (typing_key conversationID) userID))"

definition GetTypingUsers :: "string \<Rightarrow> string list presence_op" where
  "GetTypingUsers conversationID = on_bus (redis_SMembers (typing_key conversationID))"

definition TrackUserConnection :: "PresenceStore \<Rightarrow> string \<Rightarrow> string \<Rightarrow> string \<Rightarrow> unit presence_op" where
  "TrackUserConnection p userID clientID deviceID = do {
     now \<leftarrow> on_store time_Now;
     on_bus (pipeline
       [redis_HSet (connections_key userID) clientID (JObj [(''client_id'', JStr clientID),
          (''connected_at'', JStr (pst_RFC3339 p now)), (''device_id'', JStr deviceID)]),
        redis_Expire (connections_key userID) (pst_ttl p)])
   }"

definition RemoveUserConnection :: "string \<Rightarrow> string \<Rightarrow> unit presence_op" where
  "RemoveUserConnection userID clientID =
     andThen (on_bus (redis_HDel (connections_key userID) clientID)) (\<lambda>_.
     andThen (on_bus (redis_HLen (connections_key userID))) (\<lambda>count.
       if count = 0 then SetOffline userID else ok ()))"

fun string_entries :: "json \<Rightarrow> (string \<times> string) list option" where
  "string_entries (JObj fs) = all_some (map (\<lambda>(k, v). map_option (Pair k) (as_string v)) fs)"
| "string_entries _ = None"

definition GetUserConnections :: "string \<Rightarrow> (string \<times> string) list list presence_op" where
  "GetUserConnections userID = andThen (on_bus (redis_HGetAll (connections_key userID))) (\<lambda>data.
     ok (concat (map (\<lambda>(clientID, j). case string_entries j of
        None \<Rightarrow> [] | Some conn \<Rightarrow> [map_put ''client_id'' clientID conn]) data)))"

definition GetUserConnectionCount :: "string \<Rightarrow> int presence_op" where
  "GetUserConnectionCount userID = on_bus (redis_HLen (connections_key userID))"

definition LastSeenKey :: "uuid \<Rightarrow> string" where
  "LastSeenKey userID = ''last_seen:'' @ uuid_String userID"

section \<open>The abstract state\<close>

text \<open>
  Who is online, and the time of each user's last heartbeat. The two keys that hold them never
  expire.
\<close>

definition online_of :: "keyspace \<Rightarrow> string set" where
  "online_of ks = (case ks presenceOnlineSet of Some (RSet xs, _) \<Rightarrow> set xs | _ \<Rightarrow> {})"

definition beats_of :: "keyspace \<Rightarrow> string \<Rightarrow> int option" where
  "beats_of ks = (case ks presenceHeartbeats of Some (RZset zs, _) \<Rightarrow> map_of zs | _ \<Rightarrow> (\<lambda>_. None))"

definition presence_view :: "keyspace \<Rightarrow> string set \<times> (string \<Rightarrow> int option)" where
  "presence_view ks = (online_of ks, beats_of ks)"

definition presence_ok :: "redis \<Rightarrow> bool" where
  "presence_ok rd \<longleftrightarrow> (\<forall>i. rd_fault rd i = None) \<and>
     (\<forall>v e. rd_keys rd presenceOnlineSet = Some (v, e) \<longrightarrow> e = None \<and> (\<exists>xs. v = RSet xs)) \<and>
     (\<forall>v e. rd_keys rd presenceHeartbeats = Some (v, e) \<longrightarrow>
        e = None \<and> (\<exists>zs. v = RZset zs \<and> distinct (map fst zs)))"

definition plain_user :: "string \<Rightarrow> bool" where
  "plain_user u \<longleftrightarrow> u \<noteq> ''online'' \<and> u \<noteq> ''heartbeat:all''"

lemma presence_keys [simp]:
  "plain_user u \<Longrightarrow> presence_key u \<noteq> presenceOnlineSet" "plain_user u \<Longrightarrow> presence_key u \<noteq> presenceHeartbeats"
  "plain_user u \<Longrightarrow> presenceOnlineSet \<noteq> presence_key u" "plain_user u \<Longrightarrow> presenceHeartbeats \<noteq> presence_key u"
  "presenceOnlineSet \<noteq> presenceHeartbeats" "presenceHeartbeats \<noteq> presenceOnlineSet"
  by (auto simp: plain_user_def presence_key_def presenceOnlineSet_def presenceHeartbeats_def)

text \<open>What one command does to the view.\<close>

definition view_step :: "(string set \<times> (string \<Rightarrow> int option) \<Rightarrow> string set \<times> (string \<Rightarrow> int option)) \<Rightarrow>
    unit redis_cmd \<Rightarrow> bool" where
  "view_step f c \<longleftrightarrow> (\<forall>rd. presence_ok rd \<longrightarrow> (\<exists>rd'. run_state c rd = (Inr (), rd') \<and> presence_ok rd' \<and>
     presence_view (rd_keys rd') = f (presence_view (rd_keys rd))))"

lemma view_step_command:
  assumes "\<And>now ks n g t. presence_ok \<lparr>rd_keys = ks, rd_step = n, rd_now = g, rd_fault = (\<lambda>_. None)\<rparr> \<Longrightarrow>
    \<exists>ks'. F now ks = Inr ((), ks') \<and> presence_ok \<lparr>rd_keys = ks', rd_step = n, rd_now = g, rd_fault = (\<lambda>_. None)\<rparr> \<and>
      presence_view ks' = f (presence_view ks)"
  shows "view_step f (command F)"
  unfolding view_step_def
proof (intro allI impI)
  fix rd assume ok: "presence_ok rd"
  then have "presence_ok \<lparr>rd_keys = rd_keys rd, rd_step = 0, rd_now = rd_now rd, rd_fault = (\<lambda>_. None)\<rparr>"
    by (simp add: presence_ok_def)
  from assms [OF this, of "rd_now rd (rd_step rd)"] ok
  show "\<exists>rd'. run_state (command F) rd = (Inr (), rd') \<and> presence_ok rd' \<and>
      presence_view (rd_keys rd') = f (presence_view (rd_keys rd))"
    by (auto simp: run_command presence_ok_def)
qed

lemma live_forever: "ks k = Some (v, None) \<Longrightarrow> live now ks k = Some (v, None)"
  by (simp add: live_def)

lemma live_missing: "ks k = None \<Longrightarrow> live now ks k = None"
  by (simp add: live_def)

lemma presence_cases:
  assumes "presence_ok rd"
  obtains (none) "rd_keys rd presenceOnlineSet = None" | (some) xs where "rd_keys rd presenceOnlineSet = Some (RSet xs, None)"
  using assms by (cases "rd_keys rd presenceOnlineSet") (auto simp: presence_ok_def)

lemma beats_cases:
  assumes "presence_ok rd"
  obtains (none) "rd_keys rd presenceHeartbeats = None"
    | (some) zs where "rd_keys rd presenceHeartbeats = Some (RZset zs, None)" "distinct (map fst zs)"
  using assms by (cases "rd_keys rd presenceHeartbeats") (auto simp: presence_ok_def)

lemma view_step_Set:
  "plain_user u \<Longrightarrow> view_step id (redis_Set (presence_key u) v ttl)"
  unfolding redis_Set_def
  by (rule view_step_command) (auto simp: presence_ok_def presence_view_def online_of_def beats_of_def)

lemma view_step_Expire:
  "plain_user u \<Longrightarrow> view_step id (redis_Expire (presence_key u) ttl)"
  unfolding redis_Expire_def
  by (rule view_step_command)
    (auto simp: presence_ok_def presence_view_def online_of_def beats_of_def expire_key_def
      split: option.split prod.split)

lemma view_step_SAdd: "view_step (\<lambda>(on, hb). (insert u on, hb)) (redis_SAdd presenceOnlineSet u)"
  unfolding redis_SAdd_def
proof (rule view_step_command)
  fix now ks n g t assume ok: "presence_ok \<lparr>rd_keys = ks, rd_step = n, rd_now = g, rd_fault = (\<lambda>_. None)\<rparr>"
  then show "\<exists>ks'. map_sum id (\<lambda>(xs, e). ((), redis_keep presenceOnlineSet (RSet (List.insert u xs)) True e ks))
        (set_key presenceOnlineSet now ks) = Inr ((), ks') \<and>
      presence_ok \<lparr>rd_keys = ks', rd_step = n, rd_now = g, rd_fault = (\<lambda>_. None)\<rparr> \<and>
      presence_view ks' = (\<lambda>(on, hb). (insert u on, hb)) (presence_view ks)"
    by (cases rule: presence_cases)
      (use ok in \<open>auto simp: set_key_def live_missing live_forever redis_keep_def presence_ok_def
        presence_view_def online_of_def beats_of_def\<close>)
qed

lemma view_step_SRem: "view_step (\<lambda>(on, hb). (on - {u}, hb)) (redis_SRem presenceOnlineSet u)"
  unfolding redis_SRem_def
proof (rule view_step_command)
  fix now ks n g t assume ok: "presence_ok \<lparr>rd_keys = ks, rd_step = n, rd_now = g, rd_fault = (\<lambda>_. None)\<rparr>"
  then show "\<exists>ks'. map_sum id (\<lambda>(xs, e). ((), redis_keep presenceOnlineSet (RSet (removeAll u xs)) (removeAll u xs \<noteq> []) e ks))
        (set_key presenceOnlineSet now ks) = Inr ((), ks') \<and>
      presence_ok \<lparr>rd_keys = ks', rd_step = n, rd_now = g, rd_fault = (\<lambda>_. None)\<rparr> \<and>
      presence_view ks' = (\<lambda>(on, hb). (on - {u}, hb)) (presence_view ks)"
  proof (cases rule: presence_cases)
    case none
    with ok show ?thesis
      by (auto simp: set_key_def live_missing redis_keep_def presence_ok_def presence_view_def
        online_of_def beats_of_def)
  next
    case (some xs)
    have "removeAll u xs = [] \<Longrightarrow> set xs - {u} = {}" by (metis set_removeAll set_empty)
    with some ok show ?thesis
      by (auto simp: set_key_def live_forever redis_keep_def presence_ok_def presence_view_def
        online_of_def beats_of_def)
  qed
qed

lemma map_put_Nil: "map_put k v [] = [(k, v)]"
  by (simp add: map_put_def)

lemma view_step_ZAdd:
  "view_step (\<lambda>(on, hb). (on, hb(u \<mapsto> t))) (redis_ZAdd presenceHeartbeats t u)"
  unfolding redis_ZAdd_def
proof (rule view_step_command)
  fix now ks n g t' assume ok: "presence_ok \<lparr>rd_keys = ks, rd_step = n, rd_now = g, rd_fault = (\<lambda>_. None)\<rparr>"
  then show "\<exists>ks'. map_sum id (\<lambda>(zs, e). ((), redis_keep presenceHeartbeats (RZset (map_put u t zs)) True e ks))
        (zset_key presenceHeartbeats now ks) = Inr ((), ks') \<and>
      presence_ok \<lparr>rd_keys = ks', rd_step = n, rd_now = g, rd_fault = (\<lambda>_. None)\<rparr> \<and>
      presence_view ks' = (\<lambda>(on, hb). (on, hb(u \<mapsto> t))) (presence_view ks)"
    by (cases rule: beats_cases)
      (use ok in \<open>auto simp: zset_key_def live_missing live_forever redis_keep_def presence_ok_def
        presence_view_def online_of_def beats_of_def distinct_map_put map_put_Nil\<close>)
qed

lemma map_of_filter_key: "map_of (filter (\<lambda>(y, _). y \<noteq> x) zs) = (map_of zs)(x := None)"
  by (induction zs) (auto simp: fun_eq_iff)

lemma view_step_ZRem:
  "view_step (\<lambda>(on, hb). (on, hb(u := None))) (redis_ZRem presenceHeartbeats u)"
  unfolding redis_ZRem_def
proof (rule view_step_command)
  fix now ks n g t' assume ok: "presence_ok \<lparr>rd_keys = ks, rd_step = n, rd_now = g, rd_fault = (\<lambda>_. None)\<rparr>"
  then show "\<exists>ks'. map_sum id (\<lambda>(zs, e). let zs' = filter (\<lambda>(y, _). y \<noteq> u) zs in
          ((), redis_keep presenceHeartbeats (RZset zs') (zs' \<noteq> []) e ks))
        (zset_key presenceHeartbeats now ks) = Inr ((), ks') \<and>
      presence_ok \<lparr>rd_keys = ks', rd_step = n, rd_now = g, rd_fault = (\<lambda>_. None)\<rparr> \<and>
      presence_view ks' = (\<lambda>(on, hb). (on, hb(u := None))) (presence_view ks)"
  proof (cases rule: beats_cases)
    case none
    with ok show ?thesis
      by (auto simp: zset_key_def live_missing redis_keep_def presence_ok_def presence_view_def
        online_of_def beats_of_def Let_def)
  next
    case (some zs)
    let ?zs = "filter (\<lambda>(y, _). y \<noteq> u) zs"
    have "(map_of zs)(u := None) = (\<lambda>_. None)" if "?zs = []"
      using map_of_filter_key [of u zs] that by simp
    with some ok map_of_filter_key [of u zs] show ?thesis
      by (auto simp: zset_key_def live_forever redis_keep_def presence_ok_def presence_view_def
        online_of_def beats_of_def Let_def distinct_map_filter)
  qed
qed

lemma view_step_pipeline_Nil: "view_step id (pipeline [])"
  by (simp add: view_step_def)

lemma view_step_pipeline_Cons:
  assumes "view_step f c" "view_step g (pipeline cs)"
  shows "view_step (g \<circ> f) (pipeline (c # cs))"
  unfolding view_step_def
proof (intro allI impI)
  fix rd assume "presence_ok rd"
  with assms(1) obtain rd1 where 1: "run_state c rd = (Inr (), rd1)" "presence_ok rd1"
    "presence_view (rd_keys rd1) = f (presence_view (rd_keys rd))"
    unfolding view_step_def by blast
  with assms(2) obtain rd2 where "run_state (pipeline cs) rd1 = (Inr (), rd2)" "presence_ok rd2"
    "presence_view (rd_keys rd2) = g (presence_view (rd_keys rd1))"
    unfolding view_step_def by blast
  with 1 show "\<exists>rd'. run_state (pipeline (c # cs)) rd = (Inr (), rd') \<and> presence_ok rd' \<and>
      presence_view (rd_keys rd') = (g \<circ> f) (presence_view (rd_keys rd))"
    by simp
qed

lemma view_stepD:
  assumes "view_step f c" "presence_ok rd"
  obtains rd' where "run_state c rd = (Inr (), rd')" "presence_ok rd'"
    "presence_view (rd_keys rd') = f (presence_view (rd_keys rd))"
  using assms unfolding view_step_def by blast

lemma view_step_offline:
  assumes "plain_user u"
  shows "view_step (\<lambda>(on, hb). (on - {u}, hb(u := None))) (pipeline [redis_Set (presence_key u) v ttl,
    redis_SRem presenceOnlineSet u, redis_ZRem presenceHeartbeats u])"
proof -
  have "(\<lambda>(on, hb). (on - {u}, hb(u := None))) =
      id \<circ> (\<lambda>(on, hb :: string \<Rightarrow> int option). (on, hb(u := None))) \<circ> (\<lambda>(on, hb). (on - {u}, hb)) \<circ> id"
    by (simp add: fun_eq_iff)
  then show ?thesis
    using view_step_pipeline_Cons [OF view_step_Set [OF assms] view_step_pipeline_Cons
      [OF view_step_SRem view_step_pipeline_Cons [OF view_step_ZRem view_step_pipeline_Nil]]]
    by (simp only:)
qed

lemma view_step_online:
  assumes "plain_user u"
  shows "view_step (\<lambda>(on, hb). (insert u on, hb(u \<mapsto> t))) (pipeline [redis_Set (presence_key u) v ttl,
    redis_SAdd presenceOnlineSet u, redis_ZAdd presenceHeartbeats t u])"
proof -
  have "(\<lambda>(on, hb). (insert u on, hb(u \<mapsto> t))) =
      id \<circ> (\<lambda>(on, hb :: string \<Rightarrow> int option). (on, hb(u \<mapsto> t))) \<circ> (\<lambda>(on, hb). (insert u on, hb)) \<circ> id"
    by (simp add: fun_eq_iff)
  then show ?thesis
    using view_step_pipeline_Cons [OF view_step_Set [OF assms] view_step_pipeline_Cons
      [OF view_step_SAdd view_step_pipeline_Cons [OF view_step_ZAdd view_step_pipeline_Nil]]]
    by (simp only:)
qed

lemma view_step_heartbeat:
  assumes "plain_user u"
  shows "view_step (\<lambda>(on, hb). (on, hb(u \<mapsto> t))) (pipeline [redis_Expire (presence_key u) ttl,
    redis_ZAdd presenceHeartbeats t u])"
  using view_step_pipeline_Cons [OF view_step_Expire [OF assms] view_step_pipeline_Cons
    [OF view_step_ZAdd view_step_pipeline_Nil], of u]
  by (simp del: pipeline.simps)

lemma run_SetOffline:
  assumes "presence_ok rd" "plain_user u"
  obtains rd' where "run_state (SetOffline u) (w, rd) = (Inr (), (tick w, rd'))" "presence_ok rd'"
    "presence_view (rd_keys rd') = (online_of (rd_keys rd) - {u}, (beats_of (rd_keys rd))(u := None))"
proof -
  let ?status = "zero_status\<lparr>ps_UserID := u, ps_LastSeen := w_now w (w_step w), ps_Status := ''offline''\<rparr>"
  obtain rd' where "run_state (pipeline [redis_Set (presence_key u) (presence_json ?status) (24 * Hour),
      redis_SRem presenceOnlineSet u, redis_ZRem presenceHeartbeats u]) rd = (Inr (), rd')" "presence_ok rd'"
    "presence_view (rd_keys rd') = (\<lambda>(on, hb). (on - {u}, hb(u := None))) (presence_view (rd_keys rd))"
    using view_stepD [OF view_step_offline [OF assms(2)] assms(1)] .
  with that show thesis
    by (simp add: SetOffline_def presence_view_def tick_def Let_def del: pipeline.simps)
qed

lemma run_SetOnline:
  assumes "presence_ok rd" "plain_user u"
  obtains rd' where "run_state (SetOnline p u d c) (w, rd) = (Inr (), (tick w, rd'))" "presence_ok rd'"
    "presence_view (rd_keys rd') =
       (insert u (online_of (rd_keys rd)), (beats_of (rd_keys rd))(u \<mapsto> unix (w_now w (w_step w))))"
proof -
  let ?status = "\<lparr>ps_UserID = u, ps_IsOnline = True, ps_LastSeen = w_now w (w_step w),
    ps_Status = ''online'', ps_DeviceID = d, ps_ClientID = c\<rparr>"
  obtain rd' where "run_state (pipeline [redis_Set (presence_key u) (presence_json ?status) (pst_ttl p),
      redis_SAdd presenceOnlineSet u, redis_ZAdd presenceHeartbeats (unix (w_now w (w_step w))) u]) rd = (Inr (), rd')"
    "presence_ok rd'" "presence_view (rd_keys rd') =
      (\<lambda>(on, hb). (insert u on, hb(u \<mapsto> unix (w_now w (w_step w))))) (presence_view (rd_keys rd))"
    using view_stepD [OF view_step_online [OF assms(2)] assms(1)] .
  with that show thesis
    by (simp add: SetOnline_def presence_view_def tick_def Let_def del: pipeline.simps)
qed

lemma run_Heartbeat:
  assumes "presence_ok rd" "plain_user u"
  obtains rd' where "run_state (Heartbeat p u) (w, rd) = (Inr (), (tick w, rd'))" "presence_ok rd'"
    "presence_view (rd_keys rd') =
       (online_of (rd_keys rd), (beats_of (rd_keys rd))(u \<mapsto> unix (w_now w (w_step w))))"
proof -
  obtain rd' where "run_state (pipeline [redis_Expire (presence_key u) (pst_ttl p),
      redis_ZAdd presenceHeartbeats (unix (w_now w (w_step w))) u]) rd = (Inr (), rd')"
    "presence_ok rd'" "presence_view (rd_keys rd') =
      (\<lambda>(on, hb). (on, hb(u \<mapsto> unix (w_now w (w_step w))))) (presence_view (rd_keys rd))"
    using view_stepD [OF view_step_heartbeat [OF assms(2)] assms(1)] .
  with that show thesis
    by (simp add: Heartbeat_def presence_view_def tick_def Let_def del: pipeline.simps)
qed

lemma run_forEachIgnore_SetOffline:
  assumes "presence_ok rd" "\<forall>u\<in>set us. plain_user u"
  obtains w' rd' where "run_state (forEachIgnore us SetOffline) (w, rd) = ((), (w', rd'))" "presence_ok rd'"
    "presence_view (rd_keys rd') = (online_of (rd_keys rd) - set us,
       (\<lambda>u. if u \<in> set us then None else beats_of (rd_keys rd) u))"
  using assms
proof (induction us arbitrary: w rd thesis)
  case Nil
  then show ?case by (simp add: presence_view_def)
next
  case (Cons u us)
  obtain rd1 where 1: "run_state (SetOffline u) (w, rd) = (Inr (), (tick w, rd1))" "presence_ok rd1"
    "presence_view (rd_keys rd1) = (online_of (rd_keys rd) - {u}, (beats_of (rd_keys rd))(u := None))"
    by (rule run_SetOffline [of rd u w]) (use Cons.prems in auto)
  obtain w2 rd2 where 2: "run_state (forEachIgnore us SetOffline) (tick w, rd1) = ((), (w2, rd2))" "presence_ok rd2"
    "presence_view (rd_keys rd2) = (online_of (rd_keys rd1) - set us,
       (\<lambda>u. if u \<in> set us then None else beats_of (rd_keys rd1) u))"
    by (rule Cons.IH [where w = "tick w" and rd = rd1]) (use 1 Cons.prems in auto)
  show ?case
    by (rule Cons.prems(1) [of w2 rd2])
      (use 1 2 in \<open>auto simp: presence_view_def fun_eq_iff\<close>)
qed

text \<open>
  C32. The presence store refines its view, the set of users online and the time of each user's last
  heartbeat, as long as Redis answers: going online adds the user with a heartbeat, going offline
  removes both, a heartbeat changes its time only, and the clean-up takes everybody offline, and nobody
  else, whose last heartbeat is at least \<open>maxAge\<close> old, and says how many.
\<close>

theorem Presence_refines:
  fixes w :: world and rd :: redis and maxAge :: int
  assumes "presence_ok rd" "plain_user u" "\<forall>v. beats_of (rd_keys rd) v \<noteq> None \<longrightarrow> plain_user v"
  defines "on \<equiv> online_of (rd_keys rd)" and "hb \<equiv> beats_of (rd_keys rd)" and "now \<equiv> w_now w (w_step w)"
  defines "stale \<equiv> {v. \<exists>t. hb v = Some t \<and> t \<le> unix (now - maxAge)}"
  shows "(\<exists>w' rd'. run_state (SetOnline p u d c) (w, rd) = (Inr (), (w', rd')) \<and> presence_ok rd' \<and>
      presence_view (rd_keys rd') = (insert u on, hb(u \<mapsto> unix now))) \<and>
    (\<exists>w' rd'. run_state (SetOffline u) (w, rd) = (Inr (), (w', rd')) \<and> presence_ok rd' \<and>
      presence_view (rd_keys rd') = (on - {u}, hb(u := None))) \<and>
    (\<exists>w' rd'. run_state (Heartbeat p u) (w, rd) = (Inr (), (w', rd')) \<and> presence_ok rd' \<and>
      presence_view (rd_keys rd') = (on, hb(u \<mapsto> unix now))) \<and>
    (\<exists>w' rd'. run_state (CleanupStalePresence maxAge) (w, rd) = (Inr (int (card stale)), (w', rd')) \<and> presence_ok rd' \<and>
      presence_view (rd_keys rd') = (on - stale, (\<lambda>v. if v \<in> stale then None else hb v)))"
proof (intro conjI)
  show "\<exists>w' rd'. run_state (SetOnline p u d c) (w, rd) = (Inr (), (w', rd')) \<and> presence_ok rd' \<and>
      presence_view (rd_keys rd') = (insert u on, hb(u \<mapsto> unix now))"
    unfolding on_def hb_def now_def by (rule run_SetOnline [OF assms(1,2)]) blast
  show "\<exists>w' rd'. run_state (SetOffline u) (w, rd) = (Inr (), (w', rd')) \<and> presence_ok rd' \<and>
      presence_view (rd_keys rd') = (on - {u}, hb(u := None))"
    unfolding on_def hb_def by (rule run_SetOffline [OF assms(1,2)]) blast
  show "\<exists>w' rd'. run_state (Heartbeat p u) (w, rd) = (Inr (), (w', rd')) \<and> presence_ok rd' \<and>
      presence_view (rd_keys rd') = (on, hb(u \<mapsto> unix now))"
    unfolding on_def hb_def now_def by (rule run_Heartbeat [OF assms(1,2)]) blast
  define zs where "zs = (case rd_keys rd presenceHeartbeats of Some (RZset zs, _) \<Rightarrow> zs | _ \<Rightarrow> [])"
  define us where "us = map fst (sort_key snd (filter (\<lambda>(_, s). s \<le> unix (now - maxAge)) zs))"
  have zs: "distinct (map fst zs)" "map_of zs = hb"
    using assms(1) by (cases rule: beats_cases; simp add: zs_def hb_def beats_of_def)+
  have us: "set us = stale"
    using zs by (force simp: us_def stale_def)
  have "distinct (map fst (filter (\<lambda>(_, s). s \<le> unix (now - maxAge)) zs))"
    by (rule distinct_map_filter) (rule zs(1))
  then have "distinct us" by (auto simp: us_def distinct_map intro: distinct_map_filter)
  then have card: "length us = card stale" using us distinct_card by metis
  let ?rd1 = "rd\<lparr>rd_step := Suc (rd_step rd)\<rparr>"
  have z: "run_state (redis_ZRangeTo presenceHeartbeats (unix (now - maxAge))) rd = (Inr us, ?rd1)"
    using assms(1) by (cases rule: beats_cases)
      (use assms(1) in \<open>auto simp: redis_ZRangeTo_def run_command zset_key_def live_missing live_forever us_def zs_def presence_ok_def\<close>)
  have "presence_ok ?rd1" using assms(1) by (simp add: presence_ok_def)
  moreover have "\<forall>v\<in>set us. plain_user v" using assms(3) us by (auto simp: stale_def hb_def)
  ultimately obtain w2 rd2 where "run_state (forEachIgnore us SetOffline) (tick w, ?rd1) = ((), (w2, rd2))" "presence_ok rd2"
    "presence_view (rd_keys rd2) = (online_of (rd_keys ?rd1) - set us,
       (\<lambda>u. if u \<in> set us then None else beats_of (rd_keys ?rd1) u))"
    by (rule run_forEachIgnore_SetOffline)
  with z card us show "\<exists>w' rd'. run_state (CleanupStalePresence maxAge) (w, rd) = (Inr (int (card stale)), (w', rd')) \<and> presence_ok rd' \<and>
      presence_view (rd_keys rd') = (on - stale, (\<lambda>v. if v \<in> stale then None else hb v))"
    by (simp add: CleanupStalePresence_def now_def tick_def on_def hb_def cong: if_cong)
qed

definition sample_presence :: redis where
  "sample_presence = empty_redis\<lparr>rd_keys := [presenceOnlineSet \<mapsto> (RSet [''ann'', ''bob''], None),
     presenceHeartbeats \<mapsto> (RZset [(''ann'', 0), (''bob'', 100)], None)]\<rparr>"

lemma Presence_refines_witness:
  "\<exists>w' rd'. run_state (SetOffline ''ann'') (sample_world, sample_presence) = (Inr (), (w', rd')) \<and> presence_ok rd' \<and>
     presence_view (rd_keys rd') = ({''bob''}, [''bob'' \<mapsto> 100])"
proof -
  have "presence_ok sample_presence" "plain_user ''ann''"
    "\<forall>v. beats_of (rd_keys sample_presence) v \<noteq> None \<longrightarrow> plain_user v"
    by (auto simp: sample_presence_def presence_ok_def empty_redis_def plain_user_def beats_of_def split: if_splits)
  from conjunct1 [OF conjunct2 [OF Presence_refines [OF this]], of sample_world]
  show ?thesis
    by (auto simp: sample_presence_def online_of_def beats_of_def fun_eq_iff insert_Diff_if)
qed

end
