(* ===== verification/Broadcasts.thy ===== *)
theory Broadcasts
  imports ConversationRepo Samples
begin

text \<open>
  Broadcast lists: \<^verbatim>\<open>internal/repository/broadcast_repository.go\<close> and
  \<^verbatim>\<open>internal/services/broadcast_service.go\<close>, whose methods pass everything on. A service is its
  repository's connection. The one statement whose text depends on its input, with as many placeholders as
  there are recipients to remove, is modelled with that text: the database reads the placeholders back and looks
  up their arguments, of which it takes no more than 65535.
\<close>

section \<open>The repository\<close>

definition broadcastRepo_Create :: "DBTX \<Rightarrow> BroadcastList \<Rightarrow> unit go" where
  "broadcastRepo_Create db b = mapErr alreadyExists (sql db
     (insert_into t_broadcast_lists t_broadcast_lists_update broadcast_list_clash
       (\<lambda>t. has_user t (bl_OwnerID b)) b))"

definition broadcastRepo_GetByID :: "DBTX \<Rightarrow> uuid \<Rightarrow> BroadcastList go" where
  "broadcastRepo_GetByID db i =
     mapErr notFound (queryRow db (\<lambda>t. filter (\<lambda>b. bl_ID b = i) (t_broadcast_lists t)))"

definition set_broadcast_list :: "BroadcastList \<Rightarrow> BroadcastList \<Rightarrow> BroadcastList" where
  "set_broadcast_list b r = r\<lparr>bl_OwnerID := bl_OwnerID b, bl_Name := bl_Name b,
     bl_Description := bl_Description b\<rparr>"

definition broadcastRepo_Update :: "DBTX \<Rightarrow> BroadcastList \<Rightarrow> unit go" where
  "broadcastRepo_Update db b = affected (sql db
     (update_into t_broadcast_lists t_broadcast_lists_update broadcast_list_clash
       (\<lambda>t. has_user t (bl_OwnerID b)) (\<lambda>r. bl_ID r = bl_ID b) (set_broadcast_list b)))"

definition broadcastRepo_Delete :: "DBTX \<Rightarrow> uuid \<Rightarrow> unit go" where
  "broadcastRepo_Delete db i = affected (sql db (delete_broadcast_list i))"

definition broadcastRepo_GetUserBroadcastLists :: "DBTX \<Rightarrow> uuid \<Rightarrow> BroadcastList list go" where
  "broadcastRepo_GetUserBroadcastLists db owner = sql db (query (\<lambda>t.
     order_desc (\<lambda>b. Some (bl_CreatedAt b)) (filter (\<lambda>b. bl_OwnerID b = owner) (t_broadcast_lists t))))"

definition broadcastRepo_SearchBroadcastLists :: "DBTX \<Rightarrow> uuid \<Rightarrow> string \<Rightarrow> BroadcastList list go" where
  "broadcastRepo_SearchBroadcastLists db owner q = sql db (query (\<lambda>t.
     order_asc (\<lambda>b. Some (bl_Name b)) (filter (\<lambda>b. bl_OwnerID b = owner \<and>
       ilike (bl_Name b) (''%'' @ q @ ''%'')) (t_broadcast_lists t))))"

definition insert_recipient :: "BroadcastRecipient \<Rightarrow> unit stmt" where
  "insert_recipient r =
     insert_into t_broadcast_recipients t_broadcast_recipients_update broadcast_recipient_clash
       (\<lambda>t. has_broadcast_list t (br_BroadcastID r) \<and> has_user t (br_UserID r)) r"

definition broadcastRepo_AddRecipient :: "DBTX \<Rightarrow> BroadcastRecipient \<Rightarrow> unit go" where
  "broadcastRepo_AddRecipient db r = mapErr alreadyExists (sql db (insert_recipient r))"

definition is_recipient :: "uuid \<Rightarrow> uuid \<Rightarrow> BroadcastRecipient \<Rightarrow> bool" where
  "is_recipient b u r \<longleftrightarrow> br_BroadcastID r = b \<and> br_UserID r = u"

definition broadcastRepo_RemoveRecipient :: "DBTX \<Rightarrow> uuid \<Rightarrow> uuid \<Rightarrow> unit go" where
  "broadcastRepo_RemoveRecipient db b u = affected (sql db
     (on_table t_broadcast_recipients t_broadcast_recipients_update (delete_where (is_recipient b u))))"

definition broadcastRepo_GetRecipients :: "DBTX \<Rightarrow> uuid \<Rightarrow> BroadcastRecipient list go" where
  "broadcastRepo_GetRecipients db b = sql db (query (\<lambda>t.
     order_asc (\<lambda>r. Some (br_AddedAt r)) (filter (\<lambda>r. br_BroadcastID r = b) (t_broadcast_recipients t))))"

definition broadcastRepo_GetRecipientCount :: "DBTX \<Rightarrow> uuid \<Rightarrow> int go" where
  "broadcastRepo_GetRecipientCount db b =
     queryRow db (\<lambda>t. [count_where (\<lambda>r. br_BroadcastID r = b) (t_broadcast_recipients t)])"

definition broadcastRepo_IsRecipient :: "DBTX \<Rightarrow> uuid \<Rightarrow> uuid \<Rightarrow> bool go" where
  "broadcastRepo_IsRecipient db b u =
     andThen (queryRow db (\<lambda>t. [count_where (is_recipient b u) (t_broadcast_recipients t)]))
       (\<lambda>count. ok (count > 0))"

text \<open>The loop of \<^verbatim>\<open>BulkAddRecipients\<close>: a recipient that is there already is skipped.\<close>

fun addRecipients :: "DBTX \<Rightarrow> uuid \<Rightarrow> time \<Rightarrow> uuid list \<Rightarrow> unit go" where
  "addRecipients tx b now [] = ok ()"
| "addRecipients tx b now (u # us) = do {
     r \<leftarrow> sql tx (insert_recipient \<lparr>br_BroadcastID = b, br_UserID = u, br_AddedAt = now\<rparr>);
     (case r of
        Inl err \<Rightarrow> if isUniqueViolation err then addRecipients tx b now us else fail err
      | Inr _ \<Rightarrow> addRecipients tx b now us)
   }"

definition broadcastRepo_BulkAddRecipients :: "DBTX \<Rightarrow> uuid \<Rightarrow> uuid list \<Rightarrow> unit go" where
  "broadcastRepo_BulkAddRecipients db b us = WithTx db (\<lambda>tx. do {
     now \<leftarrow> time_Now;
     addRecipients tx b now us
   })"

text \<open>
  \<^verbatim>\<open>buildPlaceholders\<close> of \<^verbatim>\<open>sql_helpers.go\<close>, and how PostgreSQL reads its text: the placeholder \<^verbatim>\<open>$k\<close> stands for
  the k-th argument; there are as many arguments as the largest number says, and 65535 at most.
\<close>

definition buildPlaceholders :: "int \<Rightarrow> int \<Rightarrow> string" where
  "buildPlaceholders start count = (if count \<le> 0 then []
     else join_text '','' (map (\<lambda>i. ''$'' @ Itoa (start + int i)) [0..<nat count]))"

fun split_text :: "char \<Rightarrow> string \<Rightarrow> string list" where
  "split_text c [] = [[]]"
| "split_text c (x # xs) = (if x = c then [] # split_text c xs
     else case split_text c xs of [] \<Rightarrow> [[x]] | y # ys \<Rightarrow> (x # y) # ys)"

definition placeholder_number :: "string \<Rightarrow> nat option" where
  "placeholder_number p = (case p of
     [] \<Rightarrow> None
   | c # ds \<Rightarrow> if c = CHR ''$'' \<and> ds \<noteq> [] \<and> list_all is_digit ds then Some (nat (digits_value ds)) else None)"

definition bind_parameters :: "string list \<Rightarrow> 'a list \<Rightarrow> 'a list option" where
  "bind_parameters placeholders args = Option.bind (all_some (map placeholder_number placeholders)) (\<lambda>ns.
     if list_all (\<lambda>n. 0 < n \<and> n \<le> length args) ns \<and> length args \<in> set ns \<and> length args \<le> 65535
     then Some (map (\<lambda>n. args ! (n - 1)) ns) else None)"

text \<open>\<^verbatim>\<open>DELETE FROM broadcast_recipients WHERE broadcast_id = $1 AND user_id IN (...)\<close>\<close>

definition delete_recipients :: "string \<Rightarrow> uuid list \<Rightarrow> int stmt" where
  "delete_recipients placeholders args =
     (case bind_parameters (''$1'' # split_text CHR '','' placeholders) args of
        Some (b # us) \<Rightarrow> on_table t_broadcast_recipients t_broadcast_recipients_update
          (delete_where (\<lambda>r. br_BroadcastID r = b \<and> br_UserID r \<in> set us))
      | _ \<Rightarrow> (\<lambda>t. Inl BadParameters))"

definition broadcastRepo_BulkRemoveRecipients :: "DBTX \<Rightarrow> uuid \<Rightarrow> uuid list \<Rightarrow> unit go" where
  "broadcastRepo_BulkRemoveRecipients db b us =
     (if us = [] then ok ()
      else let placeholders = buildPlaceholders 2 (int (length us)) in
        void (sql db (delete_recipients placeholders (b # us))))"

section \<open>The service\<close>

definition broadcastSvc_Create :: "DBTX \<Rightarrow> BroadcastList \<Rightarrow> unit go" where
  "broadcastSvc_Create s b = broadcastRepo_Create s b"

definition broadcastSvc_GetByID :: "DBTX \<Rightarrow> uuid \<Rightarrow> BroadcastList go" where
  "broadcastSvc_GetByID s i = broadcastRepo_GetByID s i"

definition broadcastSvc_Update :: "DBTX \<Rightarrow> BroadcastList \<Rightarrow> unit go" where
  "broadcastSvc_Update s b = broadcastRepo_Update s b"

definition broadcastSvc_Delete :: "DBTX \<Rightarrow> uuid \<Rightarrow> unit go" where
  "broadcastSvc_Delete s i = broadcastRepo_Delete s i"

definition broadcastSvc_GetUserBroadcastLists :: "DBTX \<Rightarrow> uuid \<Rightarrow> BroadcastList list go" where
  "broadcastSvc_GetUserBroadcastLists s owner = broadcastRepo_GetUserBroadcastLists s owner"

definition broadcastSvc_SearchBroadcastLists :: "DBTX \<Rightarrow> uuid \<Rightarrow> string \<Rightarrow> BroadcastList list go" where
  "broadcastSvc_SearchBroadcastLists s owner q = broadcastRepo_SearchBroadcastLists s owner q"

definition broadcastSvc_AddRecipient :: "DBTX \<Rightarrow> BroadcastRecipient \<Rightarrow> unit go" where
  "broadcastSvc_AddRecipient s r = broadcastRepo_AddRecipient s r"

definition broadcastSvc_RemoveRecipient :: "DBTX \<Rightarrow> uuid \<Rightarrow> uuid \<Rightarrow> unit go" where
  "broadcastSvc_RemoveRecipient s b u = broadcastRepo_RemoveRecipient s b u"

definition broadcastSvc_GetRecipients :: "DBTX \<Rightarrow> uuid \<Rightarrow> BroadcastRecipient list go" where
  "broadcastSvc_GetRecipients s b = broadcastRepo_GetRecipients s b"

definition broadcastSvc_GetRecipientCount :: "DBTX \<Rightarrow> uuid \<Rightarrow> int go" where
  "broadcastSvc_GetRecipientCount s b = broadcastRepo_GetRecipientCount s b"

definition broadcastSvc_IsRecipient :: "DBTX \<Rightarrow> uuid \<Rightarrow> uuid \<Rightarrow> bool go" where
  "broadcastSvc_IsRecipient s b u = broadcastRepo_IsRecipient s b u"

definition broadcastSvc_BulkAddRecipients :: "DBTX \<Rightarrow> uuid \<Rightarrow> uuid list \<Rightarrow> unit go" where
  "broadcastSvc_BulkAddRecipients s b us = broadcastRepo_BulkAddRecipients s b us"

definition broadcastSvc_BulkRemoveRecipients :: "DBTX \<Rightarrow> uuid \<Rightarrow> uuid list \<Rightarrow> unit go" where
  "broadcastSvc_BulkRemoveRecipients s b us = broadcastRepo_BulkRemoveRecipients s b us"

section \<open>Adding many recipients\<close>

lemma keeps_insert_recipients [keeps_intros]:
  "keeps (committed d) (addRecipients Tx b now us)" "keeps tx_dead (addRecipients Tx b now us)"
  by (induction us) (auto intro!: keeps_intros)

text \<open>
  A skipped duplicate has aborted the transaction. So if the transaction is alive after the loop,
  there was none.
\<close>

lemma addRecipients_alive:
  assumes "run_state (addRecipients Tx b now us) w = (r, w')" "visible Tx w = Some t" "visible Tx w' = Some t'"
  shows "r = Inr () \<and> distinct us \<and> t' = t\<lparr>t_broadcast_recipients := t_broadcast_recipients t @
      map (\<lambda>u. \<lparr>br_BroadcastID = b, br_UserID = u, br_AddedAt = now\<rparr>) us\<rparr> \<and>
    (\<forall>u\<in>set us. has_user t u \<and> (\<forall>x\<in>set (t_broadcast_recipients t). \<not> is_recipient b u x)) \<and>
    (us = [] \<or> has_broadcast_list t b)"
  using assms
proof (induction us arbitrary: w t)
  case Nil
  then show ?case by simp
next
  case (Cons u us)
  let ?r = "\<lparr>br_BroadcastID = b, br_UserID = u, br_AddedAt = now\<rparr>"
  obtain q w1 where one: "run_state (sql Tx (insert_recipient ?r)) w = (q, w1)" by fastforce
  have alive: "visible Tx w1 \<noteq> None"
    using Cons.prems(1,3) one keepsD [OF keeps_insert_recipients(2), of w1 b now us]
    by (cases q) (auto simp: tx_dead_def split: if_splits)
  with one sql_Tx_Inl_dead have q: "q = Inr ()" by (cases q) fastforce+
  with one Cons.prems(2) obtain t1 where ins: "insert_recipient ?r t = Inr ((), t1)" and t1: "visible Tx w1 = Some t1"
    by (auto simp: sql_Inr)
  have "run_state (addRecipients Tx b now us) w1 = (r, w')" using Cons.prems(1) one q by simp
  from Cons.IH [OF this t1 Cons.prems(3)] ins show ?case
    by (auto simp: insert_recipient_def insert_into_Inr broadcast_recipient_clash_def is_recipient_def
        has_user_def has_broadcast_list_def)
qed

text \<open>
  \<open>BulkAddRecipients\<close> is all or nothing: it succeeds only if the given users are pairwise
  different, exist and are no recipients yet, and then adds exactly them, with one time; otherwise
  the committed tables stay as they are. In particular one user who is a recipient already makes the
  whole call fail, although the code skips duplicates: the failed INSERT has aborted the transaction.
\<close>

theorem BulkAddRecipients_all_or_nothing:
  assumes run: "run_state (broadcastSvc_BulkAddRecipients Pool b us) w = (r, w')"
  shows "(r = Inr () \<longrightarrow> distinct us \<and>
      (\<forall>u\<in>set us. has_user (w_db w) u \<and> (\<forall>x\<in>set (t_broadcast_recipients (w_db w)). \<not> is_recipient b u x)) \<and>
      (\<exists>now. w_db w' = (w_db w)\<lparr>t_broadcast_recipients := t_broadcast_recipients (w_db w) @
        map (\<lambda>u. \<lparr>br_BroadcastID = b, br_UserID = u, br_AddedAt = now\<rparr>) us\<rparr>)) \<and>
    (r \<noteq> Inr () \<longrightarrow> w_db w' = w_db w)"
proof (cases r)
  case (Inl e)
  have "keeps (committed d) (do { now \<leftarrow> time_Now; addRecipients Tx b now us })" for d
    by (intro keeps_intros)
  from WithTx_error_keeps_db [of "\<lambda>tx. do { now \<leftarrow> time_Now; addRecipients tx b now us }", OF this] run Inl
  show ?thesis
    by (auto simp: broadcastSvc_BulkAddRecipients_def broadcastRepo_BulkAddRecipients_def)
next
  case (Inr x)
  with run have "run_state (WithTx Pool (\<lambda>tx. do { now \<leftarrow> time_Now; addRecipients tx b now us })) w = (Inr (), w')"
    by (simp add: broadcastSvc_BulkAddRecipients_def broadcastRepo_BulkAddRecipients_def)
  then obtain w1 w2 where w1: "visible Tx w1 = Some (w_db w)"
    and body: "run_state (do { now \<leftarrow> time_Now; addRecipients Tx b now us }) w1 = (Inr (), w2)"
    and w2: "visible Tx w2 = Some (w_db w')"
    by (rule WithTx_Inr)
  from body have "run_state (addRecipients Tx b (w_now w1 (w_step w1)) us) (tick w1) = (Inr (), w2)"
    by (simp add: tick_def)
  from addRecipients_alive [OF this _ w2, of "w_db w"] w1 have
    "distinct us" "\<forall>u\<in>set us. has_user (w_db w) u \<and> (\<forall>x\<in>set (t_broadcast_recipients (w_db w)). \<not> is_recipient b u x)"
    "w_db w' = (w_db w)\<lparr>t_broadcast_recipients := t_broadcast_recipients (w_db w) @
      map (\<lambda>u. \<lparr>br_BroadcastID = b, br_UserID = u, br_AddedAt = w_now w1 (w_step w1)\<rparr>) us\<rparr>"
    by simp_all
  moreover have "r = Inr ()" using Inr by simp
  ultimately show ?thesis by blast
qed

definition sample_list :: BroadcastList where
  "sample_list = \<lparr>bl_ID = 7, bl_OwnerID = 1, bl_Name = ''news'', bl_Description = None, bl_CreatedAt = 0\<rparr>"

definition broadcast_world :: world where
  "broadcast_world = sample_world\<lparr>w_db := sample_tables\<lparr>t_broadcast_lists := [sample_list],
     t_broadcast_recipients := [\<lparr>br_BroadcastID = 7, br_UserID = 2, br_AddedAt = 0\<rparr>]\<rparr>\<rparr>"

lemma BulkAddRecipients_all_or_nothing_witness:
  "fst (run_state (broadcastSvc_BulkAddRecipients Pool 7 [1, 2]) broadcast_world) \<noteq> Inr () \<and>
   w_db (snd (run_state (broadcastSvc_BulkAddRecipients Pool 7 [1, 2]) broadcast_world)) = w_db broadcast_world"
proof -
  have dup: "\<exists>x\<in>set (t_broadcast_recipients (w_db broadcast_world)). is_recipient 7 2 x"
    by (simp add: broadcast_world_def is_recipient_def)
  from BulkAddRecipients_all_or_nothing [OF prod.collapse [symmetric], of 7 "[1, 2]" broadcast_world] dup
  show ?thesis by auto
qed

section \<open>Removing many recipients\<close>

lemma run_RemoveRecipient:
  assumes "\<And>n. w_fault w n = None"
  shows "\<exists>r. run_state (broadcastRepo_RemoveRecipient Pool b u) w = (r, (tick w)\<lparr>w_db :=
    (w_db w)\<lparr>t_broadcast_recipients := filter (\<lambda>x. \<not> is_recipient b u x) (t_broadcast_recipients (w_db w))\<rparr>\<rparr>)"
  using assms
  by (auto simp: broadcastRepo_RemoveRecipient_def affected_def run_sql_Pool on_table_def delete_where_def tick_def Let_def)

text \<open>The placeholders are read as they were meant.\<close>

lemma split_text_plain: "c \<notin> set x \<Longrightarrow> split_text c x = [x]"
  by (induction x) auto

lemma split_text_append: "c \<notin> set x \<Longrightarrow> split_text c (x @ c # ys) = x # split_text c ys"
  by (induction x) auto

lemma split_join_text: "xs \<noteq> [] \<Longrightarrow> \<forall>x\<in>set xs. c \<notin> set x \<Longrightarrow> split_text c (join_text [c] xs) = xs"
proof (induction "[c]" xs rule: join_text.induct)
  case (3 x y xs)
  then show ?case using split_text_append [of c x "join_text [c] (y # xs)"] by simp
qed (simp_all add: split_text_plain)

lemma is_digit_neq: "is_digit c \<Longrightarrow> c \<noteq> CHR '',''"
  by (auto simp: is_digit_def)

lemma Itoa_plain: "CHR '','' \<notin> set (''$'' @ Itoa (int n))"
  using nat_text_digits [of n] by (auto simp: Itoa_def list_all_iff dest: is_digit_neq)

lemma placeholder_number_Itoa: "placeholder_number (''$'' @ Itoa (int n)) = Some n"
  using nat_text_digits [of n] by (simp add: placeholder_number_def Itoa_def)

lemma all_some_Some: "all_some (map Some xs) = Some xs"
  by (induction xs) simp_all

lemma bind_buildPlaceholders:
  assumes "us \<noteq> []"
  shows "bind_parameters (''$1'' # split_text CHR '','' (buildPlaceholders 2 (int (length us)))) (b # us) =
    (if length us \<le> 65534 then Some (b # us) else None)"
proof -
  let ?ns = "map (\<lambda>i. i + 2) [0..<length us]"
  have "buildPlaceholders 2 (int (length us)) = join_text '','' (map (\<lambda>n. ''$'' @ Itoa (int n)) ?ns)"
    using assms by (simp add: buildPlaceholders_def comp_def add.commute)
  moreover have "split_text CHR '','' (join_text '','' (map (\<lambda>n. ''$'' @ Itoa (int n)) ?ns)) =
      map (\<lambda>n. ''$'' @ Itoa (int n)) ?ns"
  proof (rule split_join_text)
    show "\<forall>x\<in>set (map (\<lambda>n. ''$'' @ Itoa (int n)) ?ns). CHR '','' \<notin> set x"
      unfolding set_map using Itoa_plain by blast
  qed (use assms in simp)
  ultimately have split: "''$1'' # split_text CHR '','' (buildPlaceholders 2 (int (length us))) =
      map (\<lambda>n. ''$'' @ Itoa (int n)) (1 # ?ns)"
    by (simp add: Itoa_def nat_text.simps digit_def char_of_def bit_0)
  have "all_some (map placeholder_number (map (\<lambda>n. ''$'' @ Itoa (int n)) (1 # ?ns))) = Some (1 # ?ns)"
    using all_some_Some [of "1 # ?ns"] unfolding map_map comp_def placeholder_number_Itoa by (simp only: map_ident)
  moreover have "length (b # us) \<in> set (1 # ?ns)" using assms by (cases us) (auto simp: image_iff)
  moreover have "map (\<lambda>n. (b # us) ! (n - 1)) (1 # ?ns) = b # us"
    by (simp add: comp_def map_nth)
  ultimately show ?thesis
    unfolding split bind_parameters_def by (auto simp: list_all_iff)
qed

lemma run_BulkRemove:
  assumes "\<And>n. w_fault w n = None"
  shows "run_state (broadcastSvc_BulkRemoveRecipients Pool b us) w =
    (if us = [] then (Inr (), w)
     else if length us \<le> 65534 then (Inr (), (tick w)\<lparr>w_db := (w_db w)\<lparr>t_broadcast_recipients :=
       filter (\<lambda>x. \<not> (br_BroadcastID x = b \<and> br_UserID x \<in> set us)) (t_broadcast_recipients (w_db w))\<rparr>\<rparr>)
     else (Inl (SqlError BadParameters), tick w))"
  using assms
  by (simp add: broadcastSvc_BulkRemoveRecipients_def broadcastRepo_BulkRemoveRecipients_def delete_recipients_def
      bind_buildPlaceholders void_def run_sql_Pool on_table_def delete_where_def Let_def tick_def)

text \<open>
  C38. Removing many recipients with one statement, whose placeholders are made as a text that the database reads,
  does the same to the database as removing them one by one and not minding those who are none, as long as
  there are no more of them than 65534. With more, the statement has too many arguments: it is an error and
  nobody is removed.
\<close>

theorem BulkRemove_is_removing_each:
  assumes "\<And>n. w_fault w n = None"
  shows "if length us \<le> 65534
    then fst (run_state (broadcastSvc_BulkRemoveRecipients Pool b us) w) = Inr () \<and>
      w_db (snd (run_state (broadcastSvc_BulkRemoveRecipients Pool b us) w)) =
        w_db (snd (run_state (forEachIgnore us (broadcastSvc_RemoveRecipient Pool b)) w))
    else isl (fst (run_state (broadcastSvc_BulkRemoveRecipients Pool b us) w)) \<and>
      w_db (snd (run_state (broadcastSvc_BulkRemoveRecipients Pool b us) w)) = w_db w"
proof -
  have "w_db (snd (run_state (forEachIgnore us (broadcastSvc_RemoveRecipient Pool b)) w)) =
      (w_db w)\<lparr>t_broadcast_recipients :=
        filter (\<lambda>x. \<not> (br_BroadcastID x = b \<and> br_UserID x \<in> set us)) (t_broadcast_recipients (w_db w))\<rparr>"
    using assms
  proof (induction us arbitrary: w)
    case (Cons u us)
    obtain r where r: "run_state (broadcastRepo_RemoveRecipient Pool b u) w = (r, (tick w)\<lparr>w_db :=
        (w_db w)\<lparr>t_broadcast_recipients := filter (\<lambda>x. \<not> is_recipient b u x) (t_broadcast_recipients (w_db w))\<rparr>\<rparr>)"
      using run_RemoveRecipient [OF Cons.prems] by blast
    show ?case
      using Cons.IH [of "(tick w)\<lparr>w_db := (w_db w)\<lparr>t_broadcast_recipients :=
          filter (\<lambda>x. \<not> is_recipient b u x) (t_broadcast_recipients (w_db w))\<rparr>\<rparr>"] Cons.prems
      by (simp add: broadcastSvc_RemoveRecipient_def r is_recipient_def) (rule arg_cong [of _ _ "\<lambda>x. _\<lparr>t_broadcast_recipients := x\<rparr>"], rule filter_cong, auto)
  qed simp
  with run_BulkRemove [OF assms, of b us] show ?thesis by auto
qed

lemma BulkRemove_is_removing_each_witness:
  "t_broadcast_recipients (w_db (snd (run_state (broadcastSvc_BulkRemoveRecipients Pool 7 [1, 2]) broadcast_world))) =
    t_broadcast_recipients (w_db (snd (run_state (forEachIgnore [1, 2] (broadcastSvc_RemoveRecipient Pool 7)) broadcast_world))) \<and>
   isl (fst (run_state (broadcastSvc_BulkRemoveRecipients Pool 7 (replicate 65535 2)) broadcast_world))"
proof -
  have "\<And>n. w_fault broadcast_world n = None" by (simp add: broadcast_world_def sample_world_def)
  from BulkRemove_is_removing_each [OF this, of "[1, 2]" 7]
    BulkRemove_is_removing_each [OF this, of "replicate 65535 2" 7] show ?thesis by simp
qed

end
