(* ===== verification/Uploads.thy ===== *)
theory Uploads
  imports Cascades Samples UuidText
begin

text \<open>
  File uploads: \<^verbatim>\<open>internal/repository/upload_repository.go\<close>,
  \<^verbatim>\<open>internal/services/upload_s3_service.go\<close> and the parts of \<^verbatim>\<open>internal/storage/s3_client.go\<close> it calls.
  The presigning of the AWS SDK is the field \<open>s3_presign\<close> of the client: of bucket, key, content type,
  length and expiry it makes a URL or fails.
\<close>

section \<open>The repository\<close>

definition upload_typed :: "UploadSession \<Rightarrow> bool" where
  "upload_typed u \<longleftrightarrow> typed [(up_Status u, upload_status_enum)]"

definition uploadRepo_Create :: "DBTX \<Rightarrow> UploadSession \<Rightarrow> unit go" where
  "uploadRepo_Create db u = mapErr alreadyExists (sql db (checked InvalidText (\<lambda>_. upload_typed u)
     (insert_into t_upload_sessions t_upload_sessions_update upload_clash
       (\<lambda>t. has_user t (up_UploaderID u)) u)))"

definition uploadRepo_GetByID :: "DBTX \<Rightarrow> uuid \<Rightarrow> UploadSession go" where
  "uploadRepo_GetByID db i =
     mapErr notFound (queryRow db (\<lambda>t. filter (\<lambda>u. up_ID u = i) (t_upload_sessions t)))"

definition set_upload :: "time \<Rightarrow> UploadSession \<Rightarrow> UploadSession \<Rightarrow> UploadSession" where
  "set_upload now u r = u\<lparr>up_ID := up_ID r, up_CreatedAt := up_CreatedAt r, up_UpdatedAt := now\<rparr>"

definition uploadRepo_Update :: "DBTX \<Rightarrow> UploadSession \<Rightarrow> unit go" where
  "uploadRepo_Update db u = do {
     now \<leftarrow> time_Now;
     affected (sql db (checked InvalidText (\<lambda>_. upload_typed u)
       (update_into t_upload_sessions t_upload_sessions_update upload_clash
         (\<lambda>t. has_user t (up_UploaderID u)) (\<lambda>r. up_ID r = up_ID u) (set_upload now u))))
   }"

definition uploadRepo_Delete :: "DBTX \<Rightarrow> uuid \<Rightarrow> unit go" where
  "uploadRepo_Delete db i = affected (sql db (on_table t_upload_sessions t_upload_sessions_update
     (delete_where (\<lambda>u. up_ID u = i))))"

definition uploadRepo_GetUserUploadSessions :: "DBTX \<Rightarrow> uuid \<Rightarrow> UploadSession list go" where
  "uploadRepo_GetUserUploadSessions db uploader = sql db (query (\<lambda>t.
     order_desc (\<lambda>u. Some (up_CreatedAt u)) (filter (\<lambda>u. up_UploaderID u = uploader) (t_upload_sessions t))))"

definition uploadRepo_GetInProgressUploads :: "DBTX \<Rightarrow> uuid \<Rightarrow> UploadSession list go" where
  "uploadRepo_GetInProgressUploads db uploader = sql db (query (\<lambda>t.
     order_desc (\<lambda>u. Some (up_CreatedAt u))
       (filter (\<lambda>u. up_UploaderID u = uploader \<and> up_Status u = ''IN_PROGRESS'') (t_upload_sessions t))))"

definition completed_of :: "uuid \<Rightarrow> UploadSession \<Rightarrow> bool" where
  "completed_of uploader u \<longleftrightarrow> up_UploaderID u = uploader \<and> up_Status u = ''COMPLETED''"

definition uploadRepo_GetCompletedUploads ::
  "DBTX \<Rightarrow> uuid \<Rightarrow> int \<Rightarrow> int \<Rightarrow> (UploadSession list \<times> int) go" where
  "uploadRepo_GetCompletedUploads db uploader page limit =
     andThen (queryRow db (\<lambda>t. [count_where (completed_of uploader) (t_upload_sessions t)])) (\<lambda>total.
     andThen (sql db (query_page ((page - 1) * limit) limit (\<lambda>t.
       order_desc (\<lambda>u. Some (up_UpdatedAt u)) (filter (completed_of uploader) (t_upload_sessions t)))))
       (\<lambda>sessions. ok (sessions, total)))"

definition update_upload :: "DBTX \<Rightarrow> uuid \<Rightarrow> (UploadSession \<Rightarrow> UploadSession) \<Rightarrow> int go" where
  "update_upload db i f = sql db (on_table t_upload_sessions t_upload_sessions_update
     (update_where (\<lambda>u. up_ID u = i) f))"

definition uploadRepo_UpdateProgress :: "DBTX \<Rightarrow> uuid \<Rightarrow> int \<Rightarrow> unit go" where
  "uploadRepo_UpdateProgress db i uploadedBytes = do {
     now \<leftarrow> time_Now;
     affected (update_upload db i (\<lambda>u. u\<lparr>up_UploadedBytes := uploadedBytes, up_UpdatedAt := now\<rparr>))
   }"

definition uploadRepo_MarkCompleted :: "DBTX \<Rightarrow> uuid \<Rightarrow> unit go" where
  "uploadRepo_MarkCompleted db i = WithTx db (\<lambda>tx.
     andThen (uploadRepo_GetByID tx i) (\<lambda>session. do {
       completedAt \<leftarrow> time_Now;
       void (update_upload tx i (\<lambda>u. u\<lparr>up_Status := ''COMPLETED'', up_UploadedBytes := up_SizeBytes session,
         up_CompletedAt := Some completedAt, up_UpdatedAt := completedAt\<rparr>))
     }))"

definition uploadRepo_MarkFailed :: "DBTX \<Rightarrow> uuid \<Rightarrow> unit go" where
  "uploadRepo_MarkFailed db i = do {
     now \<leftarrow> time_Now;
     affected (update_upload db i (\<lambda>u. u\<lparr>up_Status := ''FAILED'', up_UpdatedAt := now\<rparr>))
   }"

definition is_stale :: "time \<Rightarrow> UploadSession \<Rightarrow> bool" where
  "is_stale cutoff u \<longleftrightarrow> up_Status u = ''IN_PROGRESS'' \<and> up_UpdatedAt u < cutoff"

definition uploadRepo_GetStaleUploads :: "DBTX \<Rightarrow> duration \<Rightarrow> UploadSession list go" where
  "uploadRepo_GetStaleUploads db olderThan = do {
     now \<leftarrow> time_Now;
     sql db (query (\<lambda>t. filter (is_stale (now - olderThan)) (t_upload_sessions t)))
   }"

definition uploadRepo_DeleteStaleUploads :: "DBTX \<Rightarrow> duration \<Rightarrow> int go" where
  "uploadRepo_DeleteStaleUploads db olderThan = do {
     now \<leftarrow> time_Now;
     sql db (on_table t_upload_sessions t_upload_sessions_update (delete_where (is_stale (now - olderThan))))
   }"

section \<open>The storage client\<close>

record S3Client =
  s3_Bucket :: string
  s3_PublicBase :: string
  s3_PresignTTL :: duration
  s3_presign :: "string \<Rightarrow> string \<Rightarrow> string \<Rightarrow> int option \<Rightarrow> duration option \<Rightarrow> string option"

definition PresignPut :: "S3Client \<Rightarrow> string \<Rightarrow> string \<Rightarrow> int \<Rightarrow> (string \<times> (string \<times> string) list) go" where
  "PresignPut c key contentType sizeBytes =
     (if key = [] then fail (OtherError ''object key is required'')
      else case s3_presign c (s3_Bucket c) key contentType (if sizeBytes > 0 then Some sizeBytes else None)
          (if s3_PresignTTL c > 0 then Some (s3_PresignTTL c) else None) of
        None \<Rightarrow> fail (OtherError ''presign'')
      | Some url \<Rightarrow> ok (url,
          (if contentType \<noteq> [] then [(''Content-Type'', contentType)] else []) @
          (if sizeBytes > 0 then [(''Content-Length'', Itoa sizeBytes)] else [])))"

text \<open>\<open>None\<close> is the nil client.\<close>

definition FileURL :: "S3Client option \<Rightarrow> string \<Rightarrow> string" where
  "FileURL c key = (case c of
     None \<Rightarrow> []
   | Some cl \<Rightarrow> if key = [] then []
       else if s3_PublicBase cl \<noteq> [] then s3_PublicBase cl @ ''/'' @ key else [])"

definition ValidateContentType :: "string \<Rightarrow> error option" where
  "ValidateContentType contentType =
     (if contentType = [] then Some (OtherError ''content type is required'') else None)"

datatype ObjectCannedACL = ACLPrivate | ACLPublicRead

definition ValidateACL :: "string \<Rightarrow> error + ObjectCannedACL" where
  "ValidateACL acl =
     (if acl = [] then Inr ACLPrivate
      else if acl = ''private'' then Inr ACLPrivate
      else if acl = ''public-read'' then Inr ACLPublicRead
      else Inl (OtherError ''invalid acl''))"

section \<open>The service\<close>

record UploadS3Service =
  usv_repo :: DBTX
  usv_storage :: "S3Client option"

record PresignInput =
  pin_UploaderID :: uuid
  pin_FileName :: string
  pin_ContentType :: string
  pin_FileSize :: int

record PresignResult =
  pre_Session :: UploadSession
  pre_UploadURL :: string
  pre_UploadKey :: string
  pre_Headers :: "(string \<times> string) list"

definition uploadSvc_GetByID :: "UploadS3Service \<Rightarrow> uuid \<Rightarrow> UploadSession go" where
  "uploadSvc_GetByID s i = uploadRepo_GetByID (usv_repo s) i"

definition uploadSvc_Update :: "UploadS3Service \<Rightarrow> UploadSession \<Rightarrow> unit go" where
  "uploadSvc_Update s u = uploadRepo_Update (usv_repo s) u"

definition uploadSvc_Delete :: "UploadS3Service \<Rightarrow> uuid \<Rightarrow> unit go" where
  "uploadSvc_Delete s i = uploadRepo_Delete (usv_repo s) i"

definition uploadSvc_GetUserUploadSessions :: "UploadS3Service \<Rightarrow> uuid \<Rightarrow> UploadSession list go" where
  "uploadSvc_GetUserUploadSessions s u = uploadRepo_GetUserUploadSessions (usv_repo s) u"

definition uploadSvc_GetInProgressUploads :: "UploadS3Service \<Rightarrow> uuid \<Rightarrow> UploadSession list go" where
  "uploadSvc_GetInProgressUploads s u = uploadRepo_GetInProgressUploads (usv_repo s) u"

definition uploadSvc_GetCompletedUploads ::
  "UploadS3Service \<Rightarrow> uuid \<Rightarrow> int \<Rightarrow> int \<Rightarrow> (UploadSession list \<times> int) go" where
  "uploadSvc_GetCompletedUploads s u page limit = uploadRepo_GetCompletedUploads (usv_repo s) u page limit"

definition uploadSvc_UpdateProgress :: "UploadS3Service \<Rightarrow> uuid \<Rightarrow> int \<Rightarrow> unit go" where
  "uploadSvc_UpdateProgress s i uploadedBytes = uploadRepo_UpdateProgress (usv_repo s) i uploadedBytes"

definition uploadSvc_MarkFailed :: "UploadS3Service \<Rightarrow> uuid \<Rightarrow> unit go" where
  "uploadSvc_MarkFailed s i = uploadRepo_MarkFailed (usv_repo s) i"

definition uploadSvc_GetStaleUploads :: "UploadS3Service \<Rightarrow> duration \<Rightarrow> UploadSession list go" where
  "uploadSvc_GetStaleUploads s olderThan = uploadRepo_GetStaleUploads (usv_repo s) olderThan"

definition uploadSvc_DeleteStaleUploads :: "UploadS3Service \<Rightarrow> duration \<Rightarrow> int go" where
  "uploadSvc_DeleteStaleUploads s olderThan = uploadRepo_DeleteStaleUploads (usv_repo s) olderThan"

text \<open>\<^verbatim>\<open>path.Ext\<close>: from the last dot of the last slash-separated element on.\<close>

definition path_Ext :: "string \<Rightarrow> string" where
  "path_Ext p = (let element = takeWhile (\<lambda>c. c \<noteq> CHR ''/'') (rev p) in
     if CHR ''.'' \<in> set element then CHR ''.'' # rev (takeWhile (\<lambda>c. c \<noteq> CHR ''.'') element) else [])"

definition buildObjectKey :: "UploadSession \<Rightarrow> string" where
  "buildObjectKey session =
     (let ext = ToLower (path_Ext (up_Filename session));
          base = ''uploads/'' @ uuid_String (up_UploaderID session) @ ''/'' @ uuid_String (up_ID session)
      in if ext = [] then base else base @ ext)"

definition new_upload :: "PresignInput \<Rightarrow> uuid \<Rightarrow> time \<Rightarrow> time \<Rightarrow> UploadSession" where
  "new_upload input i created updated = \<lparr>up_ID = i, up_UploaderID = pin_UploaderID input,
     up_Filename = pin_FileName input, up_MimeType = pin_ContentType input,
     up_SizeBytes = pin_FileSize input, up_ChunkSize = 0, up_UploadedBytes = 0,
     up_Status = ''IN_PROGRESS'', up_ObjectKey = [], up_FileURL = None, up_CompletedAt = None,
     up_CreatedAt = created, up_UpdatedAt = updated\<rparr>"

definition CreatePresignedUpload :: "UploadS3Service \<Rightarrow> PresignInput \<Rightarrow> PresignResult go" where
  "CreatePresignedUpload s input = (case usv_storage s of
     None \<Rightarrow> fail (OtherError ''s3 storage is not configured'')
   | Some storage \<Rightarrow>
       if pin_UploaderID input = uuid_Nil \<or> pin_FileName input = [] \<or> pin_ContentType input = [] \<or>
          pin_FileSize input \<le> 0
       then fail ErrInvalidInput
       else case ValidateContentType (pin_ContentType input) of
         Some _ \<Rightarrow> fail ErrInvalidInput
       | None \<Rightarrow> do {
           i \<leftarrow> uuid_New;
           created \<leftarrow> time_Now;
           updated \<leftarrow> time_Now;
           let session0 = new_upload input i created updated;
           let key = buildObjectKey session0;
           let session = session0\<lparr>up_ObjectKey := key\<rparr>;
           andThen (PresignPut storage key (pin_ContentType input) (pin_FileSize input)) (\<lambda>(url, headers).
           andThen (uploadRepo_Create (usv_repo s) session) (\<lambda>_.
             ok \<lparr>pre_Session = session, pre_UploadURL = url, pre_UploadKey = key, pre_Headers = headers\<rparr>))
         })"

definition MarkCompletedWithS3 :: "UploadS3Service \<Rightarrow> uuid \<Rightarrow> UploadSession go" where
  "MarkCompletedWithS3 s i =
     (if i = uuid_Nil then fail ErrInvalidInput
      else andThen (uploadRepo_GetByID (usv_repo s) i) (\<lambda>session.
        if up_Status session = ''COMPLETED'' then ok session
        else if up_ObjectKey session = [] then fail ErrInvalidInput
        else do {
          let fileURL = FileURL (usv_storage s) (up_ObjectKey session);
          now \<leftarrow> time_Now;
          let completed = session\<lparr>up_FileURL := (if fileURL \<noteq> [] then Some fileURL else up_FileURL session),
            up_CompletedAt := Some now, up_Status := ''COMPLETED''\<rparr>;
          andThen (uploadRepo_Update (usv_repo s) completed) (\<lambda>_. ok completed)
        }))"

section \<open>Every session has an object key of its own\<close>

text \<open>
  The key of a session lies in the directory of its uploader, begins with its own identifier and goes
  on with an extension at most. The name of the file, which the client chooses, cannot break out.
\<close>

definition own_key :: "UploadSession \<Rightarrow> bool" where
  "own_key u \<longleftrightarrow> (\<exists>ext. CHR ''/'' \<notin> set ext \<and>
     up_ObjectKey u = ''uploads/'' @ uuid_String (up_UploaderID u) @ ''/'' @ uuid_String (up_ID u) @ ext)"

definition uploads_ok :: "tables \<Rightarrow> bool" where
  "uploads_ok t \<longleftrightarrow> clash_free upload_clash (t_upload_sessions t) \<and> (\<forall>u\<in>set (t_upload_sessions t). own_key u)"

interpretation uploads_key: row_key upload_clash
  by unfold_locales (simp add: upload_clash_def)

lemma own_key_inject:
  assumes "own_key a" "own_key b" "up_ObjectKey a = up_ObjectKey b"
  shows "up_UploaderID a = up_UploaderID b \<and> up_ID a = up_ID b"
  using assms
  by (auto simp: own_key_def append_eq_append_conv)

lemma slash_not_in_ext: "CHR ''/'' \<notin> set (path_Ext p)"
  by (auto simp: path_Ext_def Let_def dest: set_takeWhileD)

lemma lower_char_slash: "lower_char c = CHR ''/'' \<Longrightarrow> c = CHR ''/''"
  by (auto simp: lower_char_def Let_def split: if_splits dest!: arg_cong [of _ _ "of_char :: char \<Rightarrow> nat"])

lemma slash_not_in_lower: "CHR ''/'' \<notin> set s \<Longrightarrow> CHR ''/'' \<notin> set (ToLower s)"
  by (auto simp: ToLower_def) (metis lower_char_slash)

lemma own_key_new: "own_key ((new_upload input i c d)\<lparr>up_ObjectKey := buildObjectKey (new_upload input i c d)\<rparr>)"
  using slash_not_in_lower [OF slash_not_in_ext, of "pin_FileName input"]
  by (auto simp: own_key_def buildObjectKey_def new_upload_def Let_def intro: exI [of _ "[]"])

text \<open>What the operations do to the table.\<close>

lemma uploads_ok_append:
  "uploads_ok t \<Longrightarrow> own_key u \<Longrightarrow> \<forall>x\<in>set (t_upload_sessions t). \<not> upload_clash x u \<Longrightarrow>
     uploads_ok (t\<lparr>t_upload_sessions := t_upload_sessions t @ [u]\<rparr>)"
  by (auto simp: uploads_ok_def sorted_wrt_append)

lemma uploads_ok_filter:
  "uploads_ok t \<Longrightarrow> uploads_ok (t\<lparr>t_upload_sessions := filter P (t_upload_sessions t)\<rparr>)"
  by (auto simp: uploads_ok_def sorted_wrt_filter)

lemma uploads_ok_map_where:
  assumes "uploads_ok t" and "\<And>u. up_ID (f u) = up_ID u"
    "\<And>u. u \<in> set (t_upload_sessions t) \<Longrightarrow> P u \<Longrightarrow> own_key (f u)"
  shows "uploads_ok (t\<lparr>t_upload_sessions := map_where P f (t_upload_sessions t)\<rparr>)"
  using assms uploads_key.map_where_keeps [of "t_upload_sessions t" f P]
  by (auto simp: uploads_ok_def in_map_where upload_clash_def)

lemma own_key_same: "own_key u \<Longrightarrow> up_ID v = up_ID u \<Longrightarrow> up_UploaderID v = up_UploaderID u \<Longrightarrow>
    up_ObjectKey v = up_ObjectKey u \<Longrightarrow> own_key v"
  by (simp add: own_key_def)

lemma update_upload_keeps:
  assumes ok: "uploads_ok (w_db w)" and run: "run_state (update_upload Pool i f) w = (r, w')"
    and f: "\<And>u. up_ID (f u) = up_ID u \<and> up_UploaderID (f u) = up_UploaderID u \<and> up_ObjectKey (f u) = up_ObjectKey u"
  shows "uploads_ok (w_db w')"
proof -
  have "uploads_ok ((w_db w)\<lparr>t_upload_sessions := map_where (\<lambda>u. up_ID u = i) f (t_upload_sessions (w_db w))\<rparr>)"
    using ok f by (intro uploads_ok_map_where) (auto simp: uploads_ok_def intro: own_key_same)
  with run ok show ?thesis
    by (auto simp: update_upload_def run_sql_Pool Let_def on_table_def update_where_def split: option.splits)
qed

lemma keeps_uploads_update:
  assumes "\<And>u. up_ID (f u) = up_ID u \<and> up_UploaderID (f u) = up_UploaderID u \<and> up_ObjectKey (f u) = up_ObjectKey u"
  shows "keeps (\<lambda>w. uploads_ok (w_db w)) (update_upload Pool i f)"
  by (rule keepsI) (rule update_upload_keeps, assumption+, rule assms)

lemma keeps_uploads_delete: "keeps (\<lambda>w. uploads_ok (w_db w)) (sql Pool
    (on_table t_upload_sessions t_upload_sessions_update (delete_where P)))"
  by (rule keepsI)
    (auto simp: run_sql_Pool Let_def on_table_def delete_where_def uploads_ok_filter split: option.splits)

lemma keeps_uploads_time: "keeps (\<lambda>w. uploads_ok (w_db w)) time_Now" "keeps (\<lambda>w. uploads_ok (w_db w)) uuid_New"
  by (rule keepsI, simp)+

lemmas keeps_uploads = keeps_uploads_update keeps_uploads_delete keeps_uploads_time

lemma uploadRepo_Create_keeps:
  assumes "uploads_ok (w_db w)" "own_key u" "run_state (uploadRepo_Create Pool u) w = (r, w')"
  shows "uploads_ok (w_db w')"
  using assms uploads_ok_append [OF assms(1,2)]
  by (auto simp: uploadRepo_Create_def run_sql_Pool Let_def checked_def insert_into_Inr
      split: option.splits sum.splits if_splits)

lemma run_PresignPut: "run_state (PresignPut c k ct n) w = (r, w') \<Longrightarrow> w' = w"
  by (auto simp: PresignPut_def split: option.splits if_splits)

lemma keeps_Presign:
  assumes "usv_repo s = Pool"
  shows "keeps (\<lambda>w. uploads_ok (w_db w)) (CreatePresignedUpload s input)"
proof -
  have "keeps (\<lambda>w. uploads_ok (w_db w)) (PresignPut c k ct n)" for c k ct n
    using run_PresignPut by (blast intro: keepsI)
  moreover have "keeps (\<lambda>w. uploads_ok (w_db w)) (uploadRepo_Create Pool
      ((new_upload input i c d)\<lparr>up_ObjectKey := buildObjectKey (new_upload input i c d)\<rparr>))" for i c d
    using uploadRepo_Create_keeps [OF _ own_key_new] by (blast intro: keepsI)
  ultimately show ?thesis
    using assms unfolding CreatePresignedUpload_def Let_def
    by (auto intro!: keeps_intros keeps_uploads_time)
qed

lemma uploadRepo_Update_keeps:
  assumes ok: "uploads_ok (w_db w)" and key: "own_key u" and run: "run_state (uploadRepo_Update Pool u) w = (r, w')"
  shows "uploads_ok (w_db w')"
proof -
  have row: "own_key (set_upload now u x)" if "up_ID x = up_ID u" for now x
    using own_key_same [OF key, of "set_upload now u x"] that by (simp add: set_upload_def)
  have "\<forall>x\<in>set (map_where (\<lambda>r. up_ID r = up_ID u) (set_upload now u) (t_upload_sessions (w_db w))). own_key x" for now
    using ok row by (auto simp: uploads_ok_def in_map_where)
  with ok run show ?thesis
    by (auto simp: uploadRepo_Update_def affected_def run_sql_Pool Let_def checked_def update_into_Inr uploads_ok_def
        split: option.splits sum.splits if_splits)
qed

lemma MarkCompleted_keeps:
  assumes ok: "uploads_ok (w_db w)" and pool: "usv_repo s = Pool"
    and run: "run_state (MarkCompletedWithS3 s i) w = (r, w')"
  shows "uploads_ok (w_db w')"
proof (cases "i = uuid_Nil")
  case True
  with run ok show ?thesis by (simp add: MarkCompletedWithS3_def)
next
  case False
  obtain x w1 where get: "run_state (uploadRepo_GetByID Pool i) w = (x, w1)" by fastforce
  then have w1: "w_db w1 = w_db w" "\<And>u. x = Inr u \<Longrightarrow> u \<in> set (t_upload_sessions (w_db w))"
    by (auto simp: uploadRepo_GetByID_def queryRow_def run_sql_Pool Let_def query_def filter_eq_Cons_iff
        split: option.splits list.splits sum.splits)
  show ?thesis
  proof (cases x)
    case (Inl e)
    with run get False ok w1 pool show ?thesis by (simp add: MarkCompletedWithS3_def)
  next
    case (Inr u)
    with w1 ok have u: "own_key u" by (auto simp: uploads_ok_def)
    let ?c = "u\<lparr>up_FileURL := (if FileURL (usv_storage s) (up_ObjectKey u) \<noteq> [] then
        Some (FileURL (usv_storage s) (up_ObjectKey u)) else up_FileURL u),
      up_CompletedAt := Some (w_now w1 (w_step w1)), up_Status := ''COMPLETED''\<rparr>"
    have key: "own_key ?c" by (rule own_key_same [OF u]) simp_all
    obtain y w2 where upd: "run_state (uploadRepo_Update Pool ?c) (tick w1) = (y, w2)" by fastforce
    from uploadRepo_Update_keeps [OF _ key upd] ok w1 have "uploads_ok (w_db w2)" by simp
    moreover have "w' = w1 \<or> w' = w2"
      using run get False Inr pool upd
      by (auto simp: MarkCompletedWithS3_def Let_def tick_def split: if_splits sum.splits)
    ultimately show ?thesis using ok w1 by auto
  qed
qed

text \<open>The operations of the service that read nothing before they write\<close>

lemma keeps_upload_services:
  assumes "usv_repo s = Pool"
  shows "keeps (\<lambda>w. uploads_ok (w_db w)) (uploadSvc_UpdateProgress s i n)"
    "keeps (\<lambda>w. uploads_ok (w_db w)) (uploadSvc_MarkFailed s i)"
    "keeps (\<lambda>w. uploads_ok (w_db w)) (uploadSvc_Delete s i)"
    "keeps (\<lambda>w. uploads_ok (w_db w)) (uploadSvc_DeleteStaleUploads s d)"
    "keeps (\<lambda>w. uploads_ok (w_db w)) (MarkCompletedWithS3 s i)"
  using assms
  by (auto simp: uploadSvc_UpdateProgress_def uploadRepo_UpdateProgress_def uploadSvc_MarkFailed_def
      uploadRepo_MarkFailed_def uploadSvc_Delete_def uploadRepo_Delete_def
      uploadSvc_DeleteStaleUploads_def uploadRepo_DeleteStaleUploads_def affected_def
      intro!: keeps_intros keeps_uploads) (rule keepsI, erule (1) MarkCompleted_keeps)

lemma GetByID_Inr:
  assumes "run_state (uploadSvc_GetByID s i) w = (Inr u, w')" "usv_repo s = Pool"
  shows "u \<in> set (t_upload_sessions (w_db w)) \<and> w_db w' = w_db w"
  using assms
  by (auto simp: uploadSvc_GetByID_def uploadRepo_GetByID_def queryRow_def run_sql_Pool Let_def query_def
      filter_eq_Cons_iff split: option.splits list.splits sum.splits)

section \<open>A service to run\<close>

definition sample_s3 :: UploadS3Service where
  "sample_s3 = \<lparr>usv_repo = Pool, usv_storage = Some \<lparr>s3_Bucket = ''b'', s3_PublicBase = [], s3_PresignTTL = 0,
     s3_presign = (\<lambda>_ key _ _ _. Some key)\<rparr>\<rparr>"

definition sample_presign :: PresignInput where
  "sample_presign = \<lparr>pin_UploaderID = 1, pin_FileName = ''../x/PIC.JPG'', pin_ContentType = ''image/jpeg'',
     pin_FileSize = 10\<rparr>"

lemma buildObjectKey_not_empty [simp]: "buildObjectKey u \<noteq> []"
  by (simp add: buildObjectKey_def Let_def)

text \<open>The extension of a name is that of its last element.\<close>

lemma path_Ext_examples: "path_Ext ''../x/PIC.JPG'' = ''.JPG''" "path_Ext ''.a/b'' = []"
  by (simp_all add: path_Ext_def)

end
