(* ===== verification/WebSocket.thy ===== *)
theory WebSocket
  imports Hub AuthService
begin

text \<open>
  The upgrade of a request to a WebSocket (\<^verbatim>\<open>internal/server/websocket_handler.go\<close>). The request is
  its query parameter \<^verbatim>\<open>token\<close> and its \<^verbatim>\<open>Authorization\<close> header, both empty when absent; \<open>upgrades\<close> says
  whether the handshake of the WebSocket library succeeds. A device identifier that cannot be parsed,
  which nothing reads, is taken as nil. The route that leads here is one of theory \<open>Server\<close>.
\<close>

definition ws_extractToken :: "string \<Rightarrow> string \<Rightarrow> string" where
  "ws_extractToken queryToken authHeader =
     (if queryToken \<noteq> [] then queryToken
      else if authHeader \<noteq> [] then
        (let scheme = takeWhile (\<lambda>c. c \<noteq> CHR '' '') authHeader
         in case dropWhile (\<lambda>c. c \<noteq> CHR '' '') authHeader of
              [] \<Rightarrow> []
            | _ # rest \<Rightarrow> if ToLower scheme = ToLower ''Bearer'' then rest else [])
      else [])"

datatype ws_reply =
    Unauthorized string
  | UpgradeFailed
  | Registered nat

definition ws_Handle :: "auth_lib \<Rightarrow> AuthService \<Rightarrow> string \<Rightarrow> string \<Rightarrow> bool \<Rightarrow> (hub_state, ws_reply) state" where
  "ws_Handle lib s queryToken authHeader upgrades =
     (let token = ws_extractToken queryToken authHeader in
      if token = [] then State_Monad.return (Unauthorized ''missing token'')
      else do {
        r \<leftarrow> on_store (authSvc_ParseAccessToken lib s token);
        (case r of
           Inl _ \<Rightarrow> State_Monad.return (Unauthorized ''invalid token'')
         | Inr claims \<Rightarrow>
             (case uuid_Parse lib (ac_UserID claims) of
                None \<Rightarrow> State_Monad.return (Unauthorized ''invalid user id'')
              | Some userID \<Rightarrow>
                  if \<not> upgrades then State_Monad.return UpgradeFailed
                  else do {
                    let deviceID = (if ac_DeviceID claims \<noteq> [] then
                      (case uuid_Parse lib (ac_DeviceID claims) of None \<Rightarrow> uuid_Nil | Some d \<Rightarrow> d) else uuid_Nil);
                    a \<leftarrow> connect userID deviceID;
                    State_Monad.return (Registered a)
                  }))
      })"

end
