(* ===== verification/AuthHandler.thy ===== *)
theory AuthHandler
  imports AuthService Http
begin

text \<open>
  \<^verbatim>\<open>internal/handler/auth_handler.go\<close> and \<^verbatim>\<open>internal/transport/httpdto/auth.go\<close>. A request is decoded
  straight into the input of the service, which has the same fields; errors are answered with the
  status that \<^verbatim>\<open>services.HTTPStatus\<close> gives them.
\<close>

section \<open>Requests and replies\<close>

definition decode_RegisterRequest :: "json \<Rightarrow> RegisterInput option" where
  "decode_RegisterRequest = decode_struct (\<lambda>fs.
     Option.bind (required_string (field fs ''email'')) (\<lambda>email.
     Option.bind (required_string (field fs ''username'')) (\<lambda>username.
     Option.bind (as_string (field fs ''phone_number'')) (\<lambda>phone.
     Option.bind (required_string (field fs ''password'')) (\<lambda>password.
     Option.bind (as_string (field fs ''display_name'')) (\<lambda>displayName.
     Option.bind (required_string (field fs ''device_id'')) (\<lambda>device.
     Option.bind (as_string (field fs ''device_name'')) (\<lambda>deviceName.
     Option.bind (as_string (field fs ''device_type'')) (\<lambda>deviceType.
       Some \<lparr>rin_Email = email, rin_Username = username, rin_PhoneNumber = phone,
         rin_Password = password, rin_DisplayName = displayName, rin_DeviceID = device,
         rin_DeviceName = deviceName, rin_DeviceType = deviceType\<rparr>)))))))))"

definition decode_LoginRequest :: "json \<Rightarrow> LoginInput option" where
  "decode_LoginRequest = decode_struct (\<lambda>fs.
     Option.bind (required_string (field fs ''identity'')) (\<lambda>identity.
     Option.bind (required_string (field fs ''password'')) (\<lambda>password.
     Option.bind (required_string (field fs ''device_id'')) (\<lambda>device.
     Option.bind (as_string (field fs ''device_name'')) (\<lambda>deviceName.
     Option.bind (as_string (field fs ''device_type'')) (\<lambda>deviceType.
       Some \<lparr>lin_Identity = identity, lin_Password = password, lin_DeviceID = device,
         lin_DeviceName = deviceName, lin_DeviceType = deviceType\<rparr>))))))"

definition decode_RefreshRequest :: "json \<Rightarrow> RefreshInput option" where
  "decode_RefreshRequest = decode_struct (\<lambda>fs.
     Option.bind (required_string (field fs ''session_id'')) (\<lambda>i.
     Option.bind (required_string (field fs ''refresh_token'')) (\<lambda>token.
       Some \<lparr>fin_SessionID = i, fin_RefreshToken = token\<rparr>)))"

definition decode_LogoutRequest :: "json \<Rightarrow> string option" where
  "decode_LogoutRequest = decode_struct (\<lambda>fs. required_string (field fs ''session_id''))"

definition decode_PasswordForgotRequest :: "json \<Rightarrow> string option" where
  "decode_PasswordForgotRequest = decode_struct (\<lambda>fs. required_string (field fs ''identity''))"

definition decode_PasswordResetRequest :: "json \<Rightarrow> ResetInput option" where
  "decode_PasswordResetRequest = decode_struct (\<lambda>fs.
     Option.bind (required_string (field fs ''identity'')) (\<lambda>identity.
     Option.bind (required_string (field fs ''new_password'')) (\<lambda>password.
       Some \<lparr>sin_Identity = identity, sin_NewPassword = password\<rparr>)))"

definition AuthUserDTO :: "UserInfo \<Rightarrow> json" where
  "AuthUserDTO u = JObj ([(''id'', JStr (ui_ID u)), (''display_name'', JStr (ui_DisplayName u))] @
     unless_empty ''username'' (ui_Username u) @ unless_empty ''email'' (ui_Email u) @
     unless_empty ''phone_number'' (ui_PhoneNumber u))"

definition AuthResponse_json :: "AuthResponse \<Rightarrow> json" where
  "AuthResponse_json r = JObj ([(''access_token'', JStr (ar_AccessToken r))] @
     unless_empty ''refresh_token'' (ar_RefreshToken r) @
     [(''expires_in'', JNum (ar_ExpiresIn r)), (''session_id'', JStr (ar_SessionID r))] @
     unless_empty ''device_id'' (ar_DeviceID r) @ [(''user'', AuthUserDTO (ar_User r))])"

record SessionDTO =
  sdt_ID :: string
  sdt_DeviceID :: string
  sdt_DeviceName :: string
  sdt_DeviceType :: string
  sdt_IPAddress :: string
  sdt_LastActive :: string
  sdt_CreatedAt :: string
  sdt_IsCurrent :: bool

definition SessionDTO_json :: "SessionDTO \<Rightarrow> json" where
  "SessionDTO_json d = JObj (
     [(''id'', JStr (sdt_ID d)), (''device_id'', JStr (sdt_DeviceID d))] @
     unless_empty ''device_name'' (sdt_DeviceName d) @
     unless_empty ''device_type'' (sdt_DeviceType d) @
     unless_empty ''ip_address'' (sdt_IPAddress d) @
     [(''last_active'', JStr (sdt_LastActive d)), (''created_at'', JStr (sdt_CreatedAt d))] @
     (if sdt_IsCurrent d then [(''is_current'', JBool (sdt_IsCurrent d))] else []))"

text \<open>
  The conversion that \<^verbatim>\<open>Sessions\<close> makes leaves the address, the time of the last activity and \<^verbatim>\<open>is_current\<close>
  empty; \<^verbatim>\<open>FromUserSession\<close>, which nothing calls, also leaves the device without a name.
\<close>

definition session_dto :: "HttpLib \<Rightarrow> SessionInfo \<Rightarrow> SessionDTO" where
  "session_dto lib s = \<lparr>sdt_ID = si_ID s, sdt_DeviceID = si_DeviceID s, sdt_DeviceName = si_DeviceName s,
     sdt_DeviceType = si_DeviceType s, sdt_IPAddress = [], sdt_LastActive = [],
     sdt_CreatedAt = hl_RFC3339 lib (si_CreatedAt s), sdt_IsCurrent = False\<rparr>"

definition FromUserSession :: "HttpLib \<Rightarrow> UserSession \<Rightarrow> SessionDTO" where
  "FromUserSession lib s = \<lparr>sdt_ID = uuid_String (ses_ID s),
     sdt_DeviceID = (case ses_DeviceID s of None \<Rightarrow> [] | Some d \<Rightarrow> uuid_String d), sdt_DeviceName = [],
     sdt_DeviceType = [], sdt_IPAddress = [], sdt_LastActive = [],
     sdt_CreatedAt = hl_RFC3339 lib (ses_CreatedAt s), sdt_IsCurrent = False\<rparr>"

definition FromUserSessionSlice :: "HttpLib \<Rightarrow> UserSession list \<Rightarrow> SessionDTO list" where
  "FromUserSessionSlice lib sessions = map (FromUserSession lib) sessions"

definition SessionsResponse :: "SessionDTO list \<Rightarrow> json" where
  "SessionsResponse sessions = JObj [(''sessions'', json_list SessionDTO_json sessions)]"

section \<open>Handlers\<close>

definition errorCode :: "int \<Rightarrow> string" where
  "errorCode status =
     (if status = 400 then ''INVALID_REQUEST''
      else if status = 401 then ''UNAUTHORIZED''
      else if status = 403 then ''FORBIDDEN''
      else if status = 404 then ''NOT_FOUND''
      else if status = 409 then ''CONFLICT''
      else if status = 429 then ''RATE_LIMITED''
      else ''INTERNAL_ERROR'')"

definition writeAuthError :: "HttpLib \<Rightarrow> error \<Rightarrow> 's handler" where
  "writeAuthError lib err =
     JSON (HTTPStatus err) (NewErrorResponse (error_text lib err) (errorCode (HTTPStatus err)))"

definition authH_Register :: "HttpLib \<Rightarrow> auth_lib \<Rightarrow> AuthService \<Rightarrow> Request \<Rightarrow> world handler" where
  "authH_Register lib alib s rq = bindJSON decode_RegisterRequest rq (\<lambda>input.
     serveOr (writeAuthError lib) (authSvc_Register alib s input) (\<lambda>res. replyOK (AuthResponse_json res)))"

definition authH_Login :: "HttpLib \<Rightarrow> auth_lib \<Rightarrow> AuthService \<Rightarrow> Request \<Rightarrow> world handler" where
  "authH_Login lib alib s rq = bindJSON decode_LoginRequest rq (\<lambda>input.
     serveOr (writeAuthError lib) (authSvc_Login alib s input) (\<lambda>res. replyOK (AuthResponse_json res)))"

definition authH_Refresh :: "HttpLib \<Rightarrow> auth_lib \<Rightarrow> AuthService \<Rightarrow> Request \<Rightarrow> world handler" where
  "authH_Refresh lib alib s rq = bindJSON decode_RefreshRequest rq (\<lambda>input.
     serveOr (writeAuthError lib) (authSvc_Refresh alib s input) (\<lambda>res. replyOK (AuthResponse_json res)))"

definition authH_Logout :: "HttpLib \<Rightarrow> auth_lib \<Rightarrow> AuthService \<Rightarrow> Request \<Rightarrow> world handler" where
  "authH_Logout lib alib s rq = bindJSON decode_LogoutRequest rq (\<lambda>sessionID.
     serveOr (writeAuthError lib) (authSvc_Logout alib s sessionID) (\<lambda>_. replyNil))"

definition authH_LogoutAll :: "HttpLib \<Rightarrow> AuthService \<Rightarrow> Request \<Rightarrow> world handler" where
  "authH_LogoutAll lib s rq = withUser rq (\<lambda>u.
     serveOr (writeAuthError lib) (authSvc_LogoutAll s u) (\<lambda>_. replyNil))"

definition authH_Sessions :: "HttpLib \<Rightarrow> AuthService \<Rightarrow> Request \<Rightarrow> world handler" where
  "authH_Sessions lib s rq = withUser rq (\<lambda>u.
     serveOr (writeAuthError lib) (authSvc_Sessions s u) (\<lambda>sessions.
       replyOK (SessionsResponse (map (session_dto lib) sessions))))"

definition authH_PasswordForgot :: "HttpLib \<Rightarrow> AuthService \<Rightarrow> Request \<Rightarrow> world handler" where
  "authH_PasswordForgot lib s rq = bindJSON decode_PasswordForgotRequest rq (\<lambda>identity.
     serveOr (writeAuthError lib) (authSvc_PasswordForgot s identity) (\<lambda>_. replyNil))"

definition authH_PasswordReset :: "HttpLib \<Rightarrow> auth_lib \<Rightarrow> AuthService \<Rightarrow> Request \<Rightarrow> world handler" where
  "authH_PasswordReset lib alib s rq = bindJSON decode_PasswordResetRequest rq (\<lambda>input.
     serveOr (writeAuthError lib) (authSvc_PasswordReset alib s input) (\<lambda>_. replyNil))"

lemma writeAuthError_not_200: "rs_status (fst (run_state (writeAuthError lib e) s)) \<noteq> 200"
  by (cases e) (simp_all add: writeAuthError_def)

lemmas authServe_200 = serveOr_200 [where f = "writeAuthError lib" for lib, OF _ _ writeAuthError_not_200]

lemma writeAuthError_frame [simp]: "snd (run_state (writeAuthError lib e) s) = s"
  by (simp add: writeAuthError_def)

lemma keeps_writeAuthError [keeps_intros]: "keeps I (writeAuthError lib e)"
  by (simp add: writeAuthError_def keeps_intros)

end
