(* ===== verification/MessageHandler.thy ===== *)
theory MessageHandler
  imports MessageService Http
begin

text \<open>
  \<^verbatim>\<open>internal/handler/message_handler.go\<close> and \<^verbatim>\<open>internal/transport/httpdto/message.go\<close>. Ciphertexts
  travel in base64; the device of the session is the one whose ciphertexts a listing returns.
\<close>

section \<open>Requests and replies\<close>

record MessageCiphertextInput =
  mci_RecipientDeviceID :: string
  mci_Ciphertext :: string
  mci_Header :: "go_map option"

text \<open>The elements of a slice are not validated: their \<^verbatim>\<open>required\<close> has no effect.\<close>

definition decode_MessageCiphertextInput :: "json \<Rightarrow> MessageCiphertextInput option" where
  "decode_MessageCiphertextInput = decode_struct (\<lambda>fs.
     Option.bind (as_string (field fs ''recipient_device_id'')) (\<lambda>device.
     Option.bind (as_string (field fs ''ciphertext'')) (\<lambda>ciphertext.
     Option.bind (as_map (field fs ''header'')) (\<lambda>header.
       Some \<lparr>mci_RecipientDeviceID = device, mci_Ciphertext = ciphertext, mci_Header = header\<rparr>))))"

record SendMessageRequest =
  smr_ConversationID :: string
  smr_Ciphertexts :: "MessageCiphertextInput list"
  smr_MessageType :: string
  smr_ClientMsgID :: string
  smr_IdempotencyKey :: string

definition decode_SendMessageRequest :: "json \<Rightarrow> SendMessageRequest option" where
  "decode_SendMessageRequest = decode_struct (\<lambda>fs.
     Option.bind (required_string (field fs ''conversation_id'')) (\<lambda>conv.
     Option.bind (required_list decode_MessageCiphertextInput (field fs ''ciphertexts'')) (\<lambda>cs.
     Option.bind (as_string (field fs ''message_type'')) (\<lambda>ty.
     Option.bind (as_string (field fs ''client_message_id'')) (\<lambda>client.
     Option.bind (as_string (field fs ''idempotency_key'')) (\<lambda>key.
       Some \<lparr>smr_ConversationID = conv, smr_Ciphertexts = cs, smr_MessageType = ty,
         smr_ClientMsgID = client, smr_IdempotencyKey = key\<rparr>))))))"

definition decode_UpdateMessageRequest :: "json \<Rightarrow> string option" where
  "decode_UpdateMessageRequest = decode_struct (\<lambda>fs. required_string (field fs ''ciphertext''))"

definition sequence_of :: "Message \<Rightarrow> int" where
  "sequence_of m = (case msg_SeqID m of None \<Rightarrow> 0 | Some q \<Rightarrow> q)"

record MessageDTO =
  mdt_ID :: string
  mdt_ConversationID :: string
  mdt_SenderID :: string
  mdt_ClientMsgID :: string
  mdt_SequenceNumber :: int
  mdt_IsDeleted :: bool
  mdt_IsEdited :: bool
  mdt_Ciphertext :: string
  mdt_Header :: string
  mdt_RecipientDeviceID :: string
  mdt_CreatedAt :: string
  mdt_UpdatedAt :: string

definition MessageDTO_json :: "MessageDTO \<Rightarrow> json" where
  "MessageDTO_json d = JObj (
     [(''id'', JStr (mdt_ID d)), (''conversation_id'', JStr (mdt_ConversationID d)),
      (''sender_id'', JStr (mdt_SenderID d))] @
     unless_empty ''client_message_id'' (mdt_ClientMsgID d) @
     [(''sequence_number'', JNum (mdt_SequenceNumber d)),
      (''is_deleted'', JBool (mdt_IsDeleted d)), (''is_edited'', JBool (mdt_IsEdited d))] @
     unless_empty ''ciphertext'' (mdt_Ciphertext d) @
     unless_empty ''header'' (mdt_Header d) @
     unless_empty ''recipient_device_id'' (mdt_RecipientDeviceID d) @
     [(''created_at'', JStr (mdt_CreatedAt d))] @
     unless_empty ''updated_at'' (mdt_UpdatedAt d))"

definition FromMessage :: "HttpLib \<Rightarrow> Message \<Rightarrow> MessageDTO" where
  "FromMessage lib m = \<lparr>mdt_ID = uuid_String (msg_ID m),
     mdt_ConversationID = uuid_String (msg_ConversationID m),
     mdt_SenderID = uuid_String (msg_SenderID m),
     mdt_ClientMsgID = opt_string (msg_ClientMessageID m),
     mdt_SequenceNumber = sequence_of m, mdt_IsDeleted = (msg_DeletedAt m \<noteq> None),
     mdt_IsEdited = (msg_EditedAt m \<noteq> None),
     mdt_Ciphertext = base64 (msg_Ciphertext m), mdt_Header = msg_Header m,
     mdt_RecipientDeviceID = opt_uuid_String (msg_RecipientDeviceID m),
     mdt_CreatedAt = hl_RFC3339 lib (msg_CreatedAt m),
     mdt_UpdatedAt = (case msg_EditedAt m of None \<Rightarrow> [] | Some t \<Rightarrow> hl_RFC3339 lib t)\<rparr>"

definition FromMessageSlice :: "HttpLib \<Rightarrow> Message list \<Rightarrow> MessageDTO list" where
  "FromMessageSlice lib ms = map (FromMessage lib) ms"

record SendMessageResponse =
  sms_ID :: string
  sms_ConversationID :: string
  sms_SenderID :: string
  sms_ClientMsgID :: string
  sms_SequenceNumber :: int
  sms_CreatedAt :: string

definition SendMessageResponse_json :: "SendMessageResponse \<Rightarrow> json" where
  "SendMessageResponse_json d = JObj (
     [(''id'', JStr (sms_ID d)), (''conversation_id'', JStr (sms_ConversationID d)),
      (''sender_id'', JStr (sms_SenderID d))] @
     unless_empty ''client_message_id'' (sms_ClientMsgID d) @
     [(''sequence_number'', JNum (sms_SequenceNumber d)),
      (''created_at'', JStr (sms_CreatedAt d))])"

definition FromSendMessage :: "HttpLib \<Rightarrow> Message \<Rightarrow> SendMessageResponse" where
  "FromSendMessage lib m = \<lparr>sms_ID = uuid_String (msg_ID m),
     sms_ConversationID = uuid_String (msg_ConversationID m),
     sms_SenderID = uuid_String (msg_SenderID m),
     sms_ClientMsgID = opt_string (msg_ClientMessageID m),
     sms_SequenceNumber = sequence_of m, sms_CreatedAt = hl_RFC3339 lib (msg_CreatedAt m)\<rparr>"

definition ListMessagesResponse :: "MessageDTO list \<Rightarrow> json" where
  "ListMessagesResponse ms = JObj [(''messages'', json_list MessageDTO_json ms)]"

section \<open>Handlers\<close>

text \<open>The loop of \<^verbatim>\<open>Send\<close> over the ciphertexts of the request: the first defect is the reply.\<close>

fun ciphertext_payloads :: "HttpLib \<Rightarrow> MessageCiphertextInput list \<Rightarrow> string + CiphertextPayload list" where
  "ciphertext_payloads lib [] = Inr []"
| "ciphertext_payloads lib (p # ps) =
     (case hl_uuid_Parse lib (mci_RecipientDeviceID p) of
        None \<Rightarrow> Inl ''invalid recipient_device_id''
      | Some device \<Rightarrow>
          if mci_Ciphertext p = [] then Inl ''ciphertext required''
          else case base64_DecodeString (mci_Ciphertext p) of
            None \<Rightarrow> Inl ''ciphertext must be base64''
          | Some bs \<Rightarrow>
              (case ciphertext_payloads lib ps of
                 Inl msg \<Rightarrow> Inl msg
               | Inr items \<Rightarrow> Inr (\<lparr>cpl_RecipientDeviceID = device, cpl_Ciphertext = bs,
                   cpl_Header = mci_Header p\<rparr> # items)))"

definition send_input :: "uuid \<Rightarrow> uuid \<Rightarrow> SendMessageRequest \<Rightarrow> CiphertextPayload list \<Rightarrow> SendMessageInput" where
  "send_input conv u r items = \<lparr>smi_ConversationID = conv, smi_SenderID = u, smi_Ciphertexts = items,
     smi_MessageType = smr_MessageType r, smi_ClientMsgID = smr_ClientMsgID r,
     smi_IdempotencyKey = smr_IdempotencyKey r, smi_Metadata = None\<rparr>"

definition messageH_Send :: "HttpLib \<Rightarrow> MessageService \<Rightarrow> Request \<Rightarrow> world handler" where
  "messageH_Send lib s rq =
     bindJSON decode_SendMessageRequest rq (\<lambda>r.
     withUser rq (\<lambda>u.
     orBadRequest (hl_uuid_Parse lib (smr_ConversationID r)) ''invalid conversation_id'' (\<lambda>conv.
     if smr_Ciphertexts r = [] then badRequest ''ciphertexts required''
     else case ciphertext_payloads lib (smr_Ciphertexts r) of
       Inl msg \<Rightarrow> badRequest msg
     | Inr items \<Rightarrow>
         serve lib (msgSvc_SendMessage s (DeviceIDFromContext (rq_ctx rq)) (send_input conv u r items))
           (\<lambda>result. replyOK (SendMessageResponse_json (FromSendMessage lib result))))))"

definition messageH_List :: "HttpLib \<Rightarrow> MessageService \<Rightarrow> Request \<Rightarrow> world handler" where
  "messageH_List lib s rq =
     orBadRequest (hl_uuid_Parse lib (rq_query rq ''conversation_id'')) ''invalid conversation_id'' (\<lambda>conv.
     orBadRequest (parseInt (rq_query rq ''before_seq'')) ''invalid before_seq'' (\<lambda>beforeSeq.
     orBadRequest (parseInt (rq_query rq ''limit'')) ''invalid limit'' (\<lambda>limit.
     withUser rq (\<lambda>u.
     serve lib (msgSvc_GetConversationMessages s (DeviceIDFromContext (rq_ctx rq)) conv beforeSeq limit u)
       (\<lambda>items. replyOK (ListMessagesResponse (FromMessageSlice lib items)))))))"

definition messageH_GetByID :: "'s handler" where
  "messageH_GetByID = JSON 501 (NewErrorResponse ''message detail not supported for e2e'' ''NOT_SUPPORTED'')"

definition messageID :: "HttpLib \<Rightarrow> Request \<Rightarrow> (uuid \<Rightarrow> 's handler) \<Rightarrow> 's handler" where
  "messageID lib rq k = orBadRequest (hl_uuid_Parse lib (rq_param rq ''id'')) ''invalid message id'' k"

definition messageH_Delete :: "HttpLib \<Rightarrow> MessageService \<Rightarrow> Request \<Rightarrow> world handler" where
  "messageH_Delete lib s rq = messageID lib rq (\<lambda>i. serve lib (msgSvc_Delete s i) (\<lambda>_. replyNil))"

definition messageH_Update :: "Request \<Rightarrow> 's handler" where
  "messageH_Update rq = bindJSON decode_UpdateMessageRequest rq (\<lambda>_.
     JSON 501 (NewErrorResponse ''message updates not supported for e2e'' ''NOT_SUPPORTED''))"

definition messageH_HardDelete :: "HttpLib \<Rightarrow> MessageService \<Rightarrow> Request \<Rightarrow> world handler" where
  "messageH_HardDelete lib s rq = messageID lib rq (\<lambda>i. serve lib (msgSvc_HardDelete s i) (\<lambda>_. replyNil))"

definition messageH_MarkRead :: "HttpLib \<Rightarrow> MessageService \<Rightarrow> Request \<Rightarrow> world handler" where
  "messageH_MarkRead lib s rq = messageID lib rq (\<lambda>i. withUser rq (\<lambda>u.
     serve lib (msgSvc_MarkAsRead s i u) (\<lambda>_. replyNil)))"

definition messageH_MarkDelivered :: "HttpLib \<Rightarrow> MessageService \<Rightarrow> Request \<Rightarrow> world handler" where
  "messageH_MarkDelivered lib s rq = messageID lib rq (\<lambda>i. withUser rq (\<lambda>u.
     serve lib (msgSvc_MarkAsDelivered s i u) (\<lambda>_. replyNil)))"

end
