(* ===== verification/ConversationHandler.thy ===== *)
theory ConversationHandler
  imports ConversationService Http
begin

text \<open>
  \<^verbatim>\<open>internal/handler/conversation_handler.go\<close> and \<^verbatim>\<open>internal/transport/httpdto/conversation.go\<close>.
\<close>

section \<open>Requests and replies\<close>

record CreateConversationRequest =
  ccr_Type :: string
  ccr_Subject :: string
  ccr_Description :: string
  ccr_Participants :: "string list"

definition decode_CreateConversationRequest :: "json \<Rightarrow> CreateConversationRequest option" where
  "decode_CreateConversationRequest = decode_struct (\<lambda>fs.
     Option.bind (required_string (field fs ''type'')) (\<lambda>ty.
     Option.bind (as_string (field fs ''subject'')) (\<lambda>subject.
     Option.bind (as_string (field fs ''description'')) (\<lambda>d.
     Option.bind (required_list as_string (field fs ''participants'')) (\<lambda>ps.
       Some \<lparr>ccr_Type = ty, ccr_Subject = subject, ccr_Description = d, ccr_Participants = ps\<rparr>)))))"

record UpdateConversationRequest =
  ucr_Subject :: string
  ucr_Description :: string
  ucr_AvatarURL :: string

definition decode_UpdateConversationRequest :: "json \<Rightarrow> UpdateConversationRequest option" where
  "decode_UpdateConversationRequest = decode_struct (\<lambda>fs.
     Option.bind (as_string (field fs ''subject'')) (\<lambda>subject.
     Option.bind (as_string (field fs ''description'')) (\<lambda>d.
     Option.bind (as_string (field fs ''avatar_url'')) (\<lambda>avatar.
       Some \<lparr>ucr_Subject = subject, ucr_Description = d, ucr_AvatarURL = avatar\<rparr>))))"

text \<open>The user and the role of the participant to add\<close>

definition decode_AddParticipantRequest :: "json \<Rightarrow> (string \<times> string) option" where
  "decode_AddParticipantRequest = decode_struct (\<lambda>fs.
     Option.bind (required_string (field fs ''user_id'')) (\<lambda>u.
     Option.bind (as_string (field fs ''role'')) (\<lambda>role. Some (u, role))))"

definition decode_UpdateParticipantRoleRequest :: "json \<Rightarrow> string option" where
  "decode_UpdateParticipantRoleRequest = decode_struct (\<lambda>fs. required_string (field fs ''role''))"

definition decode_MuteConversationRequest :: "json \<Rightarrow> string option" where
  "decode_MuteConversationRequest = decode_struct (\<lambda>fs. required_string (field fs ''until''))"

definition decode_UpdateLastReadSequenceRequest :: "json \<Rightarrow> int option" where
  "decode_UpdateLastReadSequenceRequest = decode_struct (\<lambda>fs. required_int (field fs ''seq_id''))"

record ConversationDTO =
  cvd_ID :: string
  cvd_Type :: string
  cvd_Subject :: string
  cvd_Description :: string
  cvd_AvatarURL :: string
  cvd_CreatorID :: string
  cvd_InviteLink :: string
  cvd_ParticipantCount :: int
  cvd_LastMessageAt :: string
  cvd_CreatedAt :: string

definition ConversationDTO_json :: "ConversationDTO \<Rightarrow> json" where
  "ConversationDTO_json d = JObj (
     [(''id'', JStr (cvd_ID d)), (''type'', JStr (cvd_Type d))] @
     unless_empty ''subject'' (cvd_Subject d) @
     unless_empty ''description'' (cvd_Description d) @
     unless_empty ''avatar_url'' (cvd_AvatarURL d) @
     [(''creator_id'', JStr (cvd_CreatorID d))] @
     unless_empty ''invite_link'' (cvd_InviteLink d) @
     [(''participant_count'', JNum (cvd_ParticipantCount d))] @
     unless_empty ''last_message_at'' (cvd_LastMessageAt d) @
     [(''created_at'', JStr (cvd_CreatedAt d))])"

definition FromConversation :: "HttpLib \<Rightarrow> Conversation \<Rightarrow> ConversationDTO" where
  "FromConversation lib c = \<lparr>cvd_ID = uuid_String (conv_ID c), cvd_Type = conv_Type c,
     cvd_Subject = opt_string (conv_Subject c),
     cvd_Description = opt_string (conv_Description c),
     cvd_AvatarURL = opt_string (conv_AvatarURL c),
     cvd_CreatorID = opt_uuid_String (conv_CreatedBy c),
     cvd_InviteLink = opt_string (conv_InviteLink c),
     cvd_ParticipantCount = int (length (conv_Participants c)), cvd_LastMessageAt = [],
     cvd_CreatedAt = hl_RFC3339 lib (conv_CreatedAt c)\<rparr>"

definition FromConversationSlice :: "HttpLib \<Rightarrow> Conversation list \<Rightarrow> ConversationDTO list" where
  "FromConversationSlice lib cs = map (FromConversation lib) cs"

definition ListConversationsResponse :: "ConversationDTO list \<Rightarrow> int \<Rightarrow> json" where
  "ListConversationsResponse cs n = JObj [(''conversations'', json_list ConversationDTO_json cs), (''total'', JNum n)]"

record ParticipantDTO =
  pcd_UserID :: string
  pcd_Username :: string
  pcd_Role :: string
  pcd_JoinedAt :: string

definition ParticipantDTO_json :: "ParticipantDTO \<Rightarrow> json" where
  "ParticipantDTO_json d = JObj (
     [(''user_id'', JStr (pcd_UserID d))] @
     unless_empty ''username'' (pcd_Username d) @
     [(''role'', JStr (pcd_Role d)), (''joined_at'', JStr (pcd_JoinedAt d))])"

definition FromParticipant :: "HttpLib \<Rightarrow> Participant \<Rightarrow> ParticipantDTO" where
  "FromParticipant lib p = \<lparr>pcd_UserID = uuid_String (part_UserID p), pcd_Username = [], pcd_Role = part_Role p,
     pcd_JoinedAt = hl_RFC3339 lib (part_JoinedAt p)\<rparr>"

definition FromParticipantSlice :: "HttpLib \<Rightarrow> Participant list \<Rightarrow> ParticipantDTO list" where
  "FromParticipantSlice lib ps = map (FromParticipant lib) ps"

record ConversationSequenceDTO =
  sqd_ConversationID :: string
  sqd_LastSequence :: int
  sqd_UpdatedAt :: string

definition ConversationSequenceDTO_json :: "ConversationSequenceDTO \<Rightarrow> json" where
  "ConversationSequenceDTO_json d = JObj (
     [(''conversation_id'', JStr (sqd_ConversationID d)),
      (''last_sequence'', JNum (sqd_LastSequence d)),
      (''updated_at'', JStr (sqd_UpdatedAt d))])"

definition FromConversationSequence :: "HttpLib \<Rightarrow> ConversationSequence \<Rightarrow> ConversationSequenceDTO" where
  "FromConversationSequence lib s = \<lparr>sqd_ConversationID = uuid_String (cseq_ConversationID s),
     sqd_LastSequence = cseq_LastSequence s,
     sqd_UpdatedAt = hl_RFC3339 lib (cseq_UpdatedAt s)\<rparr>"

definition ParticipantsResponse :: "ParticipantDTO list \<Rightarrow> json" where
  "ParticipantsResponse ps = JObj [(''participants'', json_list ParticipantDTO_json ps)]"

definition RegenerateInviteLinkResponse :: "string \<Rightarrow> json" where
  "RegenerateInviteLinkResponse link = JObj [(''invite_link'', JStr link)]"

definition SequenceResponse :: "int \<Rightarrow> json" where
  "SequenceResponse n = JObj [(''sequence'', JNum n)]"

section \<open>Handlers\<close>

definition conversationID :: "HttpLib \<Rightarrow> Request \<Rightarrow> (uuid \<Rightarrow> 's handler) \<Rightarrow> 's handler" where
  "conversationID lib rq k = orBadRequest (hl_uuid_Parse lib (rq_param rq ''id'')) ''invalid conversation id'' k"

definition memberID :: "HttpLib \<Rightarrow> Request \<Rightarrow> (uuid \<Rightarrow> 's handler) \<Rightarrow> 's handler" where
  "memberID lib rq k = orBadRequest (hl_uuid_Parse lib (rq_param rq ''user_id'')) ''invalid user_id'' k"

text \<open>The caller comes first and is named once.\<close>

definition create_input :: "uuid \<Rightarrow> CreateConversationRequest \<Rightarrow> uuid list \<Rightarrow> CreateConversationInput" where
  "create_input creator r ids = \<lparr>cci_Type = ccr_Type r, cci_Subject = ccr_Subject r,
     cci_Description = ccr_Description r, cci_CreatorID = creator,
     cci_ParticipantIDs = creator # filter (\<lambda>i. i \<noteq> creator) ids\<rparr>"

definition conversationH_Create :: "HttpLib \<Rightarrow> ConversationService \<Rightarrow> Request \<Rightarrow> world handler" where
  "conversationH_Create lib s rq =
     bindJSON decode_CreateConversationRequest rq (\<lambda>r.
     withUser rq (\<lambda>creator.
     orBadRequest (all_some (map (hl_uuid_Parse lib) (ccr_Participants r))) ''invalid participant id'' (\<lambda>ids.
     serve lib (convSvc_Create s (create_input creator r ids)) (\<lambda>res. replyOK (ConversationDTO_json (FromConversation lib res))))))"

definition conversationH_List :: "HttpLib \<Rightarrow> ConversationService \<Rightarrow> Request \<Rightarrow> world handler" where
  "conversationH_List lib s rq = withUser rq (\<lambda>u.
     serve lib (convSvc_GetUserConversations s u (fst (Atoi (rq_query rq ''page''))) (fst (Atoi (rq_query rq ''limit''))))
       (\<lambda>(items, n). replyOK (ListConversationsResponse (FromConversationSlice lib items) n)))"

definition conversationH_GetByID :: "HttpLib \<Rightarrow> ConversationService \<Rightarrow> Request \<Rightarrow> world handler" where
  "conversationH_GetByID lib s rq = conversationID lib rq (\<lambda>i.
     serve lib (convSvc_GetByID s i) (\<lambda>item. replyOK (ConversationDTO_json (FromConversation lib item))))"

definition edited_conversation :: "UpdateConversationRequest \<Rightarrow> Conversation \<Rightarrow> Conversation" where
  "edited_conversation r c = c\<lparr>
     conv_Subject := (if ucr_Subject r \<noteq> [] then Some (ucr_Subject r) else conv_Subject c),
     conv_Description := (if ucr_Description r \<noteq> [] then Some (ucr_Description r) else conv_Description c),
     conv_AvatarURL := (if ucr_AvatarURL r \<noteq> [] then Some (ucr_AvatarURL r) else conv_AvatarURL c)\<rparr>"

definition conversationH_Update :: "HttpLib \<Rightarrow> ConversationService \<Rightarrow> Request \<Rightarrow> world handler" where
  "conversationH_Update lib s rq =
     bindJSON decode_UpdateConversationRequest rq (\<lambda>r.
     conversationID lib rq (\<lambda>i.
     serve lib (convSvc_GetByID s i) (\<lambda>existing.
       let existing' = edited_conversation r existing in
       serve lib (convSvc_Update s existing') (\<lambda>_. replyOK (ConversationDTO_json (FromConversation lib existing'))))))"

definition conversationH_Delete :: "HttpLib \<Rightarrow> ConversationService \<Rightarrow> Request \<Rightarrow> world handler" where
  "conversationH_Delete lib s rq = conversationID lib rq (\<lambda>i. serve lib (convSvc_Delete s i) (\<lambda>_. replyNil))"

definition conversationH_GetDirect :: "HttpLib \<Rightarrow> ConversationService \<Rightarrow> Request \<Rightarrow> world handler" where
  "conversationH_GetDirect lib s rq =
     orBadRequest (hl_uuid_Parse lib (rq_query rq ''user_id_1'')) ''invalid user_id_1'' (\<lambda>u1.
     orBadRequest (hl_uuid_Parse lib (rq_query rq ''user_id_2'')) ''invalid user_id_2'' (\<lambda>u2.
     serve lib (convSvc_GetDirectConversation s u1 u2) (\<lambda>item. replyOK (ConversationDTO_json (FromConversation lib item)))))"

definition conversationH_Search :: "HttpLib \<Rightarrow> ConversationService \<Rightarrow> Request \<Rightarrow> world handler" where
  "conversationH_Search lib s rq = withUser rq (\<lambda>u.
     serve lib (convSvc_SearchConversations s u (rq_query rq ''query''))
       (\<lambda>items. replyOK (ListConversationsResponse (FromConversationSlice lib items) 0)))"

definition conversationH_GetByType :: "HttpLib \<Rightarrow> ConversationService \<Rightarrow> Request \<Rightarrow> world handler" where
  "conversationH_GetByType lib s rq = withUser rq (\<lambda>u.
     serve lib (convSvc_GetConversationsByType s u (rq_query rq ''type''))
       (\<lambda>items. replyOK (ListConversationsResponse (FromConversationSlice lib items) 0)))"

definition conversationH_GetByInviteLink :: "HttpLib \<Rightarrow> ConversationService \<Rightarrow> Request \<Rightarrow> world handler" where
  "conversationH_GetByInviteLink lib s rq =
     serve lib (convSvc_GetByInviteLink s (rq_query rq ''link'')) (\<lambda>item. replyOK (ConversationDTO_json (FromConversation lib item)))"

definition conversationH_RegenerateInviteLink :: "HttpLib \<Rightarrow> ConversationService \<Rightarrow> Request \<Rightarrow> world handler" where
  "conversationH_RegenerateInviteLink lib s rq = conversationID lib rq (\<lambda>i.
     serve lib (convSvc_RegenerateInviteLink s i) (\<lambda>link. replyOK (RegenerateInviteLinkResponse link)))"

text \<open>The time the participant joined is read after the checks of the request.\<close>

definition conversationH_AddParticipant :: "HttpLib \<Rightarrow> ConversationService \<Rightarrow> Request \<Rightarrow> world handler" where
  "conversationH_AddParticipant lib s rq = conversationID lib rq (\<lambda>i.
     bindJSON decode_AddParticipantRequest rq (\<lambda>(userText, role).
     orBadRequest (hl_uuid_Parse lib userText) ''invalid user_id'' (\<lambda>u. do {
       now \<leftarrow> time_Now;
       let p = \<lparr>part_ConversationID = i, part_UserID = u, part_Role = role, part_JoinedAt = now,
         part_AddedBy = None, part_MutedUntil = None, part_PinnedAt = None, part_Archived = False,
         part_LastReadSequence = 0, part_Permissions = None\<rparr>;
       serve lib (convSvc_AddParticipant s p) (\<lambda>_. replyOK (ParticipantDTO_json (FromParticipant lib p)))
     })))"

definition conversationH_RemoveParticipant :: "HttpLib \<Rightarrow> ConversationService \<Rightarrow> Request \<Rightarrow> world handler" where
  "conversationH_RemoveParticipant lib s rq = conversationID lib rq (\<lambda>i. memberID lib rq (\<lambda>u.
     serve lib (convSvc_RemoveParticipant s i u) (\<lambda>_. replyNil)))"

definition conversationH_ListParticipants :: "HttpLib \<Rightarrow> ConversationService \<Rightarrow> Request \<Rightarrow> world handler" where
  "conversationH_ListParticipants lib s rq = conversationID lib rq (\<lambda>i.
     serve lib (convSvc_GetParticipants s i)
       (\<lambda>items. replyOK (ParticipantsResponse (FromParticipantSlice lib items))))"

definition conversationH_UpdateParticipantRole :: "HttpLib \<Rightarrow> ConversationService \<Rightarrow> Request \<Rightarrow> world handler" where
  "conversationH_UpdateParticipantRole lib s rq = conversationID lib rq (\<lambda>i. memberID lib rq (\<lambda>u.
     bindJSON decode_UpdateParticipantRoleRequest rq (\<lambda>role.
     serve lib (convSvc_UpdateParticipantRole s i u role) (\<lambda>_. replyNil))))"

definition conversationH_Mute :: "HttpLib \<Rightarrow> ConversationService \<Rightarrow> Request \<Rightarrow> world handler" where
  "conversationH_Mute lib s rq = conversationID lib rq (\<lambda>i. withUser rq (\<lambda>u.
     bindJSON decode_MuteConversationRequest rq (\<lambda>untilText.
     orBadRequest (hl_ParseRFC3339 lib untilText) ''invalid until'' (\<lambda>until.
     serve lib (convSvc_MuteConversation s i u until) (\<lambda>_. replyNil)))))"

definition conversationH_Unmute :: "HttpLib \<Rightarrow> ConversationService \<Rightarrow> Request \<Rightarrow> world handler" where
  "conversationH_Unmute lib s rq = conversationID lib rq (\<lambda>i. withUser rq (\<lambda>u.
     serve lib (convSvc_UnmuteConversation s i u) (\<lambda>_. replyNil)))"

definition conversationH_Pin :: "HttpLib \<Rightarrow> ConversationService \<Rightarrow> Request \<Rightarrow> world handler" where
  "conversationH_Pin lib s rq = conversationID lib rq (\<lambda>i. withUser rq (\<lambda>u.
     serve lib (convSvc_PinConversation s i u) (\<lambda>_. replyNil)))"

definition conversationH_Unpin :: "HttpLib \<Rightarrow> ConversationService \<Rightarrow> Request \<Rightarrow> world handler" where
  "conversationH_Unpin lib s rq = conversationID lib rq (\<lambda>i. withUser rq (\<lambda>u.
     serve lib (convSvc_UnpinConversation s i u) (\<lambda>_. replyNil)))"

definition conversationH_Archive :: "HttpLib \<Rightarrow> ConversationService \<Rightarrow> Request \<Rightarrow> world handler" where
  "conversationH_Archive lib s rq = conversationID lib rq (\<lambda>i. withUser rq (\<lambda>u.
     serve lib (convSvc_ArchiveConversation s i u) (\<lambda>_. replyNil)))"

definition conversationH_Unarchive :: "HttpLib \<Rightarrow> ConversationService \<Rightarrow> Request \<Rightarrow> world handler" where
  "conversationH_Unarchive lib s rq = conversationID lib rq (\<lambda>i. withUser rq (\<lambda>u.
     serve lib (convSvc_UnarchiveConversation s i u) (\<lambda>_. replyNil)))"

definition conversationH_UpdateLastReadSequence :: "HttpLib \<Rightarrow> ConversationService \<Rightarrow> Request \<Rightarrow> world handler" where
  "conversationH_UpdateLastReadSequence lib s rq = conversationID lib rq (\<lambda>i. withUser rq (\<lambda>u.
     bindJSON decode_UpdateLastReadSequenceRequest rq (\<lambda>seq.
     serve lib (convSvc_UpdateLastReadSequence s i u seq) (\<lambda>_. replyNil))))"

definition conversationH_GetSequence :: "HttpLib \<Rightarrow> ConversationService \<Rightarrow> Request \<Rightarrow> world handler" where
  "conversationH_GetSequence lib s rq = conversationID lib rq (\<lambda>i.
     serve lib (convSvc_GetConversationSequence s i) (\<lambda>item. replyOK (ConversationSequenceDTO_json (FromConversationSequence lib item))))"

definition conversationH_IncrementSequence :: "HttpLib \<Rightarrow> ConversationService \<Rightarrow> Request \<Rightarrow> world handler" where
  "conversationH_IncrementSequence lib s rq = conversationID lib rq (\<lambda>i.
     serve lib (convSvc_IncrementSequence s i) (\<lambda>seq. replyOK (SequenceResponse seq)))"

end
