(* ===== verification/UserHandler.thy ===== *)
theory UserHandler
  imports UserService Http
begin

text \<open>
  \<^verbatim>\<open>internal/handler/user_handler.go\<close> and \<^verbatim>\<open>internal/transport/httpdto/user.go\<close>: the caller's own
  profile, settings, contacts, devices and sessions.
\<close>

section \<open>Requests and replies\<close>

record UpdateProfileRequest =
  upr_DisplayName :: string
  upr_AvatarURL :: string
  upr_Bio :: string

definition decode_UpdateProfileRequest :: "json \<Rightarrow> UpdateProfileRequest option" where
  "decode_UpdateProfileRequest = decode_struct (\<lambda>fs.
     Option.bind (as_string (field fs ''display_name'')) (\<lambda>displayName.
     Option.bind (as_string (field fs ''avatar_url'')) (\<lambda>avatar.
     Option.bind (as_string (field fs ''bio'')) (\<lambda>bio.
       Some \<lparr>upr_DisplayName = displayName, upr_AvatarURL = avatar, upr_Bio = bio\<rparr>))))"

record UpdateSettingsRequest =
  usq_NotificationsEnabled :: bool
  usq_Theme :: string
  usq_Language :: string

definition decode_UpdateSettingsRequest :: "json \<Rightarrow> UpdateSettingsRequest option" where
  "decode_UpdateSettingsRequest = decode_struct (\<lambda>fs.
     Option.bind (as_bool (field fs ''notifications_enabled'')) (\<lambda>enabled.
     Option.bind (as_string (field fs ''theme'')) (\<lambda>theme.
     Option.bind (as_string (field fs ''language'')) (\<lambda>language.
       Some \<lparr>usq_NotificationsEnabled = enabled, usq_Theme = theme, usq_Language = language\<rparr>))))"

definition decode_AddContactRequest :: "json \<Rightarrow> string option" where
  "decode_AddContactRequest = decode_struct (\<lambda>fs. required_string (field fs ''contact_user_id''))"

record UserDTO =
  ud_ID :: string
  ud_Email :: string
  ud_Username :: string
  ud_DisplayName :: string
  ud_AvatarURL :: string
  ud_CreatedAt :: string

definition UserDTO_json :: "UserDTO \<Rightarrow> json" where
  "UserDTO_json d = JObj (
     [(''id'', JStr (ud_ID d)), (''email'', JStr (ud_Email d)),
      (''username'', JStr (ud_Username d)), (''display_name'', JStr (ud_DisplayName d))] @
     unless_empty ''avatar_url'' (ud_AvatarURL d) @
     [(''created_at'', JStr (ud_CreatedAt d))])"

definition FromUser :: "HttpLib \<Rightarrow> User \<Rightarrow> UserDTO" where
  "FromUser lib u = \<lparr>ud_ID = uuid_String (usr_ID u), ud_Email = opt_string (usr_Email u),
     ud_Username = opt_string (usr_Username u), ud_DisplayName = usr_DisplayName u,
     ud_AvatarURL = usr_AvatarURL u, ud_CreatedAt = hl_RFC3339 lib (usr_CreatedAt u)\<rparr>"

definition FromUserSlice :: "HttpLib \<Rightarrow> User list \<Rightarrow> UserDTO list" where
  "FromUserSlice lib us = map (FromUser lib) us"

record DeviceDTO =
  dd_ID :: string
  dd_DeviceName :: string
  dd_DeviceType :: string
  dd_LastActive :: string
  dd_IsActive :: bool

definition DeviceDTO_json :: "DeviceDTO \<Rightarrow> json" where
  "DeviceDTO_json d = JObj (
     [(''id'', JStr (dd_ID d)), (''device_name'', JStr (dd_DeviceName d)),
      (''device_type'', JStr (dd_DeviceType d))] @
     unless_empty ''last_active'' (dd_LastActive d) @
     [(''is_active'', JBool (dd_IsActive d))])"

definition FromDevice :: "HttpLib \<Rightarrow> Device \<Rightarrow> DeviceDTO" where
  "FromDevice lib d = \<lparr>dd_ID = uuid_String (dev_ID d), dd_DeviceName = dev_DeviceName d,
     dd_DeviceType = dev_DeviceType d,
     dd_LastActive = (case dev_LastSeenAt d of None \<Rightarrow> [] | Some t \<Rightarrow> hl_RFC3339 lib t),
     dd_IsActive = dev_IsActive d\<rparr>"

definition FromDeviceSlice :: "HttpLib \<Rightarrow> Device list \<Rightarrow> DeviceDTO list" where
  "FromDeviceSlice lib ds = map (FromDevice lib) ds"

record PushTokenDTO =
  ptd_ID :: string
  ptd_Token :: string
  ptd_Platform :: string
  ptd_CreatedAt :: string

definition PushTokenDTO_json :: "PushTokenDTO \<Rightarrow> json" where
  "PushTokenDTO_json d = JObj (
     [(''id'', JStr (ptd_ID d)), (''token'', JStr (ptd_Token d)),
      (''platform'', JStr (ptd_Platform d)), (''created_at'', JStr (ptd_CreatedAt d))])"

definition FromPushToken :: "HttpLib \<Rightarrow> PushToken \<Rightarrow> PushTokenDTO" where
  "FromPushToken lib t = \<lparr>ptd_ID = uuid_String (pt_ID t), ptd_Token = pt_Token t, ptd_Platform = pt_Platform t,
     ptd_CreatedAt = hl_RFC3339 lib (pt_CreatedAt t)\<rparr>"

definition FromPushTokenSlice :: "HttpLib \<Rightarrow> PushToken list \<Rightarrow> PushTokenDTO list" where
  "FromPushTokenSlice lib ts = map (FromPushToken lib) ts"

record UserSettingsDTO =
  usd_UserID :: string
  usd_PrivacyLastSeen :: string
  usd_PrivacyProfilePhoto :: string
  usd_PrivacyAbout :: string
  usd_PrivacyGroups :: string
  usd_ReadReceipts :: bool
  usd_NotificationsEnabled :: bool
  usd_NotificationSound :: string
  usd_NotificationVibrate :: bool
  usd_Theme :: string
  usd_Language :: string
  usd_EnterToSend :: bool
  usd_MediaAutoDownloadWiFi :: bool
  usd_MediaAutoDownloadMobile :: bool
  usd_UpdatedAt :: string

definition UserSettingsDTO_json :: "UserSettingsDTO \<Rightarrow> json" where
  "UserSettingsDTO_json d = JObj (
     [(''user_id'', JStr (usd_UserID d)),
      (''privacy_last_seen'', JStr (usd_PrivacyLastSeen d)),
      (''privacy_profile_photo'', JStr (usd_PrivacyProfilePhoto d)),
      (''privacy_about'', JStr (usd_PrivacyAbout d)),
      (''privacy_groups'', JStr (usd_PrivacyGroups d)),
      (''read_receipts'', JBool (usd_ReadReceipts d)),
      (''notifications_enabled'', JBool (usd_NotificationsEnabled d)),
      (''notification_sound'', JStr (usd_NotificationSound d)),
      (''notification_vibrate'', JBool (usd_NotificationVibrate d)),
      (''theme'', JStr (usd_Theme d)), (''language'', JStr (usd_Language d)),
      (''enter_to_send'', JBool (usd_EnterToSend d)),
      (''media_auto_download_wifi'', JBool (usd_MediaAutoDownloadWiFi d)),
      (''media_auto_download_mobile'', JBool (usd_MediaAutoDownloadMobile d)),
      (''updated_at'', JStr (usd_UpdatedAt d))])"

definition FromUserSettings :: "HttpLib \<Rightarrow> UserSettings \<Rightarrow> UserSettingsDTO" where
  "FromUserSettings lib s = \<lparr>usd_UserID = uuid_String (st_UserID s), usd_PrivacyLastSeen = st_PrivacyLastSeen s,
     usd_PrivacyProfilePhoto = st_PrivacyProfilePhoto s,
     usd_PrivacyAbout = st_PrivacyAbout s, usd_PrivacyGroups = st_PrivacyGroups s,
     usd_ReadReceipts = st_ReadReceipts s,
     usd_NotificationsEnabled = st_NotificationsEnabled s,
     usd_NotificationSound = st_NotificationSound s,
     usd_NotificationVibrate = st_NotificationVibrate s, usd_Theme = st_Theme s,
     usd_Language = st_Language s, usd_EnterToSend = st_EnterToSend s,
     usd_MediaAutoDownloadWiFi = st_MediaAutoDownloadWiFi s,
     usd_MediaAutoDownloadMobile = st_MediaAutoDownloadMobile s,
     usd_UpdatedAt = hl_RFC3339 lib (st_UpdatedAt s)\<rparr>"

record UserContactDTO =
  ucd_UserID :: string
  ucd_ContactUserID :: string
  ucd_Nickname :: string
  ucd_IsBlocked :: bool
  ucd_CreatedAt :: string

definition UserContactDTO_json :: "UserContactDTO \<Rightarrow> json" where
  "UserContactDTO_json d = JObj (
     [(''user_id'', JStr (ucd_UserID d)),
      (''contact_user_id'', JStr (ucd_ContactUserID d))] @
     unless_empty ''nickname'' (ucd_Nickname d) @
     [(''is_blocked'', JBool (ucd_IsBlocked d)), (''created_at'', JStr (ucd_CreatedAt d))])"

definition FromUserContact :: "HttpLib \<Rightarrow> UserContact \<Rightarrow> UserContactDTO" where
  "FromUserContact lib c = \<lparr>ucd_UserID = uuid_String (con_UserID c),
     ucd_ContactUserID = uuid_String (con_ContactUserID c), ucd_Nickname = con_Nickname c,
     ucd_IsBlocked = con_IsBlocked c, ucd_CreatedAt = hl_RFC3339 lib (con_CreatedAt c)\<rparr>"

definition FromUserContactSlice :: "HttpLib \<Rightarrow> UserContact list \<Rightarrow> UserContactDTO list" where
  "FromUserContactSlice lib cs = map (FromUserContact lib) cs"

definition ListUsersResponse :: "UserDTO list \<Rightarrow> int \<Rightarrow> json" where
  "ListUsersResponse users n = JObj [(''users'', json_list UserDTO_json users), (''total'', JNum n)]"

definition ContactsResponse :: "UserContactDTO list \<Rightarrow> json" where
  "ContactsResponse contacts = JObj [(''contacts'', json_list UserContactDTO_json contacts)]"

definition DevicesResponse :: "DeviceDTO list \<Rightarrow> json" where
  "DevicesResponse devices = JObj [(''devices'', json_list DeviceDTO_json devices)]"

definition PushTokensResponse :: "PushTokenDTO list \<Rightarrow> json" where
  "PushTokensResponse tokens = JObj [(''tokens'', json_list PushTokenDTO_json tokens)]"

definition AddContactResponse :: "bool \<Rightarrow> json" where
  "AddContactResponse success = JObj [(''success'', JBool success)]"

section \<open>Handlers\<close>

definition userH_List :: "HttpLib \<Rightarrow> DBTX \<Rightarrow> Request \<Rightarrow> world handler" where
  "userH_List lib s rq =
     serve lib (userSvc_List s (fst (Atoi (rq_query rq ''page''))) (fst (Atoi (rq_query rq ''limit'')))
         (rq_query rq ''search''))
       (\<lambda>(items, n). replyOK (ListUsersResponse (FromUserSlice lib items) n))"

definition userH_GetProfile :: "HttpLib \<Rightarrow> DBTX \<Rightarrow> Request \<Rightarrow> world handler" where
  "userH_GetProfile lib s rq = withUser rq (\<lambda>u.
     serve lib (userSvc_GetByID s u u) (\<lambda>user. replyOK (UserDTO_json (FromUser lib user))))"

definition edited_user :: "UpdateProfileRequest \<Rightarrow> User \<Rightarrow> User" where
  "edited_user r u = u\<lparr>
     usr_DisplayName := (if upr_DisplayName r \<noteq> [] then upr_DisplayName r else usr_DisplayName u),
     usr_AvatarURL := (if upr_AvatarURL r \<noteq> [] then upr_AvatarURL r else usr_AvatarURL u),
     usr_Bio := (if upr_Bio r \<noteq> [] then upr_Bio r else usr_Bio u)\<rparr>"

definition userH_UpdateProfile :: "HttpLib \<Rightarrow> DBTX \<Rightarrow> Request \<Rightarrow> world handler" where
  "userH_UpdateProfile lib s rq =
     bindJSON decode_UpdateProfileRequest rq (\<lambda>r.
     withUser rq (\<lambda>u.
     serve lib (userSvc_GetByID s u u) (\<lambda>current.
     serve lib (userSvc_UpdateProfile s u (edited_user r current)) (\<lambda>updated.
       replyOK (UserDTO_json (FromUser lib updated))))))"

definition userH_DeleteProfile :: "HttpLib \<Rightarrow> DBTX \<Rightarrow> Request \<Rightarrow> world handler" where
  "userH_DeleteProfile lib s rq = withUser rq (\<lambda>u. serve lib (userSvc_Delete s u u) (\<lambda>_. replyNil))"

definition userH_GetSettings :: "HttpLib \<Rightarrow> DBTX \<Rightarrow> Request \<Rightarrow> world handler" where
  "userH_GetSettings lib s rq = withUser rq (\<lambda>u.
     serve lib (userSvc_GetSettings s u u) (\<lambda>settings. replyOK (UserSettingsDTO_json (FromUserSettings lib settings))))"

text \<open>An absent \<^verbatim>\<open>notifications_enabled\<close> counts as false.\<close>

definition edited_settings :: "UpdateSettingsRequest \<Rightarrow> UserSettings \<Rightarrow> UserSettings" where
  "edited_settings r s = s\<lparr>st_NotificationsEnabled := usq_NotificationsEnabled r,
     st_Theme := (if usq_Theme r \<noteq> [] then usq_Theme r else st_Theme s),
     st_Language := (if usq_Language r \<noteq> [] then usq_Language r else st_Language s)\<rparr>"

definition userH_UpdateSettings :: "HttpLib \<Rightarrow> DBTX \<Rightarrow> Request \<Rightarrow> world handler" where
  "userH_UpdateSettings lib s rq =
     bindJSON decode_UpdateSettingsRequest rq (\<lambda>r.
     withUser rq (\<lambda>u.
     serve lib (userSvc_GetSettings s u u) (\<lambda>current.
     serve lib (userSvc_UpdateSettings s u (edited_settings r current)) (\<lambda>updated.
       replyOK (UserSettingsDTO_json (FromUserSettings lib updated))))))"

definition userH_ListContacts :: "HttpLib \<Rightarrow> DBTX \<Rightarrow> Request \<Rightarrow> world handler" where
  "userH_ListContacts lib s rq = withUser rq (\<lambda>u.
     serve lib (userSvc_GetContacts s u u)
       (\<lambda>items. replyOK (ContactsResponse (FromUserContactSlice lib items))))"

definition new_contact :: "uuid \<Rightarrow> uuid \<Rightarrow> UserContact" where
  "new_contact u c = \<lparr>con_UserID = u, con_ContactUserID = c, con_Nickname = [], con_IsBlocked = False,
     con_CreatedAt = 0\<rparr>"

definition userH_AddContact :: "HttpLib \<Rightarrow> DBTX \<Rightarrow> Request \<Rightarrow> world handler" where
  "userH_AddContact lib s rq =
     bindJSON decode_AddContactRequest rq (\<lambda>contactText.
     withUser rq (\<lambda>u.
     orBadRequest (hl_uuid_Parse lib contactText) ''invalid contact_user_id'' (\<lambda>c.
     serve lib (userSvc_AddContact s u (new_contact u c))
       (\<lambda>_. replyOK (AddContactResponse True)))))"

definition contactID :: "HttpLib \<Rightarrow> Request \<Rightarrow> (uuid \<Rightarrow> 's handler) \<Rightarrow> 's handler" where
  "contactID lib rq k = orBadRequest (hl_uuid_Parse lib (rq_param rq ''id'')) ''invalid contact id'' k"

definition userH_RemoveContact :: "HttpLib \<Rightarrow> DBTX \<Rightarrow> Request \<Rightarrow> world handler" where
  "userH_RemoveContact lib s rq = withUser rq (\<lambda>u. contactID lib rq (\<lambda>c.
     serve lib (userSvc_RemoveContact s u u c) (\<lambda>_. replyNil)))"

definition userH_BlockContact :: "HttpLib \<Rightarrow> DBTX \<Rightarrow> Request \<Rightarrow> world handler" where
  "userH_BlockContact lib s rq = withUser rq (\<lambda>u. contactID lib rq (\<lambda>c.
     serve lib (userSvc_BlockContact s u u c) (\<lambda>_. replyNil)))"

definition userH_UnblockContact :: "HttpLib \<Rightarrow> DBTX \<Rightarrow> Request \<Rightarrow> world handler" where
  "userH_UnblockContact lib s rq = withUser rq (\<lambda>u. contactID lib rq (\<lambda>c.
     serve lib (userSvc_UnblockContact s u u c) (\<lambda>_. replyNil)))"

definition userH_BlockedContacts :: "HttpLib \<Rightarrow> DBTX \<Rightarrow> Request \<Rightarrow> world handler" where
  "userH_BlockedContacts lib s rq = withUser rq (\<lambda>u.
     serve lib (userSvc_GetBlockedContacts s u u)
       (\<lambda>items. replyOK (ContactsResponse (FromUserContactSlice lib items))))"

definition deviceID :: "HttpLib \<Rightarrow> Request \<Rightarrow> (uuid \<Rightarrow> 's handler) \<Rightarrow> 's handler" where
  "deviceID lib rq k = orBadRequest (hl_uuid_Parse lib (rq_param rq ''id'')) ''invalid device id'' k"

definition userH_GetDevice :: "HttpLib \<Rightarrow> DBTX \<Rightarrow> Request \<Rightarrow> world handler" where
  "userH_GetDevice lib s rq = withUser rq (\<lambda>u. deviceID lib rq (\<lambda>d.
     serve lib (userSvc_GetDeviceByID s u u d) (\<lambda>item. replyOK (DeviceDTO_json (FromDevice lib item)))))"

definition userH_ListDevices :: "HttpLib \<Rightarrow> DBTX \<Rightarrow> Request \<Rightarrow> world handler" where
  "userH_ListDevices lib s rq = withUser rq (\<lambda>u.
     serve lib (userSvc_GetDevices s u u)
       (\<lambda>items. replyOK (DevicesResponse (FromDeviceSlice lib items))))"

definition userH_DeactivateDevice :: "HttpLib \<Rightarrow> DBTX \<Rightarrow> Request \<Rightarrow> world handler" where
  "userH_DeactivateDevice lib s rq = withUser rq (\<lambda>u. deviceID lib rq (\<lambda>d.
     serve lib (userSvc_DeactivateDevice s u u d) (\<lambda>_. replyNil)))"

definition userH_ListPushTokens :: "HttpLib \<Rightarrow> DBTX \<Rightarrow> Request \<Rightarrow> world handler" where
  "userH_ListPushTokens lib s rq = withUser rq (\<lambda>u.
     serve lib (userSvc_GetPushTokens s u u)
       (\<lambda>items. replyOK (PushTokensResponse (FromPushTokenSlice lib items))))"

definition userH_RevokeSession :: "HttpLib \<Rightarrow> DBTX \<Rightarrow> Request \<Rightarrow> world handler" where
  "userH_RevokeSession lib s rq = withUser rq (\<lambda>u.
     orBadRequest (hl_uuid_Parse lib (rq_param rq ''id'')) ''invalid session id'' (\<lambda>i.
     serve lib (userSvc_RevokeSession s u u i) (\<lambda>_. replyNil)))"

definition userH_RevokeAllSessions :: "HttpLib \<Rightarrow> DBTX \<Rightarrow> Request \<Rightarrow> world handler" where
  "userH_RevokeAllSessions lib s rq = withUser rq (\<lambda>u. serve lib (userSvc_RevokeAllSessions s u u) (\<lambda>_. replyNil))"

end
