(* ===== verification/CallHandler.thy ===== *)
theory CallHandler
  imports CallService ConversationRepo Http
begin

text \<open>
  \<^verbatim>\<open>internal/handler/call_handler.go\<close> and \<^verbatim>\<open>internal/transport/httpdto/call.go\<close>; the
  quality metrics are in theory \<open>CallQuality\<close>. A handler acts on the database and the Redis server; \<open>gdb\<close> is the global connection of
  \<^verbatim>\<open>database.GetDB()\<close>. The initiator of a call is the one the request names, not the caller.
\<close>

section \<open>Requests and replies\<close>

record CreateCallRequest =
  ckr_ConversationID :: string
  ckr_Type :: string
  ckr_InitiatorID :: string

definition decode_CreateCallRequest :: "json \<Rightarrow> CreateCallRequest option" where
  "decode_CreateCallRequest = decode_struct (\<lambda>fs.
     Option.bind (required_string (field fs ''conversation_id'')) (\<lambda>conv.
     Option.bind (required_string (field fs ''type'')) (\<lambda>ty.
     Option.bind (required_string (field fs ''initiator_id'')) (\<lambda>u.
       Some \<lparr>ckr_ConversationID = conv, ckr_Type = ty, ckr_InitiatorID = u\<rparr>))))"

definition decode_AddCallParticipantRequest :: "json \<Rightarrow> string option" where
  "decode_AddCallParticipantRequest = decode_struct (\<lambda>fs. required_string (field fs ''user_id''))"

definition decode_UpdateParticipantStatusRequest :: "json \<Rightarrow> string option" where
  "decode_UpdateParticipantStatusRequest = decode_struct (\<lambda>fs. required_string (field fs ''status''))"

text \<open>Whether the audio and whether the video is muted\<close>

definition decode_UpdateParticipantMuteRequest :: "json \<Rightarrow> (bool \<times> bool) option" where
  "decode_UpdateParticipantMuteRequest = decode_struct (\<lambda>fs.
     Option.bind (as_bool (field fs ''audio_muted'')) (\<lambda>a.
     Option.bind (as_bool (field fs ''video_muted'')) (\<lambda>v. Some (a, v))))"

definition decode_EndCallRequest :: "json \<Rightarrow> string option" where
  "decode_EndCallRequest = decode_struct (\<lambda>fs. as_string (field fs ''reason''))"

record CallDTO =
  cdt_ID :: string
  cdt_ConversationID :: string
  cdt_Type :: string
  cdt_Status :: string
  cdt_InitiatorID :: string
  cdt_StartedAt :: string
  cdt_EndedAt :: string
  cdt_Duration :: int

definition CallDTO_json :: "CallDTO \<Rightarrow> json" where
  "CallDTO_json c = JObj (
     [(''id'', JStr (cdt_ID c)), (''conversation_id'', JStr (cdt_ConversationID c)),
      (''type'', JStr (cdt_Type c)), (''status'', JStr (cdt_Status c)),
      (''initiator_id'', JStr (cdt_InitiatorID c))] @
     unless_empty ''started_at'' (cdt_StartedAt c) @ unless_empty ''ended_at'' (cdt_EndedAt c) @
     (if cdt_Duration c = 0 then [] else [(''duration'', JNum (cdt_Duration c))]))"

definition call_status :: "Call \<Rightarrow> string" where
  "call_status c =
     (if call_EndedAt c \<noteq> None then ''ENDED''
      else if call_ConnectedAt c \<noteq> None then ''CONNECTED''
      else if call_StartedAt c \<noteq> 0 then ''RINGING''
      else ''INITIATED'')"

definition FromCall :: "HttpLib \<Rightarrow> Call \<Rightarrow> CallDTO" where
  "FromCall lib c = \<lparr>cdt_ID = uuid_String (call_ID c),
     cdt_ConversationID = uuid_String (call_ConversationID c), cdt_Type = call_Type c,
     cdt_Status = call_status c, cdt_InitiatorID = uuid_String (call_InitiatedBy c),
     cdt_StartedAt = (if call_StartedAt c \<noteq> 0 then hl_RFC3339 lib (call_StartedAt c) else []),
     cdt_EndedAt = (case call_EndedAt c of None \<Rightarrow> [] | Some t \<Rightarrow> hl_RFC3339 lib t),
     cdt_Duration = (case call_DurationSeconds c of None \<Rightarrow> 0 | Some d \<Rightarrow> d)\<rparr>"

definition FromCallSlice :: "HttpLib \<Rightarrow> Call list \<Rightarrow> CallDTO list" where
  "FromCallSlice lib cs = map (FromCall lib) cs"

definition ListCallsResponse :: "CallDTO list \<Rightarrow> int \<Rightarrow> json" where
  "ListCallsResponse cs n = JObj [(''calls'', json_list CallDTO_json cs), (''total'', JNum n)]"

record CallParticipantDTO =
  cpd_UserID :: string
  cpd_Status :: string
  cpd_AudioMuted :: bool
  cpd_VideoMuted :: bool
  cpd_JoinedAt :: string
  cpd_LeftAt :: string

definition CallParticipantDTO_json :: "CallParticipantDTO \<Rightarrow> json" where
  "CallParticipantDTO_json d = JObj (
     [(''user_id'', JStr (cpd_UserID d)), (''status'', JStr (cpd_Status d)),
      (''audio_muted'', JBool (cpd_AudioMuted d)),
      (''video_muted'', JBool (cpd_VideoMuted d))] @
     unless_empty ''joined_at'' (cpd_JoinedAt d) @
     unless_empty ''left_at'' (cpd_LeftAt d))"

definition FromCallParticipant :: "HttpLib \<Rightarrow> CallParticipant \<Rightarrow> CallParticipantDTO" where
  "FromCallParticipant lib p = \<lparr>cpd_UserID = uuid_String (cp_UserID p), cpd_Status = cp_Status p,
     cpd_AudioMuted = cp_MutedAudio p, cpd_VideoMuted = cp_MutedVideo p,
     cpd_JoinedAt = (case cp_JoinedAt p of None \<Rightarrow> [] | Some t \<Rightarrow> hl_RFC3339 lib t),
     cpd_LeftAt = (case cp_LeftAt p of None \<Rightarrow> [] | Some t \<Rightarrow> hl_RFC3339 lib t)\<rparr>"

definition FromCallParticipantSlice :: "HttpLib \<Rightarrow> CallParticipant list \<Rightarrow> CallParticipantDTO list" where
  "FromCallParticipantSlice lib ps = map (FromCallParticipant lib) ps"

definition CallParticipantsResponse :: "CallParticipantDTO list \<Rightarrow> json" where
  "CallParticipantsResponse ps = JObj [(''participants'', json_list CallParticipantDTO_json ps)]"

definition CallDurationResponse :: "int \<Rightarrow> json" where
  "CallDurationResponse d = JObj [(''duration'', JNum d)]"

section \<open>Handlers\<close>

definition ensureDMCall :: "DBTX \<Rightarrow> uuid \<Rightarrow> unit svc" where
  "ensureDMCall gdb conv =
     (if conv = uuid_Nil then fail ErrInvalidInput
      else andThen (on_store (convRepo_GetByID gdb conv)) (\<lambda>item.
        if conv_Type item \<noteq> ''DM'' then fail ErrForbidden else ok ()))"

type_synonym call_handler = "(world \<times> redis) handler"

definition callID :: "HttpLib \<Rightarrow> Request \<Rightarrow> (uuid \<Rightarrow> 's handler) \<Rightarrow> 's handler" where
  "callID lib rq k = orBadRequest (hl_uuid_Parse lib (rq_param rq ''id'')) ''invalid call id'' k"

definition calleeID :: "HttpLib \<Rightarrow> Request \<Rightarrow> (uuid \<Rightarrow> 's handler) \<Rightarrow> 's handler" where
  "calleeID lib rq k = orBadRequest (hl_uuid_Parse lib (rq_param rq ''user_id'')) ''invalid user_id'' k"

definition queriedUser :: "HttpLib \<Rightarrow> Request \<Rightarrow> (uuid \<Rightarrow> 's handler) \<Rightarrow> 's handler" where
  "queriedUser lib rq k = orBadRequest (hl_uuid_Parse lib (rq_query rq ''user_id'')) ''invalid user_id'' k"

text \<open>The call, which has to be one of a direct conversation\<close>

definition dmCall :: "HttpLib \<Rightarrow> CallService \<Rightarrow> DBTX \<Rightarrow> uuid \<Rightarrow> (Call \<Rightarrow> call_handler) \<Rightarrow> call_handler" where
  "dmCall lib s gdb i k = serve lib (callSvc_GetByID s i) (\<lambda>c.
     serve lib (ensureDMCall gdb (call_ConversationID c)) (\<lambda>_. k c))"

definition new_call :: "uuid \<Rightarrow> string \<Rightarrow> uuid \<Rightarrow> time \<Rightarrow> Call" where
  "new_call conv ty initiator now = \<lparr>call_ID = uuid_Nil, call_ConversationID = conv,
     call_InitiatedBy = initiator, call_Type = ty, call_Topology = ''P2P'', call_IsGroupCall = False,
     call_StartedAt = now, call_ConnectedAt = None, call_EndedAt = None, call_EndReason = None,
     call_DurationSeconds = None, call_CreatedAt = 0\<rparr>"

definition callH_Create :: "HttpLib \<Rightarrow> CallService \<Rightarrow> DBTX \<Rightarrow> Request \<Rightarrow> call_handler" where
  "callH_Create lib s gdb rq = bindJSON decode_CreateCallRequest rq (\<lambda>r.
     if ckr_Type r \<noteq> ''AUDIO'' \<and> ckr_Type r \<noteq> ''VIDEO'' then badRequest ''unsupported call type''
     else
     orBadRequest (hl_uuid_Parse lib (ckr_ConversationID r)) ''invalid conversation_id'' (\<lambda>conv.
     orBadRequest (hl_uuid_Parse lib (ckr_InitiatorID r)) ''invalid initiator_id'' (\<lambda>initiator.
     serve lib (ensureDMCall gdb conv) (\<lambda>_. do {
       now \<leftarrow> on_store time_Now;
       serve lib (callSvc_Create s (new_call conv (ckr_Type r) initiator now)) (\<lambda>created.
         replyOK (CallDTO_json ((FromCall lib created)\<lparr>cdt_Status := ''RINGING''\<rparr>)))
     }))))"

definition callH_GetByID :: "HttpLib \<Rightarrow> CallService \<Rightarrow> Request \<Rightarrow> call_handler" where
  "callH_GetByID lib s rq = callID lib rq (\<lambda>i.
     serve lib (callSvc_GetByID s i) (\<lambda>item. replyOK (CallDTO_json (FromCall lib item))))"

definition callH_ListByConversation :: "HttpLib \<Rightarrow> CallService \<Rightarrow> Request \<Rightarrow> call_handler" where
  "callH_ListByConversation lib s rq =
     orBadRequest (hl_uuid_Parse lib (rq_query rq ''conversation_id'')) ''invalid conversation_id'' (\<lambda>conv.
     serve lib (callSvc_GetConversationCalls s conv (fst (Atoi (rq_query rq ''page'')))
         (fst (Atoi (rq_query rq ''limit''))))
       (\<lambda>(items, n). replyOK (ListCallsResponse (FromCallSlice lib items) n)))"

definition callH_ListByUser :: "HttpLib \<Rightarrow> CallService \<Rightarrow> Request \<Rightarrow> call_handler" where
  "callH_ListByUser lib s rq = queriedUser lib rq (\<lambda>u.
     serve lib (callSvc_GetUserCalls s u (fst (Atoi (rq_query rq ''page'')))
         (fst (Atoi (rq_query rq ''limit''))))
       (\<lambda>(items, n). replyOK (ListCallsResponse (FromCallSlice lib items) n)))"

definition callH_ActiveCalls :: "HttpLib \<Rightarrow> CallService \<Rightarrow> Request \<Rightarrow> call_handler" where
  "callH_ActiveCalls lib s rq = queriedUser lib rq (\<lambda>u.
     serve lib (callSvc_GetActiveCalls s u) (\<lambda>items. replyOK (ListCallsResponse (FromCallSlice lib items) 0)))"

text \<open>A time that cannot be read is the zero time.\<close>

definition callH_MissedCalls :: "HttpLib \<Rightarrow> CallService \<Rightarrow> Request \<Rightarrow> call_handler" where
  "callH_MissedCalls lib s rq = queriedUser lib rq (\<lambda>u.
     let since = (case hl_ParseRFC3339 lib (rq_query rq ''since'') of None \<Rightarrow> 0 | Some t \<Rightarrow> t) in
     serve lib (callSvc_GetMissedCalls s u since) (\<lambda>items. replyOK (ListCallsResponse (FromCallSlice lib items) 0)))"

definition invited :: "uuid \<Rightarrow> uuid \<Rightarrow> CallParticipant" where
  "invited i u = \<lparr>cp_CallID = i, cp_UserID = u, cp_Status = ''INVITED'', cp_JoinedAt = None,
     cp_LeftAt = None, cp_MutedAudio = False, cp_MutedVideo = False, cp_DeviceType = []\<rparr>"

definition callH_AddParticipant :: "HttpLib \<Rightarrow> CallService \<Rightarrow> DBTX \<Rightarrow> Request \<Rightarrow> call_handler" where
  "callH_AddParticipant lib s gdb rq = callID lib rq (\<lambda>i.
     bindJSON decode_AddCallParticipantRequest rq (\<lambda>userText.
     orBadRequest (hl_uuid_Parse lib userText) ''invalid user_id'' (\<lambda>u.
     dmCall lib s gdb i (\<lambda>_.
     serve lib (callSvc_GetActiveParticipantCount s i) (\<lambda>activeCount.
     if activeCount \<ge> 2 then requestFailed ''dm calls are limited to two participants''
     else serve lib (callSvc_AddParticipant s (invited i u))
       (\<lambda>_. replyOK (CallParticipantDTO_json (FromCallParticipant lib (invited i u)))))))))"

definition callH_RemoveParticipant :: "HttpLib \<Rightarrow> CallService \<Rightarrow> DBTX \<Rightarrow> Request \<Rightarrow> call_handler" where
  "callH_RemoveParticipant lib s gdb rq = callID lib rq (\<lambda>i. calleeID lib rq (\<lambda>u.
     dmCall lib s gdb i (\<lambda>_. serve lib (callSvc_RemoveParticipant s i u) (\<lambda>_. replyNil))))"

definition callH_ListParticipants :: "HttpLib \<Rightarrow> CallService \<Rightarrow> Request \<Rightarrow> call_handler" where
  "callH_ListParticipants lib s rq = callID lib rq (\<lambda>i.
     serve lib (callSvc_GetCallParticipants s i)
       (\<lambda>items. replyOK (CallParticipantsResponse (FromCallParticipantSlice lib items))))"

definition callH_UpdateParticipantStatus :: "HttpLib \<Rightarrow> CallService \<Rightarrow> DBTX \<Rightarrow> Request \<Rightarrow> call_handler" where
  "callH_UpdateParticipantStatus lib s gdb rq = callID lib rq (\<lambda>i. calleeID lib rq (\<lambda>u.
     bindJSON decode_UpdateParticipantStatusRequest rq (\<lambda>status.
     dmCall lib s gdb i (\<lambda>_.
     serve lib (callSvc_UpdateParticipantStatus s i u status) (\<lambda>_. replyNil)))))"

definition callH_UpdateParticipantMute :: "HttpLib \<Rightarrow> CallService \<Rightarrow> DBTX \<Rightarrow> Request \<Rightarrow> call_handler" where
  "callH_UpdateParticipantMute lib s gdb rq = callID lib rq (\<lambda>i. calleeID lib rq (\<lambda>u.
     bindJSON decode_UpdateParticipantMuteRequest rq (\<lambda>(audio, video).
     dmCall lib s gdb i (\<lambda>_.
     serve lib (callSvc_UpdateParticipantMuteStatus s i u audio video) (\<lambda>_. replyNil)))))"

definition callH_MarkConnected :: "HttpLib \<Rightarrow> CallService \<Rightarrow> DBTX \<Rightarrow> Request \<Rightarrow> call_handler" where
  "callH_MarkConnected lib s gdb rq = callID lib rq (\<lambda>i.
     dmCall lib s gdb i (\<lambda>_. serve lib (callSvc_MarkConnected s i) (\<lambda>_. replyNil)))"

definition callH_EndCall :: "HttpLib \<Rightarrow> CallService \<Rightarrow> DBTX \<Rightarrow> Request \<Rightarrow> call_handler" where
  "callH_EndCall lib s gdb rq = callID lib rq (\<lambda>i.
     bindJSON decode_EndCallRequest rq (\<lambda>reason.
     dmCall lib s gdb i (\<lambda>_. serve lib (callSvc_EndCall s i reason) (\<lambda>_. replyNil))))"

definition callH_GetCallDuration :: "HttpLib \<Rightarrow> CallService \<Rightarrow> Request \<Rightarrow> call_handler" where
  "callH_GetCallDuration lib s rq = callID lib rq (\<lambda>i.
     serve lib (callSvc_GetCallDuration s i) (\<lambda>d. replyOK (CallDurationResponse d)))"

end
