(* ===== verification/CallQuality.thy ===== *)
theory CallQuality
  imports CallHandler
begin

text \<open>
  The quality metrics in \<^verbatim>\<open>internal/handler/call_handler.go\<close> and \<^verbatim>\<open>internal/transport/httpdto/call.go\<close>.
  A \<^verbatim>\<open>float64\<close> is its 64 bits; \<open>FloatLib\<close> holds what the processor, the JSON package and the database do
  with such numbers.
\<close>

section \<open>Floating point numbers\<close>

text \<open>
  Reading and printing a JSON number, \<^verbatim>\<open>float64(n)\<close>, product and quotient, \<^verbatim>\<open>int64(math.Round(x))\<close>, and
  \<^verbatim>\<open>AVG\<close> over a \<^verbatim>\<open>DECIMAL\<close> column
\<close>

record FloatLib =
  fp_Parse :: "string \<Rightarrow> float64 option"
  fp_Format :: "float64 \<Rightarrow> string"
  fp_of_int :: "int \<Rightarrow> float64"
  fp_times :: "float64 \<Rightarrow> float64 \<Rightarrow> float64"
  fp_over :: "float64 \<Rightarrow> float64 \<Rightarrow> float64"
  fp_Round :: "float64 \<Rightarrow> int"
  fp_Avg :: "float64 list \<Rightarrow> float64"

text \<open>\<^verbatim>\<open>x > 0\<close>: the sign bit is not set, and \<open>x\<close> is neither zero nor beyond infinity (a NaN)\<close>

definition fp_pos :: "float64 \<Rightarrow> bool" where
  "fp_pos x \<longleftrightarrow> 0 < x \<and> x \<le> 0x7FF0000000000000"

text \<open>\<^verbatim>\<open>x == 0\<close>, of either sign\<close>

definition fp_zero :: "float64 \<Rightarrow> bool" where
  "fp_zero x \<longleftrightarrow> x = 0 \<or> x = 0x8000000000000000"

fun as_float :: "FloatLib \<Rightarrow> json \<Rightarrow> float64 option" where
  "as_float fl JNull = Some 0"
| "as_float fl (JNum i) = fp_Parse fl (Itoa i)"
| "as_float fl (JDec s) = fp_Parse fl s"
| "as_float fl _ = None"

definition float_json :: "FloatLib \<Rightarrow> float64 \<Rightarrow> json" where
  "float_json fl x = JDec (fp_Format fl x)"

section \<open>Requests and replies\<close>

record RecordCallQualityMetricRequest =
  rqm_CallID :: string
  rqm_UserID :: string
  rqm_Timestamp :: string
  rqm_PacketsSent :: int
  rqm_PacketsReceived :: int
  rqm_PacketLoss :: float64
  rqm_PacketsLost :: int
  rqm_Jitter :: float64
  rqm_Latency :: float64
  rqm_Bitrate :: int
  rqm_FrameRate :: int
  rqm_Resolution :: string
  rqm_ResolutionWidth :: int
  rqm_ResolutionHeight :: int
  rqm_AudioLevel :: float64
  rqm_ConnectionType :: string
  rqm_IceCandidateType :: string

definition decode_RecordCallQualityMetricRequest :: "FloatLib \<Rightarrow> json \<Rightarrow> RecordCallQualityMetricRequest option" where
  "decode_RecordCallQualityMetricRequest fl = decode_struct (\<lambda>fs.
     Option.bind (required_string (field fs ''call_id'')) (\<lambda>c.
     Option.bind (required_string (field fs ''user_id'')) (\<lambda>u.
     Option.bind (as_string (field fs ''timestamp'')) (\<lambda>t.
     Option.bind (as_int (field fs ''packets_sent'')) (\<lambda>sent.
     Option.bind (as_int (field fs ''packets_received'')) (\<lambda>received.
     Option.bind (as_float fl (field fs ''packet_loss'')) (\<lambda>loss.
     Option.bind (as_int (field fs ''packets_lost'')) (\<lambda>lost.
     Option.bind (as_float fl (field fs ''jitter'')) (\<lambda>jitter.
     Option.bind (as_float fl (field fs ''latency'')) (\<lambda>latency.
     Option.bind (as_int (field fs ''bitrate'')) (\<lambda>bitrate.
     Option.bind (as_int (field fs ''frame_rate'')) (\<lambda>frames.
     Option.bind (as_string (field fs ''resolution'')) (\<lambda>res.
     Option.bind (as_int (field fs ''resolution_width'')) (\<lambda>width.
     Option.bind (as_int (field fs ''resolution_height'')) (\<lambda>height.
     Option.bind (as_float fl (field fs ''audio_level'')) (\<lambda>audio.
     Option.bind (as_string (field fs ''connection_type'')) (\<lambda>conn.
     Option.bind (as_string (field fs ''ice_candidate_type'')) (\<lambda>ice.
       Some \<lparr>rqm_CallID = c, rqm_UserID = u, rqm_Timestamp = t, rqm_PacketsSent = sent,
         rqm_PacketsReceived = received, rqm_PacketLoss = loss, rqm_PacketsLost = lost, rqm_Jitter = jitter,
         rqm_Latency = latency, rqm_Bitrate = bitrate, rqm_FrameRate = frames, rqm_Resolution = res,
         rqm_ResolutionWidth = width, rqm_ResolutionHeight = height, rqm_AudioLevel = audio,
         rqm_ConnectionType = conn, rqm_IceCandidateType = ice\<rparr>))))))))))))))))))"

text \<open>The share of lost packets that a reply reports\<close>

definition packet_loss :: "FloatLib \<Rightarrow> CallQualityMetric \<Rightarrow> float64" where
  "packet_loss fl m =
     (if cqm_PacketsSent m > 0 then fp_over fl (fp_of_int fl (cqm_PacketsLost m)) (fp_of_int fl (cqm_PacketsSent m))
      else if cqm_PacketsLost m > 0 then fp_of_int fl (cqm_PacketsLost m)
      else 0)"

record CallQualityMetricDTO =
  cqd_ID :: string
  cqd_CallID :: string
  cqd_UserID :: string
  cqd_Timestamp :: string
  cqd_PacketLoss :: float64
  cqd_Jitter :: float64
  cqd_Latency :: float64
  cqd_Bitrate :: int
  cqd_FrameRate :: int
  cqd_Resolution :: string
  cqd_AudioLevel :: float64

definition CallQualityMetricDTO_json :: "FloatLib \<Rightarrow> CallQualityMetricDTO \<Rightarrow> json" where
  "CallQualityMetricDTO_json fl d = JObj (
     [(''id'', JStr (cqd_ID d)), (''call_id'', JStr (cqd_CallID d)),
      (''user_id'', JStr (cqd_UserID d)), (''timestamp'', JStr (cqd_Timestamp d)),
      (''packet_loss'', float_json fl (cqd_PacketLoss d)),
      (''jitter'', float_json fl (cqd_Jitter d)),
      (''latency'', float_json fl (cqd_Latency d)), (''bitrate'', JNum (cqd_Bitrate d))] @
     (if cqd_FrameRate d = 0 then [] else [(''frame_rate'', JNum (cqd_FrameRate d))]) @
     unless_empty ''resolution'' (cqd_Resolution d) @
     (if fp_zero (cqd_AudioLevel d) then [] else [(''audio_level'', float_json fl (cqd_AudioLevel d))]))"

definition FromCallQualityMetric :: "FloatLib \<Rightarrow> HttpLib \<Rightarrow> CallQualityMetric \<Rightarrow> CallQualityMetricDTO" where
  "FromCallQualityMetric fl lib m = \<lparr>cqd_ID = uuid_String (cqm_ID m), cqd_CallID = uuid_String (cqm_CallID m),
     cqd_UserID = uuid_String (cqm_UserID m),
     cqd_Timestamp = hl_RFC3339 lib (cqm_RecordedAt m), cqd_PacketLoss = packet_loss fl m,
     cqd_Jitter = cqm_JitterMs m, cqd_Latency = cqm_RoundTripTimeMs m,
     cqd_Bitrate = cqm_BitrateKbps m, cqd_FrameRate = cqm_FrameRate m,
     cqd_Resolution = (if cqm_ResolutionWidth m > 0 \<and> cqm_ResolutionHeight m > 0 then
       Itoa (cqm_ResolutionWidth m) @ ''x'' @ Itoa (cqm_ResolutionHeight m) else []),
     cqd_AudioLevel = cqm_AudioLevel m\<rparr>"

definition FromCallQualityMetricSlice :: "FloatLib \<Rightarrow> HttpLib \<Rightarrow> CallQualityMetric list \<Rightarrow> CallQualityMetricDTO list" where
  "FromCallQualityMetricSlice fl lib ms = map (FromCallQualityMetric fl lib) ms"

section \<open>Handlers\<close>

text \<open>
  \<^verbatim>\<open>%d\<close> of \<^verbatim>\<open>fmt.Sscanf\<close>: white space, but no new line, is skipped before the number.
\<close>

definition scan_int :: "string \<Rightarrow> (int \<times> string) option" where
  "scan_int s = (let s1 = dropWhile (\<lambda>c. is_space c \<and> c \<noteq> CHR 0x0A) s;
       sign = (take 1 s1 = ''-'' \<or> take 1 s1 = ''+''); s2 = (if sign then drop 1 s1 else s1);
       ds = takeWhile is_digit s2;
       n = (if take 1 s1 = ''-'' then - digits_value ds else digits_value ds) in
     if ds = [] \<or> n > 2 ^ 63 - 1 \<or> n < - (2 ^ 63) then None else Some (n, dropWhile is_digit s2))"

text \<open>\<^verbatim>\<open>fmt.Sscanf(text, "%dx%d", &width, &height)\<close> from zeros: what is not read stays zero.\<close>

definition scan_resolution :: "string \<Rightarrow> int \<times> int" where
  "scan_resolution s = (case scan_int s of
     None \<Rightarrow> (0, 0)
   | Some (width, rest) \<Rightarrow> (case rest of
       c # rest' \<Rightarrow> (if c = CHR ''x'' then (case scan_int rest' of None \<Rightarrow> (width, 0) | Some (height, _) \<Rightarrow> (width, height))
                      else (width, 0))
     | [] \<Rightarrow> (width, 0)))"

definition packets_lost :: "FloatLib \<Rightarrow> RecordCallQualityMetricRequest \<Rightarrow> int" where
  "packets_lost fl r =
     (if rqm_PacketsLost r = 0 \<and> fp_pos (rqm_PacketLoss r) then
        (let base = (if rqm_PacketsSent r = 0 then rqm_PacketsReceived r else rqm_PacketsSent r) in
         if base > 0 then fp_Round fl (fp_times fl (rqm_PacketLoss r) (fp_of_int fl base)) else rqm_PacketsLost r)
      else rqm_PacketsLost r)"

definition metric_resolution :: "RecordCallQualityMetricRequest \<Rightarrow> int \<times> int" where
  "metric_resolution r =
     (let given = (max 0 (rqm_ResolutionWidth r), max 0 (rqm_ResolutionHeight r)) in
      if rqm_Resolution r = [] then given
      else case scan_resolution (rqm_Resolution r) of (width, height) \<Rightarrow>
        if width > 0 \<and> height > 0 then (width, height) else given)"

text \<open>Go's division truncates. The identifier and, before it is set, the time are zero.\<close>

definition new_metric :: "FloatLib \<Rightarrow> HttpLib \<Rightarrow> uuid \<Rightarrow> uuid \<Rightarrow> RecordCallQualityMetricRequest \<Rightarrow> CallQualityMetric" where
  "new_metric fl lib i u r = \<lparr>cqm_ID = uuid_Nil, cqm_CallID = i, cqm_UserID = u,
     cqm_RecordedAt = (if rqm_Timestamp r = [] then 0
       else case hl_ParseRFC3339 lib (rqm_Timestamp r) of None \<Rightarrow> 0 | Some t \<Rightarrow> t),
     cqm_PacketsSent = rqm_PacketsSent r, cqm_PacketsReceived = rqm_PacketsReceived r,
     cqm_PacketsLost = packets_lost fl r, cqm_JitterMs = rqm_Jitter r, cqm_RoundTripTimeMs = rqm_Latency r,
     cqm_BitrateKbps = (if rqm_Bitrate r \<ge> 0 then rqm_Bitrate r div 1000 else - (- rqm_Bitrate r div 1000)),
     cqm_FrameRate = rqm_FrameRate r, cqm_ResolutionWidth = fst (metric_resolution r),
     cqm_ResolutionHeight = snd (metric_resolution r), cqm_AudioLevel = rqm_AudioLevel r,
     cqm_ConnectionType = rqm_ConnectionType r, cqm_IceCandidateType = rqm_IceCandidateType r\<rparr>"

definition timed_metric :: "CallQualityMetric \<Rightarrow> (world \<times> redis, CallQualityMetric) state" where
  "timed_metric m =
     (if cqm_RecordedAt m = 0 then do { now \<leftarrow> on_store time_Now; State_Monad.return (m\<lparr>cqm_RecordedAt := now\<rparr>) }
      else State_Monad.return m)"

definition callH_RecordQualityMetric ::
  "FloatLib \<Rightarrow> HttpLib \<Rightarrow> CallService \<Rightarrow> DBTX \<Rightarrow> Request \<Rightarrow> call_handler" where
  "callH_RecordQualityMetric fl lib s gdb rq = bindJSON (decode_RecordCallQualityMetricRequest fl) rq (\<lambda>r.
     orBadRequest (hl_uuid_Parse lib (rqm_CallID r)) ''invalid call_id'' (\<lambda>i.
     orBadRequest (hl_uuid_Parse lib (rqm_UserID r)) ''invalid user_id'' (\<lambda>u.
     dmCall lib s gdb i (\<lambda>_. do {
       metric \<leftarrow> timed_metric (new_metric fl lib i u r);
       serve lib (callSvc_RecordQualityMetric s metric) (\<lambda>_. replyOK (CallQualityMetricDTO_json fl (FromCallQualityMetric fl lib metric)))
     }))))"

definition queriedCall :: "HttpLib \<Rightarrow> Request \<Rightarrow> (uuid \<Rightarrow> 's handler) \<Rightarrow> 's handler" where
  "queriedCall lib rq k = orBadRequest (hl_uuid_Parse lib (rq_query rq ''call_id'')) ''invalid call_id'' k"

definition CallQualityMetricsResponse :: "FloatLib \<Rightarrow> CallQualityMetricDTO list \<Rightarrow> json" where
  "CallQualityMetricsResponse fl ms = JObj [(''metrics'', json_list (CallQualityMetricDTO_json fl) ms)]"

definition AverageCallQualityResponse :: "FloatLib \<Rightarrow> float64 \<Rightarrow> json" where
  "AverageCallQualityResponse fl avg = JObj [(''average'', float_json fl avg)]"

definition callH_GetCallQualityMetrics ::
  "FloatLib \<Rightarrow> HttpLib \<Rightarrow> CallService \<Rightarrow> DBTX \<Rightarrow> Request \<Rightarrow> call_handler" where
  "callH_GetCallQualityMetrics fl lib s gdb rq = queriedCall lib rq (\<lambda>i.
     dmCall lib s gdb i (\<lambda>_.
     serve lib (callSvc_GetCallQualityMetrics s i) (\<lambda>ms. replyOK (CallQualityMetricsResponse fl (FromCallQualityMetricSlice fl lib ms)))))"

definition callH_GetUserCallQualityMetrics ::
  "FloatLib \<Rightarrow> HttpLib \<Rightarrow> CallService \<Rightarrow> DBTX \<Rightarrow> Request \<Rightarrow> call_handler" where
  "callH_GetUserCallQualityMetrics fl lib s gdb rq = queriedCall lib rq (\<lambda>i. queriedUser lib rq (\<lambda>u.
     dmCall lib s gdb i (\<lambda>_.
     serve lib (callSvc_GetUserCallQualityMetrics s i u) (\<lambda>ms. replyOK (CallQualityMetricsResponse fl (FromCallQualityMetricSlice fl lib ms))))))"

definition callH_GetAverageCallQuality ::
  "FloatLib \<Rightarrow> HttpLib \<Rightarrow> CallService \<Rightarrow> DBTX \<Rightarrow> Request \<Rightarrow> call_handler" where
  "callH_GetAverageCallQuality fl lib s gdb rq = queriedCall lib rq (\<lambda>i.
     dmCall lib s gdb i (\<lambda>_.
     serve lib (callSvc_GetAverageCallQuality (fp_Avg fl) s i) (\<lambda>avg. replyOK (AverageCallQualityResponse fl avg))))"

section \<open>Resolutions\<close>

lemma scan_int_Itoa:
  assumes "0 \<le> i" "i < 2 ^ 63" "rest = [] \<or> \<not> is_digit (hd rest)"
  shows "scan_int (Itoa i @ rest) = Some (i, rest)"
proof -
  have digits: "nat_text (nat i) \<noteq> []" "\<forall>c\<in>set (nat_text (nat i)). is_digit c" "digits_value (nat_text (nat i)) = i"
    using nat_text_digits [of "nat i"] assms(1) by (simp_all add: list_all_iff)
  then obtain c cs where cs: "nat_text (nat i) = c # cs" "is_digit c" by (cases "nat_text (nat i)") auto
  then have "\<not> is_space c" "c \<noteq> CHR ''-''" "c \<noteq> CHR ''+''" by (auto simp: is_digit_def is_space_def)
  then have start: "dropWhile (\<lambda>c. is_space c \<and> c \<noteq> CHR 0x0A) (nat_text (nat i) @ rest) = nat_text (nat i) @ rest"
    "take 1 (nat_text (nat i) @ rest) \<noteq> ''-''" "take 1 (nat_text (nat i) @ rest) \<noteq> ''+''"
    by (simp_all add: cs)
  have "takeWhile is_digit (nat_text (nat i) @ rest) = nat_text (nat i)" "dropWhile is_digit (nat_text (nat i) @ rest) = rest"
    using digits(2) assms(3) by (cases rest; simp add: takeWhile_append dropWhile_append)+
  with start digits assms(1,2) show ?thesis by (simp add: scan_int_def Itoa_def Let_def)
qed

text \<open>A resolution in the form that the replies have is read back as it was.\<close>

lemma scan_resolution_roundtrip:
  assumes "0 \<le> width" "width < 2 ^ 63" "0 \<le> height" "height < 2 ^ 63"
  shows "scan_resolution (Itoa width @ ''x'' @ Itoa height) = (width, height)"
proof -
  have "scan_int (Itoa width @ ''x'' @ Itoa height) = Some (width, ''x'' @ Itoa height)"
    using assms(1,2) by (rule scan_int_Itoa) (simp add: is_digit_def)
  moreover have "scan_int (Itoa height @ []) = Some (height, [])"
    using assms(3,4) by (rule scan_int_Itoa) simp
  ultimately show ?thesis by (simp add: scan_resolution_def)
qed

section \<open>At most one metric\<close>

lemma on_store_cases:
  assumes "run_state (on_store m) (w, rd) = (x, s')"
  obtains w' where "run_state m w = (x, w')" "s' = (w', rd)"
  using assms by (cases "run_state m w") auto

lemma committed_same: "keeps (committed (w_db w)) m \<Longrightarrow> run_state m w = (x, w') \<Longrightarrow> w_db w' = w_db w"
  using keepsD [of "committed (w_db w)" m w x w'] by (simp add: committed_def)

lemma metric_inserted:
  assumes "run_state (callSvc_RecordQualityMetric s m) (w, rd) = (Inr u, (w', rd'))" "clv_repo s = Pool"
  shows "(\<forall>x\<in>set (t_quality_metrics (w_db w)). cqm_ID x \<noteq> cqm_ID m) \<and>
    t_quality_metrics (w_db w') = t_quality_metrics (w_db w) @ [m]"
proof -
  from assms have "run_state (callRepo_RecordQualityMetric Pool m) w = (Inr u, w')"
    unfolding callSvc_RecordQualityMetric_def by (metis on_store_cases prod.inject)
  then show ?thesis
    by (auto simp: callRepo_RecordQualityMetric_def sql_Pool_Inr insert_into_Inr quality_metric_clash_def)
qed

lemma dmCall_200:
  assumes "run_state (dmCall lib s gdb i k) (w, rd) = (r, s')" "rs_status r = 200"
  obtains c w1 where "run_state (k c) (w1, rd) = (r, s')" "w_db w1 = w_db w"
proof -
  from assms obtain c s1 x s2 where c: "run_state (callSvc_GetByID s i) (w, rd) = (Inr c, s1)"
    and dm: "run_state (ensureDMCall gdb (call_ConversationID c)) s1 = (Inr x, s2)"
    and k: "run_state (k c) s2 = (r, s')"
    unfolding dmCall_def by (elim serve_200)
  from c obtain w1 where g: "run_state (callRepo_GetByID (clv_repo s) i) w = (Inr c, w1)" and w1: "s1 = (w1, rd)"
    unfolding callSvc_GetByID_def by (rule on_store_cases)
  have "keeps (committed (w_db w)) (callRepo_GetByID (clv_repo s) i)"
    unfolding callRepo_GetByID_def by (intro keeps_intros)
  from committed_same [OF this g] have db1: "w_db w1 = w_db w" .
  from dm w1 obtain item w2 where conv: "run_state (convRepo_GetByID gdb (call_ConversationID c)) w1 = (Inr item, w2)"
    and s2: "s2 = (w2, rd)"
    unfolding ensureDMCall_def by (auto simp del: run_andThen run_on_store elim!: andThen_Inr on_store_cases split: if_splits)
  have "keeps (committed (w_db w1)) (convRepo_GetByID gdb (call_ConversationID c))"
    unfolding convRepo_GetByID_def load_participants_def convRepo_GetParticipants_def by (intro keeps_intros reads_only_query)
  from committed_same [OF this conv] db1 have "w_db w2 = w_db w" by simp
  with k s2 that show thesis by blast
qed

text \<open>
  A metric is never given an identifier, so that at most one can ever be stored: a request that is
  answered with 200 has found none with the nil identifier and leaves one, and so the next is refused.
\<close>

theorem One_quality_metric:
  assumes run: "run_state (callH_RecordQualityMetric fl lib s gdb rq) (w, rd) = (r, (w', rd'))" "rs_status r = 200"
    and "clv_repo s = Pool"
  shows "\<exists>m. cqm_ID m = uuid_Nil \<and> (\<forall>x\<in>set (t_quality_metrics (w_db w)). cqm_ID x \<noteq> uuid_Nil) \<and>
    t_quality_metrics (w_db w') = t_quality_metrics (w_db w) @ [m]"
proof -
  from run obtain req i u w1 where w1: "w_db w1 = w_db w"
    and rest: "run_state (State_Monad.bind (timed_metric (new_metric fl lib i u req)) (\<lambda>metric.
      serve lib (callSvc_RecordQualityMetric s metric) (\<lambda>_. replyOK (CallQualityMetricDTO_json fl (FromCallQualityMetric fl lib metric))))) (w1, rd) = (r, (w', rd'))"
    unfolding callH_RecordQualityMetric_def by (elim bindJSON_200 orBadRequest_200 dmCall_200) auto
  obtain m w2 where m: "run_state (timed_metric (new_metric fl lib i u req)) (w1, rd) = (m, (w2, rd))"
    "cqm_ID m = uuid_Nil" "w_db w2 = w_db w1"
    by (cases "cqm_RecordedAt (new_metric fl lib i u req) = 0") (simp_all add: timed_metric_def new_metric_def)
  with rest run(2) obtain x s3 where "run_state (callSvc_RecordQualityMetric s m) (w2, rd) = (Inr x, s3)"
    "run_state (replyOK (CallQualityMetricDTO_json fl (FromCallQualityMetric fl lib m))) s3 = (r, (w', rd'))"
    by (auto elim: serve_200)
  then have "run_state (callSvc_RecordQualityMetric s m) (w2, rd) = (Inr x, (w', rd'))"
    by (simp add: replyOK_def)
  from metric_inserted [OF this assms(3)] m(2,3) w1 show ?thesis by auto
qed

end
