(* ===== verification/UploadHandler.thy ===== *)
theory UploadHandler
  imports Uploads Http
begin

text \<open>
  \<^verbatim>\<open>internal/handler/upload_handler.go\<close> and \<^verbatim>\<open>internal/transport/httpdto/upload.go\<close>. The service is
  \<open>None\<close> when it is nil. The uploader is the one the request names, not the caller.
\<close>

section \<open>Requests and replies\<close>

record CreateUploadRequest =
  cur_FileName :: string
  cur_FileSize :: int
  cur_ContentType :: string
  cur_UploaderID :: string

definition decode_CreateUploadRequest :: "json \<Rightarrow> CreateUploadRequest option" where
  "decode_CreateUploadRequest = decode_struct (\<lambda>fs.
     Option.bind (required_string (field fs ''file_name'')) (\<lambda>n.
     Option.bind (required_int (field fs ''file_size'')) (\<lambda>sz.
     Option.bind (required_string (field fs ''content_type'')) (\<lambda>ty.
     Option.bind (required_string (field fs ''uploader_id'')) (\<lambda>u.
       Some \<lparr>cur_FileName = n, cur_FileSize = sz, cur_ContentType = ty, cur_UploaderID = u\<rparr>)))))"

record UpdateUploadRequest =
  uur_FileName :: string
  uur_ContentType :: string

definition decode_UpdateUploadRequest :: "json \<Rightarrow> UpdateUploadRequest option" where
  "decode_UpdateUploadRequest = decode_struct (\<lambda>fs.
     Option.bind (as_string (field fs ''file_name'')) (\<lambda>n.
     Option.bind (as_string (field fs ''content_type'')) (\<lambda>ty.
       Some \<lparr>uur_FileName = n, uur_ContentType = ty\<rparr>)))"

definition decode_UpdateProgressRequest :: "json \<Rightarrow> int option" where
  "decode_UpdateProgressRequest = decode_struct (\<lambda>fs. required_int (field fs ''uploaded_bytes''))"

record UploadDTO =
  upd_ID :: string
  upd_FileName :: string
  upd_FileSize :: int
  upd_ContentType :: string
  upd_UploaderID :: string
  upd_Status :: string
  upd_UploadedBytes :: int
  upd_FileURL :: string
  upd_CreatedAt :: string
  upd_CompletedAt :: string

definition UploadDTO_json :: "UploadDTO \<Rightarrow> json" where
  "UploadDTO_json d = JObj (
     [(''id'', JStr (upd_ID d)), (''file_name'', JStr (upd_FileName d)),
      (''file_size'', JNum (upd_FileSize d)),
      (''content_type'', JStr (upd_ContentType d)),
      (''uploader_id'', JStr (upd_UploaderID d)), (''status'', JStr (upd_Status d)),
      (''uploaded_bytes'', JNum (upd_UploadedBytes d))] @
     unless_empty ''file_url'' (upd_FileURL d) @
     [(''created_at'', JStr (upd_CreatedAt d))] @
     unless_empty ''completed_at'' (upd_CompletedAt d))"

definition FromUploadSession :: "HttpLib \<Rightarrow> UploadSession \<Rightarrow> UploadDTO" where
  "FromUploadSession lib s = \<lparr>upd_ID = uuid_String (up_ID s), upd_FileName = up_Filename s,
     upd_FileSize = up_SizeBytes s, upd_ContentType = up_MimeType s,
     upd_UploaderID = uuid_String (up_UploaderID s), upd_Status = up_Status s,
     upd_UploadedBytes = up_UploadedBytes s, upd_FileURL = opt_string (up_FileURL s),
     upd_CreatedAt = hl_RFC3339 lib (up_CreatedAt s),
     upd_CompletedAt = (case up_CompletedAt s of None \<Rightarrow> [] | Some t \<Rightarrow> hl_RFC3339 lib t)\<rparr>"

definition FromUploadSessionSlice :: "HttpLib \<Rightarrow> UploadSession list \<Rightarrow> UploadDTO list" where
  "FromUploadSessionSlice lib us = map (FromUploadSession lib) us"

definition ListUploadsResponse :: "UploadDTO list \<Rightarrow> int \<Rightarrow> json" where
  "ListUploadsResponse us n = JObj ((''uploads'', json_list UploadDTO_json us) #
     (if n = 0 then [] else [(''total'', JNum n)]))"

definition DeleteStaleUploadsResponse :: "int \<Rightarrow> json" where
  "DeleteStaleUploadsResponse n = JObj [(''deleted'', JNum n)]"

definition CreateUploadResponse :: "HttpLib \<Rightarrow> PresignResult \<Rightarrow> json" where
  "CreateUploadResponse lib r = (let s = pre_Session r in JObj (
     [(''id'', JStr (uuid_String (up_ID s))), (''file_name'', JStr (up_Filename s)),
      (''file_size'', JNum (up_SizeBytes s)), (''content_type'', JStr (up_MimeType s)),
      (''uploader_id'', JStr (uuid_String (up_UploaderID s))), (''status'', JStr (up_Status s))] @
     unless_empty ''upload_url'' (pre_UploadURL r) @ unless_empty ''upload_key'' (pre_UploadKey r) @
     (if pre_Headers r = [] then []
      else [(''headers'', JObj (map (\<lambda>(k, v). (k, JStr v)) (sort_key fst (pre_Headers r))))]) @
     [(''created_at'', JStr (hl_RFC3339 lib (up_CreatedAt s)))]))"

section \<open>Handlers\<close>

definition configured :: "UploadS3Service option \<Rightarrow> (UploadS3Service \<Rightarrow> 's handler) \<Rightarrow> 's handler" where
  "configured s k = (case s of None \<Rightarrow> requestFailed ''s3 uploads not configured'' | Some svc \<Rightarrow> k svc)"

definition uploadID :: "HttpLib \<Rightarrow> Request \<Rightarrow> (uuid \<Rightarrow> 's handler) \<Rightarrow> 's handler" where
  "uploadID lib rq k = orBadRequest (hl_uuid_Parse lib (rq_param rq ''id'')) ''invalid upload id'' k"

definition uploaderID :: "HttpLib \<Rightarrow> Request \<Rightarrow> (uuid \<Rightarrow> 's handler) \<Rightarrow> 's handler" where
  "uploaderID lib rq k =
     orBadRequest (hl_uuid_Parse lib (rq_query rq ''uploader_id'')) ''invalid uploader_id'' k"

definition presign_input :: "CreateUploadRequest \<Rightarrow> uuid \<Rightarrow> PresignInput" where
  "presign_input r u = \<lparr>pin_UploaderID = u, pin_FileName = cur_FileName r,
     pin_ContentType = cur_ContentType r, pin_FileSize = cur_FileSize r\<rparr>"

definition uploadH_Create :: "HttpLib \<Rightarrow> UploadS3Service option \<Rightarrow> Request \<Rightarrow> world handler" where
  "uploadH_Create lib s rq = bindJSON decode_CreateUploadRequest rq (\<lambda>r.
     orBadRequest (hl_uuid_Parse lib (cur_UploaderID r)) ''invalid uploader_id'' (\<lambda>u.
     configured s (\<lambda>svc.
     serve lib (CreatePresignedUpload svc (presign_input r u)) (\<lambda>res. replyOK (CreateUploadResponse lib res)))))"

definition uploadH_GetByID :: "HttpLib \<Rightarrow> UploadS3Service option \<Rightarrow> Request \<Rightarrow> world handler" where
  "uploadH_GetByID lib s rq = configured s (\<lambda>svc. uploadID lib rq (\<lambda>i.
     serve lib (uploadSvc_GetByID svc i) (\<lambda>item. replyOK (UploadDTO_json (FromUploadSession lib item)))))"

definition edited_upload :: "UpdateUploadRequest \<Rightarrow> UploadSession \<Rightarrow> UploadSession" where
  "edited_upload r u = u\<lparr>
     up_Filename := (if uur_FileName r \<noteq> [] then uur_FileName r else up_Filename u),
     up_MimeType := (if uur_ContentType r \<noteq> [] then uur_ContentType r else up_MimeType u)\<rparr>"

definition uploadH_Update :: "HttpLib \<Rightarrow> UploadS3Service option \<Rightarrow> Request \<Rightarrow> world handler" where
  "uploadH_Update lib s rq = configured s (\<lambda>svc.
     bindJSON decode_UpdateUploadRequest rq (\<lambda>r. uploadID lib rq (\<lambda>i.
     serve lib (uploadSvc_GetByID svc i) (\<lambda>item.
       let item' = edited_upload r item in
       serve lib (uploadSvc_Update svc item') (\<lambda>_. replyOK (UploadDTO_json (FromUploadSession lib item')))))))"

definition uploadH_Delete :: "HttpLib \<Rightarrow> UploadS3Service option \<Rightarrow> Request \<Rightarrow> world handler" where
  "uploadH_Delete lib s rq = configured s (\<lambda>svc. uploadID lib rq (\<lambda>i.
     serve lib (uploadSvc_Delete svc i) (\<lambda>_. replyNil)))"

definition uploadH_ListUser :: "HttpLib \<Rightarrow> UploadS3Service option \<Rightarrow> Request \<Rightarrow> world handler" where
  "uploadH_ListUser lib s rq = configured s (\<lambda>svc. uploaderID lib rq (\<lambda>u.
     serve lib (uploadSvc_GetUserUploadSessions svc u) (\<lambda>items. replyOK (ListUploadsResponse (FromUploadSessionSlice lib items) 0))))"

definition uploadH_ListCompleted :: "HttpLib \<Rightarrow> UploadS3Service option \<Rightarrow> Request \<Rightarrow> world handler" where
  "uploadH_ListCompleted lib s rq = configured s (\<lambda>svc. uploaderID lib rq (\<lambda>u.
     serve lib (uploadSvc_GetCompletedUploads svc u (fst (Atoi (rq_query rq ''page'')))
         (fst (Atoi (rq_query rq ''limit''))))
       (\<lambda>(items, n). replyOK (ListUploadsResponse (FromUploadSessionSlice lib items) n))))"

definition uploadH_UpdateProgress :: "HttpLib \<Rightarrow> UploadS3Service option \<Rightarrow> Request \<Rightarrow> world handler" where
  "uploadH_UpdateProgress lib s rq = configured s (\<lambda>svc. uploadID lib rq (\<lambda>i.
     bindJSON decode_UpdateProgressRequest rq (\<lambda>n.
     serve lib (uploadSvc_UpdateProgress svc i n) (\<lambda>_. replyNil))))"

definition uploadH_MarkCompleted :: "HttpLib \<Rightarrow> UploadS3Service option \<Rightarrow> Request \<Rightarrow> world handler" where
  "uploadH_MarkCompleted lib s rq = uploadID lib rq (\<lambda>i. configured s (\<lambda>svc.
     serve lib (MarkCompletedWithS3 svc i) (\<lambda>item. replyOK (UploadDTO_json (FromUploadSession lib item)))))"

definition uploadH_MarkFailed :: "HttpLib \<Rightarrow> UploadS3Service option \<Rightarrow> Request \<Rightarrow> world handler" where
  "uploadH_MarkFailed lib s rq = configured s (\<lambda>svc. uploadID lib rq (\<lambda>i.
     serve lib (uploadSvc_MarkFailed svc i) (\<lambda>_. replyNil)))"

definition uploadH_ListInProgress :: "HttpLib \<Rightarrow> UploadS3Service option \<Rightarrow> Request \<Rightarrow> world handler" where
  "uploadH_ListInProgress lib s rq = configured s (\<lambda>svc. uploaderID lib rq (\<lambda>u.
     serve lib (uploadSvc_GetInProgressUploads svc u) (\<lambda>items. replyOK (ListUploadsResponse (FromUploadSessionSlice lib items) 0))))"

text \<open>A number that cannot be read counts as zero seconds.\<close>

definition older_than :: "Request \<Rightarrow> duration" where
  "older_than rq = seconds (fst (Atoi (rq_query rq ''older_than_sec'')))"

definition uploadH_ListStale :: "HttpLib \<Rightarrow> UploadS3Service option \<Rightarrow> Request \<Rightarrow> world handler" where
  "uploadH_ListStale lib s rq = configured s (\<lambda>svc.
     serve lib (uploadSvc_GetStaleUploads svc (older_than rq))
       (\<lambda>items. replyOK (ListUploadsResponse (FromUploadSessionSlice lib items) 0)))"

definition uploadH_DeleteStale :: "HttpLib \<Rightarrow> UploadS3Service option \<Rightarrow> Request \<Rightarrow> world handler" where
  "uploadH_DeleteStale lib s rq = configured s (\<lambda>svc.
     serve lib (uploadSvc_DeleteStaleUploads svc (older_than rq))
       (\<lambda>count. replyOK (DeleteStaleUploadsResponse count)))"

section \<open>Object keys\<close>

text \<open>The requests of the upload routes, each whole, any of them with anything in it\<close>

definition uploadHandlers :: "(HttpLib \<Rightarrow> UploadS3Service option \<Rightarrow> Request \<Rightarrow> world handler) list" where
  "uploadHandlers = [uploadH_Create, uploadH_GetByID, uploadH_Update, uploadH_Delete, uploadH_ListUser,
     uploadH_ListCompleted, uploadH_ListInProgress, uploadH_UpdateProgress, uploadH_MarkCompleted,
     uploadH_MarkFailed, uploadH_ListStale, uploadH_DeleteStale]"

inductive upload_step :: "HttpLib \<Rightarrow> UploadS3Service \<Rightarrow> world \<Rightarrow> world \<Rightarrow> bool" for lib s where
  request: "handler \<in> set uploadHandlers \<Longrightarrow> run_state (handler lib (Some s) rq) w = (r, w') \<Longrightarrow> upload_step lib s w w'"

abbreviation keys_ok :: "world \<Rightarrow> bool" where
  "keys_ok w \<equiv> uploads_ok (w_db w)"

lemma keeps_by_reading: "\<forall>d. keeps (committed d) m \<Longrightarrow> keeps keys_ok m"
  by (auto simp: keeps_def committed_def)

lemma keeps_upload_reads:
  "keeps (committed d) (uploadSvc_GetByID s i)" "keeps (committed d) (uploadSvc_GetUserUploadSessions s u)"
  "keeps (committed d) (uploadSvc_GetCompletedUploads s u p l)" "keeps (committed d) (uploadSvc_GetInProgressUploads s u)"
  "keeps (committed d) (uploadSvc_GetStaleUploads s t)"
  unfolding uploadSvc_GetByID_def uploadRepo_GetByID_def uploadSvc_GetUserUploadSessions_def uploadRepo_GetUserUploadSessions_def
    uploadSvc_GetCompletedUploads_def uploadRepo_GetCompletedUploads_def uploadSvc_GetInProgressUploads_def
    uploadRepo_GetInProgressUploads_def uploadSvc_GetStaleUploads_def uploadRepo_GetStaleUploads_def Let_def
  by ((intro keeps_intros reads_only_query reads_only_query_page)+)

lemmas keeps_reads = keeps_upload_reads [THEN allI, THEN keeps_by_reading]

text \<open>The editing of a session writes back the object key that it has read.\<close>

lemma own_key_edited: "own_key u \<Longrightarrow> own_key (edited_upload r u)"
  by (rule own_key_same) (simp_all add: edited_upload_def)

lemma keeps_edit:
  assumes pool: "usv_repo s = Pool" and k: "\<And>item. keeps keys_ok (k item)"
  shows "keeps keys_ok (serve lib (uploadSvc_GetByID s i) (\<lambda>item.
    let item' = edited_upload r item in serve lib (uploadSvc_Update s item') (\<lambda>_. k item')))"
proof (rule keepsI)
  fix w x w'
  assume ok: "keys_ok w" and run: "run_state (serve lib (uploadSvc_GetByID s i) (\<lambda>item.
    let item' = edited_upload r item in serve lib (uploadSvc_Update s item') (\<lambda>_. k item'))) w = (x, w')"
  obtain y w1 where get: "run_state (uploadSvc_GetByID s i) w = (y, w1)" by fastforce
  have w1: "keys_ok w1" by (rule keepsD [OF keeps_reads(1) ok get])
  show "keys_ok w'"
  proof (cases y)
    case (Inl e)
    note failed = serve_Inl [OF get [unfolded Inl], THEN conjunct1]
    from run have "w' = snd (run_state (serve lib (uploadSvc_GetByID s i) (\<lambda>item.
      let item' = edited_upload r item in serve lib (uploadSvc_Update s item') (\<lambda>_. k item'))) w)" by simp
    with w1 show ?thesis by (simp only: failed)
  next
    case (Inr u)
    from GetByID_Inr [OF get [unfolded Inr] pool] ok have "own_key (edited_upload r u)"
      by (auto simp: uploads_ok_def intro: own_key_edited)
    then have "keeps keys_ok (uploadSvc_Update s (edited_upload r u))"
      using pool uploadRepo_Update_keeps by (auto simp: uploadSvc_Update_def intro: keepsI)
    then have "keeps keys_ok (serve lib (uploadSvc_Update s (edited_upload r u)) (\<lambda>_. k (edited_upload r u)))"
      using k by (intro keeps_intros)
    moreover from run have "run_state (serve lib (uploadSvc_Update s (edited_upload r u)) (\<lambda>_. k (edited_upload r u))) w1 = (x, w')"
      by (simp add: serve_Inr [OF get [unfolded Inr]] Let_def)
    ultimately show ?thesis using w1 by (auto dest: keepsD)
  qed
qed

lemma keeps_upload_handler:
  assumes "usv_repo s = Pool" "handler \<in> set uploadHandlers"
  shows "keeps keys_ok (handler lib (Some s) rq)"
proof -
  note services = keeps_Presign [OF assms(1)] keeps_upload_services [OF assms(1)]
  have edit: "keeps keys_ok (uploadH_Update lib (Some s) rq)"
    unfolding uploadH_Update_def configured_def uploadID_def option.case
    by (intro keeps_edit [OF assms(1)] keeps_intros)
  have "handler \<in> set uploadHandlers \<Longrightarrow> ?thesis"
    unfolding uploadHandlers_def
    by (auto simp: uploadH_Create_def uploadH_GetByID_def uploadH_Delete_def uploadH_ListUser_def
        uploadH_ListCompleted_def uploadH_ListInProgress_def uploadH_UpdateProgress_def uploadH_MarkCompleted_def
        uploadH_MarkFailed_def uploadH_ListStale_def uploadH_DeleteStale_def configured_def uploadID_def uploaderID_def
        intro!: services edit keeps_intros keeps_reads split: prod.split)
  with assms(2) show ?thesis by blast
qed

text \<open>
  C37. Every upload session keeps an object key of its own, whatever names the clients give their files or change
  them to: after any sequence of requests to the upload routes, one after the other and beginning with no session,
  the object of a session lies in the directory of its uploader, under the identifier of the session, and two
  sessions with one key are the same.
\<close>

theorem Uploads_own_keys:
  assumes reach: "rtranclp (upload_step lib s) w w'" and start: "t_upload_sessions (w_db w) = []"
    and pool: "usv_repo s = Pool"
    and a: "a \<in> set (t_upload_sessions (w_db w'))" and b: "b \<in> set (t_upload_sessions (w_db w'))"
  shows "own_key a \<and> (up_ObjectKey a = up_ObjectKey b \<longrightarrow> a = b)"
proof -
  from reach start have "keys_ok w'"
  proof induction
    case base
    then show ?case by (simp add: uploads_ok_def)
  next
    case (step w1 w2)
    from step(2) keepsD [OF keeps_upload_handler [OF pool]] step.IH step.prems show ?case
      by (auto elim!: upload_step.cases)
  qed
  with a b own_key_inject [of a b] uploads_key.clash_eq [of "t_upload_sessions (w_db w')" a b] show ?thesis
    by (auto simp: uploads_ok_def upload_clash_def)
qed

definition sample_upload_request :: "json \<Rightarrow> Request" where
  "sample_upload_request body = \<lparr>rq_ctx = None, rq_param = (\<lambda>_. uuid_String 1000), rq_query = (\<lambda>_. []), rq_body = Some body\<rparr>"

definition sample_create :: Request where
  "sample_create = sample_upload_request (JObj [(''file_name'', JStr ''../x/PIC.JPG''), (''file_size'', JNum 10),
     (''content_type'', JStr ''image/jpeg''), (''uploader_id'', JStr (uuid_String 1))])"

definition sample_rename :: Request where
  "sample_rename = sample_upload_request (JObj [(''file_name'', JStr ''../../y'')])"

definition sample_upload :: UploadSession where
  "sample_upload = (new_upload sample_presign 1000 1 2)\<lparr>up_ObjectKey := buildObjectKey (new_upload sample_presign 1000 1 2)\<rparr>"

lemma sample_create_runs:
  "\<exists>r w. run_state (uploadH_Create sample_http (Some sample_s3) sample_create) sample_world = (r, w) \<and>
     w_db w = (w_db sample_world)\<lparr>t_upload_sessions := [sample_upload]\<rparr> \<and>
     w_fault w = (\<lambda>_. None) \<and> w_tx w = None"
  by (simp add: uploadH_Create_def sample_create_def sample_upload_request_def decode_CreateUploadRequest_def
      decode_struct_def field_def required_string_def required_int_def bindJSON_def orBadRequest_def configured_def
      serve_def serveOr_def replyOK_def presign_input_def
      CreatePresignedUpload_def sample_s3_def sample_presign_def PresignPut_def uploadRepo_Create_def
      ValidateContentType_def sample_upload_def new_upload_def upload_typed_def upload_status_enum_def
      exec_simps sample_defs)

lemma sample_rename_runs:
  assumes "w_db w = (w_db sample_world)\<lparr>t_upload_sessions := [sample_upload]\<rparr>" "w_fault w = (\<lambda>_. None)" "w_tx w = None"
  shows "\<exists>u. t_upload_sessions (w_db (snd (run_state (uploadH_Update sample_http (Some sample_s3) sample_rename) w))) = [u] \<and>
    up_Filename u = ''../../y''"
  using assms
  by (simp add: uploadH_Update_def sample_rename_def sample_upload_request_def decode_UpdateUploadRequest_def
      decode_struct_def field_def bindJSON_def orBadRequest_def configured_def uploadID_def
      serve_def serveOr_def replyOK_def uploadSvc_GetByID_def uploadRepo_GetByID_def uploadSvc_Update_def uploadRepo_Update_def
      edited_upload_def set_upload_def Let_def sample_s3_def sample_presign_def
      sample_upload_def new_upload_def upload_typed_def upload_status_enum_def upload_clash_def
      exec_simps sample_defs)

text \<open>A session is made and its file renamed.\<close>

lemma Uploads_own_keys_witness:
  "\<exists>w u. rtranclp (upload_step sample_http sample_s3) sample_world w \<and> t_upload_sessions (w_db w) = [u] \<and>
     up_Filename u = ''../../y'' \<and> own_key u"
proof -
  obtain r w1 where create: "run_state (uploadH_Create sample_http (Some sample_s3) sample_create) sample_world = (r, w1)"
    and w1: "w_db w1 = (w_db sample_world)\<lparr>t_upload_sessions := [sample_upload]\<rparr>" "w_fault w1 = (\<lambda>_. None)" "w_tx w1 = None"
    using sample_create_runs by blast
  obtain r' w2 where rename: "run_state (uploadH_Update sample_http (Some sample_s3) sample_rename) w1 = (r', w2)"
    by fastforce
  from sample_rename_runs [OF w1] rename obtain u where u: "t_upload_sessions (w_db w2) = [u]" "up_Filename u = ''../../y''"
    by auto
  have "upload_step sample_http sample_s3 sample_world w1" "upload_step sample_http sample_s3 w1 w2"
    using upload_step.request [of uploadH_Create, OF _ create] upload_step.request [of uploadH_Update, OF _ rename]
    by (simp_all add: uploadHandlers_def)
  then have steps: "rtranclp (upload_step sample_http sample_s3) sample_world w2" by (meson converse_rtranclp_into_rtranclp r_into_rtranclp)
  have "t_upload_sessions (w_db sample_world) = []" "usv_repo sample_s3 = Pool" by (simp_all add: sample_defs sample_s3_def)
  from Uploads_own_keys [OF steps this, of u u] steps u show ?thesis by auto
qed

end
