(* ===== verification/EncryptionHandler.thy ===== *)
theory EncryptionHandler
  imports Encryption Http
begin

text \<open>
  \<^verbatim>\<open>internal/handler/encryption_handler.go\<close> and \<^verbatim>\<open>internal/transport/httpdto/encryption.go\<close>. The
  encryption service is the connection of its repository. The keys a handler makes of a request have
  neither an identifier nor a time, so they are stored with the nil identifier.
\<close>

section \<open>Requests and replies\<close>

record UploadIdentityKeyRequest =
  uik_UserID :: string
  uik_DeviceID :: string
  uik_PublicKey :: string

definition decode_UploadIdentityKeyRequest :: "json \<Rightarrow> UploadIdentityKeyRequest option" where
  "decode_UploadIdentityKeyRequest = decode_struct (\<lambda>fs.
     Option.bind (required_string (field fs ''user_id'')) (\<lambda>u.
     Option.bind (required_string (field fs ''device_id'')) (\<lambda>d.
     Option.bind (required_string (field fs ''public_key'')) (\<lambda>pk.
       Some \<lparr>uik_UserID = u, uik_DeviceID = d, uik_PublicKey = pk\<rparr>))))"

text \<open>\<^verbatim>\<open>SignedPreKeyUploadDTO\<close>\<close>

record SignedPreKeyUpload =
  spu_KeyID :: int
  spu_PublicKey :: string
  spu_Signature :: string

definition decode_SignedPreKeyUpload :: "json \<Rightarrow> SignedPreKeyUpload option" where
  "decode_SignedPreKeyUpload = decode_struct (\<lambda>fs.
     Option.bind (required_int (field fs ''key_id'')) (\<lambda>i.
     Option.bind (required_string (field fs ''public_key'')) (\<lambda>pk.
     Option.bind (required_string (field fs ''signature'')) (\<lambda>sig.
       Some \<lparr>spu_KeyID = i, spu_PublicKey = pk, spu_Signature = sig\<rparr>))))"

record UploadSignedPreKeyRequest =
  usk_UserID :: string
  usk_DeviceID :: string
  usk_Key :: SignedPreKeyUpload

text \<open>The key's fields are beside the user and the device, or, to rotate it, in an object of their own.\<close>

definition decode_UploadSignedPreKeyRequest :: "json \<Rightarrow> UploadSignedPreKeyRequest option" where
  "decode_UploadSignedPreKeyRequest = decode_struct (\<lambda>fs.
     Option.bind (required_string (field fs ''user_id'')) (\<lambda>u.
     Option.bind (required_string (field fs ''device_id'')) (\<lambda>d.
     Option.bind (decode_SignedPreKeyUpload (JObj fs)) (\<lambda>k.
       Some \<lparr>usk_UserID = u, usk_DeviceID = d, usk_Key = k\<rparr>))))"

definition decode_RotateSignedPreKeyRequest :: "json \<Rightarrow> UploadSignedPreKeyRequest option" where
  "decode_RotateSignedPreKeyRequest = decode_struct (\<lambda>fs.
     Option.bind (required_string (field fs ''user_id'')) (\<lambda>u.
     Option.bind (required_string (field fs ''device_id'')) (\<lambda>d.
     Option.bind (decode_SignedPreKeyUpload (field fs ''key'')) (\<lambda>k.
       Some \<lparr>usk_UserID = u, usk_DeviceID = d, usk_Key = k\<rparr>))))"

record OneTimePreKeyUpload =
  opu_UserID :: string
  opu_DeviceID :: string
  opu_KeyID :: int
  opu_PublicKey :: string

text \<open>The elements of a slice are not validated.\<close>

definition decode_OneTimePreKeyUpload :: "json \<Rightarrow> OneTimePreKeyUpload option" where
  "decode_OneTimePreKeyUpload = decode_struct (\<lambda>fs.
     Option.bind (as_string (field fs ''user_id'')) (\<lambda>u.
     Option.bind (as_string (field fs ''device_id'')) (\<lambda>d.
     Option.bind (as_int (field fs ''key_id'')) (\<lambda>i.
     Option.bind (as_string (field fs ''public_key'')) (\<lambda>pk.
       Some \<lparr>opu_UserID = u, opu_DeviceID = d, opu_KeyID = i, opu_PublicKey = pk\<rparr>)))))"

definition decode_UploadOneTimePreKeysRequest :: "json \<Rightarrow> OneTimePreKeyUpload list option" where
  "decode_UploadOneTimePreKeysRequest =
     decode_struct (\<lambda>fs. required_list decode_OneTimePreKeyUpload (field fs ''keys''))"

text \<open>The transfer objects; an absent text is empty.\<close>

record IdentityKeyDTO =
  ikd_ID :: string
  ikd_UserID :: string
  ikd_DeviceID :: string
  ikd_PublicKey :: string
  ikd_IsActive :: bool
  ikd_CreatedAt :: string

definition IdentityKeyDTO_json :: "IdentityKeyDTO \<Rightarrow> json" where
  "IdentityKeyDTO_json k = JObj (
     [(''id'', JStr (ikd_ID k)), (''user_id'', JStr (ikd_UserID k)), (''device_id'', JStr (ikd_DeviceID k))] @
     unless_empty ''public_key'' (ikd_PublicKey k) @
     [(''is_active'', JBool (ikd_IsActive k)), (''created_at'', JStr (ikd_CreatedAt k))])"

record SignedPreKeyDTO =
  skd_ID :: string
  skd_UserID :: string
  skd_DeviceID :: string
  skd_KeyID :: int
  skd_PublicKey :: string
  skd_Signature :: string
  skd_CreatedAt :: string
  skd_IsActive :: bool

definition SignedPreKeyDTO_json :: "SignedPreKeyDTO \<Rightarrow> json" where
  "SignedPreKeyDTO_json k = JObj (
     [(''id'', JStr (skd_ID k)), (''user_id'', JStr (skd_UserID k)), (''device_id'', JStr (skd_DeviceID k)),
      (''key_id'', JNum (skd_KeyID k))] @
     unless_empty ''public_key'' (skd_PublicKey k) @ unless_empty ''signature'' (skd_Signature k) @
     [(''created_at'', JStr (skd_CreatedAt k)), (''is_active'', JBool (skd_IsActive k))])"

record OneTimePreKeyDTO =
  otd_ID :: string
  otd_UserID :: string
  otd_DeviceID :: string
  otd_KeyID :: int
  otd_PublicKey :: string
  otd_UploadedAt :: string
  otd_ConsumedAt :: string
  otd_ConsumedBy :: string
  otd_ConsumedByDeviceID :: string

definition OneTimePreKeyDTO_json :: "OneTimePreKeyDTO \<Rightarrow> json" where
  "OneTimePreKeyDTO_json k = JObj (
     [(''id'', JStr (otd_ID k)), (''user_id'', JStr (otd_UserID k)), (''device_id'', JStr (otd_DeviceID k)),
      (''key_id'', JNum (otd_KeyID k))] @
     unless_empty ''public_key'' (otd_PublicKey k) @
     [(''uploaded_at'', JStr (otd_UploadedAt k))] @
     unless_empty ''consumed_at'' (otd_ConsumedAt k) @ unless_empty ''consumed_by'' (otd_ConsumedBy k) @
     unless_empty ''consumed_by_device_id'' (otd_ConsumedByDeviceID k))"

definition FromIdentityKey :: "HttpLib \<Rightarrow> IdentityKey \<Rightarrow> IdentityKeyDTO" where
  "FromIdentityKey lib k = \<lparr>ikd_ID = uuid_String (ik_ID k), ikd_UserID = uuid_String (ik_UserID k),
     ikd_DeviceID = uuid_String (ik_DeviceID k), ikd_PublicKey = base64 (ik_PublicKey k),
     ikd_IsActive = ik_IsActive k, ikd_CreatedAt = hl_RFC3339 lib (ik_CreatedAt k)\<rparr>"

definition FromSignedPreKey :: "HttpLib \<Rightarrow> SignedPreKey \<Rightarrow> SignedPreKeyDTO" where
  "FromSignedPreKey lib k = \<lparr>skd_ID = uuid_String (sk_ID k), skd_UserID = uuid_String (sk_UserID k),
     skd_DeviceID = uuid_String (sk_DeviceID k), skd_KeyID = sk_KeyID k,
     skd_PublicKey = base64 (sk_PublicKey k), skd_Signature = base64 (sk_Signature k),
     skd_CreatedAt = hl_RFC3339 lib (sk_CreatedAt k), skd_IsActive = sk_IsActive k\<rparr>"

definition FromOneTimePreKey :: "HttpLib \<Rightarrow> OneTimePreKey \<Rightarrow> OneTimePreKeyDTO" where
  "FromOneTimePreKey lib k = \<lparr>otd_ID = uuid_String (otk_ID k), otd_UserID = uuid_String (otk_UserID k),
     otd_DeviceID = uuid_String (otk_DeviceID k), otd_KeyID = otk_KeyID k,
     otd_PublicKey = base64 (otk_PublicKey k), otd_UploadedAt = hl_RFC3339 lib (otk_UploadedAt k),
     otd_ConsumedAt = (case otk_ConsumedAt k of None \<Rightarrow> [] | Some t \<Rightarrow> hl_RFC3339 lib t),
     otd_ConsumedBy = opt_uuid_String (otk_ConsumedBy k),
     otd_ConsumedByDeviceID = opt_uuid_String (otk_ConsumedByDeviceID k)\<rparr>"

text \<open>
  The bundle's one-time key is the zero object when there is none: \<^verbatim>\<open>omitempty\<close> does not omit a
  struct.
\<close>

definition bundle_onetime :: "KeyBundle \<Rightarrow> OneTimePreKeyDTO" where
  "bundle_onetime b = (case kb_OneTimePreKeyID b of
     None \<Rightarrow> \<lparr>otd_ID = [], otd_UserID = [], otd_DeviceID = [], otd_KeyID = 0, otd_PublicKey = [],
       otd_UploadedAt = [], otd_ConsumedAt = [], otd_ConsumedBy = [], otd_ConsumedByDeviceID = []\<rparr>
   | Some i \<Rightarrow> \<lparr>otd_ID = [], otd_UserID = uuid_String (kb_UserID b),
       otd_DeviceID = uuid_String (kb_DeviceID b), otd_KeyID = i,
       otd_PublicKey = base64 (kb_OneTimePreKey b), otd_UploadedAt = [], otd_ConsumedAt = [],
       otd_ConsumedBy = [], otd_ConsumedByDeviceID = []\<rparr>)"

definition KeyBundleDTO :: "KeyBundle \<Rightarrow> json" where
  "KeyBundleDTO b = (let u = uuid_String (kb_UserID b); d = uuid_String (kb_DeviceID b) in JObj
     [(''identity_key'', IdentityKeyDTO_json \<lparr>ikd_ID = [], ikd_UserID = u, ikd_DeviceID = d,
         ikd_PublicKey = base64 (kb_IdentityKey b), ikd_IsActive = False, ikd_CreatedAt = []\<rparr>),
      (''signed_pre_key'', SignedPreKeyDTO_json \<lparr>skd_ID = [], skd_UserID = u, skd_DeviceID = d,
         skd_KeyID = kb_SignedPreKeyID b, skd_PublicKey = base64 (kb_SignedPreKey b),
         skd_Signature = base64 (kb_SignedPreKeySignature b), skd_CreatedAt = [], skd_IsActive = False\<rparr>),
      (''one_time_pre_key'', OneTimePreKeyDTO_json (bundle_onetime b))])"

definition UploadedKeysCountResponse :: "int \<Rightarrow> json" where
  "UploadedKeysCountResponse n = JObj [(''uploaded'', JNum n)]"

definition PreKeyCountResponse :: "int \<Rightarrow> json" where
  "PreKeyCountResponse n = JObj [(''count'', JNum n)]"

definition HasActiveKeysResponse :: "bool \<Rightarrow> json" where
  "HasActiveKeysResponse has = JObj [(''has_active_keys'', JBool has)]"

section \<open>Handlers\<close>

text \<open>The identity and signed keys are returned without the key and the signature themselves.\<close>

definition replyIdentity :: "HttpLib \<Rightarrow> IdentityKey \<Rightarrow> 's handler" where
  "replyIdentity lib item = replyOK (IdentityKeyDTO_json ((FromIdentityKey lib item)\<lparr>ikd_PublicKey := []\<rparr>))"

definition replySigned :: "HttpLib \<Rightarrow> SignedPreKey \<Rightarrow> 's handler" where
  "replySigned lib item = replyOK (SignedPreKeyDTO_json
     ((FromSignedPreKey lib item)\<lparr>skd_PublicKey := [], skd_Signature := []\<rparr>))"

text \<open>The user and the device of a request's body, or of its query\<close>

definition keyOwner :: "HttpLib \<Rightarrow> string \<Rightarrow> string \<Rightarrow> (uuid \<Rightarrow> uuid \<Rightarrow> 's handler) \<Rightarrow> 's handler" where
  "keyOwner lib userText deviceText k =
     orBadRequest (hl_uuid_Parse lib userText) ''invalid user_id'' (\<lambda>u.
     orBadRequest (hl_uuid_Parse lib deviceText) ''invalid device_id'' (\<lambda>d. k u d))"

definition queriedKey :: "HttpLib \<Rightarrow> Request \<Rightarrow> (uuid \<Rightarrow> uuid \<Rightarrow> 's handler) \<Rightarrow> 's handler" where
  "queriedKey lib rq k = keyOwner lib (rq_query rq ''user_id'') (rq_query rq ''device_id'') k"

definition new_identity_key :: "uuid \<Rightarrow> uuid \<Rightarrow> bytes \<Rightarrow> IdentityKey" where
  "new_identity_key u d pk = \<lparr>ik_ID = uuid_Nil, ik_UserID = u, ik_DeviceID = d, ik_PublicKey = pk,
     ik_IsActive = True, ik_CreatedAt = 0\<rparr>"

definition encryptionH_UploadIdentityKey :: "HttpLib \<Rightarrow> DBTX \<Rightarrow> Request \<Rightarrow> world handler" where
  "encryptionH_UploadIdentityKey lib s rq = bindJSON decode_UploadIdentityKeyRequest rq (\<lambda>r.
     keyOwner lib (uik_UserID r) (uik_DeviceID r) (\<lambda>u d.
     orBadRequest (base64_DecodeString (uik_PublicKey r)) ''invalid public_key'' (\<lambda>pk.
       let item = new_identity_key u d pk in
       serve lib (encSvc_CreateIdentityKey s item) (\<lambda>_. replyIdentity lib item))))"

definition encryptionH_GetIdentityKey :: "HttpLib \<Rightarrow> DBTX \<Rightarrow> Request \<Rightarrow> world handler" where
  "encryptionH_GetIdentityKey lib s rq = queriedKey lib rq (\<lambda>u d.
     serve lib (encSvc_GetIdentityKey s u d) (\<lambda>item. replyIdentity lib item))"

definition new_signed_prekey :: "uuid \<Rightarrow> uuid \<Rightarrow> SignedPreKeyUpload \<Rightarrow> bytes \<Rightarrow> bytes \<Rightarrow> SignedPreKey" where
  "new_signed_prekey u d k pk sig = \<lparr>sk_ID = uuid_Nil, sk_UserID = u, sk_DeviceID = d,
     sk_KeyID = spu_KeyID k, sk_PublicKey = pk, sk_Signature = sig, sk_CreatedAt = 0, sk_IsActive = True\<rparr>"

text \<open>The checks that uploading and rotating a signed key share\<close>

definition signedKey ::
  "HttpLib \<Rightarrow> UploadSignedPreKeyRequest \<Rightarrow> (uuid \<Rightarrow> uuid \<Rightarrow> SignedPreKey \<Rightarrow> 's handler) \<Rightarrow> 's handler" where
  "signedKey lib r k = keyOwner lib (usk_UserID r) (usk_DeviceID r) (\<lambda>u d.
     orBadRequest (base64_DecodeString (spu_PublicKey (usk_Key r))) ''invalid public_key'' (\<lambda>pk.
     orBadRequest (base64_DecodeString (spu_Signature (usk_Key r))) ''invalid signature'' (\<lambda>sig.
       k u d (new_signed_prekey u d (usk_Key r) pk sig))))"

definition encryptionH_UploadSignedPreKey :: "HttpLib \<Rightarrow> DBTX \<Rightarrow> Request \<Rightarrow> world handler" where
  "encryptionH_UploadSignedPreKey lib s rq = bindJSON decode_UploadSignedPreKeyRequest rq (\<lambda>r.
     signedKey lib r (\<lambda>u d item.
     serve lib (encSvc_CreateSignedPreKey s item) (\<lambda>_. replySigned lib item)))"

definition encryptionH_GetSignedPreKey :: "HttpLib \<Rightarrow> DBTX \<Rightarrow> Request \<Rightarrow> world handler" where
  "encryptionH_GetSignedPreKey lib s rq = queriedKey lib rq (\<lambda>u d.
     serve lib (encSvc_GetSignedPreKey s u d (fst (Atoi (rq_query rq ''key_id''))))
       (\<lambda>item. replySigned lib item))"

definition encryptionH_GetActiveSignedPreKey :: "HttpLib \<Rightarrow> DBTX \<Rightarrow> Request \<Rightarrow> world handler" where
  "encryptionH_GetActiveSignedPreKey lib s rq = queriedKey lib rq (\<lambda>u d.
     serve lib (encSvc_GetActiveSignedPreKey s u d) (\<lambda>item. replySigned lib item))"

definition encryptionH_RotateSignedPreKey :: "HttpLib \<Rightarrow> DBTX \<Rightarrow> Request \<Rightarrow> world handler" where
  "encryptionH_RotateSignedPreKey lib s rq = bindJSON decode_RotateSignedPreKeyRequest rq (\<lambda>r.
     signedKey lib r (\<lambda>u d item.
     serve lib (encSvc_RotateSignedPreKey s u d item) (\<lambda>_. replySigned lib item)))"

definition new_onetime_prekey :: "uuid \<Rightarrow> uuid \<Rightarrow> int \<Rightarrow> bytes \<Rightarrow> OneTimePreKey" where
  "new_onetime_prekey u d i pk = \<lparr>otk_ID = uuid_Nil, otk_UserID = u, otk_DeviceID = d, otk_KeyID = i,
     otk_PublicKey = pk, otk_UploadedAt = 0, otk_ConsumedAt = None, otk_ConsumedBy = None,
     otk_ConsumedByDeviceID = None\<rparr>"

text \<open>The loop over the keys of a request: the first defect is the reply.\<close>

fun onetime_prekeys :: "HttpLib \<Rightarrow> OneTimePreKeyUpload list \<Rightarrow> string + OneTimePreKey list" where
  "onetime_prekeys lib [] = Inr []"
| "onetime_prekeys lib (k # ks) =
     (case hl_uuid_Parse lib (opu_UserID k) of
        None \<Rightarrow> Inl ''invalid user_id''
      | Some u \<Rightarrow>
     (case hl_uuid_Parse lib (opu_DeviceID k) of
        None \<Rightarrow> Inl ''invalid device_id''
      | Some d \<Rightarrow>
     (case base64_DecodeString (opu_PublicKey k) of
        None \<Rightarrow> Inl ''invalid public_key''
      | Some pk \<Rightarrow>
     (case onetime_prekeys lib ks of
        Inl msg \<Rightarrow> Inl msg
      | Inr keys \<Rightarrow> Inr (new_onetime_prekey u d (opu_KeyID k) pk # keys)))))"

definition encryptionH_UploadOneTimePreKeys :: "HttpLib \<Rightarrow> DBTX \<Rightarrow> Request \<Rightarrow> world handler" where
  "encryptionH_UploadOneTimePreKeys lib s rq = bindJSON decode_UploadOneTimePreKeysRequest rq (\<lambda>r.
     (case onetime_prekeys lib r of
        Inl msg \<Rightarrow> badRequest msg
      | Inr keys \<Rightarrow> serve lib (encSvc_UploadOneTimePreKeys s keys)
          (\<lambda>_. replyOK (UploadedKeysCountResponse (int (length r))))))"

text \<open>Who consumes the key is what the query says, not the caller.\<close>

definition encryptionH_ConsumeOneTimePreKey :: "HttpLib \<Rightarrow> DBTX \<Rightarrow> Request \<Rightarrow> world handler" where
  "encryptionH_ConsumeOneTimePreKey lib s rq =
     orBadRequest (hl_uuid_Parse lib (rq_query rq ''user_id'')) ''invalid user_id'' (\<lambda>u.
     orBadRequest (hl_uuid_Parse lib (rq_query rq ''consumed_by'')) ''invalid consumed_by'' (\<lambda>consumer.
     orBadRequest (hl_uuid_Parse lib (rq_query rq ''device_id'')) ''invalid device_id'' (\<lambda>d.
     orBadRequest (hl_uuid_Parse lib (rq_query rq ''consumed_device_id'')) ''invalid consumed_device_id'' (\<lambda>cd.
     serve lib (encSvc_ConsumeOneTimePreKey s u d consumer cd)
       (\<lambda>item. replyOK (OneTimePreKeyDTO_json (FromOneTimePreKey lib item)))))))"

definition encryptionH_GetPreKeyCount :: "HttpLib \<Rightarrow> DBTX \<Rightarrow> Request \<Rightarrow> world handler" where
  "encryptionH_GetPreKeyCount lib s rq = queriedKey lib rq (\<lambda>u d.
     serve lib (encSvc_GetAvailablePreKeyCount s u d) (\<lambda>count. replyOK (PreKeyCountResponse count)))"

definition encryptionH_GetKeyBundle :: "HttpLib \<Rightarrow> DBTX \<Rightarrow> Request \<Rightarrow> world handler" where
  "encryptionH_GetKeyBundle lib s rq = queriedKey lib rq (\<lambda>u d. withUser rq (\<lambda>consumer.
     if consumer = u then requestFailed ''cannot fetch bundle for self''
     else
       orBadRequest (hl_uuid_Parse lib (rq_query rq ''consumer_device_id'')) ''invalid consumer_device_id'' (\<lambda>cd.
       serve lib (encSvc_GetKeyBundle s u d consumer cd) (\<lambda>item. replyOK (KeyBundleDTO item)))))"

definition encryptionH_HasActiveKeys :: "HttpLib \<Rightarrow> DBTX \<Rightarrow> Request \<Rightarrow> world handler" where
  "encryptionH_HasActiveKeys lib s rq = queriedKey lib rq (\<lambda>u d.
     serve lib (encSvc_HasActiveKeys s u d) (\<lambda>has. replyOK (HasActiveKeysResponse has)))"

definition keyID :: "HttpLib \<Rightarrow> Request \<Rightarrow> (uuid \<Rightarrow> 's handler) \<Rightarrow> 's handler" where
  "keyID lib rq k = orBadRequest (hl_uuid_Parse lib (rq_param rq ''id'')) ''invalid key id'' k"

definition encryptionH_DeactivateIdentityKey :: "HttpLib \<Rightarrow> DBTX \<Rightarrow> Request \<Rightarrow> world handler" where
  "encryptionH_DeactivateIdentityKey lib s rq = keyID lib rq (\<lambda>i.
     serve lib (encSvc_DeactivateIdentityKey s i) (\<lambda>_. replyNil))"

definition encryptionH_DeleteIdentityKey :: "HttpLib \<Rightarrow> DBTX \<Rightarrow> Request \<Rightarrow> world handler" where
  "encryptionH_DeleteIdentityKey lib s rq = keyID lib rq (\<lambda>i.
     serve lib (encSvc_DeleteIdentityKey s i) (\<lambda>_. replyNil))"

definition encryptionH_DeactivateSignedPreKey :: "HttpLib \<Rightarrow> DBTX \<Rightarrow> Request \<Rightarrow> world handler" where
  "encryptionH_DeactivateSignedPreKey lib s rq = keyID lib rq (\<lambda>i.
     serve lib (encSvc_DeactivateSignedPreKey s i) (\<lambda>_. replyNil))"

text \<open>
  Disabled routes: every method of the group answers 404 (none of them is registered).
\<close>

definition route_disabled :: "'s handler" where
  "route_disabled = JSON 404 (NewErrorResponse ''route disabled'' ''NOT_FOUND'')"

definition encryptionH_CreateSession :: "'s handler" where
  "encryptionH_CreateSession = route_disabled"

definition encryptionH_GetSession :: "'s handler" where
  "encryptionH_GetSession = route_disabled"

definition encryptionH_UpdateSession :: "'s handler" where
  "encryptionH_UpdateSession = route_disabled"

definition encryptionH_DeleteSession :: "'s handler" where
  "encryptionH_DeleteSession = route_disabled"

definition encryptionH_UpsertKeyBundle :: "'s handler" where
  "encryptionH_UpsertKeyBundle = route_disabled"

definition encryptionH_GetUserKeyBundles :: "'s handler" where
  "encryptionH_GetUserKeyBundles = route_disabled"

definition encryptionH_DeleteKeyBundle :: "'s handler" where
  "encryptionH_DeleteKeyBundle = route_disabled"

section \<open>One one-time key in all\<close>

lemma onetime_prekeys_nil: "onetime_prekeys lib ks = Inr keys \<Longrightarrow> length keys = length ks \<and> (\<forall>k\<in>set keys. otk_ID k = uuid_Nil)"
  by (induction ks arbitrary: keys) (auto simp: new_onetime_prekey_def split: option.splits sum.splits)

definition holds_nil_key :: "tables \<Rightarrow> bool" where
  "holds_nil_key t \<longleftrightarrow> (\<exists>k\<in>set (t_onetime_prekeys t). otk_ID k = uuid_Nil)"

lemma insert_nil_key:
  assumes "run_state (sql Tx (insert_onetime_prekey k)) w = (Inr (), w')" "otk_ID k = uuid_Nil"
    and "visible Tx w = Some t"
  shows "\<not> holds_nil_key t \<and> (\<exists>t'. visible Tx w' = Some t' \<and> holds_nil_key t')"
  using assms
  by (auto simp: sql_Inr insert_onetime_prekey_def insert_into_Inr insert_row_Inr holds_nil_key_def
      onetime_prekey_clash_def list_ex_iff simp del: run_mapErr)

lemma forEach_nil_keys:
  assumes "run_state (forEach ks (\<lambda>k. sql Tx (insert_onetime_prekey k))) w = (Inr (), w')"
    and "\<forall>k\<in>set ks. otk_ID k = uuid_Nil" "visible Tx w = Some t" "ks \<noteq> []"
  shows "length ks = 1 \<and> \<not> holds_nil_key t \<and> (\<exists>t'. visible Tx w' = Some t' \<and> holds_nil_key t')"
proof -
  from assms(4) obtain k rest where ks: "ks = k # rest" by (cases ks) auto
  from assms(1) ks obtain w1 where k: "run_state (sql Tx (insert_onetime_prekey k)) w = (Inr (), w1)"
    and rest: "run_state (forEach rest (\<lambda>k. sql Tx (insert_onetime_prekey k))) w1 = (Inr (), w')"
    by (auto elim: andThen_Inr simp del: run_andThen)
  from insert_nil_key [OF k] assms ks obtain t1 where t: "\<not> holds_nil_key t"
    and t1: "visible Tx w1 = Some t1" "holds_nil_key t1" by auto
  have "rest = []"
  proof (cases rest)
    case (Cons k2 rest2)
    with rest obtain w2 where "run_state (sql Tx (insert_onetime_prekey k2)) w1 = (Inr (), w2)"
      by (auto elim: andThen_Inr simp del: run_andThen)
    moreover have "otk_ID k2 = uuid_Nil" using assms(2) ks Cons by simp
    ultimately have "\<not> holds_nil_key t1" using insert_nil_key t1(1) by blast
    with t1(2) show ?thesis by blast
  qed
  with rest t t1 ks show ?thesis by auto
qed

text \<open>
  C30. The keys a request brings are never given identifiers, so at most one one-time pre-key can ever
  be stored through the handler: a request that is answered with 200 has brought no more than one, and
  if it has brought one, the table held none with the nil identifier and holds one afterwards. So a
  request with two keys, or a second request, is always refused as long as the first key is there.
\<close>

theorem One_onetime_prekey:
  assumes run: "run_state (encryptionH_UploadOneTimePreKeys lib Pool rq) w = (r, w')" and ok: "rs_status r = 200"
  shows "\<exists>ks. Option.bind (rq_body rq) decode_UploadOneTimePreKeysRequest = Some ks \<and>
    (ks = [] \<or> length ks = 1 \<and> \<not> holds_nil_key (w_db w) \<and> holds_nil_key (w_db w'))"
proof -
  from run ok obtain ks keys where body: "Option.bind (rq_body rq) decode_UploadOneTimePreKeysRequest = Some ks"
    and keys: "onetime_prekeys lib ks = Inr keys"
    and "run_state (serve lib (encSvc_UploadOneTimePreKeys Pool keys)
      (\<lambda>_. replyOK (UploadedKeysCountResponse (int (length ks))))) w = (r, w')"
    unfolding encryptionH_UploadOneTimePreKeys_def
    by (auto elim!: bindJSON_200 split: sum.splits simp: badRequest_def)
  then have up: "run_state (encSvc_UploadOneTimePreKeys Pool keys) w = (Inr (), w')"
    using ok by (auto elim!: serve_200 simp: replyOK_def)
  have nil: "length keys = length ks" "\<forall>k\<in>set keys. otk_ID k = uuid_Nil"
    using onetime_prekeys_nil [OF keys] by auto
  show ?thesis
  proof (cases "keys = []")
    case True
    with nil body show ?thesis by simp
  next
    case False
    with up have "run_state (WithTx Pool (\<lambda>tx. forEach keys (\<lambda>k. sql tx (insert_onetime_prekey k)))) w = (Inr (), w')"
      by (simp add: encSvc_UploadOneTimePreKeys_def encRepo_UploadOneTimePreKeys_def)
    then obtain w1 w2 where "visible Tx w1 = Some (w_db w)"
      "run_state (forEach keys (\<lambda>k. sql Tx (insert_onetime_prekey k))) w1 = (Inr (), w2)"
      "visible Tx w2 = Some (w_db w')"
      by (rule WithTx_Inr) auto
    with forEach_nil_keys [of keys w1 w2 "w_db w"] nil False body show ?thesis by auto
  qed
qed

definition one_key_request :: Request where
  "one_key_request = \<lparr>rq_ctx = None, rq_param = (\<lambda>_. []), rq_query = (\<lambda>_. []),
     rq_body = Some (JObj [(''keys'', JArr [JObj [(''user_id'', JStr (uuid_String 1)),
       (''device_id'', JStr (uuid_String 11)), (''key_id'', JNum 7), (''public_key'', JStr (base64 [1, 2]))]])])\<rparr>"

lemma one_key_uploaded:
  "rs_status (fst (run_state (encryptionH_UploadOneTimePreKeys sample_http Pool one_key_request) sample_world)) = 200"
  by (simp add: encryptionH_UploadOneTimePreKeys_def one_key_request_def bindJSON_def
      decode_UploadOneTimePreKeysRequest_def decode_OneTimePreKeyUpload_def decode_struct_def required_list_def
      field_def as_list_def serve_def serveOr_def replyOK_def encSvc_UploadOneTimePreKeys_def
      encRepo_UploadOneTimePreKeys_def insert_onetime_prekey_def new_onetime_prekey_def base64_decode
      exec_simps sample_defs has_user_def has_device_def
      del: base64.simps)

lemma One_onetime_prekey_witness:
  "holds_nil_key (w_db (snd (run_state (encryptionH_UploadOneTimePreKeys sample_http Pool one_key_request) sample_world)))"
  using One_onetime_prekey [OF prod.collapse [symmetric] one_key_uploaded]
  by (auto simp: one_key_request_def decode_UploadOneTimePreKeysRequest_def decode_struct_def required_list_def
      decode_OneTimePreKeyUpload_def field_def as_list_def)

end
