(* ===== verification/BroadcastHandler.thy ===== *)
theory BroadcastHandler
  imports Broadcasts Http
begin

text \<open>
  \<^verbatim>\<open>internal/handler/broadcast_handler.go\<close> and \<^verbatim>\<open>internal/transport/httpdto/broadcast.go\<close>. A handler is
  given the library, the connection of the service and the request.
\<close>

section \<open>Requests and replies\<close>

record CreateBroadcastRequest =
  cbr_Name :: string
  cbr_Description :: string
  cbr_Recipients :: "string list"

definition decode_CreateBroadcastRequest :: "json \<Rightarrow> CreateBroadcastRequest option" where
  "decode_CreateBroadcastRequest = decode_struct (\<lambda>fs.
     Option.bind (required_string (field fs ''name'')) (\<lambda>n.
     Option.bind (as_string (field fs ''description'')) (\<lambda>d.
     Option.bind (as_list as_string (field fs ''recipients'')) (\<lambda>rs.
       Some \<lparr>cbr_Name = n, cbr_Description = d, cbr_Recipients = rs\<rparr>))))"

record UpdateBroadcastRequest =
  ubr_Name :: string
  ubr_Description :: string

definition decode_UpdateBroadcastRequest :: "json \<Rightarrow> UpdateBroadcastRequest option" where
  "decode_UpdateBroadcastRequest = decode_struct (\<lambda>fs.
     Option.bind (as_string (field fs ''name'')) (\<lambda>n.
     Option.bind (as_string (field fs ''description'')) (\<lambda>d.
       Some \<lparr>ubr_Name = n, ubr_Description = d\<rparr>)))"

definition decode_AddRecipientRequest :: "json \<Rightarrow> string option" where
  "decode_AddRecipientRequest = decode_struct (\<lambda>fs. required_string (field fs ''user_id''))"

definition decode_BulkRecipientsRequest :: "json \<Rightarrow> string list option" where
  "decode_BulkRecipientsRequest = decode_struct (\<lambda>fs. required_list as_string (field fs ''user_ids''))"

record BroadcastDTO =
  bld_ID :: string
  bld_Name :: string
  bld_Description :: string
  bld_OwnerID :: string
  bld_RecipientCount :: int
  bld_CreatedAt :: string

definition BroadcastDTO_json :: "BroadcastDTO \<Rightarrow> json" where
  "BroadcastDTO_json d = JObj (
     [(''id'', JStr (bld_ID d)), (''name'', JStr (bld_Name d))] @
     unless_empty ''description'' (bld_Description d) @
     [(''owner_id'', JStr (bld_OwnerID d)),
      (''recipient_count'', JNum (bld_RecipientCount d)),
      (''created_at'', JStr (bld_CreatedAt d))])"

definition FromBroadcastList :: "HttpLib \<Rightarrow> BroadcastList \<Rightarrow> BroadcastDTO" where
  "FromBroadcastList lib b = \<lparr>bld_ID = uuid_String (bl_ID b), bld_Name = bl_Name b,
     bld_Description = opt_string (bl_Description b),
     bld_OwnerID = uuid_String (bl_OwnerID b), bld_RecipientCount = 0,
     bld_CreatedAt = hl_RFC3339 lib (bl_CreatedAt b)\<rparr>"

definition FromBroadcastListSlice :: "HttpLib \<Rightarrow> BroadcastList list \<Rightarrow> BroadcastDTO list" where
  "FromBroadcastListSlice lib bs = map (FromBroadcastList lib) bs"

definition ListBroadcastsResponse :: "BroadcastDTO list \<Rightarrow> json" where
  "ListBroadcastsResponse bs = JObj [(''broadcasts'', json_list BroadcastDTO_json bs)]"

record RecipientDTO =
  rcd_UserID :: string
  rcd_AddedAt :: string
  rcd_Username :: string
  rcd_AvatarURL :: string

definition RecipientDTO_json :: "RecipientDTO \<Rightarrow> json" where
  "RecipientDTO_json d = JObj (
     [(''user_id'', JStr (rcd_UserID d)), (''added_at'', JStr (rcd_AddedAt d))] @
     unless_empty ''username'' (rcd_Username d) @
     unless_empty ''avatar_url'' (rcd_AvatarURL d))"

definition FromBroadcastRecipient :: "HttpLib \<Rightarrow> BroadcastRecipient \<Rightarrow> RecipientDTO" where
  "FromBroadcastRecipient lib r = \<lparr>rcd_UserID = uuid_String (br_UserID r), rcd_AddedAt = hl_RFC3339 lib (br_AddedAt r),
     rcd_Username = [], rcd_AvatarURL = []\<rparr>"

definition FromBroadcastRecipientSlice :: "HttpLib \<Rightarrow> BroadcastRecipient list \<Rightarrow> RecipientDTO list" where
  "FromBroadcastRecipientSlice lib rs = map (FromBroadcastRecipient lib) rs"

definition RecipientsResponse :: "RecipientDTO list \<Rightarrow> json" where
  "RecipientsResponse rs = JObj [(''recipients'', json_list RecipientDTO_json rs)]"

definition RecipientCountResponse :: "int \<Rightarrow> json" where
  "RecipientCountResponse n = JObj [(''count'', JNum n)]"

definition IsRecipientResponse :: "bool \<Rightarrow> json" where
  "IsRecipientResponse is_one = JObj [(''is_recipient'', JBool is_one)]"

definition BulkRecipientsResponse :: "int \<Rightarrow> json" where
  "BulkRecipientsResponse n = JObj [(''count'', JNum n)]"

section \<open>Handlers\<close>

text \<open>
  The new list gets neither an identifier nor a time, so it has the nil identifier and the zero time,
  and the recipients of the request are not used.
\<close>

definition new_broadcast :: "uuid \<Rightarrow> CreateBroadcastRequest \<Rightarrow> BroadcastList" where
  "new_broadcast owner r = \<lparr>bl_ID = uuid_Nil, bl_OwnerID = owner, bl_Name = cbr_Name r,
     bl_Description = (if cbr_Description r \<noteq> [] then Some (cbr_Description r) else None), bl_CreatedAt = 0\<rparr>"

definition broadcastH_Create :: "HttpLib \<Rightarrow> DBTX \<Rightarrow> Request \<Rightarrow> world handler" where
  "broadcastH_Create lib s rq =
     bindJSON decode_CreateBroadcastRequest rq (\<lambda>r.
     withUser rq (\<lambda>owner.
       let item = new_broadcast owner r in
       serve lib (broadcastSvc_Create s item) (\<lambda>_. replyOK (BroadcastDTO_json (FromBroadcastList lib item)))))"

definition broadcastID :: "HttpLib \<Rightarrow> Request \<Rightarrow> (uuid \<Rightarrow> 's handler) \<Rightarrow> 's handler" where
  "broadcastID lib rq k = orBadRequest (hl_uuid_Parse lib (rq_param rq ''id'')) ''invalid broadcast id'' k"

definition broadcastH_GetByID :: "HttpLib \<Rightarrow> DBTX \<Rightarrow> Request \<Rightarrow> world handler" where
  "broadcastH_GetByID lib s rq = broadcastID lib rq (\<lambda>i.
     serve lib (broadcastSvc_GetByID s i) (\<lambda>item. replyOK (BroadcastDTO_json (FromBroadcastList lib item))))"

definition edited_broadcast :: "UpdateBroadcastRequest \<Rightarrow> BroadcastList \<Rightarrow> BroadcastList" where
  "edited_broadcast r b = b\<lparr>bl_Name := (if ubr_Name r \<noteq> [] then ubr_Name r else bl_Name b),
     bl_Description := (if ubr_Description r \<noteq> [] then Some (ubr_Description r) else bl_Description b)\<rparr>"

definition broadcastH_Update :: "HttpLib \<Rightarrow> DBTX \<Rightarrow> Request \<Rightarrow> world handler" where
  "broadcastH_Update lib s rq =
     bindJSON decode_UpdateBroadcastRequest rq (\<lambda>r.
     broadcastID lib rq (\<lambda>i.
     serve lib (broadcastSvc_GetByID s i) (\<lambda>item.
       let item' = edited_broadcast r item in
       serve lib (broadcastSvc_Update s item') (\<lambda>_. replyOK (BroadcastDTO_json (FromBroadcastList lib item'))))))"

definition broadcastH_Delete :: "HttpLib \<Rightarrow> DBTX \<Rightarrow> Request \<Rightarrow> world handler" where
  "broadcastH_Delete lib s rq = broadcastID lib rq (\<lambda>i. serve lib (broadcastSvc_Delete s i) (\<lambda>_. replyNil))"

definition broadcastH_ListByOwner :: "HttpLib \<Rightarrow> DBTX \<Rightarrow> Request \<Rightarrow> world handler" where
  "broadcastH_ListByOwner lib s rq = withUser rq (\<lambda>owner.
     serve lib (broadcastSvc_GetUserBroadcastLists s owner) (\<lambda>items. replyOK (ListBroadcastsResponse (FromBroadcastListSlice lib items))))"

definition broadcastH_Search :: "HttpLib \<Rightarrow> DBTX \<Rightarrow> Request \<Rightarrow> world handler" where
  "broadcastH_Search lib s rq = withUser rq (\<lambda>owner.
     serve lib (broadcastSvc_SearchBroadcastLists s owner (rq_query rq ''query''))
       (\<lambda>items. replyOK (ListBroadcastsResponse (FromBroadcastListSlice lib items))))"

definition broadcastH_AddRecipient :: "HttpLib \<Rightarrow> DBTX \<Rightarrow> Request \<Rightarrow> world handler" where
  "broadcastH_AddRecipient lib s rq =
     bindJSON decode_AddRecipientRequest rq (\<lambda>userText.
     broadcastID lib rq (\<lambda>b.
     orBadRequest (hl_uuid_Parse lib userText) ''invalid user_id'' (\<lambda>u.
       let item = \<lparr>br_BroadcastID = b, br_UserID = u, br_AddedAt = 0\<rparr> in
       serve lib (broadcastSvc_AddRecipient s item) (\<lambda>_. replyOK (RecipientDTO_json (FromBroadcastRecipient lib item))))))"

definition recipientID :: "HttpLib \<Rightarrow> Request \<Rightarrow> (uuid \<Rightarrow> 's handler) \<Rightarrow> 's handler" where
  "recipientID lib rq k = orBadRequest (hl_uuid_Parse lib (rq_param rq ''user_id'')) ''invalid user_id'' k"

definition broadcastH_RemoveRecipient :: "HttpLib \<Rightarrow> DBTX \<Rightarrow> Request \<Rightarrow> world handler" where
  "broadcastH_RemoveRecipient lib s rq = broadcastID lib rq (\<lambda>b. recipientID lib rq (\<lambda>u.
     serve lib (broadcastSvc_RemoveRecipient s b u) (\<lambda>_. replyNil)))"

definition broadcastH_ListRecipients :: "HttpLib \<Rightarrow> DBTX \<Rightarrow> Request \<Rightarrow> world handler" where
  "broadcastH_ListRecipients lib s rq = broadcastID lib rq (\<lambda>b.
     serve lib (broadcastSvc_GetRecipients s b) (\<lambda>items. replyOK (RecipientsResponse (FromBroadcastRecipientSlice lib items))))"

definition broadcastH_RecipientCount :: "HttpLib \<Rightarrow> DBTX \<Rightarrow> Request \<Rightarrow> world handler" where
  "broadcastH_RecipientCount lib s rq = broadcastID lib rq (\<lambda>b.
     serve lib (broadcastSvc_GetRecipientCount s b) (\<lambda>count. replyOK (RecipientCountResponse count)))"

definition broadcastH_IsRecipient :: "HttpLib \<Rightarrow> DBTX \<Rightarrow> Request \<Rightarrow> world handler" where
  "broadcastH_IsRecipient lib s rq = broadcastID lib rq (\<lambda>b. recipientID lib rq (\<lambda>u.
     serve lib (broadcastSvc_IsRecipient s b u) (\<lambda>is_one. replyOK (IsRecipientResponse is_one))))"

definition broadcastH_BulkAddRecipients :: "HttpLib \<Rightarrow> DBTX \<Rightarrow> Request \<Rightarrow> world handler" where
  "broadcastH_BulkAddRecipients lib s rq = broadcastID lib rq (\<lambda>b.
     bindJSON decode_BulkRecipientsRequest rq (\<lambda>values.
     orBadRequest (all_some (map (hl_uuid_Parse lib) values)) ''invalid user_id'' (\<lambda>ids.
     serve lib (broadcastSvc_BulkAddRecipients s b ids)
       (\<lambda>_. replyOK (BulkRecipientsResponse (int (length ids)))))))"

definition broadcastH_BulkRemoveRecipients :: "HttpLib \<Rightarrow> DBTX \<Rightarrow> Request \<Rightarrow> world handler" where
  "broadcastH_BulkRemoveRecipients lib s rq = broadcastID lib rq (\<lambda>b.
     bindJSON decode_BulkRecipientsRequest rq (\<lambda>values.
     orBadRequest (all_some (map (hl_uuid_Parse lib) values)) ''invalid user_id'' (\<lambda>ids.
     serve lib (broadcastSvc_BulkRemoveRecipients s b ids)
       (\<lambda>_. replyOK (BulkRecipientsResponse (int (length ids)))))))"

section \<open>Only one list\<close>

lemma created_has_nil:
  assumes run: "run_state (broadcastH_Create lib Pool rq) w = (r, w1)" and ok: "rs_status r = 200"
  shows "\<exists>b\<in>set (t_broadcast_lists (w_db w1)). bl_ID b = uuid_Nil"
proof -
  from run ok obtain u c where "run_state (serve lib (broadcastSvc_Create Pool (new_broadcast u c))
      (\<lambda>_. replyOK (BroadcastDTO_json (FromBroadcastList lib (new_broadcast u c))))) w = (r, w1)"
    unfolding broadcastH_Create_def Let_def by (auto elim!: bindJSON_200 withUser_200)
  then obtain s1 where "run_state (broadcastSvc_Create Pool (new_broadcast u c)) w = (Inr (), s1)" "s1 = w1"
    using ok by (auto elim!: serve_200 simp: replyOK_def)
  then have "new_broadcast u c \<in> set (t_broadcast_lists (w_db w1))"
    by (auto simp: broadcastSvc_Create_def broadcastRepo_Create_def sql_Pool_Inr insert_into_Inr mapErr_Inr
        simp del: run_mapErr)
  moreover have "bl_ID (new_broadcast u c) = uuid_Nil" by (simp add: new_broadcast_def)
  ultimately show ?thesis by blast
qed

lemma nil_list_refused:
  assumes "\<exists>b\<in>set (t_broadcast_lists (w_db w)). bl_ID b = uuid_Nil"
  shows "\<exists>e. run_state (broadcastSvc_Create Pool (new_broadcast u c)) w = (Inl e, tick w)"
  using assms
  by (auto simp: broadcastSvc_Create_def broadcastRepo_Create_def run_sql_Pool insert_into_def on_table_def
      insert_row_def list_ex_iff broadcast_list_clash_def new_broadcast_def tick_def Let_def split: option.splits)

text \<open>
  Through the handler at most one broadcast list can ever be created: every new list has the nil
  identifier, which the code never replaces, so once a list has been created the next creation, by
  whomever, is refused and changes nothing. (A deletion makes room for another one.)
\<close>

theorem Broadcast_created_once:
  assumes first: "run_state (broadcastH_Create lib Pool rq) w = (r, w1)" "rs_status r = 200"
    and after: "t_broadcast_lists (w_db w2) = t_broadcast_lists (w_db w1)"
    and second: "run_state (broadcastH_Create lib Pool rq') w2 = (r', w3)"
  shows "rs_status r' \<noteq> 200 \<and> w_db w3 = w_db w2"
proof -
  from created_has_nil [OF first] after
  have nil: "\<exists>b\<in>set (t_broadcast_lists (w_db w2)). bl_ID b = uuid_Nil" by simp
  from second show ?thesis
    unfolding broadcastH_Create_def Let_def
  proof (cases rule: bindJSON_cases)
    case (2 c)
    from 2(2) show ?thesis
    proof (cases rule: withUser_cases)
      case (2 u)
      obtain e where "run_state (broadcastSvc_Create Pool (new_broadcast u c)) w2 = (Inl e, tick w2)"
        using nil_list_refused [OF nil] by blast
      from serve_Inl [OF this, of lib "\<lambda>_. replyOK (BroadcastDTO_json (FromBroadcastList lib (new_broadcast u c)))"] 2(2)
      show ?thesis by simp
    qed simp
  qed simp
qed

definition news_request :: Request where
  "news_request = \<lparr>rq_ctx = Some \<lparr>rc_userID = 1, rc_sessionID = 3, rc_deviceID = None\<rparr>, rq_param = (\<lambda>_. []), rq_query = (\<lambda>_. []),
     rq_body = Some (JObj [(''name'', JStr ''news'')])\<rparr>"

lemma news_request_created:
  "rs_status (fst (run_state (broadcastH_Create sample_http Pool news_request) sample_world)) = 200"
  by (simp add: broadcastH_Create_def news_request_def bindJSON_def withUser_def UserIDFromContext_def decode_CreateBroadcastRequest_def decode_struct_def
      required_string_def field_def as_list_def serve_def serveOr_def replyOK_def broadcastSvc_Create_def
      broadcastRepo_Create_def new_broadcast_def exec_simps sample_defs)

lemma Broadcast_created_once_witness:
  "rs_status (fst (run_state (broadcastH_Create sample_http Pool news_request)
     (snd (run_state (broadcastH_Create sample_http Pool news_request) sample_world)))) \<noteq> 200"
  using Broadcast_created_once [OF prod.collapse [symmetric] news_request_created refl prod.collapse [symmetric]]
  by blast

end
