(* ===== verification/Postgres.thy ===== *)
theory Postgres
  imports AuthService
begin

text \<open>
  \<^verbatim>\<open>pkg/database/postgres.go\<close>: its own \<^verbatim>\<open>WithTx\<close>, the health check, the creation of accounts from the
  command line and the truncation of all tables. The global \<^verbatim>\<open>DB\<close> is the argument \<open>db\<close>, with \<open>NilDB\<close>
  for the nil pointer. Applying migrations and dropping tables stand in theory \<open>Migrations\<close>;
  the catalog is the one the migrations leave; how the global is set is in theory \<open>Singletons\<close>. A NULL in a
  text column of \<^verbatim>\<open>users\<close> is the empty text, as which the repositories read it; only \<^verbatim>\<open>GetOrCreateAdminUser\<close>
  reads the columns otherwise, and has the rows with a NULL in them as an argument.
\<close>

section \<open>Transactions and the catalog\<close>

definition database_WithTx :: "DBTX \<Rightarrow> (DBTX \<Rightarrow> 'a go) \<Rightarrow> 'a go" where
  "database_WithTx db fn =
     (if db = NilDB then fail (OtherError ''database not initialized'')
      else andThen BeginTx (\<lambda>_. do {
        r \<leftarrow> fn Tx;
        (case r of
           Inl err \<Rightarrow> do {
             rb \<leftarrow> Rollback;
             (case rb of
                Inl (SqlError rbErr) \<Rightarrow> fail (RollbackError err rbErr)
              | _ \<Rightarrow> fail err)
           }
         | Inr x \<Rightarrow> andThen Commit (\<lambda>_. ok x))
      }))"

text \<open>It is the \<^verbatim>\<open>WithTx\<close> of the repositories.\<close>

lemma database_WithTx_eq [simp]: "database_WithTx Pool fn = WithTx Pool fn" "database_WithTx NilDB fn = WithTx NilDB fn"
  by (simp_all add: database_WithTx_def WithTx_def)

definition schema_tables :: "string list" where
  "schema_tables = [''users'', ''user_settings'', ''devices'', ''push_tokens'', ''user_sessions'',
     ''user_contacts'', ''conversations'', ''participants'', ''conversation_sequences'', ''messages'',
     ''message_ciphertexts'', ''message_reactions'', ''message_receipts'', ''message_mentions'',
     ''starred_messages'', ''link_previews'', ''attachments'', ''message_attachments'',
     ''broadcast_lists'', ''broadcast_recipients'', ''polls'', ''poll_options'', ''poll_votes'',
     ''chat_labels'', ''conversation_labels'', ''calls'', ''call_participants'',
     ''call_quality_metrics'', ''identity_keys'', ''signed_prekeys'', ''onetime_prekeys'',
     ''outbox_events'', ''message_user_states'', ''conversation_clears'', ''upload_sessions'',
     ''command_logs'', ''scheduled_messages'', ''message_versions'']"

definition Ping :: "DBTX \<Rightarrow> unit go" where
  "Ping db = (if db = NilDB then fail (OtherError ''database not initialized'')
     else sql db (query (\<lambda>_. ())))"

definition TableExists :: "DBTX \<Rightarrow> string \<Rightarrow> bool go" where
  "TableExists db tableName =
     (if db = NilDB then fail (OtherError ''database not initialized'')
      else sql db (query (\<lambda>_. tableName \<in> set schema_tables)))"

definition HealthCheck :: "DBTX \<Rightarrow> unit go" where
  "HealthCheck db =
     andThen (mapErr (WrappedError ''ping failed'') (Ping db)) (\<lambda>_.
       forEach [''users'', ''conversations'', ''messages''] (\<lambda>table.
         andThen (mapErr (WrappedError (''failed to check table '' @ table)) (TableExists db table)) (\<lambda>table_exists.
           if \<not> table_exists then fail (OtherError (''core table '' @ table @ '' does not exist'')) else ok ())))"

definition HashPassword :: "auth_lib \<Rightarrow> string \<Rightarrow> string go" where
  "HashPassword lib password = hashPassword lib password"

definition CheckPasswordHash :: "auth_lib \<Rightarrow> string \<Rightarrow> string \<Rightarrow> bool" where
  "CheckPasswordHash lib password hash = bcrypt_Compare lib hash password"

section \<open>Accounts\<close>

record CreateAdminUserInput =
  cau_Email :: string
  cau_Username :: string
  cau_Password :: string
  cau_DisplayName :: string
  cau_PhoneNumber :: string

definition insert_user :: "User \<Rightarrow> unit stmt" where
  "insert_user u = checked InvalidText (\<lambda>_. typed [(usr_Role u, user_role_enum)])
     (insert_into t_users t_users_update user_clash (\<lambda>_. True) u)"

definition insert_settings :: "UserSettings \<Rightarrow> unit stmt" where
  "insert_settings s = checked InvalidText (\<lambda>_. settings_typed s)
     (insert_into t_user_settings t_user_settings_update settings_clash (\<lambda>t. has_user t (st_UserID s)) s)"

text \<open>The row of settings: the columns that the INSERT leaves out have the defaults of the schema.\<close>

definition settings_for :: "uuid \<Rightarrow> string \<Rightarrow> time \<Rightarrow> UserSettings" where
  "settings_for u privacy now = \<lparr>st_UserID = u, st_PrivacyLastSeen = privacy,
     st_PrivacyProfilePhoto = privacy, st_PrivacyAbout = privacy, st_PrivacyGroups = privacy,
     st_ReadReceipts = True, st_NotificationsEnabled = True, st_NotificationSound = ''default'',
     st_NotificationVibrate = True, st_Theme = ''SYSTEM'', st_Language = ''en'', st_EnterToSend = True,
     st_MediaAutoDownloadWiFi = True, st_MediaAutoDownloadMobile = False, st_UpdatedAt = now\<rparr>"

text \<open>
  The user that \<^verbatim>\<open>CreateAdminUser\<close> and \<^verbatim>\<open>CreateUserWithDefaults\<close> insert. They leave out the role, which
  becomes the default \<^verbatim>\<open>'USER'\<close> of the column.
\<close>

definition new_account :: "auth_lib \<Rightarrow> CreateAdminUserInput \<Rightarrow> bool \<Rightarrow> User go" where
  "new_account lib input verified =
     andThen (mapErr (WrappedError ''failed to hash password'') (hashPassword lib (cau_Password input))) (\<lambda>hash. do {
       i \<leftarrow> uuid_New;
       created \<leftarrow> time_Now;
       updated \<leftarrow> time_Now;
       ok \<lparr>usr_ID = i, usr_PhoneNumber = toNullString (cau_PhoneNumber input),
         usr_Username = toNullString (cau_Username input), usr_Email = toNullString (cau_Email input),
         usr_PasswordHash = hash, usr_DisplayName = cau_DisplayName input, usr_Role = [], usr_Bio = [],
         usr_AvatarURL = [], usr_IsOnline = False, usr_LastSeenAt = None, usr_IsActive = True,
         usr_IsVerified = verified, usr_CreatedAt = created, usr_UpdatedAt = updated\<rparr>
     })"

definition insert_account :: "DBTX \<Rightarrow> string \<Rightarrow> string \<Rightarrow> string \<Rightarrow> User \<Rightarrow> User go" where
  "insert_account db userErr settingsErr privacy u = database_WithTx db (\<lambda>tx.
     andThen (mapErr (WrappedError userErr) (sql tx (insert_user (u\<lparr>usr_Role := ''USER''\<rparr>)))) (\<lambda>_. do {
       now \<leftarrow> time_Now;
       andThen (mapErr (WrappedError settingsErr) (sql tx (insert_settings (settings_for (usr_ID u) privacy now))))
         (\<lambda>_. ok u)
     }))"

definition CreateAdminUser :: "auth_lib \<Rightarrow> DBTX \<Rightarrow> CreateAdminUserInput \<Rightarrow> User go" where
  "CreateAdminUser lib db input = andThen (new_account lib input True)
     (insert_account db ''failed to create admin user'' ''failed to create admin settings'' ''CONTACTS'')"

definition CreateUserWithDefaults :: "auth_lib \<Rightarrow> DBTX \<Rightarrow> CreateAdminUserInput \<Rightarrow> User go" where
  "CreateUserWithDefaults lib db input = andThen (new_account lib input False)
     (insert_account db ''failed to create user'' ''failed to create user settings'' ''EVERYONE'')"

text \<open>
  \<open>has_null\<close> says which rows have NULL in \<^verbatim>\<open>bio\<close> or \<^verbatim>\<open>avatar_url\<close>, which \<^verbatim>\<open>Scan\<close> does not put into a Go string. The
  flag says whether the account is new.
\<close>

definition admin_query :: "CreateAdminUserInput \<Rightarrow> tables \<Rightarrow> User list" where
  "admin_query input t = filter (\<lambda>u. citext_eq (usr_Email u) (Some (cau_Email input)) \<or>
     (cau_Username input \<noteq> [] \<and> citext_eq (usr_Username u) (Some (cau_Username input)))) (t_users t)"

definition GetOrCreateAdminUser ::
  "(User \<Rightarrow> bool) \<Rightarrow> auth_lib \<Rightarrow> DBTX \<Rightarrow> CreateAdminUserInput \<Rightarrow> (User \<times> bool) go" where
  "GetOrCreateAdminUser has_null lib db input = do {
     r \<leftarrow> queryRow db (admin_query input);
     (case r of
        Inr existing \<Rightarrow>
          if has_null existing then fail (WrappedError ''failed to query user'' (OtherError ''Scan''))
          else ok (existing, False)
      | Inl err \<Rightarrow>
          if err \<noteq> SqlError NoRows then fail (WrappedError ''failed to query user'' err)
          else andThen (CreateAdminUser lib db input) (\<lambda>newUser. ok (newUser, True)))
   }"

section \<open>Truncating everything\<close>

text \<open>The tables and those their foreign keys refer to.\<close>

definition foreign_keys :: "(string \<times> string list) list" where
  "foreign_keys = [(''user_settings'', [''users'']), (''devices'', [''users'']),
     (''push_tokens'', [''users'', ''devices'']), (''user_sessions'', [''users'', ''devices'']),
     (''user_contacts'', [''users'']), (''conversations'', [''users'']),
     (''participants'', [''conversations'', ''users'']), (''conversation_sequences'', [''conversations'']),
     (''messages'', [''conversations'', ''users'']),
     (''message_ciphertexts'', [''messages'', ''users'', ''devices'']),
     (''message_reactions'', [''messages'', ''users'']), (''message_receipts'', [''messages'', ''users'']),
     (''message_mentions'', [''messages'', ''users'']), (''starred_messages'', [''users'', ''messages'']),
     (''attachments'', [''users'']), (''message_attachments'', [''messages'', ''attachments'']),
     (''broadcast_lists'', [''users'']), (''broadcast_recipients'', [''broadcast_lists'', ''users'']),
     (''polls'', [''messages'']), (''poll_options'', [''polls'']),
     (''poll_votes'', [''polls'', ''poll_options'', ''users'']),
     (''calls'', [''conversations'', ''users'']), (''call_participants'', [''calls'', ''users'']),
     (''identity_keys'', [''users'', ''devices'']), (''signed_prekeys'', [''users'', ''devices'']),
     (''onetime_prekeys'', [''users'', ''devices'']), (''upload_sessions'', [''users'']),
     (''command_logs'', [''users''])]"

text \<open>CASCADE empties every table that refers to an emptied one; five rounds reach all of them.\<close>

definition cascade_round :: "string list \<Rightarrow> string list" where
  "cascade_round names =
     names @ map fst (filter (\<lambda>(_, targets). list_ex (\<lambda>x. x \<in> set names) targets) foreign_keys)"

definition emptied_with :: "string \<Rightarrow> string list" where
  "emptied_with name = (cascade_round ^^ 5) [name]"

definition emptiers :: "(string \<times> (tables \<Rightarrow> tables)) list" where
  "emptiers = [(''users'', t_users_update (\<lambda>_. [])), (''user_settings'', t_user_settings_update (\<lambda>_. [])),
     (''devices'', t_devices_update (\<lambda>_. [])), (''push_tokens'', t_push_tokens_update (\<lambda>_. [])),
     (''user_sessions'', t_user_sessions_update (\<lambda>_. [])), (''user_contacts'', t_user_contacts_update (\<lambda>_. [])),
     (''conversations'', t_conversations_update (\<lambda>_. [])), (''participants'', t_participants_update (\<lambda>_. [])),
     (''conversation_sequences'', t_sequences_update (\<lambda>_. [])), (''messages'', t_messages_update (\<lambda>_. [])),
     (''message_ciphertexts'', t_ciphertexts_update (\<lambda>_. [])), (''message_reactions'', t_reactions_update (\<lambda>_. [])),
     (''message_receipts'', t_receipts_update (\<lambda>_. [])), (''message_mentions'', t_mentions_update (\<lambda>_. [])),
     (''starred_messages'', t_starred_update (\<lambda>_. [])), (''link_previews'', t_link_previews_update (\<lambda>_. [])),
     (''attachments'', t_attachments_update (\<lambda>_. [])),
     (''message_attachments'', t_message_attachments_update (\<lambda>_. [])),
     (''broadcast_lists'', t_broadcast_lists_update (\<lambda>_. [])),
     (''broadcast_recipients'', t_broadcast_recipients_update (\<lambda>_. [])),
     (''polls'', t_polls_update (\<lambda>_. [])), (''poll_options'', t_poll_options_update (\<lambda>_. [])),
     (''poll_votes'', t_poll_votes_update (\<lambda>_. [])), (''calls'', t_calls_update (\<lambda>_. [])),
     (''call_participants'', t_call_participants_update (\<lambda>_. [])),
     (''call_quality_metrics'', t_quality_metrics_update (\<lambda>_. [])),
     (''identity_keys'', t_identity_keys_update (\<lambda>_. [])), (''signed_prekeys'', t_signed_prekeys_update (\<lambda>_. [])),
     (''onetime_prekeys'', t_onetime_prekeys_update (\<lambda>_. [])), (''outbox_events'', t_outbox_update (\<lambda>_. [])),
     (''upload_sessions'', t_upload_sessions_update (\<lambda>_. [])), (''command_logs'', t_command_logs_update (\<lambda>_. []))]"

definition truncate_table :: "string \<Rightarrow> unit stmt" where
  "truncate_table name t =
     (if name \<notin> set schema_tables then Inl UndefinedTable
      else Inr ((), fold (\<lambda>(n, empty). if n \<in> set (emptied_with name) then empty else id) emptiers t))"

text \<open>\<^verbatim>\<open>SET session_replication_role\<close> does not touch the tables.\<close>

definition set_replication_role :: "string \<Rightarrow> unit stmt" where
  "set_replication_role role t = Inr ((), t)"

definition truncated_tables :: "string list" where
  "truncated_tables = [''key_bundles'', ''upload_sessions'', ''conversation_clears'', ''message_user_states'',
     ''encrypted_sessions'', ''onetime_prekeys'', ''signed_prekeys'', ''identity_keys'',
     ''call_quality_metrics'', ''call_participants'', ''calls'', ''conversation_labels'', ''chat_labels'',
     ''broadcast_recipients'', ''broadcast_lists'', ''poll_votes'', ''poll_options'', ''polls'',
     ''message_attachments'', ''attachments'', ''link_previews'', ''starred_messages'',
     ''message_mentions'', ''message_receipts'', ''message_reactions'', ''message_ciphertexts'',
     ''messages'', ''conversation_sequences'', ''participants'', ''conversations'', ''user_contacts'',
     ''user_sessions'', ''push_tokens'', ''devices'', ''user_settings'', ''users'', ''outbox_events'',
     ''command_logs'', ''scheduled_messages'', ''message_versions'']"

definition TruncateAllTables :: "DBTX \<Rightarrow> unit go" where
  "TruncateAllTables db = database_WithTx db (\<lambda>tx.
     andThen (sql tx (set_replication_role ''replica'')) (\<lambda>_. do {
       _ \<leftarrow> forEachIgnore truncated_tables (\<lambda>table. sql tx (truncate_table table));
       sql tx (set_replication_role ''origin'')
     }))"

section \<open>What accounts get\<close>

lemma new_account_Inr:
  assumes "run_state (new_account lib input verified) w = (Inr u, w')"
  shows "w_db w' = w_db w \<and> usr_IsVerified u = verified \<and> usr_Email u = toNullString (cau_Email input) \<and>
    usr_IsActive u"
  using assms
  by (auto simp: new_account_def hashPassword_def draw_def split: option.splits prod.splits sum.splits)

lemma visible_step [simp]: "visible db (w\<lparr>w_step := n\<rparr>) = visible db w"
  by (simp add: visible_def split: DBTX.split)

lemma insert_account_Inr:
  assumes "run_state (insert_account Pool e1 e2 privacy u) w = (Inr v, w')"
  shows "v = u \<and> (\<exists>now. w_db w' = (w_db w)
    \<lparr>t_users := t_users (w_db w) @ [u\<lparr>usr_Role := ''USER''\<rparr>],
     t_user_settings := t_user_settings (w_db w) @ [settings_for (usr_ID u) privacy now]\<rparr>)"
proof -
  let ?body = "\<lambda>tx. andThen (mapErr (WrappedError e1) (sql tx (insert_user (u\<lparr>usr_Role := ''USER''\<rparr>)))) (\<lambda>_. do {
       now \<leftarrow> time_Now;
       andThen (mapErr (WrappedError e2) (sql tx (insert_settings (settings_for (usr_ID u) privacy now)))) (\<lambda>_. ok u)
     })"
  from assms have "run_state (WithTx Pool ?body) w = (Inr v, w')"
    by (simp add: insert_account_def)
  then show ?thesis
  proof (rule WithTx_Inr)
    fix w1 w2
    assume "visible Tx w1 = Some (w_db w)" "run_state (?body Tx) w1 = (Inr v, w2)" "visible Tx w2 = Some (w_db w')"
    then show ?thesis
      by (auto simp: mapErr_Inr sql_Inr insert_user_def insert_settings_def checked_Inr insert_into_Inr
            tick_def simp del: run_mapErr run_andThen elim!: andThen_Inr) metis
  qed
qed

text \<open>What \<^verbatim>\<open>CreateAdminUser\<close> stores is an ordinary user: the role of an administrator is never written.\<close>

lemma CreateAdminUser_makes_plain_user:
  assumes "run_state (CreateAdminUser lib Pool input) w = (Inr u, w')"
  shows "\<exists>row. t_users (w_db w') = t_users (w_db w) @ [row] \<and> usr_ID row = usr_ID u \<and> usr_Role row = ''USER'' \<and>
    usr_IsVerified row"
  using assms
  by (auto simp: CreateAdminUser_def simp del: run_andThen elim!: andThen_Inr dest!: new_account_Inr insert_account_Inr)

text \<open>An account is given back as it is, if none of its columns is NULL; if one is, it cannot be read.\<close>

lemma GetOrCreateAdminUser_existing:
  assumes "w_fault w (w_step w) = None" "admin_query input (w_db w) = u # us"
  shows "run_state (GetOrCreateAdminUser has_null lib Pool input) w =
    (if has_null u then Inl (WrappedError ''failed to query user'' (OtherError ''Scan'')) else Inr (u, False), tick w)"
  using assms by (simp add: GetOrCreateAdminUser_def queryRow_def run_sql query_def visible_def)

lemma GetOrCreateAdminUser_Inr:
  assumes "run_state (GetOrCreateAdminUser has_null lib Pool input) w = (Inr (u, is_new), w')"
  shows "if is_new then \<exists>row. t_users (w_db w') = t_users (w_db w) @ [row] \<and> usr_ID row = usr_ID u \<and> usr_Role row = ''USER''
    else u \<in> set (admin_query input (w_db w)) \<and> w_db w' = w_db w"
proof -
  obtain r w1 where q: "run_state (queryRow Pool (admin_query input)) w = (r, w1)" by (metis prod.collapse)
  then have db: "w_db w1 = w_db w"
    by (auto simp: queryRow_def run_sql_Pool query_def tick_def Let_def split: prod.splits sum.splits list.splits option.splits if_splits)
  show ?thesis
  proof (cases r)
    case (Inr e)
    with q have "e \<in> set (admin_query input (w_db w))" by (auto simp: queryRow_Inr visible_def)
    with assms q Inr db show ?thesis by (auto simp: GetOrCreateAdminUser_def split: if_splits)
  next
    case (Inl e)
    with assms q have new: "is_new" and create: "run_state (CreateAdminUser lib Pool input) w1 = (Inr u, w')"
      by (auto simp: GetOrCreateAdminUser_def split: if_splits prod.splits sum.splits)
    from CreateAdminUser_makes_plain_user [OF create] new db show ?thesis by auto
  qed
qed

text \<open>
  Truncating never works: the first table of the list does not exist, which aborts the transaction, so
  that every statement after it fails.
\<close>

lemma fails_TruncateAllTables: "fails (TruncateAllTables Pool)"
  unfolding fails_def
proof (intro allI impI)
  fix w r w'
  assume out: "run_state (TruncateAllTables Pool) w = (r, w')"
  let ?body = "\<lambda>tx. andThen (sql tx (set_replication_role ''replica'')) (\<lambda>_. do {
       _ \<leftarrow> forEachIgnore truncated_tables (\<lambda>table. sql tx (truncate_table table));
       sql tx (set_replication_role ''origin'')
     })"
  have run: "run_state (WithTx Pool ?body) w = (r, w')"
    using out by (simp add: TruncateAllTables_def)
  have loop: "keeps tx_dead (forEachIgnore ts (\<lambda>table. sql Tx (truncate_table table)))" for ts
    by (intro keeps_intros keeps_tx_dead_sql)
  have body: "run_state (?body Tx) w1 \<noteq> (Inr x, w2)" for w1 x w2
  proof
    assume b: "run_state (?body Tx) w1 = (Inr x, w2)"
    obtain a wa where first: "run_state (sql Tx (set_replication_role ''replica'')) w1 = (a, wa)"
      by fastforce
    obtain c wb where missing: "run_state (sql Tx (truncate_table ''key_bundles'')) wa = (c, wb)"
      by fastforce
    have "isl c"
      using missing by (cases c) (auto simp: sql_Inr truncate_table_def schema_tables_def)
    then have "tx_dead wb"
      using missing by (auto simp: tx_dead_def isl_def dest: sql_Tx_Inl_dead)
    obtain d wc where rest: "run_state (forEachIgnore (tl truncated_tables) (\<lambda>table. sql Tx (truncate_table table))) wb
        = (d, wc)" by (metis prod.collapse)
    from keepsD [OF loop \<open>tx_dead wb\<close> rest] have "tx_dead wc" .
    have list: "truncated_tables = ''key_bundles'' # tl truncated_tables" by (simp add: truncated_tables_def)
    have "run_state (forEachIgnore truncated_tables (\<lambda>table. sql Tx (truncate_table table))) wa = (d, wc)"
      using missing rest by (subst list) simp
    with first b have "run_state (sql Tx (set_replication_role ''origin'')) wc = (Inr x, w2)"
      by (auto split: sum.splits)
    with \<open>tx_dead wc\<close> show False by (auto simp: sql_Inr tx_dead_def)
  qed
  have "isl r"
  proof (rule ccontr)
    assume "\<not> isl r"
    then obtain x where "run_state (WithTx Pool ?body) w = (Inr x, w')"
      using run by (cases r) auto
    then show False by (rule WithTx_success) (use body in blast)
  qed
  then obtain e where e: "r = Inl e" by (auto simp: isl_def)
  have "keeps (committed d) (?body Tx)" for d by (intro keeps_intros)
  from WithTx_error_keeps_db [of ?body, OF this run [unfolded e]] e show "isl r \<and> w_db w' = w_db w" by simp
qed

end
