(* ===== verification/Server.thy ===== *)
theory Server
  imports AuthHandler MessageHandler ConversationHandler UserHandler CallQuality UploadHandler
    EncryptionHandler BroadcastHandler RateLimiter Postgres WebSocket
begin

text \<open>
  The HTTP server: the middleware of \<^verbatim>\<open>internal/middleware\<close> and the routes that \<^verbatim>\<open>SetupRoutes\<close> of
  \<^verbatim>\<open>internal/server/server.go\<close> registers. It acts on the database, the Redis server and the hub of the
  WebSocket clients.

  Gin's matching of a method and a path with the registered patterns is the field \<open>sv_match\<close>, whose
  value is a pattern and the path parameters. The middleware for logging, and the one for errors, which
  no handler of the repository gives anything to report, leave the reply as it is and stand in theory
  \<open>Logging\<close>.
\<close>

section \<open>Middleware\<close>

text \<open>
  A request as it arrives; \<open>hq_random\<close> is what the random generator yields for it, if it does not fail, \<open>hq_goroutines\<close>
  what \<^verbatim>\<open>runtime.NumGoroutine\<close> counts while it is answered, and \<open>hq_handshake\<close> what the WebSocket library makes of
  it as a handshake: \<open>None\<close> when it takes the connection over, else the status that the library answers.
\<close>

record HttpRequest =
  hq_method :: string
  hq_path :: string
  hq_header :: "string \<Rightarrow> string"
  hq_query :: "string \<Rightarrow> string"
  hq_body :: "json option"
  hq_clientIP :: string
  hq_random :: "bytes option"
  hq_goroutines :: int
  hq_handshake :: "int option"

type_synonym server_state = "world \<times> redis \<times> Hub"
type_synonym chain = "HttpRequest \<Rightarrow> Request \<Rightarrow> server_state handler"

text \<open>Actions on the database and Redis, and on the database and the hub\<close>

definition on_backing :: "(world \<times> redis, 'a) state \<Rightarrow> (server_state, 'a) state" where
  "on_backing m = State (\<lambda>(w, rd, h). case run_state m (w, rd) of (x, (w', rd')) \<Rightarrow> (x, (w', rd', h)))"

definition on_sockets :: "(hub_state, 'a) state \<Rightarrow> (server_state, 'a) state" where
  "on_sockets m = State (\<lambda>(w, rd, h). case run_state m (w, h) of (x, (w', h')) \<Rightarrow> (x, (w', rd, h')))"

lemma run_on_backing [simp]:
  "run_state (on_backing m) (w, rd, h) = (case run_state m (w, rd) of (x, (w', rd')) \<Rightarrow> (x, (w', rd', h)))"
  by (simp add: on_backing_def)

lemma run_on_sockets [simp]:
  "run_state (on_sockets m) (w, rd, h) = (case run_state m (w, h) of (x, (w', h')) \<Rightarrow> (x, (w', rd, h')))"
  by (simp add: on_sockets_def)

definition withHeaders :: "(string \<times> string) list \<Rightarrow> 's handler \<Rightarrow> 's handler" where
  "withHeaders hs h = do { r \<leftarrow> h; State_Monad.return (r\<lparr>rs_headers := hs @ rs_headers r\<rparr>) }"

definition newRequestID :: "bytes option \<Rightarrow> string" where
  "newRequestID buf = (case buf of None \<Rightarrow> [] | Some bs \<Rightarrow> hex_EncodeToString bs)"

definition RequestIDMiddleware :: "HttpRequest \<Rightarrow> 's handler \<Rightarrow> 's handler" where
  "RequestIDMiddleware hq next_handler =
     (let given = hq_header hq ''X-Request-Id''
      in withHeaders [(''X-Request-Id'', if given = [] then newRequestID (hq_random hq) else given)] next_handler)"

definition CORSMiddleware :: "HttpRequest \<Rightarrow> 's handler \<Rightarrow> 's handler" where
  "CORSMiddleware hq next_handler = withHeaders
     [(''Access-Control-Allow-Origin'', ''*''),
      (''Access-Control-Allow-Headers'', ''Content-Type, Authorization, X-Request-Id''),
      (''Access-Control-Allow-Methods'', ''GET, POST, PUT, PATCH, DELETE, OPTIONS'')]
     (if hq_method hq = ''OPTIONS'' then AbortWithStatus 204 else next_handler)"

definition isAuthEndpoint :: "string \<Rightarrow> bool" where
  "isAuthEndpoint path \<longleftrightarrow> path \<in> set [''/v1/auth/login'', ''/v1/auth/register'', ''/v1/auth/refresh'',
     ''/v1/auth/password/forgot'', ''/v1/auth/password/reset'']"

definition rateLimitHeaders :: "RateLimitResult \<Rightarrow> (string \<times> string) list" where
  "rateLimitHeaders r = [(''X-RateLimit-Limit'', Itoa (rr_Limit r)),
     (''X-RateLimit-Remaining'', Itoa (rr_Remaining r)),
     (''X-RateLimit-Reset'', Itoa (sgn (rr_ResetIn r) * (\<bar>rr_ResetIn r\<bar> div Second)))]"

text \<open>What the three rate limiting middlewares share\<close>

definition limited ::
  "RateLimitResult redis_cmd \<Rightarrow> string \<Rightarrow> server_state handler \<Rightarrow> server_state handler" where
  "limited check refusal next_handler = do {
     r \<leftarrow> on_bus (on_store check);
     (case r of
        Inl _ \<Rightarrow> JSON 500 (NewErrorResponse ''rate limit error'' ''INTERNAL_ERROR'')
      | Inr result \<Rightarrow> withHeaders (rateLimitHeaders result)
          (if \<not> rr_Allowed result then JSON 429 (NewErrorResponse refusal ''RATE_LIMITED'')
           else next_handler))
   }"

text \<open>\<open>None\<close> is the nil limiter, without which the middleware is not registered.\<close>

definition RateLimitMiddleware ::
  "RateLimitConfig option \<Rightarrow> HttpRequest \<Rightarrow> server_state handler \<Rightarrow> server_state handler" where
  "RateLimitMiddleware limiter hq next_handler = (case limiter of
     None \<Rightarrow> next_handler
   | Some l \<Rightarrow>
       if isAuthEndpoint (hq_path hq)
       then limited (AllowAuth l (hq_clientIP hq)) ''rate limit exceeded'' next_handler
       else next_handler)"

definition MessageRateLimitMiddleware ::
  "RateLimitConfig option \<Rightarrow> Request \<Rightarrow> server_state handler \<Rightarrow> server_state handler" where
  "MessageRateLimitMiddleware limiter rq next_handler =
     (case (limiter, UserIDFromContext (rq_ctx rq)) of
        (Some l, Some u) \<Rightarrow> limited (AllowMessage l (uuid_String u)) ''message rate limit exceeded'' next_handler
      | _ \<Rightarrow> next_handler)"

definition CallRateLimitMiddleware ::
  "RateLimitConfig option \<Rightarrow> Request \<Rightarrow> server_state handler \<Rightarrow> server_state handler" where
  "CallRateLimitMiddleware limiter rq next_handler =
     (case (limiter, UserIDFromContext (rq_ctx rq)) of
        (Some l, Some u) \<Rightarrow> limited (AllowCall l (uuid_String u)) ''call rate limit exceeded'' next_handler
      | _ \<Rightarrow> next_handler)"

section \<open>The server\<close>

text \<open>The services are \<open>None\<close> when their handlers are nil; \<open>sv_sockets\<close> says whether there is a WebSocket handler.\<close>

record Server =
  sv_lib :: HttpLib
  sv_auth_lib :: auth_lib
  sv_auth :: AuthService
  sv_message :: "MessageService option"
  sv_conversation :: "ConversationService option"
  sv_user :: "DBTX option"
  sv_call :: "CallService option"
  sv_upload :: "UploadS3Service option option"
  sv_encryption :: "DBTX option"
  sv_broadcast :: "DBTX option"
  sv_limiter :: "RateLimitConfig option"
  sv_gdb :: DBTX
  sv_sockets :: bool
  sv_floats :: FloatLib
  sv_match :: "string \<Rightarrow> string \<Rightarrow> (string \<times> (string \<Rightarrow> string)) option"

text \<open>\<^verbatim>\<open>middleware.AuthMiddleware(authService)\<close> before a handler\<close>

definition authenticated ::
  "Server \<Rightarrow> HttpRequest \<Rightarrow> (request_context \<Rightarrow> server_state handler) \<Rightarrow> server_state handler" where
  "authenticated sv hq k = do {
     r \<leftarrow> on_store (AuthMiddleware (sv_auth_lib sv) (sv_auth sv) (hq_header hq ''Authorization''));
     (case r of Inl _ \<Rightarrow> unauthorized | Inr ctx \<Rightarrow> k ctx)
   }"

definition guarded :: "Server \<Rightarrow> (Request \<Rightarrow> server_state handler) \<Rightarrow> chain" where
  "guarded sv h = (\<lambda>hq rq. authenticated sv hq (\<lambda>ctx. h (rq\<lparr>rq_ctx := Some ctx\<rparr>)))"

text \<open>A handler of the database alone\<close>

definition on_db :: "(Request \<Rightarrow> world handler) \<Rightarrow> Request \<Rightarrow> server_state handler" where
  "on_db h = (\<lambda>rq. on_store (h rq))"

definition on_calls :: "(Request \<Rightarrow> call_handler) \<Rightarrow> Request \<Rightarrow> server_state handler" where
  "on_calls h = (\<lambda>rq. on_backing (h rq))"

type_synonym route = "(string \<times> string) \<times> chain"

definition group :: "Server \<Rightarrow> string \<Rightarrow> (string \<times> string \<times> (Request \<Rightarrow> server_state handler)) list \<Rightarrow> route list" where
  "group sv prefix rs = map (\<lambda>(m, p, h). ((m, prefix @ p), guarded sv h)) rs"

definition authRoutes :: "Server \<Rightarrow> route list" where
  "authRoutes sv = (let lib = sv_lib sv; al = sv_auth_lib sv; s = sv_auth sv in
     map (\<lambda>(m, p, h). ((m, ''/v1/auth'' @ p), \<lambda>hq rq. on_store (h rq)))
       [(''POST'', ''/register'', authH_Register lib al s),
        (''POST'', ''/login'', authH_Login lib al s),
        (''POST'', ''/refresh'', authH_Refresh lib al s),
        (''POST'', ''/password/forgot'', authH_PasswordForgot lib s),
        (''POST'', ''/password/reset'', authH_PasswordReset lib al s)] @
     group sv ''/v1/auth''
       [(''POST'', ''/logout'', on_db (authH_Logout lib al s)),
        (''POST'', ''/logout-all'', on_db (authH_LogoutAll lib s)),
        (''GET'', ''/sessions'', on_db (authH_Sessions lib s))])"

definition messageRoutes :: "Server \<Rightarrow> route list" where
  "messageRoutes sv = (case sv_message sv of None \<Rightarrow> [] | Some s \<Rightarrow> (let lib = sv_lib sv in
     group sv ''/v1/messages''
       [(''POST'', '''', \<lambda>rq. MessageRateLimitMiddleware (sv_limiter sv) rq (on_db (messageH_Send lib s) rq)),
        (''GET'', '''', on_db (messageH_List lib s)),
        (''GET'', ''/:id'', \<lambda>_. messageH_GetByID),
        (''PUT'', ''/:id'', messageH_Update),
        (''DELETE'', ''/:id'', on_db (messageH_Delete lib s)),
        (''DELETE'', ''/:id/hard'', on_db (messageH_HardDelete lib s)),
        (''POST'', ''/:id/read'', on_db (messageH_MarkRead lib s)),
        (''POST'', ''/:id/delivered'', on_db (messageH_MarkDelivered lib s))]))"

definition conversationRoutes :: "Server \<Rightarrow> route list" where
  "conversationRoutes sv = (case sv_conversation sv of None \<Rightarrow> [] | Some s \<Rightarrow> (let lib = sv_lib sv in
     group sv ''/v1/conversations'' (map (\<lambda>(m, p, h). (m, p, on_db (h lib s)))
       [(''POST'', '''', conversationH_Create),
        (''GET'', '''', conversationH_List),
        (''GET'', ''/:id'', conversationH_GetByID),
        (''PUT'', ''/:id'', conversationH_Update),
        (''DELETE'', ''/:id'', conversationH_Delete),
        (''GET'', ''/direct'', conversationH_GetDirect),
        (''GET'', ''/search'', conversationH_Search),
        (''GET'', ''/type'', conversationH_GetByType),
        (''GET'', ''/invite'', conversationH_GetByInviteLink),
        (''POST'', ''/:id/invite'', conversationH_RegenerateInviteLink),
        (''POST'', ''/:id/participants'', conversationH_AddParticipant),
        (''DELETE'', ''/:id/participants/:user_id'', conversationH_RemoveParticipant),
        (''GET'', ''/:id/participants'', conversationH_ListParticipants),
        (''PUT'', ''/:id/participants/:user_id/role'', conversationH_UpdateParticipantRole),
        (''POST'', ''/:id/mute'', conversationH_Mute),
        (''POST'', ''/:id/unmute'', conversationH_Unmute),
        (''POST'', ''/:id/pin'', conversationH_Pin),
        (''POST'', ''/:id/unpin'', conversationH_Unpin),
        (''POST'', ''/:id/archive'', conversationH_Archive),
        (''POST'', ''/:id/unarchive'', conversationH_Unarchive),
        (''POST'', ''/:id/read-sequence'', conversationH_UpdateLastReadSequence),
        (''GET'', ''/:id/sequence'', conversationH_GetSequence),
        (''POST'', ''/:id/sequence'', conversationH_IncrementSequence)])))"

definition userRoutes :: "Server \<Rightarrow> route list" where
  "userRoutes sv = (case sv_user sv of None \<Rightarrow> [] | Some s \<Rightarrow> (let lib = sv_lib sv in
     group sv ''/v1/users'' (map (\<lambda>(m, p, h). (m, p, on_db (h lib s)))
       [(''GET'', '''', userH_List),
        (''GET'', ''/me'', userH_GetProfile),
        (''PUT'', ''/me'', userH_UpdateProfile),
        (''DELETE'', ''/me'', userH_DeleteProfile),
        (''GET'', ''/me/settings'', userH_GetSettings),
        (''PUT'', ''/me/settings'', userH_UpdateSettings),
        (''GET'', ''/me/contacts'', userH_ListContacts),
        (''POST'', ''/me/contacts'', userH_AddContact),
        (''DELETE'', ''/me/contacts/:id'', userH_RemoveContact),
        (''POST'', ''/me/contacts/:id/block'', userH_BlockContact),
        (''POST'', ''/me/contacts/:id/unblock'', userH_UnblockContact),
        (''GET'', ''/me/contacts/blocked'', userH_BlockedContacts),
        (''GET'', ''/me/devices'', userH_ListDevices),
        (''GET'', ''/me/devices/:id'', userH_GetDevice),
        (''DELETE'', ''/me/devices/:id'', userH_DeactivateDevice),
        (''GET'', ''/me/push-tokens'', userH_ListPushTokens),
        (''DELETE'', ''/me/sessions/:id'', userH_RevokeSession),
        (''DELETE'', ''/me/sessions'', userH_RevokeAllSessions)])))"

definition callRoutes :: "Server \<Rightarrow> route list" where
  "callRoutes sv = (case sv_call sv of None \<Rightarrow> [] | Some s \<Rightarrow> (let lib = sv_lib sv; gdb = sv_gdb sv in
     group sv ''/v1/calls''
       [(''POST'', '''', \<lambda>rq. CallRateLimitMiddleware (sv_limiter sv) rq (on_calls (callH_Create lib s gdb) rq)),
        (''GET'', ''/:id'', on_calls (callH_GetByID lib s)),
        (''GET'', '''', on_calls (callH_ListByConversation lib s)),
        (''GET'', ''/user'', on_calls (callH_ListByUser lib s)),
        (''GET'', ''/active'', on_calls (callH_ActiveCalls lib s)),
        (''GET'', ''/missed'', on_calls (callH_MissedCalls lib s)),
        (''POST'', ''/:id/participants'', on_calls (callH_AddParticipant lib s gdb)),
        (''DELETE'', ''/:id/participants/:user_id'', on_calls (callH_RemoveParticipant lib s gdb)),
        (''GET'', ''/:id/participants'', on_calls (callH_ListParticipants lib s)),
        (''PUT'', ''/:id/participants/:user_id/status'', on_calls (callH_UpdateParticipantStatus lib s gdb)),
        (''PUT'', ''/:id/participants/:user_id/mute'', on_calls (callH_UpdateParticipantMute lib s gdb)),
        (''POST'', ''/quality'', on_calls (callH_RecordQualityMetric (sv_floats sv) lib s gdb)),
        (''POST'', ''/:id/connected'', on_calls (callH_MarkConnected lib s gdb)),
        (''POST'', ''/:id/end'', on_calls (callH_EndCall lib s gdb)),
        (''GET'', ''/:id/duration'', on_calls (callH_GetCallDuration lib s)),
        (''GET'', ''/quality'', on_calls (callH_GetCallQualityMetrics (sv_floats sv) lib s gdb)),
        (''GET'', ''/quality/user'', on_calls (callH_GetUserCallQualityMetrics (sv_floats sv) lib s gdb)),
        (''GET'', ''/quality/average'', on_calls (callH_GetAverageCallQuality (sv_floats sv) lib s gdb))]))"

definition uploadRoutes :: "Server \<Rightarrow> route list" where
  "uploadRoutes sv = (case sv_upload sv of None \<Rightarrow> [] | Some s \<Rightarrow> (let lib = sv_lib sv in
     group sv ''/v1/uploads'' (map (\<lambda>(m, p, h). (m, p, on_db (h lib s)))
       [(''POST'', '''', uploadH_Create),
        (''GET'', ''/:id'', uploadH_GetByID),
        (''PUT'', ''/:id'', uploadH_Update),
        (''DELETE'', ''/:id'', uploadH_Delete),
        (''GET'', '''', uploadH_ListUser),
        (''GET'', ''/completed'', uploadH_ListCompleted),
        (''GET'', ''/in-progress'', uploadH_ListInProgress),
        (''POST'', ''/:id/progress'', uploadH_UpdateProgress),
        (''POST'', ''/:id/complete'', uploadH_MarkCompleted),
        (''POST'', ''/:id/fail'', uploadH_MarkFailed),
        (''GET'', ''/stale'', uploadH_ListStale),
        (''DELETE'', ''/stale'', uploadH_DeleteStale)])))"

definition encryptionRoutes :: "Server \<Rightarrow> route list" where
  "encryptionRoutes sv = (case sv_encryption sv of None \<Rightarrow> [] | Some s \<Rightarrow> (let lib = sv_lib sv in
     group sv ''/v1/encryption'' (map (\<lambda>(m, p, h). (m, p, on_db (h lib s)))
       [(''POST'', ''/identity'', encryptionH_UploadIdentityKey),
        (''GET'', ''/identity'', encryptionH_GetIdentityKey),
        (''PUT'', ''/identity/:id/deactivate'', encryptionH_DeactivateIdentityKey),
        (''DELETE'', ''/identity/:id'', encryptionH_DeleteIdentityKey),
        (''POST'', ''/signed-prekeys'', encryptionH_UploadSignedPreKey),
        (''GET'', ''/signed-prekeys'', encryptionH_GetSignedPreKey),
        (''GET'', ''/signed-prekeys/active'', encryptionH_GetActiveSignedPreKey),
        (''POST'', ''/signed-prekeys/rotate'', encryptionH_RotateSignedPreKey),
        (''PUT'', ''/signed-prekeys/:id/deactivate'', encryptionH_DeactivateSignedPreKey),
        (''POST'', ''/onetime-prekeys'', encryptionH_UploadOneTimePreKeys),
        (''POST'', ''/onetime-prekeys/consume'', encryptionH_ConsumeOneTimePreKey),
        (''GET'', ''/onetime-prekeys/count'', encryptionH_GetPreKeyCount),
        (''GET'', ''/bundles'', encryptionH_GetKeyBundle),
        (''GET'', ''/keys/active'', encryptionH_HasActiveKeys)])))"

definition broadcastRoutes :: "Server \<Rightarrow> route list" where
  "broadcastRoutes sv = (case sv_broadcast sv of None \<Rightarrow> [] | Some s \<Rightarrow> (let lib = sv_lib sv in
     group sv ''/v1/broadcasts'' (map (\<lambda>(m, p, h). (m, p, on_db (h lib s)))
       [(''POST'', '''', broadcastH_Create),
        (''GET'', ''/:id'', broadcastH_GetByID),
        (''PUT'', ''/:id'', broadcastH_Update),
        (''DELETE'', ''/:id'', broadcastH_Delete),
        (''GET'', '''', broadcastH_ListByOwner),
        (''GET'', ''/search'', broadcastH_Search),
        (''POST'', ''/:id/recipients'', broadcastH_AddRecipient),
        (''DELETE'', ''/:id/recipients/:user_id'', broadcastH_RemoveRecipient),
        (''GET'', ''/:id/recipients'', broadcastH_ListRecipients),
        (''GET'', ''/:id/recipients/count'', broadcastH_RecipientCount),
        (''GET'', ''/:id/recipients/:user_id'', broadcastH_IsRecipient),
        (''POST'', ''/:id/recipients/bulk'', broadcastH_BulkAddRecipients),
        (''DELETE'', ''/:id/recipients/bulk'', broadcastH_BulkRemoveRecipients)])))"

text \<open>
  The route of the WebSockets, which stands outside every group and has no middleware of its own. When the
  library takes the connection over, the client is answered 101; when it refuses the handshake, it answers with a
  status of its own, \<open>hq_handshake\<close>. The answers of the library are written past Gin: their texts are left out,
  and the headers that the middleware has put on Gin's reply do not travel with them.
\<close>

fun ws_response :: "int option \<Rightarrow> ws_reply \<Rightarrow> 's handler" where
  "ws_response _ (Unauthorized msg) = JSON 401 (JObj [(''error'', JStr msg)])"
| "ws_response handshake UpgradeFailed = AbortWithStatus (case handshake of None \<Rightarrow> 400 | Some code \<Rightarrow> code)"
| "ws_response _ (Registered _) = AbortWithStatus 101"

definition wsRoute :: "Server \<Rightarrow> route list" where
  "wsRoute sv = (if sv_sockets sv then [((''GET'', ''/v1/ws''), \<lambda>hq rq. do {
       reply \<leftarrow> on_sockets (ws_Handle (sv_auth_lib sv) (sv_auth sv) (rq_query rq ''token'')
         (hq_header hq ''Authorization'') (hq_handshake hq = None));
       ws_response (hq_handshake hq) reply
     })] else [])"

definition pingRoute :: route where
  "pingRoute = ((''GET'', ''/ping''), \<lambda>hq rq. replyOK (JObj [(''message'', JStr ''pong'')]))"

definition healthRoute :: "Server \<Rightarrow> route" where
  "healthRoute sv = ((''GET'', ''/health''), \<lambda>hq rq. do {
     r \<leftarrow> on_store (HealthCheck (sv_gdb sv));
     (case r of
        Inl err \<Rightarrow> JSON 503 (NewErrorResponse (error_text (sv_lib sv) err) ''UNHEALTHY'')
      | Inr _ \<Rightarrow> replyOK (JObj [(''status'', JStr ''healthy'')]))
   })"

definition goroutinesRoute :: route where
  "goroutinesRoute = ((''GET'', ''/goroutines''), \<lambda>hq rq.
     JSON 200 (JObj [(''goroutines'', JNum (hq_goroutines hq))]))"

definition SetupRoutes :: "Server \<Rightarrow> route list" where
  "SetupRoutes sv = wsRoute sv @ pingRoute # healthRoute sv # goroutinesRoute # authRoutes sv @ messageRoutes sv @ conversationRoutes sv @ userRoutes sv @
     callRoutes sv @ uploadRoutes sv @ encryptionRoutes sv @ broadcastRoutes sv"

text \<open>
  A request for which there is no route goes through the same middleware and is answered 404 (the text
  of that reply is Gin's).
\<close>

definition dispatch :: "Server \<Rightarrow> HttpRequest \<Rightarrow> server_state handler" where
  "dispatch sv hq = (case sv_match sv (hq_method hq) (hq_path hq) of
     None \<Rightarrow> AbortWithStatus 404
   | Some (pattern, params) \<Rightarrow>
       (case map_of (SetupRoutes sv) (hq_method hq, pattern) of
          None \<Rightarrow> AbortWithStatus 404
        | Some run_chain \<Rightarrow> run_chain hq \<lparr>rq_ctx = None, rq_param = params, rq_query = hq_query hq,
            rq_body = hq_body hq\<rparr>))"

definition ServeHTTP :: "Server \<Rightarrow> HttpRequest \<Rightarrow> server_state handler" where
  "ServeHTTP sv hq = RequestIDMiddleware hq (CORSMiddleware hq
     (RateLimitMiddleware (sv_limiter sv) hq (dispatch sv hq)))"

section \<open>Which routes are guarded\<close>

definition public_routes :: "(string \<times> string) list" where
  "public_routes = [(''GET'', ''/v1/ws''), (''GET'', ''/ping''), (''GET'', ''/health''), (''GET'', ''/goroutines''),
     (''POST'', ''/v1/auth/register''), (''POST'', ''/v1/auth/login''),
     (''POST'', ''/v1/auth/refresh''), (''POST'', ''/v1/auth/password/forgot''),
     (''POST'', ''/v1/auth/password/reset'')]"

lemma in_group: "(k, c) \<in> set (group sv prefix rs) \<Longrightarrow> \<exists>h. c = guarded sv h"
  by (auto simp: group_def)

lemma in_authRoutes: "(k, c) \<in> set (authRoutes sv) \<Longrightarrow> k \<in> set public_routes \<or> (\<exists>h. c = guarded sv h)"
  by (auto simp: authRoutes_def Let_def public_routes_def dest: in_group)

lemma guarded_or_public:
  assumes "(k, c) \<in> set (SetupRoutes sv)"
  shows "k \<in> set public_routes \<or> (\<exists>h. c = guarded sv h)"
proof -
  have open_routes: "(k, c) \<in> {pingRoute, healthRoute sv, goroutinesRoute} \<union> set (wsRoute sv) \<Longrightarrow> k \<in> set public_routes"
    by (auto simp: wsRoute_def pingRoute_def healthRoute_def goroutinesRoute_def public_routes_def)
  from assms open_routes show ?thesis
    unfolding SetupRoutes_def messageRoutes_def conversationRoutes_def userRoutes_def callRoutes_def
      uploadRoutes_def encryptionRoutes_def broadcastRoutes_def Let_def
    by (auto split: option.splits simp del: set_map dest: in_group in_authRoutes)
qed

lemma run_withHeaders:
  "run_state (withHeaders hs h) s = (case run_state h s of (r, s') \<Rightarrow> (r\<lparr>rs_headers := hs @ rs_headers r\<rparr>, s'))"
  by (simp add: withHeaders_def split: prod.split)

text \<open>The middleware before the routes either stops the request or lets it through, with more headers.\<close>

lemma limited_cases:
  assumes "run_state (limited check refusal m) (w, rd, h) = (r, (w', rd', h'))"
  obtains "rs_status r \<noteq> 200" "rs_status r \<noteq> 101" "w' = w" "h' = h"
  | rd1 r0 where "run_state m (w, rd1, h) = (r0, (w', rd', h'))" "rs_status r = rs_status r0" "rs_body r = rs_body r0"
  using assms
  by (auto simp: limited_def run_withHeaders split: sum.splits if_splits prod.splits)

lemma ServeHTTP_cases:
  assumes "run_state (ServeHTTP sv hq) (w, rd, h) = (r, (w', rd', h'))"
  obtains "rs_status r \<noteq> 200" "rs_status r \<noteq> 101" "w' = w" "h' = h"
  | rd1 r0 where "run_state (dispatch sv hq) (w, rd1, h) = (r0, (w', rd', h'))" "rs_status r = rs_status r0"
      "rs_body r = rs_body r0"
proof -
  from assms obtain r1 where r1: "run_state (if hq_method hq = ''OPTIONS'' then AbortWithStatus 204
      else RateLimitMiddleware (sv_limiter sv) hq (dispatch sv hq)) (w, rd, h) = (r1, (w', rd', h'))"
    and r: "rs_status r = rs_status r1" "rs_body r = rs_body r1"
    by (auto simp: ServeHTTP_def RequestIDMiddleware_def CORSMiddleware_def run_withHeaders Let_def
        split: prod.splits)
  show thesis
  proof (cases "hq_method hq = ''OPTIONS''")
    case True
    with r1 r show thesis by (auto intro: that(1))
  next
    case False
    with r1 have lim: "run_state (RateLimitMiddleware (sv_limiter sv) hq (dispatch sv hq)) (w, rd, h) = (r1, (w', rd', h'))"
      by simp
    show thesis
    proof (cases "\<exists>l. sv_limiter sv = Some l \<and> isAuthEndpoint (hq_path hq)")
      case True
      with lim obtain l where "run_state (limited (AllowAuth l (hq_clientIP hq)) ''rate limit exceeded''
          (dispatch sv hq)) (w, rd, h) = (r1, (w', rd', h'))" by (auto simp: RateLimitMiddleware_def)
      then show thesis
      proof (cases rule: limited_cases)
        case 1
        with r that(1) show thesis by simp
      next
        case (2 rd1 r0)
        with r that(2) [OF 2(1)] show thesis by simp
      qed
    next
      case False
      with lim have "run_state (dispatch sv hq) (w, rd, h) = (r1, (w', rd', h'))"
        by (auto simp: RateLimitMiddleware_def split: option.splits)
      with r that(2) show thesis by blast
    qed
  qed
qed

definition request_of :: "HttpRequest \<Rightarrow> (string \<Rightarrow> string) \<Rightarrow> Request" where
  "request_of hq params = \<lparr>rq_ctx = None, rq_param = params, rq_query = hq_query hq, rq_body = hq_body hq\<rparr>"

lemma dispatch_guarded:
  assumes "run_state (dispatch sv hq) (w, rd) = (r, (w', rd'))"
    and "sv_match sv (hq_method hq) (hq_path hq) = Some (pattern, params)"
    and "map_of (SetupRoutes sv) (hq_method hq, pattern) = Some (guarded sv h)"
  obtains "rs_status r \<noteq> 200" "w_db w' = w_db w"
  | ctx w1 where
      "run_state (AuthMiddleware (sv_auth_lib sv) (sv_auth sv) (hq_header hq ''Authorization'')) w = (Inr ctx, w1)"
      "run_state (h ((request_of hq params)\<lparr>rq_ctx := Some ctx\<rparr>)) (w1, rd) = (r, (w', rd'))"
proof -
  let ?auth = "AuthMiddleware (sv_auth_lib sv) (sv_auth sv) (hq_header hq ''Authorization'')"
  from assms have run: "run_state (authenticated sv hq (\<lambda>ctx. h ((request_of hq params)\<lparr>rq_ctx := Some ctx\<rparr>))) (w, rd)
    = (r, (w', rd'))"
    by (simp add: dispatch_def guarded_def request_of_def)
  show thesis
  proof (cases "run_state ?auth w")
    case (Pair a w1)
    show thesis
    proof (cases a)
      case (Inl e)
      have "w_db w1 = w_db w"
        using keepsD [OF keeps_AuthMiddleware, of "w_db w" w _ _ _ a w1] Pair by (simp add: committed_def)
      moreover from run Pair Inl have "rs_status r \<noteq> 200" "w' = w1"
        by (auto simp: authenticated_def unauthorized_def)
      ultimately show thesis by (intro that(1)) simp_all
    next
      case (Inr ctx)
      with run Pair have "run_state (h ((request_of hq params)\<lparr>rq_ctx := Some ctx\<rparr>)) (w1, rd) = (r, (w', rd'))"
        by (simp add: authenticated_def)
      with that(2) [of ctx w1] Pair Inr show thesis by simp
    qed
  qed
qed

lemma private_cases:
  assumes run: "run_state (ServeHTTP sv hq) (w, rd) = (r, (w', rd'))"
    and match: "sv_match sv (hq_method hq) (hq_path hq) = Some (pattern, params)"
    and guard: "(hq_method hq, pattern) \<notin> set public_routes"
  obtains "rs_status r \<noteq> 200" "w_db w' = w_db w"
  | ctx w1 where
      "run_state (AuthMiddleware (sv_auth_lib sv) (sv_auth sv) (hq_header hq ''Authorization'')) w = (Inr ctx, w1)"
proof -
  obtain rd0 h where rd: "rd = (rd0, h)" by fastforce
  obtain rd0' h' where rd': "rd' = (rd0', h')" by fastforce
  from run [unfolded rd rd'] show thesis
  proof (cases rule: ServeHTTP_cases)
    case 1
    with that(1) show thesis by simp
  next
    case (2 rd1 r0)
    show thesis
    proof (cases "map_of (SetupRoutes sv) (hq_method hq, pattern)")
      case None
      with 2 match that(1) show thesis by (auto simp: dispatch_def)
    next
      case (Some c)
      with guarded_or_public [OF map_of_SomeD] guard obtain h where "c = guarded sv h" by blast
      with Some have "map_of (SetupRoutes sv) (hq_method hq, pattern) = Some (guarded sv h)" by simp
      from 2(1) match this show thesis by (cases rule: dispatch_guarded) (use 2 that in auto)
    qed
  qed
qed

lemma guarded_200:
  assumes run: "run_state (ServeHTTP sv hq) (w, rd) = (r, (w', rd'))" "rs_status r = 200"
    and match: "sv_match sv (hq_method hq) (hq_path hq) = Some (pattern, params)"
      "map_of (SetupRoutes sv) (hq_method hq, pattern) = Some (guarded sv h)"
  obtains ctx w1 rd1 r0 where
    "run_state (AuthMiddleware (sv_auth_lib sv) (sv_auth sv) (hq_header hq ''Authorization'')) w = (Inr ctx, w1)"
    "run_state (h ((request_of hq params)\<lparr>rq_ctx := Some ctx\<rparr>)) (w1, rd1) = (r0, (w', rd'))"
    "rs_status r0 = 200" "rs_body r0 = rs_body r"
proof -
  obtain rd0 h0 where rd: "rd = (rd0, h0)" by fastforce
  obtain rd0' h' where rd': "rd' = (rd0', h')" by fastforce
  from run(1) [unfolded rd rd'] show thesis
  proof (cases rule: ServeHTTP_cases)
    case 1
    with run(2) show thesis by simp
  next
    case (2 rd1 r0)
    from 2(1) match show thesis
    proof (cases rule: dispatch_guarded)
      case 1
      with 2 run(2) show thesis by simp
    next
      case (2 ctx w1)
      with that \<open>rs_status r = rs_status r0\<close> \<open>rs_body r = rs_body r0\<close> run(2) rd' show thesis by simp
    qed
  qed
qed

text \<open>Where some of the routes lead\<close>

lemma no_ws_route:
  assumes "(k, c) \<in> set (SetupRoutes sv)" "\<not> sv_sockets sv"
  shows "k \<noteq> (''GET'', ''/v1/ws'')"
  using assms
  unfolding SetupRoutes_def wsRoute_def pingRoute_def healthRoute_def goroutinesRoute_def authRoutes_def
    messageRoutes_def conversationRoutes_def userRoutes_def callRoutes_def uploadRoutes_def encryptionRoutes_def
    broadcastRoutes_def group_def Let_def
  by (auto split: option.splits)

lemma snd_ws_response [simp]: "snd (run_state (ws_response handshake reply) s) = s"
  by (cases reply) (simp_all add: JSON_def AbortWithStatus_def)

lemma ws_route:
  assumes "map_of (SetupRoutes sv) (''GET'', ''/v1/ws'') = Some c"
    and "run_state (c hq (request_of hq params)) (w, rd, h) = (r, (w', rd', h'))"
  obtains reply where "rd' = rd"
    "run_state (ws_Handle (sv_auth_lib sv) (sv_auth sv) (hq_query hq ''token'') (hq_header hq ''Authorization'')
       (hq_handshake hq = None)) (w, h) = (reply, (w', h'))"
    "run_state (ws_response (hq_handshake hq) reply) (w', rd, h') = (r, (w', rd, h'))"
proof -
  have "sv_sockets sv" using no_ws_route [OF map_of_SomeD [OF assms(1)]] by auto
  with assms(1) have c: "c = (\<lambda>hq rq. do {
      reply \<leftarrow> on_sockets (ws_Handle (sv_auth_lib sv) (sv_auth sv) (rq_query rq ''token'')
        (hq_header hq ''Authorization'') (hq_handshake hq = None));
      ws_response (hq_handshake hq) reply
    })" by (simp add: SetupRoutes_def wsRoute_def)
  obtain reply w1 h1 where reply: "run_state (ws_Handle (sv_auth_lib sv) (sv_auth sv) (hq_query hq ''token'')
      (hq_header hq ''Authorization'') (hq_handshake hq = None)) (w, h) = (reply, (w1, h1))"
    by (metis prod.collapse)
  with assms(2) have r: "run_state (ws_response (hq_handshake hq) reply) (w1, rd, h1) = (r, (w', rd', h'))"
    by (simp add: c request_of_def)
  then have "(w', rd', h') = (w1, rd, h1)" by (metis snd_conv snd_ws_response)
  with reply r that show thesis by simp
qed

lemma logout_route: "map_of (SetupRoutes sv) (''POST'', ''/v1/auth/logout'') =
    Some (guarded sv (on_db (authH_Logout (sv_lib sv) (sv_auth_lib sv) (sv_auth sv))))"
  by (simp add: SetupRoutes_def wsRoute_def pingRoute_def healthRoute_def goroutinesRoute_def authRoutes_def group_def Let_def)

lemma list_messages_route: "sv_message sv = Some s \<Longrightarrow> map_of (SetupRoutes sv) (''GET'', ''/v1/messages'') =
    Some (guarded sv (on_db (messageH_List (sv_lib sv) s)))"
  by (simp add: SetupRoutes_def wsRoute_def pingRoute_def healthRoute_def goroutinesRoute_def authRoutes_def messageRoutes_def group_def Let_def)

end
