(* ===== verification/Seed.thy ===== *)
theory Seed
  imports Postgres MessageRepo ConversationRepo Encryption Broadcasts
begin

text \<open>
  \<^verbatim>\<open>pkg/database/seed.go\<close>: the data that the command line writes into a new database. The random bytes
  and the order in which Go ranges over the map of devices are parameters (\<open>seed_lib\<close>); \<open>db\<close> is the
  global \<^verbatim>\<open>DB\<close>. Printing to the log is left out.
\<close>

record SeedConfig =
  sc_AdminEmail :: string
  sc_AdminPassword :: string
  sc_AdminUsername :: string
  sc_AdminDisplayName :: string
  sc_CreateTestUsers :: bool
  sc_TestUserCount :: int

definition DefaultSeedConfig :: SeedConfig where
  "DefaultSeedConfig = \<lparr>sc_AdminEmail = ''admin@sentinal.chat'', sc_AdminPassword = ''Admin@123!'',
     sc_AdminUsername = ''admin'', sc_AdminDisplayName = ''System Admin'', sc_CreateTestUsers = True,
     sc_TestUserCount = 5\<rparr>"

record SeedResult =
  sr_AdminUser :: User
  sr_TestUsers :: "User list"
  sr_Conversations :: "Conversation list"
  sr_Messages :: "Message list"

type_synonym device_map = "(uuid \<times> Device list) list"

record seed_lib =
  sl_auth :: auth_lib
  sl_random :: "nat \<Rightarrow> nat \<Rightarrow> bytes"
  sl_range :: "nat \<Rightarrow> device_map \<Rightarrow> device_map"

definition randomBytes :: "seed_lib \<Rightarrow> nat \<Rightarrow> (world, bytes) state" where
  "randomBytes lib len = draw (\<lambda>n. sl_random lib n len)"

definition mustJSON :: "(string \<times> json) list \<Rightarrow> string" where
  "mustJSON entries = map_text entries"

text \<open>\<^verbatim>\<open>deviceMap[u]\<close> and \<^verbatim>\<open>deviceMap[u] = append(deviceMap[u], ds...)\<close>\<close>

definition devices_of :: "device_map \<Rightarrow> uuid \<Rightarrow> Device list" where
  "devices_of m u = (case map_of m u of None \<Rightarrow> [] | Some ds \<Rightarrow> ds)"

definition add_devices :: "uuid \<Rightarrow> Device list \<Rightarrow> device_map \<Rightarrow> device_map" where
  "add_devices u ds m = map_put u (devices_of m u @ ds) m"

definition merge_devices :: "device_map \<Rightarrow> device_map \<Rightarrow> device_map" where
  "merge_devices found m = fold (\<lambda>(u, ds). add_devices u ds) found m"

text \<open>
  INSERT with \<^verbatim>\<open>ON CONFLICT ... DO NOTHING\<close>, and with \<^verbatim>\<open>DO UPDATE\<close>, where \<open>P\<close> picks the row that has
  the same value of the named key.
\<close>

definition insert_unless :: "(tables \<Rightarrow> 'r list) \<Rightarrow> ('r \<Rightarrow> bool) \<Rightarrow> unit stmt \<Rightarrow> unit stmt" where
  "insert_unless get P ins t = (if list_ex P (get t) then Inr ((), t) else ins t)"

definition upsert ::
  "(tables \<Rightarrow> 'r list) \<Rightarrow> (('r list \<Rightarrow> 'r list) \<Rightarrow> tables \<Rightarrow> tables) \<Rightarrow> ('r \<Rightarrow> bool) \<Rightarrow> ('r \<Rightarrow> 'r) \<Rightarrow>
   unit stmt \<Rightarrow> unit stmt" where
  "upsert get upd P f ins t = (if list_ex P (get t) then Inr ((), upd (map_where P f) t) else ins t)"

section \<open>Users\<close>

definition admin_user :: "SeedConfig \<Rightarrow> string \<Rightarrow> uuid \<Rightarrow> time \<Rightarrow> time \<Rightarrow> User" where
  "admin_user cfg hash i created updated = \<lparr>usr_ID = i, usr_PhoneNumber = None,
     usr_Username = Some (sc_AdminUsername cfg), usr_Email = Some (sc_AdminEmail cfg),
     usr_PasswordHash = hash, usr_DisplayName = sc_AdminDisplayName cfg, usr_Role = ''SUPER_ADMIN'',
     usr_Bio = ''System Administrator'', usr_AvatarURL = [], usr_IsOnline = False, usr_LastSeenAt = None,
     usr_IsActive = True, usr_IsVerified = True, usr_CreatedAt = created, usr_UpdatedAt = updated\<rparr>"

definition users_with_email :: "string \<Rightarrow> tables \<Rightarrow> uuid list" where
  "users_with_email email t = map usr_ID (filter (\<lambda>u. citext_eq (usr_Email u) (Some email)) (t_users t))"

definition seed_admin_tx :: "SeedConfig \<Rightarrow> User \<Rightarrow> DBTX \<Rightarrow> User go" where
  "seed_admin_tx cfg adminUser tx = do {
     r \<leftarrow> queryRow tx (users_with_email (sc_AdminEmail cfg));
     (case r of
        Inr existing \<Rightarrow> ok (adminUser\<lparr>usr_ID := existing\<rparr>)
      | Inl _ \<Rightarrow> andThen (sql tx (insert_user adminUser)) (\<lambda>_. do {
          now \<leftarrow> time_Now;
          andThen (sql tx (insert_settings (settings_for (usr_ID adminUser) ''CONTACTS'' now))) (\<lambda>_.
            ok adminUser)
        }))
   }"

definition seedAdminUser :: "seed_lib \<Rightarrow> DBTX \<Rightarrow> SeedConfig \<Rightarrow> User go" where
  "seedAdminUser lib db cfg =
     andThen (mapErr (WrappedError ''failed to hash password'') (hashPassword (sl_auth lib) (sc_AdminPassword cfg)))
     (\<lambda>hash. do {
       i \<leftarrow> uuid_New;
       created \<leftarrow> time_Now;
       updated \<leftarrow> time_Now;
       database_WithTx db (seed_admin_tx cfg (admin_user cfg hash i created updated))
     })"

text \<open>Email, username, display name, bio and phone number of the test users\<close>

definition testUserData :: "(string \<times> string \<times> string \<times> string \<times> string) list" where
  "testUserData = [
     (''alice@test.com'', ''alice'', ''Alice Johnson'', ''Coffee enthusiast & coder'', ''+1234567001''),
     (''bob@test.com'', ''bob'', ''Bob Smith'', ''Tech lover'', ''+1234567002''),
     (''charlie@test.com'', ''charlie'', ''Charlie Brown'', ''Always curious'', ''+1234567003''),
     (''diana@test.com'', ''diana'', ''Diana Prince'', ''Wonder woman of tech'', ''+1234567004''),
     (''edward@test.com'', ''edward'', ''Edward Chen'', ''Full-stack developer'', ''+1234567005''),
     (''fiona@test.com'', ''fiona'', ''Fiona Green'', ''UX Designer'', ''+1234567006''),
     (''george@test.com'', ''george'', ''George Miller'', ''DevOps engineer'', ''+1234567007''),
     (''hannah@test.com'', ''hannah'', ''Hannah White'', ''Data scientist'', ''+1234567008'')]"

text \<open>A Go user of which only the identifier and the address are known\<close>

definition existing_user :: "uuid \<Rightarrow> string \<Rightarrow> User" where
  "existing_user i email = \<lparr>usr_ID = i, usr_PhoneNumber = None, usr_Username = None, usr_Email = Some email,
     usr_PasswordHash = [], usr_DisplayName = [], usr_Role = [], usr_Bio = [], usr_AvatarURL = [],
     usr_IsOnline = False, usr_LastSeenAt = None, usr_IsActive = False, usr_IsVerified = False,
     usr_CreatedAt = 0, usr_UpdatedAt = 0\<rparr>"

definition seed_test_user ::
  "DBTX \<Rightarrow> string \<Rightarrow> nat \<Rightarrow> string \<times> string \<times> string \<times> string \<times> string \<Rightarrow> User go" where
  "seed_test_user db hash i data = (case data of (email, username, displayName, bio, phone) \<Rightarrow> do {
     r \<leftarrow> queryRow db (users_with_email email);
     (case r of
        Inr existingID \<Rightarrow> ok (existing_user existingID email)
      | Inl _ \<Rightarrow> do {
          uid \<leftarrow> uuid_New;
          created \<leftarrow> time_Now;
          updated \<leftarrow> time_Now;
          let newUser = \<lparr>usr_ID = uid, usr_PhoneNumber = Some phone, usr_Username = Some username,
            usr_Email = Some email, usr_PasswordHash = hash, usr_DisplayName = displayName,
            usr_Role = ''USER'', usr_Bio = bio, usr_AvatarURL = [], usr_IsOnline = even i,
            usr_LastSeenAt = None, usr_IsActive = True, usr_IsVerified = True,
            usr_CreatedAt = created, usr_UpdatedAt = updated\<rparr>;
          mapErr (WrappedError (''failed to create test user '' @ email)) (database_WithTx db (\<lambda>tx.
            andThen (sql tx (insert_user newUser)) (\<lambda>_. do {
              now \<leftarrow> time_Now;
              andThen (sql tx (insert_settings (settings_for uid ''EVERYONE'' now))) (\<lambda>_. ok newUser)
            })))
        })
   })"

definition seedTestUsers :: "seed_lib \<Rightarrow> DBTX \<Rightarrow> int \<Rightarrow> User list go" where
  "seedTestUsers lib db count =
     andThen (hashPassword (sl_auth lib) ''Test@123!'') (\<lambda>hash.
       collect (\<lambda>(i, data). seed_test_user db hash i data) (take (nat count) (enumerate 0 testUserData)))"

section \<open>Conversations\<close>

definition insert_conversation :: "(string \<Rightarrow> bool) \<Rightarrow> Conversation \<Rightarrow> unit stmt" where
  "insert_conversation jsonb c = checked InvalidText (\<lambda>_. conversation_typed jsonb c)
     (insert_into t_conversations t_conversations_update conversation_clash
       (\<lambda>t. opt_ref (has_user t) (conv_CreatedBy c)) (conversation_row c))"

definition insert_participant :: "(string \<Rightarrow> bool) \<Rightarrow> Participant \<Rightarrow> unit stmt" where
  "insert_participant jsonb p = checked InvalidText
     (\<lambda>_. typed [(part_Role p, participant_role_enum)] \<and> opt_jsonb jsonb (part_Permissions p))
     (insert_into t_participants t_participants_update participant_clash
       (\<lambda>t. has_conversation t (part_ConversationID p) \<and> has_user t (part_UserID p) \<and>
         opt_ref (has_user t) (part_AddedBy p)) p)"

definition insert_sequence :: "uuid \<Rightarrow> time \<Rightarrow> unit stmt" where
  "insert_sequence c now = insert_into t_sequences t_sequences_update sequence_clash
     (\<lambda>t. has_conversation t c)
     \<lparr>cseq_ConversationID = c, cseq_LastSequence = 0, cseq_UpdatedAt = now\<rparr>"

definition seed_conversation_row ::
  "string \<Rightarrow> string option \<Rightarrow> string option \<Rightarrow> string \<Rightarrow> uuid \<Rightarrow> (world, Conversation) state" where
  "seed_conversation_row ty subject description permissions creator = do {
     i \<leftarrow> uuid_New;
     created \<leftarrow> time_Now;
     updated \<leftarrow> time_Now;
     State_Monad.return \<lparr>conv_ID = i, conv_Type = ty, conv_Subject = subject, conv_Description = description,
       conv_AvatarURL = None, conv_ExpirySeconds = None, conv_DisappearingMode = ''OFF'',
       conv_MessageExpirySeconds = None, conv_GroupPermissions = Some permissions, conv_InviteLink = None,
       conv_InviteLinkRevokedAt = None, conv_CreatedBy = Some creator, conv_CreatedAt = created,
       conv_UpdatedAt = updated, conv_Participants = []\<rparr>
   }"

definition seed_participant :: "DBTX \<Rightarrow> uuid \<Rightarrow> uuid option \<Rightarrow> User \<times> string \<Rightarrow> unit go" where
  "seed_participant tx c addedBy m = do {
     now \<leftarrow> time_Now;
     jsonb \<leftarrow> jsonb_input;
     sql tx (insert_participant jsonb \<lparr>part_ConversationID = c, part_UserID = usr_ID (fst m),
       part_Role = snd m, part_JoinedAt = now, part_AddedBy = addedBy, part_MutedUntil = None,
       part_PinnedAt = None, part_Archived = False, part_LastReadSequence = 0,
       part_Permissions = Some ''{}''\<rparr>)
   }"

text \<open>The transaction of one conversation: its row, its participants, its sequence\<close>

definition seed_conversation ::
  "DBTX \<Rightarrow> Conversation \<Rightarrow> (uuid option \<times> User \<times> string) list \<Rightarrow> Conversation go" where
  "seed_conversation db c members = database_WithTx db (\<lambda>tx. do {
     jsonb \<leftarrow> jsonb_input;
     andThen (sql tx (insert_conversation jsonb c)) (\<lambda>_.
     andThen (forEach members (\<lambda>(addedBy, m). seed_participant tx (conv_ID c) addedBy m)) (\<lambda>_. do {
       now \<leftarrow> time_Now;
       andThen (sql tx (insert_sequence (conv_ID c) now)) (\<lambda>_. ok c)
     }))
   })"

definition dm_members :: "User list \<Rightarrow> (uuid option \<times> User \<times> string) list" where
  "dm_members users = map (\<lambda>u. (None, u, ''MEMBER'')) (take 2 users)"

text \<open>The first user founds the group and adds the next two.\<close>

definition group_members :: "User list \<Rightarrow> (uuid option \<times> User \<times> string) list" where
  "group_members users = (case zip users [''OWNER'', ''ADMIN'', ''MEMBER''] of
     [] \<Rightarrow> [] | m # ms \<Rightarrow> (None, m) # map (Pair (Some (usr_ID (fst m)))) ms)"

definition seedConversations :: "DBTX \<Rightarrow> User list \<Rightarrow> Conversation list go" where
  "seedConversations db users =
     (let founder = usr_ID (users ! 0) in
      andThen (if length users < 2 then ok []
        else do {
          dm \<leftarrow> seed_conversation_row ''DM'' None None ''{}'' founder;
          andThen (seed_conversation db dm (dm_members users)) (\<lambda>c. ok [c])
        }) (\<lambda>dms.
      andThen (if length users < 3 then ok []
        else do {
          grp \<leftarrow> seed_conversation_row ''GROUP'' (Some ''Sentinal Chat Team'')
            (Some ''Welcome to our team chat!'')
            (map_text [(''send_messages'', JBool True), (''send_media'', JBool True),
               (''add_members'', JBool False), (''edit_group_info'', JBool False)]) founder;
          andThen (seed_conversation db grp (group_members users)) (\<lambda>c. ok [c])
        }) (\<lambda>grps. ok (dms @ grps))))"

section \<open>Devices and keys\<close>

definition upsert_device :: "Device \<Rightarrow> uuid stmt" where
  "upsert_device d t =
     (let mine = (\<lambda>r. dev_UserID r = dev_UserID d \<and> dev_DeviceID r = dev_DeviceID d) in
      case find mine (t_devices t) of
        Some r \<Rightarrow> Inr (dev_ID r, t_devices_update (map_where mine (\<lambda>r. r\<lparr>dev_LastSeenAt := dev_LastSeenAt d\<rparr>)) t)
      | None \<Rightarrow>
          (case insert_into t_devices t_devices_update device_clash (\<lambda>t. has_user t (dev_UserID d)) d t of
             Inl e \<Rightarrow> Inl e
           | Inr (_, t') \<Rightarrow> Inr (dev_ID d, t')))"

definition seed_device :: "DBTX \<Rightarrow> uuid \<Rightarrow> nat \<Rightarrow> nat \<Rightarrow> Device go" where
  "seed_device db u i d = do {
     devID \<leftarrow> uuid_New;
     registered \<leftarrow> time_Now;
     seen \<leftarrow> time_Now;
     let device = \<lparr>dev_ID = devID, dev_UserID = u,
       dev_DeviceID = ''device-'' @ Itoa (int i + 1) @ ''-'' @ Itoa (int d + 1),
       dev_DeviceName = ''Device '' @ Itoa (int d + 1), dev_DeviceType = ''MOBILE'', dev_IsActive = True,
       dev_RegisteredAt = registered, dev_LastSeenAt = Some seen\<rparr>;
     andThen (sql db (upsert_device device)) (\<lambda>stored. ok (device\<lparr>dev_ID := stored\<rparr>))
   }"

fun seed_devices_from :: "DBTX \<Rightarrow> nat \<Rightarrow> User list \<Rightarrow> device_map \<Rightarrow> device_map go" where
  "seed_devices_from db i [] m = ok m"
| "seed_devices_from db i (u # us) m =
     andThen (collect (seed_device db (usr_ID u) i) [0, 1]) (\<lambda>ds.
       seed_devices_from db (Suc i) us (add_devices (usr_ID u) ds m))"

definition seedDevices :: "DBTX \<Rightarrow> User list \<Rightarrow> device_map go" where
  "seedDevices db users = seed_devices_from db 0 users []"

definition upsert_identity_key :: "IdentityKey \<Rightarrow> unit stmt" where
  "upsert_identity_key k = upsert t_identity_keys t_identity_keys_update
     (\<lambda>r. ik_UserID r = ik_UserID k \<and> ik_DeviceID r = ik_DeviceID k)
     (\<lambda>r. r\<lparr>ik_PublicKey := ik_PublicKey k, ik_IsActive := ik_IsActive k\<rparr>)
     (insert_into t_identity_keys t_identity_keys_update identity_key_clash
       (\<lambda>t. has_user t (ik_UserID k) \<and> has_device t (ik_DeviceID k)) k)"

definition upsert_signed_prekey :: "SignedPreKey \<Rightarrow> unit stmt" where
  "upsert_signed_prekey k = upsert t_signed_prekeys t_signed_prekeys_update
     (\<lambda>r. sk_DeviceID r = sk_DeviceID k \<and> sk_KeyID r = sk_KeyID k)
     (\<lambda>r. r\<lparr>sk_PublicKey := sk_PublicKey k, sk_Signature := sk_Signature k, sk_IsActive := sk_IsActive k\<rparr>)
     (insert_signed_prekey k)"

definition seed_onetime_prekey :: "seed_lib \<Rightarrow> DBTX \<Rightarrow> uuid \<Rightarrow> uuid \<Rightarrow> int \<Rightarrow> unit go" where
  "seed_onetime_prekey lib db u device k = do {
     i \<leftarrow> uuid_New;
     public \<leftarrow> randomBytes lib 32;
     now \<leftarrow> time_Now;
     let prekey = \<lparr>otk_ID = i, otk_UserID = u, otk_DeviceID = device, otk_KeyID = 100 + k,
       otk_PublicKey = public, otk_UploadedAt = now, otk_ConsumedAt = None, otk_ConsumedBy = None,
       otk_ConsumedByDeviceID = None\<rparr>;
     sql db (insert_unless t_onetime_prekeys
       (\<lambda>r. otk_DeviceID r = device \<and> otk_KeyID r = 100 + k) (insert_onetime_prekey prekey))
   }"

definition seed_device_keys :: "seed_lib \<Rightarrow> DBTX \<Rightarrow> uuid \<times> uuid \<Rightarrow> unit go" where
  "seed_device_keys lib db owner = (case owner of (u, device) \<Rightarrow> do {
     i \<leftarrow> uuid_New;
     public \<leftarrow> randomBytes lib 32;
     created \<leftarrow> time_Now;
     andThen (sql db (upsert_identity_key \<lparr>ik_ID = i, ik_UserID = u, ik_DeviceID = device,
       ik_PublicKey = public, ik_IsActive = True, ik_CreatedAt = created\<rparr>)) (\<lambda>_. do {
       si \<leftarrow> uuid_New;
       spublic \<leftarrow> randomBytes lib 32;
       signature \<leftarrow> randomBytes lib 64;
       screated \<leftarrow> time_Now;
       andThen (sql db (upsert_signed_prekey \<lparr>sk_ID = si, sk_UserID = u, sk_DeviceID = device,
         sk_KeyID = 1, sk_PublicKey = spublic, sk_Signature = signature, sk_CreatedAt = screated,
         sk_IsActive = True\<rparr>)) (\<lambda>_.
         forEach [0, 1, 2, 3, 4] (seed_onetime_prekey lib db u device))
     })
   })"

definition seedEncryptionKeys :: "seed_lib \<Rightarrow> DBTX \<Rightarrow> device_map \<Rightarrow> unit go" where
  "seedEncryptionKeys lib db deviceMap = do {
     order \<leftarrow> draw (\<lambda>n. sl_range lib n deviceMap);
     forEach (concat (map (\<lambda>(u, ds). map (\<lambda>d. (u, dev_ID d)) ds) order)) (seed_device_keys lib db)
   }"

section \<open>Messages\<close>

definition seed_ciphertext ::
  "seed_lib \<Rightarrow> DBTX \<Rightarrow> uuid \<Rightarrow> uuid option \<Rightarrow> string \<Rightarrow> uuid \<times> uuid \<Rightarrow> unit go" where
  "seed_ciphertext lib db msgID senderDevice header recipient = (case recipient of (u, device) \<Rightarrow> do {
     i \<leftarrow> uuid_New;
     text \<leftarrow> randomBytes lib 64;
     now \<leftarrow> time_Now;
     jsonb \<leftarrow> jsonb_input;
     let c = \<lparr>mc_ID = i, mc_MessageID = msgID, mc_RecipientUserID = u, mc_RecipientDeviceID = device,
       mc_SenderDeviceID = senderDevice, mc_Ciphertext = text, mc_Header = header, mc_CreatedAt = now\<rparr>;
     sql db (checked InvalidText (\<lambda>_. jsonb header)
       (insert_unless t_ciphertexts (\<lambda>r. mc_MessageID r = msgID \<and> mc_RecipientDeviceID r = device)
         (insert_into t_ciphertexts t_ciphertexts_update ciphertext_clash
           (\<lambda>t. has_message t msgID \<and> has_user t u \<and> has_device t device \<and>
             opt_ref (has_device t) senderDevice) c)))
   })"

definition seedMessageCiphertexts :: "seed_lib \<Rightarrow> DBTX \<Rightarrow> Message \<Rightarrow> device_map \<Rightarrow> unit go" where
  "seedMessageCiphertexts lib db msg deviceMap =
     andThen (sql db (query (\<lambda>t. filter (\<lambda>p. part_ConversationID p = msg_ConversationID msg) (t_participants t))))
     (\<lambda>participants.
       (let senderDevice = (case devices_of deviceMap (msg_SenderID msg) of [] \<Rightarrow> None | d # _ \<Rightarrow> Some (dev_ID d));
            header = mustJSON [(''version'', JNum 1), (''cipher'', JStr ''signal'')]
        in forEach (concat (map (\<lambda>p. map (\<lambda>d. (part_UserID p, dev_ID d)) (devices_of deviceMap (part_UserID p)))
             participants)) (seed_ciphertext lib db (msg_ID msg) senderDevice header)))"

definition sampleMessages :: "string list" where
  "sampleMessages = [''TEXT'', ''TEXT'', ''TEXT'', ''TEXT'', ''TEXT'', ''TEXT'', ''TEXT'', ''TEXT'']"

definition seed_message ::
  "seed_lib \<Rightarrow> DBTX \<Rightarrow> device_map \<Rightarrow> Conversation \<Rightarrow> nat \<times> User \<times> string \<Rightarrow> Message go" where
  "seed_message lib db deviceMap conv m = (case m of (i, sender, msgType) \<Rightarrow> do {
     msgID \<leftarrow> uuid_New;
     created \<leftarrow> time_Now;
     let msg = zero_Message\<lparr>msg_ID := msgID, msg_ConversationID := conv_ID conv, msg_SenderID := usr_ID sender,
       msg_Type := msgType, msg_Metadata := mustJSON [(''e2ee'', JBool True), (''sample'', JBool True)],
       msg_CreatedAt := created + int i * Minute\<rparr>;
     now \<leftarrow> time_Now;
     jsonb \<leftarrow> jsonb_input;
     andThen (mapErr (WrappedError ''failed to create message'') (sql db (insert_message jsonb now msg))) (\<lambda>_.
     andThen (mapErr (WrappedError ''failed to seed message ciphertexts'')
       (seedMessageCiphertexts lib db msg deviceMap)) (\<lambda>_. ok msg))
   })"

text \<open>The sender of the \<open>i\<close>-th sample is the \<open>i\<close>-th user, until there are no more users or samples.\<close>

definition seedMessages ::
  "seed_lib \<Rightarrow> DBTX \<Rightarrow> Conversation list \<Rightarrow> User list \<Rightarrow> device_map \<Rightarrow> Message list go" where
  "seedMessages lib db convs users deviceMap =
     andThen (collect (\<lambda>conv. collect (seed_message lib db deviceMap conv)
       (enumerate 0 (zip users sampleMessages))) convs) (\<lambda>messages. ok (concat messages))"

section \<open>Broadcasts\<close>

definition seedBroadcasts :: "DBTX \<Rightarrow> User list \<Rightarrow> unit go" where
  "seedBroadcasts db users =
     (if length users < 2 then ok ()
      else do {
        i \<leftarrow> uuid_New;
        created \<leftarrow> time_Now;
        let broadcast = \<lparr>bl_ID = i, bl_OwnerID = usr_ID (users ! 0), bl_Name = ''Announcements'',
          bl_Description = Some ''Important announcements'', bl_CreatedAt = created\<rparr>;
        database_WithTx db (\<lambda>tx.
          andThen (sql tx (insert_into t_broadcast_lists t_broadcast_lists_update broadcast_list_clash
            (\<lambda>t. has_user t (bl_OwnerID broadcast)) broadcast)) (\<lambda>_.
            forEach (tl users) (\<lambda>u. do {
              now \<leftarrow> time_Now;
              let recipient = \<lparr>br_BroadcastID = i, br_UserID = usr_ID u, br_AddedAt = now\<rparr>;
              sql tx (insert_unless t_broadcast_recipients (is_recipient i (usr_ID u)) (insert_recipient recipient))
            })))
      })"

section \<open>Seeding\<close>

text \<open>What \<^verbatim>\<open>Seed\<close> does with at least two test users\<close>

definition seed_chats ::
  "seed_lib \<Rightarrow> DBTX \<Rightarrow> device_map \<Rightarrow> User list \<Rightarrow> (Conversation list \<times> Message list) go" where
  "seed_chats lib db adminDevices testUsers =
     andThen (mapErr (WrappedError ''failed to seed test devices'') (seedDevices db testUsers)) (\<lambda>devices.
       (let deviceMap = merge_devices devices adminDevices in
        andThen (mapErr (WrappedError ''failed to seed encryption keys'') (seedEncryptionKeys lib db deviceMap)) (\<lambda>_.
        andThen (mapErr (WrappedError ''failed to seed conversations'') (seedConversations db testUsers)) (\<lambda>convs.
        andThen (mapErr (WrappedError ''failed to seed messages'')
          (seedMessages lib db convs testUsers deviceMap)) (\<lambda>msgs. ok (convs, msgs))))))"

definition Seed :: "seed_lib \<Rightarrow> DBTX \<Rightarrow> SeedConfig option \<Rightarrow> SeedResult go" where
  "Seed lib db config =
     (let cfg = (case config of None \<Rightarrow> DefaultSeedConfig | Some c \<Rightarrow> c) in
      andThen (mapErr (WrappedError ''failed to seed admin user'') (seedAdminUser lib db cfg)) (\<lambda>adminUser.
      andThen (mapErr (WrappedError ''failed to seed admin devices'') (seedDevices db [adminUser])) (\<lambda>adminDevices.
      if \<not> sc_CreateTestUsers cfg
      then ok \<lparr>sr_AdminUser = adminUser, sr_TestUsers = [], sr_Conversations = [], sr_Messages = []\<rparr>
      else andThen (mapErr (WrappedError ''failed to seed test users'')
             (seedTestUsers lib db (sc_TestUserCount cfg))) (\<lambda>testUsers.
           andThen (if length testUsers < 2 then ok ([], [])
             else seed_chats lib db (merge_devices adminDevices []) testUsers) (\<lambda>(convs, msgs).
           andThen (mapErr (WrappedError ''failed to seed broadcasts'') (seedBroadcasts db testUsers)) (\<lambda>_.
             ok \<lparr>sr_AdminUser = adminUser, sr_TestUsers = testUsers, sr_Conversations = convs,
                 sr_Messages = msgs\<rparr>))))))"

definition SeedMinimal :: "seed_lib \<Rightarrow> DBTX \<Rightarrow> SeedConfig option \<Rightarrow> User go" where
  "SeedMinimal lib db config =
     seedAdminUser lib db (case config of None \<Rightarrow> DefaultSeedConfig | Some c \<Rightarrow> c)"

definition ClearAndReseed :: "seed_lib \<Rightarrow> DBTX \<Rightarrow> SeedConfig option \<Rightarrow> SeedResult go" where
  "ClearAndReseed lib db config =
     andThen (mapErr (WrappedError ''failed to truncate tables'') (TruncateAllTables db)) (\<lambda>_. Seed lib db config)"

definition SeedDevelopment :: "seed_lib \<Rightarrow> DBTX \<Rightarrow> SeedResult go" where
  "SeedDevelopment lib db =
     Seed lib db (Some (DefaultSeedConfig\<lparr>sc_CreateTestUsers := True, sc_TestUserCount := 8\<rparr>))"

definition SeedProduction :: "seed_lib \<Rightarrow> DBTX \<Rightarrow> string \<Rightarrow> string \<Rightarrow> User go" where
  "SeedProduction lib db adminEmail adminPassword = SeedMinimal lib db (Some
     \<lparr>sc_AdminEmail = adminEmail, sc_AdminPassword = adminPassword, sc_AdminUsername = ''admin'',
      sc_AdminDisplayName = ''System Administrator'', sc_CreateTestUsers = False, sc_TestUserCount = 0\<rparr>)"

section \<open>What seeding does\<close>

lemma seed_admin_tx_Inr:
  assumes b: "run_state (seed_admin_tx cfg a Tx) w1 = (Inr v, w2)" and w1: "visible Tx w1 = Some d"
    and w2: "visible Tx w2 = Some d'"
  shows "(\<exists>us. users_with_email (sc_AdminEmail cfg) d = usr_ID v # us) \<and> d' = d \<or>
    users_with_email (sc_AdminEmail cfg) d = [] \<and> v = a \<and> (\<exists>now. d' = d\<lparr>t_users := t_users d @ [a],
      t_user_settings := t_user_settings d @ [settings_for (usr_ID a) ''CONTACTS'' now]\<rparr>)"
proof -
  obtain q w3 where q: "run_state (queryRow Tx (users_with_email (sc_AdminEmail cfg))) w1 = (q, w3)"
    by fastforce
  show ?thesis
  proof (cases q)
    case (Inr existing)
    with q b have "v = a\<lparr>usr_ID := existing\<rparr>" "w2 = w3" by (simp_all add: seed_admin_tx_def)
    with q [unfolded Inr] w1 w2 show ?thesis by (auto simp: queryRow_Inr)
  next
    case (Inl e)
    with q b have ins: "run_state (andThen (sql Tx (insert_user a)) (\<lambda>_. do {
        now \<leftarrow> time_Now;
        andThen (sql Tx (insert_settings (settings_for (usr_ID a) ''CONTACTS'' now))) (\<lambda>_. ok a)
      })) w3 = (Inr v, w2)" by (simp add: seed_admin_tx_def)
    then have "visible Tx w3 \<noteq> None"
      by (auto simp: sql_Inr simp del: run_andThen elim!: andThen_Inr)
    with q Inl w1 have none: "users_with_email (sc_AdminEmail cfg) d = []" and w3: "visible Tx w3 = Some d"
      by (auto simp: queryRow_def run_sql_Tx query_def visible_def Let_def
          split: option.splits if_splits list.splits prod.splits sum.splits)
    from ins w3 w2 have "v = a \<and> (\<exists>now. d\<lparr>t_users := t_users d @ [a],
        t_user_settings := t_user_settings d @ [settings_for (usr_ID a) ''CONTACTS'' now]\<rparr> = d')"
      by (auto simp: sql_Inr insert_user_def insert_settings_def checked_Inr insert_into_Inr tick_def
          simp del: run_andThen elim!: andThen_Inr) blast
    with none show ?thesis by blast
  qed
qed

lemma seedAdminUser_cases:
  assumes "run_state (seedAdminUser lib Pool cfg) w = (r, w')"
  obtains (failed) e where "r = Inl e" "w_db w' = w_db w"
  | (found) u us where "r = Inr u" "users_with_email (sc_AdminEmail cfg) (w_db w) = usr_ID u # us" "w_db w' = w_db w"
  | (created) u now where "r = Inr u" "users_with_email (sc_AdminEmail cfg) (w_db w) = []"
      "usr_Email u = Some (sc_AdminEmail cfg)" "usr_Role u = ''SUPER_ADMIN''"
      "w_db w' = (w_db w)\<lparr>t_users := t_users (w_db w) @ [u],
         t_user_settings := t_user_settings (w_db w) @ [settings_for (usr_ID u) ''CONTACTS'' now]\<rparr>"
proof -
  note tx_def = seed_admin_tx_def
  have tx_only: "keeps (committed d) (seed_admin_tx cfg a Tx)" for d a
    unfolding tx_def by (auto intro!: keeps_intros split: sum.split)
  obtain h wa where hash: "run_state (mapErr (WrappedError ''failed to hash password'')
      (hashPassword (sl_auth lib) (sc_AdminPassword cfg))) w = (h, wa)" by fastforce
  then have wa: "w_db wa = w_db w"
    by (auto simp: hashPassword_def draw_def split: option.splits)
  show thesis
  proof (cases h)
    case (Inl e)
    with assms hash wa show thesis
      by (intro failed [of e]) (auto simp: seedAdminUser_def simp del: run_mapErr)
  next
    case (Inr pw)
    let ?a = "admin_user cfg pw (w_new wa (w_step wa)) (w_now wa (Suc (w_step wa))) (w_now wa (Suc (Suc (w_step wa))))"
    let ?w = "wa\<lparr>w_step := Suc (Suc (Suc (w_step wa)))\<rparr>"
    from assms hash Inr have run: "run_state (WithTx Pool (seed_admin_tx cfg ?a)) ?w = (r, w')"
      by (simp add: seedAdminUser_def del: run_mapErr)
    show thesis
    proof (cases r)
      case (Inl e)
      with WithTx_error_keeps_db [of "seed_admin_tx cfg ?a", OF tx_only run [unfolded Inl]] wa show thesis
        by (intro failed) simp_all
    next
      case (Inr v)
      from run [unfolded Inr] show thesis
      proof (rule WithTx_Inr)
        fix w1 w2
        assume w1: "visible Tx w1 = Some (w_db ?w)" and b: "run_state (seed_admin_tx cfg ?a Tx) w1 = (Inr v, w2)"
          and w2: "visible Tx w2 = Some (w_db w')"
        from seed_admin_tx_Inr [OF b w1 w2] show thesis
          using found [of v] created [of v] \<open>r = Inr v\<close> wa by (auto simp: admin_user_def)
      qed
    qed
  qed
qed

text \<open>
  Seeding the administrator is idempotent: once it has succeeded, every later run for the same
  address leaves the database as it is, and if it succeeds it returns the same account.
\<close>

theorem SeedMinimal_idempotent:
  assumes first: "run_state (SeedMinimal lib Pool (Some cfg)) w = (Inr u, w1)"
    and later: "run_state (SeedMinimal lib' Pool (Some cfg')) w2 = (r, w3)" "w_db w2 = w_db w1"
      "sc_AdminEmail cfg' = sc_AdminEmail cfg"
  shows "w_db w3 = w_db w1 \<and> (\<forall>v. r = Inr v \<longrightarrow> usr_ID v = usr_ID u)"
proof -
  from first have "run_state (seedAdminUser lib Pool cfg) w = (Inr u, w1)" by (simp add: SeedMinimal_def)
  then have "\<exists>us. users_with_email (sc_AdminEmail cfg) (w_db w1) = usr_ID u # us"
    by (cases rule: seedAdminUser_cases) (auto simp: users_with_email_def)
  with later have one: "\<exists>us. users_with_email (sc_AdminEmail cfg') (w_db w2) = usr_ID u # us" by simp
  from later(1) have "run_state (seedAdminUser lib' Pool cfg') w2 = (r, w3)" by (simp add: SeedMinimal_def)
  then show ?thesis using one later(2) by (cases rule: seedAdminUser_cases) auto
qed

text \<open>
  Emptying the database does not work, and so neither does clearing it in order to seed it again:
  the list of \<^verbatim>\<open>TruncateAllTables\<close> begins with a table that the schema does not have, which aborts the
  transaction. Both functions return an error and leave every row where it is.
\<close>

theorem Truncation_always_fails:
  "isl (fst (run_state (TruncateAllTables Pool) w)) \<and> w_db (snd (run_state (TruncateAllTables Pool) w)) = w_db w \<and>
   isl (fst (run_state (ClearAndReseed lib Pool config) w)) \<and>
   w_db (snd (run_state (ClearAndReseed lib Pool config) w)) = w_db w"
proof -
  obtain r w' where out: "run_state (TruncateAllTables Pool) w = (r, w')" by fastforce
  from failsD [OF out fails_TruncateAllTables] out show ?thesis
    by (cases r) (simp_all add: ClearAndReseed_def)
qed

definition sample_seed :: seed_lib where
  "sample_seed = \<lparr>sl_auth = sample_lib, sl_random = (\<lambda>_ n. replicate n 0), sl_range = (\<lambda>_ m. m)\<rparr>"

lemma SeedMinimal_idempotent_witness:
  "\<exists>u w1. run_state (SeedMinimal sample_seed Pool (Some DefaultSeedConfig)) sample_world = (Inr u, w1) \<and>
     usr_Role u = ''SUPER_ADMIN'' \<and> w_db (snd (run_state (SeedMinimal sample_seed Pool (Some DefaultSeedConfig)) w1)) = w_db w1"
proof -
  have "\<exists>u w1. run_state (SeedMinimal sample_seed Pool (Some DefaultSeedConfig)) sample_world = (Inr u, w1) \<and>
      usr_Role u = ''SUPER_ADMIN''"
    by (simp add: SeedMinimal_def DefaultSeedConfig_def seedAdminUser_def seed_admin_tx_def sample_seed_def
        hashPassword_def draw_def admin_user_def users_with_email_def insert_user_def insert_settings_def
        settings_for_def settings_typed_def exec_simps sample_defs user_role_enum_def privacy_setting_enum_def
        theme_mode_enum_def language_code_enum_def ToLower_def lower_char_def)
  then obtain u w1 where first: "run_state (SeedMinimal sample_seed Pool (Some DefaultSeedConfig)) sample_world = (Inr u, w1)"
    and u: "usr_Role u = ''SUPER_ADMIN''" by blast
  obtain r w3 where again: "run_state (SeedMinimal sample_seed Pool (Some DefaultSeedConfig)) w1 = (r, w3)"
    by fastforce
  from SeedMinimal_idempotent [OF first again refl refl] first u again show ?thesis by auto
qed

end
