(* ===== verification/EventBus.thy ===== *)
theory EventBus
  imports OutboxWorker
begin

text \<open>
  The receiving half of \<^verbatim>\<open>internal/events/redis_bus.go\<close>: what \<^verbatim>\<open>listen\<close> does with a message of the
  pattern \<^verbatim>\<open>channel:*\<close>. Together with the record \<open>RedisBus\<close> of the sending half, \<open>Listener\<close> holds the
  fields of the Go struct. \<^verbatim>\<open>dispatch\<close> starts a goroutine for each handler; the value of \<open>dispatch_event\<close>
  is the calls they make, which happen in any order.
\<close>

record 'h Listener =
  ls_handlers :: "string \<Rightarrow> 'h list"
  ls_done :: bool

definition NewListener :: "'h Listener" where
  "NewListener = \<lparr>ls_handlers = (\<lambda>_. []), ls_done = False\<rparr>"

definition bus_Subscribe :: "string \<Rightarrow> 'h \<Rightarrow> 'h Listener \<Rightarrow> 'h Listener" where
  "bus_Subscribe eventType h b = b\<lparr>ls_handlers := (ls_handlers b)(eventType := ls_handlers b eventType @ [h])\<rparr>"

text \<open>\<^verbatim>\<open>Stop\<close> cancels the context, which no later \<^verbatim>\<open>Start\<close> makes valid again.\<close>

definition stop_listening :: "'h Listener \<Rightarrow> 'h Listener" where
  "stop_listening b = b\<lparr>ls_done := True\<rparr>"

definition psubscribed :: "string \<Rightarrow> bool" where
  "psubscribed channel \<longleftrightarrow> take 8 channel = ''channel:''"

fun decode_BaseEvent :: "json \<Rightarrow> BaseEvent option" where
  "decode_BaseEvent (JObj fs) = decode_base [] fs"
| "decode_BaseEvent JNull = Some zero_base"
| "decode_BaseEvent _ = None"

text \<open>The \<^verbatim>\<open>unmarshalEvent\<close> of the bus, a second copy of the worker's\<close>

definition bus_unmarshalEvent :: "string \<Rightarrow> json \<Rightarrow> Event option" where
  "bus_unmarshalEvent eventType data =
     (if eventType = EventMessageNew then map_option MessageNew (decode_MessageNew data)
      else if eventType = EventMessageRead then map_option MessageRead (decode_MessageRead data)
      else if eventType = EventMessageDelivered then map_option MessageDelivered (decode_MessageDelivered data)
      else if eventType = EventTypingStarted \<or> eventType = EventTypingStopped then map_option Typing (decode_Typing data)
      else if eventType = EventPresenceOnline \<or> eventType = EventPresenceOffline then map_option Presence (decode_Presence data)
      else if eventType = EventCallOffer \<or> eventType = EventCallAnswer \<or> eventType = EventCallICE
        then map_option CallSignaling (decode_CallSignaling data)
      else if eventType = EventCallEnded then map_option CallEnded (decode_CallEnded data)
      else None)"

definition dispatch_event :: "'h Listener \<Rightarrow> string \<Rightarrow> json \<Rightarrow> ('h \<times> Event) list" where
  "dispatch_event b eventType data =
     (case bus_unmarshalEvent eventType data of
        None \<Rightarrow> []
      | Some event \<Rightarrow> map (\<lambda>h. (h, event)) (ls_handlers b eventType))"

text \<open>One message of the subscription, of which \<^verbatim>\<open>listen\<close> looks at the payload only\<close>

definition bus_listen :: "'h Listener \<Rightarrow> json \<Rightarrow> ('h \<times> Event) list" where
  "bus_listen b payload =
     (if ls_done b then []
      else case decode_BaseEvent payload of
        None \<Rightarrow> []
      | Some base \<Rightarrow> dispatch_event b (EventTypeVal base) payload)"

section \<open>What arrives\<close>

lemma bus_unmarshalEvent_eq [simp]: "bus_unmarshalEvent = unmarshalEvent"
  by (simp add: fun_eq_iff bus_unmarshalEvent_def unmarshalEvent_def)

lemma decode_BaseEvent_event:
  "\<exists>base. decode_BaseEvent (event_json e) = Some base \<and> EventTypeVal base = event_Type e"
  by (cases e) (simp_all add: embed_def base_fields_def decode_base_def field_def event_Type_def)

lemma psubscribed_channel: "c \<in> set (ResolveChannels e) \<Longrightarrow> psubscribed c"
  by (cases e) (simp_all add: psubscribed_def conversation_channel_def user_channel_def)

text \<open>An event on the bus reaches the handlers of its type, as far as the wire keeps it.\<close>

lemma listen_event:
  assumes "event_Type e \<in> tags_of e" "\<not> ls_done b"
  shows "bus_listen b (event_json e) = map (\<lambda>h. (h, wire e)) (ls_handlers b (event_Type e))"
proof -
  obtain base where "decode_BaseEvent (event_json e) = Some base" "EventTypeVal base = event_Type e"
    using decode_BaseEvent_event by blast
  with assms show ?thesis by (simp add: bus_listen_def dispatch_event_def unmarshal_wire)
qed

end
