(* ===== verification/OutboxTyping.thy ===== *)
theory OutboxTyping
  imports Server EventBus
begin

text \<open>
  Everything that the backend does keeps the outbox typed: the payload of each of its events decodes to
  an event of the type that its row names. The rules collected in \<open>typing_intros\<close> follow the structure
  of the handlers, service by service, down to the statements; the section on the whole backend has the
  step relation of the process, which serves requests and polls the outbox.
\<close>

section \<open>Statements and published events\<close>

definition event_ok :: "OutboxEvent \<Rightarrow> bool" where
  "event_ok e \<longleftrightarrow> (\<exists>ev. ob_Payload e = event_json ev \<and> ob_EventType e = event_Type ev \<and> event_Type ev \<in> tags_of ev)"

definition outbox_typed :: "tables \<Rightarrow> bool" where
  "outbox_typed t \<longleftrightarrow> list_all event_ok (t_outbox t)"

lemma outbox_typed_frame:
  "(\<And>h t. t_outbox (upd h t) = t_outbox t) \<Longrightarrow> stmt_keeps outbox_typed (on_table get upd f)"
  "(\<And>h t. t_outbox (upd h t) = t_outbox t) \<Longrightarrow> stmt_keeps outbox_typed (insert_into get upd clash refs r)"
  "(\<And>h t. t_outbox (upd h t) = t_outbox t) \<Longrightarrow> stmt_keeps outbox_typed (update_into get upd clash refs P g)"
  "(\<And>t. t_outbox (dropped t) = t_outbox t) \<Longrightarrow> stmt_keeps outbox_typed (delete_cascade get P dropped links)"
  by (auto simp: stmt_keeps_def stmt_simps outbox_typed_def delete_cascade_def Let_def split: if_splits)

lemma stmt_keeps_checked2: "stmt_keeps J f \<Longrightarrow> stmt_keeps J (checked e c f)"
  by (auto simp: stmt_keeps_def checked_def split: if_splits)

named_theorems typing_intros \<open>rules that show that an operation keeps the outbox typed\<close>

lemmas [typing_intros] = keeps_all_dbs_step keeps_all_dbs_sql keeps_queryRow_all_dbs
 keeps_affected keeps_void keeps_all_dbs_WithTx keeps_jsonb_input keeps_return keeps_ok keeps_fail keeps_bind keeps_andThen
 keeps_mapErr keeps_if keeps_case_sum keeps_case_option keeps_case_list keeps_case_prod keeps_forEach keeps_collect keeps_forEachIgnore
 keeps_JSON keeps_serveOr keeps_serve keeps_replies keeps_checks stmt_keeps_query stmt_keeps_query_page stmt_keeps_checked2 outbox_typed_frame

lemma typed_insert_message [typing_intros]: "stmt_keeps outbox_typed (insert_message j n m)"
  by (auto simp: stmt_keeps_def insert_message_def assign_sequence_def insert_into_Inr outbox_typed_def Let_def split: if_splits sum.splits)

lemma typed_save: 
  assumes "ty = event_Type e" "ty \<in> tags_of e"
  shows "keeps (all_dbs outbox_typed) (saveToOutbox p tx ty agg i e)"
proof -
  have "stmt_keeps outbox_typed (insert_into t_outbox t_outbox_update outbox_clash (\<lambda>_. True)
      (row\<lparr>ob_EventType := ty, ob_Payload := event_json e\<rparr>))" for row
    using assms by (auto simp: stmt_keeps_def insert_into_Inr outbox_typed_def event_ok_def)
  from this [of "\<lparr>ob_ID = _, ob_EventType = _, ob_AggregateType = agg, ob_AggregateID = i, ob_Payload = _,
      ob_Status = StatusPending, ob_RetryCount = 0, ob_Error = [], ob_CreatedAt = _, ob_UpdatedAt = _,
      ob_ProcessedAt = None\<rparr>"] show ?thesis
    unfolding saveToOutbox_def outboxRepo_Create_def Let_def
    by (intro keeps_bind keeps_all_dbs_step keeps_all_dbs_sql) simp
qed

lemma typed_base: "(\<And>b. EventTypeVal b = ty \<Longrightarrow> keeps I (k b)) \<Longrightarrow> keeps I time_Now \<Longrightarrow> keeps I (State_Monad.bind (base_event ty u c) k)"
  unfolding base_event_def keeps_def by (fastforce split: prod.splits)

lemma typed_publish [typing_intros]:
  "keeps (all_dbs outbox_typed) (PublishMessageNew p tx a b c)"
  "keeps (all_dbs outbox_typed) (PublishTypingStarted p tx a b d)"
  "keeps (all_dbs outbox_typed) (PublishTypingStopped p tx a b d)"
  "keeps (all_dbs outbox_typed) (PublishMessageRead p tx a b c)"
  "keeps (all_dbs outbox_typed) (PublishMessageDelivered p tx a b c)"
  "keeps (all_dbs outbox_typed) (PublishPresenceOnline p tx a)"
  "keeps (all_dbs outbox_typed) (PublishPresenceOffline p tx a)"
  "keeps (all_dbs outbox_typed) (PublishCallOffer p tx a b c d)"
  "keeps (all_dbs outbox_typed) (PublishCallAnswer p tx a b c d)"
  "keeps (all_dbs outbox_typed) (PublishCallICE p tx a b c d)"
  "keeps (all_dbs outbox_typed) (PublishCallEnded p tx a b c d n)"
  unfolding publish_defs by (auto intro!: typed_base typed_save keeps_all_dbs_step simp: event_Type_def)


lemma keeps_Let_value [typing_intros]: "keeps I (f v) \<Longrightarrow> keeps I (Let v f)"
  by simp

lemma keeps_case_redis [typing_intros]:
  "(\<And>j. keeps I (f j)) \<Longrightarrow> keeps I g \<Longrightarrow> keeps I (case x of RJson j \<Rightarrow> f j | _ \<Rightarrow> g)"
  by (simp split: redis_value.split)

lemma keeps_pure_replies [typing_intros]:
  "keeps I messageH_GetByID" "keeps I (messageH_Update rq)"
  unfolding messageH_GetByID_def messageH_Update_def by (intro typing_intros; simp)+

text \<open>A predicate of the first of two states\<close>

definition on_first :: "('s \<Rightarrow> bool) \<Rightarrow> 's \<times> 'b \<Rightarrow> bool" where
  "on_first I s \<longleftrightarrow> I (fst s)"

lemma keeps_on_first [typing_intros]:
  "keeps I m \<Longrightarrow> keeps (on_first I) (on_store m)" "keeps (on_first I) (on_bus b)"
  by (auto simp: keeps_def on_first_def)

lemma typed_draw [typing_intros]: "keeps (all_dbs J) (draw f)"
  by (auto simp: keeps_def draw_def all_dbs_def)

lemma typed_session_infos [typing_intros]: "keeps (all_dbs J) (session_infos db cache ses)"
  by (induction ses arbitrary: cache)
    (auto intro!: typing_intros simp: userRepo_GetDeviceByID_def Let_def split: option.split sum.split)

lemma typed_addRecipients [typing_intros]: "keeps (all_dbs outbox_typed) (addRecipients tx b now us)"
  by (induction us) (auto intro!: typing_intros simp: insert_recipient_def split: sum.split)

lemma outbox_kept_by_deletions [simp]:
  "t_outbox (drop_messages P t) = t_outbox t" "t_outbox (drop_conversations Q t) = t_outbox t"
  "t_outbox (drop_broadcast_lists R t) = t_outbox t" "t_outbox (drop_user u t) = t_outbox t"
  by (simp_all add: drop_messages_def drop_conversations_def drop_broadcast_lists_def drop_user_def
      drop_calls_def drop_devices_def drop_polls_def Let_def)

lemma typed_deletions [typing_intros]:
  "stmt_keeps outbox_typed (delete_messages P)" "stmt_keeps outbox_typed (delete_conversation c)"
  "stmt_keeps outbox_typed (delete_broadcast_list b)" "stmt_keeps outbox_typed (delete_user u)"
  unfolding delete_messages_def delete_conversation_def delete_broadcast_list_def delete_user_def
  by (rule outbox_typed_frame; simp)+

lemmas message_operations =
  messageH_Send_def messageH_List_def messageH_GetByID_def messageH_Delete_def messageH_Update_def
  messageH_HardDelete_def messageH_MarkRead_def messageH_MarkDelivered_def msgSvc_SendMessage_def
  msgSvc_GetConversationMessages_def messageID_def msgSvc_Delete_def msgSvc_HardDelete_def
  msgSvc_MarkAsRead_def msgSvc_MarkAsDelivered_def executeSendMessage_def convRepo_IsParticipant_def
  msgRepo_GetConversationMessages_def msgRepo_SoftDelete_def msgRepo_HardDelete_def
  msgRepo_GetByID_def msgRepo_MarkAsRead_def msgRepo_MarkAsDelivered_def checkParticipant_def
  executeSendMessageDirect_def publishSent_def set_read_def msgRepo_CreateReceipt_def
  set_delivered_def msgRepo_Create_def msgRepo_Update_def storeCiphertext_def insert_receipt_def
  lookupUserIDByDevice_def msgRepo_CreateCiphertext_def

lemma typed_messageH [typing_intros]:
  "keeps (all_dbs outbox_typed) (messageH_Send lib s rq)"
  "keeps (all_dbs outbox_typed) (messageH_List lib s rq)"
  "keeps (all_dbs outbox_typed) messageH_GetByID"
  "keeps (all_dbs outbox_typed) (messageH_Delete lib s rq)"
  "keeps (all_dbs outbox_typed) (messageH_Update rq)"
  "keeps (all_dbs outbox_typed) (messageH_HardDelete lib s rq)"
  "keeps (all_dbs outbox_typed) (messageH_MarkRead lib s rq)"
  "keeps (all_dbs outbox_typed) (messageH_MarkDelivered lib s rq)"
  by (unfold message_operations, (intro typing_intros; simp)+)

lemmas conversation_operations =
  conversationH_Create_def conversationH_List_def conversationH_GetByID_def conversationH_Update_def
  conversationH_Delete_def conversationH_GetDirect_def conversationH_Search_def
  conversationH_GetByType_def conversationH_GetByInviteLink_def
  conversationH_RegenerateInviteLink_def conversationH_AddParticipant_def
  conversationH_RemoveParticipant_def conversationH_ListParticipants_def
  conversationH_UpdateParticipantRole_def conversationH_Mute_def conversationH_Unmute_def
  conversationH_Pin_def conversationH_Unpin_def conversationH_Archive_def
  conversationH_Unarchive_def conversationH_UpdateLastReadSequence_def conversationH_GetSequence_def
  conversationH_IncrementSequence_def convSvc_Create_def convSvc_GetUserConversations_def
  conversationID_def convSvc_GetByID_def convSvc_Update_def convSvc_Delete_def
  convSvc_GetDirectConversation_def convSvc_SearchConversations_def
  convSvc_GetConversationsByType_def convSvc_GetByInviteLink_def convSvc_RegenerateInviteLink_def
  convSvc_AddParticipant_def memberID_def convSvc_RemoveParticipant_def convSvc_GetParticipants_def
  convSvc_UpdateParticipantRole_def convSvc_MuteConversation_def convSvc_UnmuteConversation_def
  convSvc_PinConversation_def convSvc_UnpinConversation_def convSvc_ArchiveConversation_def
  convSvc_UnarchiveConversation_def convSvc_UpdateLastReadSequence_def
  convSvc_GetConversationSequence_def convSvc_IncrementSequence_def executeCreate_def
  convRepo_GetUserConversations_def convRepo_GetByID_def convRepo_Update_def convRepo_Delete_def
  convRepo_GetDirectConversation_def convRepo_SearchConversations_def
  convRepo_GetConversationsByType_def convRepo_GetByInviteLink_def convRepo_RegenerateInviteLink_def
  convRepo_AddParticipant_def convRepo_RemoveParticipant_def convRepo_GetParticipants_def
  convRepo_UpdateParticipantRole_def convRepo_MuteConversation_def convRepo_UnmuteConversation_def
  convRepo_PinConversation_def convRepo_UnpinConversation_def convRepo_ArchiveConversation_def
  convRepo_UnarchiveConversation_def convRepo_UpdateLastReadSequence_def
  convRepo_GetConversationSequence_def convRepo_IncrementSequence_def createDirect_def
  load_participants_def update_participant_def convRepo_Create_def addNewParticipant_def

lemma typed_conversationH [typing_intros]:
  "keeps (all_dbs outbox_typed) (conversationH_Create lib s rq)"
  "keeps (all_dbs outbox_typed) (conversationH_List lib s rq)"
  "keeps (all_dbs outbox_typed) (conversationH_GetByID lib s rq)"
  "keeps (all_dbs outbox_typed) (conversationH_Update lib s rq)"
  "keeps (all_dbs outbox_typed) (conversationH_Delete lib s rq)"
  "keeps (all_dbs outbox_typed) (conversationH_GetDirect lib s rq)"
  "keeps (all_dbs outbox_typed) (conversationH_Search lib s rq)"
  "keeps (all_dbs outbox_typed) (conversationH_GetByType lib s rq)"
  "keeps (all_dbs outbox_typed) (conversationH_GetByInviteLink lib s rq)"
  "keeps (all_dbs outbox_typed) (conversationH_RegenerateInviteLink lib s rq)"
  "keeps (all_dbs outbox_typed) (conversationH_AddParticipant lib s rq)"
  "keeps (all_dbs outbox_typed) (conversationH_RemoveParticipant lib s rq)"
  "keeps (all_dbs outbox_typed) (conversationH_ListParticipants lib s rq)"
  "keeps (all_dbs outbox_typed) (conversationH_UpdateParticipantRole lib s rq)"
  "keeps (all_dbs outbox_typed) (conversationH_Mute lib s rq)"
  "keeps (all_dbs outbox_typed) (conversationH_Unmute lib s rq)"
  "keeps (all_dbs outbox_typed) (conversationH_Pin lib s rq)"
  "keeps (all_dbs outbox_typed) (conversationH_Unpin lib s rq)"
  "keeps (all_dbs outbox_typed) (conversationH_Archive lib s rq)"
  "keeps (all_dbs outbox_typed) (conversationH_Unarchive lib s rq)"
  "keeps (all_dbs outbox_typed) (conversationH_UpdateLastReadSequence lib s rq)"
  "keeps (all_dbs outbox_typed) (conversationH_GetSequence lib s rq)"
  "keeps (all_dbs outbox_typed) (conversationH_IncrementSequence lib s rq)"
  by (unfold conversation_operations, (intro typing_intros; simp)+)

lemmas user_operations =
  userH_List_def userH_GetProfile_def userH_UpdateProfile_def userH_DeleteProfile_def
  userH_GetSettings_def userH_UpdateSettings_def userH_ListContacts_def userH_AddContact_def
  userH_RemoveContact_def userH_BlockContact_def userH_UnblockContact_def userH_BlockedContacts_def
  userH_GetDevice_def userH_ListDevices_def userH_DeactivateDevice_def userH_ListPushTokens_def
  userH_RevokeSession_def userH_RevokeAllSessions_def userSvc_List_def userSvc_GetByID_def
  userSvc_UpdateProfile_def userSvc_Delete_def userSvc_GetSettings_def userSvc_UpdateSettings_def
  userSvc_GetContacts_def userSvc_AddContact_def contactID_def userSvc_RemoveContact_def
  userSvc_BlockContact_def userSvc_UnblockContact_def userSvc_GetBlockedContacts_def deviceID_def
  userSvc_GetDeviceByID_def userSvc_GetDevices_def userSvc_DeactivateDevice_def
  userSvc_GetPushTokens_def userSvc_RevokeSession_def userSvc_RevokeAllSessions_def
  userRepo_SearchUsers_def userRepo_GetAllUsers_def only_self_def userRepo_GetUserByID_def
  userRepo_UpdateUser_def userRepo_DeleteUser_def userRepo_GetUserSettings_def
  userRepo_UpdateUserSettings_def userRepo_GetUserContacts_def userRepo_AddUserContact_def
  userRepo_RemoveUserContact_def userRepo_BlockContact_def userRepo_UnblockContact_def
  userRepo_GetBlockedContacts_def userRepo_GetDeviceByID_def userRepo_GetUserDevices_def
  userRepo_DeactivateDevice_def userRepo_GetUserPushTokens_def userRepo_RevokeSession_def
  userRepo_RevokeAllUserSessions_def insert_contact_def set_blocked_def update_device_def

lemma typed_userH [typing_intros]:
  "keeps (all_dbs outbox_typed) (userH_List lib s rq)"
  "keeps (all_dbs outbox_typed) (userH_GetProfile lib s rq)"
  "keeps (all_dbs outbox_typed) (userH_UpdateProfile lib s rq)"
  "keeps (all_dbs outbox_typed) (userH_DeleteProfile lib s rq)"
  "keeps (all_dbs outbox_typed) (userH_GetSettings lib s rq)"
  "keeps (all_dbs outbox_typed) (userH_UpdateSettings lib s rq)"
  "keeps (all_dbs outbox_typed) (userH_ListContacts lib s rq)"
  "keeps (all_dbs outbox_typed) (userH_AddContact lib s rq)"
  "keeps (all_dbs outbox_typed) (userH_RemoveContact lib s rq)"
  "keeps (all_dbs outbox_typed) (userH_BlockContact lib s rq)"
  "keeps (all_dbs outbox_typed) (userH_UnblockContact lib s rq)"
  "keeps (all_dbs outbox_typed) (userH_BlockedContacts lib s rq)"
  "keeps (all_dbs outbox_typed) (userH_GetDevice lib s rq)"
  "keeps (all_dbs outbox_typed) (userH_ListDevices lib s rq)"
  "keeps (all_dbs outbox_typed) (userH_DeactivateDevice lib s rq)"
  "keeps (all_dbs outbox_typed) (userH_ListPushTokens lib s rq)"
  "keeps (all_dbs outbox_typed) (userH_RevokeSession lib s rq)"
  "keeps (all_dbs outbox_typed) (userH_RevokeAllSessions lib s rq)"
  by (unfold user_operations, (intro typing_intros; simp)+)

lemmas auth_operations =
  authH_Register_def authH_Login_def authH_Refresh_def authH_Logout_def authH_LogoutAll_def
  authH_Sessions_def authH_PasswordForgot_def authH_PasswordReset_def writeAuthError_def
  authSvc_Register_def authSvc_Login_def authSvc_Refresh_def authSvc_Logout_def
  authSvc_LogoutAll_def authSvc_Sessions_def authSvc_PasswordForgot_def authSvc_PasswordReset_def
  ensureIdentityAvailable_def hashPassword_def userRepo_Create_def userRepo_CreateUserSettings_def
  getOrCreateDevice_def openSession_def newAccessToken_def getUserByIdentity_def
  userRepo_UpdateOnlineStatus_def userRepo_GetSessionByID_def session_over_def
  userRepo_RevokeSession_def rotateSession_def userRepo_RevokeAllUserSessions_def
  userRepo_GetUserSessions_def userRepo_UpdateUser_def available_if_def userRepo_GetUserByEmail_def
  userRepo_GetUserByUsername_def userRepo_GetUserByPhoneNumber_def userRepo_GetUserDevices_def
  userRepo_UpdateDeviceLastSeen_def userRepo_AddDevice_def generateToken_def
  userRepo_CreateSession_def or_else_def update_user_def userRepo_UpdateSession_def
  userRepo_GetUserByID_def update_device_def

lemma typed_authH [typing_intros]:
  "keeps (all_dbs outbox_typed) (authH_Register lib alib s rq)"
  "keeps (all_dbs outbox_typed) (authH_Login lib alib s rq)"
  "keeps (all_dbs outbox_typed) (authH_Refresh lib alib s rq)"
  "keeps (all_dbs outbox_typed) (authH_Logout lib alib s rq)"
  "keeps (all_dbs outbox_typed) (authH_LogoutAll lib s rq)"
  "keeps (all_dbs outbox_typed) (authH_Sessions lib s rq)"
  "keeps (all_dbs outbox_typed) (authH_PasswordForgot lib s rq)"
  "keeps (all_dbs outbox_typed) (authH_PasswordReset lib alib s rq)"
  by (unfold auth_operations, (intro typing_intros; simp)+)

lemmas encryption_operations =
  encryptionH_UploadIdentityKey_def encryptionH_GetIdentityKey_def
  encryptionH_UploadSignedPreKey_def encryptionH_GetSignedPreKey_def
  encryptionH_GetActiveSignedPreKey_def encryptionH_RotateSignedPreKey_def
  encryptionH_UploadOneTimePreKeys_def encryptionH_ConsumeOneTimePreKey_def
  encryptionH_GetPreKeyCount_def encryptionH_GetKeyBundle_def encryptionH_HasActiveKeys_def
  encryptionH_DeactivateIdentityKey_def encryptionH_DeleteIdentityKey_def
  encryptionH_DeactivateSignedPreKey_def keyOwner_def encSvc_CreateIdentityKey_def replyIdentity_def
  queriedKey_def encSvc_GetIdentityKey_def signedKey_def encSvc_CreateSignedPreKey_def
  replySigned_def encSvc_GetSignedPreKey_def encSvc_GetActiveSignedPreKey_def
  encSvc_RotateSignedPreKey_def encSvc_UploadOneTimePreKeys_def encSvc_ConsumeOneTimePreKey_def
  encSvc_GetAvailablePreKeyCount_def encSvc_GetKeyBundle_def encSvc_HasActiveKeys_def keyID_def
  encSvc_DeactivateIdentityKey_def encSvc_DeleteIdentityKey_def encSvc_DeactivateSignedPreKey_def
  encRepo_CreateIdentityKey_def encRepo_GetIdentityKey_def encRepo_CreateSignedPreKey_def
  encRepo_GetSignedPreKey_def encRepo_GetActiveSignedPreKey_def encRepo_RotateSignedPreKey_def
  encRepo_UploadOneTimePreKeys_def encRepo_ConsumeOneTimePreKey_def
  encRepo_GetAvailablePreKeyCount_def encRepo_IsDeviceOwnedByUser_def encRepo_HasActiveKeys_def
  encRepo_DeactivateIdentityKey_def encRepo_DeleteIdentityKey_def encRepo_DeactivateSignedPreKey_def
  insert_signed_prekey_def insert_onetime_prekey_def mark_consumed_def

lemma typed_encryptionH [typing_intros]:
  "keeps (all_dbs outbox_typed) (encryptionH_UploadIdentityKey lib s rq)"
  "keeps (all_dbs outbox_typed) (encryptionH_GetIdentityKey lib s rq)"
  "keeps (all_dbs outbox_typed) (encryptionH_UploadSignedPreKey lib s rq)"
  "keeps (all_dbs outbox_typed) (encryptionH_GetSignedPreKey lib s rq)"
  "keeps (all_dbs outbox_typed) (encryptionH_GetActiveSignedPreKey lib s rq)"
  "keeps (all_dbs outbox_typed) (encryptionH_RotateSignedPreKey lib s rq)"
  "keeps (all_dbs outbox_typed) (encryptionH_UploadOneTimePreKeys lib s rq)"
  "keeps (all_dbs outbox_typed) (encryptionH_ConsumeOneTimePreKey lib s rq)"
  "keeps (all_dbs outbox_typed) (encryptionH_GetPreKeyCount lib s rq)"
  "keeps (all_dbs outbox_typed) (encryptionH_GetKeyBundle lib s rq)"
  "keeps (all_dbs outbox_typed) (encryptionH_HasActiveKeys lib s rq)"
  "keeps (all_dbs outbox_typed) (encryptionH_DeactivateIdentityKey lib s rq)"
  "keeps (all_dbs outbox_typed) (encryptionH_DeleteIdentityKey lib s rq)"
  "keeps (all_dbs outbox_typed) (encryptionH_DeactivateSignedPreKey lib s rq)"
  by (unfold encryption_operations, (intro typing_intros; simp)+)

lemmas broadcast_operations =
  broadcastH_Create_def broadcastH_GetByID_def broadcastH_Update_def broadcastH_Delete_def
  broadcastH_ListByOwner_def broadcastH_Search_def broadcastH_AddRecipient_def
  broadcastH_RemoveRecipient_def broadcastH_ListRecipients_def broadcastH_RecipientCount_def
  broadcastH_IsRecipient_def broadcastH_BulkAddRecipients_def broadcastH_BulkRemoveRecipients_def
  broadcastSvc_Create_def broadcastID_def broadcastSvc_GetByID_def broadcastSvc_Update_def
  broadcastSvc_Delete_def broadcastSvc_GetUserBroadcastLists_def
  broadcastSvc_SearchBroadcastLists_def broadcastSvc_AddRecipient_def recipientID_def
  broadcastSvc_RemoveRecipient_def broadcastSvc_GetRecipients_def broadcastSvc_GetRecipientCount_def
  broadcastSvc_IsRecipient_def broadcastSvc_BulkAddRecipients_def
  broadcastSvc_BulkRemoveRecipients_def broadcastRepo_Create_def broadcastRepo_GetByID_def
  broadcastRepo_Update_def broadcastRepo_Delete_def broadcastRepo_GetUserBroadcastLists_def
  broadcastRepo_SearchBroadcastLists_def broadcastRepo_AddRecipient_def
  broadcastRepo_RemoveRecipient_def broadcastRepo_GetRecipients_def
  broadcastRepo_GetRecipientCount_def broadcastRepo_IsRecipient_def
  broadcastRepo_BulkAddRecipients_def broadcastRepo_BulkRemoveRecipients_def insert_recipient_def

lemma typed_delete_recipients [typing_intros]: "stmt_keeps outbox_typed (delete_recipients ps args)"
  by (auto simp: stmt_keeps_def delete_recipients_def stmt_simps outbox_typed_def split: option.splits list.splits)

lemma typed_broadcastH [typing_intros]:
  "keeps (all_dbs outbox_typed) (broadcastH_Create lib s rq)"
  "keeps (all_dbs outbox_typed) (broadcastH_GetByID lib s rq)"
  "keeps (all_dbs outbox_typed) (broadcastH_Update lib s rq)"
  "keeps (all_dbs outbox_typed) (broadcastH_Delete lib s rq)"
  "keeps (all_dbs outbox_typed) (broadcastH_ListByOwner lib s rq)"
  "keeps (all_dbs outbox_typed) (broadcastH_Search lib s rq)"
  "keeps (all_dbs outbox_typed) (broadcastH_AddRecipient lib s rq)"
  "keeps (all_dbs outbox_typed) (broadcastH_RemoveRecipient lib s rq)"
  "keeps (all_dbs outbox_typed) (broadcastH_ListRecipients lib s rq)"
  "keeps (all_dbs outbox_typed) (broadcastH_RecipientCount lib s rq)"
  "keeps (all_dbs outbox_typed) (broadcastH_IsRecipient lib s rq)"
  "keeps (all_dbs outbox_typed) (broadcastH_BulkAddRecipients lib s rq)"
  "keeps (all_dbs outbox_typed) (broadcastH_BulkRemoveRecipients lib s rq)"
  by (unfold broadcast_operations, (intro typing_intros; simp)+)

lemmas upload_operations =
  uploadH_Create_def uploadH_GetByID_def uploadH_Update_def uploadH_Delete_def uploadH_ListUser_def
  uploadH_ListCompleted_def uploadH_UpdateProgress_def uploadH_MarkCompleted_def
  uploadH_MarkFailed_def uploadH_ListInProgress_def uploadH_ListStale_def uploadH_DeleteStale_def
  configured_def CreatePresignedUpload_def uploadID_def uploadSvc_GetByID_def uploadSvc_Update_def
  uploadSvc_Delete_def uploaderID_def uploadSvc_GetUserUploadSessions_def
  uploadSvc_GetCompletedUploads_def uploadSvc_UpdateProgress_def MarkCompletedWithS3_def
  uploadSvc_MarkFailed_def uploadSvc_GetInProgressUploads_def uploadSvc_GetStaleUploads_def
  uploadSvc_DeleteStaleUploads_def PresignPut_def uploadRepo_Create_def uploadRepo_GetByID_def
  uploadRepo_Update_def uploadRepo_Delete_def uploadRepo_GetUserUploadSessions_def
  uploadRepo_GetCompletedUploads_def uploadRepo_UpdateProgress_def uploadRepo_MarkFailed_def
  uploadRepo_GetInProgressUploads_def uploadRepo_GetStaleUploads_def
  uploadRepo_DeleteStaleUploads_def update_upload_def

lemma typed_uploadH [typing_intros]:
  "keeps (all_dbs outbox_typed) (uploadH_Create lib s rq)"
  "keeps (all_dbs outbox_typed) (uploadH_GetByID lib s rq)"
  "keeps (all_dbs outbox_typed) (uploadH_Update lib s rq)"
  "keeps (all_dbs outbox_typed) (uploadH_Delete lib s rq)"
  "keeps (all_dbs outbox_typed) (uploadH_ListUser lib s rq)"
  "keeps (all_dbs outbox_typed) (uploadH_ListCompleted lib s rq)"
  "keeps (all_dbs outbox_typed) (uploadH_UpdateProgress lib s rq)"
  "keeps (all_dbs outbox_typed) (uploadH_MarkCompleted lib s rq)"
  "keeps (all_dbs outbox_typed) (uploadH_MarkFailed lib s rq)"
  "keeps (all_dbs outbox_typed) (uploadH_ListInProgress lib s rq)"
  "keeps (all_dbs outbox_typed) (uploadH_ListStale lib s rq)"
  "keeps (all_dbs outbox_typed) (uploadH_DeleteStale lib s rq)"
  by (unfold upload_operations, (intro typing_intros; simp)+)

lemmas call_operations =
  callH_Create_def callH_GetByID_def callH_ListByConversation_def callH_ListByUser_def
  callH_ActiveCalls_def callH_MissedCalls_def callH_AddParticipant_def callH_RemoveParticipant_def
  callH_ListParticipants_def callH_UpdateParticipantStatus_def callH_UpdateParticipantMute_def
  callH_MarkConnected_def callH_EndCall_def callH_GetCallDuration_def ensureDMCall_def
  callSvc_Create_def callID_def callSvc_GetByID_def callSvc_GetConversationCalls_def queriedUser_def
  callSvc_GetUserCalls_def callSvc_GetActiveCalls_def callSvc_GetMissedCalls_def dmCall_def
  callSvc_GetActiveParticipantCount_def callSvc_AddParticipant_def calleeID_def
  callSvc_RemoveParticipant_def callSvc_GetCallParticipants_def callSvc_UpdateParticipantStatus_def
  callSvc_UpdateParticipantMuteStatus_def callSvc_MarkConnected_def callSvc_EndCall_def
  callSvc_GetCallDuration_def convRepo_GetByID_def callRepo_Create_def CreateCallState_def
  callRepo_GetByID_def callRepo_GetConversationCalls_def callRepo_GetUserCalls_def
  callRepo_GetActiveCalls_def callRepo_GetMissedCalls_def callRepo_GetActiveParticipantCount_def
  callRepo_AddParticipant_def callRepo_RemoveParticipant_def callRepo_GetCallParticipants_def
  callRepo_UpdateParticipantStatus_def callRepo_UpdateParticipantMuteStatus_def
  callRepo_MarkConnected_def UpdateCallStatus_def callRepo_EndCall_def SendCallEnded_def
  RemoveCallState_def callRepo_GetCallDuration_def publishing_def load_participants_def
  callH_RecordQualityMetric_def callH_GetCallQualityMetrics_def callH_GetUserCallQualityMetrics_def
  callH_GetAverageCallQuality_def queriedCall_def timed_metric_def callSvc_RecordQualityMetric_def
  callSvc_GetCallQualityMetrics_def callSvc_GetUserCallQualityMetrics_def callSvc_GetAverageCallQuality_def
  callRepo_RecordQualityMetric_def callRepo_GetCallQualityMetrics_def callRepo_GetUserCallQualityMetrics_def
  callRepo_GetAverageCallQuality_def
  update_call_participant_def GetCallState_def UpdateCallState_def convRepo_GetParticipants_def

lemma typed_callH [typing_intros]:
  "keeps (on_first (all_dbs outbox_typed)) (callH_Create lib s gdb rq)"
  "keeps (on_first (all_dbs outbox_typed)) (callH_GetByID lib s rq)"
  "keeps (on_first (all_dbs outbox_typed)) (callH_ListByConversation lib s rq)"
  "keeps (on_first (all_dbs outbox_typed)) (callH_ListByUser lib s rq)"
  "keeps (on_first (all_dbs outbox_typed)) (callH_ActiveCalls lib s rq)"
  "keeps (on_first (all_dbs outbox_typed)) (callH_MissedCalls lib s rq)"
  "keeps (on_first (all_dbs outbox_typed)) (callH_AddParticipant lib s gdb rq)"
  "keeps (on_first (all_dbs outbox_typed)) (callH_RemoveParticipant lib s gdb rq)"
  "keeps (on_first (all_dbs outbox_typed)) (callH_ListParticipants lib s rq)"
  "keeps (on_first (all_dbs outbox_typed)) (callH_UpdateParticipantStatus lib s gdb rq)"
  "keeps (on_first (all_dbs outbox_typed)) (callH_UpdateParticipantMute lib s gdb rq)"
  "keeps (on_first (all_dbs outbox_typed)) (callH_MarkConnected lib s gdb rq)"
  "keeps (on_first (all_dbs outbox_typed)) (callH_EndCall lib s gdb rq)"
  "keeps (on_first (all_dbs outbox_typed)) (callH_GetCallDuration lib s rq)"
  "keeps (on_first (all_dbs outbox_typed)) (callH_RecordQualityMetric fl lib s gdb rq)"
  "keeps (on_first (all_dbs outbox_typed)) (callH_GetCallQualityMetrics fl lib s gdb rq)"
  "keeps (on_first (all_dbs outbox_typed)) (callH_GetUserCallQualityMetrics fl lib s gdb rq)"
  "keeps (on_first (all_dbs outbox_typed)) (callH_GetAverageCallQuality fl lib s gdb rq)"
  by (unfold call_operations, (intro typing_intros; simp)+)

section \<open>The hub keeps the outbox typed\<close>

lemmas hub_operations =
  handleRegister_def handleUnregister_def loadConversations_def setOnline_def readPump_turn_def
  handleMessage_def handleTypingStart_def handleTypingStop_def handleReadReceipt_def handlePing_def
  noteActivity_def ws_Handle_def connect_def authSvc_ParseAccessToken_def
  convSvc_GetUserConversations_def convRepo_GetUserConversations_def load_participants_def convRepo_GetParticipants_def
  userSvc_UpdateOnlineStatus_def userRepo_UpdateOnlineStatus_def update_user_def only_self_def
  convSvc_StartTyping_def convSvc_StopTyping_def
  msgSvc_MarkAsRead_def msgRepo_GetByID_def msgRepo_MarkAsRead_def set_read_def msgRepo_CreateReceipt_def insert_receipt_def

lemma keeps_case_panic [typing_intros]:
  "(\<And>m. keeps I (f m)) \<Longrightarrow> keeps I g \<Longrightarrow> keeps I (case e of Panic m \<Rightarrow> f m | _ \<Rightarrow> g)"
  by (simp split: error.split)

lemma typed_hub [typing_intros]:
  "keeps (on_first (all_dbs outbox_typed)) (handleRegister a)"
  "keeps (on_first (all_dbs outbox_typed)) (handleUnregister a)"
  "keeps (on_first (all_dbs outbox_typed)) (readPump_turn a m)"
  "keeps (on_first (all_dbs outbox_typed)) (ws_Handle lib s q header up)"
  "keeps (on_first (all_dbs outbox_typed)) (noteActivity a)"
  by (unfold hub_operations, (intro typing_intros; simp)+)

section \<open>The server\<close>

lemma keeps_withHeaders [typing_intros]: "keeps I h \<Longrightarrow> keeps I (withHeaders hs h)"
  unfolding withHeaders_def by (intro typing_intros)

lemma typed_limited [typing_intros]: "keeps (on_first I) h \<Longrightarrow> keeps (on_first I) (limited check msg h)"
  unfolding limited_def by (intro typing_intros)

lemma typed_rate_limits [typing_intros]:
  "keeps (on_first I) h \<Longrightarrow> keeps (on_first I) (RateLimitMiddleware l hq h)"
  "keeps (on_first I) h \<Longrightarrow> keeps (on_first I) (MessageRateLimitMiddleware l rq h)"
  "keeps (on_first I) h \<Longrightarrow> keeps (on_first I) (CallRateLimitMiddleware l rq h)"
  by (auto simp: RateLimitMiddleware_def MessageRateLimitMiddleware_def CallRateLimitMiddleware_def
      intro!: typing_intros split: option.split)

lemma typed_guarded [typing_intros]:
  "(\<And>rq. keeps (on_first (all_dbs outbox_typed)) (h rq)) \<Longrightarrow>
   keeps (on_first (all_dbs outbox_typed)) (guarded sv h hq rq)"
  unfolding guarded_def authenticated_def AuthMiddleware_def authSvc_ParseAccessToken_def authSvc_ValidateSession_def
    userRepo_GetSessionByID_def by (intro typing_intros)

lemma typed_on_db [typing_intros]: "keeps I (h rq) \<Longrightarrow> keeps (on_first I) (on_db h rq)"
  unfolding on_db_def by (intro typing_intros)

lemma typed_lifts [typing_intros]:
  "keeps (on_first I) m \<Longrightarrow> keeps (on_first I) (on_backing m)"
  "keeps (on_first I) k \<Longrightarrow> keeps (on_first I) (on_sockets k)"
  by (auto simp: keeps_def on_first_def on_backing_def on_sockets_def split: prod.splits) (metis fst_conv snd_conv)+

lemma typed_on_calls [typing_intros]: "keeps (on_first I) (h rq) \<Longrightarrow> keeps (on_first I) (on_calls h rq)"
  unfolding on_calls_def by (intro typing_intros)

lemma typed_ws_response [typing_intros]: "keeps I (ws_response handshake reply)"
  by (cases reply) (simp_all add: JSON_def AbortWithStatus_def keeps_return)

lemma typed_routes:
  assumes "(k, c) \<in> set (SetupRoutes sv)"
  shows "keeps (on_first (all_dbs outbox_typed)) (c hq rq)"
  using assms
  unfolding SetupRoutes_def wsRoute_def authRoutes_def messageRoutes_def conversationRoutes_def userRoutes_def callRoutes_def
      uploadRoutes_def encryptionRoutes_def broadcastRoutes_def group_def Let_def pingRoute_def healthRoute_def
      goroutinesRoute_def HealthCheck_def Ping_def TableExists_def
  by (auto split: option.splits if_splits intro!: typing_intros)

lemma typed_ServeHTTP: "keeps (on_first (all_dbs outbox_typed)) (ServeHTTP sv hq)"
  unfolding ServeHTTP_def RequestIDMiddleware_def CORSMiddleware_def dispatch_def Let_def
  by (auto intro!: typing_intros intro: typed_routes map_of_SomeD split: option.split)


section \<open>The worker\<close>

lemma typed_update_event [typing_intros]:
  assumes "\<And>e. event_ok e \<Longrightarrow> event_ok (f e)"
  shows "keeps (all_dbs outbox_typed) (update_event p i f)"
proof -
  have "stmt_keeps outbox_typed (on_table t_outbox t_outbox_update (update_where (\<lambda>e. ob_ID e = i) f))"
    using assms by (auto simp: stmt_keeps_def on_table_def update_where_def map_where_def outbox_typed_def
        list.pred_map list_all_iff)
  then show ?thesis unfolding update_event_def by (intro keeps_void keeps_affected keeps_all_dbs_sql)
qed

lemma typed_marks [typing_intros]:
  "keeps (all_dbs outbox_typed) (orp_GetPending postgres_outbox n)"
  "keeps (all_dbs outbox_typed) (orp_MarkProcessing postgres_outbox i)"
  "keeps (all_dbs outbox_typed) (orp_MarkCompleted postgres_outbox i)"
  "keeps (all_dbs outbox_typed) (orp_MarkFailed postgres_outbox i msg)"
  "keeps (all_dbs outbox_typed) (orp_IncrementRetry postgres_outbox i)"
  by (simp add: postgres_outbox_def, unfold outboxRepo_GetPending_def outboxRepo_MarkProcessing_def
      outboxRepo_MarkCompleted_def outboxRepo_MarkFailed_def outboxRepo_IncrementRetry_def Let_def,
      (intro typing_intros; simp add: event_ok_def)+)+

lemma GetPending_typed:
  assumes "run_state (orp_GetPending postgres_outbox n) w = (Inr es, w')" "outbox_typed (w_db w)"
  shows "list_all event_ok es"
  using assms
  by (auto simp: postgres_outbox_def outboxRepo_GetPending_def sql_Pool_Inr query_page_def offset_limit_def
      outbox_typed_def list_all_iff split: if_splits dest!: in_set_takeD)

text \<open>What the bus has sent is well typed, too, and went to channels of the event it encodes.\<close>

definition bus_typed :: "RedisBus \<Rightarrow> bool" where
  "bus_typed b \<longleftrightarrow> (\<forall>(c, data)\<in>set (bus_sent b).
     \<exists>ev. data = event_json ev \<and> event_Type ev \<in> tags_of ev \<and> wire ev = ev \<and> c \<in> set (ResolveChannels ev))"

lemma bus_Publish_typed:
  assumes "run_state (bus_Publish ev) b = (r, b')" "bus_typed b" "event_Type ev \<in> tags_of ev" "wire ev = ev"
  shows "bus_typed b'"
proof -
  have "bus_typed (fold (publish_channel (event_json ev)) cs b)"
    if "bus_typed b" "set cs \<subseteq> set (ResolveChannels ev)" for cs b
    using that
  proof (induction cs arbitrary: b)
    case (Cons c cs)
    then have "bus_typed (publish_channel (event_json ev) c b)"
      using assms(3,4) by (auto simp: publish_channel_def bus_typed_def)
    with Cons show ?case by simp
  qed simp
  then show ?thesis using assms by (auto simp: bus_Publish_def Let_def split: if_splits)
qed

text \<open>An invariant of the outbox and the bus\<close>

definition sent_typed :: "world \<times> RedisBus \<Rightarrow> bool" where
  "sent_typed s \<longleftrightarrow> all_dbs outbox_typed (fst s) \<and> bus_typed (snd s)"

lemma keeps_sent_on_store [typing_intros]:
  "keeps (all_dbs outbox_typed) m \<Longrightarrow> keeps sent_typed (on_store m)"
  by (auto simp: keeps_def sent_typed_def)

lemma typed_processEvent:
  assumes "event_ok e"
  shows "keeps sent_typed (processEvent postgres_outbox bus_Publish e)"
proof -
  from assms obtain ev where ev: "unmarshalEvent (ob_EventType e) (ob_Payload e) = Some (wire ev)"
    "event_Type ev \<in> tags_of ev" by (auto simp: event_ok_def unmarshal_wire)
  have "keeps sent_typed (on_bus (bus_Publish (wire ev)))"
    using bus_Publish_typed [of "wire ev"] ev(2) by (auto simp: keeps_def sent_typed_def) (metis prod.collapse)
  with ev(1) show ?thesis
    unfolding processEvent_def by (simp, intro typing_intros)
qed

lemma typed_processEvents:
  "list_all event_ok es \<Longrightarrow> keeps sent_typed (processEvents postgres_outbox bus_Publish es)"
  by (induction es) (simp_all add: keeps_return keeps_bind typed_processEvent)

lemma typed_processBatch:
  assumes "sent_typed s" "run_state (processBatch postgres_outbox bus_Publish) s = (u, s')"
  shows "sent_typed s'"
proof -
  obtain w b where s: "s = (w, b)" by fastforce
  obtain r w1 where get: "run_state (orp_GetPending postgres_outbox batchSize) w = (r, w1)" by fastforce
  have "sent_typed (w1, b)"
    using keepsD [OF typed_marks(1) _ get] assms(1) by (auto simp: sent_typed_def s)
  moreover have "list_all event_ok es" if "r = Inr es" for es
    using GetPending_typed [OF get [unfolded that]] assms(1) by (simp add: sent_typed_def all_dbs_def s)
  ultimately show ?thesis
    using assms(2) get keepsD [OF typed_processEvents]
    by (auto simp: s processBatch_def split: sum.splits)
qed

end
