(* ===== verification/Backend.thy ===== *)
theory Backend
  imports OutboxTyping
begin

text \<open>
  The whole process of \<^verbatim>\<open>cmd/api/main.go\<close>: the HTTP server, the outbox worker, the event bus and the
  WebSocket hub on one database and one Redis server, with the step relation of everything that runs
  at the same time.
\<close>

section \<open>Steps of the process\<close>

text \<open>
  \<open>bk_listener\<close> is the receiving half of the bus, to which the hub subscribes once for each of its
  event types; its one handler is the \<^verbatim>\<open>WebSocketEventHandler\<close> of the hub.
\<close>

record Backend =
  bk_world :: world
  bk_redis :: redis
  bk_bus :: RedisBus
  bk_hub :: Hub

definition hub_listener :: "unit Listener" where
  "hub_listener = fold (\<lambda>ty. bus_Subscribe ty ()) subscribedEvents NewListener"

text \<open>
  The server answers a request, whole, be it one for a WebSocket, or the worker's ticker fires; the bus starts or
  stops; Redis refuses some channels; the hub takes from its channels, receives from a client, and hears what
  the bus has sent, any number of times and in any order. Identifiers yet to be drawn are none of a client.
\<close>

inductive backend_step :: "Server \<Rightarrow> Backend \<Rightarrow> Backend \<Rightarrow> bool" for sv where
  request: "(\<And>n a c. w_step (bk_world s) \<le> n \<Longrightarrow> hub_heap (bk_hub s) a = Some c \<Longrightarrow>
      cl_clientID c \<noteq> uuid_String (w_new (bk_world s) n)) \<Longrightarrow>
    run_state (ServeHTTP sv hq) (bk_world s, bk_redis s, bk_hub s) = (r, (w', rd', h')) \<Longrightarrow>
    backend_step sv s (s\<lparr>bk_world := w', bk_redis := rd', bk_hub := h'\<rparr>)"
| tick: "run_state (processBatch postgres_outbox bus_Publish) (bk_world s, bk_bus s) = (u, (w', b')) \<Longrightarrow>
    backend_step sv s (s\<lparr>bk_world := w', bk_bus := b'\<rparr>)"
| bus_start: "backend_step sv s (s\<lparr>bk_bus := bus_Start (bk_bus s)\<rparr>)"
| bus_stop: "backend_step sv s (s\<lparr>bk_bus := bus_Stop (bk_bus s)\<rparr>)"
| refuse: "backend_step sv s (s\<lparr>bk_bus := (bk_bus s)\<lparr>bus_down := down\<rparr>\<rparr>)"
| register: "hub_register (bk_hub s) = a # q \<Longrightarrow>
    run_state (handleRegister a) (bk_world s, (bk_hub s)\<lparr>hub_register := q\<rparr>) = (x, (w', h')) \<Longrightarrow>
    backend_step sv s (s\<lparr>bk_world := w', bk_hub := h'\<rparr>)"
| unregister: "hub_unregister (bk_hub s) = a # q \<Longrightarrow>
    run_state (handleUnregister a) (bk_world s, (bk_hub s)\<lparr>hub_unregister := q\<rparr>) = (x, (w', h')) \<Longrightarrow>
    backend_step sv s (s\<lparr>bk_world := w', bk_hub := h'\<rparr>)"
| broadcast: "hub_broadcast (bk_hub s) = msg # q \<Longrightarrow>
    run_state (handleBroadcast msg) ((bk_hub s)\<lparr>hub_broadcast := q\<rparr>) = (x, h') \<Longrightarrow>
    backend_step sv s (s\<lparr>bk_hub := h'\<rparr>)"
| hear: "(c, data) \<in> set (bus_sent (bk_bus s)) \<Longrightarrow> (h, e) \<in> set (bus_listen hub_listener data) \<Longrightarrow>
    run_state (handleEvent e) (bk_hub s) = (u, h') \<Longrightarrow> backend_step sv s (s\<lparr>bk_hub := h'\<rparr>)"
| receive: "run_state (readPump_turn a m) (bk_world s, bk_hub s) = (x, (w', h')) \<Longrightarrow>
    backend_step sv s (s\<lparr>bk_world := w', bk_hub := h'\<rparr>)"
| hang_up: "hub_heap (bk_hub s) a \<noteq> None \<Longrightarrow> run_state (readPump_end a) (bk_hub s) = (u, h') \<Longrightarrow>
    backend_step sv s (s\<lparr>bk_hub := h'\<rparr>)"
| flush: "run_state (writePump_turn a) (bk_hub s) = (x, h') \<Longrightarrow> backend_step sv s (s\<lparr>bk_hub := h'\<rparr>)"
| pong: "run_state (noteActivity a) (bk_world s, bk_hub s) = (u, (w', h')) \<Longrightarrow>
    backend_step sv s (s\<lparr>bk_world := w', bk_hub := h'\<rparr>)"
| give_up: "run_state (writePump_fail taken a) (bk_hub s) = (u, h') \<Longrightarrow> backend_step sv s (s\<lparr>bk_hub := h'\<rparr>)"

text \<open>How the process begins: an empty outbox, a new bus and a new hub\<close>

definition backend_init :: "Backend \<Rightarrow> bool" where
  "backend_init s \<longleftrightarrow> t_outbox (w_db (bk_world s)) = [] \<and> w_tx (bk_world s) = None \<and> bus_sent (bk_bus s) = [] \<and>
     (\<exists>cs ms us pick. bk_hub s = NewHub cs ms us pick)"

abbreviation backend_steps :: "Server \<Rightarrow> Backend \<Rightarrow> Backend \<Rightarrow> bool" where
  "backend_steps sv \<equiv> (backend_step sv)\<^sup>*\<^sup>*"

section \<open>Invariants\<close>

definition backend_typed :: "Backend \<Rightarrow> bool" where
  "backend_typed s \<longleftrightarrow> sent_typed (bk_world s, bk_bus s)"

lemma backend_step_typed: "backend_step sv s s' \<Longrightarrow> backend_typed s \<Longrightarrow> backend_typed s'"
proof (induction rule: backend_step.induct)
  case (request s hq r w' rd' h')
  then show ?case using keepsD [OF typed_ServeHTTP _ request(2)]
    by (simp add: backend_typed_def sent_typed_def on_first_def)
next
  case (tick s u w' b')
  then show ?case using typed_processBatch [OF _ tick(1)] by (simp add: backend_typed_def)
next
  case (register s a q x w' h')
  then show ?case using keepsD [OF typed_hub(1) _ register(2)]
    by (simp add: backend_typed_def sent_typed_def on_first_def)
next
  case (unregister s a q x w' h')
  then show ?case using keepsD [OF typed_hub(2) _ unregister(2)]
    by (simp add: backend_typed_def sent_typed_def on_first_def)
next
  case (receive a m s x w' h')
  then show ?case using keepsD [OF typed_hub(3) _ receive(1)]
    by (simp add: backend_typed_def sent_typed_def on_first_def)
next
  case (pong a s u w' h')
  then show ?case using keepsD [OF typed_hub(5) _ pong(1)]
    by (simp add: backend_typed_def sent_typed_def on_first_def)
qed (simp_all add: backend_typed_def sent_typed_def bus_typed_def bus_Start_def bus_Stop_def)

lemma backend_steps_typed: "backend_steps sv s s' \<Longrightarrow> backend_init s \<Longrightarrow> backend_typed s'"
proof (induction rule: rtranclp_induct)
  case base
  then show ?case
    by (auto simp: backend_init_def backend_typed_def sent_typed_def all_dbs_def outbox_typed_def bus_typed_def)
qed (auto dest: backend_step_typed)

text \<open>
  No request but one for a WebSocket does anything that the hub sees; that one is a \<open>connect\<close> of the hub, or
  nothing.
\<close>

definition hub_reached :: "server_state \<Rightarrow> bool" where
  "hub_reached s \<longleftrightarrow> (case s of (w, rd, h) \<Rightarrow> hub_reach (w, h))"

lemma hub_reach_elsewhere: "hub_reach (w, h) \<Longrightarrow> hub_reach (w', h)"
  using hub_step.elsewhere hub_reach.step by blast

lemma keeps_hub_reached [typing_intros]:
  "keeps hub_reached (on_store m)" "keeps hub_reached (on_bus (on_store c))" "keeps hub_reached (on_backing b)"
  by (auto simp: keeps_def hub_reached_def on_backing_def intro: hub_reach_elsewhere split: prod.splits)

lemma reached_limited [typing_intros]: "keeps hub_reached h \<Longrightarrow> keeps hub_reached (limited check msg h)"
  unfolding limited_def by (intro typing_intros)

lemma reached_rate_limits [typing_intros]:
  "keeps hub_reached h \<Longrightarrow> keeps hub_reached (MessageRateLimitMiddleware l rq h)"
  "keeps hub_reached h \<Longrightarrow> keeps hub_reached (CallRateLimitMiddleware l rq h)"
  by (auto simp: MessageRateLimitMiddleware_def CallRateLimitMiddleware_def intro!: typing_intros split: option.split)

lemma reached_guarded [typing_intros]:
  "(\<And>rq. keeps hub_reached (h rq)) \<Longrightarrow> keeps hub_reached (guarded sv h hq rq)"
  unfolding guarded_def authenticated_def by (intro typing_intros)

lemma reached_lifts [typing_intros]: "keeps hub_reached (on_db h rq)" "keeps hub_reached (on_calls k rq)"
  unfolding on_db_def on_calls_def by (intro typing_intros)+

lemma routes_beside_the_hub:
  assumes "(k, c) \<in> set (SetupRoutes sv)" "k \<noteq> (''GET'', ''/v1/ws'')"
  shows "keeps hub_reached (c hq rq)"
  using assms
  unfolding SetupRoutes_def wsRoute_def authRoutes_def messageRoutes_def conversationRoutes_def userRoutes_def callRoutes_def
      uploadRoutes_def encryptionRoutes_def broadcastRoutes_def group_def Let_def pingRoute_def healthRoute_def
      goroutinesRoute_def
  by (auto split: option.splits if_splits intro!: typing_intros)

lemma ws_Handle_hub:
  assumes "run_state (ws_Handle lib s q header up) (w, h) = (reply, (w', h'))"
    and "\<And>n a c. w_step w \<le> n \<Longrightarrow> hub_heap h a = Some c \<Longrightarrow> cl_clientID c \<noteq> uuid_String (w_new w n)"
    and "hub_reach (w, h)"
  shows "hub_reach (w', h')"
proof -
  from assms(1) consider "h' = h"
    | w1 u d a where "run_state (connect u d) (w1, h) = (a, (w', h'))" "w_new w1 = w_new w" "w_step w \<le> w_step w1"
    by (auto simp: ws_Handle_def authSvc_ParseAccessToken_def Let_def split: if_splits sum.splits option.splits prod.splits)
  then show ?thesis
  proof cases
    case 1
    then show ?thesis using assms(3) hub_reach_elsewhere by simp
  next
    case 2
    with assms(2) have "hub_step (w1, h) (w', h')" by (metis hub_step.connect)
    then show ?thesis using assms(3) hub_reach_elsewhere hub_reach.step by blast
  qed
qed

lemma ServeHTTP_hub:
  assumes run: "run_state (ServeHTTP sv hq) (w, rd, h) = (r, (w', rd', h'))"
    and fresh: "\<And>n a c. w_step w \<le> n \<Longrightarrow> hub_heap h a = Some c \<Longrightarrow> cl_clientID c \<noteq> uuid_String (w_new w n)"
    and reach: "hub_reach (w, h)"
  shows "hub_reach (w', h')"
  using run
proof (cases rule: ServeHTTP_cases)
  case 1
  with reach show ?thesis by simp
next
  case (2 rd1 r0)
  show ?thesis
  proof (cases "\<exists>pattern params c. sv_match sv (hq_method hq) (hq_path hq) = Some (pattern, params) \<and>
      map_of (SetupRoutes sv) (hq_method hq, pattern) = Some c")
    case False
    with 2 reach show ?thesis by (auto simp: dispatch_def AbortWithStatus_def split: option.splits)
  next
    case True
    then obtain pattern params c where c: "sv_match sv (hq_method hq) (hq_path hq) = Some (pattern, params)"
      "map_of (SetupRoutes sv) (hq_method hq, pattern) = Some c" by blast
    with 2 have chain: "run_state (c hq (request_of hq params)) (w, rd1, h) = (r0, (w', rd', h'))"
      by (simp add: dispatch_def request_of_def)
    show ?thesis
    proof (cases "(hq_method hq, pattern) = (''GET'', ''/v1/ws'')")
      case True
      with c(2) chain obtain reply where
        "run_state (ws_Handle (sv_auth_lib sv) (sv_auth sv) (hq_query hq ''token'') (hq_header hq ''Authorization'')
          (hq_handshake hq = None)) (w, h) = (reply, (w', h'))"
        by (auto elim: ws_route)
      from ws_Handle_hub [OF this fresh reach] show ?thesis .
    next
      case False
      from keepsD [OF routes_beside_the_hub [OF map_of_SomeD [OF c(2)] False] _ chain] reach
      show ?thesis by (simp add: hub_reached_def)
    qed
  qed
qed

text \<open>Every run of the process is a run of the hub: the rest of it is a world that changes.\<close>

lemma backend_step_reach:
  "backend_step sv s s' \<Longrightarrow> hub_reach (bk_world s, bk_hub s) \<Longrightarrow> hub_reach (bk_world s', bk_hub s')"
proof (induction rule: backend_step.induct)
  case (request s hq r w' rd' h')
  then show ?case using ServeHTTP_hub [OF request(2)] by simp
next
  case (hear c data s h e u h')
  then show ?case by (auto intro: hub_reach.step hub_step.event)
qed (auto intro: hub_reach.step hub_step.intros)

lemma backend_steps_reach: "backend_steps sv s s' \<Longrightarrow> backend_init s \<Longrightarrow> hub_reach (bk_world s', bk_hub s')"
proof (induction rule: rtranclp_induct)
  case base
  then show ?case by (auto simp: backend_init_def intro: hub_reach.start)
qed (auto intro: backend_step_reach)

lemma hub_listener_handlers:
  "ls_handlers hub_listener ty = (if ty \<in> set subscribedEvents then [()] else [])" "\<not> ls_done hub_listener"
  by (simp_all add: hub_listener_def NewListener_def bus_Subscribe_def subscribedEvents_def event_type_defs)

end
