(* ===== verification/SendRace.thy ===== *)
theory SendRace
  imports MessageService
begin

text \<open>
  \<^verbatim>\<open>executeSendMessage\<close> of \<^verbatim>\<open>internal/services/message_service.go\<close> points the shared field
  \<^verbatim>\<open>s.messageRepo\<close> to the repository of its own transaction and puts the previous one back when the
  transaction function returns, without a lock. Theory \<open>MessageService\<close> runs one request after the other,
  where that is the same as passing the transaction on; here requests overlap. A handle is the
  repository of the pool or that of the transaction of the \<open>n\<close>-th send.
\<close>

datatype repo_handle = PoolRepo | TxRepo nat

text \<open>A send has not begun, is inside its transaction and remembers \<^verbatim>\<open>prevMsgRepo\<close>, or is over.\<close>

datatype send_phase = NotBegun | InTransaction repo_handle | Over

type_synonym send_state = "repo_handle \<times> (nat \<Rightarrow> send_phase)"

inductive send_step :: "send_state \<Rightarrow> send_state \<Rightarrow> bool" where
  enter: "phase n = NotBegun \<Longrightarrow> send_step (repo, phase) (TxRepo n, phase(n := InTransaction repo))"
| leave: "phase n = InTransaction prev \<Longrightarrow> send_step (repo, phase) (prev, phase(n := Over))"

abbreviation send_steps :: "send_state \<Rightarrow> send_state \<Rightarrow> bool" where
  "send_steps \<equiv> send_step\<^sup>*\<^sup>*"

definition all_idle :: "(nat \<Rightarrow> send_phase) \<Rightarrow> bool" where
  "all_idle phase \<longleftrightarrow> (\<forall>n prev. phase n \<noteq> InTransaction prev)"

text \<open>The service's repository for a handle: the pool, or a transaction, which only its send has open.\<close>

definition with_repo :: "repo_handle \<Rightarrow> MessageService \<Rightarrow> MessageService" where
  "with_repo r s = s\<lparr>msv_messageRepo := (case r of PoolRepo \<Rightarrow> Pool | TxRepo _ \<Rightarrow> Tx)\<rparr>"

section \<open>Sends that do not overlap\<close>

inductive send_alone :: "send_state \<Rightarrow> send_state \<Rightarrow> bool" where
  "phase n = NotBegun \<Longrightarrow> send_alone (repo, phase) (repo, phase(n := Over))"

lemma send_alone_steps: "send_alone s s' \<Longrightarrow> send_steps s s'"
proof (induction rule: send_alone.induct)
  case (1 phase n repo)
  then have "send_step (repo, phase) (TxRepo n, phase(n := InTransaction repo))" by (rule send_step.enter)
  moreover have "send_step (TxRepo n, phase(n := InTransaction repo)) (repo, phase(n := Over))"
    using send_step.leave [of "phase(n := InTransaction repo)" n repo "TxRepo n"] by simp
  ultimately show ?case by (meson converse_rtranclp_into_rtranclp r_into_rtranclp)
qed

section \<open>The pool is lost\<close>

text \<open>Neither the field nor any send in progress knows the repository of the pool any more.\<close>

definition pool_lost :: "send_state \<Rightarrow> bool" where
  "pool_lost s \<longleftrightarrow> fst s \<noteq> PoolRepo \<and> (\<forall>n. snd s n \<noteq> InTransaction PoolRepo)"

lemma pool_lost_step: "send_step s s' \<Longrightarrow> pool_lost s \<Longrightarrow> pool_lost s'"
  by (induction rule: send_step.induct) (auto simp: pool_lost_def)

lemma pool_lost_steps: "send_steps s s' \<Longrightarrow> pool_lost s \<Longrightarrow> pool_lost s'"
  by (induction rule: rtranclp_induct) (auto intro: pool_lost_step)

lemma overlap_loses_pool:
  assumes "a \<noteq> b" "phase a = NotBegun" "phase b = NotBegun" "all_idle phase"
  shows "\<exists>s. send_steps (PoolRepo, phase) s \<and> pool_lost s \<and> all_idle (snd s)"
proof -
  let ?p1 = "phase(a := InTransaction PoolRepo)" and ?p2 = "phase(a := InTransaction PoolRepo, b := InTransaction (TxRepo a))"
  let ?p3 = "phase(a := Over, b := InTransaction (TxRepo a))" and ?p4 = "phase(a := Over, b := Over)"
  have "send_step (PoolRepo, phase) (TxRepo a, ?p1)" using assms(2) by (rule send_step.enter)
  moreover have "send_step (TxRepo a, ?p1) (TxRepo b, ?p2)"
    using send_step.enter [of ?p1 b "TxRepo a"] assms(1,3) by simp
  moreover have "send_step (TxRepo b, ?p2) (PoolRepo, ?p3)"
    using send_step.leave [of ?p2 a PoolRepo "TxRepo b"] assms(1) by (simp add: fun_upd_twist)
  moreover have "send_step (PoolRepo, ?p3) (TxRepo a, ?p4)"
    using send_step.leave [of ?p3 b "TxRepo a" PoolRepo] by simp
  ultimately have "send_steps (PoolRepo, phase) (TxRepo a, ?p4)"
    by (meson converse_rtranclp_into_rtranclp rtranclp.rtrancl_refl)
  moreover have "pool_lost (TxRepo a, ?p4)" "all_idle ?p4"
    using assms(4) by (auto simp: pool_lost_def all_idle_def)
  ultimately show ?thesis by (intro exI [of _ "(TxRepo a, ?p4)"]) simp
qed

text \<open>A repository whose transaction is over refuses every statement.\<close>

lemma closed_repo_refuses:
  assumes "r \<noteq> PoolRepo" "w_tx w = None" "msv_conversationRepo s = Some Pool"
  shows "isl (fst (run_state (msgSvc_GetConversationMessages (with_repo r s) ctx c before limit u) w))"
    and "isl (fst (run_state (msgSvc_MarkAsRead (with_repo r s) i u) w))"
    and "isl (fst (run_state (msgSvc_Delete (with_repo r s) i) w))"
proof -
  have repo: "msv_messageRepo (with_repo r s) = Tx" "msv_conversationRepo (with_repo r s) = Some Pool"
    using assms(1,3) by (auto simp: with_repo_def split: repo_handle.split)
  show "isl (fst (run_state (msgSvc_MarkAsRead (with_repo r s) i u) w))"
    "isl (fst (run_state (msgSvc_Delete (with_repo r s) i) w))"
    using assms(2) by (simp_all add: repo msgSvc_MarkAsRead_def msgRepo_GetByID_def queryRow_def msgSvc_Delete_def
        msgRepo_SoftDelete_def affected_def run_sql_Tx Let_def)
  obtain q w1 where q: "run_state (convRepo_IsParticipant Pool c u) w = (q, w1)" by fastforce
  have "keeps no_tx (convRepo_IsParticipant Pool c u)"
    unfolding convRepo_IsParticipant_def by (intro keeps_intros)
  from keepsD [OF this _ q] assms(2) have "w_tx w1 = None" by (simp add: no_tx_def)
  with q show "isl (fst (run_state (msgSvc_GetConversationMessages (with_repo r s) ctx c before limit u) w))"
    by (auto simp: repo msgSvc_GetConversationMessages_def msgRepo_GetConversationMessages_def run_sql_Tx Let_def
        split: sum.split option.split)
qed

text \<open>
  C12. Two sends at the same time disable the message service for good. From a service at rest, let two
  sends overlap so that the first to begin is the first to end: afterwards no send is in progress, but
  the service holds the repository of a transaction that is over, and whatever is sent later, it never
  holds the one of the pool again. With such a repository listing the messages of a conversation,
  marking one as read and deleting one fail on every database.
\<close>

theorem Overlapping_sends_lose_the_pool:
  assumes "a \<noteq> b" "phase a = NotBegun" "phase b = NotBegun" "all_idle phase"
  shows "\<exists>s1. send_steps (PoolRepo, phase) s1 \<and> all_idle (snd s1) \<and>
    (\<forall>r later svc w. send_steps s1 (r, later) \<longrightarrow> msv_conversationRepo svc = Some Pool \<longrightarrow> w_tx w = None \<longrightarrow>
      r \<noteq> PoolRepo \<and>
      isl (fst (run_state (msgSvc_GetConversationMessages (with_repo r svc) ctx c before limit u) w)) \<and>
      isl (fst (run_state (msgSvc_MarkAsRead (with_repo r svc) i u) w)) \<and>
      isl (fst (run_state (msgSvc_Delete (with_repo r svc) i) w)))"
proof -
  obtain s1 where s1: "send_steps (PoolRepo, phase) s1" "all_idle (snd s1)" and lost: "pool_lost s1"
    using overlap_loses_pool [OF assms] by blast
  have "r \<noteq> PoolRepo" if "send_steps s1 (r, later)" for r later
    using pool_lost_steps [OF that lost] by (simp add: pool_lost_def)
  with s1 closed_repo_refuses show ?thesis by blast
qed

lemma Overlapping_sends_lose_the_pool_witness:
  "\<exists>s1. send_steps (PoolRepo, \<lambda>_. NotBegun) s1 \<and> all_idle (snd s1) \<and>
     isl (fst (run_state (msgSvc_Delete (with_repo (fst s1) sample_service) 100) sample_world))"
proof -
  have "(0::nat) \<noteq> 1" "all_idle (\<lambda>_. NotBegun)" by (simp_all add: all_idle_def)
  from Overlapping_sends_lose_the_pool [OF this(1) refl refl this(2), of undefined undefined undefined undefined undefined 100]
  obtain s1 where s1: "send_steps (PoolRepo, \<lambda>_. NotBegun) s1" "all_idle (snd s1)" and
    later: "\<forall>r later svc w. send_steps s1 (r, later) \<longrightarrow> msv_conversationRepo svc = Some Pool \<longrightarrow> w_tx w = None \<longrightarrow>
      isl (fst (run_state (msgSvc_Delete (with_repo r svc) 100) w))" by blast
  have "msv_conversationRepo sample_service = Some Pool" "w_tx sample_world = None" "send_steps s1 (fst s1, snd s1)"
    by (simp_all add: sample_service_def sample_world_def)
  with later s1 show ?thesis by blast
qed

end
