(* ===== verification/Logging.thy ===== *)
theory Logging
  imports Server
begin

text \<open>
  The log: \<^verbatim>\<open>pkg/logger/logger.go\<close>, the logger of the WebSocket hub (\<^verbatim>\<open>internal/server/websocket_logger.go\<close>)
  and the middlewares \<^verbatim>\<open>LoggingMiddleware\<close> and \<^verbatim>\<open>ErrorHandler\<close>, which stand around the server of theory
  \<open>Server\<close>.

  Zap is a parameter: its configurations are opaque, and of a logger only the least level that it
  records matters. An entry of the log has the template and the arguments that it was made from.
\<close>

section \<open>Levels\<close>

datatype log_level = DebugLevel | InfoLevel | WarnLevel | ErrorLevel

fun level_rank :: "log_level \<Rightarrow> nat" where
  "level_rank DebugLevel = 0"
| "level_rank InfoLevel = 1"
| "level_rank WarnLevel = 2"
| "level_rank ErrorLevel = 3"

lemma level_rank_inject: "level_rank a = level_rank b \<Longrightarrow> a = b"
  by (cases a; cases b) simp_all

instantiation log_level :: linorder
begin

definition less_eq_log_level :: "log_level \<Rightarrow> log_level \<Rightarrow> bool" where
  "a \<le> b \<longleftrightarrow> level_rank a \<le> level_rank b"

definition less_log_level :: "log_level \<Rightarrow> log_level \<Rightarrow> bool" where
  "a < b \<longleftrightarrow> level_rank a < level_rank b"

instance
  by standard (auto simp: less_eq_log_level_def less_log_level_def level_rank_inject)

end

section \<open>Loggers\<close>

datatype log_arg = ArgText string | ArgInt int | ArgDuration duration | ArgError error | ArgUUID uuid

record log_entry =
  le_level :: log_level
  le_message :: string
  le_args :: "log_arg list"
  le_fields :: "(string \<times> log_arg) list"

type_synonym log = "log_entry list"

text \<open>
  \<^verbatim>\<open>zap.NewProductionConfig\<close>, \<^verbatim>\<open>zap.NewDevelopmentConfig\<close>, the encoders set on them, and \<^verbatim>\<open>Build\<close>, which
  may fail; \<open>zl_level\<close> is the level of a configuration.
\<close>

record 'z zap_lib =
  zl_Production :: 'z
  zl_Development :: 'z
  zl_ISO8601Time :: "'z \<Rightarrow> 'z"
  zl_CapitalColorLevel :: "'z \<Rightarrow> 'z"
  zl_Build :: "'z \<Rightarrow> error option"
  zl_level :: "'z \<Rightarrow> log_level"

record 'z Logger =
  lg_config :: 'z
  lg_with :: "(string \<times> log_arg) list"

definition ProductionMode :: string where "ProductionMode = ''production''"
definition DevelopmentMode :: string where "DevelopmentMode = ''development''"

definition logger_Build :: "'z zap_lib \<Rightarrow> 'z \<Rightarrow> error + 'z Logger" where
  "logger_Build zap cfg = (case zl_Build zap cfg of
     Some _ \<Rightarrow> Inl (Panic ''zap'')
   | None \<Rightarrow> Inr \<lparr>lg_config = cfg, lg_with = []\<rparr>)"

definition logger_New :: "'z zap_lib \<Rightarrow> string \<Rightarrow> error + 'z Logger" where
  "logger_New zap mode = logger_Build zap
     (if mode = ProductionMode then zl_ISO8601Time zap (zl_Production zap)
      else zl_CapitalColorLevel zap (zl_Development zap))"

definition write_log :: "'z zap_lib \<Rightarrow> 'z Logger \<Rightarrow> log_entry \<Rightarrow> (log, unit) state" where
  "write_log zap l e = State (\<lambda>es. ((), if zl_level zap (lg_config l) \<le> le_level e
     then es @ [e\<lparr>le_fields := lg_with l @ le_fields e\<rparr>] else es))"

definition logger_Infof :: "'z zap_lib \<Rightarrow> 'z Logger \<Rightarrow> string \<Rightarrow> log_arg list \<Rightarrow> (log, unit) state" where
  "logger_Infof zap l template args =
     write_log zap l \<lparr>le_level = InfoLevel, le_message = template, le_args = args, le_fields = []\<rparr>"

definition logger_Errorf :: "'z zap_lib \<Rightarrow> 'z Logger \<Rightarrow> string \<Rightarrow> log_arg list \<Rightarrow> (log, unit) state" where
  "logger_Errorf zap l template args =
     write_log zap l \<lparr>le_level = ErrorLevel, le_message = template, le_args = args, le_fields = []\<rparr>"

section \<open>Contexts\<close>

text \<open>
  A \<^verbatim>\<open>context.Context\<close> with the values of this program. A key is a value of a type \<^verbatim>\<open>ctxKey\<close>, of which the
  packages \<^verbatim>\<open>logger\<close> and \<^verbatim>\<open>services\<close> have one each, so that a key is a package and a text.
\<close>

datatype ctx_value = CtxText string | CtxUUID uuid | CtxNullUUID "uuid option"

type_synonym ctx_key = "string \<times> string"
type_synonym go_context = "(ctx_key \<times> ctx_value) list"

definition RequestIdKey :: ctx_key where "RequestIdKey = (''logger'', ''request_id'')"
definition UserIdKey :: ctx_key where "UserIdKey = (''logger'', ''user_id'')"
definition userIDKey :: ctx_key where "userIDKey = (''services'', ''user_id'')"
definition sessionIDKey :: ctx_key where "sessionIDKey = (''services'', ''session_id'')"
definition deviceIDKey :: ctx_key where "deviceIDKey = (''services'', ''device_id'')"

lemmas ctx_keys = RequestIdKey_def UserIdKey_def userIDKey_def sessionIDKey_def deviceIDKey_def

definition WithValue :: "go_context \<Rightarrow> ctx_key \<Rightarrow> ctx_value \<Rightarrow> go_context" where
  "WithValue ctx k v = (k, v) # ctx"

definition WithUserSessionContext :: "go_context \<Rightarrow> uuid \<Rightarrow> uuid \<Rightarrow> uuid option \<Rightarrow> go_context" where
  "WithUserSessionContext ctx u ses dev = (let ctx' = WithValue (WithValue ctx userIDKey (CtxUUID u)) sessionIDKey (CtxUUID ses)
     in if dev \<noteq> None then WithValue ctx' deviceIDKey (CtxNullUUID dev) else ctx')"

definition context_UserID :: "go_context \<Rightarrow> uuid option" where
  "context_UserID ctx = (case map_of ctx userIDKey of Some (CtxUUID u) \<Rightarrow> Some u | _ \<Rightarrow> None)"

definition context_SessionID :: "go_context \<Rightarrow> uuid option" where
  "context_SessionID ctx = (case map_of ctx sessionIDKey of Some (CtxUUID u) \<Rightarrow> Some u | _ \<Rightarrow> None)"

definition context_DeviceID :: "go_context \<Rightarrow> uuid option" where
  "context_DeviceID ctx = (case map_of ctx deviceIDKey of Some (CtxNullUUID d) \<Rightarrow> d | _ \<Rightarrow> None)"

definition logger_withContext :: "go_context option \<Rightarrow> 'z Logger \<Rightarrow> 'z Logger" where
  "logger_withContext ctx l = l\<lparr>lg_with := lg_with l @ (case ctx of
     None \<Rightarrow> []
   | Some c \<Rightarrow>
       (case map_of c RequestIdKey of Some (CtxText i) \<Rightarrow> [(''request_id'', ArgText i)] | _ \<Rightarrow> []) @
       (case map_of c UserIdKey of Some (CtxText i) \<Rightarrow> [(''user_id'', ArgText i)] | _ \<Rightarrow> []))\<rparr>"

text \<open>
  What the middlewares put into the context of a request is what its readers in \<^verbatim>\<open>services\<close> find, but
  the logger never finds a user there: its key is another one, and the value another type.
\<close>

definition request_go_context :: "string \<Rightarrow> request_context \<Rightarrow> go_context" where
  "request_go_context requestID rc = WithUserSessionContext (WithValue [] RequestIdKey (CtxText requestID))
     (rc_userID rc) (rc_sessionID rc) (rc_deviceID rc)"

lemma context_of_request:
  "context_UserID (request_go_context i rc) = Some (rc_userID rc)"
  "context_SessionID (request_go_context i rc) = Some (rc_sessionID rc)"
  "context_DeviceID (request_go_context i rc) = rc_deviceID rc"
  by (simp_all add: request_go_context_def WithUserSessionContext_def WithValue_def Let_def ctx_keys
      context_UserID_def context_SessionID_def context_DeviceID_def)

lemma withContext_has_no_user:
  "lg_with (logger_withContext (Some (request_go_context i rc)) l) = lg_with l @ [(''request_id'', ArgText i)]"
  by (simp add: logger_withContext_def request_go_context_def WithUserSessionContext_def WithValue_def Let_def ctx_keys)

section \<open>Middleware\<close>

text \<open>
  \<^verbatim>\<open>c.Writer.Status()\<close>: Gin's writer never hears of the 101 that the WebSocket library writes to a connection
  that it has taken over, so that its status is still the 200 it begins with.
\<close>

definition writer_status :: "Response \<Rightarrow> int" where
  "writer_status r = (if rs_status r = 101 then 200 else rs_status r)"

text \<open>
  \<open>global\<close> is what \<^verbatim>\<open>GetGlobalLogger\<close> yields for a server without a logger, and \<open>latency\<close> the time that
  the request has taken.
\<close>

definition LoggingMiddleware ::
  "'z zap_lib \<Rightarrow> 'z Logger option \<Rightarrow> 'z Logger option \<Rightarrow> duration \<Rightarrow> HttpRequest \<Rightarrow> ('s \<times> log) handler \<Rightarrow> ('s \<times> log) handler" where
  "LoggingMiddleware zap l global latency hq next_handler = do {
     r \<leftarrow> next_handler;
     (case (case l of None \<Rightarrow> global | Some _ \<Rightarrow> l) of
        None \<Rightarrow> State_Monad.return ()
      | Some lg \<Rightarrow> on_bus (logger_Infof zap lg ''%s %s %d %s''
          [ArgText (hq_method hq), ArgText (hq_path hq), ArgInt (writer_status r), ArgDuration latency]));
     State_Monad.return r
   }"

text \<open>
  \<open>errs\<close> is \<^verbatim>\<open>c.Errors\<close> after the handlers; the error is written after what they have written, as a
  further JSON value.
\<close>

definition ErrorHandler ::
  "'z zap_lib \<Rightarrow> (error \<Rightarrow> string) \<Rightarrow> 'z Logger option \<Rightarrow> error list \<Rightarrow> ('s \<times> log) handler \<Rightarrow> ('s \<times> log, Response \<times> json list) state" where
  "ErrorHandler zap errText l errs next_handler = do {
     r \<leftarrow> next_handler;
     (if errs = [] then State_Monad.return (r, [])
      else do {
        (case l of
           None \<Rightarrow> State_Monad.return ()
         | Some lg \<Rightarrow> on_bus (logger_Errorf zap lg ''request error: %s'' [ArgError (last errs)]));
        State_Monad.return (r, [NewErrorResponse (errText (last errs)) ''INTERNAL_ERROR''])
      })
   }"

text \<open>
  The server with its logging. No handler of the repository and no middleware adds to \<^verbatim>\<open>c.Errors\<close>.
\<close>

definition ServeLogged ::
  "'z zap_lib \<Rightarrow> (error \<Rightarrow> string) \<Rightarrow> 'z Logger option \<Rightarrow> 'z Logger option \<Rightarrow> duration \<Rightarrow> Server \<Rightarrow> HttpRequest \<Rightarrow>
    (server_state \<times> log) handler" where
  "ServeLogged zap errText l global latency sv hq = RequestIDMiddleware hq (CORSMiddleware hq
     (LoggingMiddleware zap l global latency hq (do {
        r \<leftarrow> ErrorHandler zap errText l [] (on_store (RateLimitMiddleware (sv_limiter sv) hq (dispatch sv hq)));
        State_Monad.return (fst r)
      })))"

lemma run_LoggingMiddleware:
  "run_state (LoggingMiddleware zap (Some l) global latency hq h) (s, es) = (case run_state h (s, es) of (r, (s', es')) \<Rightarrow>
     (r, (s', snd (run_state (logger_Infof zap l ''%s %s %d %s''
        [ArgText (hq_method hq), ArgText (hq_path hq), ArgInt (writer_status r), ArgDuration latency]) es'))))"
  by (simp add: LoggingMiddleware_def split: prod.split)

definition request_entry :: "'z Logger \<Rightarrow> HttpRequest \<Rightarrow> int \<Rightarrow> duration \<Rightarrow> log_entry" where
  "request_entry l hq code latency = \<lparr>le_level = InfoLevel, le_message = ''%s %s %d %s'',
     le_args = [ArgText (hq_method hq), ArgText (hq_path hq), ArgInt code, ArgDuration latency], le_fields = lg_with l\<rparr>"

text \<open>
  Logging changes nothing about a request: the reply and the state of the server are those of
  \<open>ServeHTTP\<close>. The log gains exactly one entry with the method, the path and the status, unless the request
  is a preflight, which is answered before it comes to the log.
\<close>

lemma ServeLogged_refines:
  assumes "zl_level zap (lg_config l) \<le> InfoLevel"
  shows "run_state (ServeLogged zap errText (Some l) global latency sv hq) (s, es) =
    (case run_state (ServeHTTP sv hq) s of (r, s') \<Rightarrow>
       (r, (s', if hq_method hq = ''OPTIONS'' then es else es @ [request_entry l hq (writer_status r) latency])))"
  using assms
  by (cases "hq_method hq = ''OPTIONS''")
    (auto simp: ServeLogged_def ServeHTTP_def RequestIDMiddleware_def CORSMiddleware_def run_withHeaders Let_def
      run_LoggingMiddleware ErrorHandler_def logger_Infof_def write_log_def request_entry_def AbortWithStatus_def writer_status_def
      split: prod.splits)

section \<open>The logger of the hub\<close>

text \<open>\<open>None\<close> is the logger that \<^verbatim>\<open>zap.L\<close> yields as long as \<^verbatim>\<open>zap.ReplaceGlobals\<close> has not been called: it drops everything.\<close>

definition NewWebSocketLogger :: "'z Logger option \<Rightarrow> 'z Logger option" where
  "NewWebSocketLogger zap_L = map_option (\<lambda>l. l\<lparr>lg_with := lg_with l @ [(''component'', ArgText ''websocket'')]\<rparr>) zap_L"

definition ws_log ::
  "'z zap_lib \<Rightarrow> 'z Logger option \<Rightarrow> log_level \<Rightarrow> string \<Rightarrow> (string \<times> log_arg) list \<Rightarrow> (log, unit) state" where
  "ws_log zap l level msg extra = (case l of
     None \<Rightarrow> State_Monad.return ()
   | Some lg \<Rightarrow> write_log zap lg \<lparr>le_level = level, le_message = msg, le_args = [], le_fields = extra\<rparr>)"

definition ws_fields :: "string \<Rightarrow> uuid \<Rightarrow> string \<Rightarrow> (string \<times> log_arg) list" where
  "ws_fields event userID clientID =
     [(''event'', ArgText event), (''user_id'', ArgText (uuid_String userID)), (''client_id'', ArgText clientID)]"

definition wsLogger_Info ::
  "'z zap_lib \<Rightarrow> 'z Logger option \<Rightarrow> string \<Rightarrow> uuid \<Rightarrow> string \<Rightarrow> (string \<times> log_arg) list \<Rightarrow> (log, unit) state" where
  "wsLogger_Info zap l event userID clientID extra =
     ws_log zap l InfoLevel ''websocket_event'' (ws_fields event userID clientID @ extra)"

definition wsLogger_Error ::
  "'z zap_lib \<Rightarrow> 'z Logger option \<Rightarrow> string \<Rightarrow> uuid \<Rightarrow> string \<Rightarrow> error \<Rightarrow> (string \<times> log_arg) list \<Rightarrow> (log, unit) state" where
  "wsLogger_Error zap l event userID clientID err extra =
     ws_log zap l ErrorLevel ''websocket_error'' (ws_fields event userID clientID @ [(''error'', ArgError err)] @ extra)"

definition wsLogger_Warn ::
  "'z zap_lib \<Rightarrow> 'z Logger option \<Rightarrow> string \<Rightarrow> uuid \<Rightarrow> string \<Rightarrow> (string \<times> log_arg) list \<Rightarrow> (log, unit) state" where
  "wsLogger_Warn zap l event userID clientID extra =
     ws_log zap l WarnLevel ''websocket_warning'' (ws_fields event userID clientID @ extra)"

text \<open>The program never calls \<^verbatim>\<open>zap.ReplaceGlobals\<close>, so that the hub logs nothing at all.\<close>

lemma WebSocketLogger_is_silent:
  "run_state (wsLogger_Info zap (NewWebSocketLogger None) event u c extra) es = ((), es)"
  "run_state (wsLogger_Error zap (NewWebSocketLogger None) event u c err extra) es = ((), es)"
  "run_state (wsLogger_Warn zap (NewWebSocketLogger None) event u c extra) es = ((), es)"
  by (simp_all add: wsLogger_Info_def wsLogger_Error_def wsLogger_Warn_def ws_log_def NewWebSocketLogger_def)

end
