(* ===== verification/Configuration.thy ===== *)
theory Configuration
  imports Http
begin

text \<open>
  The configuration of the process (\<^verbatim>\<open>config/config.go\<close>). The environment is a function; loading a
  \<^verbatim>\<open>.env\<close> file into it is left out.
\<close>

section \<open>Configuration\<close>

record Config =
  cfg_AppPort :: string
  cfg_AppMode :: string
  cfg_DBHost :: string
  cfg_DBUser :: string
  cfg_DBPassword :: string
  cfg_DBName :: string
  cfg_DBPort :: string
  cfg_JWTSecret :: string
  cfg_JWTExpiryHours :: int
  cfg_RefreshExpiry :: int
  cfg_RedisHost :: string
  cfg_RedisPort :: string
  cfg_RedisPassword :: string
  cfg_S3Region :: string
  cfg_S3Bucket :: string
  cfg_S3AccessKeyID :: string
  cfg_S3SecretKey :: string
  cfg_S3Endpoint :: string
  cfg_S3PublicBase :: string
  cfg_S3PresignTTL :: int

type_synonym environment = "string \<Rightarrow> string option"

definition getEnv :: "environment \<Rightarrow> string \<Rightarrow> string \<Rightarrow> string" where
  "getEnv env key fallback = (case env key of Some v \<Rightarrow> v | None \<Rightarrow> fallback)"

definition getEnvAsInt :: "environment \<Rightarrow> string \<Rightarrow> int \<Rightarrow> int" where
  "getEnvAsInt env key fallback =
     (case Atoi (getEnv env key []) of (n, valid) \<Rightarrow> if valid then n else fallback)"

definition LoadConfig :: "environment \<Rightarrow> Config" where
  "LoadConfig env = \<lparr>
     cfg_AppPort = getEnv env ''APP_PORT'' ''8080'',
     cfg_AppMode = getEnv env ''APP_MODE'' ''debug'',
     cfg_DBHost = getEnv env ''DB_HOST'' ''localhost'',
     cfg_DBUser = getEnv env ''DB_USER'' ''postgres'',
     cfg_DBPassword = getEnv env ''DB_PASSWORD'' ''postgres'',
     cfg_DBName = getEnv env ''DB_NAME'' ''sentinal_chat'',
     cfg_DBPort = getEnv env ''DB_PORT'' ''5432'',
     cfg_JWTSecret = getEnv env ''JWT_SECRET'' ''change-me'',
     cfg_JWTExpiryHours = getEnvAsInt env ''JWT_EXPIRY_HOURS'' 12,
     cfg_RefreshExpiry = getEnvAsInt env ''REFRESH_EXPIRY_DAYS'' 14,
     cfg_RedisHost = getEnv env ''REDIS_HOST'' ''localhost'',
     cfg_RedisPort = getEnv env ''REDIS_PORT'' ''6379'',
     cfg_RedisPassword = getEnv env ''REDIS_PASSWORD'' [],
     cfg_S3Region = getEnv env ''S3_REGION'' [],
     cfg_S3Bucket = getEnv env ''S3_BUCKET'' [],
     cfg_S3AccessKeyID = getEnv env ''S3_ACCESS_KEY_ID'' [],
     cfg_S3SecretKey = getEnv env ''S3_SECRET_ACCESS_KEY'' [],
     cfg_S3Endpoint = getEnv env ''S3_ENDPOINT'' [],
     cfg_S3PublicBase = getEnv env ''S3_PUBLIC_BASE_URL'' [],
     cfg_S3PresignTTL = getEnvAsInt env ''S3_PRESIGN_TTL_SECONDS'' 900\<rparr>"

text \<open>An unset or empty variable and one that is not a number leave the fallback.\<close>

lemma getEnvAsInt_fallback:
  "env key = None \<Longrightarrow> getEnvAsInt env key n = n" "env key = Some v \<Longrightarrow> \<not> snd (Atoi v) \<Longrightarrow> getEnvAsInt env key n = n"
  by (auto simp: getEnvAsInt_def getEnv_def Atoi_def split: prod.split)

end
