(* ===== verification/Singletons.thy ===== *)
theory Singletons
  imports Logging Configuration
begin

text \<open>
  The global variables that are set once behind a \<^verbatim>\<open>sync.Once\<close>: the database of
  \<^verbatim>\<open>pkg/database/postgres.go\<close>, the client of \<^verbatim>\<open>internal/redis/client.go\<close> and the logger of
  \<^verbatim>\<open>pkg/logger/logger.go\<close>. What they share is the locale \<open>sync_once\<close>: whoever comes first decides.

  The drivers are parameters: whether opening and pinging a data source fails, and zap. Leaving the process
  with \<^verbatim>\<open>log.Fatalf\<close> is an error.
\<close>

section \<open>Doing something once\<close>

definition glob_read :: "('s \<Rightarrow> 'a) \<Rightarrow> ('s, 'a) state" where
  "glob_read f = State (\<lambda>s. (f s, s))"

definition glob_modify :: "('s \<Rightarrow> 's) \<Rightarrow> ('s, unit) state" where
  "glob_modify f = State (\<lambda>s. ((), f s))"

definition once_Do :: "('s \<Rightarrow> bool) \<Rightarrow> ('s \<Rightarrow> 's) \<Rightarrow> ('s, error + unit) state \<Rightarrow> ('s, error + unit) state" where
  "once_Do fired mark f = do {
     already \<leftarrow> glob_read fired;
     (if already then ok ()
      else do {
        r \<leftarrow> f;
        glob_modify mark;
        State_Monad.return r
      })
   }"

lemma run_glob [simp]: "run_state (glob_read f) s = (f s, s)" "run_state (glob_modify g) s = ((), g s)"
  by (simp_all add: glob_read_def glob_modify_def)

text \<open>
  \<open>fill\<close> is what is done once, \<open>held\<close> the global and \<open>made\<close> what it becomes.
\<close>

locale sync_once =
  fixes fired :: "'s \<Rightarrow> bool"
    and mark :: "'s \<Rightarrow> 's"
    and fill :: "'c \<Rightarrow> ('s, error + unit) state"
    and held :: "'s \<Rightarrow> 'h option"
    and made :: "'c \<Rightarrow> 'h"
  assumes fired_mark: "fired (mark s)"
    and held_mark: "held (mark s) = held s"
    and fill_holds: "run_state (fill c) s = (Inr (), s') \<Longrightarrow> held s' = Some (made c)"
begin

definition init :: "'c \<Rightarrow> ('s, error + unit) state" where
  "init c = once_Do fired mark (fill c)"

lemma init_again: "fired s \<Longrightarrow> run_state (init c) s = (Inr (), s)"
  by (simp add: init_def once_Do_def)

lemma init_first:
  "\<not> fired s \<Longrightarrow> run_state (init c) s = (Inr (), s') \<Longrightarrow> fired s' \<and> held s' = Some (made c)"
  by (auto simp: init_def once_Do_def fired_mark held_mark split: prod.splits dest: fill_holds)

lemma init_all_again: "fired s \<Longrightarrow> run_state (forEach cs init) s = (Inr (), s)"
  by (induction cs) (simp_all add: init_again)

text \<open>Of any number of initialisations the first one decides.\<close>

lemma first_wins:
  assumes "\<not> fired s" "run_state (forEach (c # cs) init) s = (Inr (), s')"
  shows "fired s' \<and> held s' = Some (made c)"
proof -
  obtain r s1 where first: "run_state (init c) s = (r, s1)" by fastforce
  with assms(2) have "r = Inr ()" and rest: "run_state (forEach cs init) s1 = (Inr (), s')"
    by (auto split: sum.splits)
  with init_first [OF assms(1)] first have "fired s1 \<and> held s1 = Some (made c)" by simp
  with rest init_all_again [of s1 cs] show ?thesis by simp
qed

end

section \<open>The database\<close>

record DatabaseConfig =
  dbc_MaxIdleConns :: int
  dbc_MaxOpenConns :: int
  dbc_ConnMaxLifetime :: duration

definition DefaultDatabaseConfig :: DatabaseConfig where
  "DefaultDatabaseConfig = \<lparr>dbc_MaxIdleConns = 10, dbc_MaxOpenConns = 100, dbc_ConnMaxLifetime = Hour\<rparr>"

text \<open>A handle is the data source and the limits of its pool.\<close>

record db_handle =
  dh_dsn :: string
  dh_limits :: DatabaseConfig
  dh_closed :: bool

record db_globals =
  dg_DB :: "db_handle option"
  dg_once :: bool
  dg_cfg :: "DatabaseConfig option"

definition db_init :: db_globals where
  "db_init = \<lparr>dg_DB = None, dg_once = False, dg_cfg = None\<rparr>"

record db_driver =
  drv_Open :: "string \<Rightarrow> error option"
  drv_Ping :: "string \<Rightarrow> error option"
  drv_Close :: "string \<Rightarrow> error option"

definition dsn_of :: "Config \<Rightarrow> string" where
  "dsn_of cfg = ''host='' @ cfg_DBHost cfg @ '' user='' @ cfg_DBUser cfg @ '' password='' @ cfg_DBPassword cfg @
     '' dbname='' @ cfg_DBName cfg @ '' port='' @ cfg_DBPort cfg @ '' sslmode=disable TimeZone=UTC''"

definition open_database :: "db_driver \<Rightarrow> Config \<times> DatabaseConfig \<Rightarrow> (db_globals, error + unit) state" where
  "open_database drv args = (case args of (cfg, opts) \<Rightarrow> do {
     glob_modify (\<lambda>g. g\<lparr>dg_cfg := Some opts\<rparr>);
     (case drv_Open drv (dsn_of cfg) of
        Some err \<Rightarrow> fail (WrappedError ''Failed to connect to database'' err)
      | None \<Rightarrow> do {
          glob_modify (\<lambda>g. g\<lparr>dg_DB := Some \<lparr>dh_dsn = dsn_of cfg, dh_limits = opts, dh_closed = False\<rparr>\<rparr>);
          (case drv_Ping drv (dsn_of cfg) of
             Some err \<Rightarrow> fail (WrappedError ''Failed to ping database'' err)
           | None \<Rightarrow> ok ())
        })
   })"

definition ConnectWithOptions :: "db_driver \<Rightarrow> Config \<Rightarrow> DatabaseConfig \<Rightarrow> (db_globals, error + unit) state" where
  "ConnectWithOptions drv cfg opts = once_Do dg_once (\<lambda>g. g\<lparr>dg_once := True\<rparr>) (open_database drv (cfg, opts))"

definition database_Connect :: "db_driver \<Rightarrow> Config \<Rightarrow> (db_globals, error + unit) state" where
  "database_Connect drv cfg = ConnectWithOptions drv cfg DefaultDatabaseConfig"

definition database_GetInstance :: "(db_globals, error + db_handle) state" where
  "database_GetInstance = do {
     db \<leftarrow> glob_read dg_DB;
     (case db of None \<Rightarrow> fail (Panic ''database not initialized. Call Connect() first'') | Some h \<Rightarrow> ok h)
   }"

definition database_GetDB :: "(db_globals, error + db_handle) state" where
  "database_GetDB = database_GetInstance"

definition database_IsInitialized :: "db_globals \<Rightarrow> bool" where
  "database_IsInitialized g \<longleftrightarrow> dg_DB g \<noteq> None"

definition database_Close :: "db_driver \<Rightarrow> (db_globals, error + unit) state" where
  "database_Close drv = do {
     db \<leftarrow> glob_read dg_DB;
     (case db of
        None \<Rightarrow> ok ()
      | Some h \<Rightarrow> do {
          glob_modify (\<lambda>g. g\<lparr>dg_DB := Some (h\<lparr>dh_closed := True\<rparr>)\<rparr>);
          (case drv_Close drv (dh_dsn h) of Some err \<Rightarrow> fail err | None \<Rightarrow> ok ())
        })
   }"

interpretation db_once: sync_once dg_once "\<lambda>g. g\<lparr>dg_once := True\<rparr>" "open_database drv" dg_DB
    "\<lambda>(cfg, opts). \<lparr>dh_dsn = dsn_of cfg, dh_limits = opts, dh_closed = False\<rparr>" for drv
  by unfold_locales (auto simp: open_database_def split: option.splits)

text \<open>A database that has been closed stays closed: connecting again does nothing, and it counts as initialized.\<close>

lemma Close_is_final:
  assumes "dg_once g" "dg_DB g = Some h" "drv_Close drv (dh_dsn h) = None"
  shows "\<exists>g'. run_state (database_Close drv) g = (Inr (), g') \<and> database_IsInitialized g' \<and>
    run_state (database_Connect drv cfg) g' = (Inr (), g') \<and>
    run_state database_GetInstance g' = (Inr (h\<lparr>dh_closed := True\<rparr>), g')"
  using assms
  by (simp add: database_Close_def database_Connect_def ConnectWithOptions_def once_Do_def
      database_IsInitialized_def database_GetInstance_def)

text \<open>The parts of the data source are not quoted, so that a password can name another database.\<close>

lemma dsn_is_ambiguous:
  "dsn_of (cfg\<lparr>cfg_DBPassword := ''x'', cfg_DBName := ''y dbname=z''\<rparr>) =
   dsn_of (cfg\<lparr>cfg_DBPassword := ''x dbname=y'', cfg_DBName := ''z''\<rparr>)"
  by (simp add: dsn_of_def)

section \<open>The Redis client\<close>

record redis_Config =
  rdc_Host :: string
  rdc_Port :: string
  rdc_Password :: string
  rdc_DB :: int

text \<open>A client of the driver is the options that it was made from.\<close>

record redis_Client =
  rcl_Addr :: string
  rcl_Password :: string
  rcl_DB :: int

record redis_globals =
  rg_client :: "redis_Client option"
  rg_once :: bool
  rg_cfg :: redis_Config

definition redis_init :: redis_globals where
  "redis_init = \<lparr>rg_client = None, rg_once = False, rg_cfg = \<lparr>rdc_Host = [], rdc_Port = [], rdc_Password = [], rdc_DB = 0\<rparr>\<rparr>"

definition redis_NewClient :: "redis_Config \<Rightarrow> redis_Client" where
  "redis_NewClient cfg = \<lparr>rcl_Addr = rdc_Host cfg @ '':'' @ rdc_Port cfg, rcl_Password = rdc_Password cfg, rcl_DB = rdc_DB cfg\<rparr>"

definition open_redis :: "redis_Config \<Rightarrow> (redis_globals, error + unit) state" where
  "open_redis cfg = do {
     glob_modify (\<lambda>g. g\<lparr>rg_cfg := cfg\<rparr>);
     glob_modify (\<lambda>g. g\<lparr>rg_client := Some (redis_NewClient cfg)\<rparr>);
     ok ()
   }"

definition redis_Initialize :: "redis_Config \<Rightarrow> (redis_globals, error + unit) state" where
  "redis_Initialize cfg = once_Do rg_once (\<lambda>g. g\<lparr>rg_once := True\<rparr>) (open_redis cfg)"

definition redis_GetClient :: "(redis_globals, error + redis_Client) state" where
  "redis_GetClient = do {
     c \<leftarrow> glob_read rg_client;
     (case c of None \<Rightarrow> fail (Panic ''redis client not initialized. Call Initialize() first'') | Some c \<Rightarrow> ok c)
   }"

definition redis_IsInitialized :: "redis_globals \<Rightarrow> bool" where
  "redis_IsInitialized g \<longleftrightarrow> rg_client g \<noteq> None"

definition redis_GetConfig :: "redis_globals \<Rightarrow> redis_Config" where
  "redis_GetConfig g = rg_cfg g"

interpretation redis_once: sync_once rg_once "\<lambda>g. g\<lparr>rg_once := True\<rparr>" open_redis rg_client redis_NewClient
  by unfold_locales (auto simp: open_redis_def)

section \<open>The logger\<close>

record 'z logger_globals =
  gl_logger :: "'z Logger option"
  gl_once :: bool
  gl_defaultMode :: string

definition logger_init :: "'z logger_globals" where
  "logger_init = \<lparr>gl_logger = None, gl_once = False, gl_defaultMode = DevelopmentMode\<rparr>"

definition set_logger :: "error + 'z Logger \<Rightarrow> ('z logger_globals, error + unit) state" where
  "set_logger made = (case made of
     Inl err \<Rightarrow> fail err
   | Inr l \<Rightarrow> do { glob_modify (\<lambda>g. g\<lparr>gl_logger := Some l\<rparr>); ok () })"

text \<open>What \<^verbatim>\<open>Init\<close> and \<^verbatim>\<open>InitWithConfig\<close> do once\<close>

definition open_logger :: "'z zap_lib \<Rightarrow> string + 'z \<Rightarrow> ('z logger_globals, error + unit) state" where
  "open_logger zap how = (case how of
     Inl mode \<Rightarrow> do {
       glob_modify (\<lambda>g. g\<lparr>gl_defaultMode := mode\<rparr>);
       set_logger (logger_New zap mode)
     }
   | Inr cfg \<Rightarrow> set_logger (logger_Build zap cfg))"

definition logger_Init :: "'z zap_lib \<Rightarrow> string \<Rightarrow> ('z logger_globals, error + unit) state" where
  "logger_Init zap mode = once_Do gl_once (\<lambda>g. g\<lparr>gl_once := True\<rparr>) (open_logger zap (Inl mode))"

definition logger_InitWithConfig :: "'z zap_lib \<Rightarrow> 'z \<Rightarrow> ('z logger_globals, error + unit) state" where
  "logger_InitWithConfig zap cfg = once_Do gl_once (\<lambda>g. g\<lparr>gl_once := True\<rparr>) (open_logger zap (Inr cfg))"

definition logger_IsInitialized :: "'z logger_globals \<Rightarrow> bool" where
  "logger_IsInitialized g \<longleftrightarrow> gl_logger g \<noteq> None"

definition logger_SetGlobalLogger :: "'z Logger option \<Rightarrow> ('z logger_globals, unit) state" where
  "logger_SetGlobalLogger l = glob_modify (\<lambda>g. g\<lparr>gl_logger := l\<rparr>)"

definition logger_GetGlobalLogger :: "'z zap_lib \<Rightarrow> ('z logger_globals, error + 'z Logger option) state" where
  "logger_GetGlobalLogger zap = do {
     g \<leftarrow> glob_read id;
     andThen (if gl_logger g = None then logger_Init zap (gl_defaultMode g) else ok ())
       (\<lambda>_. do { l \<leftarrow> glob_read gl_logger; ok l })
   }"

definition logger_made :: "'z zap_lib \<Rightarrow> string + 'z \<Rightarrow> 'z Logger" where
  "logger_made zap how = (case (case how of Inl mode \<Rightarrow> logger_New zap mode | Inr cfg \<Rightarrow> logger_Build zap cfg) of Inr l \<Rightarrow> l)"

interpretation logger_once: sync_once gl_once "\<lambda>g. g\<lparr>gl_once := True\<rparr>" "open_logger zap" gl_logger "logger_made zap" for zap
  by unfold_locales (auto simp: open_logger_def set_logger_def logger_made_def split: sum.splits)

text \<open>
  The global logger is there whenever it is asked for, in the mode of the first \<^verbatim>\<open>Init\<close> or else the
  development mode; but once it has been taken away nothing brings it back.
\<close>

lemma GetGlobalLogger_available:
  assumes "logger_New zap (gl_defaultMode g) = Inr l" "gl_logger g = None" "\<not> gl_once g"
  shows "\<exists>g'. run_state (logger_GetGlobalLogger zap) g = (Inr (Some l), g') \<and> gl_once g' \<and> gl_logger g' = Some l"
  using assms
  by (simp add: logger_GetGlobalLogger_def logger_Init_def once_Do_def open_logger_def set_logger_def)

lemma GetGlobalLogger_taken_away:
  assumes "gl_once g"
  shows "\<exists>g'. run_state (logger_SetGlobalLogger None) g = ((), g') \<and> run_state (logger_GetGlobalLogger zap) g' = (Inr None, g')"
  using assms by (simp add: logger_SetGlobalLogger_def logger_GetGlobalLogger_def logger_Init_def once_Do_def)

section \<open>The first one decides\<close>

text \<open>
  Of any number of attempts to connect, to open the Redis client or to make the logger, the first decides what
  the globals are.
\<close>

lemma first_connection_wins:
  assumes "\<not> dg_once g"
    and "run_state (forEach ((cfg, opts) # others) (\<lambda>(c, opts'). ConnectWithOptions drv c opts')) g = (Inr (), g')"
  shows "dg_DB g' = Some \<lparr>dh_dsn = dsn_of cfg, dh_limits = opts, dh_closed = False\<rparr>"
proof -
  have "(\<lambda>(c, opts'). ConnectWithOptions drv c opts') = db_once.init drv"
    by (auto simp: fun_eq_iff ConnectWithOptions_def db_once.init_def)
  with db_once.first_wins [OF assms(1)] assms(2) show ?thesis by fastforce
qed

lemma first_client_wins:
  assumes "\<not> rg_once g" "run_state (forEach (cfg # others) redis_Initialize) g = (Inr (), g')"
  shows "rg_client g' = Some (redis_NewClient cfg)"
proof -
  have "redis_Initialize = redis_once.init" by (auto simp: fun_eq_iff redis_Initialize_def redis_once.init_def)
  with redis_once.first_wins [OF assms(1)] assms(2) show ?thesis by fastforce
qed

lemma first_logger_wins:
  assumes "\<not> gl_once g"
    and "run_state (forEach (how # others) (\<lambda>h. case h of Inl mode \<Rightarrow> logger_Init zap mode
      | Inr cfg \<Rightarrow> logger_InitWithConfig zap cfg)) g = (Inr (), g')"
  shows "gl_logger g' = Some (logger_made zap how)"
proof -
  have "(\<lambda>h. case h of Inl mode \<Rightarrow> logger_Init zap mode | Inr cfg \<Rightarrow> logger_InitWithConfig zap cfg) = logger_once.init zap"
    by (auto simp: fun_eq_iff logger_Init_def logger_InitWithConfig_def logger_once.init_def split: sum.split)
  with logger_once.first_wins [OF assms(1)] assms(2) show ?thesis by fastforce
qed

end
