(* ===== verification/Migrations.thy ===== *)
theory Migrations
  imports Seed "HOL-Library.Sublist" "HOL-Library.Multiset"
begin

text \<open>
  The migrations of \<^verbatim>\<open>pkg/database/postgres.go\<close> and the command line \<^verbatim>\<open>cmd/migrate/main.go\<close>. Reading
  the directory is a parameter, \<open>file_lib\<close>, and so is what running a script does to the database, as the
  scripts are files of SQL; the functions are generic in the state that scripts change. Printing is
  left out; leaving the process with a failure is the error that is printed.
\<close>

section \<open>Applying and rolling back\<close>

text \<open>\<open>fl_ReadFile\<close> takes the directory and the name that \<^verbatim>\<open>filepath.Join\<close> puts together.\<close>

record file_lib =
  fl_ReadDir :: "string \<Rightarrow> error + string list"
  fl_ReadFile :: "string \<Rightarrow> string \<Rightarrow> error + string"

definition HasSuffix :: "string \<Rightarrow> string \<Rightarrow> bool" where
  "HasSuffix s end_text \<longleftrightarrow> drop (length s - length end_text) s = end_text"

definition run_scripts ::
  "file_lib \<Rightarrow> (string \<Rightarrow> ('s, error + unit) state) \<Rightarrow> string \<Rightarrow> string \<Rightarrow> string list \<Rightarrow> ('s, error + unit) state" where
  "run_scripts fl exec what dir names = forEach names (\<lambda>fileName.
     (case fl_ReadFile fl dir fileName of
        Inl err \<Rightarrow> fail (WrappedError (''failed to read migration file '' @ fileName) err)
      | Inr content \<Rightarrow> mapErr (WrappedError (''failed to '' @ what @ '' migration '' @ fileName)) (exec content)))"

definition ApplyRawMigrationsFiltered ::
  "file_lib \<Rightarrow> (string \<Rightarrow> ('s, error + unit) state) \<Rightarrow> DBTX \<Rightarrow> string \<Rightarrow> string \<Rightarrow> ('s, error + unit) state" where
  "ApplyRawMigrationsFiltered fl exec db dir end_text =
     (if db = NilDB then fail (OtherError ''database not initialized'')
      else case fl_ReadDir fl dir of
        Inl err \<Rightarrow> fail (WrappedError ''failed to read migrations directory'' err)
      | Inr files \<Rightarrow> run_scripts fl exec ''execute'' dir (sort (filter (\<lambda>f. HasSuffix f end_text) files)))"

definition ApplyRawMigrations ::
  "file_lib \<Rightarrow> (string \<Rightarrow> ('s, error + unit) state) \<Rightarrow> DBTX \<Rightarrow> string \<Rightarrow> ('s, error + unit) state" where
  "ApplyRawMigrations fl exec db dir = ApplyRawMigrationsFiltered fl exec db dir ''.up.sql''"

definition RollbackMigrations ::
  "file_lib \<Rightarrow> (string \<Rightarrow> ('s, error + unit) state) \<Rightarrow> DBTX \<Rightarrow> string \<Rightarrow> ('s, error + unit) state" where
  "RollbackMigrations fl exec db dir =
     (if db = NilDB then fail (OtherError ''database not initialized'')
      else case fl_ReadDir fl dir of
        Inl err \<Rightarrow> fail (WrappedError ''failed to read migrations directory'' err)
      | Inr files \<Rightarrow> run_scripts fl exec ''rollback'' dir (rev (sort (filter (\<lambda>f. HasSuffix f ''.down.sql'') files))))"

definition RunFullMigration ::
  "file_lib \<Rightarrow> (string \<Rightarrow> ('s, error + unit) state) \<Rightarrow> DBTX \<Rightarrow> string \<Rightarrow> ('s, error + unit) state" where
  "RunFullMigration fl exec db dir = mapErr (WrappedError ''raw migrations failed'') (ApplyRawMigrations fl exec db dir)"

text \<open>The script of \<^verbatim>\<open>DropAllTables\<close>, with its line breaks, indentation and quotes\<close>

definition drop_all_script :: string where
  "drop_all_script = (let nl = [CHR 0x0A]; q = [CHR 0x27] in
     nl @ ''        DO $$ DECLARE'' @ nl @ ''            r RECORD;'' @ nl @ ''        BEGIN'' @ nl @
     ''            FOR r IN (SELECT tablename FROM pg_tables WHERE schemaname = current_schema()) LOOP'' @ nl @
     ''                EXECUTE '' @ q @ ''DROP TABLE IF EXISTS '' @ q @ '' || quote_ident(r.tablename) || '' @
       q @ '' CASCADE'' @ q @ '';'' @ nl @
     ''            END LOOP;'' @ nl @ ''        END $$;'' @ nl @ ''    '')"

definition DropAllTables :: "(string \<Rightarrow> ('s, error + unit) state) \<Rightarrow> DBTX \<Rightarrow> ('s, error + unit) state" where
  "DropAllTables exec db =
     (if db = NilDB then fail (OtherError ''database not initialized'') else exec drop_all_script)"

section \<open>Counting rows, random tokens\<close>

text \<open>\<^verbatim>\<open>^[a-z_][a-z0-9_]*$\<close>\<close>

definition is_lower :: "char \<Rightarrow> bool" where
  "is_lower c \<longleftrightarrow> (97 :: nat) \<le> of_char c \<and> of_char c \<le> (122 :: nat) \<or> c = CHR ''_''"

definition tableNamePattern :: "string \<Rightarrow> bool" where
  "tableNamePattern name =
     (case name of [] \<Rightarrow> False | c # cs \<Rightarrow> is_lower c \<and> list_all (\<lambda>d. is_lower d \<or> is_digit d) cs)"

text \<open>The tables the model has; the code puts no rows into the others. The catalogs of the database have no model.\<close>

definition row_counts :: "(string \<times> (tables \<Rightarrow> nat)) list" where
  "row_counts = [(''users'', \<lambda>t. length (t_users t)), (''user_settings'', \<lambda>t. length (t_user_settings t)),
     (''devices'', \<lambda>t. length (t_devices t)), (''push_tokens'', \<lambda>t. length (t_push_tokens t)),
     (''user_sessions'', \<lambda>t. length (t_user_sessions t)), (''user_contacts'', \<lambda>t. length (t_user_contacts t)),
     (''conversations'', \<lambda>t. length (t_conversations t)), (''participants'', \<lambda>t. length (t_participants t)),
     (''conversation_sequences'', \<lambda>t. length (t_sequences t)), (''messages'', \<lambda>t. length (t_messages t)),
     (''message_ciphertexts'', \<lambda>t. length (t_ciphertexts t)), (''message_reactions'', \<lambda>t. length (t_reactions t)),
     (''message_receipts'', \<lambda>t. length (t_receipts t)), (''message_mentions'', \<lambda>t. length (t_mentions t)),
     (''starred_messages'', \<lambda>t. length (t_starred t)), (''link_previews'', \<lambda>t. length (t_link_previews t)),
     (''attachments'', \<lambda>t. length (t_attachments t)), (''message_attachments'', \<lambda>t. length (t_message_attachments t)),
     (''broadcast_lists'', \<lambda>t. length (t_broadcast_lists t)),
     (''broadcast_recipients'', \<lambda>t. length (t_broadcast_recipients t)),
     (''polls'', \<lambda>t. length (t_polls t)), (''poll_options'', \<lambda>t. length (t_poll_options t)),
     (''poll_votes'', \<lambda>t. length (t_poll_votes t)), (''calls'', \<lambda>t. length (t_calls t)),
     (''call_participants'', \<lambda>t. length (t_call_participants t)),
     (''call_quality_metrics'', \<lambda>t. length (t_quality_metrics t)),
     (''identity_keys'', \<lambda>t. length (t_identity_keys t)), (''signed_prekeys'', \<lambda>t. length (t_signed_prekeys t)),
     (''onetime_prekeys'', \<lambda>t. length (t_onetime_prekeys t)), (''outbox_events'', \<lambda>t. length (t_outbox t)),
     (''upload_sessions'', \<lambda>t. length (t_upload_sessions t)), (''command_logs'', \<lambda>t. length (t_command_logs t))]"

definition count_rows :: "string \<Rightarrow> int stmt" where
  "count_rows name t =
     (if name \<notin> set schema_tables then Inl UndefinedTable
      else Inr (case map_of row_counts name of Some rows \<Rightarrow> int (rows t) | None \<Rightarrow> 0, t))"

definition GetTableCount :: "DBTX \<Rightarrow> string \<Rightarrow> int go" where
  "GetTableCount db tableName =
     (if db = NilDB then fail (OtherError ''database not initialized'')
      else if \<not> tableNamePattern tableName then fail (OtherError (''invalid table name: '' @ tableName))
      else sql db (count_rows tableName))"

text \<open>\<^verbatim>\<open>make\<close> panics on a negative length.\<close>

definition GenerateSecureToken :: "seed_lib \<Rightarrow> int \<Rightarrow> string go" where
  "GenerateSecureToken lib len =
     (if len < 0 then fail (Panic ''makeslice: len out of range'')
      else do { b \<leftarrow> randomBytes lib (nat len); ok (hex_EncodeToString b) })"

section \<open>The command line\<close>

record cli_flags =
  cf_migrations :: string
  cf_adminEmail :: string
  cf_adminPass :: string

definition default_flags :: cli_flags where
  "default_flags = \<lparr>cf_migrations = ''migrations'', cf_adminEmail = ''admin@sentinal.chat'', cf_adminPass = ''Admin@123!''\<rparr>"

definition runMigrationsUp :: "file_lib \<Rightarrow> (string \<Rightarrow> unit go) \<Rightarrow> DBTX \<Rightarrow> string \<Rightarrow> unit go" where
  "runMigrationsUp fl exec db dir = RunFullMigration fl exec db dir"

definition runMigrationsDown :: "file_lib \<Rightarrow> (string \<Rightarrow> unit go) \<Rightarrow> DBTX \<Rightarrow> string \<Rightarrow> unit go" where
  "runMigrationsDown fl exec db dir = RollbackMigrations fl exec db dir"

text \<open>The errors of the checks are printed.\<close>

definition showStatus :: "DBTX \<Rightarrow> unit go" where
  "showStatus db = andThen (Ping db) (\<lambda>_. do {
     forEachIgnore [''users'', ''conversations'', ''messages'', ''user_settings'', ''participants''] (\<lambda>table.
       andThen (TableExists db table) (\<lambda>table_exists.
         if table_exists then do { _ \<leftarrow> GetTableCount db table; ok () } else ok ()));
     _ \<leftarrow> HealthCheck db;
     ok ()
   })"

definition runSeedProduction :: "seed_lib \<Rightarrow> DBTX \<Rightarrow> string \<Rightarrow> string \<Rightarrow> unit go" where
  "runSeedProduction lib db adminEmail adminPass = andThen (SeedProduction lib db adminEmail adminPass) (\<lambda>_. ok ())"

definition runSeedDevelopment :: "seed_lib \<Rightarrow> DBTX \<Rightarrow> unit go" where
  "runSeedDevelopment lib db = andThen (SeedDevelopment lib db) (\<lambda>_. ok ())"

definition runReset :: "file_lib \<Rightarrow> (string \<Rightarrow> unit go) \<Rightarrow> DBTX \<Rightarrow> string \<Rightarrow> unit go" where
  "runReset fl exec db dir = andThen (DropAllTables exec db) (\<lambda>_. RunFullMigration fl exec db dir)"

definition runTruncate :: "DBTX \<Rightarrow> unit go" where
  "runTruncate db = TruncateAllTables db"

definition migrate_main ::
  "seed_lib \<Rightarrow> file_lib \<Rightarrow> (string \<Rightarrow> unit go) \<Rightarrow> DBTX \<Rightarrow> cli_flags \<Rightarrow> string list \<Rightarrow> unit go" where
  "migrate_main lib fl exec db flags args =
     (case args of
        [] \<Rightarrow> fail (OtherError ''usage'')
      | command # _ \<Rightarrow>
          (if command = ''up'' then runMigrationsUp fl exec db (cf_migrations flags)
           else if command = ''down'' then runMigrationsDown fl exec db (cf_migrations flags)
           else if command = ''status'' then showStatus db
           else if command = ''seed'' then runSeedProduction lib db (cf_adminEmail flags) (cf_adminPass flags)
           else if command = ''seed-dev'' then runSeedDevelopment lib db
           else if command = ''reset'' then runReset fl exec db (cf_migrations flags)
           else if command = ''truncate'' then runTruncate db
           else fail (OtherError (''Unknown command: '' @ command))))"

section \<open>The order of the scripts\<close>

text \<open>The names of two directions have the same order if no name begins with another.\<close>

lemma list_less_append:
  fixes a b :: "'a :: linorder list"
  assumes "a < b" "\<not> prefix a b"
  shows "a @ x < b @ y"
proof -
  from assms have "(a, b) \<in> lexord {(u, v). u < v}" by (simp add: list_less_def)
  with assms(2) obtain u c d v w where "c < d" "a = u @ c # v" "b = u @ d # w"
    by (auto simp: lexord_def prefix_def)
  then have "(a @ x, b @ y) \<in> lexord {(u, v). u < v}"
    unfolding lexord_def by (simp) blast
  then show ?thesis by (simp add: list_less_def)
qed

definition prefix_free :: "string list \<Rightarrow> bool" where
  "prefix_free bs \<longleftrightarrow> distinct bs \<and> (\<forall>a\<in>set bs. \<forall>b\<in>set bs. prefix a b \<longrightarrow> a = b)"

lemma sorted_append_text:
  "prefix_free bs \<Longrightarrow> sorted bs \<Longrightarrow> sorted (map (\<lambda>b. b @ end_text) bs)"
proof (induction bs)
  case (Cons a bs)
  have "a @ end_text \<le> b @ end_text" if "b \<in> set bs" for b
  proof -
    from Cons.prems that have "a \<le> b" "a \<noteq> b" "\<not> prefix a b" by (auto simp: prefix_free_def)
    then have "a @ end_text < b @ end_text" by (intro list_less_append) auto
    then show ?thesis by simp
  qed
  moreover have "prefix_free bs" using Cons.prems(1) by (auto simp: prefix_free_def)
  ultimately show ?case using Cons by auto
qed simp

lemma HasSuffix_append [simp]: "HasSuffix (b @ end_text) end_text"
  by (simp add: HasSuffix_def)

lemma HasSuffix_other [simp]:
  "\<not> HasSuffix (b @ ''.down.sql'') ''.up.sql''" "\<not> HasSuffix (b @ ''.up.sql'') ''.down.sql''"
  by (simp_all add: HasSuffix_def drop_Cons' split: nat_diff_split)

definition directory_of :: "string list \<Rightarrow> string list" where
  "directory_of bs = map (\<lambda>b. b @ ''.up.sql'') bs @ map (\<lambda>b. b @ ''.down.sql'') bs"

lemma sort_names:
  assumes "mset (filter P files) = mset (map (\<lambda>b. b @ end_text) bs)" "prefix_free bs"
  shows "sort (filter P files) = map (\<lambda>b. b @ end_text) (sort bs)"
proof (rule properties_for_sort)
  show "mset (map (\<lambda>b. b @ end_text) (sort bs)) = mset (filter P files)" using assms(1) by simp
  have "prefix_free (sort bs)" using assms(2) by (simp add: prefix_free_def)
  then show "sorted (map (\<lambda>b. b @ end_text) (sort bs))" by (simp add: sorted_append_text)
qed

lemma sorted_files:
  assumes "mset files = mset (directory_of bs @ others)" "prefix_free bs"
    "\<forall>f\<in>set others. \<not> HasSuffix f ''.up.sql'' \<and> \<not> HasSuffix f ''.down.sql''"
  shows "sort (filter (\<lambda>f. HasSuffix f ''.up.sql'') files) = map (\<lambda>b. b @ ''.up.sql'') (sort bs)"
    "sort (filter (\<lambda>f. HasSuffix f ''.down.sql'') files) = map (\<lambda>b. b @ ''.down.sql'') (sort bs)"
proof -
  have "mset (filter P files) = mset (filter P (directory_of bs @ others))" for P
    by (simp only: mset_filter assms(1))
  moreover have "filter (\<lambda>f. HasSuffix f ''.up.sql'') (directory_of bs @ others) = map (\<lambda>b. b @ ''.up.sql'') bs"
    "filter (\<lambda>f. HasSuffix f ''.down.sql'') (directory_of bs @ others) = map (\<lambda>b. b @ ''.down.sql'') bs"
    using assms(3) by (auto simp: directory_of_def filter_map comp_def filter_empty_conv)
  ultimately show "sort (filter (\<lambda>f. HasSuffix f ''.up.sql'') files) = map (\<lambda>b. b @ ''.up.sql'') (sort bs)"
    "sort (filter (\<lambda>f. HasSuffix f ''.down.sql'') files) = map (\<lambda>b. b @ ''.down.sql'') (sort bs)"
    by (intro sort_names assms(2); simp only:)+
qed

section \<open>What is run, and in which order\<close>

text \<open>
  A database that keeps a record of the scripts it was given; \<open>outcome\<close> says which of them fail. The scripts
  that are run are those up to the first that fails.
\<close>

definition recording :: "(string \<Rightarrow> error + unit) \<Rightarrow> string \<Rightarrow> (string list, error + unit) state" where
  "recording outcome content = State (\<lambda>so_far. (outcome content, so_far @ [content]))"

fun until_failure :: "(string \<Rightarrow> error + unit) \<Rightarrow> string list \<Rightarrow> string list" where
  "until_failure outcome [] = []"
| "until_failure outcome (c # cs) = c # (if isl (outcome c) then [] else until_failure outcome cs)"

lemma run_recorded [simp]: "run_state (recording outcome content) so_far = (outcome content, so_far @ [content])"
  by (simp add: recording_def)

lemma run_recording:
  assumes "\<And>b. b \<in> set bs \<Longrightarrow> fl_ReadFile fl dir (f b) = Inr (content b)"
  shows "snd (run_state (run_scripts fl (recording outcome) what dir (map f bs)) so_far) = so_far @ until_failure outcome (map content bs) \<and>
    (fst (run_state (run_scripts fl (recording outcome) what dir (map f bs)) so_far) = Inr () \<longleftrightarrow>
      (\<forall>b\<in>set bs. outcome (content b) = Inr ()))"
  using assms
proof (induction bs arbitrary: so_far)
  case (Cons b bs)
  have step: "run_state (run_scripts fl (recording outcome) what dir (map f (b # bs))) so_far =
      (case outcome (content b) of
         Inl e \<Rightarrow> (Inl (WrappedError (''failed to '' @ what @ '' migration '' @ f b) e), so_far @ [content b])
       | Inr _ \<Rightarrow> run_state (run_scripts fl (recording outcome) what dir (map f bs)) (so_far @ [content b]))"
    using Cons.prems by (simp add: run_scripts_def split: sum.split)
  show ?case unfolding step using Cons.IH [of "so_far @ [content b]"] Cons.prems
    by (cases "outcome (content b)") auto
qed (simp add: run_scripts_def)

text \<open>
  C40. Migrations run in the order of their versions, and are rolled back in the opposite order. Let the directory
  hold an up and a down script for each of some versions, in any order and among other files, where no version
  is the beginning of another. Then the up scripts are run in the order of the versions, each once, up to the
  first that fails, and the down scripts in exactly the opposite order of the versions, although both lists are
  sorted by whole file names. Either succeeds exactly when none of its scripts fails.
\<close>

theorem Migrations_in_order:
  assumes files: "fl_ReadDir fl dir = Inr files" "mset files = mset (directory_of bs @ others)" "prefix_free bs"
      "\<forall>f\<in>set others. \<not> HasSuffix f ''.up.sql'' \<and> \<not> HasSuffix f ''.down.sql''"
    and read: "\<And>b. b \<in> set bs \<Longrightarrow> fl_ReadFile fl dir (b @ ''.up.sql'') = Inr (up b) \<and>
      fl_ReadFile fl dir (b @ ''.down.sql'') = Inr (down b)"
    and db: "db \<noteq> NilDB"
    and run: "run_state (RunFullMigration fl (recording outcome) db dir) [] = (r, applied)"
      "run_state (RollbackMigrations fl (recording outcome) db dir) [] = (r', undone)"
  shows "applied = until_failure outcome (map up (sort bs)) \<and> (r = Inr () \<longleftrightarrow> (\<forall>b\<in>set bs. outcome (up b) = Inr ())) \<and>
    undone = until_failure outcome (map down (rev (sort bs))) \<and> (r' = Inr () \<longleftrightarrow> (\<forall>b\<in>set bs. outcome (down b) = Inr ()))"
proof -
  have up: "snd (run_state (run_scripts fl (recording outcome) ''execute'' dir (map (\<lambda>b. b @ ''.up.sql'') (sort bs))) []) =
      [] @ until_failure outcome (map up (sort bs)) \<and>
    (fst (run_state (run_scripts fl (recording outcome) ''execute'' dir (map (\<lambda>b. b @ ''.up.sql'') (sort bs))) []) = Inr () \<longleftrightarrow>
      (\<forall>b\<in>set (sort bs). outcome (up b) = Inr ()))"
    by (rule run_recording) (use read in simp)
  have down: "snd (run_state (run_scripts fl (recording outcome) ''rollback'' dir (map (\<lambda>b. b @ ''.down.sql'') (rev (sort bs)))) []) =
      [] @ until_failure outcome (map down (rev (sort bs))) \<and>
    (fst (run_state (run_scripts fl (recording outcome) ''rollback'' dir (map (\<lambda>b. b @ ''.down.sql'') (rev (sort bs)))) []) = Inr () \<longleftrightarrow>
      (\<forall>b\<in>set (rev (sort bs)). outcome (down b) = Inr ()))"
    by (rule run_recording) (use read in simp)
  have "run_state (RunFullMigration fl (recording outcome) db dir) [] = (case run_state (run_scripts fl (recording outcome)
      ''execute'' dir (map (\<lambda>b. b @ ''.up.sql'') (sort bs))) [] of (x, s) \<Rightarrow>
      (case x of Inl e \<Rightarrow> Inl (WrappedError ''raw migrations failed'' e) | Inr u \<Rightarrow> Inr u, s))"
    using db sorted_files(1) [OF files(2-4)]
    by (simp add: RunFullMigration_def ApplyRawMigrations_def ApplyRawMigrationsFiltered_def files(1)
        split: prod.split sum.split)
  with up run(1) have "applied = until_failure outcome (map up (sort bs))"
    "r = Inr () \<longleftrightarrow> (\<forall>b\<in>set bs. outcome (up b) = Inr ())"
    by (auto split: prod.splits sum.splits)
  moreover have "RollbackMigrations fl (recording outcome) db dir =
      run_scripts fl (recording outcome) ''rollback'' dir (map (\<lambda>b. b @ ''.down.sql'') (rev (sort bs)))"
    using db sorted_files(2) [OF files(2-4)] by (simp add: RollbackMigrations_def files(1) rev_map)
  with down run(2) have "undone = until_failure outcome (map down (rev (sort bs)))"
    "r' = Inr () \<longleftrightarrow> (\<forall>b\<in>set bs. outcome (down b) = Inr ())" by auto
  ultimately show ?thesis by blast
qed

text \<open>
  The directory \<^verbatim>\<open>migrations\<close>, where the content of a script is its own name; the script that makes the
  indexes fails.
\<close>

definition sample_versions :: "string list" where
  "sample_versions = [''000001_init_extensions'', ''000002_schema'', ''000003_indexes'', ''000004_triggers'']"

definition sample_files :: file_lib where
  "sample_files = \<lparr>fl_ReadDir = (\<lambda>dir. Inr (''README'' # directory_of sample_versions)),
     fl_ReadFile = (\<lambda>dir name. Inr (if HasSuffix name ''.up.sql'' then CHR ''+'' # take (length name - 7) name
       else CHR ''-'' # take (length name - 9) name))\<rparr>"

definition sample_outcome :: "string \<Rightarrow> error + unit" where
  "sample_outcome content = (if content = CHR ''+'' # ''000003_indexes'' then Inl (OtherError ''failed'') else Inr ())"

lemma Migrations_in_order_witness:
  "snd (run_state (RunFullMigration sample_files (recording sample_outcome) Pool ''migrations'') []) =
     [''+000001_init_extensions'', ''+000002_schema'', ''+000003_indexes''] \<and>
   snd (run_state (RollbackMigrations sample_files (recording sample_outcome) Pool ''migrations'') []) =
     [''-000004_triggers'', ''-000003_indexes'', ''-000002_schema'', ''-000001_init_extensions'']"
proof -
  have free: "prefix_free sample_versions" by (simp add: prefix_free_def sample_versions_def)
  have sorted: "sort sample_versions = sample_versions" by (simp add: sample_versions_def)
  have files: "mset (''README'' # directory_of sample_versions) = mset (directory_of sample_versions @ [''README''])" by simp
  have others: "\<forall>f\<in>set [''README'']. \<not> HasSuffix f ''.up.sql'' \<and> \<not> HasSuffix f ''.down.sql''"
    by (simp add: HasSuffix_def)
  have dir: "fl_ReadDir sample_files ''migrations'' = Inr (''README'' # directory_of sample_versions)"
    by (simp add: sample_files_def)
  have read: "fl_ReadFile sample_files ''migrations'' (b @ ''.up.sql'') = Inr (CHR ''+'' # b) \<and>
      fl_ReadFile sample_files ''migrations'' (b @ ''.down.sql'') = Inr (CHR ''-'' # b)" for b
    by (simp add: sample_files_def)
  from Migrations_in_order [OF dir files free others read _ prod.collapse [symmetric] prod.collapse [symmetric],
      of Pool sample_outcome]
  show ?thesis by (simp add: sorted) (simp add: sample_versions_def sample_outcome_def)
qed

end
