(* ===== verification/Startup.thy ===== *)
theory Startup
  imports Backend Singletons Migrations
begin

text \<open>
  The process (\<^verbatim>\<open>cmd/api/main.go\<close>): what it opens before it serves, which repositories, services and
  limits it runs with, the start of the server (\<^verbatim>\<open>New\<close> and \<^verbatim>\<open>Start\<close> of \<^verbatim>\<open>internal/server/server.go\<close>) and
  what is stopped in the end. Leaving the process with \<^verbatim>\<open>log.Fatalf\<close> is an error; the standard logger, to
  which that prints, is left out.
\<close>

section \<open>The storage client\<close>

text \<open>
  \<^verbatim>\<open>NewClient\<close> of \<^verbatim>\<open>internal/storage/s3_client.go\<close>. The options that it gives to the AWS SDK are a record;
  \<open>aws_load\<close> is what the SDK makes of them, \<open>aws_normalize\<close> the text of a parsed URL, if it parses.
\<close>

record S3Config =
  s3c_Region :: string
  s3c_Bucket :: string
  s3c_AccessKey :: string
  s3c_SecretKey :: string
  s3c_Endpoint :: string
  s3c_PublicBase :: string
  s3c_PresignTTL :: duration

record aws_options =
  aws_region :: string
  aws_credentials :: "(string \<times> string) option"
  aws_endpoint :: "string option"
  aws_pathStyle :: bool

type_synonym presigner = "string \<Rightarrow> string \<Rightarrow> string \<Rightarrow> int option \<Rightarrow> duration option \<Rightarrow> string option"

record aws_lib =
  aws_normalize :: "string \<Rightarrow> string option"
  aws_load :: "aws_options \<Rightarrow> error + presigner"

definition storage_options :: "aws_lib \<Rightarrow> S3Config \<Rightarrow> aws_options" where
  "storage_options lib cfg = \<lparr>aws_region = s3c_Region cfg,
     aws_credentials = (if s3c_AccessKey cfg \<noteq> [] \<and> s3c_SecretKey cfg \<noteq> []
       then Some (s3c_AccessKey cfg, s3c_SecretKey cfg) else None),
     aws_endpoint = (if s3c_Endpoint cfg \<noteq> []
       then Some (case aws_normalize lib (s3c_Endpoint cfg) of Some u \<Rightarrow> u | None \<Rightarrow> s3c_Endpoint cfg) else None),
     aws_pathStyle = (s3c_Endpoint cfg \<noteq> [])\<rparr>"

definition storage_NewClient :: "aws_lib \<Rightarrow> S3Config \<Rightarrow> error + S3Client" where
  "storage_NewClient lib cfg =
     (if s3c_Region cfg = [] \<or> s3c_Bucket cfg = [] then Inl (OtherError ''s3 region and bucket are required'')
      else case aws_load lib (storage_options lib cfg) of
        Inl err \<Rightarrow> Inl err
      | Inr presign \<Rightarrow> Inr \<lparr>s3_Bucket = s3c_Bucket cfg, s3_PublicBase = s3c_PublicBase cfg,
          s3_PresignTTL = s3c_PresignTTL cfg, s3_presign = presign\<rparr>)"

section \<open>Services\<close>

text \<open>\<^verbatim>\<open>time.Duration(h) * time.Hour\<close> and \<^verbatim>\<open>time.Duration(d) * 24 * time.Hour\<close> in 64 bits\<close>

definition NewAuthService :: "DBTX \<Rightarrow> Config \<Rightarrow> AuthService" where
  "NewAuthService repo cfg = \<lparr>asv_userRepo = repo, asv_jwtSecret = cfg_JWTSecret cfg,
     asv_accessTTL = signed_take_bit 63 (cfg_JWTExpiryHours cfg * Hour),
     asv_refreshTTL = signed_take_bit 63 (cfg_RefreshExpiry cfg * 24 * Hour)\<rparr>"

definition NewMessageService :: "DBTX \<Rightarrow> DBTX \<Rightarrow> DBTX option \<Rightarrow> DBTX option \<Rightarrow> MessageService" where
  "NewMessageService db messageRepo conversationRepo eventPublisher = \<lparr>msv_db = db, msv_messageRepo = messageRepo,
     msv_conversationRepo = conversationRepo, msv_eventPublisher = eventPublisher\<rparr>"

definition NewConversationService :: "DBTX \<Rightarrow> DBTX \<Rightarrow> DBTX option \<Rightarrow> ConversationService" where
  "NewConversationService db repo eventPublisher = \<lparr>csv_db = db, csv_repo = repo, csv_eventPublisher = eventPublisher\<rparr>"

definition NewCallService :: "DBTX \<Rightarrow> DBTX \<Rightarrow> bool \<Rightarrow> DBTX option \<Rightarrow> CallService" where
  "NewCallService db repo signalingStore eventPublisher = \<lparr>clv_db = db, clv_repo = repo,
     clv_signalingStore = signalingStore, clv_eventPublisher = eventPublisher\<rparr>"

definition NewUploadS3Service :: "DBTX \<Rightarrow> S3Client option \<Rightarrow> UploadS3Service" where
  "NewUploadS3Service repo storage = \<lparr>usv_repo = repo, usv_storage = storage\<rparr>"

lemmas service_constructors = NewMessageService_def NewConversationService_def NewCallService_def NewUploadS3Service_def

text \<open>
  What the process does not make itself: the libraries. The message service never uses the executor of
  commands that it is given.
\<close>

record process_lib =
  pl_http :: HttpLib
  pl_auth :: auth_lib
  pl_aws :: aws_lib
  pl_match :: "string \<Rightarrow> string \<Rightarrow> (string \<times> (string \<Rightarrow> string)) option"
  pl_floats :: FloatLib
  pl_pick :: "(string \<times> nat) list \<Rightarrow> nat"

text \<open>\<open>None\<close> is \<^verbatim>\<open>log.Fatalf\<close>; without a region and a bucket the service is nil.\<close>

definition main_S3Config :: "Config \<Rightarrow> S3Config" where
  "main_S3Config cfg = \<lparr>s3c_Region = cfg_S3Region cfg, s3c_Bucket = cfg_S3Bucket cfg,
     s3c_AccessKey = cfg_S3AccessKeyID cfg, s3c_SecretKey = cfg_S3SecretKey cfg,
     s3c_Endpoint = cfg_S3Endpoint cfg, s3c_PublicBase = cfg_S3PublicBase cfg,
     s3c_PresignTTL = seconds (cfg_S3PresignTTL cfg)\<rparr>"

definition main_uploads :: "process_lib \<Rightarrow> Config \<Rightarrow> UploadS3Service option option" where
  "main_uploads lib cfg =
     (if cfg_S3Region cfg \<noteq> [] \<and> cfg_S3Bucket cfg \<noteq> []
      then case storage_NewClient (pl_aws lib) (main_S3Config cfg) of
        Inl _ \<Rightarrow> None
      | Inr client \<Rightarrow> Some (Some (NewUploadS3Service Pool (Some client)))
      else Some None)"

definition main_messages :: MessageService where
  "main_messages = NewMessageService Pool Pool (Some Pool) (Some Pool)"

definition main_conversations :: ConversationService where
  "main_conversations = NewConversationService Pool Pool (Some Pool)"

definition main_server :: "process_lib \<Rightarrow> Config \<Rightarrow> UploadS3Service option \<Rightarrow> Server" where
  "main_server lib cfg uploads = \<lparr>sv_lib = pl_http lib, sv_auth_lib = pl_auth lib,
     sv_auth = NewAuthService Pool cfg, sv_message = Some main_messages,
     sv_conversation = Some main_conversations, sv_user = Some Pool,
     sv_call = Some (NewCallService Pool Pool True (Some Pool)),
     sv_upload = Some uploads, sv_encryption = Some Pool, sv_broadcast = Some Pool,
     sv_limiter = Some DefaultRateLimitConfig, sv_gdb = Pool, sv_sockets = True, sv_floats = pl_floats lib, sv_match = pl_match lib\<rparr>"

text \<open>The server and the state in which it begins to serve, on the database and the Redis server it finds\<close>

definition main_start :: "process_lib \<Rightarrow> environment \<Rightarrow> world \<Rightarrow> redis \<Rightarrow> (Server \<times> Backend) option" where
  "main_start lib env w rd = (let cfg = LoadConfig env in
     map_option (\<lambda>uploads. (main_server lib cfg uploads,
       \<lparr>bk_world = w, bk_redis = rd,
        bk_bus = bus_Start \<lparr>bus_running = False, bus_down = (\<lambda>_. False), bus_sent = []\<rparr>,
        bk_hub = NewHub (Some main_conversations) (Some main_messages) (Some Pool) (pl_pick lib)\<rparr>))
       (main_uploads lib cfg))"

lemma main_start_init:
  assumes "main_start lib env w rd = Some (sv, s)" "t_outbox (w_db w) = []" "w_tx w = None"
  shows "backend_init s" "asv_userRepo (sv_auth sv) = Pool" "sv_message sv = Some main_messages"
proof -
  from assms(1) obtain uploads where
    sv: "sv = main_server lib (LoadConfig env) uploads" and
    s: "bk_world s = w" "bus_sent (bk_bus s) = []"
      "bk_hub s = NewHub (Some main_conversations) (Some main_messages) (Some Pool) (pl_pick lib)"
    by (auto simp: main_start_def bus_Start_def Let_def)
  from s assms(2,3) show "backend_init s" by (auto simp: backend_init_def)
  show "asv_userRepo (sv_auth sv) = Pool" "sv_message sv = Some main_messages"
    by (simp_all add: sv main_server_def NewAuthService_def)
qed

section \<open>Before it serves\<close>

text \<open>The globals of the three packages, and the world.\<close>

type_synonym 'z boot_state = "((db_globals \<times> redis_globals) \<times> 'z logger_globals) \<times> world"

definition on_database :: "(db_globals, 'a) state \<Rightarrow> ('z boot_state, 'a) state" where
  "on_database m = on_store (on_store (on_store m))"

definition on_redis :: "(redis_globals, 'a) state \<Rightarrow> ('z boot_state, 'a) state" where
  "on_redis m = on_store (on_store (on_bus m))"

definition on_logger :: "('z logger_globals, 'a) state \<Rightarrow> ('z boot_state, 'a) state" where
  "on_logger m = on_store (on_bus m)"

definition ReleaseMode :: string where "ReleaseMode = ''release''"
definition DebugMode :: string where "DebugMode = ''debug''"
definition TestMode :: string where "TestMode = ''test''"

lemmas app_modes = ReleaseMode_def DebugMode_def TestMode_def

definition logger_mode :: "Config \<Rightarrow> string" where
  "logger_mode cfg = (if cfg_AppMode cfg = ReleaseMode then ProductionMode else DevelopmentMode)"

definition main_redis :: "Config \<Rightarrow> redis_Config" where
  "main_redis cfg = \<lparr>rdc_Host = cfg_RedisHost cfg, rdc_Port = cfg_RedisPort cfg, rdc_Password = cfg_RedisPassword cfg, rdc_DB = 0\<rparr>"

text \<open>\<open>fl\<close> and \<open>exec\<close> read and run the scripts of the migrations (theory \<open>Migrations\<close>); \<open>rd\<close> is the Redis server that the process finds.\<close>

definition main_boot :: "'z zap_lib \<Rightarrow> db_driver \<Rightarrow> file_lib \<Rightarrow> (string \<Rightarrow> unit go) \<Rightarrow> process_lib \<Rightarrow> environment \<Rightarrow> redis \<Rightarrow>
    ('z boot_state, error + ('z Logger option \<times> Server \<times> Backend)) state" where
  "main_boot zap drv fl exec lib env rd = (let cfg = LoadConfig env in
     andThen (on_database (database_Connect drv cfg)) (\<lambda>_.
     andThen (mapErr (WrappedError ''Failed to run migrations'')
       (do { db \<leftarrow> on_database (glob_read dg_DB);
             on_bus (RunFullMigration fl exec (if db = None then NilDB else Pool) ''migrations'') })) (\<lambda>_.
     andThen (on_logger (logger_Init zap (logger_mode cfg))) (\<lambda>_.
     andThen (on_logger (logger_GetGlobalLogger zap)) (\<lambda>l.
     andThen (on_database database_GetInstance) (\<lambda>_.
     andThen (on_redis (redis_Initialize (main_redis cfg))) (\<lambda>_.
     andThen (on_redis redis_GetClient) (\<lambda>_. do {
       w \<leftarrow> on_bus (glob_read id);
       (case main_start lib env w rd of
          None \<Rightarrow> fail (OtherError ''Failed to initialize S3 client'')
        | Some (sv, bk) \<Rightarrow> ok (l, sv, bk))
     }))))))))"

lemmas boot_operations = main_boot_def Let_def on_database_def on_redis_def on_logger_def database_Connect_def
  ConnectWithOptions_def once_Do_def open_database_def db_init_def redis_init_def logger_init_def
  logger_Init_def logger_GetGlobalLogger_def open_logger_def set_logger_def database_GetInstance_def
  redis_Initialize_def open_redis_def redis_GetClient_def

section \<open>The server\<close>

definition gin_mode :: "Config \<Rightarrow> string" where
  "gin_mode cfg = (if cfg_AppMode cfg = ReleaseMode then ''release''
     else if cfg_AppMode cfg = TestMode then ''test'' else ''debug'')"

record 'z HttpServer =
  hs_Addr :: string
  hs_ginMode :: string
  hs_port :: string
  hs_logger :: "'z Logger option"

definition server_New :: "Config \<Rightarrow> 'z Logger option \<Rightarrow> 'z HttpServer" where
  "server_New cfg l = \<lparr>hs_Addr = '':'' @ cfg_AppPort cfg, hs_ginMode = gin_mode cfg, hs_port = cfg_AppPort cfg, hs_logger = l\<rparr>"

text \<open>
  What \<^verbatim>\<open>ListenAndServe\<close> comes back with before the process ends: it does not come back, it comes back with
  \<^verbatim>\<open>http.ErrServerClosed\<close>, or with another error.
\<close>

datatype listen_result = StillServing | ServerClosed | ListenFailed error

definition if_logger :: "'z Logger option \<Rightarrow> ('z Logger \<Rightarrow> (log, unit) state) \<Rightarrow> (log, unit) state" where
  "if_logger l f = (case l of None \<Rightarrow> State_Monad.return () | Some lg \<Rightarrow> f lg)"

definition listener_logs :: "'z zap_lib \<Rightarrow> 'z HttpServer \<Rightarrow> listen_result \<Rightarrow> (log, unit) state" where
  "listener_logs zap s res = do {
     if_logger (hs_logger s) (\<lambda>l. logger_Infof zap l ''Starting the server on port %s...'' [ArgText (hs_port s)]);
     (case res of
        ListenFailed err \<Rightarrow> if_logger (hs_logger s) (\<lambda>l. logger_Errorf zap l ''Error in starting the server: %s'' [ArgError err])
      | _ \<Rightarrow> State_Monad.return ())
   }"

text \<open>The signal has come when \<^verbatim>\<open>Start\<close> goes on; \<open>shutdown\<close> is the error of \<^verbatim>\<open>Shutdown\<close>, which is that of \<^verbatim>\<open>Start\<close>.\<close>

definition starter_logs :: "'z zap_lib \<Rightarrow> 'z HttpServer \<Rightarrow> error option \<Rightarrow> (log, error option) state" where
  "starter_logs zap s shutdown = do {
     if_logger (hs_logger s) (\<lambda>l. logger_Infof zap l ''Server is running on :%s'' [ArgText (hs_port s)]);
     if_logger (hs_logger s) (\<lambda>l. logger_Infof zap l ''Quitting signal received.. Shutting down after 5 seconds'' []);
     (case shutdown of
        Some err \<Rightarrow> do {
          if_logger (hs_logger s) (\<lambda>l. logger_Infof zap l ''Error in the graceful shutdown of the server: %s'' [ArgError err]);
          State_Monad.return (Some err)
        }
      | None \<Rightarrow> do {
          if_logger (hs_logger s) (\<lambda>l. logger_Infof zap l ''Server stopped gracefully'' []);
          State_Monad.return None
        })
   }"

text \<open>\<^verbatim>\<open>Start\<close> with the goroutine that it starts: what it returns, and the logs there can be, as the two interleave.\<close>

definition server_Start ::
  "'z zap_lib \<Rightarrow> 'z HttpServer \<Rightarrow> listen_result \<Rightarrow> error option \<Rightarrow> log \<Rightarrow> error option \<times> log set" where
  "server_Start zap s res shutdown es = (case run_state (starter_logs zap s shutdown) [] of (r, own) \<Rightarrow>
     (r, (\<lambda>xs. es @ xs) ` shuffles (snd (run_state (listener_logs zap s res) [])) own))"

section \<open>The end\<close>

text \<open>
  The end of \<^verbatim>\<open>main\<close>: the deferred function stops the hub, the worker, which from then on takes no tick, and the
  bus; leaving the process with an error runs no deferred function. The value is the error the process is left with.
\<close>

definition main_end :: "error option \<Rightarrow> Backend \<Rightarrow> error option \<times> Backend" where
  "main_end err bk = (case err of
     Some e \<Rightarrow> (Some (WrappedError ''Failed to start server'' e), bk)
   | None \<Rightarrow> (None, bk\<lparr>bk_hub := snd (run_state hub_Stop (bk_hub bk)), bk_bus := bus_Stop (bk_bus bk)\<rparr>))"

section \<open>What the process does\<close>

text \<open>
  The lifetimes of the tokens are those of the configuration exactly as long as they fit into 64 bits
  of nanoseconds.
\<close>

lemma signed_take_bit_exact: "signed_take_bit 63 x = (x :: int) \<longleftrightarrow> - (2 ^ 63) \<le> x \<and> x < 2 ^ 63"
  using signed_take_bit_int_eq_self_iff [of 63 x] by simp

lemma token_lifetimes_exact:
  "asv_accessTTL (NewAuthService db cfg) = cfg_JWTExpiryHours cfg * Hour \<longleftrightarrow> \<bar>cfg_JWTExpiryHours cfg\<bar> \<le> 2562047"
  "asv_refreshTTL (NewAuthService db cfg) = cfg_RefreshExpiry cfg * 24 * Hour \<longleftrightarrow> \<bar>cfg_RefreshExpiry cfg\<bar> \<le> 106751"
  using signed_take_bit_exact [of "cfg_JWTExpiryHours cfg * Hour"] signed_take_bit_exact [of "cfg_RefreshExpiry cfg * 24 * Hour"]
  by (simp_all add: NewAuthService_def) (simp_all add: abs_le_iff; arith)+

text \<open>
  Whether the listener comes back makes no difference to \<^verbatim>\<open>Start\<close>: when the port is taken, the process logs an
  error and waits for a signal all the same.
\<close>

lemma run_if_logger [simp]:
  "run_state (if_logger (Some l) f) es = run_state (f l) es" "run_state (if_logger None f) es = ((), es)"
  by (simp_all add: if_logger_def)

lemma fst_starter_logs: "fst (run_state (starter_logs zap s shutdown) es) = shutdown"
  by (cases "hs_logger s"; cases shutdown) (simp_all add: starter_logs_def split: prod.split)

lemma Start_returns_shutdown: "fst (server_Start zap s res shutdown es) = shutdown"
  using fst_starter_logs [of zap s shutdown "[]"] by (auto simp: server_Start_def split: prod.split)

lemma Start_logs_failure:
  assumes "hs_logger s = Some l" "zl_level zap (lg_config l) \<le> InfoLevel"
    and "xs \<in> snd (server_Start zap s (ListenFailed err) shutdown es)"
  shows "\<lparr>le_level = ErrorLevel, le_message = ''Error in starting the server: %s'', le_args = [ArgError err],
    le_fields = lg_with l\<rparr> \<in> set xs"
proof -
  have "zl_level zap (lg_config l) \<le> ErrorLevel"
    using assms(2) by (rule order_trans) (simp add: less_eq_log_level_def)
  with assms(1,2) have "\<lparr>le_level = ErrorLevel, le_message = ''Error in starting the server: %s'', le_args = [ArgError err],
      le_fields = lg_with l\<rparr> \<in> set (snd (run_state (listener_logs zap s (ListenFailed err)) []))"
    by (simp add: listener_logs_def logger_Infof_def logger_Errorf_def write_log_def)
  with assms(3) show ?thesis by (auto simp: server_Start_def set_shuffles split: prod.splits)
qed

text \<open>
  A graceful end closes every client of the hub and stops the bus. When the shutdown fails, nothing is stopped.
\<close>

lemma Graceful_end:
  assumes "hub_reach (w, bk_hub bk)" "\<not> hub_stopped (bk_hub bk)" "main_end None bk = (r, bk')"
  shows "r = None \<and> hub_clients (bk_hub bk') = [] \<and> \<not> bus_running (bk_bus bk') \<and>
    (\<forall>u i a. registered (bk_hub bk) u i a \<longrightarrow> (\<exists>c. hub_heap (bk_hub bk') a = Some c \<and> cl_sendClosed c \<and> cl_connClosed c))"
proof -
  let ?h = "bk_hub bk" and ?h1 = "(bk_hub bk)\<lparr>hub_stopped := True\<rparr>"
  from hub_reach_ok [OF assms(1)] have ok: "registry_ok ?h" "heap_ok ?h" by (simp_all add: hub_ok_def)
  have as: "all_addresses ?h1 = all_addresses ?h" by (simp add: all_addresses_def)
  have "\<forall>a\<in>set (all_addresses ?h). \<exists>c. open_client ?h1 a c"
    using registered_open [OF ok(2)] by (fastforce simp: set_all_addresses open_client_def)
  from run_forEach_removeClient [OF distinct_all_addresses [OF ok] this] assms(2,3)
  have r: "r = None" "\<not> bus_running (bk_bus bk')" and h: "bk_hub bk' = ?h1\<lparr>hub_heap := (\<lambda>a. map_option
      (\<lambda>c. if a \<in> set (all_addresses ?h) then close_client c else c) (hub_heap ?h a)), hub_clients := []\<rparr>"
    by (auto simp: main_end_def hub_Stop_def as bus_Stop_def)
  have "\<exists>c. hub_heap (bk_hub bk') a = Some c \<and> cl_sendClosed c \<and> cl_connClosed c" if "registered ?h u i a" for u i a
  proof -
    from registered_open [OF ok(2) that] obtain c where "hub_heap ?h a = Some c" by (auto simp: open_client_def)
    moreover from that have "a \<in> set (all_addresses ?h)" by (auto simp: set_all_addresses)
    ultimately show ?thesis by (simp add: h close_client_def)
  qed
  with r h show ?thesis by simp
qed

lemma Failed_end: "main_end (Some e) bk = (Some (WrappedError ''Failed to start server'' e), bk)"
  by (simp add: main_end_def)

text \<open>
  The process comes to serve exactly when the database answers under the data source of the configuration,
  all migrations run on it, a logger of the mode of the configuration can be made and the storage client, if
  the configuration has one. Then the connection, the Redis client and the logger are those of the
  configuration, and the server and everything beside it begin on the database that the migrations leave.
\<close>

theorem Boot_serves:
  "run_state (main_boot zap drv fl exec lib env rd) (((db_init, redis_init), logger_init), w) =
     (Inr (l, sv, bk), (((dg, rg), lg), w')) \<longleftrightarrow>
   drv_Open drv (dsn_of (LoadConfig env)) = None \<and> drv_Ping drv (dsn_of (LoadConfig env)) = None \<and>
   run_state (RunFullMigration fl exec Pool ''migrations'') w = (Inr (), w') \<and>
   (\<exists>made. logger_New zap (logger_mode (LoadConfig env)) = Inr made \<and> l = Some made) \<and>
   main_start lib env w' rd = Some (sv, bk) \<and>
   dg = \<lparr>dg_DB = Some \<lparr>dh_dsn = dsn_of (LoadConfig env), dh_limits = DefaultDatabaseConfig, dh_closed = False\<rparr>,
     dg_once = True, dg_cfg = Some DefaultDatabaseConfig\<rparr> \<and>
   rg = \<lparr>rg_client = Some (redis_NewClient (main_redis (LoadConfig env))), rg_once = True, rg_cfg = main_redis (LoadConfig env)\<rparr> \<and>
   lg = \<lparr>gl_logger = l, gl_once = True, gl_defaultMode = logger_mode (LoadConfig env)\<rparr>"
  by (auto simp: boot_operations split: sum.splits option.splits prod.splits intro: prod_eqI)

definition sample_zap :: "log_level zap_lib" where
  "sample_zap = \<lparr>zl_Production = InfoLevel, zl_Development = DebugLevel, zl_ISO8601Time = id, zl_CapitalColorLevel = id,
     zl_Build = (\<lambda>_. None), zl_level = id\<rparr>"

definition sample_driver :: db_driver where
  "sample_driver = \<lparr>drv_Open = (\<lambda>_. None), drv_Ping = (\<lambda>_. None), drv_Close = (\<lambda>_. None)\<rparr>"

lemma run_scripts_without_effect:
  "run_state (run_scripts sample_files (\<lambda>_. ok ()) what dir names) s = (Inr (), s)"
  by (induction names) (simp_all add: run_scripts_def sample_files_def)

lemma Boot_serves_witness:
  "\<forall>lib rd. \<exists>l sv bk dg rg lg w'. run_state (main_boot sample_zap sample_driver sample_files (\<lambda>_. ok ()) lib (\<lambda>_. None) rd)
      (((db_init, redis_init), logger_init), sample_world) = (Inr (l, sv, bk), (((dg, rg), lg), w')) \<and>
    rg_client rg = Some \<lparr>rcl_Addr = ''localhost:6379'', rcl_Password = [], rcl_DB = 0\<rparr> \<and> bk_world bk = w'"
proof (intro allI)
  fix lib rd
  let ?run = "run_state (main_boot sample_zap sample_driver sample_files (\<lambda>_. ok ()) lib (\<lambda>_. None) rd)
      (((db_init, redis_init), logger_init), sample_world)"
  have "run_state (RunFullMigration sample_files (\<lambda>_. ok ()) Pool ''migrations'') sample_world = (Inr (), sample_world)"
    by (simp add: RunFullMigration_def ApplyRawMigrations_def ApplyRawMigrationsFiltered_def run_scripts_without_effect
        sample_files_def [THEN arg_cong [where f = fl_ReadDir]])
  then obtain l sv bk dg rg lg w' where run: "?run = (Inr (l, sv, bk), (((dg, rg), lg), w'))"
    by (auto simp: boot_operations main_start_def main_uploads_def LoadConfig_def
      getEnv_def sample_driver_def sample_zap_def logger_New_def logger_Build_def)
  from Boot_serves [THEN iffD1, OF run]
  have "main_start lib (\<lambda>_. None) w' rd = Some (sv, bk)"
    "rg_client rg = Some (redis_NewClient (main_redis (LoadConfig (\<lambda>_. None))))" by simp_all
  then have "bk_world bk = w'" "rg_client rg = Some \<lparr>rcl_Addr = ''localhost:6379'', rcl_Password = [], rcl_DB = 0\<rparr>"
    by (auto simp: main_start_def Let_def redis_NewClient_def main_redis_def LoadConfig_def getEnv_def)
  with run show "\<exists>l sv bk dg rg lg w'. ?run = (Inr (l, sv, bk), (((dg, rg), lg), w')) \<and>
      rg_client rg = Some \<lparr>rcl_Addr = ''localhost:6379'', rcl_Password = [], rcl_DB = 0\<rparr> \<and> bk_world bk = w'"
    by blast
qed

end
