(* ===== verification/Pumps.thy ===== *)
theory Pumps
  imports Hub
begin

text \<open>
  The two goroutines of a WebSocket client (\<^verbatim>\<open>internal/server/client.go\<close>), \<^verbatim>\<open>readPump\<close> and
  \<^verbatim>\<open>writePump\<close>, with the deadlines of the connection. A connection is the deadlines and the
  limit set on it and the frames handed to it. What the socket yields is an argument: a message, a
  pong, which \<^verbatim>\<open>ReadMessage\<close> gives to the handler of pongs, or an error, and whether a write fails.

  The lemmas show that the pumps only do what the steps of the hub allow, so that every theorem about the
  hub holds of them, and that the idle timeout of the writer never comes before the deadline of the reader.
\<close>

section \<open>Connections\<close>

definition writeWait :: duration where "writeWait = 10 * Second"
definition pongWait :: duration where "pongWait = 60 * Second"
definition pingPeriod :: duration where "pingPeriod = (pongWait * 9) div 10"
definition maxMessageSize :: int where "maxMessageSize = 512 * 1024"

datatype frame = TextFrame string | PingFrame | CloseFrame

record Conn =
  cn_readLimit :: int
  cn_readDeadline :: "time option"
  cn_writeDeadline :: "time option"
  cn_written :: "frame list"

type_synonym pump_state = "hub_state \<times> Conn"

definition clock :: "(pump_state, time) state" where
  "clock = on_store (on_store time_Now)"

definition on_hub :: "(Hub, 'a) state \<Rightarrow> (pump_state, 'a) state" where
  "on_hub m = on_store (on_bus m)"

definition conn_modify :: "(Conn \<Rightarrow> Conn) \<Rightarrow> (pump_state, unit) state" where
  "conn_modify f = on_bus (State (\<lambda>c. ((), f c)))"

definition SetReadDeadline :: "time \<Rightarrow> (pump_state, unit) state" where
  "SetReadDeadline t = conn_modify (\<lambda>c. c\<lparr>cn_readDeadline := Some t\<rparr>)"

definition SetWriteDeadline :: "time \<Rightarrow> (pump_state, unit) state" where
  "SetWriteDeadline t = conn_modify (\<lambda>c. c\<lparr>cn_writeDeadline := Some t\<rparr>)"

definition write_frame :: "frame \<Rightarrow> (pump_state, unit) state" where
  "write_frame f = conn_modify (\<lambda>c. c\<lparr>cn_written := cn_written c @ [f]\<rparr>)"

section \<open>The reader\<close>

definition readPump_start :: "(pump_state, unit) state" where
  "readPump_start = do {
     conn_modify (\<lambda>c. c\<lparr>cn_readLimit := maxMessageSize\<rparr>);
     now \<leftarrow> clock;
     SetReadDeadline (now + pongWait)
   }"

text \<open>
  Both assignments of the handler are one step here: a tick of the writer between them is not considered. It could
  end a connection whose deadline has just been renewed, but only if the reader had not been scheduled for a
  minute after the arrival of the pong.
\<close>

definition pongHandler :: "nat \<Rightarrow> (pump_state, unit) state" where
  "pongHandler a = do {
     now \<leftarrow> clock;
     SetReadDeadline (now + pongWait);
     on_store (noteActivity a)
   }"

text \<open>
  What \<^verbatim>\<open>ReadMessage\<close> comes back with, or does before it comes back. A message is what
  \<^verbatim>\<open>json.Unmarshal\<close> makes of the trimmed text.
\<close>

datatype incoming = Received "json option" | PongReceived | ReadFailed

text \<open>The value says whether the loop goes on; a panic is an error.\<close>

fun readPump_on :: "nat \<Rightarrow> incoming \<Rightarrow> (pump_state, error + bool) state" where
  "readPump_on a (Received m) = andThen (on_store (readPump_turn a m)) (\<lambda>_. ok True)"
| "readPump_on a PongReceived = do { pongHandler a; ok True }"
| "readPump_on a ReadFailed = do { on_hub (readPump_end a); ok False }"

fun readPump_loop :: "nat \<Rightarrow> incoming list \<Rightarrow> (pump_state, error + unit) state" where
  "readPump_loop a [] = ok ()"
| "readPump_loop a (ev # evs) = andThen (readPump_on a ev) (\<lambda>goes_on. if goes_on then readPump_loop a evs else ok ())"

definition readPump :: "nat \<Rightarrow> incoming list \<Rightarrow> (pump_state, error + unit) state" where
  "readPump a evs = do { readPump_start; readPump_loop a evs }"

section \<open>The writer\<close>

text \<open>
  The case of a text, or of the end of the channel: \<open>writer_ok\<close> and \<open>close_ok\<close> say whether \<^verbatim>\<open>NextWriter\<close>
  and the closing of the writer succeed. The value says whether the loop goes on; with nothing to receive
  the case is not taken.
\<close>

definition writePump_message :: "nat \<Rightarrow> bool \<Rightarrow> bool \<Rightarrow> (pump_state, bool) state" where
  "writePump_message a writer_ok close_ok = do {
     client \<leftarrow> on_hub (hub_read (\<lambda>h. hub_heap h a));
     (case client of
        None \<Rightarrow> State_Monad.return True
      | Some c \<Rightarrow>
          if cl_send c = [] \<and> \<not> cl_sendClosed c then State_Monad.return True
          else do {
            now \<leftarrow> clock;
            SetWriteDeadline (now + writeWait);
            (if cl_send c = [] then do {
               write_frame CloseFrame;
               _ \<leftarrow> on_hub (writePump_turn a);
               State_Monad.return False
             }
             else if \<not> writer_ok then do {
               on_hub (writePump_fail True a);
               State_Monad.return False
             }
             else do {
               text \<leftarrow> on_hub (writePump_turn a);
               (if close_ok then do {
                  (case text of None \<Rightarrow> State_Monad.return () | Some t \<Rightarrow> write_frame (TextFrame t));
                  State_Monad.return True
                }
                else do {
                  on_hub (writePump_fail False a);
                  State_Monad.return False
                })
             })
          })
   }"

definition writePump_tick :: "nat \<Rightarrow> bool \<Rightarrow> (pump_state, bool) state" where
  "writePump_tick a ping_ok = do {
     now \<leftarrow> clock;
     SetWriteDeadline (now + writeWait);
     (if \<not> ping_ok then do {
        on_hub (writePump_fail False a);
        State_Monad.return False
      }
      else do {
        write_frame PingFrame;
        client \<leftarrow> on_hub (hub_read (\<lambda>h. hub_heap h a));
        now' \<leftarrow> clock;
        (case client of
           None \<Rightarrow> State_Monad.return True
         | Some c \<Rightarrow>
             if now' - cl_lastActivity c > pongWait * 2 then do {
               on_hub (writePump_fail False a);
               State_Monad.return False
             }
             else State_Monad.return True)
      })
   }"

section \<open>Steps\<close>

text \<open>
  The turns of the two pumps of the client at \<open>a\<close> and everything else that happens at the hub, in any
  order; the clock of the world goes on and is never replaced.
\<close>

definition clock_goes_on :: "world \<Rightarrow> world \<Rightarrow> bool" where
  "clock_goes_on w w' \<longleftrightarrow> w_now w' = w_now w \<and> w_step w \<le> w_step w'"

inductive pump_step :: "nat \<Rightarrow> pump_state \<Rightarrow> pump_state \<Rightarrow> bool" for a where
  reader: "run_state (readPump_on a ev) s = (r, s') \<Longrightarrow> clock_goes_on (fst (fst s)) (fst (fst s')) \<Longrightarrow> pump_step a s s'"
| writer: "run_state (writePump_message a writer_ok close_ok) s = (x, s') \<Longrightarrow> pump_step a s s'"
| ticker: "run_state (writePump_tick a ping_ok) s = (x, s') \<Longrightarrow> pump_step a s s'"
| elsewhere: "hub_step s s' \<Longrightarrow> clock_goes_on (fst s) (fst s') \<Longrightarrow> pump_step a (s, c) (s', c)"

abbreviation pump_steps :: "nat \<Rightarrow> pump_state \<Rightarrow> pump_state \<Rightarrow> bool" where
  "pump_steps a \<equiv> (pump_step a)\<^sup>*\<^sup>*"

subsection \<open>Running the pieces\<close>

lemma run_clock [simp]:
  "run_state clock ((w, h), c) = (w_now w (w_step w), ((w\<lparr>w_step := Suc (w_step w)\<rparr>, h), c))"
  by (simp add: clock_def time_Now_def)

lemma run_on_hub [simp]:
  "run_state (on_hub m) ((w, h), c) = (fst (run_state m h), ((w, snd (run_state m h)), c))"
  by (simp add: on_hub_def)

lemma run_conn_modify [simp]: "run_state (conn_modify f) (s, c) = ((), (s, f c))"
  by (simp add: conn_modify_def)

lemmas pump_operations = SetReadDeadline_def SetWriteDeadline_def write_frame_def readPump_start_def
  pongHandler_def writePump_message_def writePump_tick_def

section \<open>The pumps are steps of the hub\<close>

lemma hub_elsewhere: "hub_step\<^sup>*\<^sup>* (w', h) s' \<Longrightarrow> hub_step\<^sup>*\<^sup>* (w, h) s'"
  by (meson converse_rtranclp_into_rtranclp hub_step.elsewhere)

lemma hub_then: "hub_step (w', h) s' \<Longrightarrow> hub_step\<^sup>*\<^sup>* (w, h) s'"
  by (meson hub_elsewhere r_into_rtranclp)

lemma hub_stays: "hub_step\<^sup>*\<^sup>* (w, h) (w', h)"
  by (meson hub_step.elsewhere r_into_rtranclp)

lemma run_andThen_ok: "snd (run_state (andThen m (\<lambda>_. ok x)) s) = snd (run_state m s)"
  by (simp split: prod.split sum.split)

lemma reader_is_hub_step:
  assumes "run_state (readPump_on a ev) ((w, h), c) = (r, (s', c'))" "hub_heap h a \<noteq> None"
  shows "hub_step\<^sup>*\<^sup>* (w, h) s'"
proof (cases ev)
  case (Received m)
  obtain x s1 where turn: "run_state (readPump_turn a m) (w, h) = (x, s1)" by (metis prod.collapse)
  with assms(1) Received have "s' = s1" by (auto split: sum.splits)
  with hub_step.read [OF turn] show ?thesis by blast
next
  case PongReceived
  obtain x s1 where noted: "run_state (noteActivity a) (w\<lparr>w_step := Suc (w_step w)\<rparr>, h) = (x, s1)" by (metis prod.collapse)
  with assms(1) PongReceived have "s' = s1" by (auto simp: pongHandler_def SetReadDeadline_def)
  with hub_step.pong [OF noted] show ?thesis by (auto intro: hub_then)
next
  case ReadFailed
  obtain h1 where hang: "run_state (readPump_end a) h = ((), h1)" by (metis prod.collapse old.unit.exhaust)
  with assms(1) ReadFailed have "s' = (w, h1)" by auto
  with hub_step.hang_up [OF assms(2) hang] show ?thesis by blast
qed

lemma hub_flush: "hub_step\<^sup>*\<^sup>* (w, h) (w', snd (run_state (writePump_turn a) h))"
  by (rule hub_then, rule hub_step.flush, rule surjective_pairing)

lemma hub_give_up: "hub_step\<^sup>*\<^sup>* (w, h) (w', snd (run_state (writePump_fail taken a) h))"
  by (rule hub_then, rule hub_step.give_up, rule surjective_pairing)

lemma writer_is_hub_step:
  assumes "run_state (writePump_message a writer_ok close_ok) ((w, h), c) = (x, (s', c'))"
  shows "hub_step\<^sup>*\<^sup>* (w, h) s'"
  using assms
  by (auto simp: pump_operations split: option.splits if_splits
      intro: hub_stays hub_flush hub_give_up rtranclp_trans [OF hub_flush hub_give_up])

lemma ticker_is_hub_step:
  assumes "run_state (writePump_tick a ping_ok) ((w, h), c) = (x, (s', c'))"
  shows "hub_step\<^sup>*\<^sup>* (w, h) s'"
  using assms
  by (auto simp: pump_operations split: option.splits if_splits intro: hub_stays hub_give_up)

text \<open>A run of the pumps is a run of the hub.\<close>

lemma pump_step_hub:
  assumes "pump_step a s s'" "hub_heap (snd (fst s)) a \<noteq> None"
  shows "hub_step\<^sup>*\<^sup>* (fst s) (fst s')"
  using assms
proof (induction rule: pump_step.induct)
  case (reader ev s r s')
  then show ?case using reader_is_hub_step by (metis prod.collapse)
next
  case (writer writer_ok close_ok s x s')
  then show ?case using writer_is_hub_step by (metis prod.collapse)
next
  case (ticker ping_ok s x s')
  then show ?case using ticker_is_hub_step by (metis prod.collapse)
qed simp

section \<open>The idle timeout\<close>

text \<open>
  \<open>active a t h\<close>: the client at \<open>a\<close> has been active at \<open>t\<close> or later. No operation of the hub forgets
  that.
\<close>

definition active :: "nat \<Rightarrow> time \<Rightarrow> Hub \<Rightarrow> bool" where
  "active a t h \<longleftrightarrow> a < hub_fresh h \<and> (\<exists>c. hub_heap h a = Some c \<and> t \<le> cl_lastActivity c)"

definition keeps_activity :: "(Client \<Rightarrow> Client) \<Rightarrow> bool" where
  "keeps_activity f \<longleftrightarrow> (\<forall>c. cl_lastActivity (f c) = cl_lastActivity c)"

lemma keeps_activity_updates [simp]:
  "keeps_activity (\<lambda>c. c\<lparr>cl_connClosed := b\<rparr>)" "keeps_activity (\<lambda>c. c\<lparr>cl_send := f c\<rparr>)"
  "keeps_activity (\<lambda>c. c\<lparr>cl_rateLimiter := rl\<rparr>)" "keeps_activity (\<lambda>c. c\<lparr>cl_conversations := g c\<rparr>)"
  "keeps_activity (\<lambda>c. c\<lparr>cl_sendClosed := x, cl_connClosed := b\<rparr>)"
  by (simp_all add: keeps_activity_def)

lemma keeps_active_set_client [keeps_intros]: "keeps_activity f \<Longrightarrow> keeps (active a t) (set_client b f)"
  by (auto simp: keeps_def active_def keeps_activity_def)

lemma keeps_active_modify [keeps_intros]:
  "(\<And>h. hub_heap (f h) = hub_heap h) \<Longrightarrow> (\<And>h. hub_fresh (f h) = hub_fresh h) \<Longrightarrow> keeps (active a t) (hub_modify f)"
  by (auto simp: keeps_def active_def)

lemma keeps_active_deref [keeps_intros]: "keeps (active a t) (deref b)"
  by (simp add: keeps_def)

lemma keeps_active_AllowConnection [keeps_intros]: "keeps (active a t) (hub_AllowConnection u now)"
  by (auto simp: keeps_def run_hub_AllowConnection active_def split: prod.split)

lemma keeps_active_trySend [keeps_intros]: "keeps (active a t) (trySend b data)"
  unfolding trySend_def by (auto intro!: keeps_intros)

lemma keeps_active_sendOrWait [keeps_intros]: "keeps (active a t) (sendOrWait b data)"
  unfolding sendOrWait_def by (auto intro!: keeps_intros)

lemma keeps_active_removeClient [keeps_intros]: "keeps (active a t) (removeClient b)"
  unfolding removeClient_def by (auto intro!: keeps_intros)

lemma keeps_active_evictOne [keeps_intros]: "keeps (active a t) (evictOne u)"
  unfolding evictOne_def by (auto intro!: keeps_intros split: prod.split)

lemma keeps_active_client_Allow [keeps_intros]: "keeps (active a t) (client_Allow b c ty now)"
  unfolding client_Allow_def by (auto intro!: keeps_intros split: prod.split)

lemma keeps_active_handleMessage [keeps_intros]: "keeps (\<lambda>(w, h). active a t h) (handleMessage b m)"
  unfolding handleMessage_def handleTypingStart_def handleTypingStop_def handleReadReceipt_def handlePing_def
  by (auto intro!: keeps_intros split: option.split sum.split)

lemma keeps_active_hub:
  "keeps (active a t) (handleBroadcast msg)" "keeps (active a t) (handleEvent e)" "keeps (active a t) hub_Stop"
  "keeps (active a t) (readPump_end b)" "keeps (active a t) (writePump_turn b)" "keeps (active a t) (writePump_fail taken b)"
  unfolding handleBroadcast_def broadcastToUser_def broadcastToConversation_def handleEvent_def hub_Stop_def
    readPump_end_def writePump_turn_def writePump_fail_def writePump_end_def
  by (auto intro!: keeps_intros split: option.split)

lemma keeps_active_registry:
  "keeps (\<lambda>(w, h). active a t h) (handleRegister b)" "keeps (\<lambda>(w, h). active a t h) (handleUnregister b)"
  unfolding handleRegister_def handleUnregister_def putClient_def
  by (auto intro!: keeps_intros split: option.split)

lemma active_touch:
  assumes "active a t h" "t \<le> now"
  shows "active a t (h\<lparr>hub_heap := (hub_heap h)(b := map_option (\<lambda>c. c\<lparr>cl_lastActivity := now\<rparr>) (hub_heap h b))\<rparr>)"
  using assms by (auto simp: active_def)

lemma active_readPump_turn:
  assumes "run_state (readPump_turn b m) (w, h) = (r, (w', h'))" "active a t h" "t \<le> w_now w (w_step w)"
  shows "active a t h'"
proof -
  let ?rest = "do { r \<leftarrow> handleMessage b m; (case r of Inl (Panic m) \<Rightarrow> fail (Panic m) | _ \<Rightarrow> ok ()) }"
  let ?h = "h\<lparr>hub_heap := (hub_heap h)(b := map_option (\<lambda>c. c\<lparr>cl_lastActivity := w_now w (w_step w)\<rparr>) (hub_heap h b))\<rparr>"
  have run: "run_state ?rest (w\<lparr>w_step := Suc (w_step w)\<rparr>, ?h) = (r, (w', h'))"
    using assms(1) by (auto simp: readPump_turn_def time_Now_def split: prod.splits sum.splits error.splits)
  have kept: "keeps (\<lambda>(w, h). active a t h) ?rest"
    by (auto intro!: keeps_intros split: sum.split error.split)
  show ?thesis by (rule keeps_hubD [OF kept active_touch [OF assms(2,3)] run])
qed

lemma active_connect:
  assumes "run_state (connect u d) (w, h) = (b, (w', h'))" "active a t h"
  shows "active a t h'"
  using assms by (auto simp: connect_def active_def)

lemma active_queue [simp]:
  "active a t (h\<lparr>hub_register := q\<rparr>) = active a t h" "active a t (h\<lparr>hub_unregister := q\<rparr>) = active a t h"
  "active a t (h\<lparr>hub_broadcast := bs\<rparr>) = active a t h"
  by (simp_all add: active_def)

lemma active_step:
  assumes "hub_step s s'" "active a t (snd s)" "t \<le> w_now (fst s) (w_step (fst s))"
  shows "active a t (snd s')"
  using assms
proof (induction rule: hub_step.induct)
  case (connect h w u d b s')
  then show ?case using active_connect by (metis prod.collapse snd_conv)
next
  case (register h b q w r s')
  then show ?case using keeps_hubD [OF keeps_active_registry(1), of a t "h\<lparr>hub_register := q\<rparr>"]
    by (metis active_queue(1) prod.collapse snd_conv)
next
  case (unregister h b q w r s')
  then show ?case using keeps_hubD [OF keeps_active_registry(2), of a t "h\<lparr>hub_unregister := q\<rparr>"]
    by (metis active_queue(2) prod.collapse snd_conv)
next
  case (read b m w h r s')
  then show ?case using active_readPump_turn by (metis prod.collapse fst_conv snd_conv)
next
  case (pong b w h u s')
  then show ?case by (auto simp: noteActivity_def time_Now_def intro: active_touch)
next
  case (broadcast h msg q r h' w)
  then show ?case using keepsD [OF keeps_active_hub(1), of a t "h\<lparr>hub_broadcast := q\<rparr>" msg r h'] by simp
qed (auto dest: keepsD [OF keeps_active_hub(2)] keepsD [OF keeps_active_hub(3)]
    keepsD [OF keeps_active_hub(4)] keepsD [OF keeps_active_hub(5)] keepsD [OF keeps_active_hub(6)])

text \<open>
  The deadline of the reader is never more than two minutes after the last activity of the client: it is
  set when the reader starts and with every pong, and a pong is activity.
\<close>

definition deadline_ok :: "nat \<Rightarrow> pump_state \<Rightarrow> bool" where
  "deadline_ok a s \<longleftrightarrow> (case s of ((w, h), c) \<Rightarrow> mono (w_now w) \<and>
     (\<exists>D t. cn_readDeadline c = Some D \<and> D \<le> t + 2 * pongWait \<and> active a t h \<and> t \<le> w_now w (w_step w)))"

lemma deadline_ok_hub:
  assumes "hub_step s s'" "clock_goes_on (fst s) (fst s')" "deadline_ok a (s, c)"
  shows "deadline_ok a (s', c)"
proof -
  obtain w h w' h' where s: "s = (w, h)" "s' = (w', h')" by fastforce
  from assms(3) obtain D t where D: "mono (w_now w)" "cn_readDeadline c = Some D" "D \<le> t + 2 * pongWait"
      "active a t h" "t \<le> w_now w (w_step w)"
    by (auto simp: s deadline_ok_def)
  from assms(2) D(1) have "mono (w_now w')" "w_now w (w_step w) \<le> w_now w' (w_step w')"
    by (auto simp: s clock_goes_on_def dest: monoD)
  moreover have "active a t h'" using active_step [OF assms(1), of a t] D(4,5) by (simp add: s)
  ultimately show ?thesis using D by (auto simp: s deadline_ok_def intro: order_trans)
qed

lemma deadline_ok_writes:
  "deadline_ok a (s, c\<lparr>cn_writeDeadline := d\<rparr>) = deadline_ok a (s, c)"
  "deadline_ok a (s, c\<lparr>cn_written := fs\<rparr>) = deadline_ok a (s, c)"
  by (auto simp: deadline_ok_def)

lemma deadline_ok_later: "deadline_ok a ((w, h), c) \<Longrightarrow> w_step w \<le> n \<Longrightarrow> deadline_ok a ((w\<lparr>w_step := n\<rparr>, h), c)"
  using deadline_ok_hub [of "(w, h)" "(w\<lparr>w_step := n\<rparr>, h)" a c] by (simp add: clock_goes_on_def hub_step.elsewhere)

lemma deadline_ok_flush:
  "deadline_ok a ((w, h), c) \<Longrightarrow> deadline_ok a ((w, snd (run_state (writePump_turn b) h)), c)"
  using deadline_ok_hub [OF hub_step.flush [OF surjective_pairing]] by (simp add: clock_goes_on_def)

lemma deadline_ok_give_up:
  "deadline_ok a ((w, h), c) \<Longrightarrow> deadline_ok a ((w, snd (run_state (writePump_fail taken b) h)), c)"
  using deadline_ok_hub [OF hub_step.give_up [OF surjective_pairing]] by (simp add: clock_goes_on_def)

lemma deadline_ok_reader:
  assumes "run_state (readPump_on a ev) ((w, h), c) = (r, ((w', h'), c'))" "clock_goes_on w w'" "deadline_ok a ((w, h), c)"
  shows "deadline_ok a ((w', h'), c')"
proof (cases ev)
  case (Received m)
  obtain x s1 where turn: "run_state (readPump_turn a m) (w, h) = (x, s1)" by (metis prod.collapse)
  with assms(1) Received have "s1 = (w', h')" "c' = c" by (auto split: sum.splits)
  with deadline_ok_hub [OF hub_step.read [OF turn], of a c] assms(2,3) show ?thesis by simp
next
  case PongReceived
  from assms(3) obtain t where t: "mono (w_now w)" "active a t h" "t \<le> w_now w (w_step w)"
    by (auto simp: deadline_ok_def)
  let ?n = "w_step w"
  have later: "w_now w ?n \<le> w_now w (Suc ?n)" "w_now w (Suc ?n) \<le> w_now w (Suc (Suc ?n))"
    using t(1) by (simp_all add: mono_iff_le_Suc)
  from assms(1) PongReceived have run: "w' = w\<lparr>w_step := Suc (Suc ?n)\<rparr>" "c' = c\<lparr>cn_readDeadline := Some (w_now w ?n + pongWait)\<rparr>"
    "h' = h\<lparr>hub_heap := (hub_heap h)(a := map_option (\<lambda>c. c\<lparr>cl_lastActivity := w_now w (Suc ?n)\<rparr>) (hub_heap h a))\<rparr>"
    by (auto simp: pongHandler_def SetReadDeadline_def noteActivity_def time_Now_def)
  have "active a (w_now w (Suc ?n)) h'" using t(2) by (auto simp: run active_def)
  with t(1) later show ?thesis
    by (auto simp: run deadline_ok_def pongWait_def intro!: exI [of _ "w_now w (Suc ?n)"])
next
  case ReadFailed
  obtain h1 where hang: "run_state (readPump_end a) h = ((), h1)" by (metis prod.collapse old.unit.exhaust)
  with assms(1) ReadFailed have "h' = h1" "w' = w" "c' = c" by auto
  moreover have "hub_heap h a \<noteq> None" using assms(3) by (auto simp: deadline_ok_def active_def)
  ultimately show ?thesis using deadline_ok_hub [OF hub_step.hang_up [OF _ hang]] assms(2,3) by simp
qed

lemmas deadline_ok_rules = deadline_ok_later deadline_ok_flush deadline_ok_give_up

lemma deadline_ok_writer:
  assumes "run_state (writePump_message a writer_ok close_ok) ((w, h), c) = (x, s')" "deadline_ok a ((w, h), c)"
  shows "deadline_ok a s'"
  using assms
  by (auto simp: pump_operations deadline_ok_writes split: option.splits if_splits intro!: deadline_ok_rules)

lemma deadline_ok_ticker:
  assumes "run_state (writePump_tick a ping_ok) ((w, h), c) = (x, s')" "deadline_ok a ((w, h), c)"
  shows "deadline_ok a s'"
proof -
  have "deadline_ok a ((w\<lparr>w_step := n\<rparr>, h), c)" if "w_step w \<le> n" for n
    using assms(2) that by (rule deadline_ok_later)
  with assms show ?thesis
    by (auto simp: pump_operations deadline_ok_writes split: option.splits if_splits intro!: deadline_ok_give_up)
qed

lemma deadline_ok_pump_step: "pump_step a s s' \<Longrightarrow> deadline_ok a s \<Longrightarrow> deadline_ok a s'"
proof (induction rule: pump_step.induct)
  case (reader ev s r s')
  then show ?case using deadline_ok_reader by (metis prod.collapse)
next
  case (writer writer_ok close_ok s x s')
  then show ?case using deadline_ok_writer by (metis prod.collapse)
next
  case (ticker ping_ok s x s')
  then show ?case using deadline_ok_ticker by (metis prod.collapse)
qed (rule deadline_ok_hub)

lemma deadline_ok_pump_steps: "pump_steps a s s' \<Longrightarrow> deadline_ok a s \<Longrightarrow> deadline_ok a s'"
  by (induction rule: rtranclp_induct) (auto intro: deadline_ok_pump_step)

text \<open>
  The reader ends with the first error of the connection: unless a message has made it panic, it sends the
  client to be unregistered exactly once.
\<close>

definition unregistering :: "nat list \<Rightarrow> Hub \<Rightarrow> bool" where
  "unregistering q h \<longleftrightarrow> hub_unregister h = q"

lemma keeps_unregistering_set_client [keeps_intros]: "keeps (unregistering q) (set_client b f)"
  by (simp add: keeps_def unregistering_def)

lemma keeps_unregistering_deref [keeps_intros]: "keeps (unregistering q) (deref b)"
  by (simp add: keeps_def)

lemma keeps_unregistering_sendOrWait [keeps_intros]: "keeps (unregistering q) (sendOrWait b data)"
  unfolding sendOrWait_def by (auto intro!: keeps_intros)

lemma keeps_unregistering_client_Allow [keeps_intros]: "keeps (unregistering q) (client_Allow b c ty now)"
  unfolding client_Allow_def by (auto intro!: keeps_intros split: prod.split)

lemma keeps_unregistering_readPump_turn:
  "keeps (\<lambda>(w, h). unregistering q h) (readPump_turn b m)"
  unfolding readPump_turn_def handleMessage_def handleTypingStart_def handleTypingStop_def
    handleReadReceipt_def handlePing_def
  by (auto intro!: keeps_intros split: option.split sum.split error.split)

lemma readPump_unregisters_once:
  assumes "run_state (readPump_loop a evs) ((w, h), c) = (Inr (), ((w', h'), c'))"
  shows "hub_unregister h' = hub_unregister h @ (if ReadFailed \<in> set evs then [a] else [])"
  using assms
proof (induction evs arbitrary: w h c)
  case (Cons ev evs)
  show ?case
  proof (cases ev)
    case (Received m)
    obtain r w1 h1 where turn: "run_state (readPump_turn a m) (w, h) = (r, (w1, h1))" by (metis prod.collapse)
    from keeps_hubD [OF keeps_unregistering_readPump_turn, of "hub_unregister h", OF _ turn]
    have "hub_unregister h1 = hub_unregister h" by (simp add: unregistering_def)
    moreover have "run_state (readPump_loop a evs) ((w1, h1), c) = (Inr (), ((w', h'), c'))"
      using Cons.prems turn Received by (auto split: sum.splits)
    ultimately show ?thesis using Cons.IH Received by simp
  next
    case PongReceived
    with Cons.prems Cons.IH show ?thesis
      by (fastforce simp: pongHandler_def SetReadDeadline_def noteActivity_def time_Now_def)
  next
    case ReadFailed
    with Cons.prems show ?thesis by (auto simp: readPump_end_def)
  qed
qed simp

text \<open>
  C21. The reader of a client that starts within a minute of its creation sets the deadline of the connection
  and renews it with every pong. When the writer, at a tick of its timer, finds the client idle for
  two minutes, that deadline is over: the timeout never ends a connection on which a read can
  still succeed.
\<close>

theorem Idle_timeout_after_deadline:
  assumes "mono (w_now w)" "hub_heap h a = Some cl" "a < hub_fresh h"
    and "cl_lastActivity cl \<le> w_now w (w_step w)" "w_now w (w_step w) \<le> cl_lastActivity cl + pongWait"
    and "run_state readPump_start ((w, h), c) = ((), s1)" "pump_steps a s1 s2"
    and "run_state (writePump_tick a True) s2 = (False, s3)"
  shows "\<exists>D. cn_readDeadline (snd s2) = Some D \<and> D < w_now (fst (fst s2)) (Suc (w_step (fst (fst s2))))"
proof -
  have "w_now w (w_step w) \<le> w_now w (Suc (w_step w))" using assms(1) by (simp add: mono_iff_le_Suc)
  moreover have "active a (cl_lastActivity cl) h" using assms(2,3) by (simp add: active_def)
  moreover have "s1 = ((w\<lparr>w_step := Suc (w_step w)\<rparr>, h),
      c\<lparr>cn_readLimit := maxMessageSize, cn_readDeadline := Some (w_now w (w_step w) + pongWait)\<rparr>)"
    using assms(6) by (auto simp: pump_operations)
  ultimately have "deadline_ok a s1"
    using assms(1,4,5) by (auto simp: deadline_ok_def intro!: exI [of _ "cl_lastActivity cl"])
  with assms(7) have "deadline_ok a s2" by (rule deadline_ok_pump_steps)
  moreover obtain w2 h2 c2 where s2: "s2 = ((w2, h2), c2)" by (metis prod.collapse)
  ultimately obtain D t cl2 where "cn_readDeadline c2 = Some D" "D \<le> t + 2 * pongWait"
      "hub_heap h2 a = Some cl2" "t \<le> cl_lastActivity cl2"
    by (auto simp: deadline_ok_def active_def)
  with assms(8) show ?thesis
    by (auto simp: s2 pump_operations split: if_splits)
qed

text \<open>A clock that goes on by a minute: the writer gives up at its first tick after three minutes.\<close>

definition silent_hub :: Hub where
  "silent_hub = (NewHub None None None (\<lambda>_. 0))\<lparr>hub_fresh := 1, hub_heap := [0 \<mapsto> NewClient 0 1 11 ''c'']\<rparr>"

definition minutes_world :: world where
  "minutes_world = \<lparr>w_db = empty_tables, w_tx = None, w_step = 0, w_now = (\<lambda>n. 60 * Second * int n),
     w_new = (\<lambda>n. of_nat n), w_fault = (\<lambda>_. None), w_jsonb = (\<lambda>_. True)\<rparr>"

lemma Idle_timeout_after_deadline_witness:
  "\<exists>s3. run_state (writePump_tick 0 True)
      ((minutes_world\<lparr>w_step := 2\<rparr>, silent_hub), \<lparr>cn_readLimit = maxMessageSize, cn_readDeadline = Some (60 * Second),
        cn_writeDeadline = None, cn_written = []\<rparr>) = (False, s3) \<and> 60 * Second < w_now minutes_world 3"
proof -
  let ?c = "\<lparr>cn_readLimit = 0, cn_readDeadline = None, cn_writeDeadline = None, cn_written = []\<rparr>"
  let ?c' = "?c\<lparr>cn_readLimit := maxMessageSize, cn_readDeadline := Some (60 * Second)\<rparr>"
  let ?s1 = "((minutes_world\<lparr>w_step := 1\<rparr>, silent_hub), ?c')"
  let ?s2 = "((minutes_world\<lparr>w_step := 2\<rparr>, silent_hub), ?c')"
  have start: "run_state readPump_start ((minutes_world, silent_hub), ?c) = ((), ?s1)"
    by (simp add: pump_operations minutes_world_def pongWait_def)
  have wait: "pump_steps 0 ?s1 ?s2"
    by (rule r_into_rtranclp, rule pump_step.elsewhere, rule hub_step.elsewhere)
      (simp add: clock_goes_on_def minutes_world_def)
  have tick: "\<exists>s3. run_state (writePump_tick 0 True) ?s2 = (False, s3)"
    by (simp add: pump_operations minutes_world_def silent_hub_def NewClient_def pongWait_def)
  then obtain s3 where s3: "run_state (writePump_tick 0 True) ?s2 = (False, s3)" ..
  have mono: "mono (w_now minutes_world)" by (simp add: mono_def minutes_world_def)
  from Idle_timeout_after_deadline [OF mono _ _ _ _ start wait s3] s3 show ?thesis
    by (auto simp: silent_hub_def NewClient_def pongWait_def) (simp_all add: minutes_world_def)
qed

end
