(* ===== verification/Tables.thy ===== *)
theory Tables
  imports Postgres
begin

text \<open>
  The entities of \<^verbatim>\<open>internal/domain\<close> that no statement of the program reads or writes, and the table of
  each entity. The names agree with the schema: every struct has a table of its own, and every table
  its struct.
\<close>

section \<open>Entities without statements\<close>

text \<open>\<^verbatim>\<open>domain/conversation/labels.go\<close>\<close>

record ChatLabel =
  clb_ID :: uuid
  clb_UserID :: uuid
  clb_Name :: string
  clb_Color :: "string option"
  clb_Position :: "int option"
  clb_CreatedAt :: time

record ConversationLabel =
  cvl_ConversationID :: uuid
  cvl_LabelID :: uuid
  cvl_UserID :: uuid
  cvl_CreatedAt :: time

record ConversationClear =
  cvc_ConversationID :: uuid
  cvc_UserID :: uuid
  cvc_ClearedAt :: time

text \<open>\<^verbatim>\<open>domain/message/states.go\<close> and \<^verbatim>\<open>domain/command/command.go\<close>\<close>

record MessageUserState =
  mus_MessageID :: uuid
  mus_UserID :: uuid
  mus_IsDeleted :: bool
  mus_DeletedAt :: "time option"
  mus_IsStarred :: bool
  mus_IsPinned :: bool

record ScheduledMessage =
  scm_ID :: uuid
  scm_MessageID :: uuid
  scm_ConversationID :: uuid
  scm_SenderID :: uuid
  scm_Content :: string
  scm_ScheduledFor :: time
  scm_Timezone :: string
  scm_Status :: string
  scm_CreatedAt :: time
  scm_SentAt :: "time option"

section \<open>The tables of the entities\<close>

definition User_TableName :: string where "User_TableName = ''users''"
definition UserSettings_TableName :: string where "UserSettings_TableName = ''user_settings''"
definition Device_TableName :: string where "Device_TableName = ''devices''"
definition PushToken_TableName :: string where "PushToken_TableName = ''push_tokens''"
definition UserSession_TableName :: string where "UserSession_TableName = ''user_sessions''"
definition UserContact_TableName :: string where "UserContact_TableName = ''user_contacts''"
definition Conversation_TableName :: string where "Conversation_TableName = ''conversations''"
definition Participant_TableName :: string where "Participant_TableName = ''participants''"
definition ConversationSequence_TableName :: string where "ConversationSequence_TableName = ''conversation_sequences''"
definition ChatLabel_TableName :: string where "ChatLabel_TableName = ''chat_labels''"
definition ConversationLabel_TableName :: string where "ConversationLabel_TableName = ''conversation_labels''"
definition ConversationClear_TableName :: string where "ConversationClear_TableName = ''conversation_clears''"
definition LinkPreview_TableName :: string where "LinkPreview_TableName = ''link_previews''"
definition Attachment_TableName :: string where "Attachment_TableName = ''attachments''"
definition MessageAttachment_TableName :: string where "MessageAttachment_TableName = ''message_attachments''"
definition Message_TableName :: string where "Message_TableName = ''messages''"
definition MessageReaction_TableName :: string where "MessageReaction_TableName = ''message_reactions''"
definition MessageReceipt_TableName :: string where "MessageReceipt_TableName = ''message_receipts''"
definition MessageMention_TableName :: string where "MessageMention_TableName = ''message_mentions''"
definition StarredMessage_TableName :: string where "StarredMessage_TableName = ''starred_messages''"
definition MessageCiphertext_TableName :: string where "MessageCiphertext_TableName = ''message_ciphertexts''"
definition Poll_TableName :: string where "Poll_TableName = ''polls''"
definition PollOption_TableName :: string where "PollOption_TableName = ''poll_options''"
definition PollVote_TableName :: string where "PollVote_TableName = ''poll_votes''"
definition MessageUserState_TableName :: string where "MessageUserState_TableName = ''message_user_states''"
definition Call_TableName :: string where "Call_TableName = ''calls''"
definition CallParticipant_TableName :: string where "CallParticipant_TableName = ''call_participants''"
definition CallQualityMetric_TableName :: string where "CallQualityMetric_TableName = ''call_quality_metrics''"
definition BroadcastList_TableName :: string where "BroadcastList_TableName = ''broadcast_lists''"
definition BroadcastRecipient_TableName :: string where "BroadcastRecipient_TableName = ''broadcast_recipients''"
definition IdentityKey_TableName :: string where "IdentityKey_TableName = ''identity_keys''"
definition SignedPreKey_TableName :: string where "SignedPreKey_TableName = ''signed_prekeys''"
definition OneTimePreKey_TableName :: string where "OneTimePreKey_TableName = ''onetime_prekeys''"
definition UploadSession_TableName :: string where "UploadSession_TableName = ''upload_sessions''"
definition OutboxEvent_TableName :: string where "OutboxEvent_TableName = ''outbox_events''"
definition CommandLog_TableName :: string where "CommandLog_TableName = ''command_logs''"
definition ScheduledMessage_TableName :: string where "ScheduledMessage_TableName = ''scheduled_messages''"
definition MessageVersion_TableName :: string where "MessageVersion_TableName = ''message_versions''"

lemmas TableName_defs =
  User_TableName_def UserSettings_TableName_def Device_TableName_def PushToken_TableName_def
  UserSession_TableName_def UserContact_TableName_def Conversation_TableName_def
  Participant_TableName_def ConversationSequence_TableName_def ChatLabel_TableName_def
  ConversationLabel_TableName_def ConversationClear_TableName_def LinkPreview_TableName_def
  Attachment_TableName_def MessageAttachment_TableName_def Message_TableName_def
  MessageReaction_TableName_def MessageReceipt_TableName_def MessageMention_TableName_def
  StarredMessage_TableName_def MessageCiphertext_TableName_def Poll_TableName_def
  PollOption_TableName_def PollVote_TableName_def MessageUserState_TableName_def Call_TableName_def
  CallParticipant_TableName_def CallQualityMetric_TableName_def BroadcastList_TableName_def
  BroadcastRecipient_TableName_def IdentityKey_TableName_def SignedPreKey_TableName_def
  OneTimePreKey_TableName_def UploadSession_TableName_def OutboxEvent_TableName_def
  CommandLog_TableName_def ScheduledMessage_TableName_def MessageVersion_TableName_def

definition entity_tables :: "string list" where
  "entity_tables = [User_TableName, UserSettings_TableName, Device_TableName, PushToken_TableName,
     UserSession_TableName, UserContact_TableName, Conversation_TableName,
     Participant_TableName, ConversationSequence_TableName, ChatLabel_TableName,
     ConversationLabel_TableName, ConversationClear_TableName, LinkPreview_TableName,
     Attachment_TableName, MessageAttachment_TableName, Message_TableName,
     MessageReaction_TableName, MessageReceipt_TableName, MessageMention_TableName,
     StarredMessage_TableName, MessageCiphertext_TableName, Poll_TableName,
     PollOption_TableName, PollVote_TableName, MessageUserState_TableName, Call_TableName,
     CallParticipant_TableName, CallQualityMetric_TableName, BroadcastList_TableName,
     BroadcastRecipient_TableName, IdentityKey_TableName, SignedPreKey_TableName,
     OneTimePreKey_TableName, UploadSession_TableName, OutboxEvent_TableName,
     CommandLog_TableName, ScheduledMessage_TableName, MessageVersion_TableName]"

lemma entities_are_the_schema: "distinct entity_tables" "set entity_tables = set schema_tables"
  "length entity_tables = length schema_tables"
  by (simp add: entity_tables_def TableName_defs)
    (auto simp: entity_tables_def TableName_defs schema_tables_def)

end
