(* ===== verification/Interfaces.thy ===== *)
theory Interfaces
  imports MessageRepo ConversationRepo UserRepo CallRepo Broadcasts Uploads Encryption Commands
begin

text \<open>
  The interfaces of the repositories (\<^verbatim>\<open>internal/repository/interfaces.go\<close>), records of operations, and the
  repositories that \<^verbatim>\<open>cmd/api/main.go\<close> and the services make of a handle. The interface of the outbox stands in
  theory \<open>OutboxWorker\<close>, beside its client. The services of this development name the operations of the only
  implementation; what they rely on in a transaction is shown here for every method of every interface:
  a repository that was made from a transaction leaves the committed database alone.
\<close>

record UserRepository =
  uri_Create :: "User \<Rightarrow> unit go"
  uri_GetAllUsers :: "int \<Rightarrow> int \<Rightarrow> (User list \<times> int) go"
  uri_GetUserByID :: "uuid \<Rightarrow> User go"
  uri_UpdateUser :: "User \<Rightarrow> unit go"
  uri_DeleteUser :: "uuid \<Rightarrow> unit go"
  uri_GetUserByEmail :: "string \<Rightarrow> User go"
  uri_GetUserByUsername :: "string \<Rightarrow> User go"
  uri_GetUserByPhoneNumber :: "string \<Rightarrow> User go"
  uri_SearchUsers :: "string \<Rightarrow> int \<Rightarrow> int \<Rightarrow> (User list \<times> int) go"
  uri_UpdateOnlineStatus :: "uuid \<Rightarrow> bool \<Rightarrow> unit go"
  uri_UpdateLastSeen :: "uuid \<Rightarrow> time \<Rightarrow> unit go"
  uri_GetUserContacts :: "uuid \<Rightarrow> UserContact list go"
  uri_AddUserContact :: "UserContact \<Rightarrow> unit go"
  uri_RemoveUserContact :: "uuid \<Rightarrow> uuid \<Rightarrow> unit go"
  uri_BlockContact :: "uuid \<Rightarrow> uuid \<Rightarrow> unit go"
  uri_UnblockContact :: "uuid \<Rightarrow> uuid \<Rightarrow> unit go"
  uri_GetBlockedContacts :: "uuid \<Rightarrow> UserContact list go"
  uri_GetUserSettings :: "uuid \<Rightarrow> UserSettings go"
  uri_UpdateUserSettings :: "UserSettings \<Rightarrow> unit go"
  uri_CreateUserSettings :: "UserSettings \<Rightarrow> unit go"
  uri_AddDevice :: "Device \<Rightarrow> unit go"
  uri_GetUserDevices :: "uuid \<Rightarrow> Device list go"
  uri_GetDeviceByID :: "uuid \<Rightarrow> Device go"
  uri_DeactivateDevice :: "uuid \<Rightarrow> unit go"
  uri_UpdateDeviceLastSeen :: "uuid \<Rightarrow> unit go"
  uri_AddPushToken :: "PushToken \<Rightarrow> unit go"
  uri_GetUserPushTokens :: "uuid \<Rightarrow> PushToken list go"
  uri_DeactivatePushToken :: "uuid \<Rightarrow> unit go"
  uri_CreateSession :: "UserSession \<Rightarrow> unit go"
  uri_GetSessionByID :: "uuid \<Rightarrow> UserSession go"
  uri_GetUserSessions :: "uuid \<Rightarrow> UserSession list go"
  uri_UpdateSession :: "UserSession \<Rightarrow> unit go"
  uri_RevokeSession :: "uuid \<Rightarrow> unit go"
  uri_RevokeAllUserSessions :: "uuid \<Rightarrow> unit go"
  uri_CleanExpiredSessions :: "unit go"

definition NewUserRepository :: "DBTX \<Rightarrow> UserRepository" where
  "NewUserRepository db = \<lparr>uri_Create = userRepo_Create db, uri_GetAllUsers = userRepo_GetAllUsers db,
     uri_GetUserByID = userRepo_GetUserByID db, uri_UpdateUser = userRepo_UpdateUser db,
     uri_DeleteUser = userRepo_DeleteUser db, uri_GetUserByEmail = userRepo_GetUserByEmail db,
     uri_GetUserByUsername = userRepo_GetUserByUsername db,
     uri_GetUserByPhoneNumber = userRepo_GetUserByPhoneNumber db,
     uri_SearchUsers = userRepo_SearchUsers db, uri_UpdateOnlineStatus = userRepo_UpdateOnlineStatus db,
     uri_UpdateLastSeen = userRepo_UpdateLastSeen db, uri_GetUserContacts = userRepo_GetUserContacts db,
     uri_AddUserContact = userRepo_AddUserContact db,
     uri_RemoveUserContact = userRepo_RemoveUserContact db, uri_BlockContact = userRepo_BlockContact db,
     uri_UnblockContact = userRepo_UnblockContact db,
     uri_GetBlockedContacts = userRepo_GetBlockedContacts db,
     uri_GetUserSettings = userRepo_GetUserSettings db,
     uri_UpdateUserSettings = userRepo_UpdateUserSettings db,
     uri_CreateUserSettings = userRepo_CreateUserSettings db, uri_AddDevice = userRepo_AddDevice db,
     uri_GetUserDevices = userRepo_GetUserDevices db, uri_GetDeviceByID = userRepo_GetDeviceByID db,
     uri_DeactivateDevice = userRepo_DeactivateDevice db,
     uri_UpdateDeviceLastSeen = userRepo_UpdateDeviceLastSeen db,
     uri_AddPushToken = userRepo_AddPushToken db, uri_GetUserPushTokens = userRepo_GetUserPushTokens db,
     uri_DeactivatePushToken = userRepo_DeactivatePushToken db,
     uri_CreateSession = userRepo_CreateSession db, uri_GetSessionByID = userRepo_GetSessionByID db,
     uri_GetUserSessions = userRepo_GetUserSessions db, uri_UpdateSession = userRepo_UpdateSession db,
     uri_RevokeSession = userRepo_RevokeSession db,
     uri_RevokeAllUserSessions = userRepo_RevokeAllUserSessions db,
     uri_CleanExpiredSessions = userRepo_CleanExpiredSessions db\<rparr>"

record ConversationRepository =
  cvr_Create :: "Conversation \<Rightarrow> unit go"
  cvr_GetByID :: "uuid \<Rightarrow> Conversation go"
  cvr_Update :: "Conversation \<Rightarrow> unit go"
  cvr_Delete :: "uuid \<Rightarrow> unit go"
  cvr_GetUserConversations :: "uuid \<Rightarrow> int \<Rightarrow> int \<Rightarrow> (Conversation list \<times> int) go"
  cvr_GetDirectConversation :: "uuid \<Rightarrow> uuid \<Rightarrow> Conversation go"
  cvr_SearchConversations :: "uuid \<Rightarrow> string \<Rightarrow> Conversation list go"
  cvr_GetConversationsByType :: "uuid \<Rightarrow> string \<Rightarrow> Conversation list go"
  cvr_GetByInviteLink :: "string \<Rightarrow> Conversation go"
  cvr_RegenerateInviteLink :: "uuid \<Rightarrow> string go"
  cvr_AddParticipant :: "Participant \<Rightarrow> unit go"
  cvr_RemoveParticipant :: "uuid \<Rightarrow> uuid \<Rightarrow> unit go"
  cvr_GetParticipants :: "uuid \<Rightarrow> Participant list go"
  cvr_GetParticipant :: "uuid \<Rightarrow> uuid \<Rightarrow> Participant go"
  cvr_UpdateParticipantRole :: "uuid \<Rightarrow> uuid \<Rightarrow> string \<Rightarrow> unit go"
  cvr_IsParticipant :: "uuid \<Rightarrow> uuid \<Rightarrow> bool go"
  cvr_GetParticipantCount :: "uuid \<Rightarrow> int go"
  cvr_MuteConversation :: "uuid \<Rightarrow> uuid \<Rightarrow> time \<Rightarrow> unit go"
  cvr_UnmuteConversation :: "uuid \<Rightarrow> uuid \<Rightarrow> unit go"
  cvr_PinConversation :: "uuid \<Rightarrow> uuid \<Rightarrow> unit go"
  cvr_UnpinConversation :: "uuid \<Rightarrow> uuid \<Rightarrow> unit go"
  cvr_ArchiveConversation :: "uuid \<Rightarrow> uuid \<Rightarrow> unit go"
  cvr_UnarchiveConversation :: "uuid \<Rightarrow> uuid \<Rightarrow> unit go"
  cvr_UpdateLastReadSequence :: "uuid \<Rightarrow> uuid \<Rightarrow> int \<Rightarrow> unit go"
  cvr_GetConversationSequence :: "uuid \<Rightarrow> ConversationSequence go"
  cvr_IncrementSequence :: "uuid \<Rightarrow> int go"

definition NewConversationRepository :: "DBTX \<Rightarrow> ConversationRepository" where
  "NewConversationRepository db = \<lparr>cvr_Create = convRepo_Create db, cvr_GetByID = convRepo_GetByID db,
     cvr_Update = convRepo_Update db, cvr_Delete = convRepo_Delete db,
     cvr_GetUserConversations = convRepo_GetUserConversations db,
     cvr_GetDirectConversation = convRepo_GetDirectConversation db,
     cvr_SearchConversations = convRepo_SearchConversations db,
     cvr_GetConversationsByType = convRepo_GetConversationsByType db,
     cvr_GetByInviteLink = convRepo_GetByInviteLink db,
     cvr_RegenerateInviteLink = convRepo_RegenerateInviteLink db,
     cvr_AddParticipant = convRepo_AddParticipant db,
     cvr_RemoveParticipant = convRepo_RemoveParticipant db,
     cvr_GetParticipants = convRepo_GetParticipants db, cvr_GetParticipant = convRepo_GetParticipant db,
     cvr_UpdateParticipantRole = convRepo_UpdateParticipantRole db,
     cvr_IsParticipant = convRepo_IsParticipant db,
     cvr_GetParticipantCount = convRepo_GetParticipantCount db,
     cvr_MuteConversation = convRepo_MuteConversation db,
     cvr_UnmuteConversation = convRepo_UnmuteConversation db,
     cvr_PinConversation = convRepo_PinConversation db,
     cvr_UnpinConversation = convRepo_UnpinConversation db,
     cvr_ArchiveConversation = convRepo_ArchiveConversation db,
     cvr_UnarchiveConversation = convRepo_UnarchiveConversation db,
     cvr_UpdateLastReadSequence = convRepo_UpdateLastReadSequence db,
     cvr_GetConversationSequence = convRepo_GetConversationSequence db,
     cvr_IncrementSequence = convRepo_IncrementSequence db\<rparr>"

record MessageRepository =
  mrp_Create :: "Message \<Rightarrow> unit go"
  mrp_GetByID :: "uuid \<Rightarrow> Message go"
  mrp_Update :: "Message \<Rightarrow> unit go"
  mrp_SoftDelete :: "uuid \<Rightarrow> unit go"
  mrp_HardDelete :: "uuid \<Rightarrow> unit go"
  mrp_CreateCiphertext :: "MessageCiphertext \<Rightarrow> unit go"
  mrp_GetConversationMessages :: "uuid \<Rightarrow> int \<Rightarrow> int \<Rightarrow> uuid \<Rightarrow> Message list go"
  mrp_GetMessagesBySeqRange :: "uuid \<Rightarrow> int \<Rightarrow> int \<Rightarrow> Message list go"
  mrp_GetUnreadMessages :: "uuid \<Rightarrow> uuid \<Rightarrow> Message list go"
  mrp_SearchMessages :: "uuid \<Rightarrow> string \<Rightarrow> int \<Rightarrow> int \<Rightarrow> (Message list \<times> int) go"
  mrp_GetMessagesByType :: "uuid \<Rightarrow> string \<Rightarrow> int \<Rightarrow> Message list go"
  mrp_GetLatestMessage :: "uuid \<Rightarrow> Message go"
  mrp_MarkAsEdited :: "uuid \<Rightarrow> unit go"
  mrp_GetMessageCountSince :: "uuid \<Rightarrow> time \<Rightarrow> int go"
  mrp_GetByIdempotencyKey :: "string \<Rightarrow> Message go"
  mrp_GetByClientMessageID :: "string \<Rightarrow> Message go"
  mrp_AddReaction :: "MessageReaction \<Rightarrow> unit go"
  mrp_RemoveReaction :: "uuid \<Rightarrow> uuid \<Rightarrow> string \<Rightarrow> unit go"
  mrp_GetMessageReactions :: "uuid \<Rightarrow> MessageReaction list go"
  mrp_GetUserReaction :: "uuid \<Rightarrow> uuid \<Rightarrow> MessageReaction go"
  mrp_CreateReceipt :: "MessageReceipt \<Rightarrow> unit go"
  mrp_UpdateReceipt :: "MessageReceipt \<Rightarrow> unit go"
  mrp_GetMessageReceipts :: "uuid \<Rightarrow> MessageReceipt list go"
  mrp_MarkAsDelivered :: "uuid \<Rightarrow> uuid \<Rightarrow> unit go"
  mrp_MarkAsRead :: "uuid \<Rightarrow> uuid \<Rightarrow> unit go"
  mrp_MarkAsPlayed :: "uuid \<Rightarrow> uuid \<Rightarrow> unit go"
  mrp_BulkMarkAsDelivered :: "uuid list \<Rightarrow> uuid \<Rightarrow> unit go"
  mrp_BulkMarkAsRead :: "uuid list \<Rightarrow> uuid \<Rightarrow> unit go"
  mrp_AddMention :: "MessageMention \<Rightarrow> unit go"
  mrp_GetMessageMentions :: "uuid \<Rightarrow> MessageMention list go"
  mrp_GetUserMentions :: "uuid \<Rightarrow> int \<Rightarrow> int \<Rightarrow> (Message list \<times> int) go"
  mrp_StarMessage :: "StarredMessage \<Rightarrow> unit go"
  mrp_UnstarMessage :: "uuid \<Rightarrow> uuid \<Rightarrow> unit go"
  mrp_GetUserStarredMessages :: "uuid \<Rightarrow> int \<Rightarrow> int \<Rightarrow> (StarredMessage list \<times> int) go"
  mrp_IsMessageStarred :: "uuid \<Rightarrow> uuid \<Rightarrow> bool go"
  mrp_CreateAttachment :: "Attachment \<Rightarrow> unit go"
  mrp_GetAttachmentByID :: "uuid \<Rightarrow> Attachment go"
  mrp_LinkAttachmentToMessage :: "MessageAttachment \<Rightarrow> unit go"
  mrp_GetMessageAttachments :: "uuid \<Rightarrow> Attachment list go"
  mrp_MarkViewOnceViewed :: "uuid \<Rightarrow> unit go"
  mrp_CreateLinkPreview :: "LinkPreview \<Rightarrow> unit go"
  mrp_GetLinkPreviewByHash :: "string \<Rightarrow> LinkPreview go"
  mrp_GetLinkPreviewByID :: "uuid \<Rightarrow> LinkPreview go"
  mrp_CreatePoll :: "Poll \<Rightarrow> unit go"
  mrp_GetPollByID :: "uuid \<Rightarrow> Poll go"
  mrp_ClosePoll :: "uuid \<Rightarrow> unit go"
  mrp_AddPollOption :: "PollOption \<Rightarrow> unit go"
  mrp_GetPollOptions :: "uuid \<Rightarrow> PollOption list go"
  mrp_VotePoll :: "PollVote \<Rightarrow> unit go"
  mrp_RemoveVote :: "uuid \<Rightarrow> uuid \<Rightarrow> uuid \<Rightarrow> unit go"
  mrp_GetPollVotes :: "uuid \<Rightarrow> PollVote list go"
  mrp_GetUserVotes :: "uuid \<Rightarrow> uuid \<Rightarrow> PollVote list go"
  mrp_DeleteExpiredMessages :: "int go"

definition NewMessageRepository :: "DBTX \<Rightarrow> MessageRepository" where
  "NewMessageRepository db = \<lparr>mrp_Create = msgRepo_Create db, mrp_GetByID = msgRepo_GetByID db, mrp_Update = msgRepo_Update db,
     mrp_SoftDelete = msgRepo_SoftDelete db, mrp_HardDelete = msgRepo_HardDelete db,
     mrp_CreateCiphertext = msgRepo_CreateCiphertext db,
     mrp_GetConversationMessages = msgRepo_GetConversationMessages db,
     mrp_GetMessagesBySeqRange = msgRepo_GetMessagesBySeqRange db,
     mrp_GetUnreadMessages = msgRepo_GetUnreadMessages db,
     mrp_SearchMessages = msgRepo_SearchMessages db,
     mrp_GetMessagesByType = msgRepo_GetMessagesByType db,
     mrp_GetLatestMessage = msgRepo_GetLatestMessage db, mrp_MarkAsEdited = msgRepo_MarkAsEdited db,
     mrp_GetMessageCountSince = msgRepo_GetMessageCountSince db,
     mrp_GetByIdempotencyKey = msgRepo_GetByIdempotencyKey db,
     mrp_GetByClientMessageID = msgRepo_GetByClientMessageID db,
     mrp_AddReaction = msgRepo_AddReaction db, mrp_RemoveReaction = msgRepo_RemoveReaction db,
     mrp_GetMessageReactions = msgRepo_GetMessageReactions db,
     mrp_GetUserReaction = msgRepo_GetUserReaction db, mrp_CreateReceipt = msgRepo_CreateReceipt db,
     mrp_UpdateReceipt = msgRepo_UpdateReceipt db,
     mrp_GetMessageReceipts = msgRepo_GetMessageReceipts db,
     mrp_MarkAsDelivered = msgRepo_MarkAsDelivered db, mrp_MarkAsRead = msgRepo_MarkAsRead db,
     mrp_MarkAsPlayed = msgRepo_MarkAsPlayed db,
     mrp_BulkMarkAsDelivered = msgRepo_BulkMarkAsDelivered db,
     mrp_BulkMarkAsRead = msgRepo_BulkMarkAsRead db, mrp_AddMention = msgRepo_AddMention db,
     mrp_GetMessageMentions = msgRepo_GetMessageMentions db,
     mrp_GetUserMentions = msgRepo_GetUserMentions db, mrp_StarMessage = msgRepo_StarMessage db,
     mrp_UnstarMessage = msgRepo_UnstarMessage db,
     mrp_GetUserStarredMessages = msgRepo_GetUserStarredMessages db,
     mrp_IsMessageStarred = msgRepo_IsMessageStarred db,
     mrp_CreateAttachment = msgRepo_CreateAttachment db,
     mrp_GetAttachmentByID = msgRepo_GetAttachmentByID db,
     mrp_LinkAttachmentToMessage = msgRepo_LinkAttachmentToMessage db,
     mrp_GetMessageAttachments = msgRepo_GetMessageAttachments db,
     mrp_MarkViewOnceViewed = msgRepo_MarkViewOnceViewed db,
     mrp_CreateLinkPreview = msgRepo_CreateLinkPreview db,
     mrp_GetLinkPreviewByHash = msgRepo_GetLinkPreviewByHash db,
     mrp_GetLinkPreviewByID = msgRepo_GetLinkPreviewByID db, mrp_CreatePoll = msgRepo_CreatePoll db,
     mrp_GetPollByID = msgRepo_GetPollByID db, mrp_ClosePoll = msgRepo_ClosePoll db,
     mrp_AddPollOption = msgRepo_AddPollOption db, mrp_GetPollOptions = msgRepo_GetPollOptions db,
     mrp_VotePoll = msgRepo_VotePoll db, mrp_RemoveVote = msgRepo_RemoveVote db,
     mrp_GetPollVotes = msgRepo_GetPollVotes db, mrp_GetUserVotes = msgRepo_GetUserVotes db,
     mrp_DeleteExpiredMessages = msgRepo_DeleteExpiredMessages db\<rparr>"

record CallRepository =
  clr_Create :: "Call \<Rightarrow> unit go"
  clr_GetByID :: "uuid \<Rightarrow> Call go"
  clr_Update :: "Call \<Rightarrow> unit go"
  clr_GetConversationCalls :: "uuid \<Rightarrow> int \<Rightarrow> int \<Rightarrow> (Call list \<times> int) go"
  clr_GetUserCalls :: "uuid \<Rightarrow> int \<Rightarrow> int \<Rightarrow> (Call list \<times> int) go"
  clr_GetActiveCalls :: "uuid \<Rightarrow> Call list go"
  clr_GetMissedCalls :: "uuid \<Rightarrow> time \<Rightarrow> Call list go"
  clr_MarkConnected :: "uuid \<Rightarrow> unit go"
  clr_EndCall :: "uuid \<Rightarrow> string \<Rightarrow> unit go"
  clr_GetCallDuration :: "uuid \<Rightarrow> int go"
  clr_AddParticipant :: "CallParticipant \<Rightarrow> unit go"
  clr_RemoveParticipant :: "uuid \<Rightarrow> uuid \<Rightarrow> unit go"
  clr_GetCallParticipants :: "uuid \<Rightarrow> CallParticipant list go"
  clr_IsCallParticipant :: "uuid \<Rightarrow> uuid \<Rightarrow> bool go"
  clr_UpdateParticipantStatus :: "uuid \<Rightarrow> uuid \<Rightarrow> string \<Rightarrow> unit go"
  clr_UpdateParticipantMuteStatus :: "uuid \<Rightarrow> uuid \<Rightarrow> bool \<Rightarrow> bool \<Rightarrow> unit go"
  clr_GetActiveParticipantCount :: "uuid \<Rightarrow> int go"
  clr_RecordQualityMetric :: "CallQualityMetric \<Rightarrow> unit go"
  clr_GetCallQualityMetrics :: "uuid \<Rightarrow> CallQualityMetric list go"
  clr_GetUserCallQualityMetrics :: "uuid \<Rightarrow> uuid \<Rightarrow> CallQualityMetric list go"
  clr_GetAverageCallQuality :: "uuid \<Rightarrow> float64 go"

definition NewCallRepository :: "(float64 list \<Rightarrow> float64) \<Rightarrow> DBTX \<Rightarrow> CallRepository" where
  "NewCallRepository avg db = \<lparr>clr_Create = callRepo_Create db, clr_GetByID = callRepo_GetByID db,
     clr_Update = callRepo_Update db, clr_GetConversationCalls = callRepo_GetConversationCalls db,
     clr_GetUserCalls = callRepo_GetUserCalls db, clr_GetActiveCalls = callRepo_GetActiveCalls db,
     clr_GetMissedCalls = callRepo_GetMissedCalls db, clr_MarkConnected = callRepo_MarkConnected db,
     clr_EndCall = callRepo_EndCall db, clr_GetCallDuration = callRepo_GetCallDuration db,
     clr_AddParticipant = callRepo_AddParticipant db,
     clr_RemoveParticipant = callRepo_RemoveParticipant db,
     clr_GetCallParticipants = callRepo_GetCallParticipants db,
     clr_IsCallParticipant = callRepo_IsCallParticipant db,
     clr_UpdateParticipantStatus = callRepo_UpdateParticipantStatus db,
     clr_UpdateParticipantMuteStatus = callRepo_UpdateParticipantMuteStatus db,
     clr_GetActiveParticipantCount = callRepo_GetActiveParticipantCount db,
     clr_RecordQualityMetric = callRepo_RecordQualityMetric db,
     clr_GetCallQualityMetrics = callRepo_GetCallQualityMetrics db,
     clr_GetUserCallQualityMetrics = callRepo_GetUserCallQualityMetrics db,
     clr_GetAverageCallQuality = callRepo_GetAverageCallQuality avg db\<rparr>"

record BroadcastRepository =
  brp_Create :: "BroadcastList \<Rightarrow> unit go"
  brp_GetByID :: "uuid \<Rightarrow> BroadcastList go"
  brp_Update :: "BroadcastList \<Rightarrow> unit go"
  brp_Delete :: "uuid \<Rightarrow> unit go"
  brp_GetUserBroadcastLists :: "uuid \<Rightarrow> BroadcastList list go"
  brp_SearchBroadcastLists :: "uuid \<Rightarrow> string \<Rightarrow> BroadcastList list go"
  brp_AddRecipient :: "BroadcastRecipient \<Rightarrow> unit go"
  brp_RemoveRecipient :: "uuid \<Rightarrow> uuid \<Rightarrow> unit go"
  brp_GetRecipients :: "uuid \<Rightarrow> BroadcastRecipient list go"
  brp_GetRecipientCount :: "uuid \<Rightarrow> int go"
  brp_IsRecipient :: "uuid \<Rightarrow> uuid \<Rightarrow> bool go"
  brp_BulkAddRecipients :: "uuid \<Rightarrow> uuid list \<Rightarrow> unit go"
  brp_BulkRemoveRecipients :: "uuid \<Rightarrow> uuid list \<Rightarrow> unit go"

definition NewBroadcastRepository :: "DBTX \<Rightarrow> BroadcastRepository" where
  "NewBroadcastRepository db = \<lparr>brp_Create = broadcastRepo_Create db, brp_GetByID = broadcastRepo_GetByID db,
     brp_Update = broadcastRepo_Update db, brp_Delete = broadcastRepo_Delete db,
     brp_GetUserBroadcastLists = broadcastRepo_GetUserBroadcastLists db,
     brp_SearchBroadcastLists = broadcastRepo_SearchBroadcastLists db,
     brp_AddRecipient = broadcastRepo_AddRecipient db,
     brp_RemoveRecipient = broadcastRepo_RemoveRecipient db,
     brp_GetRecipients = broadcastRepo_GetRecipients db,
     brp_GetRecipientCount = broadcastRepo_GetRecipientCount db,
     brp_IsRecipient = broadcastRepo_IsRecipient db,
     brp_BulkAddRecipients = broadcastRepo_BulkAddRecipients db,
     brp_BulkRemoveRecipients = broadcastRepo_BulkRemoveRecipients db\<rparr>"

record EncryptionRepository =
  erp_IsDeviceOwnedByUser :: "uuid \<Rightarrow> uuid \<Rightarrow> bool go"
  erp_CreateIdentityKey :: "IdentityKey \<Rightarrow> unit go"
  erp_GetIdentityKey :: "uuid \<Rightarrow> uuid \<Rightarrow> IdentityKey go"
  erp_GetUserIdentityKeys :: "uuid \<Rightarrow> IdentityKey list go"
  erp_DeactivateIdentityKey :: "uuid \<Rightarrow> unit go"
  erp_DeleteIdentityKey :: "uuid \<Rightarrow> unit go"
  erp_CreateSignedPreKey :: "SignedPreKey \<Rightarrow> unit go"
  erp_GetSignedPreKey :: "uuid \<Rightarrow> uuid \<Rightarrow> int \<Rightarrow> SignedPreKey go"
  erp_GetActiveSignedPreKey :: "uuid \<Rightarrow> uuid \<Rightarrow> SignedPreKey go"
  erp_RotateSignedPreKey :: "uuid \<Rightarrow> uuid \<Rightarrow> SignedPreKey \<Rightarrow> unit go"
  erp_DeactivateSignedPreKey :: "uuid \<Rightarrow> unit go"
  erp_UploadOneTimePreKeys :: "OneTimePreKey list \<Rightarrow> unit go"
  erp_ConsumeOneTimePreKey :: "uuid \<Rightarrow> uuid \<Rightarrow> uuid \<Rightarrow> uuid \<Rightarrow> OneTimePreKey go"
  erp_GetAvailablePreKeyCount :: "uuid \<Rightarrow> uuid \<Rightarrow> int go"
  erp_DeleteConsumedPreKeys :: "time \<Rightarrow> int go"
  erp_HasActiveKeys :: "uuid \<Rightarrow> uuid \<Rightarrow> bool go"

definition NewEncryptionRepository :: "DBTX \<Rightarrow> EncryptionRepository" where
  "NewEncryptionRepository db = \<lparr>erp_IsDeviceOwnedByUser = encRepo_IsDeviceOwnedByUser db,
     erp_CreateIdentityKey = encRepo_CreateIdentityKey db,
     erp_GetIdentityKey = encRepo_GetIdentityKey db,
     erp_GetUserIdentityKeys = encRepo_GetUserIdentityKeys db,
     erp_DeactivateIdentityKey = encRepo_DeactivateIdentityKey db,
     erp_DeleteIdentityKey = encRepo_DeleteIdentityKey db,
     erp_CreateSignedPreKey = encRepo_CreateSignedPreKey db,
     erp_GetSignedPreKey = encRepo_GetSignedPreKey db,
     erp_GetActiveSignedPreKey = encRepo_GetActiveSignedPreKey db,
     erp_RotateSignedPreKey = encRepo_RotateSignedPreKey db,
     erp_DeactivateSignedPreKey = encRepo_DeactivateSignedPreKey db,
     erp_UploadOneTimePreKeys = encRepo_UploadOneTimePreKeys db,
     erp_ConsumeOneTimePreKey = encRepo_ConsumeOneTimePreKey db,
     erp_GetAvailablePreKeyCount = encRepo_GetAvailablePreKeyCount db,
     erp_DeleteConsumedPreKeys = encRepo_DeleteConsumedPreKeys db,
     erp_HasActiveKeys = encRepo_HasActiveKeys db\<rparr>"

record UploadRepository =
  upr_Create :: "UploadSession \<Rightarrow> unit go"
  upr_GetByID :: "uuid \<Rightarrow> UploadSession go"
  upr_Update :: "UploadSession \<Rightarrow> unit go"
  upr_Delete :: "uuid \<Rightarrow> unit go"
  upr_GetUserUploadSessions :: "uuid \<Rightarrow> UploadSession list go"
  upr_GetInProgressUploads :: "uuid \<Rightarrow> UploadSession list go"
  upr_GetCompletedUploads :: "uuid \<Rightarrow> int \<Rightarrow> int \<Rightarrow> (UploadSession list \<times> int) go"
  upr_UpdateProgress :: "uuid \<Rightarrow> int \<Rightarrow> unit go"
  upr_MarkCompleted :: "uuid \<Rightarrow> unit go"
  upr_MarkFailed :: "uuid \<Rightarrow> unit go"
  upr_GetStaleUploads :: "duration \<Rightarrow> UploadSession list go"
  upr_DeleteStaleUploads :: "duration \<Rightarrow> int go"

definition NewUploadRepository :: "DBTX \<Rightarrow> UploadRepository" where
  "NewUploadRepository db = \<lparr>upr_Create = uploadRepo_Create db, upr_GetByID = uploadRepo_GetByID db,
     upr_Update = uploadRepo_Update db, upr_Delete = uploadRepo_Delete db,
     upr_GetUserUploadSessions = uploadRepo_GetUserUploadSessions db,
     upr_GetInProgressUploads = uploadRepo_GetInProgressUploads db,
     upr_GetCompletedUploads = uploadRepo_GetCompletedUploads db,
     upr_UpdateProgress = uploadRepo_UpdateProgress db, upr_MarkCompleted = uploadRepo_MarkCompleted db,
     upr_MarkFailed = uploadRepo_MarkFailed db, upr_GetStaleUploads = uploadRepo_GetStaleUploads db,
     upr_DeleteStaleUploads = uploadRepo_DeleteStaleUploads db\<rparr>"

record CommandRepository =
  cmr_CreateLog :: "CommandLog \<Rightarrow> unit go"
  cmr_UpdateLog :: "CommandLog \<Rightarrow> unit go"
  cmr_GetLogByID :: "uuid \<Rightarrow> CommandLog go"
  cmr_GetPendingCommands :: "int \<Rightarrow> CommandLog list go"
  cmr_GetCommandsByUser :: "uuid \<Rightarrow> int \<Rightarrow> CommandLog list go"
  cmr_CanUndo :: "uuid \<Rightarrow> uuid \<Rightarrow> bool go"

definition NewCommandRepository :: "DBTX \<Rightarrow> CommandRepository" where
  "NewCommandRepository db = \<lparr>cmr_CreateLog = cmdRepo_CreateLog db, cmr_UpdateLog = cmdRepo_UpdateLog db,
     cmr_GetLogByID = cmdRepo_GetLogByID db, cmr_GetPendingCommands = cmdRepo_GetPendingCommands db,
     cmr_GetCommandsByUser = cmdRepo_GetCommandsByUser db, cmr_CanUndo = cmdRepo_CanUndo db\<rparr>"

section \<open>Repositories in a transaction\<close>

text \<open>
  A repository made from the handle of a transaction never touches the committed database, whichever of its
  methods is called, and whether it fails. This is what \<^verbatim>\<open>WithTx\<close> relies on when a body fails.
\<close>

lemma keeps_WithTx_Tx: "keeps P (fn Tx) \<Longrightarrow> keeps P (WithTx Tx fn)"
  by (simp add: WithTx_def)

lemma keeps_addRecipients: "keeps (committed d) (addRecipients Tx l now ids)"
  by (induction ids) (auto intro!: keeps_intros split: option.splits sum.splits)

lemmas shared_operations = update_user_def update_device_def load_participants_def update_participant_def
  update_upload_def update_call_participant_def

lemmas in_tx_intros = keeps_intros keeps_WithTx_Tx keeps_addRecipients

lemmas user_operations = NewUserRepository_def UserRepository.select_convs userRepo_Create_def
  userRepo_GetAllUsers_def userRepo_GetUserByID_def userRepo_UpdateUser_def userRepo_DeleteUser_def
  userRepo_GetUserByEmail_def userRepo_GetUserByUsername_def userRepo_GetUserByPhoneNumber_def
  userRepo_SearchUsers_def userRepo_UpdateOnlineStatus_def userRepo_UpdateLastSeen_def
  userRepo_GetUserContacts_def userRepo_AddUserContact_def userRepo_RemoveUserContact_def
  userRepo_BlockContact_def userRepo_UnblockContact_def userRepo_GetBlockedContacts_def
  userRepo_GetUserSettings_def userRepo_UpdateUserSettings_def userRepo_CreateUserSettings_def
  userRepo_AddDevice_def userRepo_GetUserDevices_def userRepo_GetDeviceByID_def
  userRepo_DeactivateDevice_def userRepo_UpdateDeviceLastSeen_def userRepo_AddPushToken_def
  userRepo_GetUserPushTokens_def userRepo_DeactivatePushToken_def userRepo_CreateSession_def
  userRepo_GetSessionByID_def userRepo_GetUserSessions_def userRepo_UpdateSession_def
  userRepo_RevokeSession_def userRepo_RevokeAllUserSessions_def userRepo_CleanExpiredSessions_def

lemma UserRepository_in_tx:
  "\<And>x. keeps (committed d) (uri_Create (NewUserRepository Tx) x)"
  "\<And>x y. keeps (committed d) (uri_GetAllUsers (NewUserRepository Tx) x y)"
  "\<And>x. keeps (committed d) (uri_GetUserByID (NewUserRepository Tx) x)"
  "\<And>x. keeps (committed d) (uri_UpdateUser (NewUserRepository Tx) x)"
  "\<And>x. keeps (committed d) (uri_DeleteUser (NewUserRepository Tx) x)"
  "\<And>x. keeps (committed d) (uri_GetUserByEmail (NewUserRepository Tx) x)"
  "\<And>x. keeps (committed d) (uri_GetUserByUsername (NewUserRepository Tx) x)"
  "\<And>x. keeps (committed d) (uri_GetUserByPhoneNumber (NewUserRepository Tx) x)"
  "\<And>x y z. keeps (committed d) (uri_SearchUsers (NewUserRepository Tx) x y z)"
  "\<And>x y. keeps (committed d) (uri_UpdateOnlineStatus (NewUserRepository Tx) x y)"
  "\<And>x y. keeps (committed d) (uri_UpdateLastSeen (NewUserRepository Tx) x y)"
  "\<And>x. keeps (committed d) (uri_GetUserContacts (NewUserRepository Tx) x)"
  "\<And>x. keeps (committed d) (uri_AddUserContact (NewUserRepository Tx) x)"
  "\<And>x y. keeps (committed d) (uri_RemoveUserContact (NewUserRepository Tx) x y)"
  "\<And>x y. keeps (committed d) (uri_BlockContact (NewUserRepository Tx) x y)"
  "\<And>x y. keeps (committed d) (uri_UnblockContact (NewUserRepository Tx) x y)"
  "\<And>x. keeps (committed d) (uri_GetBlockedContacts (NewUserRepository Tx) x)"
  "\<And>x. keeps (committed d) (uri_GetUserSettings (NewUserRepository Tx) x)"
  "\<And>x. keeps (committed d) (uri_UpdateUserSettings (NewUserRepository Tx) x)"
  "\<And>x. keeps (committed d) (uri_CreateUserSettings (NewUserRepository Tx) x)"
  "\<And>x. keeps (committed d) (uri_AddDevice (NewUserRepository Tx) x)"
  "\<And>x. keeps (committed d) (uri_GetUserDevices (NewUserRepository Tx) x)"
  "\<And>x. keeps (committed d) (uri_GetDeviceByID (NewUserRepository Tx) x)"
  "\<And>x. keeps (committed d) (uri_DeactivateDevice (NewUserRepository Tx) x)"
  "\<And>x. keeps (committed d) (uri_UpdateDeviceLastSeen (NewUserRepository Tx) x)"
  "\<And>x. keeps (committed d) (uri_AddPushToken (NewUserRepository Tx) x)"
  "\<And>x. keeps (committed d) (uri_GetUserPushTokens (NewUserRepository Tx) x)"
  "\<And>x. keeps (committed d) (uri_DeactivatePushToken (NewUserRepository Tx) x)"
  "\<And>x. keeps (committed d) (uri_CreateSession (NewUserRepository Tx) x)"
  "\<And>x. keeps (committed d) (uri_GetSessionByID (NewUserRepository Tx) x)"
  "\<And>x. keeps (committed d) (uri_GetUserSessions (NewUserRepository Tx) x)"
  "\<And>x. keeps (committed d) (uri_UpdateSession (NewUserRepository Tx) x)"
  "\<And>x. keeps (committed d) (uri_RevokeSession (NewUserRepository Tx) x)"
  "\<And>x. keeps (committed d) (uri_RevokeAllUserSessions (NewUserRepository Tx) x)"
  "keeps (committed d) (uri_CleanExpiredSessions (NewUserRepository Tx))"
  unfolding user_operations shared_operations
  by (auto intro!: in_tx_intros split: option.splits sum.splits prod.splits if_splits)

lemmas conversation_operations = NewConversationRepository_def ConversationRepository.select_convs
  convRepo_Create_def convRepo_GetByID_def convRepo_Update_def convRepo_Delete_def
  convRepo_GetUserConversations_def convRepo_GetDirectConversation_def convRepo_SearchConversations_def
  convRepo_GetConversationsByType_def convRepo_GetByInviteLink_def convRepo_RegenerateInviteLink_def
  convRepo_AddParticipant_def convRepo_RemoveParticipant_def convRepo_GetParticipants_def
  convRepo_GetParticipant_def convRepo_UpdateParticipantRole_def convRepo_IsParticipant_def
  convRepo_GetParticipantCount_def convRepo_MuteConversation_def convRepo_UnmuteConversation_def
  convRepo_PinConversation_def convRepo_UnpinConversation_def convRepo_ArchiveConversation_def
  convRepo_UnarchiveConversation_def convRepo_UpdateLastReadSequence_def
  convRepo_GetConversationSequence_def convRepo_IncrementSequence_def

lemma ConversationRepository_in_tx:
  "\<And>x. keeps (committed d) (cvr_Create (NewConversationRepository Tx) x)"
  "\<And>x. keeps (committed d) (cvr_GetByID (NewConversationRepository Tx) x)"
  "\<And>x. keeps (committed d) (cvr_Update (NewConversationRepository Tx) x)"
  "\<And>x. keeps (committed d) (cvr_Delete (NewConversationRepository Tx) x)"
  "\<And>x y z. keeps (committed d) (cvr_GetUserConversations (NewConversationRepository Tx) x y z)"
  "\<And>x y. keeps (committed d) (cvr_GetDirectConversation (NewConversationRepository Tx) x y)"
  "\<And>x y. keeps (committed d) (cvr_SearchConversations (NewConversationRepository Tx) x y)"
  "\<And>x y. keeps (committed d) (cvr_GetConversationsByType (NewConversationRepository Tx) x y)"
  "\<And>x. keeps (committed d) (cvr_GetByInviteLink (NewConversationRepository Tx) x)"
  "\<And>x. keeps (committed d) (cvr_RegenerateInviteLink (NewConversationRepository Tx) x)"
  "\<And>x. keeps (committed d) (cvr_AddParticipant (NewConversationRepository Tx) x)"
  "\<And>x y. keeps (committed d) (cvr_RemoveParticipant (NewConversationRepository Tx) x y)"
  "\<And>x. keeps (committed d) (cvr_GetParticipants (NewConversationRepository Tx) x)"
  "\<And>x y. keeps (committed d) (cvr_GetParticipant (NewConversationRepository Tx) x y)"
  "\<And>x y z. keeps (committed d) (cvr_UpdateParticipantRole (NewConversationRepository Tx) x y z)"
  "\<And>x y. keeps (committed d) (cvr_IsParticipant (NewConversationRepository Tx) x y)"
  "\<And>x. keeps (committed d) (cvr_GetParticipantCount (NewConversationRepository Tx) x)"
  "\<And>x y z. keeps (committed d) (cvr_MuteConversation (NewConversationRepository Tx) x y z)"
  "\<And>x y. keeps (committed d) (cvr_UnmuteConversation (NewConversationRepository Tx) x y)"
  "\<And>x y. keeps (committed d) (cvr_PinConversation (NewConversationRepository Tx) x y)"
  "\<And>x y. keeps (committed d) (cvr_UnpinConversation (NewConversationRepository Tx) x y)"
  "\<And>x y. keeps (committed d) (cvr_ArchiveConversation (NewConversationRepository Tx) x y)"
  "\<And>x y. keeps (committed d) (cvr_UnarchiveConversation (NewConversationRepository Tx) x y)"
  "\<And>x y z. keeps (committed d) (cvr_UpdateLastReadSequence (NewConversationRepository Tx) x y z)"
  "\<And>x. keeps (committed d) (cvr_GetConversationSequence (NewConversationRepository Tx) x)"
  "\<And>x. keeps (committed d) (cvr_IncrementSequence (NewConversationRepository Tx) x)"
  unfolding conversation_operations shared_operations
  by (auto intro!: in_tx_intros split: option.splits sum.splits prod.splits if_splits)

lemmas message_operations = NewMessageRepository_def MessageRepository.select_convs msgRepo_Create_def
  msgRepo_GetByID_def msgRepo_Update_def msgRepo_SoftDelete_def msgRepo_HardDelete_def
  msgRepo_CreateCiphertext_def msgRepo_GetConversationMessages_def msgRepo_GetMessagesBySeqRange_def
  msgRepo_GetUnreadMessages_def msgRepo_SearchMessages_def msgRepo_GetMessagesByType_def
  msgRepo_GetLatestMessage_def msgRepo_MarkAsEdited_def msgRepo_GetMessageCountSince_def
  msgRepo_GetByIdempotencyKey_def msgRepo_GetByClientMessageID_def msgRepo_AddReaction_def
  msgRepo_RemoveReaction_def msgRepo_GetMessageReactions_def msgRepo_GetUserReaction_def
  msgRepo_CreateReceipt_def msgRepo_UpdateReceipt_def msgRepo_GetMessageReceipts_def
  msgRepo_MarkAsDelivered_def msgRepo_MarkAsRead_def msgRepo_MarkAsPlayed_def
  msgRepo_BulkMarkAsDelivered_def msgRepo_BulkMarkAsRead_def msgRepo_AddMention_def
  msgRepo_GetMessageMentions_def msgRepo_GetUserMentions_def msgRepo_StarMessage_def
  msgRepo_UnstarMessage_def msgRepo_GetUserStarredMessages_def msgRepo_IsMessageStarred_def
  msgRepo_CreateAttachment_def msgRepo_GetAttachmentByID_def msgRepo_LinkAttachmentToMessage_def
  msgRepo_GetMessageAttachments_def msgRepo_MarkViewOnceViewed_def msgRepo_CreateLinkPreview_def
  msgRepo_GetLinkPreviewByHash_def msgRepo_GetLinkPreviewByID_def msgRepo_CreatePoll_def
  msgRepo_GetPollByID_def msgRepo_ClosePoll_def msgRepo_AddPollOption_def msgRepo_GetPollOptions_def
  msgRepo_VotePoll_def msgRepo_RemoveVote_def msgRepo_GetPollVotes_def msgRepo_GetUserVotes_def
  msgRepo_DeleteExpiredMessages_def

lemma MessageRepository_in_tx:
  "\<And>x. keeps (committed d) (mrp_Create (NewMessageRepository Tx) x)"
  "\<And>x. keeps (committed d) (mrp_GetByID (NewMessageRepository Tx) x)"
  "\<And>x. keeps (committed d) (mrp_Update (NewMessageRepository Tx) x)"
  "\<And>x. keeps (committed d) (mrp_SoftDelete (NewMessageRepository Tx) x)"
  "\<And>x. keeps (committed d) (mrp_HardDelete (NewMessageRepository Tx) x)"
  "\<And>x. keeps (committed d) (mrp_CreateCiphertext (NewMessageRepository Tx) x)"
  "\<And>x y z u. keeps (committed d) (mrp_GetConversationMessages (NewMessageRepository Tx) x y z u)"
  "\<And>x y z. keeps (committed d) (mrp_GetMessagesBySeqRange (NewMessageRepository Tx) x y z)"
  "\<And>x y. keeps (committed d) (mrp_GetUnreadMessages (NewMessageRepository Tx) x y)"
  "\<And>x y z u. keeps (committed d) (mrp_SearchMessages (NewMessageRepository Tx) x y z u)"
  "\<And>x y z. keeps (committed d) (mrp_GetMessagesByType (NewMessageRepository Tx) x y z)"
  "\<And>x. keeps (committed d) (mrp_GetLatestMessage (NewMessageRepository Tx) x)"
  "\<And>x. keeps (committed d) (mrp_MarkAsEdited (NewMessageRepository Tx) x)"
  "\<And>x y. keeps (committed d) (mrp_GetMessageCountSince (NewMessageRepository Tx) x y)"
  "\<And>x. keeps (committed d) (mrp_GetByIdempotencyKey (NewMessageRepository Tx) x)"
  "\<And>x. keeps (committed d) (mrp_GetByClientMessageID (NewMessageRepository Tx) x)"
  "\<And>x. keeps (committed d) (mrp_AddReaction (NewMessageRepository Tx) x)"
  "\<And>x y z. keeps (committed d) (mrp_RemoveReaction (NewMessageRepository Tx) x y z)"
  "\<And>x. keeps (committed d) (mrp_GetMessageReactions (NewMessageRepository Tx) x)"
  "\<And>x y. keeps (committed d) (mrp_GetUserReaction (NewMessageRepository Tx) x y)"
  "\<And>x. keeps (committed d) (mrp_CreateReceipt (NewMessageRepository Tx) x)"
  "\<And>x. keeps (committed d) (mrp_UpdateReceipt (NewMessageRepository Tx) x)"
  "\<And>x. keeps (committed d) (mrp_GetMessageReceipts (NewMessageRepository Tx) x)"
  "\<And>x y. keeps (committed d) (mrp_MarkAsDelivered (NewMessageRepository Tx) x y)"
  "\<And>x y. keeps (committed d) (mrp_MarkAsRead (NewMessageRepository Tx) x y)"
  "\<And>x y. keeps (committed d) (mrp_MarkAsPlayed (NewMessageRepository Tx) x y)"
  "\<And>x y. keeps (committed d) (mrp_BulkMarkAsDelivered (NewMessageRepository Tx) x y)"
  "\<And>x y. keeps (committed d) (mrp_BulkMarkAsRead (NewMessageRepository Tx) x y)"
  "\<And>x. keeps (committed d) (mrp_AddMention (NewMessageRepository Tx) x)"
  "\<And>x. keeps (committed d) (mrp_GetMessageMentions (NewMessageRepository Tx) x)"
  "\<And>x y z. keeps (committed d) (mrp_GetUserMentions (NewMessageRepository Tx) x y z)"
  "\<And>x. keeps (committed d) (mrp_StarMessage (NewMessageRepository Tx) x)"
  "\<And>x y. keeps (committed d) (mrp_UnstarMessage (NewMessageRepository Tx) x y)"
  "\<And>x y z. keeps (committed d) (mrp_GetUserStarredMessages (NewMessageRepository Tx) x y z)"
  "\<And>x y. keeps (committed d) (mrp_IsMessageStarred (NewMessageRepository Tx) x y)"
  "\<And>x. keeps (committed d) (mrp_CreateAttachment (NewMessageRepository Tx) x)"
  "\<And>x. keeps (committed d) (mrp_GetAttachmentByID (NewMessageRepository Tx) x)"
  "\<And>x. keeps (committed d) (mrp_LinkAttachmentToMessage (NewMessageRepository Tx) x)"
  "\<And>x. keeps (committed d) (mrp_GetMessageAttachments (NewMessageRepository Tx) x)"
  "\<And>x. keeps (committed d) (mrp_MarkViewOnceViewed (NewMessageRepository Tx) x)"
  "\<And>x. keeps (committed d) (mrp_CreateLinkPreview (NewMessageRepository Tx) x)"
  "\<And>x. keeps (committed d) (mrp_GetLinkPreviewByHash (NewMessageRepository Tx) x)"
  "\<And>x. keeps (committed d) (mrp_GetLinkPreviewByID (NewMessageRepository Tx) x)"
  "\<And>x. keeps (committed d) (mrp_CreatePoll (NewMessageRepository Tx) x)"
  "\<And>x. keeps (committed d) (mrp_GetPollByID (NewMessageRepository Tx) x)"
  "\<And>x. keeps (committed d) (mrp_ClosePoll (NewMessageRepository Tx) x)"
  "\<And>x. keeps (committed d) (mrp_AddPollOption (NewMessageRepository Tx) x)"
  "\<And>x. keeps (committed d) (mrp_GetPollOptions (NewMessageRepository Tx) x)"
  "\<And>x. keeps (committed d) (mrp_VotePoll (NewMessageRepository Tx) x)"
  "\<And>x y z. keeps (committed d) (mrp_RemoveVote (NewMessageRepository Tx) x y z)"
  "\<And>x. keeps (committed d) (mrp_GetPollVotes (NewMessageRepository Tx) x)"
  "\<And>x y. keeps (committed d) (mrp_GetUserVotes (NewMessageRepository Tx) x y)"
  "keeps (committed d) (mrp_DeleteExpiredMessages (NewMessageRepository Tx))"
  unfolding message_operations shared_operations
  by (auto intro!: in_tx_intros split: option.splits sum.splits prod.splits if_splits)

lemmas call_operations = NewCallRepository_def CallRepository.select_convs callRepo_Create_def
  callRepo_GetByID_def callRepo_Update_def callRepo_GetConversationCalls_def callRepo_GetUserCalls_def
  callRepo_GetActiveCalls_def callRepo_GetMissedCalls_def callRepo_MarkConnected_def callRepo_EndCall_def
  callRepo_GetCallDuration_def callRepo_AddParticipant_def callRepo_RemoveParticipant_def
  callRepo_GetCallParticipants_def callRepo_IsCallParticipant_def callRepo_UpdateParticipantStatus_def
  callRepo_UpdateParticipantMuteStatus_def callRepo_GetActiveParticipantCount_def
  callRepo_RecordQualityMetric_def callRepo_GetCallQualityMetrics_def
  callRepo_GetUserCallQualityMetrics_def callRepo_GetAverageCallQuality_def

lemma CallRepository_in_tx:
  "\<And>x. keeps (committed d) (clr_Create (NewCallRepository avg Tx) x)"
  "\<And>x. keeps (committed d) (clr_GetByID (NewCallRepository avg Tx) x)"
  "\<And>x. keeps (committed d) (clr_Update (NewCallRepository avg Tx) x)"
  "\<And>x y z. keeps (committed d) (clr_GetConversationCalls (NewCallRepository avg Tx) x y z)"
  "\<And>x y z. keeps (committed d) (clr_GetUserCalls (NewCallRepository avg Tx) x y z)"
  "\<And>x. keeps (committed d) (clr_GetActiveCalls (NewCallRepository avg Tx) x)"
  "\<And>x y. keeps (committed d) (clr_GetMissedCalls (NewCallRepository avg Tx) x y)"
  "\<And>x. keeps (committed d) (clr_MarkConnected (NewCallRepository avg Tx) x)"
  "\<And>x y. keeps (committed d) (clr_EndCall (NewCallRepository avg Tx) x y)"
  "\<And>x. keeps (committed d) (clr_GetCallDuration (NewCallRepository avg Tx) x)"
  "\<And>x. keeps (committed d) (clr_AddParticipant (NewCallRepository avg Tx) x)"
  "\<And>x y. keeps (committed d) (clr_RemoveParticipant (NewCallRepository avg Tx) x y)"
  "\<And>x. keeps (committed d) (clr_GetCallParticipants (NewCallRepository avg Tx) x)"
  "\<And>x y. keeps (committed d) (clr_IsCallParticipant (NewCallRepository avg Tx) x y)"
  "\<And>x y z. keeps (committed d) (clr_UpdateParticipantStatus (NewCallRepository avg Tx) x y z)"
  "\<And>x y z u. keeps (committed d) (clr_UpdateParticipantMuteStatus (NewCallRepository avg Tx) x y z u)"
  "\<And>x. keeps (committed d) (clr_GetActiveParticipantCount (NewCallRepository avg Tx) x)"
  "\<And>x. keeps (committed d) (clr_RecordQualityMetric (NewCallRepository avg Tx) x)"
  "\<And>x. keeps (committed d) (clr_GetCallQualityMetrics (NewCallRepository avg Tx) x)"
  "\<And>x y. keeps (committed d) (clr_GetUserCallQualityMetrics (NewCallRepository avg Tx) x y)"
  "\<And>x. keeps (committed d) (clr_GetAverageCallQuality (NewCallRepository avg Tx) x)"
  unfolding call_operations shared_operations
  by (auto intro!: in_tx_intros split: option.splits sum.splits prod.splits if_splits)

lemmas broadcast_operations = NewBroadcastRepository_def BroadcastRepository.select_convs
  broadcastRepo_Create_def broadcastRepo_GetByID_def broadcastRepo_Update_def broadcastRepo_Delete_def
  broadcastRepo_GetUserBroadcastLists_def broadcastRepo_SearchBroadcastLists_def
  broadcastRepo_AddRecipient_def broadcastRepo_RemoveRecipient_def broadcastRepo_GetRecipients_def
  broadcastRepo_GetRecipientCount_def broadcastRepo_IsRecipient_def broadcastRepo_BulkAddRecipients_def
  broadcastRepo_BulkRemoveRecipients_def

lemma BroadcastRepository_in_tx:
  "\<And>x. keeps (committed d) (brp_Create (NewBroadcastRepository Tx) x)"
  "\<And>x. keeps (committed d) (brp_GetByID (NewBroadcastRepository Tx) x)"
  "\<And>x. keeps (committed d) (brp_Update (NewBroadcastRepository Tx) x)"
  "\<And>x. keeps (committed d) (brp_Delete (NewBroadcastRepository Tx) x)"
  "\<And>x. keeps (committed d) (brp_GetUserBroadcastLists (NewBroadcastRepository Tx) x)"
  "\<And>x y. keeps (committed d) (brp_SearchBroadcastLists (NewBroadcastRepository Tx) x y)"
  "\<And>x. keeps (committed d) (brp_AddRecipient (NewBroadcastRepository Tx) x)"
  "\<And>x y. keeps (committed d) (brp_RemoveRecipient (NewBroadcastRepository Tx) x y)"
  "\<And>x. keeps (committed d) (brp_GetRecipients (NewBroadcastRepository Tx) x)"
  "\<And>x. keeps (committed d) (brp_GetRecipientCount (NewBroadcastRepository Tx) x)"
  "\<And>x y. keeps (committed d) (brp_IsRecipient (NewBroadcastRepository Tx) x y)"
  "\<And>x y. keeps (committed d) (brp_BulkAddRecipients (NewBroadcastRepository Tx) x y)"
  "\<And>x y. keeps (committed d) (brp_BulkRemoveRecipients (NewBroadcastRepository Tx) x y)"
  unfolding broadcast_operations shared_operations
  by (auto intro!: in_tx_intros split: option.splits sum.splits prod.splits if_splits)

lemmas encryption_operations = NewEncryptionRepository_def EncryptionRepository.select_convs
  encRepo_IsDeviceOwnedByUser_def encRepo_CreateIdentityKey_def encRepo_GetIdentityKey_def
  encRepo_GetUserIdentityKeys_def encRepo_DeactivateIdentityKey_def encRepo_DeleteIdentityKey_def
  encRepo_CreateSignedPreKey_def encRepo_GetSignedPreKey_def encRepo_GetActiveSignedPreKey_def
  encRepo_RotateSignedPreKey_def encRepo_DeactivateSignedPreKey_def encRepo_UploadOneTimePreKeys_def
  encRepo_ConsumeOneTimePreKey_def encRepo_GetAvailablePreKeyCount_def encRepo_DeleteConsumedPreKeys_def
  encRepo_HasActiveKeys_def

lemma EncryptionRepository_in_tx:
  "\<And>x y. keeps (committed d) (erp_IsDeviceOwnedByUser (NewEncryptionRepository Tx) x y)"
  "\<And>x. keeps (committed d) (erp_CreateIdentityKey (NewEncryptionRepository Tx) x)"
  "\<And>x y. keeps (committed d) (erp_GetIdentityKey (NewEncryptionRepository Tx) x y)"
  "\<And>x. keeps (committed d) (erp_GetUserIdentityKeys (NewEncryptionRepository Tx) x)"
  "\<And>x. keeps (committed d) (erp_DeactivateIdentityKey (NewEncryptionRepository Tx) x)"
  "\<And>x. keeps (committed d) (erp_DeleteIdentityKey (NewEncryptionRepository Tx) x)"
  "\<And>x. keeps (committed d) (erp_CreateSignedPreKey (NewEncryptionRepository Tx) x)"
  "\<And>x y z. keeps (committed d) (erp_GetSignedPreKey (NewEncryptionRepository Tx) x y z)"
  "\<And>x y. keeps (committed d) (erp_GetActiveSignedPreKey (NewEncryptionRepository Tx) x y)"
  "\<And>x y z. keeps (committed d) (erp_RotateSignedPreKey (NewEncryptionRepository Tx) x y z)"
  "\<And>x. keeps (committed d) (erp_DeactivateSignedPreKey (NewEncryptionRepository Tx) x)"
  "\<And>x. keeps (committed d) (erp_UploadOneTimePreKeys (NewEncryptionRepository Tx) x)"
  "\<And>x y z u. keeps (committed d) (erp_ConsumeOneTimePreKey (NewEncryptionRepository Tx) x y z u)"
  "\<And>x y. keeps (committed d) (erp_GetAvailablePreKeyCount (NewEncryptionRepository Tx) x y)"
  "\<And>x. keeps (committed d) (erp_DeleteConsumedPreKeys (NewEncryptionRepository Tx) x)"
  "\<And>x y. keeps (committed d) (erp_HasActiveKeys (NewEncryptionRepository Tx) x y)"
  unfolding encryption_operations shared_operations
  by (auto intro!: in_tx_intros split: option.splits sum.splits prod.splits if_splits)

lemmas upload_operations = NewUploadRepository_def UploadRepository.select_convs uploadRepo_Create_def
  uploadRepo_GetByID_def uploadRepo_Update_def uploadRepo_Delete_def uploadRepo_GetUserUploadSessions_def
  uploadRepo_GetInProgressUploads_def uploadRepo_GetCompletedUploads_def uploadRepo_UpdateProgress_def
  uploadRepo_MarkCompleted_def uploadRepo_MarkFailed_def uploadRepo_GetStaleUploads_def
  uploadRepo_DeleteStaleUploads_def

lemma UploadRepository_in_tx:
  "\<And>x. keeps (committed d) (upr_Create (NewUploadRepository Tx) x)"
  "\<And>x. keeps (committed d) (upr_GetByID (NewUploadRepository Tx) x)"
  "\<And>x. keeps (committed d) (upr_Update (NewUploadRepository Tx) x)"
  "\<And>x. keeps (committed d) (upr_Delete (NewUploadRepository Tx) x)"
  "\<And>x. keeps (committed d) (upr_GetUserUploadSessions (NewUploadRepository Tx) x)"
  "\<And>x. keeps (committed d) (upr_GetInProgressUploads (NewUploadRepository Tx) x)"
  "\<And>x y z. keeps (committed d) (upr_GetCompletedUploads (NewUploadRepository Tx) x y z)"
  "\<And>x y. keeps (committed d) (upr_UpdateProgress (NewUploadRepository Tx) x y)"
  "\<And>x. keeps (committed d) (upr_MarkCompleted (NewUploadRepository Tx) x)"
  "\<And>x. keeps (committed d) (upr_MarkFailed (NewUploadRepository Tx) x)"
  "\<And>x. keeps (committed d) (upr_GetStaleUploads (NewUploadRepository Tx) x)"
  "\<And>x. keeps (committed d) (upr_DeleteStaleUploads (NewUploadRepository Tx) x)"
  unfolding upload_operations shared_operations
  by (auto intro!: in_tx_intros split: option.splits sum.splits prod.splits if_splits)

lemmas command_operations = NewCommandRepository_def CommandRepository.select_convs cmdRepo_CreateLog_def
  cmdRepo_UpdateLog_def cmdRepo_GetLogByID_def cmdRepo_GetPendingCommands_def
  cmdRepo_GetCommandsByUser_def cmdRepo_CanUndo_def

lemma CommandRepository_in_tx:
  "\<And>x. keeps (committed d) (cmr_CreateLog (NewCommandRepository Tx) x)"
  "\<And>x. keeps (committed d) (cmr_UpdateLog (NewCommandRepository Tx) x)"
  "\<And>x. keeps (committed d) (cmr_GetLogByID (NewCommandRepository Tx) x)"
  "\<And>x. keeps (committed d) (cmr_GetPendingCommands (NewCommandRepository Tx) x)"
  "\<And>x y. keeps (committed d) (cmr_GetCommandsByUser (NewCommandRepository Tx) x y)"
  "\<And>x y. keeps (committed d) (cmr_CanUndo (NewCommandRepository Tx) x y)"
  unfolding command_operations shared_operations
  by (auto intro!: in_tx_intros split: option.splits sum.splits prod.splits if_splits)

end
