(* ===== verification/WorkerLoops.thy ===== *)
theory WorkerLoops
  imports OutboxWorker
begin

text \<open>
  The life of the outbox worker (\<^verbatim>\<open>NewOutboxWorker\<close>, \<^verbatim>\<open>Start\<close> and \<^verbatim>\<open>Stop\<close> of \<^verbatim>\<open>internal/services/outbox_worker.go\<close>)
  and what its loops do when there are several of them: two processes that poll one outbox, or a worker that
  was started twice, which \<^verbatim>\<open>Start\<close> does not refuse. A loop reads a batch in one step and handles each event
  of it in one further step, between which the other loops take theirs.
\<close>

section \<open>The worker\<close>

datatype loop_phase = Waiting | Handling "OutboxEvent list" | Left

record Worker =
  wk_interval :: duration
  wk_batchSize :: int
  wk_running :: bool
  wk_stopClosed :: bool
  wk_loops :: "loop_phase list"

definition NewOutboxWorker :: Worker where
  "NewOutboxWorker = \<lparr>wk_interval = Second div 10, wk_batchSize = batchSize, wk_running = False,
     wk_stopClosed = False, wk_loops = []\<rparr>"

definition worker_Start :: "Worker \<Rightarrow> Worker" where
  "worker_Start wk = wk\<lparr>wk_running := True, wk_loops := wk_loops wk @ [Waiting]\<rparr>"

text \<open>
  \<^verbatim>\<open>Stop\<close> up to its \<^verbatim>\<open>Wait\<close>, which returns when every loop has left: closing the channel a second time panics.
\<close>

definition worker_Stop :: "Worker \<Rightarrow> error + Worker" where
  "worker_Stop wk = (if wk_stopClosed wk then Inl (Panic ''close of closed channel'')
     else Inr (wk\<lparr>wk_running := False, wk_stopClosed := True\<rparr>))"

definition set_loop :: "nat \<Rightarrow> loop_phase \<Rightarrow> Worker \<Rightarrow> Worker" where
  "set_loop i p wk = wk\<lparr>wk_loops := (wk_loops wk)[i := p]\<rparr>"

definition loop_at :: "nat \<Rightarrow> Worker \<Rightarrow> loop_phase option" where
  "loop_at i wk = (if i < length (wk_loops wk) then Some (wk_loops wk ! i) else None)"

lemma loop_at_set_loop [simp]:
  "loop_at j (set_loop i p wk) = (if i = j then map_option (\<lambda>_. p) (loop_at i wk) else loop_at j wk)"
  by (simp add: loop_at_def set_loop_def)

lemma set_loop_again [simp]: "set_loop i p (set_loop i q wk) = set_loop i p wk"
  by (simp add: set_loop_def)

lemma set_loop_same: "loop_at i wk = Some p \<Longrightarrow> set_loop i p wk = wk"
  by (auto simp: loop_at_def set_loop_def split: if_splits)

lemma set_loop_commute: "i \<noteq> j \<Longrightarrow> set_loop i p (set_loop j q wk) = set_loop j q (set_loop i p wk)"
  by (simp add: set_loop_def list_update_swap)

lemma batchSize_set_loop [simp]: "wk_batchSize (set_loop i p wk) = wk_batchSize wk"
  by (simp add: set_loop_def)

section \<open>Steps of the loops\<close>

type_synonym worker_state = "(world \<times> RedisBus) \<times> Worker"

inductive worker_step :: "worker_state \<Rightarrow> worker_state \<Rightarrow> bool" where
  start: "worker_step (s, wk) (s, worker_Start wk)"
| stop: "worker_Stop wk = Inr wk' \<Longrightarrow> worker_step (s, wk) (s, wk')"
| fetch: "loop_at i wk = Some Waiting \<Longrightarrow>
    run_state (on_store (orp_GetPending postgres_outbox (wk_batchSize wk))) s = (r, s') \<Longrightarrow>
    worker_step (s, wk) (s', case r of Inl _ \<Rightarrow> wk | Inr es \<Rightarrow> set_loop i (Handling es) wk)"
| handle: "loop_at i wk = Some (Handling (e # es)) \<Longrightarrow>
    run_state (processEvent postgres_outbox bus_Publish e) s = (u, s') \<Longrightarrow>
    worker_step (s, wk) (s', set_loop i (Handling es) wk)"
| through: "loop_at i wk = Some (Handling []) \<Longrightarrow> worker_step (s, wk) (s, set_loop i Waiting wk)"
| leave: "loop_at i wk = Some Waiting \<Longrightarrow> wk_stopClosed wk \<Longrightarrow> worker_step (s, wk) (s, set_loop i Left wk)"

abbreviation "worker_steps \<equiv> worker_step\<^sup>*\<^sup>*"

text \<open>Stopping is final: no step opens the channel again, so that a second \<^verbatim>\<open>Stop\<close> panics, whatever came between.\<close>

lemma stopClosed_step: "worker_step t t' \<Longrightarrow> wk_stopClosed (snd t) \<Longrightarrow> wk_stopClosed (snd t')"
  by (induction rule: worker_step.induct) (auto simp: worker_Start_def worker_Stop_def set_loop_def split: if_splits sum.splits)

lemma second_Stop_panics:
  assumes "worker_Stop wk = Inr wk'" "worker_steps (s, wk') (s2, wk2)"
  shows "worker_Stop wk2 = Inl (Panic ''close of closed channel'')"
proof -
  from assms(2) have "wk_stopClosed wk' \<Longrightarrow> wk_stopClosed wk2"
    by (induction rule: rtranclp_induct2) (auto dest: stopClosed_step)
  with assms(1) show ?thesis by (auto simp: worker_Stop_def split: if_splits)
qed

text \<open>The steps of one loop do what a tick of \<^verbatim>\<open>run\<close> does.\<close>

lemma handling_steps:
  assumes "loop_at i wk = Some (Handling es)" "run_state (processEvents postgres_outbox bus_Publish es) s = (u, s')"
  shows "worker_steps (s, wk) (s', set_loop i Waiting wk)"
  using assms
proof (induction es arbitrary: s wk)
  case Nil
  then show ?case by (auto intro: worker_step.through)
next
  case (Cons e es)
  obtain u1 s1 where e: "run_state (processEvent postgres_outbox bus_Publish e) s = (u1, s1)" by (metis prod.collapse)
  then have "worker_step (s, wk) (s1, set_loop i (Handling es) wk)" using Cons.prems(1) by (rule worker_step.handle [rotated])
  moreover have "worker_steps (s1, set_loop i (Handling es) wk) (s', set_loop i Waiting (set_loop i (Handling es) wk))"
    by (rule Cons.IH) (use Cons.prems e in auto)
  ultimately show ?case by (simp add: converse_rtranclp_into_rtranclp)
qed

lemma tick_steps:
  assumes "loop_at i wk = Some Waiting" "wk_batchSize wk = batchSize"
    and "run_state (processBatch postgres_outbox bus_Publish) s = (u, s')"
  shows "worker_steps (s, wk) (s', wk)"
proof -
  obtain r s1 where get: "run_state (on_store (orp_GetPending postgres_outbox batchSize)) s = (r, s1)" by (metis prod.collapse)
  have fetch: "worker_step (s, wk) (s1, case r of Inl _ \<Rightarrow> wk | Inr es \<Rightarrow> set_loop i (Handling es) wk)"
    using assms(1,2) get by (auto intro: worker_step.fetch)
  show ?thesis
  proof (cases r)
    case (Inl err)
    with fetch get assms(3) show ?thesis by (auto simp: processBatch_def)
  next
    case (Inr es)
    with get assms(3) have "run_state (processEvents postgres_outbox bus_Publish es) s1 = (u, s')"
      by (simp add: processBatch_def)
    from handling_steps [OF _ this, of i "set_loop i (Handling es) wk"] assms(1)
    have "worker_steps (s1, set_loop i (Handling es) wk) (s', wk)" by (simp add: set_loop_same)
    with fetch Inr show ?thesis by (simp add: converse_rtranclp_into_rtranclp)
  qed
qed

section \<open>Two loops\<close>

lemma fetch_step:
  assumes "loop_at i wk = Some Waiting" "wk_batchSize wk = batchSize" "\<And>n. w_fault w n = None"
  shows "worker_step ((w, b), wk) ((tick w, b), set_loop i (Handling (take 100 (backlog w))) wk)"
proof -
  have "run_state (on_store (orp_GetPending postgres_outbox (wk_batchSize wk))) (w, b) =
      (Inr (take 100 (backlog w)), (tick w, b))"
    using assms(2,3) by (simp add: postgres_outbox_def outboxRepo_GetPending_def run_sql_Pool query_page_def
        offset_limit_def batchSize_def pending_def backlog_def tick_def Let_def)
  from worker_step.fetch [OF assms(1) this] show ?thesis by simp
qed

text \<open>
  C29. Marking an event as being processed does not keep a second loop from it: when two loops read the outbox
  before either has handled what it read, then every event of the batch is published twice.
\<close>

theorem Two_loops_publish_twice:
  assumes "outbox_ok w" "\<And>n. w_fault w n = None" "bus_running b"
    and "i \<noteq> j" "loop_at i wk = Some Waiting" "loop_at j wk = Some Waiting" "wk_batchSize wk = batchSize"
  shows "\<exists>w' b'. worker_steps ((w, b), wk) ((w', b'), wk) \<and>
    bus_sent b' = bus_sent b @ concat (map (deliveries (bus_down b)) (take 100 (backlog w)))
      @ concat (map (deliveries (bus_down b)) (take 100 (backlog w)))"
proof -
  let ?es = "take 100 (backlog w)" and ?wki = "set_loop i (Handling (take 100 (backlog w))) wk"
  let ?wkij = "set_loop j (Handling ?es) ?wki"
  have "worker_step ((w, b), wk) ((tick w, b), ?wki)" using fetch_step [OF assms(5,7,2)] .
  moreover have "worker_step ((tick w, b), ?wki) ((tick (tick w), b), ?wkij)"
    using fetch_step [of j ?wki "tick w" b] assms(2,4,6,7) by (simp add: backlog_def pending_def)
  ultimately have read: "worker_steps ((w, b), wk) ((tick (tick w), b), ?wkij)" by simp
  obtain u1 w1 b1 where one: "run_state (processEvents postgres_outbox bus_Publish ?es) (tick (tick w), b) = (u1, (w1, b1))"
    by (metis prod.collapse)
  obtain u2 w2 b2 where two: "run_state (processEvents postgres_outbox bus_Publish ?es) (w1, b1) = (u2, (w2, b2))"
    by (metis prod.collapse)
  have "worker_steps ((tick (tick w), b), ?wkij) ((w1, b1), set_loop i Waiting ?wkij)"
    by (rule handling_steps [OF _ one]) (use assms(4,5) in simp)
  moreover have "worker_steps ((w1, b1), set_loop i Waiting ?wkij) ((w2, b2), set_loop j Waiting (set_loop i Waiting ?wkij))"
    by (rule handling_steps [OF _ two]) (use assms(4,6) in simp)
  moreover have "set_loop j Waiting (set_loop i Waiting ?wkij) = wk"
    using assms(4-6) by (simp add: set_loop_commute [of i j] set_loop_same)
  ultimately have "worker_steps ((w, b), wk) ((w2, b2), wk)" using read by auto
  moreover have b1: "b1 = b\<lparr>bus_sent := bus_sent b @ concat (map (deliveries (bus_down b)) ?es)\<rparr>"
    using processEvents_delivers [OF _ assms(3) one] assms(2) by simp
  moreover have "\<And>n. w_fault w1 n = None"
    using processEvents_pending [OF _ one] assms(2) by simp
  then have "b2 = b1\<lparr>bus_sent := bus_sent b1 @ concat (map (deliveries (bus_down b1)) ?es)\<rparr>"
    using processEvents_delivers [OF _ _ two] assms(3) b1 by simp
  ultimately show ?thesis by (intro exI [of _ w2] exI [of _ b2]) simp
qed

lemma Two_loops_publish_twice_witness:
  "\<exists>w' b'. worker_steps ((outbox_world, \<lparr>bus_running = True, bus_down = (\<lambda>_. False), bus_sent = []\<rparr>),
      worker_Start (worker_Start NewOutboxWorker)) ((w', b'), worker_Start (worker_Start NewOutboxWorker)) \<and>
    length (bus_sent b') = 2 * length (deliveries (\<lambda>_. False) sample_event)"
proof -
  let ?bus = "\<lparr>bus_running = True, bus_down = (\<lambda>_. False), bus_sent = []\<rparr>"
  let ?wk = "worker_Start (worker_Start NewOutboxWorker)"
  have "backlog outbox_world = [sample_event]"
    by (simp add: backlog_def pending_def order_asc_def outbox_world_def sample_event_def is_pending_def)
  moreover have "loop_at 0 ?wk = Some Waiting" "loop_at 1 ?wk = Some Waiting" "wk_batchSize ?wk = batchSize"
    by (simp_all add: loop_at_def worker_Start_def NewOutboxWorker_def)
  moreover have "outbox_ok outbox_world" "\<And>n. w_fault outbox_world n = None" by (simp_all add: outbox_world_facts)
  ultimately obtain w' b' where
    "worker_steps ((outbox_world, ?bus), ?wk) ((w', b'), ?wk)"
    "bus_sent b' = deliveries (\<lambda>_. False) sample_event @ deliveries (\<lambda>_. False) sample_event"
    using Two_loops_publish_twice [of outbox_world ?bus 0 1 ?wk] by auto
  then show ?thesis by (intro exI [of _ w'] exI [of _ b']) simp
qed

end
