(* ===== verification/Spec2Isabelle.thy ===== *)
theory Spec2Isabelle
  imports MessageService OutboxWorker ConversationService Encryption CallService AuthService
    Commands UserService WsLimits Hub RateLimiter Cache Presence Broadcasts Uploads WebSocket Server Seed Backend
    SendRace Startup Pumps Tables Interfaces WorkerLoops
begin

text \<open>
  A verification library for the chat backend, a Go server that stores end-to-end encrypted messages in
  PostgreSQL, keeps short-lived state in Redis and pushes events to WebSocket clients.

  The parts of the program and the theories that model them, from the bottom up:

  \<^item> \<open>Prelude\<close>, \<open>UuidText\<close>, \<open>Base64\<close>: errors, times, UUIDs, JSON values, the calling convention of Go functions
    (a state monad with \<open>error + 'a\<close>), lists as tables; the text of a UUID determines it.
  \<^item> \<open>Domain\<close>, \<open>Database\<close>, \<open>Cascades\<close>, \<open>Transactions\<close>: the entities of \<^verbatim>\<open>internal/domain\<close>, the tables and keys
    of \<^verbatim>\<open>migrations\<close>, statements on a pool or in a transaction, \<^verbatim>\<open>WithTx\<close> of \<^verbatim>\<open>sql_helpers.go\<close>, and which
    predicates of the database statements keep (the rules \<open>keeps_intros\<close>). \<open>Samples\<close> is a small database.
  \<^item> \<open>MessageRepo\<close>, \<open>ConversationRepo\<close>, \<open>UserRepo\<close>, \<open>CallRepo\<close>, \<open>OutboxRepo\<close>: the repositories of
    \<^verbatim>\<open>internal/repository\<close>; those of broadcasts, uploads, pre-keys and command logs stand beside their services
    in \<open>Broadcasts\<close>, \<open>Uploads\<close>, \<open>Encryption\<close> and \<open>Commands\<close>. \<open>Interfaces\<close>: \<^verbatim>\<open>interfaces.go\<close>, and that no method touches the
    committed database in a transaction.
  \<^item> \<open>MessageService\<close>, \<open>ConversationService\<close>, \<open>UserService\<close>, \<open>CallService\<close>, \<open>AuthService\<close>, \<open>Encryption\<close>,
    \<open>Commands\<close>: \<^verbatim>\<open>internal/services\<close> and \<^verbatim>\<open>internal/commands\<close>. \<open>SendRace\<close> is the one place where requests overlap:
    the swap of the shared repository in \<^verbatim>\<open>executeSendMessage\<close>.
  \<^item> \<open>Events\<close>, \<open>EventPublisher\<close>, \<open>OutboxWorker\<close>, \<open>EventBus\<close>, \<open>OutboxTyping\<close>, \<open>WorkerLoops\<close>: an event on its way from the
    transaction that saves it into the outbox, through the worker and Redis, to the handlers of the bus; the last
    one is about several loops of workers at the same time.
  \<^item> \<open>Redis\<close>, \<open>Cache\<close>, \<open>Presence\<close>, \<open>RateLimiter\<close>: a key-value store with expiry, and \<^verbatim>\<open>internal/redis\<close> on it.
  \<^item> \<open>Hub\<close>, \<open>Pumps\<close>, \<open>WsLimits\<close>, \<open>WebSocket\<close>: the hub, its clients with the deadlines and frames of their
    sockets, and their limiters in \<^verbatim>\<open>internal/server\<close>.
  \<^item> \<open>Http\<close>, \<open>AuthHandler\<close>, \<open>MessageHandler\<close>, \<open>ConversationHandler\<close>, \<open>UserHandler\<close>, \<open>CallHandler\<close>,
    \<open>CallQuality\<close>, \<open>UploadHandler\<close>, \<open>EncryptionHandler\<close>, \<open>BroadcastHandler\<close>: \<^verbatim>\<open>internal/handler\<close> with the requests and replies of
    \<^verbatim>\<open>internal/transport/httpdto\<close>. \<open>Server\<close>: the middleware and the routes of \<^verbatim>\<open>server.go\<close>;
    \<open>Logging\<close>: the two middlewares that log, \<^verbatim>\<open>pkg/logger\<close> and the logger of the sockets.
  \<^item> \<open>Postgres\<close>, \<open>Seed\<close>, \<open>Migrations\<close>: \<^verbatim>\<open>pkg/database\<close> and \<^verbatim>\<open>cmd/migrate\<close>; \<open>Tables\<close>: the entities no query
    uses, and the table every entity names. \<open>Configuration\<close>: \<^verbatim>\<open>config/config.go\<close>. \<open>Singletons\<close>: the connection
    to the database, the Redis client and the logger, each made once. \<open>Startup\<close>: \<^verbatim>\<open>cmd/api/main.go\<close>, from the
    configuration to the end of the process, with \<^verbatim>\<open>Start\<close> of \<^verbatim>\<open>server.go\<close>.
  \<^item> \<open>Backend\<close>: all of it as one step relation. This theory holds the properties that span components.

  Interfaces are locales: \<open>row_key\<close> (a table with a unique key), \<open>outbox_repository\<close> (what the worker needs of
  the repository), \<open>json_cache\<close> (a value that survives encoding) and \<open>sync_once\<close> (a value made by the first call),
  each interpreted on the code's definitions.

  What the lemmas show, by group. Services: what a successful operation has checked and stored, and that a
  failing one, for any schedule of failing statements, leaves the committed database as it was. Outbox: events
  are well typed, published at most once by one loop and in the order of their creation, a backlog of any size is drained by
  as many ticks as it has batches of 100, and the receipt of a message marked read arrives at the hub. Authentication: from the token to the rows of the sessions, at the service and at the server,
  and what of it the WebSockets leave out.
  Hub: its registry stays well formed, no handler panics, and a broadcast implements its specification.
  Limits: how many messages, connections and requests get through in a window. Redis: caches give back what
  they were given, presence refines the set of users online. Process: when exactly it comes to serve, and that
  of several initialisations of a global the first one decides. Sockets: the pumps are steps of the hub, and the idle
  timeout ends no connection that can still be read. Logging: a server that logs answers as one that does not. Some lemmas state what the code does although it
  was hardly meant to: they are the findings of the development.

  Parameters. The world of a run holds the clock \<open>w_now\<close>, fresh identifiers \<open>w_new\<close>, the failures of statements
  \<open>w_fault\<close> and the reading of JSONB text \<open>w_jsonb\<close>; a Redis server has its own clock and failures and the order
  of its scans. \<open>auth_lib\<close> holds bcrypt, SHA-256, randomness, UUID parsing and what the JWT library signs, the claims themselves being written and read
  as JSON by the model, \<open>HttpLib\<close> the parsing and
  formatting of requests, \<open>seed_lib\<close> and \<open>process_lib\<close> what seeding and starting need; \<open>sv_match\<close> is Gin's
  matching of a path with a pattern, \<open>hub_pick\<close> the order of a Go map, \<open>s3_presign\<close> the signing of the AWS SDK,
  \<open>FloatLib\<close> the arithmetic on floating point numbers, which are their 64 bits, \<open>file_lib\<close> the directory of
  the migrations, and \<open>zap_lib\<close>, \<open>db_driver\<close> and \<open>aws_lib\<close> zap, the PostgreSQL driver and the AWS SDK as far as starting needs them.

  Simplifications. One request runs after the other, with one transaction open at a time, except in \<open>SendRace\<close>,
  in \<open>WorkerLoops\<close> and in the two-step consumption of \<open>Encryption\<close>; constraints are checked by statement. \<^verbatim>\<open>NOW()\<close> reads the clock. Text
  that goes through JSONB is unchanged; a NULL text column of a user reads as empty; timestamps are not rounded, and 0 is Go's zero
  time; nil and empty slices are the same; JSON fields are matched exactly; lengths of \<^verbatim>\<open>VARCHAR\<close> and the range of
  integer columns are not checked, except for the durations of calls and tokens. The channels of the hub never
  fill up, which includes senders that wait. A tick of the worker and a request are one step each.

  Bounds and fuel. Every loop of the sources runs over a list or is fired by a signal, so that no definition
  needs fuel; the list of signals of the worker, the steps of the hub and those of the process are arbitrary.
  Durations are 64 bit numbers of nanoseconds.

  Not modelled: printing to the standard output and the standard logger; reading a \<^verbatim>\<open>.env\<close> file; what the SQL
  scripts of the migrations do, which is a parameter where they are run; what stands behind the calls of zap,
  the PostgreSQL and Redis drivers, the AWS SDK, the HTTP server and the sockets, whose outcomes are parameters
  or steps of the environment.
\<close>

text \<open>
  C1. Every route but the public ones stands behind the authentication: either the request carries an
  access token that the signature check accepts, of a user and a session of that user that is neither
  revoked nor expired, or it is not answered with 200 and the database stays as it is. The public ones are
  the three probes of the server, the entry to the accounts (registration, login, refresh, the two steps of a password
  reset) and \<^verbatim>\<open>GET /v1/ws\<close>, which checks the token but not its session.
\<close>

theorem Private_routes_guarded:
  assumes run: "run_state (ServeHTTP sv hq) (w, rd) = (r, (w', rd'))" and pool: "asv_userRepo (sv_auth sv) = Pool"
    and route: "sv_match sv (hq_method hq) (hq_path hq) = Some (pattern, params)"
      "(hq_method hq, pattern) \<notin> set public_routes"
  shows "(\<exists>claims ses u.
      jwt_Parse (sv_auth_lib sv) (w_now w (w_step w)) (asv_jwtSecret (sv_auth sv))
        (extractBearer (hq_header hq ''Authorization'')) = Some claims \<and>
      uuid_Parse (sv_auth_lib sv) (ac_UserID claims) = Some u \<and>
      ses \<in> set (t_user_sessions (w_db w)) \<and> ses_UserID ses = u \<and>
      uuid_Parse (sv_auth_lib sv) (ac_SessionID claims) = Some (ses_ID ses) \<and>
      \<not> ses_IsRevoked ses \<and> w_now w (Suc (w_step w)) < ses_ExpiresAt ses) \<or>
    rs_status r \<noteq> 200 \<and> w_db w' = w_db w"
  using run route
proof (cases rule: private_cases)
  case (2 ctx w1)
  from AuthMiddleware_Inr [OF 2 pool] show ?thesis unfolding live_session_def by metis
qed simp

text \<open>
  C10. A logout through the server ends the session it names, whoever asked for it: from then on, as
  long as the sessions of the database stay as they are, no route behind the authentication answers 200 to an
  access token of that session, nor does it change the database. The route of the WebSockets is not behind it,
  as the theorem on it below says.
\<close>

theorem Logout_locks_out:
  assumes pool: "asv_userRepo (sv_auth sv) = Pool"
    and out: "run_state (ServeHTTP sv hq) (w, rd) = (r, (w1, rd1))" "rs_status r = 200"
    and logout: "hq_method hq = ''POST''" "sv_match sv ''POST'' (hq_path hq) = Some (''/v1/auth/logout'', params)"
    and body: "Option.bind (hq_body hq) decode_LogoutRequest = Some sid" "uuid_Parse (sv_auth_lib sv) sid = Some i"
    and later: "t_user_sessions (w_db w2) = t_user_sessions (w_db w1)"
      "run_state (ServeHTTP sv hq2) (w2, rd2) = (r2, (w3, rd3))"
    and token: "\<And>claims. jwt_Parse (sv_auth_lib sv) (w_now w2 (w_step w2)) (asv_jwtSecret (sv_auth sv))
        (extractBearer (hq_header hq2 ''Authorization'')) = Some claims \<Longrightarrow>
      uuid_Parse (sv_auth_lib sv) (ac_SessionID claims) = Some i"
    and route: "sv_match sv (hq_method hq2) (hq_path hq2) = Some (pattern, params2)"
      "(hq_method hq2, pattern) \<notin> set public_routes"
  shows "rs_status r2 \<noteq> 200 \<and> w_db w3 = w_db w2"
proof -
  from out have run: "run_state (ServeHTTP sv hq) (w, rd) = (r, (w1, rd1))" "rs_status r = 200" .
  obtain ctx wa ra r0 where
    h: "run_state (on_db (authH_Logout (sv_lib sv) (sv_auth_lib sv) (sv_auth sv))
      ((request_of hq params)\<lparr>rq_ctx := Some ctx\<rparr>)) (wa, ra) = (r0, (w1, rd1))" "rs_status r0 = 200"
    by (rule guarded_200 [OF run]) (use logout logout_route in auto)
  then have "run_state (authH_Logout (sv_lib sv) (sv_auth_lib sv) (sv_auth sv)
      ((request_of hq params)\<lparr>rq_ctx := Some ctx\<rparr>)) wa = (r0, w1)"
    by (auto simp: on_db_def)
  then have "run_state (serveOr (writeAuthError (sv_lib sv)) (authSvc_Logout (sv_auth_lib sv) (sv_auth sv) sid)
      (\<lambda>_. replyNil)) wa = (r0, w1)"
    using body by (simp add: authH_Logout_def bindJSON_def request_of_def)
  then have "run_state (authSvc_Logout (sv_auth_lib sv) (sv_auth sv) sid) wa = (Inr (), w1)"
    using h(2) by (rule authServe_200) (simp add: replyNil_def)
  from Logout_revokes [OF this pool body(2)] later(1)
  have revoked: "\<forall>x\<in>set (t_user_sessions (w_db w2)). ses_ID x = i \<longrightarrow> ses_IsRevoked x" by simp
  from later(2) route show ?thesis
  proof (cases rule: private_cases)
    case (2 ctx2 wb)
    from AuthMiddleware_Inr [OF 2 pool] token revoked show ?thesis unfolding live_session_def by fastforce
  qed simp
qed

lemma messageH_List_200:
  assumes run: "run_state (messageH_List lib s rq) w = (r, w')" "rs_status r = 200"
    and pool: "msv_messageRepo s = Pool" "msv_conversationRepo s = Some Pool"
  obtains conv u device ms where
    "hl_uuid_Parse lib (rq_query rq ''conversation_id'') = Some conv"
    "UserIDFromContext (rq_ctx rq) = Some u" "DeviceIDFromContext (rq_ctx rq) = Some (Some device)"
    "list_ex (is_participant conv u) (t_participants (w_db w))"
    "rs_body r = Some (NewSuccessResponse (Some (ListMessagesResponse (FromMessageSlice lib ms))))"
    "\<forall>x\<in>set ms. \<exists>m\<in>set (t_messages (w_db w)). \<exists>c\<in>set (t_ciphertexts (w_db w)).
       x = with_ciphertext m c \<and> msg_ConversationID m = conv \<and> msg_DeletedAt m = None \<and>
       mc_MessageID c = msg_ID m \<and> mc_RecipientDeviceID c = device"
proof -
  from run obtain conv before limit u where args: "hl_uuid_Parse lib (rq_query rq ''conversation_id'') = Some conv"
    "UserIDFromContext (rq_ctx rq) = Some u"
    and serve: "run_state (serve lib (msgSvc_GetConversationMessages s (DeviceIDFromContext (rq_ctx rq)) conv before limit u)
      (\<lambda>items. replyOK (ListMessagesResponse (FromMessageSlice lib items)))) w = (r, w')"
    unfolding messageH_List_def by (auto elim!: orBadRequest_200 withUser_200)
  from serve run(2) obtain ms where
    get: "run_state (msgSvc_GetConversationMessages s (DeviceIDFromContext (rq_ctx rq)) conv before limit u) w = (Inr ms, w')"
    and body: "rs_body r = Some (NewSuccessResponse (Some (ListMessagesResponse (FromMessageSlice lib ms))))"
    by (auto elim!: serve_200 simp: replyOK_def)
  from GetConversationMessages_Inr [OF pool get] args body that show thesis by metis
qed

text \<open>
  C9. What the server lists for \<^verbatim>\<open>GET /v1/messages\<close>: the caller is the user of the session of the access
  token, which is neither revoked nor expired, and takes part in the conversation of the query; every
  message of the reply is an undeleted one of that conversation, with the ciphertext for the device of
  the session.
\<close>

theorem Listing_is_own:
  assumes run: "run_state (ServeHTTP sv hq) (w, rd) = (r, (w', rd'))" "rs_status r = 200"
    and pool: "asv_userRepo (sv_auth sv) = Pool" "sv_message sv = Some s" "msv_messageRepo s = Pool"
      "msv_conversationRepo s = Some Pool"
    and route: "hq_method hq = ''GET''" "sv_match sv ''GET'' (hq_path hq) = Some (''/v1/messages'', params)"
  shows "\<exists>claims ses conv device ms.
    jwt_Parse (sv_auth_lib sv) (w_now w (w_step w)) (asv_jwtSecret (sv_auth sv))
      (extractBearer (hq_header hq ''Authorization'')) = Some claims \<and>
    uuid_Parse (sv_auth_lib sv) (ac_SessionID claims) = Some (ses_ID ses) \<and>
    ses \<in> set (t_user_sessions (w_db w)) \<and> \<not> ses_IsRevoked ses \<and> w_now w (Suc (w_step w)) < ses_ExpiresAt ses \<and>
    hl_uuid_Parse (sv_lib sv) (hq_query hq ''conversation_id'') = Some conv \<and>
    list_ex (is_participant conv (ses_UserID ses)) (t_participants (w_db w)) \<and>
    ses_DeviceID ses = Some device \<and>
    rs_body r = Some (NewSuccessResponse (Some (ListMessagesResponse (FromMessageSlice (sv_lib sv) ms)))) \<and>
    (\<forall>x\<in>set ms. \<exists>m\<in>set (t_messages (w_db w)). \<exists>c\<in>set (t_ciphertexts (w_db w)).
       x = with_ciphertext m c \<and> msg_ConversationID m = conv \<and> msg_DeletedAt m = None \<and>
       mc_MessageID c = msg_ID m \<and> mc_RecipientDeviceID c = device)"
proof -
  obtain ctx w1 rd1 r0 where
    auth: "run_state (AuthMiddleware (sv_auth_lib sv) (sv_auth sv) (hq_header hq ''Authorization'')) w = (Inr ctx, w1)"
    and h: "run_state (on_db (messageH_List (sv_lib sv) s) ((request_of hq params)\<lparr>rq_ctx := Some ctx\<rparr>)) (w1, rd1)
      = (r0, (w', rd'))" and r0: "rs_status r0 = 200" "rs_body r0 = rs_body r"
    by (rule guarded_200 [OF run]) (use route list_messages_route [OF pool(2)] in auto)
  from h have "run_state (messageH_List (sv_lib sv) s ((request_of hq params)\<lparr>rq_ctx := Some ctx\<rparr>)) w1 = (r0, w')"
    by (auto simp: on_db_def)
  moreover have "w_db w1 = w_db w"
    using keepsD [OF keeps_AuthMiddleware, of "w_db w", OF _ auth] by (simp add: committed_def)
  ultimately obtain conv u device ms where
    conv: "hl_uuid_Parse (sv_lib sv) (hq_query hq ''conversation_id'') = Some conv"
    and u: "UserIDFromContext (Some ctx) = Some u"
    and device: "DeviceIDFromContext (Some ctx) = Some (Some device)"
    and member: "list_ex (is_participant conv u) (t_participants (w_db w))"
    and body: "rs_body r0 = Some (NewSuccessResponse (Some (ListMessagesResponse (FromMessageSlice (sv_lib sv) ms))))"
    and ms: "\<forall>x\<in>set ms. \<exists>m\<in>set (t_messages (w_db w)). \<exists>c\<in>set (t_ciphertexts (w_db w)).
       x = with_ciphertext m c \<and> msg_ConversationID m = conv \<and> msg_DeletedAt m = None \<and>
       mc_MessageID c = msg_ID m \<and> mc_RecipientDeviceID c = device"
    using r0(1) pool(3,4) by (auto simp: request_of_def elim!: messageH_List_200)
  from AuthMiddleware_Inr [OF auth pool(1)] obtain claims ses where
    "jwt_Parse (sv_auth_lib sv) (w_now w (w_step w)) (asv_jwtSecret (sv_auth sv))
      (extractBearer (hq_header hq ''Authorization'')) = Some claims"
    "uuid_Parse (sv_auth_lib sv) (ac_SessionID claims) = Some (ses_ID ses)"
    "ses \<in> set (t_user_sessions (w_db w))" "ses_UserID ses = rc_userID ctx"
    "ses_DeviceID ses = rc_deviceID ctx" "live_session (w_now w (Suc (w_step w))) ses" by metis
  with conv member device ms body u r0(2) show ?thesis
    by (intro exI [of _ claims] exI [of _ ses] exI [of _ conv] exI [of _ device] exI [of _ ms])
      (simp add: live_session_def UserIDFromContext_def DeviceIDFromContext_def)
qed

section \<open>A server to run requests on\<close>

definition server_lib :: auth_lib where
  "server_lib = sample_lib\<lparr>jwt_Payload := (\<lambda>_ _ tok.
     if tok = ''t'' then Some (AccessClaims_json (claims_for sample_auth 2 900 None 5)) else None)\<rparr>"

definition sample_floats :: FloatLib where
  "sample_floats = \<lparr>fp_Parse = (\<lambda>_. Some 0), fp_Format = (\<lambda>_. ''0''), fp_of_int = (\<lambda>_. 0),
     fp_times = (\<lambda>_ _. 0), fp_over = (\<lambda>_ _. 0), fp_Round = (\<lambda>_. 0), fp_Avg = (\<lambda>_. 0)\<rparr>"

definition sample_server :: Server where
  "sample_server = \<lparr>sv_lib = sample_http, sv_auth_lib = server_lib, sv_auth = sample_auth,
     sv_message = Some sample_service, sv_conversation = None, sv_user = None, sv_call = None,
     sv_upload = None, sv_encryption = None, sv_broadcast = None, sv_limiter = None, sv_gdb = Pool, sv_sockets = True, sv_floats = sample_floats,
     sv_match = (\<lambda>m p. Some (p, \<lambda>_. uuid_String 100))\<rparr>"

definition server_world :: world where
  "server_world = auth_world\<lparr>w_db := (w_db auth_world)
     \<lparr>t_user_sessions := [sample_session\<lparr>ses_DeviceID := Some 12\<rparr>]\<rparr>\<rparr>"

definition sample_rest :: "redis \<times> Hub" where
  "sample_rest = (empty_redis, NewHub None None None (\<lambda>_. 0))"

definition sample_get :: "string \<Rightarrow> HttpRequest" where
  "sample_get header = \<lparr>hq_method = ''GET'', hq_path = ''/v1/messages'', hq_header = (\<lambda>_. header),
     hq_query = (\<lambda>k. if k = ''conversation_id'' then uuid_String 5 else []), hq_body = None,
     hq_clientIP = ''ip'', hq_random = Some [1], hq_goroutines = 1, hq_handshake = None\<rparr>"

definition sample_logout :: HttpRequest where
  "sample_logout = (sample_get ''bearer t'')\<lparr>hq_method := ''POST'', hq_path := ''/v1/auth/logout'',
     hq_body := Some (JObj [(''session_id'', JStr (uuid_String 900))])\<rparr>"

lemma server_lib_simps [simp]: "uuid_Parse server_lib (uuid_String u) = Some u"
  "jwt_Parse server_lib now k tok =
     (if tok = ''t'' then Some ((claims_for sample_auth 2 900 None 5)\<lparr>ac_Subject := []\<rparr>) else None)"
  by (simp_all add: server_lib_def jwt_Parse_def)

lemma bearer_t [simp]: "extractBearer ''bearer t'' = ''t''" "extractBearer [] = []"
  by (simp_all add: extractBearer_def ToLower_def lower_char_def TrimSpace_def is_space_def char_of_def bit_0)

lemma sample_auth_runs:
  "\<exists>w'. run_state (AuthMiddleware server_lib sample_auth ''bearer t'') server_world =
     (Inr \<lparr>rc_userID = 2, rc_sessionID = 900, rc_deviceID = Some 12\<rparr>, w') \<and> w_db w' = w_db server_world \<and>
     w_fault w' = (\<lambda>_. None) \<and> w_tx w' = None"
  by (simp add: AuthMiddleware_def authSvc_ParseAccessToken_def claims_for_def opt_uuid_String_def
      authSvc_ValidateSession_def userRepo_GetSessionByID_def live_session_def exec_simps server_world_def
      auth_sample_defs sample_world_def)

lemma Private_routes_guarded_witness:
  "rs_status (fst (run_state (ServeHTTP sample_server (sample_get [])) (server_world, sample_rest))) \<noteq> 200"
proof -
  obtain r w' rd' where run: "run_state (ServeHTTP sample_server (sample_get [])) (server_world, sample_rest) = (r, (w', rd'))"
    by (metis prod.collapse)
  have "asv_userRepo (sv_auth sample_server) = Pool"
    "sv_match sample_server (hq_method (sample_get [])) (hq_path (sample_get [])) = Some (''/v1/messages'', \<lambda>_. uuid_String 100)"
    "(hq_method (sample_get []), ''/v1/messages'') \<notin> set public_routes"
    by (simp_all add: sample_server_def sample_get_def sample_auth_def public_routes_def)
  from Private_routes_guarded [OF run this] run show ?thesis
    by (simp add: sample_server_def sample_get_def)
qed

lemma run_open_route:
  assumes "map_of (SetupRoutes sample_server) (hq_method hq, hq_path hq) = Some (guarded sample_server (on_db h))"
    and "hq_header hq = (\<lambda>_. ''bearer t'')" "hq_method hq \<noteq> ''OPTIONS''"
  shows "\<exists>w1. w_db w1 = w_db server_world \<and> w_fault w1 = (\<lambda>_. None) \<and> w_tx w1 = None \<and>
    (\<forall>r w'. run_state (h ((request_of hq (\<lambda>_. uuid_String 100))\<lparr>rq_ctx := Some \<lparr>rc_userID = 2, rc_sessionID = 900, rc_deviceID = Some 12\<rparr>\<rparr>)) w1 = (r, w') \<longrightarrow>
      (\<exists>r'. run_state (ServeHTTP sample_server hq) (server_world, sample_rest) = (r', (w', sample_rest)) \<and>
        rs_status r' = rs_status r))"
proof -
  obtain w1 where "run_state (AuthMiddleware server_lib sample_auth ''bearer t'') server_world =
     (Inr \<lparr>rc_userID = 2, rc_sessionID = 900, rc_deviceID = Some 12\<rparr>, w1) \<and> w_db w1 = w_db server_world \<and>
     w_fault w1 = (\<lambda>_. None) \<and> w_tx w1 = None" using sample_auth_runs by blast
  moreover have "sv_limiter sample_server = None" "sv_match sample_server = (\<lambda>m p. Some (p, \<lambda>_. uuid_String 100))"
    "sv_auth_lib sample_server = server_lib" "sv_auth sample_server = sample_auth" by (simp_all add: sample_server_def)
  ultimately show ?thesis using assms
    by (intro exI [of _ w1])
      (auto simp: ServeHTTP_def RequestIDMiddleware_def CORSMiddleware_def RateLimitMiddleware_def dispatch_def
        guarded_def authenticated_def on_db_def run_withHeaders request_of_def Let_def)
qed

lemma sample_list_200:
  "rs_status (fst (run_state (ServeHTTP sample_server (sample_get ''bearer t'')) (server_world, sample_rest))) = 200"
proof -
  have "map_of (SetupRoutes sample_server) (hq_method (sample_get ''bearer t''), hq_path (sample_get ''bearer t'')) =
      Some (guarded sample_server (on_db (messageH_List sample_http sample_service)))"
    using list_messages_route [of sample_server sample_service] by (simp add: sample_server_def sample_get_def)
  from run_open_route [OF this] obtain w1 where w1: "w_db w1 = w_db server_world" "w_fault w1 = (\<lambda>_. None)" "w_tx w1 = None"
    and run: "\<And>r w'. run_state (messageH_List sample_http sample_service ((request_of (sample_get ''bearer t'') (\<lambda>_. uuid_String 100))
        \<lparr>rq_ctx := Some \<lparr>rc_userID = 2, rc_sessionID = 900, rc_deviceID = Some 12\<rparr>\<rparr>)) w1 = (r, w') \<Longrightarrow>
      \<exists>r'. run_state (ServeHTTP sample_server (sample_get ''bearer t'')) (server_world, sample_rest) = (r', (w', sample_rest)) \<and>
        rs_status r' = rs_status r"
    by (auto simp: sample_get_def)
  have "\<exists>r w'. run_state (messageH_List sample_http sample_service ((request_of (sample_get ''bearer t'') (\<lambda>_. uuid_String 100))
        \<lparr>rq_ctx := Some \<lparr>rc_userID = 2, rc_sessionID = 900, rc_deviceID = Some 12\<rparr>\<rparr>)) w1 = (r, w') \<and> rs_status r = 200"
    using w1
    by (simp add: messageH_List_def orBadRequest_def withUser_def request_of_def sample_get_def parseInt_def
        UserIDFromContext_def DeviceIDFromContext_def serve_def serveOr_def replyOK_def
        msgSvc_GetConversationMessages_def sample_service_def convRepo_IsParticipant_def is_participant_def
        msgRepo_GetConversationMessages_def conversation_page_def seq_before_def exec_simps server_world_def
        auth_world_def sample_defs)
  then show ?thesis using run by fastforce
qed

lemma Listing_is_own_witness:
  "\<exists>r w' rd'. run_state (ServeHTTP sample_server (sample_get ''bearer t'')) (server_world, sample_rest) = (r, (w', rd')) \<and>
     (\<exists>conv device ms. hl_uuid_Parse sample_http (uuid_String 5) = Some conv \<and>
       rs_body r = Some (NewSuccessResponse (Some (ListMessagesResponse (FromMessageSlice sample_http ms)))) \<and>
       (\<forall>x\<in>set ms. \<exists>m\<in>set (t_messages (w_db server_world)). \<exists>c\<in>set (t_ciphertexts (w_db server_world)).
          x = with_ciphertext m c \<and> msg_ConversationID m = conv \<and> mc_RecipientDeviceID c = device))"
proof -
  obtain r w' rd' where run: "run_state (ServeHTTP sample_server (sample_get ''bearer t'')) (server_world, sample_rest) = (r, (w', rd'))"
    by (metis prod.collapse)
  with sample_list_200 have "rs_status r = 200" by simp
  moreover have "asv_userRepo (sv_auth sample_server) = Pool" "sv_message sample_server = Some sample_service"
    "msv_messageRepo sample_service = Pool" "msv_conversationRepo sample_service = Some Pool"
    "hq_method (sample_get ''bearer t'') = ''GET''"
    "sv_match sample_server ''GET'' (hq_path (sample_get ''bearer t'')) = Some (''/v1/messages'', \<lambda>_. uuid_String 100)"
    by (simp_all add: sample_server_def sample_get_def sample_auth_def sample_service_def)
  moreover have "sv_lib sample_server = sample_http" "hq_query (sample_get ''bearer t'') ''conversation_id'' = uuid_String 5"
    by (simp_all add: sample_server_def sample_get_def)
  ultimately show ?thesis using Listing_is_own [OF run] run by fastforce
qed

lemma sample_logout_200:
  "\<exists>r w1. run_state (ServeHTTP sample_server sample_logout) (server_world, sample_rest) = (r, (w1, sample_rest)) \<and>
     rs_status r = 200"
proof -
  have "map_of (SetupRoutes sample_server) (hq_method sample_logout, hq_path sample_logout) =
      Some (guarded sample_server (on_db (authH_Logout sample_http server_lib sample_auth)))"
    using logout_route [of sample_server] by (simp add: sample_server_def sample_logout_def sample_get_def)
  from run_open_route [OF this] obtain w1 where w1: "w_db w1 = w_db server_world" "w_fault w1 = (\<lambda>_. None)" "w_tx w1 = None"
    and run: "\<And>r w'. run_state (authH_Logout sample_http server_lib sample_auth ((request_of sample_logout (\<lambda>_. uuid_String 100))
        \<lparr>rq_ctx := Some \<lparr>rc_userID = 2, rc_sessionID = 900, rc_deviceID = Some 12\<rparr>\<rparr>)) w1 = (r, w') \<Longrightarrow>
      \<exists>r'. run_state (ServeHTTP sample_server sample_logout) (server_world, sample_rest) = (r', (w', sample_rest)) \<and>
        rs_status r' = rs_status r"
    by (auto simp: sample_get_def sample_logout_def)
  have "\<exists>r w'. run_state (authH_Logout sample_http server_lib sample_auth ((request_of sample_logout (\<lambda>_. uuid_String 100))
        \<lparr>rq_ctx := Some \<lparr>rc_userID = 2, rc_sessionID = 900, rc_deviceID = Some 12\<rparr>\<rparr>)) w1 = (r, w') \<and> rs_status r = 200"
    using w1
    by (simp add: authH_Logout_def bindJSON_def sample_logout_def request_of_def decode_LogoutRequest_def
        decode_struct_def field_def required_string_def serveOr_def replyNil_def
        authSvc_Logout_def userRepo_RevokeSession_def exec_simps server_world_def
        auth_sample_defs sample_world_def)
  then show ?thesis using run by fastforce
qed

lemma Logout_locks_out_witness:
  "\<exists>w1. w_db w1 = w_db (fst (snd (run_state (ServeHTTP sample_server sample_logout) (server_world, sample_rest)))) \<and>
     rs_status (fst (run_state (ServeHTTP sample_server (sample_get ''bearer t'')) (w1, sample_rest))) \<noteq> 200"
proof -
  obtain r w1 where out: "run_state (ServeHTTP sample_server sample_logout) (server_world, sample_rest) = (r, (w1, sample_rest))"
    "rs_status r = 200" using sample_logout_200 by blast
  obtain r2 w3 rd3 where later: "run_state (ServeHTTP sample_server (sample_get ''bearer t'')) (w1, sample_rest) = (r2, (w3, rd3))"
    by (metis prod.collapse)
  have "asv_userRepo (sv_auth sample_server) = Pool" "hq_method sample_logout = ''POST''"
    "sv_match sample_server ''POST'' (hq_path sample_logout) = Some (''/v1/auth/logout'', \<lambda>_. uuid_String 100)"
    "Option.bind (hq_body sample_logout) decode_LogoutRequest = Some (uuid_String 900)"
    "uuid_Parse (sv_auth_lib sample_server) (uuid_String 900) = Some 900"
    "sv_match sample_server (hq_method (sample_get ''bearer t'')) (hq_path (sample_get ''bearer t'')) =
       Some (''/v1/messages'', \<lambda>_. uuid_String 100)"
    "(hq_method (sample_get ''bearer t''), ''/v1/messages'') \<notin> set public_routes"
    by (simp_all add: sample_server_def sample_get_def sample_logout_def sample_auth_def public_routes_def
        decode_LogoutRequest_def decode_struct_def field_def required_string_def)
  note setting = this
  have token: "uuid_Parse (sv_auth_lib sample_server) (ac_SessionID claims) = Some 900"
    if "jwt_Parse (sv_auth_lib sample_server) now k tok = Some claims" for now k tok claims
    using that by (auto simp: sample_server_def claims_for_def split: if_splits)
  from Logout_locks_out [OF setting(1) out setting(2-5) refl later token setting(6,7)] out later show ?thesis by auto
qed

text \<open>
  C4. What travels is well typed. Whatever the process does from an empty outbox on, every event of the
  outbox decodes to an event of the type its row names, so that the worker never marks one as failing to
  unmarshal; and every text that the bus has sent is the JSON of such an event, was sent to one of the
  event's channels, and makes the listener call the hub with just that event if the hub has subscribed
  to its type, and nobody otherwise.
\<close>

theorem Outbox_well_typed:
  assumes "backend_steps sv s s'" "backend_init s"
  shows "(\<forall>e\<in>set (t_outbox (w_db (bk_world s'))). \<exists>ev.
      unmarshalEvent (ob_EventType e) (ob_Payload e) = Some ev \<and> event_Type ev = ob_EventType e) \<and>
    (\<forall>(c, data)\<in>set (bus_sent (bk_bus s')). \<exists>ev. data = event_json ev \<and> c \<in> set (ResolveChannels ev) \<and>
      psubscribed c \<and>
      bus_listen hub_listener data = (if event_Type ev \<in> set subscribedEvents then [((), ev)] else []))"
proof -
  from backend_steps_typed [OF assms] have "all_dbs outbox_typed (bk_world s')" and bus: "bus_typed (bk_bus s')"
    by (simp_all add: backend_typed_def sent_typed_def)
  then have "\<forall>e\<in>set (t_outbox (w_db (bk_world s'))). event_ok e"
    by (simp add: all_dbs_def outbox_typed_def list_all_iff)
  then have "\<exists>ev. unmarshalEvent (ob_EventType e) (ob_Payload e) = Some ev \<and> event_Type ev = ob_EventType e"
    if "e \<in> set (t_outbox (w_db (bk_world s')))" for e
    using that by (auto simp: event_ok_def dest!: bspec) (metis event_Type_wire unmarshal_wire)
  moreover have "\<exists>ev. data = event_json ev \<and> c \<in> set (ResolveChannels ev) \<and> psubscribed c \<and>
      bus_listen hub_listener data = (if event_Type ev \<in> set subscribedEvents then [((), ev)] else [])"
    if "(c, data) \<in> set (bus_sent (bk_bus s'))" for c data
    using bus that by (auto simp: bus_typed_def listen_event hub_listener_handlers intro: psubscribed_channel dest!: bspec)
  ultimately show ?thesis by blast
qed

text \<open>
  C14. No event reaches a client. In every state of the process, whatever was sent, published and heard
  before, the buffers of the WebSocket clients hold answers to their own pings and nothing else.
\<close>

theorem No_event_reaches_clients:
  assumes "backend_steps sv s s'" "backend_init s" "hub_heap (bk_hub s') a = Some c"
  shows "set (cl_send c) \<subseteq> {pong}"
  using pongs_only_reach [OF backend_steps_reach [OF assms(1,2)]] assms(3) by (simp add: pongs_only_def)

definition sample_markRead :: HttpRequest where
  "sample_markRead = (sample_get ''bearer t'')\<lparr>hq_method := ''POST'', hq_path := ''/v1/messages/:id/read''\<rparr>"

lemma sample_markRead_publishes:
  "\<exists>r w1 e. run_state (ServeHTTP sample_server sample_markRead) (server_world, sample_rest) = (r, (w1, sample_rest)) \<and>
     t_outbox (w_db w1) = [e]"
proof -
  have "map_of (SetupRoutes sample_server) (hq_method sample_markRead, hq_path sample_markRead) =
      Some (guarded sample_server (on_db (messageH_MarkRead sample_http sample_service)))"
    by (simp add: SetupRoutes_def wsRoute_def pingRoute_def healthRoute_def goroutinesRoute_def authRoutes_def messageRoutes_def
        group_def Let_def sample_server_def sample_markRead_def sample_get_def)
  from run_open_route [OF this] obtain w1 where w1: "w_db w1 = w_db server_world" "w_fault w1 = (\<lambda>_. None)" "w_tx w1 = None"
    and run: "\<And>r w'. run_state (messageH_MarkRead sample_http sample_service ((request_of sample_markRead (\<lambda>_. uuid_String 100))
        \<lparr>rq_ctx := Some \<lparr>rc_userID = 2, rc_sessionID = 900, rc_deviceID = Some 12\<rparr>\<rparr>)) w1 = (r, w') \<Longrightarrow>
      \<exists>r'. run_state (ServeHTTP sample_server sample_markRead) (server_world, sample_rest) = (r', (w', sample_rest)) \<and>
        rs_status r' = rs_status r"
    by (auto simp: sample_get_def sample_markRead_def)
  have "\<exists>r w' e. run_state (messageH_MarkRead sample_http sample_service ((request_of sample_markRead (\<lambda>_. uuid_String 100))
        \<lparr>rq_ctx := Some \<lparr>rc_userID = 2, rc_sessionID = 900, rc_deviceID = Some 12\<rparr>\<rparr>)) w1 = (r, w') \<and> t_outbox (w_db w') = [e]"
    using w1
    by (simp add: messageH_MarkRead_def messageID_def orBadRequest_def withUser_def request_of_def
        UserIDFromContext_def serve_def serveOr_def replyNil_def
        exec_simps msgSvc_MarkAsRead_def msgRepo_GetByID_def msgRepo_MarkAsRead_def
        set_read_def read_receipt_def msgRepo_CreateReceipt_def insert_receipt_def
        delivery_status_enum_def PublishMessageRead_def saveToOutbox_def outboxRepo_Create_def
        sample_service_def server_world_def auth_world_def sample_defs)
  then show ?thesis using run by fastforce
qed

definition sample_backend :: Backend where
  "sample_backend = \<lparr>bk_world = server_world, bk_redis = empty_redis, bk_bus = idle_bus True,
     bk_hub = NewHub None None None (\<lambda>_. 0)\<rparr>"

lemma sample_backend_init: "backend_init sample_backend"
  by (auto simp: backend_init_def sample_backend_def server_world_def auth_world_def sample_world_def
      sample_tables_def empty_tables_def idle_bus_def)

lemma Outbox_well_typed_witness:
  "\<exists>s e. backend_steps sample_server sample_backend s \<and> t_outbox (w_db (bk_world s)) = [e] \<and>
     (\<exists>ev. unmarshalEvent (ob_EventType e) (ob_Payload e) = Some ev)"
proof -
  obtain r w1 e where run: "run_state (ServeHTTP sample_server sample_markRead) (server_world, sample_rest) = (r, (w1, sample_rest))"
    and e: "t_outbox (w_db w1) = [e]" using sample_markRead_publishes by blast
  let ?s = "sample_backend\<lparr>bk_world := w1\<rparr>"
  have steps: "backend_steps sample_server sample_backend ?s"
    using backend_step.request [of sample_backend sample_server sample_markRead] run
    by (auto simp: sample_backend_def sample_rest_def NewHub_def)
  from Outbox_well_typed [OF steps sample_backend_init] e steps show ?thesis
    by (intro exI [of _ ?s] exI [of _ e]) auto
qed

definition sample_ws :: HttpRequest where
  "sample_ws = (sample_get [])\<lparr>hq_path := ''/v1/ws'', hq_query := (\<lambda>_. ''t'')\<rparr>"

lemma sample_ws_opens:
  "\<exists>r w' h' c. run_state (ServeHTTP sample_server sample_ws) (server_world, sample_rest) = (r, (w', empty_redis, h')) \<and>
     rs_status r = 101 \<and> hub_heap h' 0 = Some c"
  by (simp add: ServeHTTP_def RequestIDMiddleware_def CORSMiddleware_def RateLimitMiddleware_def dispatch_def
      SetupRoutes_def wsRoute_def sample_server_def sample_ws_def sample_get_def sample_rest_def run_withHeaders Let_def
      ws_Handle_def ws_extractToken_def authSvc_ParseAccessToken_def claims_for_def opt_uuid_String_def
      connect_def NewHub_def exec_simps AbortWithStatus_def)

lemma No_event_reaches_clients_witness:
  "\<exists>s c. backend_steps sample_server sample_backend s \<and> hub_heap (bk_hub s) 0 = Some c \<and> set (cl_send c) \<subseteq> {pong}"
proof -
  obtain r w' h' c where run: "run_state (ServeHTTP sample_server sample_ws) (server_world, sample_rest) = (r, (w', empty_redis, h'))"
    and c: "hub_heap h' 0 = Some c" using sample_ws_opens by blast
  let ?s = "sample_backend\<lparr>bk_world := w', bk_hub := h'\<rparr>"
  have steps: "backend_steps sample_server sample_backend ?s"
    using backend_step.request [of sample_backend sample_server sample_ws] run
    by (auto simp: sample_backend_def sample_rest_def NewHub_def)
  from No_event_reaches_clients [OF steps sample_backend_init, of 0 c] c steps show ?thesis
    by (intro exI [of _ ?s] exI [of _ c]) simp
qed

definition admits :: "Server \<Rightarrow> HttpRequest \<Rightarrow> time \<Rightarrow> uuid \<Rightarrow> bool" where
  "admits sv hq now u \<longleftrightarrow> (let token = ws_extractToken (hq_query hq ''token'') (hq_header hq ''Authorization'') in
     token \<noteq> [] \<and> (\<exists>claims. jwt_Parse (sv_auth_lib sv) now (asv_jwtSecret (sv_auth sv)) token = Some claims \<and>
       uuid_Parse (sv_auth_lib sv) (ac_UserID claims) = Some u))"

text \<open>
  C39. The WebSocket asks for a token and nothing else. A request for \<^verbatim>\<open>GET /v1/ws\<close> is answered 101 exactly when
  it carries an access token, in its query or its header, that the signature check accepts now and that names
  a user. Neither the database nor the session of the token have a say in it, so that the token of a session that
  was logged out still opens a socket. The hub then holds a new client of that user, which waits for its
  registration.
\<close>

theorem WebSocket_ignores_sessions:
  assumes run: "run_state (ServeHTTP sv hq) (w, rd, h) = (r, (w', rd', h'))"
    and route: "hq_method hq = ''GET''" "hq_path hq = ''/v1/ws''" "sv_match sv ''GET'' ''/v1/ws'' = Some (''/v1/ws'', params)"
    and sockets: "sv_sockets sv" "hq_handshake hq = None"
  shows "(rs_status r = 101 \<longleftrightarrow> (\<exists>u. admits sv hq (w_now w (w_step w)) u)) \<and> w_db w' = w_db w \<and>
    (\<forall>u. admits sv hq (w_now w (w_step w)) u \<longrightarrow>
      (\<exists>a c. hub_register h' = hub_register h @ [a] \<and> hub_heap h' a = Some c \<and> cl_userID c = u))"
  using run route sockets
  by (auto simp: ServeHTTP_def RequestIDMiddleware_def CORSMiddleware_def RateLimitMiddleware_def isAuthEndpoint_def
      dispatch_def SetupRoutes_def wsRoute_def run_withHeaders Let_def ws_Handle_def authSvc_ParseAccessToken_def
      connect_def NewClient_def hub_read_def hub_modify_def JSON_def AbortWithStatus_def admits_def
      split: option.splits if_splits sum.splits prod.splits)

text \<open>After a logout of session 900, the token of that session opens a socket.\<close>

lemma WebSocket_ignores_sessions_witness:
  "\<exists>w1. w_db w1 = w_db (fst (snd (run_state (ServeHTTP sample_server sample_logout) (server_world, sample_rest)))) \<and>
     rs_status (fst (run_state (ServeHTTP sample_server sample_ws) (w1, sample_rest))) = 101"
proof -
  obtain r w1 where out: "run_state (ServeHTTP sample_server sample_logout) (server_world, sample_rest) = (r, (w1, sample_rest))"
    using sample_logout_200 by blast
  obtain r2 w2 rd2 h2 where run: "run_state (ServeHTTP sample_server sample_ws)
      (w1, empty_redis, NewHub None None None (\<lambda>_. 0)) = (r2, (w2, rd2, h2))" by (metis prod.collapse)
  have setting: "hq_method sample_ws = ''GET''" "hq_path sample_ws = ''/v1/ws''"
    "sv_match sample_server ''GET'' ''/v1/ws'' = Some (''/v1/ws'', \<lambda>_. uuid_String 100)"
    "sv_sockets sample_server" "hq_handshake sample_ws = None"
    by (simp_all add: sample_server_def sample_ws_def sample_get_def)
  have "admits sample_server sample_ws (w_now w1 (w_step w1)) 2"
    by (simp add: admits_def sample_server_def sample_ws_def ws_extractToken_def claims_for_def)
  with WebSocket_ignores_sessions [OF run setting] out run show ?thesis by (auto simp: sample_rest_def)
qed

section \<open>From a read receipt to the hub\<close>

lemma unmarshal_MessageRead_tag: "unmarshalEvent ty data = Some (MessageRead e) \<Longrightarrow> ty = EventMessageRead"
  by (auto simp: unmarshalEvent_def split: if_splits)

lemma read_at_READ:
  "read_at m u now rs rs' \<Longrightarrow> \<exists>r\<in>set rs'. rcp_MessageID r = m \<and> rcp_UserID r = u \<and> rcp_Status r = ''READ''"
  by (auto simp: read_at_def Let_def filter_eq_Cons_iff)

text \<open>
  C2. A read message arrives as a read receipt. Let a user have marked a message read, in a database whose
  receipts respect their unique index, and let the worker find the event, with whatever else is pending by
  then, in a database that answers, over a started bus whose channel of the message's conversation Redis
  accepts. Then the message exists, the user has a receipt with status READ, and after as many ticks as there
  are batches of pending events, a read event of this message, this conversation and this reader has been
  published on the channel of the conversation; the listener, when it hears it, calls the hub with this event
  and no other.
\<close>

theorem Read_receipt_published:
  assumes s: "msv_db s = Pool" "msv_messageRepo s = Pool" "msv_eventPublisher s = Some p"
    and mark: "clash_free receipt_clash (t_receipts (w_db w))" "run_state (msgSvc_MarkAsRead s m u) w = (Inr x, w1)"
    and queued: "set (pending w1) \<subseteq> set (pending w2)" "outbox_ok w2" "\<And>n. w_fault w2 n = None"
    and bus: "bus_running b" "\<And>msg. msg \<in> set (t_messages (w_db w)) \<Longrightarrow> msg_ID msg = m \<Longrightarrow>
      \<not> bus_down b (conversation_channel (msg_ConversationID msg))"
    and drained: "length (pending w2) \<le> k * 100"
      "run_state (worker_run postgres_outbox bus_Publish (replicate k Tick)) (w2, b) = (y, (w3, b'))"
  shows "\<exists>msg ev news. msg \<in> set (t_messages (w_db w)) \<and> msg_ID msg = m \<and>
    (\<exists>r\<in>set (t_receipts (w_db w1)). rcp_MessageID r = m \<and> rcp_UserID r = u \<and> rcp_Status r = ''READ'') \<and>
    mre_MessageID ev = m \<and> mre_ConversationID ev = msg_ConversationID msg \<and> mre_ReaderID ev = u \<and>
    bus_sent b' = bus_sent b @ news \<and>
    (conversation_channel (msg_ConversationID msg), event_json (MessageRead ev)) \<in> set news \<and>
    bus_listen hub_listener (event_json (MessageRead ev)) = [((), MessageRead ev)]"
proof -
  from MarkAsRead_success [OF s mark] obtain msg now base rs where
    msg: "msg \<in> set (t_messages (w_db w))" "msg_ID msg = m" and read: "read_at m u now (t_receipts (w_db w)) rs"
    and added: "appends_event (MessageRead \<lparr>mre_Base = base, mre_MessageID = m,
      mre_ConversationID = msg_ConversationID msg, mre_ReaderID = u\<rparr>) ((w_db w)\<lparr>t_receipts := rs\<rparr>) (w_db w1)"
    by blast
  define ev where "ev = \<lparr>mre_Base = base\<lparr>ConvIDVal := uuid_Nil\<rparr>, mre_MessageID = m,
    mre_ConversationID = msg_ConversationID msg, mre_ReaderID = u\<rparr>"
  from added obtain r where row: "w_db w1 = (w_db w)\<lparr>t_receipts := rs, t_outbox := t_outbox (w_db w) @ [r]\<rparr>"
    and event: "pending_event (MessageRead \<lparr>mre_Base = base, mre_MessageID = m,
      mre_ConversationID = msg_ConversationID msg, mre_ReaderID = u\<rparr>) r"
    by (auto simp: appends_event_def)
  from row have r: "r \<in> set (t_outbox (w_db w1))" and receipts: "t_receipts (w_db w1) = rs" by simp_all
  from event have "is_pending r" and "ob_EventType r = event_Type (MessageRead \<lparr>mre_Base = base,
      mre_MessageID = m, mre_ConversationID = msg_ConversationID msg, mre_ReaderID = u\<rparr>)"
    and "unmarshalEvent (ob_EventType r) (ob_Payload r) = Some (wire (MessageRead \<lparr>mre_Base = base,
      mre_MessageID = m, mre_ConversationID = msg_ConversationID msg, mre_ReaderID = u\<rparr>))"
    unfolding pending_event_def by blast+
  then have decoded: "unmarshalEvent (ob_EventType r) (ob_Payload r) = Some (MessageRead ev)"
    and type: "ob_EventType r = EventTypeVal base" by (simp_all add: ev_def event_Type_def)
  have tag: "event_Type (MessageRead ev) = EventMessageRead"
    using unmarshal_MessageRead_tag [OF decoded] type by (simp add: event_Type_def ev_def)
  have "r \<in> set (pending w1)" using r \<open>is_pending r\<close> by (simp add: pending_def)
  with queued(1) have "r \<in> set (backlog w2)" by (auto simp: backlog_def order_asc_def)
  moreover have "take (k * 100) (backlog w2) = backlog w2"
    using drained(1) by (simp add: backlog_def order_asc_def)
  ultimately have "(conversation_channel (msg_ConversationID msg), event_json (MessageRead ev))
      \<in> set (concat (map (deliveries (bus_down b)) (take (k * 100) (backlog w2))))"
    using decoded bus(2) [OF msg] by (force simp: deliveries_def ev_def)
  moreover have "bus_listen hub_listener (event_json (MessageRead ev)) = [((), MessageRead ev)]"
    using listen_event [of "MessageRead ev" hub_listener] tag
    by (simp add: hub_listener_handlers subscribedEvents_def ev_def)
  moreover note worker_run_delivers [OF queued(2,3) bus(1) drained(2)] read_at_READ [OF read]
  moreover have "mre_MessageID ev = m" "mre_ConversationID ev = msg_ConversationID msg" "mre_ReaderID ev = u"
    by (simp_all add: ev_def)
  ultimately show ?thesis using msg receipts by blast
qed

lemma Read_receipt_published_witness:
  "\<exists>ev b'. mre_MessageID ev = 100 \<and> mre_ConversationID ev = 5 \<and> mre_ReaderID ev = 2 \<and>
     (conversation_channel 5, event_json (MessageRead ev)) \<in> set (bus_sent (b' :: RedisBus)) \<and>
     bus_listen hub_listener (event_json (MessageRead ev)) = [((), MessageRead ev)]"
proof -
  let ?w = "sample_world\<lparr>w_jsonb := (\<lambda>s. s \<noteq> [])\<rparr>"
  obtain w1 where mark: "run_state (msgSvc_MarkAsRead sample_service 100 2) ?w = (Inr (), w1)"
    and w1: "length (t_outbox (w_db w1)) = 1" "w_fault w1 = (\<lambda>_. None)"
    by (simp add: exec_simps msgSvc_MarkAsRead_def msgRepo_GetByID_def msgRepo_MarkAsRead_def
        set_read_def read_receipt_def msgRepo_CreateReceipt_def insert_receipt_def
        delivery_status_enum_def PublishMessageRead_def saveToOutbox_def outboxRepo_Create_def
        sample_service_def sample_defs)
  then obtain r where "t_outbox (w_db w1) = [r]" by (auto simp: length_Suc_conv)
  then have queue: "outbox_ok w1" "length (pending w1) \<le> 1 * 100" by (simp_all add: outbox_ok_def pending_def)
  have service: "msv_db sample_service = Pool" "msv_messageRepo sample_service = Pool"
    "msv_eventPublisher sample_service = Some Pool"
    by (simp_all add: sample_service_def)
  have rows: "t_messages (w_db ?w) = [sample_message]" "msg_ConversationID sample_message = 5"
    "clash_free receipt_clash (t_receipts (w_db ?w))" by (simp_all add: sample_defs)
  have bus: "bus_running (idle_bus True)" "\<And>c. \<not> bus_down (idle_bus True) c" by (simp_all add: idle_bus_def)
  obtain w3 b' where run: "run_state (worker_run postgres_outbox bus_Publish (replicate 1 Tick)) (w1, idle_bus True) = ((), (w3, b'))"
    by (metis prod.collapse old.unit.exhaust)
  have "w_fault w1 n = None" for n using w1(2) by simp
  from Read_receipt_published [OF service rows(3) mark subset_refl queue(1) this bus queue(2) run]
  obtain msg ev news where "msg \<in> set (t_messages (w_db ?w))" "mre_MessageID ev = 100"
    "mre_ConversationID ev = msg_ConversationID msg" "mre_ReaderID ev = 2"
    "(conversation_channel (msg_ConversationID msg), event_json (MessageRead ev)) \<in> set news"
    "bus_sent b' = bus_sent (idle_bus True) @ news"
    "bus_listen hub_listener (event_json (MessageRead ev)) = [((), MessageRead ev)]"
    by blast
  with rows show ?thesis by (intro exI [of _ ev] exI [of _ b']) (simp del: event_json.simps)
qed

end
